(* ===== verification/Prelude.thy ===== *)
theory Prelude
  imports Main "HOL-Library.Word" "HOL-Library.Monad_Syntax"
begin

text \<open>
  What every component of the development shares: the machine integer types of the
  C sources, the byte order of the processor and the conversions \<open>bpf_htons\<close> and
  \<open>bpf_ntohs\<close>, multi-byte loads, bounds-checked reads, and small facts on lists
  and options. The lemma collections declared here are extended by the components.
\<close>

unbundle bit_operations_syntax

named_theorems byte_order \<open>loads and byte swaps\<close>
named_theorems pkt_read \<open>checked reads of packet bytes\<close>
named_theorems go_eval \<open>unfolding of the Go-side operations\<close>

type_synonym u8 = "8 word"
type_synonym u16 = "16 word"
type_synonym u32 = "32 word"
type_synonym u64 = "64 word"

section \<open>Byte order\<close>

text \<open>
  The BPF objects are generated for both byte orders (\<open>handlers/dnspkt_bpfel.go\<close>,
  \<open>handlers/dnspkt_bpfeb.go\<close> and the two \<open>trafficmon\<close> files), so the byte order is an
  argument of every definition that loads more than one byte.
\<close>

datatype endian = LittleEndian | BigEndian

fun load16 :: "endian \<Rightarrow> u8 \<Rightarrow> u8 \<Rightarrow> u16" where
  "load16 LittleEndian a b = ucast a OR push_bit 8 (ucast b)"
| "load16 BigEndian a b = push_bit 8 (ucast a) OR ucast b"

fun load32 :: "endian \<Rightarrow> u8 \<Rightarrow> u8 \<Rightarrow> u8 \<Rightarrow> u8 \<Rightarrow> u32" where
  "load32 LittleEndian a b c d =
     ucast a OR push_bit 8 (ucast b) OR push_bit 16 (ucast c) OR push_bit 24 (ucast d)"
| "load32 BigEndian a b c d =
     push_bit 24 (ucast a) OR push_bit 16 (ucast b) OR push_bit 8 (ucast c) OR ucast d"

declare load16.simps [simp del] load32.simps [simp del]

definition bswap16 :: "u16 \<Rightarrow> u16" where
  "bswap16 x = push_bit 8 x OR drop_bit 8 x"

text \<open>\<open>bpf_htons\<close> and \<open>bpf_ntohs\<close> swap on a little-endian target and are the identity
  on a big-endian one.\<close>

fun bpf_htons :: "endian \<Rightarrow> u16 \<Rightarrow> u16" where
  "bpf_htons LittleEndian x = bswap16 x"
| "bpf_htons BigEndian x = x"

fun bpf_ntohs :: "endian \<Rightarrow> u16 \<Rightarrow> u16" where
  "bpf_ntohs LittleEndian x = bswap16 x"
| "bpf_ntohs BigEndian x = x"

lemma bswap16_bswap16 [simp]: "bswap16 (bswap16 x) = x"
  by (rule bit_word_eqI) (auto simp: bswap16_def bit_simps)

lemma bswap16_eq_iff [simp]: "bswap16 x = bswap16 y \<longleftrightarrow> x = y"
  by (metis bswap16_bswap16)

lemma bswap16_load16 [byte_order]: "bswap16 (load16 LittleEndian a b) = load16 BigEndian a b"
  by (rule bit_word_eqI) (auto simp: bswap16_def load16.simps bit_simps dest: bit_imp_le_length)

lemma bpf_ntohs_load16 [simp]: "bpf_ntohs e (load16 e a b) = load16 BigEndian a b"
  by (cases e) (simp_all add: byte_order)

lemma bpf_htons_eq_iff [simp]: "bpf_htons e x = bpf_htons e y \<longleftrightarrow> x = y"
  by (cases e) simp_all

lemma bpf_ntohs_htons [simp]: "bpf_ntohs e (bpf_htons e x) = x"
  by (cases e) simp_all

lemma load16_eq_htons: "load16 e a b = bpf_htons e x \<longleftrightarrow> load16 BigEndian a b = x"
proof -
  have "load16 e a b = bpf_htons e (load16 BigEndian a b)"
    by (cases e) (simp_all add: bswap16_load16 [symmetric])
  then show ?thesis by simp
qed

lemma u8_lt: "unat (a :: u8) < 256"
proof -
  have "unat a < 2 ^ LENGTH(8)" by (rule unsigned_less)
  then show ?thesis by simp
qed

lemma load16_BE_unat: "unat (load16 BigEndian a b) = 256 * unat a + unat b"
proof -
  have "load16 BigEndian a b = push_bit 8 (ucast a) + ucast b"
    unfolding load16.simps
    by (rule disjunctive_add [symmetric]) (auto simp: bit_simps dest: bit_imp_le_length)
  also have "\<dots> = word_of_nat (256 * unat a + unat b)"
    by (simp add: push_bit_eq_mult mult.commute)
  finally have eq: "load16 BigEndian a b = word_of_nat (256 * unat a + unat b)" .
  have "256 * unat a + unat b < 2 ^ 16"
    using u8_lt [of a] u8_lt [of b] by simp
  then show ?thesis
    unfolding eq unat_of_nat by simp
qed

lemma load32_bits:
  "a = ucast (drop_bit (case e of LittleEndian \<Rightarrow> 0 | BigEndian \<Rightarrow> 24) (load32 e a b c d))"
  "b = ucast (drop_bit (case e of LittleEndian \<Rightarrow> 8 | BigEndian \<Rightarrow> 16) (load32 e a b c d))"
  "c = ucast (drop_bit (case e of LittleEndian \<Rightarrow> 16 | BigEndian \<Rightarrow> 8) (load32 e a b c d))"
  "d = ucast (drop_bit (case e of LittleEndian \<Rightarrow> 24 | BigEndian \<Rightarrow> 0) (load32 e a b c d))"
  by (cases e; rule bit_word_eqI; auto simp: load32.simps bit_simps dest: bit_imp_le_length)+

lemma load32_inject [simp]:
  "load32 e a b c d = load32 e a' b' c' d' \<longleftrightarrow> a = a' \<and> b = b' \<and> c = c' \<and> d = d'"
  by (metis load32_bits)

section \<open>Checked reads\<close>

text \<open>
  A read of packet memory is an option: \<open>None\<close> is an access outside the packet, which the
  kernel's verifier must have excluded. Reads of two and four bytes are built from it.
\<close>

definition rd8 :: "'a list \<Rightarrow> nat \<Rightarrow> 'a option" where
  "rd8 xs i = (if i < length xs then Some (xs ! i) else None)"

definition rd16 :: "endian \<Rightarrow> u8 list \<Rightarrow> nat \<Rightarrow> u16 option" where
  "rd16 e xs i = do {a \<leftarrow> rd8 xs i; b \<leftarrow> rd8 xs (i + 1); Some (load16 e a b)}"

definition rd32 :: "endian \<Rightarrow> u8 list \<Rightarrow> nat \<Rightarrow> u32 option" where
  "rd32 e xs i = do {
     a \<leftarrow> rd8 xs i; b \<leftarrow> rd8 xs (i + 1); c \<leftarrow> rd8 xs (i + 2); d \<leftarrow> rd8 xs (i + 3);
     Some (load32 e a b c d)}"

lemma rd8_in [pkt_read]: "i < length xs \<Longrightarrow> rd8 xs i = Some (xs ! i)"
  by (simp add: rd8_def)

lemma rd16_in [pkt_read]:
  "i + 1 < length xs \<Longrightarrow> rd16 e xs i = Some (load16 e (xs ! i) (xs ! (i + 1)))"
  by (simp add: rd16_def rd8_def)

lemma rd32_in [pkt_read]:
  "i + 3 < length xs \<Longrightarrow>
   rd32 e xs i = Some (load32 e (xs ! i) (xs ! (i + 1)) (xs ! (i + 2)) (xs ! (i + 3)))"
  by (simp add: rd32_def rd8_def)

section \<open>Lists\<close>

lemma filter_distinct_single:
  assumes "distinct (map f xs)" and "x \<in> set xs"
  shows "filter (\<lambda>y. f y = f x) xs = [x]"
  using assms by (induction xs) (auto simp: filter_empty_conv image_iff)

lemma map_of_SomeI: "distinct (map fst xs) \<Longrightarrow> (k, v) \<in> set xs \<Longrightarrow> map_of xs k = Some v"
  by simp

end
