(* ===== verification/Packet.thy ===== *)
theory Packet
  imports Prelude
begin

text \<open>
  What the tc programs see of a packet: the fields of \<open>struct __sk_buff\<close> they use, the bytes
  between \<open>data\<close> and \<open>data_end\<close>, the verdicts they return, and the offsets of the Ethernet,
  IPv4 and UDP header fields they load. The offsets are those of the C structs; the theory
  \<open>HeaderLayout\<close> derives them from the declarations in \<open>ebpf/vmlinux.h\<close>.
\<close>

datatype tc_action = TC_ACT_UNSPEC | TC_ACT_OK

record skb =
  skb_len :: u32
  skb_protocol :: u32
  skb_tc_classid :: u32
  skb_data :: "u8 list"

definition ETH_P_IP :: u16 where
  "ETH_P_IP = 0x0800"

definition ETH_HLEN :: nat where
  "ETH_HLEN = 14"

definition sizeof_iphdr :: nat where
  "sizeof_iphdr = 20"

definition sizeof_udphdr :: nat where
  "sizeof_udphdr = 8"

text \<open>Offsets from the start of the frame.\<close>

definition off_h_proto :: nat where "off_h_proto = 12"
definition off_tot_len :: nat where "off_tot_len = ETH_HLEN + 2"
definition off_protocol :: nat where "off_protocol = ETH_HLEN + 9"
definition off_saddr :: nat where "off_saddr = ETH_HLEN + 12"
definition off_daddr :: nat where "off_daddr = ETH_HLEN + 16"
definition off_udp_source :: nat where "off_udp_source = ETH_HLEN + sizeof_iphdr"
definition off_udp_dest :: nat where "off_udp_dest = ETH_HLEN + sizeof_iphdr + 2"

lemmas frame_offsets = ETH_HLEN_def sizeof_iphdr_def sizeof_udphdr_def off_h_proto_def
  off_tot_len_def off_protocol_def off_saddr_def off_daddr_def off_udp_source_def off_udp_dest_def

text \<open>The packet is announced as IPv4 and holds the fixed part of the IPv4 header.\<close>

definition is_ipv4_frame :: "endian \<Rightarrow> skb \<Rightarrow> bool" where
  "is_ipv4_frame e skb \<longleftrightarrow>
     skb_protocol skb = ucast (bpf_htons e ETH_P_IP) \<and>
     ETH_HLEN + sizeof_iphdr \<le> length (skb_data skb)"

text \<open>The IPv4 addresses and the total length, byte by byte as they are on the wire.\<close>

definition src_bytes :: "skb \<Rightarrow> u8 list" where
  "src_bytes skb = take 4 (drop off_saddr (skb_data skb))"

definition dst_bytes :: "skb \<Rightarrow> u8 list" where
  "dst_bytes skb = take 4 (drop off_daddr (skb_data skb))"

definition wire_tot_len :: "skb \<Rightarrow> u16" where
  "wire_tot_len skb = load16 BigEndian (skb_data skb ! off_tot_len) (skb_data skb ! (off_tot_len + 1))"

text \<open>The word the processor loads from four bytes on the wire.\<close>

fun ip_word :: "endian \<Rightarrow> u8 list \<Rightarrow> u32" where
  "ip_word e [a, b, c, d] = load32 e a b c d"
| "ip_word e _ = 0"

lemma take_drop_4:
  "i + 3 < length xs \<Longrightarrow> take 4 (drop i xs) = [xs ! i, xs ! (i + 1), xs ! (i + 2), xs ! (i + 3)]"
  by (simp add: numeral_eq_Suc take_Suc_conv_app_nth)

lemma rd32_ip_word:
  "i + 3 < length xs \<Longrightarrow> rd32 e xs i = Some (ip_word e (take 4 (drop i xs)))"
  by (simp add: rd32_in take_drop_4)

lemma ip_word_inject:
  "length xs = 4 \<Longrightarrow> length ys = 4 \<Longrightarrow> ip_word e xs = ip_word e ys \<longleftrightarrow> xs = ys"
  by (auto simp: numeral_eq_Suc length_Suc_conv)

lemma length_src_bytes: "is_ipv4_frame e skb \<Longrightarrow> length (src_bytes skb) = 4"
  by (auto simp: is_ipv4_frame_def src_bytes_def frame_offsets)

lemma length_dst_bytes: "is_ipv4_frame e skb \<Longrightarrow> length (dst_bytes skb) = 4"
  by (auto simp: is_ipv4_frame_def dst_bytes_def frame_offsets)

lemma rd_saddr [pkt_read]:
  "is_ipv4_frame e skb \<Longrightarrow> rd32 e (skb_data skb) off_saddr = Some (ip_word e (src_bytes skb))"
  by (simp add: is_ipv4_frame_def src_bytes_def rd32_ip_word frame_offsets)

lemma rd_daddr [pkt_read]:
  "is_ipv4_frame e skb \<Longrightarrow> rd32 e (skb_data skb) off_daddr = Some (ip_word e (dst_bytes skb))"
  by (simp add: is_ipv4_frame_def dst_bytes_def rd32_ip_word frame_offsets)

lemma rd_tot_len [pkt_read]:
  "is_ipv4_frame e skb \<Longrightarrow>
   rd16 e (skb_data skb) off_tot_len =
   Some (load16 e (skb_data skb ! off_tot_len) (skb_data skb ! (off_tot_len + 1)))"
  by (simp add: is_ipv4_frame_def rd16_in frame_offsets)

section \<open>Building frames\<close>

text \<open>An IPv4 frame with given addresses, protocol, total length and payload, for examples.\<close>

definition mk_frame :: "endian \<Rightarrow> u8 list \<Rightarrow> u8 list \<Rightarrow> u8 \<Rightarrow> u8 list \<Rightarrow> u8 list \<Rightarrow> skb" where
  "mk_frame e src dst proto len payload =
     (let d = replicate 12 0 @ [8, 0] @ [0x45, 0] @ len @ replicate 5 0 @ [proto] @ replicate 2 0 @
              src @ dst @ payload
      in \<lparr>skb_len = word_of_nat (length d), skb_protocol = ucast (bpf_htons e ETH_P_IP),
          skb_tc_classid = 0, skb_data = d\<rparr>)"

lemma mk_frame_parts:
  assumes "length src = 4" and "length dst = 4" and "length len = 2"
  shows "is_ipv4_frame e (mk_frame e src dst proto len payload)"
    and "src_bytes (mk_frame e src dst proto len payload) = src"
    and "dst_bytes (mk_frame e src dst proto len payload) = dst"
    and "wire_tot_len (mk_frame e src dst proto len payload) = load16 BigEndian (len ! 0) (len ! 1)"
  using assms
  by (auto simp: mk_frame_def is_ipv4_frame_def src_bytes_def dst_bytes_def wire_tot_len_def
      frame_offsets Let_def numeral_eq_Suc length_Suc_conv nth_append)

end
