(* ===== verification/BpfMaps.thy ===== *)
theory BpfMaps
  imports Prelude "HOL-Library.AList"
begin

text \<open>
  The interface of the kernel's BPF maps, as far as the three programs use it. The kernel is not
  part of the repository: the programs take \<open>lookup\<close> and \<open>update\<close> as arguments, and the
  locales state the documented behaviour of \<open>bpf_map_lookup_elem\<close> and of
  \<open>bpf_map_update_elem\<close> with \<open>BPF_ANY\<close>. A hash map accepts a new key only below its
  \<open>max_entries\<close>; an array map has all its entries from the start and never another one.
  Reference maps of the two kinds show that the laws can be met, and instantiate the programs
  in executable examples.
\<close>

section \<open>The interface\<close>

locale bpf_map =
  fixes lookup :: "'m \<Rightarrow> 'k \<Rightarrow> 'v option"
    and update :: "'m \<Rightarrow> 'k \<Rightarrow> 'v \<Rightarrow> 'm"
    and ok :: "'m \<Rightarrow> bool"
  assumes ok_update: "ok m \<Longrightarrow> ok (update m k v)"
    and update_present:
      "ok m \<Longrightarrow> lookup m k \<noteq> None \<Longrightarrow> lookup (update m k v) = (lookup m)(k \<mapsto> v)"

locale bpf_hash = bpf_map lookup update ok
  for lookup :: "'m \<Rightarrow> 'k \<Rightarrow> 'v option" and update ok +
  fixes max_entries :: nat
  assumes finite_keys: "ok m \<Longrightarrow> finite (dom (lookup m))"
    and update_room:
      "ok m \<Longrightarrow> lookup m k = None \<Longrightarrow> card (dom (lookup m)) < max_entries \<Longrightarrow>
       lookup (update m k v) = (lookup m)(k \<mapsto> v)"
    and update_full:
      "ok m \<Longrightarrow> lookup m k = None \<Longrightarrow> max_entries \<le> card (dom (lookup m)) \<Longrightarrow>
       lookup (update m k v) = lookup m"

context bpf_hash
begin

lemma lookup_update_cases:
  assumes "ok m" and "lookup (update m k v) k' = Some w"
  shows "lookup m k' = Some w \<or> k' = k \<and> w = v"
proof -
  consider "lookup m k \<noteq> None" | "lookup m k = None" "card (dom (lookup m)) < max_entries"
    | "lookup m k = None" "max_entries \<le> card (dom (lookup m))"
    by linarith
  then show ?thesis
    using assms(2) update_present [OF assms(1), of k v] update_room [OF assms(1), of k v]
      update_full [OF assms(1), of k v]
    by cases (auto split: if_splits)
qed

end

text \<open>With \<open>bpf_map_delete_elem\<close>.\<close>

locale bpf_deletable = bpf_hash lookup update ok max_entries
  for lookup :: "'m \<Rightarrow> 'k \<Rightarrow> 'v option" and update ok max_entries +
  fixes delete :: "'m \<Rightarrow> 'k \<Rightarrow> 'm"
  assumes ok_delete: "ok m \<Longrightarrow> ok (delete m k)"
    and lookup_delete: "ok m \<Longrightarrow> lookup (delete m k) = (lookup m)(k := None)"

locale bpf_array = bpf_map lookup update ok
  for lookup :: "'m \<Rightarrow> u32 \<Rightarrow> 'v option" and update ok +
  fixes max_entries :: nat
  assumes present: "ok m \<Longrightarrow> lookup m i \<noteq> None \<longleftrightarrow> unat i < max_entries"
    and update_outside:
      "ok m \<Longrightarrow> \<not> unat i < max_entries \<Longrightarrow> lookup (update m i v) = lookup m"

section \<open>Admission of keys into a bounded map\<close>

text \<open>
  Which keys a hash map of capacity \<open>cap\<close> holds after a sequence of updates: the first
  \<open>cap\<close> different ones, in order of arrival.
\<close>

definition admit1 :: "nat \<Rightarrow> 'k list \<Rightarrow> 'k \<Rightarrow> 'k list" where
  "admit1 cap adm k = (if k \<in> set adm \<or> cap \<le> length adm then adm else adm @ [k])"

definition admit :: "nat \<Rightarrow> 'k list \<Rightarrow> 'k list" where
  "admit cap ks = foldl (admit1 cap) [] ks"

lemma admit_Nil [simp]: "admit cap [] = []"
  by (simp add: admit_def)

lemma admit_snoc: "admit cap (ks @ [k]) = admit1 cap (admit cap ks) k"
  by (simp add: admit_def)

lemma distinct_admit: "distinct (admit cap ks)"
  by (induction ks rule: rev_induct) (auto simp: admit_snoc admit1_def)

lemma length_admit: "length (admit cap ks) \<le> cap"
  by (induction ks rule: rev_induct) (auto simp: admit_snoc admit1_def)

lemma set_admit: "set (admit cap ks) \<subseteq> set ks"
  by (induction ks rule: rev_induct) (auto simp: admit_snoc admit1_def)

lemma admit_not_full: "length (admit cap ks) < cap \<Longrightarrow> set (admit cap ks) = set ks"
  by (induction ks rule: rev_induct) (auto simp: admit_snoc admit1_def split: if_splits)

lemma admit_few:
  assumes "card (set ks) \<le> cap"
  shows "set (admit cap ks) = set ks"
proof (cases "length (admit cap ks) < cap")
  case True
  then show ?thesis by (rule admit_not_full)
next
  case False
  then have "card (set (admit cap ks)) = cap"
    using distinct_admit [of cap ks] length_admit [of cap ks] by (simp add: distinct_card)
  with assms have "card (set ks) \<le> card (set (admit cap ks))" by simp
  then show ?thesis by (intro card_seteq set_admit) simp_all
qed

section \<open>Accumulating into a hash map\<close>

text \<open>The lookup-then-update with which a program adds to a counter.\<close>

definition bump ::
  "('m \<Rightarrow> 'k \<Rightarrow> 'v::monoid_add option) \<Rightarrow> ('m \<Rightarrow> 'k \<Rightarrow> 'v \<Rightarrow> 'm) \<Rightarrow> 'k \<Rightarrow> 'v \<Rightarrow> 'm \<Rightarrow> 'm" where
  "bump lookup update k n m =
     update m k (case lookup m k of None \<Rightarrow> n | Some p \<Rightarrow> p + n)"

definition bump_all ::
  "('m \<Rightarrow> 'k \<Rightarrow> 'v::monoid_add option) \<Rightarrow> ('m \<Rightarrow> 'k \<Rightarrow> 'v \<Rightarrow> 'm) \<Rightarrow> ('k \<times> 'v) list \<Rightarrow> 'm \<Rightarrow> 'm" where
  "bump_all lookup update evs m = foldl (\<lambda>m (k, n). bump lookup update k n m) m evs"

text \<open>What a counter should hold: the sum of the amounts of its key.\<close>

definition total_of :: "('k \<times> 'v::monoid_add) list \<Rightarrow> 'k \<Rightarrow> 'v" where
  "total_of evs k = sum_list (map snd (filter (\<lambda>ev. fst ev = k) evs))"

lemma total_of_snoc: "total_of (evs @ [(k', n)]) k = total_of evs k + (if k' = k then n else 0)"
  by (simp add: total_of_def)

lemma total_of_absent: "k \<notin> fst ` set evs \<Longrightarrow> total_of evs k = 0"
  by (induction evs) (auto simp: total_of_def)

text \<open>A hash map whose values are counters.\<close>

locale bpf_counter = bpf_hash lookup update ok max_entries
  for lookup :: "'m \<Rightarrow> 'k \<Rightarrow> 'v::monoid_add option" and update ok max_entries
begin

lemma ok_bump: "ok m \<Longrightarrow> ok (bump lookup update k n m)"
  by (simp add: bump_def ok_update)

lemma ok_bump_all: "ok m \<Longrightarrow> ok (bump_all lookup update evs m)"
  by (induction evs rule: rev_induct) (auto simp: bump_all_def ok_bump)

lemma bump_present:
  "ok m \<Longrightarrow> lookup m k = Some p \<Longrightarrow> lookup (bump lookup update k n m) = (lookup m)(k \<mapsto> p + n)"
  by (simp add: bump_def update_present)

lemma bump_room:
  "ok m \<Longrightarrow> lookup m k = None \<Longrightarrow> card (dom (lookup m)) < max_entries \<Longrightarrow>
   lookup (bump lookup update k n m) = (lookup m)(k \<mapsto> n)"
  by (simp add: bump_def update_room)

lemma bump_full:
  "ok m \<Longrightarrow> lookup m k = None \<Longrightarrow> max_entries \<le> card (dom (lookup m)) \<Longrightarrow>
   lookup (bump lookup update k n m) = lookup m"
  by (simp add: bump_def update_full)

text \<open>
  From an empty map, a run of lookup-then-update steps holds exactly the admitted keys, each
  with the sum of all the amounts its events carried.
\<close>

lemma lookup_bump_all:
  assumes "ok m" and "lookup m = (\<lambda>_. None)"
  shows "lookup (bump_all lookup update evs m) =
         (\<lambda>k. if k \<in> set (admit max_entries (map fst evs)) then Some (total_of evs k) else None)"
proof (induction evs rule: rev_induct)
  case Nil
  then show ?case by (simp add: bump_all_def assms)
next
  case (snoc ev evs)
  obtain k n where ev: "ev = (k, n)" by (cases ev)
  let ?m = "bump_all lookup update evs m" and ?A = "admit max_entries (map fst evs)"
  have okm: "ok ?m" by (rule ok_bump_all) (rule assms(1))
  have step: "bump_all lookup update (evs @ [(k, n)]) m = bump lookup update k n ?m"
    by (simp add: bump_all_def)
  have dom: "dom (lookup ?m) = set ?A" by (auto simp: snoc.IH split: if_splits)
  then have card: "card (dom (lookup ?m)) = length ?A"
    by (simp add: distinct_card distinct_admit)
  have none: "lookup ?m k = None" if "k \<notin> set ?A" using that by (simp add: snoc.IH)
  consider (old) "k \<in> set ?A" | (room) "k \<notin> set ?A" "length ?A < max_entries"
    | (full) "k \<notin> set ?A" "max_entries \<le> length ?A"
    by linarith
  then show ?case
  proof cases
    case old
    then have "lookup ?m k = Some (total_of evs k)" by (simp add: snoc.IH)
    then have "lookup (bump lookup update k n ?m) = (lookup ?m)(k \<mapsto> total_of evs k + n)"
      by (rule bump_present [OF okm])
    with old show ?thesis
      by (auto simp: step ev admit_snoc admit1_def total_of_snoc snoc.IH)
  next
    case room
    then have "k \<notin> fst ` set evs"
      using admit_not_full [of max_entries "map fst evs"] by simp
    moreover have "lookup (bump lookup update k n ?m) = (lookup ?m)(k \<mapsto> n)"
      by (rule bump_room [OF okm]) (use room in \<open>simp_all add: none card\<close>)
    ultimately show ?thesis using room
      by (auto simp: step ev admit_snoc admit1_def total_of_snoc total_of_absent snoc.IH)
  next
    case full
    have "lookup (bump lookup update k n ?m) = lookup ?m"
      by (rule bump_full [OF okm]) (use full in \<open>simp_all add: none card\<close>)
    with full show ?thesis
      by (auto simp: step ev admit_snoc admit1_def total_of_snoc snoc.IH)
  qed
qed

end

section \<open>Reference maps\<close>

text \<open>A hash map of capacity \<open>cap\<close> as an association list in order of insertion.\<close>

definition hash_ok :: "nat \<Rightarrow> ('k \<times> 'v) list \<Rightarrow> bool" where
  "hash_ok cap m \<longleftrightarrow> distinct (map fst m) \<and> length m \<le> cap"

definition hash_update :: "nat \<Rightarrow> ('k \<times> 'v) list \<Rightarrow> 'k \<Rightarrow> 'v \<Rightarrow> ('k \<times> 'v) list" where
  "hash_update cap m k v =
     (if map_of m k \<noteq> None then AList.update k v m
      else if length m < cap then m @ [(k, v)] else m)"

lemma length_AList_update: "map_of m k \<noteq> None \<Longrightarrow> length (AList.update k v m) = length m"
  by (induction m) auto

lemma hash_ok_update: "hash_ok cap m \<Longrightarrow> hash_ok cap (hash_update cap m k v)"
  by (auto simp: hash_ok_def hash_update_def length_AList_update distinct_update map_of_eq_None_iff)

lemma hash_dom_card: "hash_ok cap m \<Longrightarrow> card (dom (map_of m)) = length m"
  by (simp add: hash_ok_def dom_map_of_conv_image_fst distinct_card flip: set_map)

lemma hash_is_bpf_hash: "bpf_hash map_of (hash_update cap) (hash_ok cap) cap"
proof (unfold_locales, goal_cases)
  case (1 m k v)
  then show ?case by (rule hash_ok_update)
next
  case (2 m k v)
  then show ?case by (simp add: hash_update_def update_conv')
next
  case (3 m)
  then show ?case by (simp add: finite_dom_map_of)
next
  case (4 m k v)
  then show ?case
    by (auto simp: hash_update_def hash_dom_card map_add_def fun_eq_iff split: option.splits)
next
  case (5 m k v)
  then show ?case by (simp add: hash_update_def hash_dom_card)
qed

interpretation ref_hash: bpf_counter map_of "hash_update cap" "hash_ok cap" cap
  for cap
  by (rule bpf_counter.intro) (rule hash_is_bpf_hash)

lemma hash_is_bpf_deletable: "bpf_deletable map_of (hash_update cap) (hash_ok cap) cap (\<lambda>m k. AList.delete k m)"
proof (intro bpf_deletable.intro bpf_deletable_axioms.intro, rule hash_is_bpf_hash)
  fix m :: "('k \<times> 'v) list" and k
  assume "hash_ok cap m"
  then show "hash_ok cap (AList.delete k m)"
    using length_delete_le [of k m] by (auto simp: hash_ok_def intro: distinct_delete)
  show "map_of (AList.delete k m) = (map_of m)(k := None)" by (rule delete_conv')
qed

interpretation ref_deletable: bpf_deletable map_of "hash_update cap" "hash_ok cap" cap "\<lambda>m k. AList.delete k m"
  for cap
  by (rule hash_is_bpf_deletable)

text \<open>An array map with the entries \<open>0 .. n - 1\<close>.\<close>

definition array_ok :: "nat \<Rightarrow> 'v list \<Rightarrow> bool" where
  "array_ok n m \<longleftrightarrow> length m = n"

definition array_lookup :: "'v list \<Rightarrow> u32 \<Rightarrow> 'v option" where
  "array_lookup m i = (if unat i < length m then Some (m ! unat i) else None)"

definition array_update :: "'v list \<Rightarrow> u32 \<Rightarrow> 'v \<Rightarrow> 'v list" where
  "array_update m i v = (if unat i < length m then m[unat i := v] else m)"

lemma array_is_bpf_array: "bpf_array array_lookup array_update (array_ok n) n"
  by unfold_locales
    (auto simp: array_ok_def array_lookup_def array_update_def fun_eq_iff nth_list_update
        word_unat_eq_iff
      split: if_splits)

interpretation ref_array: bpf_array array_lookup array_update "array_ok n" n
  for n
  by (rule array_is_bpf_array)

end
