(* ===== verification/TrafficMon.thy ===== *)
theory TrafficMon
  imports Packet BpfMaps
begin

text \<open>
  The traffic monitor \<open>ebpf/trafficmon.bpf.c\<close>: a tc program on the LAN interface that adds the
  IPv4 total length of every packet to a counter of its (source, destination) pair.
\<close>

section \<open>The program\<close>

text \<open>\<open>src_dest_bytes\<close>: a hash map from 64-bit keys to 64-bit counters.\<close>

definition src_dest_max_entries :: nat where
  "src_dest_max_entries = 25000"

definition pair_key :: "u32 \<Rightarrow> u32 \<Rightarrow> u64" where
  "pair_key saddr daddr = push_bit 32 (ucast saddr) OR ucast daddr"

definition traffic_mon ::
  "endian \<Rightarrow> ('m \<Rightarrow> u64 \<Rightarrow> u64 option) \<Rightarrow> ('m \<Rightarrow> u64 \<Rightarrow> u64 \<Rightarrow> 'm) \<Rightarrow> skb \<Rightarrow> 'm \<Rightarrow>
   (tc_action \<times> 'm) option" where
  "traffic_mon e lookup update skb m =
     (if skb_protocol skb \<noteq> ucast (bpf_htons e ETH_P_IP) then Some (TC_ACT_OK, m)
      else if length (skb_data skb) < ETH_HLEN then Some (TC_ACT_OK, m)
      else if length (skb_data skb) < ETH_HLEN + sizeof_iphdr then Some (TC_ACT_OK, m)
      else do {
        saddr \<leftarrow> rd32 e (skb_data skb) off_saddr;
        daddr \<leftarrow> rd32 e (skb_data skb) off_daddr;
        let key = pair_key saddr daddr;
        tot_len \<leftarrow> rd16 e (skb_data skb) off_tot_len;
        let val = ucast (bpf_ntohs e tot_len);
        let val = (case lookup m key of None \<Rightarrow> val | Some p \<Rightarrow> p + ucast (bpf_ntohs e tot_len));
        Some (TC_ACT_OK, update m key val)
      })"

text \<open>Packets one after another; \<open>None\<close> if one of them makes the program read out of bounds.\<close>

fun traffic_run ::
  "endian \<Rightarrow> ('m \<Rightarrow> u64 \<Rightarrow> u64 option) \<Rightarrow> ('m \<Rightarrow> u64 \<Rightarrow> u64 \<Rightarrow> 'm) \<Rightarrow> skb list \<Rightarrow> 'm \<Rightarrow> 'm option" where
  "traffic_run e lookup update [] m = Some m"
| "traffic_run e lookup update (p # ps) m =
     Option.bind (traffic_mon e lookup update p m) (\<lambda>(_, m'). traffic_run e lookup update ps m')"

section \<open>What one packet does\<close>

text \<open>The key and the amount a packet is accounted under, and the events of a packet sequence.\<close>

definition frame_key :: "endian \<Rightarrow> skb \<Rightarrow> u64" where
  "frame_key e skb = pair_key (ip_word e (src_bytes skb)) (ip_word e (dst_bytes skb))"

definition frame_bytes :: "skb \<Rightarrow> u64" where
  "frame_bytes skb = ucast (wire_tot_len skb)"

definition traffic_events :: "endian \<Rightarrow> skb list \<Rightarrow> (u64 \<times> u64) list" where
  "traffic_events e ps =
     map (\<lambda>p. (frame_key e p, frame_bytes p)) (filter (is_ipv4_frame e) ps)"

lemma traffic_mon_eq:
  "traffic_mon e lookup update skb m =
   Some (TC_ACT_OK,
     if is_ipv4_frame e skb then bump lookup update (frame_key e skb) (frame_bytes skb) m else m)"
proof (cases "is_ipv4_frame e skb")
  case True
  then have "skb_protocol skb = ucast (bpf_htons e ETH_P_IP)"
    and "\<not> length (skb_data skb) < ETH_HLEN" and "\<not> length (skb_data skb) < ETH_HLEN + sizeof_iphdr"
    by (auto simp: is_ipv4_frame_def)
  with True show ?thesis
    by (simp add: traffic_mon_def pkt_read bump_def frame_key_def frame_bytes_def wire_tot_len_def
        Let_def split: option.split)
next
  case False
  then show ?thesis
    by (auto simp: traffic_mon_def is_ipv4_frame_def)
qed

lemma traffic_run_eq:
  "traffic_run e lookup update ps m = Some (bump_all lookup update (traffic_events e ps) m)"
  by (induction ps arbitrary: m) (simp_all add: traffic_mon_eq traffic_events_def bump_all_def)

lemma pair_key_parts:
  "ucast (drop_bit 32 (pair_key s d)) = s" "ucast (pair_key s d) = d"
  by (rule bit_word_eqI; auto simp: pair_key_def bit_simps dest: bit_imp_le_length)+

lemma pair_key_inject: "pair_key s d = pair_key s' d' \<longleftrightarrow> s = s' \<and> d = d'"
  by (metis pair_key_parts)

section \<open>Accounting\<close>

text \<open>C6: After any packet sequence, starting from an empty map, the monitor has returned for every
  packet and read none out of bounds, and the map holds exactly the first 25000 different
  address pairs seen, each with the sum (modulo \<open>2 ^ 64\<close>) of the IPv4 total lengths of all its
  packets. Pairs that arrive when the map is full are never counted.\<close>

theorem traffic_accounting:
  assumes "bpf_hash lookup update ok src_dest_max_entries" and "ok m"
    and "lookup m = (\<lambda>_. None)"
  shows "\<exists>m'. traffic_run e lookup update ps m = Some m' \<and>
    (\<forall>k. lookup m' k =
      (if k \<in> set (admit src_dest_max_entries (map fst (traffic_events e ps)))
       then Some (total_of (traffic_events e ps) k) else None))"
  using bpf_counter.lookup_bump_all [OF bpf_counter.intro [OF assms(1)] assms(2,3)]
  by (simp add: traffic_run_eq)

definition demo_frames :: "skb list" where
  "demo_frames =
     [mk_frame LittleEndian [142, 251, 33, 174] [192, 168, 0, 14] 6 [0, 60] [],
      mk_frame LittleEndian [10, 0, 0, 1] [192, 168, 0, 14] 6 [1, 0] [],
      mk_frame LittleEndian [142, 251, 33, 174] [192, 168, 0, 14] 6 [5, 220] []]"

lemma demo_events:
  "traffic_events LittleEndian demo_frames =
     [(pair_key 0xAE21FB8E 0x0E00A8C0, 60), (pair_key 0x0100000A 0x0E00A8C0, 256),
      (pair_key 0xAE21FB8E 0x0E00A8C0, 1500)]"
  by (simp add: demo_frames_def traffic_events_def mk_frame_parts frame_key_def frame_bytes_def
      load32.simps load16.simps)

lemma demo_keys_differ: "pair_key 0xAE21FB8E d \<noteq> pair_key 0x0100000A d"
  by (simp add: pair_key_inject)

theorem traffic_accounting_witness:
  "\<exists>m'. traffic_run LittleEndian map_of (hash_update src_dest_max_entries) demo_frames [] = Some m' \<and>
     map_of m' (pair_key 0xAE21FB8E 0x0E00A8C0) = Some 1560 \<and>
     map_of m' (pair_key 0x0100000A 0x0E00A8C0) = Some 256"
proof -
  have "hash_ok src_dest_max_entries []" by (simp add: hash_ok_def)
  from traffic_accounting [OF hash_is_bpf_hash this, of LittleEndian demo_frames]
  obtain m' where m': "traffic_run LittleEndian map_of (hash_update src_dest_max_entries) demo_frames []
      = Some m'"
    and at: "\<forall>k. map_of m' k =
      (if k \<in> set (admit src_dest_max_entries (map fst (traffic_events LittleEndian demo_frames)))
       then Some (total_of (traffic_events LittleEndian demo_frames) k) else None)"
    by auto
  have "set (admit src_dest_max_entries (map fst (traffic_events LittleEndian demo_frames))) =
        set (map fst (traffic_events LittleEndian demo_frames))"
    by (rule admit_few) (simp add: demo_events src_dest_max_entries_def card_insert_if)
  then show ?thesis
    using m' at demo_keys_differ demo_keys_differ [symmetric]
    by (simp add: demo_events total_of_def)
qed

text \<open>The sum of the total lengths of the packets of one pair, as a natural number.\<close>

definition wire_sum :: "endian \<Rightarrow> skb list \<Rightarrow> u64 \<Rightarrow> nat" where
  "wire_sum e ps k =
     sum_list (map (\<lambda>p. unat (wire_tot_len p)) (filter (\<lambda>p. is_ipv4_frame e p \<and> frame_key e p = k) ps))"

lemma total_of_wire_sum: "total_of (traffic_events e ps) k = word_of_nat (wire_sum e ps k)"
  by (induction ps) (auto simp: total_of_def traffic_events_def wire_sum_def frame_bytes_def)

lemma set_traffic_keys:
  "set (map fst (traffic_events e ps)) = frame_key e ` {p \<in> set ps. is_ipv4_frame e p}"
  by (auto simp: traffic_events_def)

lemma traffic_run_counter:
  assumes "bpf_hash lookup update ok src_dest_max_entries" and "ok m" and "lookup m = (\<lambda>_. None)"
    and few: "card (frame_key e ` {p \<in> set ps. is_ipv4_frame e p}) \<le> src_dest_max_entries"
    and p: "p \<in> set ps" "is_ipv4_frame e p"
  shows "\<exists>m'. traffic_run e lookup update ps m = Some m' \<and>
    lookup m' (frame_key e p) = Some (word_of_nat (wire_sum e ps (frame_key e p)))"
proof -
  have "frame_key e p \<in> set (map fst (traffic_events e ps))"
    unfolding set_traffic_keys using p by blast
  moreover have "set (admit src_dest_max_entries (map fst (traffic_events e ps))) =
    set (map fst (traffic_events e ps))"
    by (rule admit_few) (use few in \<open>simp only: set_traffic_keys\<close>)
  ultimately show ?thesis
    using bpf_counter.lookup_bump_all [OF bpf_counter.intro [OF assms(1)] assms(2,3)]
    by (simp add: traffic_run_eq total_of_wire_sum)
qed

text \<open>With at most 25000 address pairs and fewer than \<open>2 ^ 64\<close> bytes in total for a pair, the
  counter of every pair that sent a packet is the exact number of bytes its IPv4 headers announce.\<close>

theorem traffic_exact:
  assumes "bpf_hash lookup update ok src_dest_max_entries" and "ok m" and "lookup m = (\<lambda>_. None)"
    and few: "card (frame_key e ` {p \<in> set ps. is_ipv4_frame e p}) \<le> src_dest_max_entries"
    and small: "wire_sum e ps (frame_key e p) < 2 ^ 64"
    and p: "p \<in> set ps" "is_ipv4_frame e p"
  shows "\<exists>m' v. traffic_run e lookup update ps m = Some m' \<and>
    lookup m' (frame_key e p) = Some v \<and> unat v = wire_sum e ps (frame_key e p)"
  using traffic_run_counter [OF assms(1-4) p] small by (auto simp: unat_of_nat)

lemma demo_sum: "wire_sum LittleEndian demo_frames (frame_key LittleEndian (demo_frames ! 0)) = 1560"
  by (simp add: wire_sum_def demo_frames_def frame_key_def mk_frame_parts load32.simps load16.simps
      pair_key_inject)

lemma demo_few:
  "card (frame_key LittleEndian ` {p \<in> set demo_frames. is_ipv4_frame LittleEndian p}) \<le> src_dest_max_entries"
proof -
  have "card (frame_key LittleEndian ` {p \<in> set demo_frames. is_ipv4_frame LittleEndian p})
      \<le> card (set demo_frames)"
    by (intro card_image_le [THEN order_trans] card_mono) simp_all
  also have "\<dots> \<le> src_dest_max_entries"
    by (rule card_length [THEN order_trans]) (simp add: demo_frames_def src_dest_max_entries_def)
  finally show ?thesis .
qed

lemma demo_frame: "demo_frames ! 0 \<in> set demo_frames" "is_ipv4_frame LittleEndian (demo_frames ! 0)"
  by (simp_all add: demo_frames_def mk_frame_parts)

theorem traffic_exact_witness:
  "\<exists>m' v. traffic_run LittleEndian map_of (hash_update src_dest_max_entries) demo_frames [] = Some m' \<and>
     map_of m' (frame_key LittleEndian (demo_frames ! 0)) = Some v \<and> unat v = 1560"
  using traffic_exact [OF hash_is_bpf_hash _ _ demo_few _ demo_frame, of "[]"]
  by (simp add: hash_ok_def demo_sum)

section \<open>Several processors\<close>

text \<open>
  The lookup and the update are two helper calls, and the map is shared between processors: a
  processor can have read a counter and not yet written it back when another one does the same.
  A step is one processor reading for a packet it has received, or writing what it computed.
  \<open>started\<close> records the packets whose reading step has happened.
\<close>

datatype cpu_state = Idle | Writing u64 u64

record 'm mon_state =
  mon_map :: 'm
  cpus :: "nat \<Rightarrow> cpu_state"
  started :: "(u64 \<times> u64) list"

inductive mon_step ::
  "('m \<Rightarrow> u64 \<Rightarrow> u64 option) \<Rightarrow> ('m \<Rightarrow> u64 \<Rightarrow> u64 \<Rightarrow> 'm) \<Rightarrow> endian \<Rightarrow>
   'm mon_state \<Rightarrow> 'm mon_state \<Rightarrow> bool"
  for lookup update e where
  mon_read: "cpus s c = Idle \<Longrightarrow> is_ipv4_frame e p \<Longrightarrow> k = frame_key e p \<Longrightarrow> n = frame_bytes p \<Longrightarrow>
    v = (case lookup (mon_map s) k of None \<Rightarrow> n | Some q \<Rightarrow> q + n) \<Longrightarrow>
    mon_step lookup update e s
      (s\<lparr>cpus := (cpus s)(c := Writing k v), started := started s @ [(k, n)]\<rparr>)"
| mon_write: "cpus s c = Writing k v \<Longrightarrow>
    mon_step lookup update e s
      (s\<lparr>mon_map := update (mon_map s) k v, cpus := (cpus s)(c := Idle)\<rparr>)"

inductive mon_reach ::
  "('m \<Rightarrow> u64 \<Rightarrow> u64 option) \<Rightarrow> ('m \<Rightarrow> u64 \<Rightarrow> u64 \<Rightarrow> 'm) \<Rightarrow> endian \<Rightarrow> 'm \<Rightarrow>
   'm mon_state \<Rightarrow> bool"
  for lookup update e m0 where
  mon_init: "mon_reach lookup update e m0 \<lparr>mon_map = m0, cpus = (\<lambda>_. Idle), started = []\<rparr>"
| mon_next: "mon_reach lookup update e m0 s \<Longrightarrow> mon_step lookup update e s t \<Longrightarrow>
    mon_reach lookup update e m0 t"

text \<open>The two steps with the state after them given by an equation.\<close>

lemma mon_read_step:
  "cpus s c = Idle \<Longrightarrow> is_ipv4_frame e p \<Longrightarrow>
   v = (case lookup (mon_map s) (frame_key e p) of None \<Rightarrow> frame_bytes p | Some q \<Rightarrow> q + frame_bytes p) \<Longrightarrow>
   t = s\<lparr>cpus := (cpus s)(c := Writing (frame_key e p) v),
         started := started s @ [(frame_key e p, frame_bytes p)]\<rparr> \<Longrightarrow>
   mon_step lookup update e s t"
  by (simp add: mon_read)

lemma mon_write_step:
  "cpus s c = Writing k v \<Longrightarrow>
   t = s\<lparr>mon_map := update (mon_map s) k v, cpus := (cpus s)(c := Idle)\<rparr> \<Longrightarrow>
   mon_step lookup update e s t"
  by (simp add: mon_write)

text \<open>The bytes of a pair whose packets some processor has started to account.\<close>

definition started_bytes :: "(u64 \<times> u64) list \<Rightarrow> u64 \<Rightarrow> nat" where
  "started_bytes evs k = sum_list (map (\<lambda>(k', n). if k' = k then unat n else 0) evs)"

lemma started_bytes_snoc [simp]:
  "started_bytes (evs @ [(k', n)]) k = started_bytes evs k + (if k' = k then unat n else 0)"
  by (simp add: started_bytes_def)

definition mon_inv :: "('m \<Rightarrow> u64 \<Rightarrow> u64 option) \<Rightarrow> ('m \<Rightarrow> bool) \<Rightarrow> 'm mon_state \<Rightarrow> bool" where
  "mon_inv lookup ok s \<longleftrightarrow>
     ok (mon_map s) \<and>
     (\<forall>k v. lookup (mon_map s) k = Some v \<longrightarrow> unat v \<le> started_bytes (started s) k) \<and>
     (\<forall>c k v. cpus s c = Writing k v \<longrightarrow> unat v \<le> started_bytes (started s) k)"

lemma unat_plus_le: "unat (a + b :: u64) \<le> unat a + unat b"
  by (simp add: unat_word_ariths)

lemma mon_step_inv:
  assumes "bpf_hash lookup update ok cap"
    and "mon_step lookup update e s t" and "mon_inv lookup ok s"
  shows "mon_inv lookup ok t"
  using assms(2)
proof (cases rule: mon_step.cases)
  case (mon_read c p k n v)
  have "unat v \<le> started_bytes (started s) k + unat n"
    using mon_read(6) assms(3) unat_plus_le [of "the (lookup (mon_map s) k)" n]
    by (force simp: mon_inv_def split: option.splits)
  with mon_read(1) assms(3) show ?thesis
    by (auto simp: mon_inv_def trans_le_add1)
next
  case (mon_write c k v)
  have v: "unat v \<le> started_bytes (started s) k"
    using mon_write(2) assms(3) by (auto simp: mon_inv_def)
  have "ok (mon_map s)" using assms(3) by (simp add: mon_inv_def)
  then show ?thesis
    using mon_write(1) assms(3) v bpf_hash.lookup_update_cases [OF assms(1) \<open>ok (mon_map s)\<close>]
      bpf_map.ok_update [OF bpf_hash.axioms(1) [OF assms(1)] \<open>ok (mon_map s)\<close>]
    by (fastforce simp: mon_inv_def)
qed

lemma mon_reach_inv:
  assumes "bpf_hash lookup update ok cap" and "ok m0" and "lookup m0 = (\<lambda>_. None)"
    and "mon_reach lookup update e m0 s"
  shows "mon_inv lookup ok s"
  using assms(4)
proof (induction rule: mon_reach.induct)
  case mon_init
  then show ?case using assms(2,3) by (simp add: mon_inv_def)
next
  case (mon_next s t)
  then show ?case by (blast intro: mon_step_inv [OF assms(1)])
qed

text \<open>C33: However the processors interleave, no counter ever exceeds the bytes of the packets whose
  accounting has started: the monitor never over-counts.\<close>

theorem monitor_never_overcounts:
  assumes "bpf_hash lookup update ok src_dest_max_entries" and "ok m0"
    and "lookup m0 = (\<lambda>_. None)"
    and "mon_reach lookup update e m0 s" and "lookup (mon_map s) k = Some v"
  shows "unat v \<le> started_bytes (started s) k"
  using mon_reach_inv [OF assms(1-4)] assms(5) by (simp add: mon_inv_def)

text \<open>Two processors handling a packet of the same pair, both reading before either writes.\<close>

definition race_frame :: skb where
  "race_frame = mk_frame LittleEndian [142, 251, 33, 174] [192, 168, 0, 14] 6 [0, 60] []"

definition race_key :: u64 where
  "race_key = pair_key 0xAE21FB8E 0x0E00A8C0"

definition race_end :: "(u64 \<times> u64) list mon_state" where
  "race_end = \<lparr>mon_map = [(race_key, 60)], cpus = (\<lambda>_. Idle),
     started = [(race_key, 60), (race_key, 60)]\<rparr>"

lemma race_frame_key: "is_ipv4_frame LittleEndian race_frame"
  "frame_key LittleEndian race_frame = race_key" "frame_bytes race_frame = 60"
  by (simp_all add: race_frame_def race_key_def frame_key_def frame_bytes_def mk_frame_parts
      load32.simps load16.simps)

lemma race_reach:
  "mon_reach map_of (hash_update src_dest_max_entries) LittleEndian [] race_end"
proof -
  let ?R = "mon_reach map_of (hash_update src_dest_max_entries) LittleEndian []"
  let ?W = "Writing race_key 60"
  let ?S = "\<lambda>m c st. \<lparr>mon_map = m, cpus = c, started = st\<rparr>"
  let ?evs = "[(race_key, 60), (race_key, 60)]"
  have "?R (?S [] (\<lambda>_. Idle) [])" by (rule mon_init)
  then have "?R (?S [] ((\<lambda>_. Idle)(0 := ?W)) [(race_key, 60)])"
    by (rule mon_next, intro mon_read_step [where c = 0 and p = race_frame and v = 60])
      (simp_all add: race_frame_key)
  then have "?R (?S [] ((\<lambda>_. Idle)(0 := ?W, 1 := ?W)) ?evs)"
    by (rule mon_next, intro mon_read_step [where c = 1 and p = race_frame and v = 60])
      (simp_all add: race_frame_key)
  then have "?R (?S [(race_key, 60)] ((\<lambda>_. Idle)(1 := ?W)) ?evs)"
    by (rule mon_next, intro mon_write_step [where c = 0 and k = race_key and v = 60])
      (auto simp: hash_update_def src_dest_max_entries_def fun_eq_iff)
  then show ?thesis
    by (rule mon_next, intro mon_write_step [where c = 1 and k = race_key and v = 60])
      (auto simp: hash_update_def race_end_def fun_eq_iff)
qed

theorem monitor_never_overcounts_witness:
  "map_of (mon_map race_end) race_key = Some 60 \<and>
   unat (60 :: u64) \<le> started_bytes (started race_end) race_key"
proof -
  have at: "map_of (mon_map race_end) race_key = Some 60" by (simp add: race_end_def)
  have "hash_ok src_dest_max_entries ([] :: (u64 \<times> u64) list)" by (simp add: hash_ok_def)
  from monitor_never_overcounts [OF hash_is_bpf_hash this _ race_reach at] at show ?thesis by simp
qed

text \<open>C37: The accounting is not exact on several processors: there is a reachable state in which all
  processors are idle, two packets of 60 bytes of one pair have been accounted, and its counter
  is 60. The read-modify-write of the counter is not atomic, so the second write overwrites the
  first.\<close>

theorem monitor_lost_update:
  "\<exists>s k. mon_reach map_of (hash_update src_dest_max_entries) LittleEndian [] s \<and>
     (\<forall>c. cpus s c = Idle) \<and> started_bytes (started s) k = 120 \<and>
     map_of (mon_map s) k = Some 60"
proof (intro exI conjI)
  show "mon_reach map_of (hash_update src_dest_max_entries) LittleEndian [] race_end"
    by (rule race_reach)
  show "\<forall>c. cpus race_end c = Idle" by (simp add: race_end_def)
  show "started_bytes (started race_end) race_key = 120"
    by (simp add: race_end_def started_bytes_def)
  show "map_of (mon_map race_end) race_key = Some 60" by (simp add: race_end_def)
qed

end
