(* ===== verification/DnsSniff.thy ===== *)
theory DnsSniff
  imports Packet
begin

text \<open>
  The DNS sniffer \<open>ebpf/dnspkt.bpf.c\<close>: a tc program on the WAN interface that copies the payload
  of UDP packets from or to port 53 into a per-processor buffer and emits it as an event. The
  kernel helpers are arguments: the result of the buffer's lookup, and
  \<open>probe_read src n buf\<close>, the contents of the buffer \<open>buf\<close> after \<open>bpf_probe_read_kernel\<close> has been
  asked to copy \<open>n\<close> bytes into it from the address \<open>src\<close>, an offset from the start of the packet
  data. The code finds the ports at fixed offsets; which frames it sniffs is compared with the headers
  as the protocols define them.
\<close>

definition DATA_LEN :: nat where
  "DATA_LEN = 508"

text \<open>\<open>struct payload_t\<close>.\<close>

record payload_t =
  pl_len :: u32
  pl_data :: "u8 list"

text \<open>\<open>sizeof(*eth) + sizeof(*ip) + sizeof(*udp_hdr)\<close>.\<close>

definition dns_offset :: nat where
  "dns_offset = ETH_HLEN + sizeof_iphdr + sizeof_udphdr"

definition IPPROTO_UDP :: u8 where
  "IPPROTO_UDP = 17"

text \<open>
  \<open>udp_dns_sniff\<close>. The result is the verdict, the buffer and the events emitted by
  \<open>bpf_perf_event_output\<close>, each the bytes of \<open>payload->data\<close>. \<open>buf\<close> is what the lookup of entry 0
  of \<open>tmp_map\<close> returns.
\<close>

definition udp_dns_sniff ::
  "endian \<Rightarrow> (nat \<Rightarrow> nat \<Rightarrow> u8 list \<Rightarrow> u8 list) \<Rightarrow> skb \<Rightarrow> payload_t option \<Rightarrow>
   (tc_action \<times> payload_t option \<times> u8 list list) option" where
  "udp_dns_sniff e probe_read skb buf =
     (if length (skb_data skb) < dns_offset then Some (TC_ACT_OK, buf, [])
      else do {
        h_proto \<leftarrow> rd16 e (skb_data skb) off_h_proto;
        protocol \<leftarrow> rd8 (skb_data skb) off_protocol;
        dest \<leftarrow> rd16 e (skb_data skb) off_udp_dest;
        source \<leftarrow> rd16 e (skb_data skb) off_udp_source;
        if h_proto = bpf_htons e ETH_P_IP \<and> protocol = IPPROTO_UDP \<and>
           (dest = bpf_htons e 53 \<or> source = bpf_htons e 53)
        then case buf of
            None \<Rightarrow> Some (TC_ACT_UNSPEC, buf, [])
          | Some payload \<Rightarrow>
              let len = (if unat (skb_len skb) < DATA_LEN then unat (skb_len skb) else DATA_LEN);
                  udp_len = skb_len skb - word_of_nat dns_offset;
                  payload' = payload\<lparr>pl_len := udp_len,
                                pl_data := probe_read dns_offset len (pl_data payload)\<rparr>
              in Some (TC_ACT_OK, Some payload', [pl_data payload'])
        else Some (TC_ACT_OK, buf, [])
      })"

section \<open>Which packets are sniffed\<close>

text \<open>The frames that pass the test of the code. It looks for the protocol and the ports at fixed
  offsets, whatever the IPv4 header says about its length and about fragments.\<close>

definition passes_test :: "skb \<Rightarrow> bool" where
  "passes_test skb \<longleftrightarrow>
     dns_offset \<le> length (skb_data skb) \<and>
     load16 BigEndian (skb_data skb ! 12) (skb_data skb ! 13) = ETH_P_IP \<and>
     skb_data skb ! 23 = IPPROTO_UDP \<and>
     (load16 BigEndian (skb_data skb ! 36) (skb_data skb ! 37) = 53 \<or>
      load16 BigEndian (skb_data skb ! 34) (skb_data skb ! 35) = 53)"

text \<open>The number of bytes copied, and the buffer after the copy.\<close>

definition copied_len :: "skb \<Rightarrow> nat" where
  "copied_len skb = min (unat (skb_len skb)) DATA_LEN"

definition sniffed :: "(nat \<Rightarrow> nat \<Rightarrow> u8 list \<Rightarrow> u8 list) \<Rightarrow> skb \<Rightarrow> payload_t \<Rightarrow> payload_t" where
  "sniffed probe_read skb payload =
     payload\<lparr>pl_len := skb_len skb - word_of_nat dns_offset,
       pl_data := probe_read dns_offset (copied_len skb) (pl_data payload)\<rparr>"

lemma sniff_eq:
  "udp_dns_sniff e probe_read skb buf =
   Some (if passes_test skb
     then (case buf of None \<Rightarrow> (TC_ACT_UNSPEC, None, [])
           | Some payload \<Rightarrow> (TC_ACT_OK, Some (sniffed probe_read skb payload),
                               [pl_data (sniffed probe_read skb payload)]))
     else (TC_ACT_OK, buf, []))"
proof (cases "length (skb_data skb) < dns_offset")
  case True
  then show ?thesis by (simp add: udp_dns_sniff_def passes_test_def)
next
  case False
  then show ?thesis
    by (simp add: udp_dns_sniff_def passes_test_def sniffed_def copied_len_def min_def pkt_read
        dns_offset_def frame_offsets load16_eq_htons Let_def split: option.split)
qed

text \<open>
  What a frame carries according to the protocols, header by header. Ethernet (RFC 894): two
  addresses, the type, the payload.
\<close>

definition eth_payload :: "u16 \<Rightarrow> u8 list \<Rightarrow> u8 list option" where
  "eth_payload ethertype d =
     (if 14 \<le> length d \<and> load16 BigEndian (d ! 12) (d ! 13) = ethertype then Some (drop 14 d) else None)"

text \<open>IPv4 (RFC 791): the first byte holds the version and the length of the header in words of four
  bytes; the low 13 bits of bytes 6 and 7 are the offset of the fragment, and only a fragment with
  offset 0 begins with the header of the next protocol, which byte 9 names.\<close>

definition ip_header_len :: "u8 list \<Rightarrow> nat" where
  "ip_header_len p = 4 * (unat (p ! 0) mod 16)"

definition ip_version :: "u8 list \<Rightarrow> nat" where
  "ip_version p = unat (p ! 0) div 16"

definition fragment_offset :: "u8 list \<Rightarrow> nat" where
  "fragment_offset p = unat (load16 BigEndian (p ! 6) (p ! 7)) mod 2 ^ 13"

definition ip_payload :: "u8 \<Rightarrow> u8 list \<Rightarrow> u8 list option" where
  "ip_payload protocol p =
     (if 20 \<le> length p \<and> ip_version p = 4 \<and> 20 \<le> ip_header_len p \<and> ip_header_len p \<le> length p \<and>
         fragment_offset p = 0 \<and> p ! 9 = protocol
      then Some (drop (ip_header_len p) p) else None)"

text \<open>UDP (RFC 768): the source port, the destination port, the length and the checksum.\<close>

definition udp_ports :: "u8 list \<Rightarrow> (u16 \<times> u16) option" where
  "udp_ports u =
     (if 8 \<le> length u then Some (load16 BigEndian (u ! 0) (u ! 1), load16 BigEndian (u ! 2) (u ! 3)) else None)"

definition frame_ports :: "u8 list \<Rightarrow> (u16 \<times> u16) option" where
  "frame_ports d = do { p \<leftarrow> eth_payload ETH_P_IP d; u \<leftarrow> ip_payload IPPROTO_UDP p; udp_ports u }"

text \<open>A frame whose accessible bytes hold all headers of a UDP datagram from or to port 53.\<close>

definition carries_dns :: "u8 list \<Rightarrow> bool" where
  "carries_dns d \<longleftrightarrow> (case frame_ports d of None \<Rightarrow> False | Some (source, dest) \<Rightarrow> source = 53 \<or> dest = 53)"

text \<open>If the frame is IPv4, it is of version 4, has no options and is no later fragment.\<close>

definition plain_header :: "u8 list \<Rightarrow> bool" where
  "plain_header d \<longleftrightarrow>
     (case eth_payload ETH_P_IP d of None \<Rightarrow> True | Some p \<Rightarrow> p ! 0 = 0x45 \<and> fragment_offset p = 0)"

lemma plain_passes_test:
  assumes "plain_header (skb_data skb)"
  shows "passes_test skb \<longleftrightarrow> carries_dns (skb_data skb)"
proof (cases "eth_payload ETH_P_IP (skb_data skb)")
  case None
  then show ?thesis
    by (auto simp: carries_dns_def frame_ports_def passes_test_def eth_payload_def dns_offset_def frame_offsets split: if_splits)
next
  case (Some p)
  then have p: "p = drop 14 (skb_data skb)" "14 \<le> length (skb_data skb)"
    "load16 BigEndian (skb_data skb ! 12) (skb_data skb ! 13) = ETH_P_IP"
    by (auto simp: eth_payload_def split: if_splits)
  have head: "p ! 0 = 0x45" "fragment_offset p = 0" using assms Some by (simp_all add: plain_header_def)
  then have "ip_header_len p = 20" "ip_version p = 4" by (simp_all add: ip_header_len_def ip_version_def)
  then have "carries_dns (skb_data skb) \<longleftrightarrow> 28 \<le> length p \<and> p ! 9 = IPPROTO_UDP \<and>
      (load16 BigEndian (p ! 20) (p ! 21) = 53 \<or> load16 BigEndian (p ! 22) (p ! 23) = 53)"
    by (auto simp: carries_dns_def frame_ports_def Some ip_payload_def head(2) udp_ports_def split: if_splits)
  then show ?thesis
    using p by (auto simp: passes_test_def dns_offset_def frame_offsets)
qed


text \<open>Elsewhere the fixed offsets mislead the program. The same datagram behind a header with one word of
  options, or the bytes of the frame taken for those of a later fragment.\<close>

definition with_options :: "u8 list \<Rightarrow> u8 list \<Rightarrow> u8 list" where
  "with_options opts d = take 14 d @ [0x46] @ take 19 (drop 15 d) @ opts @ drop 34 d"

definition as_fragment :: "u8 \<Rightarrow> u8 list \<Rightarrow> u8 list" where
  "as_fragment n d = d[21 := n]"

lemma with_options_carries_dns:
  assumes "carries_dns d" and "plain_header d" and "length opts = 4"
  shows "carries_dns (with_options opts d)"
proof -
  have d: "42 \<le> length d" "load16 BigEndian (d ! 12) (d ! 13) = ETH_P_IP" "d ! 14 = 0x45"
    "fragment_offset (drop 14 d) = 0" "d ! 23 = IPPROTO_UDP"
    "load16 BigEndian (d ! 34) (d ! 35) = 53 \<or> load16 BigEndian (d ! 36) (d ! 37) = 53"
    using assms(1,2)
    by (auto simp: carries_dns_def frame_ports_def eth_payload_def ip_payload_def plain_header_def udp_ports_def
        ip_header_len_def split: if_splits option.splits bind_splits)
  let ?d = "with_options opts d" and ?p = "[0x46] @ take 19 (drop 15 d) @ opts @ drop 34 d"
  have p: "drop 14 ?d = ?p" "?d ! 12 = d ! 12" "?d ! 13 = d ! 13" "length ?d = length d + 4"
    using d(1) assms(3) by (simp_all add: with_options_def nth_append)
  have at: "?p ! i = d ! (i + 14)" if "1 \<le> i" "i < 20" for i
    using that d(1) by (auto simp: nth_append nth_Cons split: nat.split)
  have rest: "drop 24 ?p = drop 34 d"
    using d(1) assms(3) by simp
  have "fragment_offset ?p = fragment_offset (drop 14 d)"
    using at [of 6] at [of 7] d(1) by (simp add: fragment_offset_def)
  then have "fragment_offset ?p = 0" "?p ! 9 = IPPROTO_UDP" "ip_header_len ?p = 24" "ip_version ?p = 4"
    using d(4,5) at [of 9] by (simp_all add: ip_header_len_def ip_version_def)
  then have "ip_payload IPPROTO_UDP ?p = Some (drop 34 d)"
    unfolding ip_payload_def using rest d(1) assms(3) by (simp add: le_diff_conv2)
  moreover have "eth_payload ETH_P_IP ?d = Some ?p"
    using d(1,2) p by (simp add: eth_payload_def)
  ultimately show ?thesis
    using d(1,6) by (simp add: carries_dns_def frame_ports_def udp_ports_def)
qed

text \<open>A datagram from or to port 53 behind a header with options gives no event unless the options look
  like the ports; a later fragment of other data, of which the bytes after the header look like the
  ports, gives one.\<close>

theorem fixed_offsets_mislead:
  assumes "carries_dns d" and "plain_header d" and "length opts = 4"
    and "load16 BigEndian (opts ! 0) (opts ! 1) \<noteq> 53" and "load16 BigEndian (opts ! 2) (opts ! 3) \<noteq> 53"
    and "0 < n"
  shows "carries_dns (with_options opts d) \<and>
    udp_dns_sniff e probe_read (skb\<lparr>skb_data := with_options opts d\<rparr>) (Some payload) = Some (TC_ACT_OK, Some payload, []) \<and>
    \<not> carries_dns (as_fragment n d) \<and>
    (\<exists>payload' ev. udp_dns_sniff e probe_read (skb\<lparr>skb_data := as_fragment n d\<rparr>) (Some payload) =
      Some (TC_ACT_OK, Some payload', [ev]))"
proof -
  have test: "passes_test (skb\<lparr>skb_data := d\<rparr>)" using plain_passes_test [of "skb\<lparr>skb_data := d\<rparr>"] assms(1,2) by simp
  then have len: "42 \<le> length d" by (simp add: passes_test_def dns_offset_def frame_offsets)
  have "with_options opts d ! (34 + i) = opts ! i" if "i < 4" for i
    using that len assms(3) by (simp add: with_options_def nth_append)
  from this [of 0] this [of 1] this [of 2] this [of 3] assms(4,5)
  have no: "\<not> passes_test (skb\<lparr>skb_data := with_options opts d\<rparr>)" by (simp add: passes_test_def)
  have yes: "passes_test (skb\<lparr>skb_data := as_fragment n d\<rparr>)"
    using test by (simp add: passes_test_def as_fragment_def)
  have "fragment_offset (drop 14 (as_fragment n d)) \<noteq> 0"
  proof -
    have "take_bit 8 (load16 BigEndian (d ! 20) n) = (ucast n :: u16)"
      by (rule bit_word_eqI) (auto simp: load16.simps bit_simps dest: bit_imp_le_length)
    then have "unat (take_bit 8 (load16 BigEndian (d ! 20) n)) = unat n"
      using unsigned_less [where ?'a = nat, of n] by (simp add: unsigned_ucast_eq take_bit_nat_eq_self)
    then have "unat (load16 BigEndian (d ! 20) n) mod 2 ^ 8 = unat n"
      unfolding unsigned_take_bit_eq by (simp only: take_bit_eq_mod)
    then have "unat (load16 BigEndian (d ! 20) n) mod 2 ^ 13 mod 2 ^ 8 = unat n"
      by (simp add: mod_mod_cancel)
    moreover have "0 < unat n" using assms(6) by (simp add: word_less_nat_alt)
    ultimately show ?thesis using len by (auto simp: fragment_offset_def as_fragment_def)
  qed
  then have "\<not> carries_dns (as_fragment n d)"
    by (auto simp: carries_dns_def frame_ports_def eth_payload_def ip_payload_def split: if_splits option.splits bind_splits)
  with no yes with_options_carries_dns [OF assms(1-3)] show ?thesis by (simp add: sniff_eq)
qed

section \<open>What an event holds\<close>

text \<open>
  The kernel memory from the start of the packet data on, all of it readable: the copy puts the
  requested bytes at the front of the buffer and leaves the rest.
\<close>

definition reads_memory :: "(nat \<Rightarrow> u8) \<Rightarrow> (nat \<Rightarrow> nat \<Rightarrow> u8 list \<Rightarrow> u8 list) \<Rightarrow> bool" where
  "reads_memory mem probe_read \<longleftrightarrow>
     (\<forall>src n buf. n \<le> length buf \<longrightarrow> probe_read src n buf = map mem [src..<src + n] @ drop n buf)"

definition copy_from :: "(nat \<Rightarrow> u8) \<Rightarrow> nat \<Rightarrow> nat \<Rightarrow> u8 list \<Rightarrow> u8 list" where
  "copy_from mem src n buf = map mem [src..<src + n] @ drop n buf"

lemma reads_memory_copy_from: "reads_memory mem (copy_from mem)"
  by (simp add: reads_memory_def copy_from_def)

definition holds_packet :: "(nat \<Rightarrow> u8) \<Rightarrow> skb \<Rightarrow> bool" where
  "holds_packet mem skb \<longleftrightarrow> (\<forall>i < length (skb_data skb). mem i = skb_data skb ! i)"

text \<open>All the bytes of the packet are directly accessible.\<close>

definition linear :: "skb \<Rightarrow> bool" where
  "linear skb \<longleftrightarrow> unat (skb_len skb) = length (skb_data skb)"

lemma event_bytes:
  assumes "reads_memory mem probe_read" and "length (pl_data payload) = DATA_LEN"
  shows "pl_data (sniffed probe_read skb payload) =
    map mem [dns_offset..<dns_offset + copied_len skb] @ drop (copied_len skb) (pl_data payload)"
  using assms by (simp add: sniffed_def reads_memory_def copied_len_def)

lemma event_byte:
  assumes "reads_memory mem probe_read" and "length (pl_data payload) = DATA_LEN"
    and "i < copied_len skb"
  shows "pl_data (sniffed probe_read skb payload) ! i = mem (dns_offset + i)"
  using assms(3) by (simp add: event_bytes [OF assms(1,2)] nth_append)

text \<open>C17: The event of a frame that passes the test, all of whose bytes are accessible, starts with the
  bytes of the frame behind a header without options and the UDP header, which is the DNS message
  of a plain frame, cut at 508 bytes; the event always has 508 bytes, and the buffer's length field
  is the number of these bytes.\<close>

theorem event_holds_message:
  assumes "reads_memory mem probe_read" and "holds_packet mem skb" and "linear skb"
    and "passes_test skb" and "length (pl_data payload) = DATA_LEN"
  shows "\<exists>payload' ev. udp_dns_sniff e probe_read skb (Some payload) =
      Some (TC_ACT_OK, Some payload', [ev]) \<and>
    length ev = DATA_LEN \<and>
    take (length (skb_data skb) - dns_offset) ev = take DATA_LEN (drop dns_offset (skb_data skb)) \<and>
    unat (pl_len payload') = length (skb_data skb) - dns_offset"
proof -
  let ?L = "length (skb_data skb)" and ?ev = "pl_data (sniffed probe_read skb payload)"
  have ev: "?ev = map mem [dns_offset..<dns_offset + min ?L DATA_LEN] @ drop (min ?L DATA_LEN) (pl_data payload)"
    using event_bytes [OF assms(1,5)] assms(3) by (simp add: copied_len_def linear_def)
  have full: "length ?ev = DATA_LEN" using assms(5) by (simp add: ev)
  have msg: "dns_offset \<le> ?L" using assms(4) by (simp add: passes_test_def)
  have "take (?L - dns_offset) ?ev = take DATA_LEN (drop dns_offset (skb_data skb))"
  proof (rule nth_equalityI)
    show len: "length (take (?L - dns_offset) ?ev) = length (take DATA_LEN (drop dns_offset (skb_data skb)))"
      by (simp add: full min.commute)
    fix i assume "i < length (take (?L - dns_offset) ?ev)"
    then have "i < ?L - dns_offset" "i < DATA_LEN"
      unfolding len by simp_all
    then have "?ev ! i = skb_data skb ! (dns_offset + i)"
      using assms(2) by (simp add: ev nth_append holds_packet_def less_diff_conv add.commute)
    with \<open>i < ?L - dns_offset\<close> \<open>i < DATA_LEN\<close> show
      "take (?L - dns_offset) ?ev ! i = take DATA_LEN (drop dns_offset (skb_data skb)) ! i"
      by simp
  qed
  moreover note full
  moreover have "unat (skb_len skb - word_of_nat dns_offset) = ?L - dns_offset"
  proof -
    have off: "unat (word_of_nat dns_offset :: u32) = dns_offset"
      by (simp add: dns_offset_def frame_offsets)
    have "word_of_nat dns_offset \<le> skb_len skb"
      using msg assms(3) by (simp add: word_le_nat_alt off linear_def)
    then show ?thesis using assms(3) by (simp add: unat_sub off linear_def)
  qed
  ultimately show ?thesis
    using assms(4) by (simp add: sniff_eq) (simp add: sniffed_def)
qed

text \<open>A DNS answer of twelve bytes from port 53.\<close>

definition demo_dns :: skb where
  "demo_dns = mk_frame LittleEndian [192, 168, 0, 1] [192, 168, 0, 14] 17 [0, 40]
     ([0, 53, 200, 0, 0, 20, 0, 0] @ [1, 2, 3, 4, 5, 6, 7, 8, 9, 10, 11, 12])"

definition empty_payload :: payload_t where
  "empty_payload = \<lparr>pl_len = 0, pl_data = replicate DATA_LEN 0\<rparr>"

definition packet_memory :: "skb \<Rightarrow> u8 \<Rightarrow> nat \<Rightarrow> u8" where
  "packet_memory skb after i = (if i < length (skb_data skb) then skb_data skb ! i else after)"

lemma holds_packet_memory: "holds_packet (packet_memory skb b) skb"
  by (simp add: holds_packet_def packet_memory_def)

lemma demo_dns_data:
  "skb_data demo_dns =
     [0, 0, 0, 0, 0, 0, 0, 0, 0, 0, 0, 0, 8, 0, 0x45, 0, 0, 40, 0, 0, 0, 0, 0, 17, 0, 0,
      192, 168, 0, 1, 192, 168, 0, 14, 0, 53, 200, 0, 0, 20, 0, 0, 1, 2, 3, 4, 5, 6, 7, 8, 9, 10, 11, 12]"
  by (simp add: demo_dns_def mk_frame_def numeral_eq_Suc)

lemma demo_dns_len: "skb_len demo_dns = 54"
  by (simp add: demo_dns_def mk_frame_def)

lemma demo_dns_facts:
  "passes_test demo_dns" "linear demo_dns" "length (skb_data demo_dns) = 54"
  by (simp_all add: demo_dns_data demo_dns_len passes_test_def linear_def dns_offset_def
      frame_offsets IPPROTO_UDP_def ETH_P_IP_def load16.simps)

lemma demo_dns_plain: "carries_dns (skb_data demo_dns)" "plain_header (skb_data demo_dns)"
  by (simp_all add: demo_dns_data carries_dns_def frame_ports_def eth_payload_def ip_payload_def udp_ports_def
      plain_header_def ip_header_len_def ip_version_def fragment_offset_def ETH_P_IP_def IPPROTO_UDP_def load16.simps)


text \<open>With a word of options that do nothing, and with an offset of 16 bytes.\<close>

theorem fixed_offsets_mislead_witness:
  "carries_dns (with_options [1, 1, 1, 1] (skb_data demo_dns)) \<and>
   udp_dns_sniff LittleEndian (copy_from (\<lambda>_. 0)) (demo_dns\<lparr>skb_data := with_options [1, 1, 1, 1] (skb_data demo_dns)\<rparr>)
     (Some empty_payload) = Some (TC_ACT_OK, Some empty_payload, []) \<and>
   \<not> carries_dns (as_fragment 2 (skb_data demo_dns)) \<and>
   (\<exists>payload' ev. udp_dns_sniff LittleEndian (copy_from (\<lambda>_. 0)) (demo_dns\<lparr>skb_data := as_fragment 2 (skb_data demo_dns)\<rparr>)
     (Some empty_payload) = Some (TC_ACT_OK, Some payload', [ev]))"
  by (rule fixed_offsets_mislead [OF demo_dns_plain]) (simp_all add: load16.simps)

theorem event_holds_message_witness:
  "\<exists>payload' ev. udp_dns_sniff LittleEndian (copy_from (packet_memory demo_dns 0)) demo_dns
       (Some empty_payload) = Some (TC_ACT_OK, Some payload', [ev]) \<and>
     take 12 ev = [1, 2, 3, 4, 5, 6, 7, 8, 9, 10, 11, 12] \<and> unat (pl_len payload') = 12"
proof -
  have "drop dns_offset (skb_data demo_dns) = [1, 2, 3, 4, 5, 6, 7, 8, 9, 10, 11, 12]"
    by (simp add: demo_dns_data dns_offset_def frame_offsets)
  moreover have "length (pl_data empty_payload) = DATA_LEN" by (simp add: empty_payload_def)
  ultimately show ?thesis
    using event_holds_message [OF reads_memory_copy_from holds_packet_memory demo_dns_facts(2,1)]
    by (fastforce simp: demo_dns_facts(3) dns_offset_def frame_offsets DATA_LEN_def)
qed

lemma map_upt_const: "(\<And>i. m \<le> i \<Longrightarrow> i < n \<Longrightarrow> f i = b) \<Longrightarrow> map f [m..<n] = replicate (n - m) b"
  by (simp add: list_eq_iff_nth_eq)

lemma demo_event_after:
  "take 42 (drop 12 (pl_data (sniffed (copy_from (packet_memory demo_dns b)) demo_dns empty_payload))) =
   replicate 42 b"
proof -
  have copied: "copied_len demo_dns = 54"
    using demo_dns_facts(2,3) by (simp add: copied_len_def linear_def DATA_LEN_def)
  have full: "length (pl_data empty_payload) = DATA_LEN" by (simp add: empty_payload_def)
  have "pl_data (sniffed (copy_from (packet_memory demo_dns b)) demo_dns empty_payload) =
      map (packet_memory demo_dns b) [dns_offset..<dns_offset + 54] @ drop 54 (pl_data empty_payload)"
    using event_bytes [OF reads_memory_copy_from full, where skb = demo_dns] by (simp add: copied)
  moreover have "map (packet_memory demo_dns b) [dns_offset + 12..<dns_offset + 54] = replicate 42 b"
    using map_upt_const [of "dns_offset + 12" "dns_offset + 54" "packet_memory demo_dns b" b]
    by (simp add: packet_memory_def demo_dns_facts(3) dns_offset_def frame_offsets del: upt.simps)
  ultimately show ?thesis by (simp add: drop_map take_map)
qed

text \<open>C38: The copy asks for as many bytes as the whole frame has, starting behind its headers: the
  event of a short DNS frame holds the 42 bytes of kernel memory that follow the packet, so two
  memories that agree on the packet give different events.\<close>

theorem event_leaks_memory:
  "\<exists>mem1 mem2 ev1 ev2 p1 p2. holds_packet mem1 demo_dns \<and> holds_packet mem2 demo_dns \<and>
     udp_dns_sniff e (copy_from mem1) demo_dns (Some empty_payload) = Some (TC_ACT_OK, p1, [ev1]) \<and>
     udp_dns_sniff e (copy_from mem2) demo_dns (Some empty_payload) = Some (TC_ACT_OK, p2, [ev2]) \<and>
     take 42 (drop 12 ev1) = replicate 42 0 \<and> take 42 (drop 12 ev2) = replicate 42 1"
  by (rule exI [of _ "packet_memory demo_dns 0"], rule exI [of _ "packet_memory demo_dns 1"])
    (simp add: holds_packet_memory sniff_eq demo_dns_facts(1) demo_event_after)

end
