(* ===== verification/CLayout.thy ===== *)
theory CLayout
  imports Main
begin

text \<open>
  The memory layout of C types, as the 64-bit ABI of the kernel behind \<open>ebpf/vmlinux.h\<close> (AArch64)
  lays them out: sizes and alignments in bytes, positions of members in bits. The declarations of
  that header are terms of the type \<open>cty\<close>; the theories \<open>Vm_*\<close> hold them.
\<close>

named_theorems layout \<open>evaluation of sizes, alignments and positions\<close>

section \<open>Types\<close>

text \<open>
  An integer or enumeration of a size in bytes, a pointer (to data or to a function), an array, a
  struct or a union (with the \<open>packed\<close> attribute or without). A member is an ordinary one or a
  bit-field with its width; members and bit-fields without a name have the empty name.
\<close>

datatype cty =
    CInt nat bool
  | CPtr
  | CArr cty nat
  | CStruct bool "cfield list"
  | CUnion bool "cfield list"
and cfield =
    Fld string cty
  | Bits string cty nat

text \<open>The arithmetic types of C on AArch64, where plain \<open>char\<close> is unsigned.\<close>

abbreviation C_char :: cty where "C_char \<equiv> CInt 1 False"
abbreviation C_uchar :: cty where "C_uchar \<equiv> CInt 1 False"
abbreviation C_schar :: cty where "C_schar \<equiv> CInt 1 True"
abbreviation C_bool :: cty where "C_bool \<equiv> CInt 1 False"
abbreviation C_short :: cty where "C_short \<equiv> CInt 2 True"
abbreviation C_ushort :: cty where "C_ushort \<equiv> CInt 2 False"
abbreviation C_int :: cty where "C_int \<equiv> CInt 4 True"
abbreviation C_uint :: cty where "C_uint \<equiv> CInt 4 False"
abbreviation C_long :: cty where "C_long \<equiv> CInt 8 True"
abbreviation C_ulong :: cty where "C_ulong \<equiv> CInt 8 False"
abbreviation C_longlong :: cty where "C_longlong \<equiv> CInt 8 True"
abbreviation C_ulonglong :: cty where "C_ulonglong \<equiv> CInt 8 False"
abbreviation C_int128 :: cty where "C_int128 \<equiv> CInt 16 True"
abbreviation C_uint128 :: cty where "C_uint128 \<equiv> CInt 16 False"

abbreviation Struct :: "cfield list \<Rightarrow> cty" where "Struct \<equiv> CStruct False"
abbreviation Packed :: "cfield list \<Rightarrow> cty" where "Packed \<equiv> CStruct True"
abbreviation Union :: "cfield list \<Rightarrow> cty" where "Union \<equiv> CUnion False"
abbreviation Enum :: cty where "Enum \<equiv> CInt 4 False"

fun fname :: "cfield \<Rightarrow> string" where
  "fname (Fld n _) = n"
| "fname (Bits n _ _) = n"

fun fty :: "cfield \<Rightarrow> cty" where
  "fty (Fld _ t) = t"
| "fty (Bits _ t _) = t"

section \<open>Sizes, alignments and positions\<close>

text \<open>The next multiple of \<open>a\<close> from \<open>n\<close> on.\<close>

definition align_up :: "nat \<Rightarrow> nat \<Rightarrow> nat" where
  "align_up a n = (if a = 0 then n else (n + (a - 1)) div a * a)"

fun alignof :: "cty \<Rightarrow> nat" and falign :: "bool \<Rightarrow> cfield \<Rightarrow> nat"
  and aligns :: "bool \<Rightarrow> cfield list \<Rightarrow> nat" where
  "alignof (CInt n _) = n"
| "alignof CPtr = 8"
| "alignof (CArr t _) = alignof t"
| "alignof (CStruct p fs) = aligns p fs"
| "alignof (CUnion p fs) = aligns p fs"
| "falign p (Fld _ t) = (if p then 1 else alignof t)"
| "falign p (Bits _ t _) = (if p then 1 else alignof t)"
| "aligns p [] = 1"
| "aligns p (f # fs) = max (falign p f) (aligns p fs)"

text \<open>
  Where a member of size \<open>s\<close> and alignment \<open>a\<close> (in bytes) goes, in bits, when the members before
  it end at bit \<open>pos\<close>: an ordinary member at the next aligned byte; a bit-field right behind the
  previous member if it then fits into one storage unit of its type, at the next unit otherwise;
  a bit-field of width zero closes the current unit.
\<close>

definition place_fld :: "bool \<Rightarrow> nat \<Rightarrow> nat \<Rightarrow> nat" where
  "place_fld p a pos = align_up (8 * (if p then 1 else a)) pos"

definition place_bits :: "bool \<Rightarrow> nat \<Rightarrow> nat \<Rightarrow> nat \<Rightarrow> nat \<Rightarrow> nat" where
  "place_bits p s a w pos =
     (if w = 0 then align_up (8 * a) pos
      else if p \<or> pos mod (8 * s) + w \<le> 8 * s then pos
      else align_up (8 * a) pos)"

fun sizeof :: "cty \<Rightarrow> nat" and field_pos :: "bool \<Rightarrow> cfield \<Rightarrow> nat \<Rightarrow> nat \<times> nat"
  and struct_end :: "bool \<Rightarrow> cfield list \<Rightarrow> nat \<Rightarrow> nat"
  and union_end :: "bool \<Rightarrow> cfield list \<Rightarrow> nat" where
  "sizeof (CInt n _) = n"
| "sizeof CPtr = 8"
| "sizeof (CArr t n) = n * sizeof t"
| "sizeof (CStruct p fs) = align_up (8 * aligns p fs) (struct_end p fs 0) div 8"
| "sizeof (CUnion p fs) = align_up (8 * aligns p fs) (union_end p fs) div 8"
| "field_pos p (Fld _ t) pos = (place_fld p (alignof t) pos, 8 * sizeof t)"
| "field_pos p (Bits _ t w) pos = (place_bits p (sizeof t) (alignof t) w pos, w)"
| "struct_end p [] pos = pos"
| "struct_end p (f # fs) pos =
     struct_end p fs (fst (field_pos p f pos) + snd (field_pos p f pos))"
| "union_end p [] = 0"
| "union_end p (f # fs) = max (fst (field_pos p f 0) + snd (field_pos p f 0)) (union_end p fs)"

text \<open>The same equations with each position computed once, for evaluation.\<close>

lemma struct_end_code [code]:
  "struct_end p [] pos = pos"
  "struct_end p (f # fs) pos = (case field_pos p f pos of (s, w) \<Rightarrow> struct_end p fs (s + w))"
  by (simp_all add: case_prod_beta)

lemma union_end_code [code]:
  "union_end p [] = 0"
  "union_end p (f # fs) = (case field_pos p f 0 of (s, w) \<Rightarrow> max (s + w) (union_end p fs))"
  by (simp_all add: case_prod_beta)

text \<open>The members of a struct with their positions and widths in bits.\<close>

fun struct_members :: "bool \<Rightarrow> cfield list \<Rightarrow> nat \<Rightarrow> (cfield \<times> nat \<times> nat) list" where
  "struct_members p [] pos = []"
| "struct_members p (f # fs) pos =
     (let (o', w) = field_pos p f pos in (f, o', w) # struct_members p fs (o' + w))"

fun members :: "cty \<Rightarrow> (cfield \<times> nat \<times> nat) list" where
  "members (CStruct p fs) = struct_members p fs 0"
| "members (CUnion p fs) = map (\<lambda>f. (f, field_pos p f 0)) fs"
| "members _ = []"

text \<open>
  The bit position, bit width and type of a member reached by a path of names: the members of an unnamed struct or union
  member count as members of the enclosing type.
\<close>

fun locate :: "nat \<Rightarrow> string \<Rightarrow> (cfield \<times> nat \<times> nat) list \<Rightarrow> (nat \<times> nat \<times> cty) option" where
  "locate d n [] = None"
| "locate 0 n ((f, s, w) # ms) = (if fname f = n then Some (s, w, fty f) else locate 0 n ms)"
| "locate (Suc d) n ((f, s, w) # ms) =
     (if fname f = n then Some (s, w, fty f)
      else if fname f = [] then
        (case locate d n (members (fty f)) of
           None \<Rightarrow> locate (Suc d) n ms
         | Some (s', w', t) \<Rightarrow> Some (s + s', w', t))
      else locate (Suc d) n ms)"

text \<open>Types the C compiler accepts: integers of the machine's sizes, bit-fields of an integer type no
  wider than it.\<close>

fun wf_cty :: "cty \<Rightarrow> bool" and wf_fld :: "cfield \<Rightarrow> bool" and wf_flds :: "cfield list \<Rightarrow> bool" where
  "wf_cty (CInt n _) = (n \<in> {1, 2, 4, 8, 16})"
| "wf_cty CPtr = True"
| "wf_cty (CArr t _) = wf_cty t"
| "wf_cty (CStruct _ fs) = wf_flds fs"
| "wf_cty (CUnion _ fs) = wf_flds fs"
| "wf_fld (Fld _ t) = wf_cty t"
| "wf_fld (Bits _ t w) = (wf_cty t \<and> alignof t = sizeof t \<and> w \<le> 8 * sizeof t)"
| "wf_flds [] = True"
| "wf_flds (f # fs) = (wf_fld f \<and> wf_flds fs)"

fun is_struct :: "cty \<Rightarrow> bool" where
  "is_struct (CStruct p fs) = True"
| "is_struct _ = False"

fun is_packed :: "cty \<Rightarrow> bool" where
  "is_packed (CStruct p fs) = p"
| "is_packed _ = False"

section \<open>Soundness of the layout\<close>

lemma align_up_ge: "n \<le> align_up a n"
proof (cases "a = 0")
  case False
  have "n + (a - 1) = (n + (a - 1)) div a * a + (n + (a - 1)) mod a" by simp
  moreover have "(n + (a - 1)) mod a \<le> a - 1" using False by (simp add: Suc_leI mod_less_divisor less_Suc_eq_le [symmetric])
  ultimately have "n \<le> (n + (a - 1)) div a * a" by linarith
  with False show ?thesis by (simp add: align_up_def)
qed (simp add: align_up_def)

lemma align_up_dvd: "0 < a \<Longrightarrow> a dvd align_up a n"
  by (simp add: align_up_def)

lemma align_up_bytes: "0 < a \<Longrightarrow> 8 * (align_up (8 * a) n div 8) = align_up (8 * a) n"
  using align_up_dvd [of "8 * a" n] by (auto elim: dvdE)

lemma max_pow2: "\<exists>k. a = 2 ^ k \<Longrightarrow> \<exists>k. b = 2 ^ k \<Longrightarrow> \<exists>k. max a b = (2 :: nat) ^ k"
  by (auto simp: max_def)

lemma pow2_dvd: "\<exists>k. a = 2 ^ k \<Longrightarrow> \<exists>k. b = 2 ^ k \<Longrightarrow> a \<le> b \<Longrightarrow> (a :: nat) dvd b"
  by (auto simp: le_imp_power_dvd power_increasing_iff)

lemma alignof_pow2:
  "wf_cty t \<Longrightarrow> \<exists>k. alignof t = 2 ^ k"
  "wf_fld f \<Longrightarrow> \<exists>k. falign p f = 2 ^ k"
  "wf_flds fs \<Longrightarrow> \<exists>k. aligns p fs = 2 ^ k"
proof (induction t and p f and p fs rule: alignof_falign_aligns.induct)
  case (1 n u)
  have "(1 :: nat) = 2 ^ 0" "(2 :: nat) = 2 ^ 1" "(4 :: nat) = 2 ^ 2" "(8 :: nat) = 2 ^ 3"
    "(16 :: nat) = 2 ^ 4" by simp_all
  with 1 show ?case by (metis alignof.simps(1) insertE singletonD wf_cty.simps(1))
next
  case 2
  have "(8 :: nat) = 2 ^ 3" by simp
  then show ?case by (metis alignof.simps(2))
next
  case (6 p n t)
  have "(1 :: nat) = 2 ^ 0" by simp
  with 6 show ?case by (metis falign.simps(1) wf_fld.simps(1))
next
  case (7 p n t w)
  have "(1 :: nat) = 2 ^ 0" by simp
  with 7 show ?case by (metis falign.simps(2) wf_fld.simps(2))
next
  case (8 p)
  have "(1 :: nat) = 2 ^ 0" by simp
  then show ?case by (metis aligns.simps(1))
next
  case (9 p f fs)
  then show ?case by (simp add: max_pow2)
qed simp_all

lemma alignof_pos: "wf_cty t \<Longrightarrow> 0 < alignof t" and aligns_pos: "0 < aligns p fs"
  using alignof_pow2(1) [of t] by (auto, induction fs) auto

lemma wf_flds_mem: "wf_flds fs \<Longrightarrow> f \<in> set fs \<Longrightarrow> wf_fld f"
  by (induction fs) auto

lemma falign_dvd_aligns: "wf_flds fs \<Longrightarrow> f \<in> set fs \<Longrightarrow> falign p f dvd aligns p fs"
proof (induction fs)
  case (Cons g fs)
  have "\<exists>k. falign p f = 2 ^ k" "\<exists>k. aligns p (g # fs) = 2 ^ k"
    by (rule alignof_pow2(2) [OF wf_flds_mem [OF Cons.prems]], rule alignof_pow2(3) [OF Cons.prems(1)])
  moreover have "falign p f \<le> aligns p (g # fs)" using Cons dvd_imp_le [OF _ aligns_pos] by (auto simp: le_max_iff_disj)
  ultimately show ?case by (rule pow2_dvd)
qed simp

lemma sizeof_struct_bits: "8 * sizeof (CStruct p fs) = align_up (8 * aligns p fs) (struct_end p fs 0)"
  by (simp add: align_up_bytes aligns_pos)

lemma sizeof_union_bits: "8 * sizeof (CUnion p fs) = align_up (8 * aligns p fs) (union_end p fs)"
  by (simp add: align_up_bytes aligns_pos)

lemma alignof_dvd_sizeof: "alignof t dvd sizeof t"
proof (induction t rule: measure_induct_rule [of size])
  case (less t)
  show ?case
  proof (cases t)
    case (CArr u n)
    then show ?thesis using less [of u] by simp
  next
    case (CStruct p fs)
    have "8 * aligns p fs dvd 8 * sizeof (CStruct p fs)"
      unfolding sizeof_struct_bits by (intro align_up_dvd) (simp add: aligns_pos)
    then show ?thesis by (simp add: CStruct)
  next
    case (CUnion p fs)
    have "8 * aligns p fs dvd 8 * sizeof (CUnion p fs)"
      unfolding sizeof_union_bits by (intro align_up_dvd) (simp add: aligns_pos)
    then show ?thesis by (simp add: CUnion)
  qed simp_all
qed

lemma field_pos_ge: "pos \<le> fst (field_pos p f pos)"
  by (cases f) (simp_all add: place_fld_def place_bits_def align_up_ge)

lemma struct_end_ge: "pos \<le> struct_end p fs pos"
proof (induction fs arbitrary: pos)
  case (Cons f fs)
  have "pos \<le> fst (field_pos p f pos) + snd (field_pos p f pos)"
    using field_pos_ge [of pos p f] by simp
  also have "\<dots> \<le> struct_end p (f # fs) pos" using Cons.IH by simp
  finally show ?case .
qed simp

text \<open>Members lie one behind the other, between the position of the first and the struct's end.\<close>

lemma struct_members_range:
  "(f, s, w) \<in> set (struct_members p fs pos) \<Longrightarrow> pos \<le> s \<and> s + w \<le> struct_end p fs pos"
proof (induction fs arbitrary: pos)
  case (Cons g fs)
  obtain s' w' where g: "field_pos p g pos = (s', w')" by (cases "field_pos p g pos")
  then have "pos \<le> s'" using field_pos_ge [of pos p g] by simp
  moreover have "s' + w' \<le> struct_end p fs (s' + w')" by (rule struct_end_ge)
  ultimately show ?case using Cons.prems Cons.IH [of "s' + w'"] by (auto simp: g)
qed simp

definition before :: "cfield \<times> nat \<times> nat \<Rightarrow> cfield \<times> nat \<times> nat \<Rightarrow> bool" where
  "before m m' \<longleftrightarrow> fst (snd m) + snd (snd m) \<le> fst (snd m')"

lemma struct_members_before: "sorted_wrt before (struct_members p fs pos)"
proof (induction fs arbitrary: pos)
  case (Cons f fs)
  then show ?case
    by (auto simp: before_def split: prod.split dest: struct_members_range)
qed simp

lemma field_pos_aligned:
  assumes "wf_fld f"
  shows "(case f of Fld _ t \<Rightarrow> p \<or> 8 * alignof t dvd fst (field_pos p f pos)
          | Bits _ t w \<Rightarrow> p \<or> fst (field_pos p f pos) mod (8 * sizeof t) + w \<le> 8 * sizeof t)"
proof (cases f)
  case (Fld n t)
  then show ?thesis
    using assms alignof_pos [of t] by (auto simp: place_fld_def intro: align_up_dvd)
next
  case (Bits n t w)
  then have a: "alignof t = sizeof t" "w \<le> 8 * sizeof t" "0 < alignof t"
    using assms alignof_pos [of t] by auto
  then have "align_up (8 * alignof t) pos mod (8 * sizeof t) = 0"
    using align_up_dvd [of "8 * alignof t" pos] by (simp add: dvd_eq_mod_eq_0)
  with a show ?thesis by (auto simp: Bits place_bits_def)
qed

lemma struct_members_aligned:
  "wf_flds fs \<Longrightarrow> (f, s, w) \<in> set (struct_members p fs pos) \<Longrightarrow>
   f \<in> set fs \<and> (\<exists>pos'. (s, w) = field_pos p f pos')"
proof (induction fs arbitrary: pos)
  case (Cons g fs)
  then show ?case by (fastforce split: prod.splits)
qed simp

text \<open>In every well-formed struct the members follow each other without overlap and end inside the
  struct, whose size is a multiple of its alignment; unless it is packed, every ordinary member
  is at a multiple of its alignment, which divides the struct's alignment, and every bit-field
  lies inside one storage unit of its type.\<close>

lemma struct_layout_sound:
  assumes "wf_cty (CStruct p fs)"
  shows "sorted_wrt before (members (CStruct p fs)) \<and>
    alignof (CStruct p fs) dvd sizeof (CStruct p fs) \<and>
    (\<forall>(f, s, w) \<in> set (members (CStruct p fs)).
       s + w \<le> 8 * sizeof (CStruct p fs) \<and>
       (p \<or> (case f of
          Fld _ t \<Rightarrow> s mod (8 * alignof t) = 0 \<and> alignof t dvd alignof (CStruct p fs)
        | Bits _ t b \<Rightarrow> w = b \<and> s mod (8 * sizeof t) + b \<le> 8 * sizeof t)))"
proof -
  have wf: "wf_flds fs" using assms by simp
  { fix f s w assume m: "(f, s, w) \<in> set (members (CStruct p fs))"
    then have mem: "(f, s, w) \<in> set (struct_members p fs 0)" by simp
    from struct_members_aligned [OF wf mem] obtain pos
      where f: "f \<in> set fs" and pos: "(s, w) = field_pos p f pos" by blast
    have "wf_fld f" using wf f by (rule wf_flds_mem)
    from struct_members_range [OF mem] have "s + w \<le> struct_end p fs 0" by simp
    also have "\<dots> \<le> 8 * sizeof (CStruct p fs)"
      unfolding sizeof_struct_bits by (rule align_up_ge)
    finally have "s + w \<le> 8 * sizeof (CStruct p fs)" .
    moreover have "p \<or> (case f of
          Fld _ t \<Rightarrow> s mod (8 * alignof t) = 0 \<and> alignof t dvd alignof (CStruct p fs)
        | Bits _ t b \<Rightarrow> w = b \<and> s mod (8 * sizeof t) + b \<le> 8 * sizeof t)"
      using field_pos_aligned [OF \<open>wf_fld f\<close>, of p pos] pos falign_dvd_aligns [OF wf f, of p]
      by (cases f) (auto simp: dvd_eq_mod_eq_0)
    ultimately have "s + w \<le> 8 * sizeof (CStruct p fs) \<and>
       (p \<or> (case f of
          Fld _ t \<Rightarrow> s mod (8 * alignof t) = 0 \<and> alignof t dvd alignof (CStruct p fs)
        | Bits _ t b \<Rightarrow> w = b \<and> s mod (8 * sizeof t) + b \<le> 8 * sizeof t))" by blast }
  moreover have "sorted_wrt before (members (CStruct p fs))"
    by (simp add: struct_members_before)
  ultimately show ?thesis using alignof_dvd_sizeof [of "CStruct p fs"] by blast
qed

definition layout_sound :: "cty \<Rightarrow> bool" where
  "layout_sound t \<longleftrightarrow>
     sorted_wrt before (members t) \<and> alignof t dvd sizeof t \<and>
     (\<forall>(f, s, w) \<in> set (members t). s + w \<le> 8 * sizeof t \<and>
        (is_packed t \<or> (case f of
           Fld _ u \<Rightarrow> s mod (8 * alignof u) = 0 \<and> alignof u dvd alignof t
         | Bits _ u b \<Rightarrow> w = b \<and> s mod (8 * sizeof u) + b \<le> 8 * sizeof u)))"

lemma wf_layout_sound: "is_struct t \<Longrightarrow> wf_cty t \<Longrightarrow> layout_sound t"
  using struct_layout_sound by (cases t) (auto simp: layout_sound_def)

text \<open>Evaluation: a declaration is laid out from the sizes and alignments of the types it names.\<close>

declare align_up_def [layout] place_fld_def [layout] place_bits_def [layout]

end
