(* ===== verification/Vm_Headers.thy ===== *)
theory Vm_Headers
  imports CLayout
begin

text \<open>
  Packet headers: the Ethernet, VLAN, ARP, IPv4, IPv6, UDP, TCP and ICMP headers. Translated
  declaration by declaration from \<open>ebpf/vmlinux.h\<close>, in the order the types depend
  on each other; each type is followed by its size and alignment, computed by the layout.
\<close>

definition td___u16 :: cty where
  "td___u16 = C_ushort"

lemma layout_td___u16 [layout]:
  "sizeof td___u16 = 2" "alignof td___u16 = 2" "wf_cty td___u16"
  by (simp_all add: td___u16_def layout)

definition td___be16 :: cty where
  "td___be16 = td___u16"

lemma layout_td___be16 [layout]:
  "sizeof td___be16 = 2" "alignof td___be16 = 2" "wf_cty td___be16"
  by (simp_all add: td___be16_def layout)

definition struct_ethhdr :: cty where
  "struct_ethhdr = Struct [Fld ''h_dest'' (CArr C_uchar 6), Fld ''h_source'' (CArr C_uchar 6),
     Fld ''h_proto'' td___be16]"

lemma layout_struct_ethhdr [layout]:
  "sizeof struct_ethhdr = 14" "alignof struct_ethhdr = 2" "wf_cty struct_ethhdr" "is_struct struct_ethhdr"
  by (simp_all add: struct_ethhdr_def layout)

definition struct_vlan_hdr :: cty where
  "struct_vlan_hdr = Struct [Fld ''h_vlan_TCI'' td___be16,
     Fld ''h_vlan_encapsulated_proto'' td___be16]"

lemma layout_struct_vlan_hdr [layout]:
  "sizeof struct_vlan_hdr = 4" "alignof struct_vlan_hdr = 2" "wf_cty struct_vlan_hdr" "is_struct struct_vlan_hdr"
  by (simp_all add: struct_vlan_hdr_def layout)

definition struct_vlan_ethhdr :: cty where
  "struct_vlan_ethhdr =
     Struct [Fld '''' (Union [Fld '''' (Struct [Fld ''h_dest'' (CArr C_uchar 6),
     Fld ''h_source'' (CArr C_uchar 6)]), Fld ''addrs'' (Struct [Fld ''h_dest'' (CArr C_uchar 6),
     Fld ''h_source'' (CArr C_uchar 6)])]), Fld ''h_vlan_proto'' td___be16,
     Fld ''h_vlan_TCI'' td___be16, Fld ''h_vlan_encapsulated_proto'' td___be16]"

lemma layout_struct_vlan_ethhdr [layout]:
  "sizeof struct_vlan_ethhdr = 18" "alignof struct_vlan_ethhdr = 2" "wf_cty struct_vlan_ethhdr" "is_struct struct_vlan_ethhdr"
  by (simp_all add: struct_vlan_ethhdr_def layout)

definition struct_arphdr :: cty where
  "struct_arphdr = Struct [Fld ''ar_hrd'' td___be16, Fld ''ar_pro'' td___be16,
     Fld ''ar_hln'' C_uchar, Fld ''ar_pln'' C_uchar, Fld ''ar_op'' td___be16]"

lemma layout_struct_arphdr [layout]:
  "sizeof struct_arphdr = 8" "alignof struct_arphdr = 2" "wf_cty struct_arphdr" "is_struct struct_arphdr"
  by (simp_all add: struct_arphdr_def layout)

definition td___u8 :: cty where
  "td___u8 = C_uchar"

lemma layout_td___u8 [layout]:
  "sizeof td___u8 = 1" "alignof td___u8 = 1" "wf_cty td___u8"
  by (simp_all add: td___u8_def layout)

definition td___sum16 :: cty where
  "td___sum16 = td___u16"

lemma layout_td___sum16 [layout]:
  "sizeof td___sum16 = 2" "alignof td___sum16 = 2" "wf_cty td___sum16"
  by (simp_all add: td___sum16_def layout)

definition td___u32 :: cty where
  "td___u32 = C_uint"

lemma layout_td___u32 [layout]:
  "sizeof td___u32 = 4" "alignof td___u32 = 4" "wf_cty td___u32"
  by (simp_all add: td___u32_def layout)

definition td___be32 :: cty where
  "td___be32 = td___u32"

lemma layout_td___be32 [layout]:
  "sizeof td___be32 = 4" "alignof td___be32 = 4" "wf_cty td___be32"
  by (simp_all add: td___be32_def layout)

definition struct_iphdr :: cty where
  "struct_iphdr = Struct [Bits ''ihl'' td___u8 4, Bits ''version'' td___u8 4, Fld ''tos'' td___u8,
     Fld ''tot_len'' td___be16, Fld ''id'' td___be16, Fld ''frag_off'' td___be16,
     Fld ''ttl'' td___u8, Fld ''protocol'' td___u8, Fld ''check'' td___sum16,
     Fld '''' (Union [Fld '''' (Struct [Fld ''saddr'' td___be32, Fld ''daddr'' td___be32]),
     Fld ''addrs'' (Struct [Fld ''saddr'' td___be32, Fld ''daddr'' td___be32])])]"

lemma layout_struct_iphdr [layout]:
  "sizeof struct_iphdr = 20" "alignof struct_iphdr = 4" "wf_cty struct_iphdr" "is_struct struct_iphdr"
  by (simp_all add: struct_iphdr_def layout)

definition struct_in6_addr :: cty where
  "struct_in6_addr = Struct [Fld ''in6_u'' (Union [Fld ''u6_addr8'' (CArr td___u8 16),
     Fld ''u6_addr16'' (CArr td___be16 8), Fld ''u6_addr32'' (CArr td___be32 4)])]"

lemma layout_struct_in6_addr [layout]:
  "sizeof struct_in6_addr = 16" "alignof struct_in6_addr = 4" "wf_cty struct_in6_addr" "is_struct struct_in6_addr"
  by (simp_all add: struct_in6_addr_def layout)

definition struct_ipv6hdr :: cty where
  "struct_ipv6hdr = Struct [Bits ''priority'' td___u8 4, Bits ''version'' td___u8 4,
     Fld ''flow_lbl'' (CArr td___u8 3), Fld ''payload_len'' td___be16, Fld ''nexthdr'' td___u8,
     Fld ''hop_limit'' td___u8, Fld '''' (Union [Fld '''' (Struct [Fld ''saddr'' struct_in6_addr,
     Fld ''daddr'' struct_in6_addr]), Fld ''addrs'' (Struct [Fld ''saddr'' struct_in6_addr,
     Fld ''daddr'' struct_in6_addr])])]"

lemma layout_struct_ipv6hdr [layout]:
  "sizeof struct_ipv6hdr = 40" "alignof struct_ipv6hdr = 4" "wf_cty struct_ipv6hdr" "is_struct struct_ipv6hdr"
  by (simp_all add: struct_ipv6hdr_def layout)

definition struct_udphdr :: cty where
  "struct_udphdr = Struct [Fld ''source'' td___be16, Fld ''dest'' td___be16,
     Fld ''len'' td___be16, Fld ''check'' td___sum16]"

lemma layout_struct_udphdr [layout]:
  "sizeof struct_udphdr = 8" "alignof struct_udphdr = 2" "wf_cty struct_udphdr" "is_struct struct_udphdr"
  by (simp_all add: struct_udphdr_def layout)

definition struct_tcphdr :: cty where
  "struct_tcphdr = Struct [Fld ''source'' td___be16, Fld ''dest'' td___be16,
     Fld ''seq'' td___be32, Fld ''ack_seq'' td___be32, Bits ''res1'' td___u16 4,
     Bits ''doff'' td___u16 4, Bits ''fin'' td___u16 1, Bits ''syn'' td___u16 1,
     Bits ''rst'' td___u16 1, Bits ''psh'' td___u16 1, Bits ''ack'' td___u16 1,
     Bits ''urg'' td___u16 1, Bits ''ece'' td___u16 1, Bits ''cwr'' td___u16 1,
     Fld ''window'' td___be16, Fld ''check'' td___sum16, Fld ''urg_ptr'' td___be16]"

lemma layout_struct_tcphdr [layout]:
  "sizeof struct_tcphdr = 20" "alignof struct_tcphdr = 4" "wf_cty struct_tcphdr" "is_struct struct_tcphdr"
  by (simp_all add: struct_tcphdr_def layout)

definition struct_icmphdr :: cty where
  "struct_icmphdr = Struct [Fld ''type'' td___u8, Fld ''code'' td___u8,
     Fld ''checksum'' td___sum16, Fld ''un'' (Union [Fld ''echo'' (Struct [Fld ''id'' td___be16,
     Fld ''sequence'' td___be16]), Fld ''gateway'' td___be32,
     Fld ''frag'' (Struct [Fld ''__unused'' td___be16, Fld ''mtu'' td___be16]),
     Fld ''reserved'' (CArr td___u8 4)])]"

lemma layout_struct_icmphdr [layout]:
  "sizeof struct_icmphdr = 8" "alignof struct_icmphdr = 4" "wf_cty struct_icmphdr" "is_struct struct_icmphdr"
  by (simp_all add: struct_icmphdr_def layout)

definition struct_in_addr :: cty where
  "struct_in_addr = Struct [Fld ''s_addr'' td___be32]"

lemma layout_struct_in_addr [layout]:
  "sizeof struct_in_addr = 4" "alignof struct_in_addr = 4" "wf_cty struct_in_addr" "is_struct struct_in_addr"
  by (simp_all add: struct_in_addr_def layout)

definition td___kernel_sa_family_t :: cty where
  "td___kernel_sa_family_t = C_ushort"

lemma layout_td___kernel_sa_family_t [layout]:
  "sizeof td___kernel_sa_family_t = 2" "alignof td___kernel_sa_family_t = 2" "wf_cty td___kernel_sa_family_t"
  by (simp_all add: td___kernel_sa_family_t_def layout)

definition struct_sockaddr_in :: cty where
  "struct_sockaddr_in = Struct [Fld ''sin_family'' td___kernel_sa_family_t,
     Fld ''sin_port'' td___be16, Fld ''sin_addr'' struct_in_addr, Fld ''__pad'' (CArr C_uchar 8)]"

lemma layout_struct_sockaddr_in [layout]:
  "sizeof struct_sockaddr_in = 16" "alignof struct_sockaddr_in = 4" "wf_cty struct_sockaddr_in" "is_struct struct_sockaddr_in"
  by (simp_all add: struct_sockaddr_in_def layout)

end
