(* ===== verification/Vm_BpfUapi.thy ===== *)
theory Vm_BpfUapi
  imports Vm_Headers
begin

text \<open>
  The interface between BPF programs, user space and the kernel: the program contexts, among
  them \<open>struct __sk_buff\<close>, the attributes of the \<open>bpf\<close> system call,
  and the enumerations of map types, program types and helpers. Translated declaration by
  declaration from \<open>ebpf/vmlinux.h\<close>, in the order the types depend on each other;
  each type is followed by its size and alignment, computed by the layout.
\<close>

definition td___u64 :: cty where
  "td___u64 = C_ulonglong"

lemma layout_td___u64 [layout]:
  "sizeof td___u64 = 8" "alignof td___u64 = 8" "wf_cty td___u64"
  by (simp_all add: td___u64_def layout)

definition struct___sk_buff :: cty where
  "struct___sk_buff = Struct [Fld ''len'' td___u32, Fld ''pkt_type'' td___u32,
     Fld ''mark'' td___u32, Fld ''queue_mapping'' td___u32, Fld ''protocol'' td___u32,
     Fld ''vlan_present'' td___u32, Fld ''vlan_tci'' td___u32, Fld ''vlan_proto'' td___u32,
     Fld ''priority'' td___u32, Fld ''ingress_ifindex'' td___u32, Fld ''ifindex'' td___u32,
     Fld ''tc_index'' td___u32, Fld ''cb'' (CArr td___u32 5), Fld ''hash'' td___u32,
     Fld ''tc_classid'' td___u32, Fld ''data'' td___u32, Fld ''data_end'' td___u32,
     Fld ''napi_id'' td___u32, Fld ''family'' td___u32, Fld ''remote_ip4'' td___u32,
     Fld ''local_ip4'' td___u32, Fld ''remote_ip6'' (CArr td___u32 4),
     Fld ''local_ip6'' (CArr td___u32 4), Fld ''remote_port'' td___u32,
     Fld ''local_port'' td___u32, Fld ''data_meta'' td___u32,
     Fld '''' (Union [Fld ''flow_keys'' CPtr]), Fld ''tstamp'' td___u64,
     Fld ''wire_len'' td___u32, Fld ''gso_segs'' td___u32, Fld '''' (Union [Fld ''sk'' CPtr]),
     Fld ''gso_size'' td___u32, Fld ''tstamp_type'' td___u8, Fld ''hwtstamp'' td___u64]"

lemma layout_struct___sk_buff [layout]:
  "sizeof struct___sk_buff = 192" "alignof struct___sk_buff = 8" "wf_cty struct___sk_buff" "is_struct struct___sk_buff"
  by (simp_all add: struct___sk_buff_def layout)

definition td___s32 :: cty where
  "td___s32 = C_int"

lemma layout_td___s32 [layout]:
  "sizeof td___s32 = 4" "alignof td___s32 = 4" "wf_cty td___s32"
  by (simp_all add: td___s32_def layout)

definition struct_bpf_sock :: cty where
  "struct_bpf_sock = Struct [Fld ''bound_dev_if'' td___u32, Fld ''family'' td___u32,
     Fld ''type'' td___u32, Fld ''protocol'' td___u32, Fld ''mark'' td___u32,
     Fld ''priority'' td___u32, Fld ''src_ip4'' td___u32, Fld ''src_ip6'' (CArr td___u32 4),
     Fld ''src_port'' td___u32, Fld ''dst_port'' td___be16, Fld ''dst_ip4'' td___u32,
     Fld ''dst_ip6'' (CArr td___u32 4), Fld ''state'' td___u32,
     Fld ''rx_queue_mapping'' td___s32]"

lemma layout_struct_bpf_sock [layout]:
  "sizeof struct_bpf_sock = 80" "alignof struct_bpf_sock = 4" "wf_cty struct_bpf_sock" "is_struct struct_bpf_sock"
  by (simp_all add: struct_bpf_sock_def layout)

definition struct_bpf_flow_keys :: cty where
  "struct_bpf_flow_keys = Struct [Fld ''nhoff'' td___u16, Fld ''thoff'' td___u16,
     Fld ''addr_proto'' td___u16, Fld ''is_frag'' td___u8, Fld ''is_first_frag'' td___u8,
     Fld ''is_encap'' td___u8, Fld ''ip_proto'' td___u8, Fld ''n_proto'' td___be16,
     Fld ''sport'' td___be16, Fld ''dport'' td___be16,
     Fld '''' (Union [Fld '''' (Struct [Fld ''ipv4_src'' td___be32, Fld ''ipv4_dst'' td___be32]),
     Fld '''' (Struct [Fld ''ipv6_src'' (CArr td___u32 4), Fld ''ipv6_dst'' (CArr td___u32 4)])]),
     Fld ''flags'' td___u32, Fld ''flow_label'' td___be32]"

lemma layout_struct_bpf_flow_keys [layout]:
  "sizeof struct_bpf_flow_keys = 56" "alignof struct_bpf_flow_keys = 4" "wf_cty struct_bpf_flow_keys" "is_struct struct_bpf_flow_keys"
  by (simp_all add: struct_bpf_flow_keys_def layout)

definition struct_bpf_tunnel_key :: cty where
  "struct_bpf_tunnel_key = Struct [Fld ''tunnel_id'' td___u32,
     Fld '''' (Union [Fld ''remote_ipv4'' td___u32, Fld ''remote_ipv6'' (CArr td___u32 4)]),
     Fld ''tunnel_tos'' td___u8, Fld ''tunnel_ttl'' td___u8,
     Fld '''' (Union [Fld ''tunnel_ext'' td___u16, Fld ''tunnel_flags'' td___be16]),
     Fld ''tunnel_label'' td___u32, Fld '''' (Union [Fld ''local_ipv4'' td___u32,
     Fld ''local_ipv6'' (CArr td___u32 4)])]"

lemma layout_struct_bpf_tunnel_key [layout]:
  "sizeof struct_bpf_tunnel_key = 44" "alignof struct_bpf_tunnel_key = 4" "wf_cty struct_bpf_tunnel_key" "is_struct struct_bpf_tunnel_key"
  by (simp_all add: struct_bpf_tunnel_key_def layout)

definition struct_xdp_md :: cty where
  "struct_xdp_md = Struct [Fld ''data'' td___u32, Fld ''data_end'' td___u32,
     Fld ''data_meta'' td___u32, Fld ''ingress_ifindex'' td___u32,
     Fld ''rx_queue_index'' td___u32, Fld ''egress_ifindex'' td___u32]"

lemma layout_struct_xdp_md [layout]:
  "sizeof struct_xdp_md = 24" "alignof struct_xdp_md = 4" "wf_cty struct_xdp_md" "is_struct struct_xdp_md"
  by (simp_all add: struct_xdp_md_def layout)

definition struct_bpf_tcp_sock :: cty where
  "struct_bpf_tcp_sock = Struct [Fld ''snd_cwnd'' td___u32, Fld ''srtt_us'' td___u32,
     Fld ''rtt_min'' td___u32, Fld ''snd_ssthresh'' td___u32, Fld ''rcv_nxt'' td___u32,
     Fld ''snd_nxt'' td___u32, Fld ''snd_una'' td___u32, Fld ''mss_cache'' td___u32,
     Fld ''ecn_flags'' td___u32, Fld ''rate_delivered'' td___u32,
     Fld ''rate_interval_us'' td___u32, Fld ''packets_out'' td___u32,
     Fld ''retrans_out'' td___u32, Fld ''total_retrans'' td___u32, Fld ''segs_in'' td___u32,
     Fld ''data_segs_in'' td___u32, Fld ''segs_out'' td___u32, Fld ''data_segs_out'' td___u32,
     Fld ''lost_out'' td___u32, Fld ''sacked_out'' td___u32, Fld ''bytes_received'' td___u64,
     Fld ''bytes_acked'' td___u64, Fld ''dsack_dups'' td___u32, Fld ''delivered'' td___u32,
     Fld ''delivered_ce'' td___u32, Fld ''icsk_retransmits'' td___u32]"

lemma layout_struct_bpf_tcp_sock [layout]:
  "sizeof struct_bpf_tcp_sock = 112" "alignof struct_bpf_tcp_sock = 8" "wf_cty struct_bpf_tcp_sock" "is_struct struct_bpf_tcp_sock"
  by (simp_all add: struct_bpf_tcp_sock_def layout)

definition td___s16 :: cty where
  "td___s16 = C_short"

lemma layout_td___s16 [layout]:
  "sizeof td___s16 = 2" "alignof td___s16 = 2" "wf_cty td___s16"
  by (simp_all add: td___s16_def layout)

definition struct_bpf_insn :: cty where
  "struct_bpf_insn = Struct [Fld ''code'' td___u8, Bits ''dst_reg'' td___u8 4,
     Bits ''src_reg'' td___u8 4, Fld ''off'' td___s16, Fld ''imm'' td___s32]"

lemma layout_struct_bpf_insn [layout]:
  "sizeof struct_bpf_insn = 8" "alignof struct_bpf_insn = 4" "wf_cty struct_bpf_insn" "is_struct struct_bpf_insn"
  by (simp_all add: struct_bpf_insn_def layout)

definition struct_bpf_sock_addr :: cty where
  "struct_bpf_sock_addr = Struct [Fld ''user_family'' td___u32, Fld ''user_ip4'' td___u32,
     Fld ''user_ip6'' (CArr td___u32 4), Fld ''user_port'' td___u32, Fld ''family'' td___u32,
     Fld ''type'' td___u32, Fld ''protocol'' td___u32, Fld ''msg_src_ip4'' td___u32,
     Fld ''msg_src_ip6'' (CArr td___u32 4), Fld '''' (Union [Fld ''sk'' CPtr])]"

lemma layout_struct_bpf_sock_addr [layout]:
  "sizeof struct_bpf_sock_addr = 72" "alignof struct_bpf_sock_addr = 8" "wf_cty struct_bpf_sock_addr" "is_struct struct_bpf_sock_addr"
  by (simp_all add: struct_bpf_sock_addr_def layout)

definition struct_bpf_sock_ops :: cty where
  "struct_bpf_sock_ops = Struct [Fld ''op'' td___u32,
     Fld '''' (Union [Fld ''args'' (CArr td___u32 4), Fld ''reply'' td___u32,
     Fld ''replylong'' (CArr td___u32 4)]), Fld ''family'' td___u32, Fld ''remote_ip4'' td___u32,
     Fld ''local_ip4'' td___u32, Fld ''remote_ip6'' (CArr td___u32 4),
     Fld ''local_ip6'' (CArr td___u32 4), Fld ''remote_port'' td___u32,
     Fld ''local_port'' td___u32, Fld ''is_fullsock'' td___u32, Fld ''snd_cwnd'' td___u32,
     Fld ''srtt_us'' td___u32, Fld ''bpf_sock_ops_cb_flags'' td___u32, Fld ''state'' td___u32,
     Fld ''rtt_min'' td___u32, Fld ''snd_ssthresh'' td___u32, Fld ''rcv_nxt'' td___u32,
     Fld ''snd_nxt'' td___u32, Fld ''snd_una'' td___u32, Fld ''mss_cache'' td___u32,
     Fld ''ecn_flags'' td___u32, Fld ''rate_delivered'' td___u32,
     Fld ''rate_interval_us'' td___u32, Fld ''packets_out'' td___u32,
     Fld ''retrans_out'' td___u32, Fld ''total_retrans'' td___u32, Fld ''segs_in'' td___u32,
     Fld ''data_segs_in'' td___u32, Fld ''segs_out'' td___u32, Fld ''data_segs_out'' td___u32,
     Fld ''lost_out'' td___u32, Fld ''sacked_out'' td___u32, Fld ''sk_txhash'' td___u32,
     Fld ''bytes_received'' td___u64, Fld ''bytes_acked'' td___u64,
     Fld '''' (Union [Fld ''sk'' CPtr]), Fld '''' (Union [Fld ''skb_data'' CPtr]),
     Fld '''' (Union [Fld ''skb_data_end'' CPtr]), Fld ''skb_len'' td___u32,
     Fld ''skb_tcp_flags'' td___u32, Fld ''skb_hwtstamp'' td___u64]"

lemma layout_struct_bpf_sock_ops [layout]:
  "sizeof struct_bpf_sock_ops = 224" "alignof struct_bpf_sock_ops = 8" "wf_cty struct_bpf_sock_ops" "is_struct struct_bpf_sock_ops"
  by (simp_all add: struct_bpf_sock_ops_def layout)

definition struct_sk_msg_md :: cty where
  "struct_sk_msg_md = Struct [Fld '''' (Union [Fld ''data'' CPtr]),
     Fld '''' (Union [Fld ''data_end'' CPtr]), Fld ''family'' td___u32,
     Fld ''remote_ip4'' td___u32, Fld ''local_ip4'' td___u32,
     Fld ''remote_ip6'' (CArr td___u32 4), Fld ''local_ip6'' (CArr td___u32 4),
     Fld ''remote_port'' td___u32, Fld ''local_port'' td___u32, Fld ''size'' td___u32,
     Fld '''' (Union [Fld ''sk'' CPtr])]"

lemma layout_struct_sk_msg_md [layout]:
  "sizeof struct_sk_msg_md = 80" "alignof struct_sk_msg_md = 8" "wf_cty struct_sk_msg_md" "is_struct struct_sk_msg_md"
  by (simp_all add: struct_sk_msg_md_def layout)

definition struct_sk_reuseport_md :: cty where
  "struct_sk_reuseport_md = Struct [Fld '''' (Union [Fld ''data'' CPtr]),
     Fld '''' (Union [Fld ''data_end'' CPtr]), Fld ''len'' td___u32,
     Fld ''eth_protocol'' td___u32, Fld ''ip_protocol'' td___u32, Fld ''bind_inany'' td___u32,
     Fld ''hash'' td___u32, Fld '''' (Union [Fld ''sk'' CPtr]),
     Fld '''' (Union [Fld ''migrating_sk'' CPtr])]"

lemma layout_struct_sk_reuseport_md [layout]:
  "sizeof struct_sk_reuseport_md = 56" "alignof struct_sk_reuseport_md = 8" "wf_cty struct_sk_reuseport_md" "is_struct struct_sk_reuseport_md"
  by (simp_all add: struct_sk_reuseport_md_def layout)

definition struct_bpf_map_info :: cty where
  "struct_bpf_map_info = Struct [Fld ''type'' td___u32, Fld ''id'' td___u32,
     Fld ''key_size'' td___u32, Fld ''value_size'' td___u32, Fld ''max_entries'' td___u32,
     Fld ''map_flags'' td___u32, Fld ''name'' (CArr C_char 16), Fld ''ifindex'' td___u32,
     Fld ''btf_vmlinux_value_type_id'' td___u32, Fld ''netns_dev'' td___u64,
     Fld ''netns_ino'' td___u64, Fld ''btf_id'' td___u32, Fld ''btf_key_type_id'' td___u32,
     Fld ''btf_value_type_id'' td___u32, Fld ''map_extra'' td___u64]"

lemma layout_struct_bpf_map_info [layout]:
  "sizeof struct_bpf_map_info = 88" "alignof struct_bpf_map_info = 8" "wf_cty struct_bpf_map_info" "is_struct struct_bpf_map_info"
  by (simp_all add: struct_bpf_map_info_def layout)

definition struct_bpf_prog_info :: cty where
  "struct_bpf_prog_info = Struct [Fld ''type'' td___u32, Fld ''id'' td___u32,
     Fld ''tag'' (CArr td___u8 8), Fld ''jited_prog_len'' td___u32,
     Fld ''xlated_prog_len'' td___u32, Fld ''jited_prog_insns'' td___u64,
     Fld ''xlated_prog_insns'' td___u64, Fld ''load_time'' td___u64,
     Fld ''created_by_uid'' td___u32, Fld ''nr_map_ids'' td___u32, Fld ''map_ids'' td___u64,
     Fld ''name'' (CArr C_char 16), Fld ''ifindex'' td___u32, Bits ''gpl_compatible'' td___u32 1,
     Fld ''netns_dev'' td___u64, Fld ''netns_ino'' td___u64, Fld ''nr_jited_ksyms'' td___u32,
     Fld ''nr_jited_func_lens'' td___u32, Fld ''jited_ksyms'' td___u64,
     Fld ''jited_func_lens'' td___u64, Fld ''btf_id'' td___u32,
     Fld ''func_info_rec_size'' td___u32, Fld ''func_info'' td___u64,
     Fld ''nr_func_info'' td___u32, Fld ''nr_line_info'' td___u32, Fld ''line_info'' td___u64,
     Fld ''jited_line_info'' td___u64, Fld ''nr_jited_line_info'' td___u32,
     Fld ''line_info_rec_size'' td___u32, Fld ''jited_line_info_rec_size'' td___u32,
     Fld ''nr_prog_tags'' td___u32, Fld ''prog_tags'' td___u64, Fld ''run_time_ns'' td___u64,
     Fld ''run_cnt'' td___u64, Fld ''recursion_misses'' td___u64, Fld ''verified_insns'' td___u32,
     Fld ''attach_btf_obj_id'' td___u32, Fld ''attach_btf_id'' td___u32]"

lemma layout_struct_bpf_prog_info [layout]:
  "sizeof struct_bpf_prog_info = 232" "alignof struct_bpf_prog_info = 8" "wf_cty struct_bpf_prog_info" "is_struct struct_bpf_prog_info"
  by (simp_all add: struct_bpf_prog_info_def layout)

definition struct_bpf_btf_info :: cty where
  "struct_bpf_btf_info = Struct [Fld ''btf'' td___u64, Fld ''btf_size'' td___u32,
     Fld ''id'' td___u32, Fld ''name'' td___u64, Fld ''name_len'' td___u32,
     Fld ''kernel_btf'' td___u32]"

lemma layout_struct_bpf_btf_info [layout]:
  "sizeof struct_bpf_btf_info = 32" "alignof struct_bpf_btf_info = 8" "wf_cty struct_bpf_btf_info" "is_struct struct_bpf_btf_info"
  by (simp_all add: struct_bpf_btf_info_def layout)

definition struct_bpf_link_info :: cty where
  "struct_bpf_link_info = Struct [Fld ''type'' td___u32, Fld ''id'' td___u32,
     Fld ''prog_id'' td___u32,
     Fld '''' (Union [Fld ''raw_tracepoint'' (Struct [Fld ''tp_name'' td___u64,
     Fld ''tp_name_len'' td___u32]), Fld ''tracing'' (Struct [Fld ''attach_type'' td___u32,
     Fld ''target_obj_id'' td___u32, Fld ''target_btf_id'' td___u32]),
     Fld ''cgroup'' (Struct [Fld ''cgroup_id'' td___u64, Fld ''attach_type'' td___u32]),
     Fld ''iter'' (Struct [Fld ''target_name'' td___u64, Fld ''target_name_len'' td___u32,
     Fld '''' (Union [Fld ''map'' (Struct [Fld ''map_id'' td___u32])]),
     Fld '''' (Union [Fld ''cgroup'' (Struct [Fld ''cgroup_id'' td___u64,
     Fld ''order'' td___u32]), Fld ''task'' (Struct [Fld ''tid'' td___u32,
     Fld ''pid'' td___u32])])]), Fld ''netns'' (Struct [Fld ''netns_ino'' td___u32,
     Fld ''attach_type'' td___u32]), Fld ''xdp'' (Struct [Fld ''ifindex'' td___u32]),
     Fld ''struct_ops'' (Struct [Fld ''map_id'' td___u32]),
     Fld ''netfilter'' (Struct [Fld ''pf'' td___u32, Fld ''hooknum'' td___u32,
     Fld ''priority'' td___s32, Fld ''flags'' td___u32])])]"

lemma layout_struct_bpf_link_info [layout]:
  "sizeof struct_bpf_link_info = 48" "alignof struct_bpf_link_info = 8" "wf_cty struct_bpf_link_info" "is_struct struct_bpf_link_info"
  by (simp_all add: struct_bpf_link_info_def layout)

definition struct_bpf_func_info :: cty where
  "struct_bpf_func_info = Struct [Fld ''insn_off'' td___u32, Fld ''type_id'' td___u32]"

lemma layout_struct_bpf_func_info [layout]:
  "sizeof struct_bpf_func_info = 8" "alignof struct_bpf_func_info = 4" "wf_cty struct_bpf_func_info" "is_struct struct_bpf_func_info"
  by (simp_all add: struct_bpf_func_info_def layout)

definition struct_bpf_line_info :: cty where
  "struct_bpf_line_info = Struct [Fld ''insn_off'' td___u32, Fld ''file_name_off'' td___u32,
     Fld ''line_off'' td___u32, Fld ''line_col'' td___u32]"

lemma layout_struct_bpf_line_info [layout]:
  "sizeof struct_bpf_line_info = 16" "alignof struct_bpf_line_info = 4" "wf_cty struct_bpf_line_info" "is_struct struct_bpf_line_info"
  by (simp_all add: struct_bpf_line_info_def layout)

definition struct_bpf_spin_lock :: cty where
  "struct_bpf_spin_lock = Struct [Fld ''val'' td___u32]"

lemma layout_struct_bpf_spin_lock [layout]:
  "sizeof struct_bpf_spin_lock = 4" "alignof struct_bpf_spin_lock = 4" "wf_cty struct_bpf_spin_lock" "is_struct struct_bpf_spin_lock"
  by (simp_all add: struct_bpf_spin_lock_def layout)

definition struct_bpf_fib_lookup :: cty where
  "struct_bpf_fib_lookup = Struct [Fld ''family'' td___u8, Fld ''l4_protocol'' td___u8,
     Fld ''sport'' td___be16, Fld ''dport'' td___be16, Fld '''' (Union [Fld ''tot_len'' td___u16,
     Fld ''mtu_result'' td___u16]), Fld ''ifindex'' td___u32,
     Fld '''' (Union [Fld ''tos'' td___u8, Fld ''flowinfo'' td___be32,
     Fld ''rt_metric'' td___u32]), Fld '''' (Union [Fld ''ipv4_src'' td___be32,
     Fld ''ipv6_src'' (CArr td___u32 4)]), Fld '''' (Union [Fld ''ipv4_dst'' td___be32,
     Fld ''ipv6_dst'' (CArr td___u32 4)]),
     Fld '''' (Union [Fld '''' (Struct [Fld ''h_vlan_proto'' td___be16,
     Fld ''h_vlan_TCI'' td___be16]), Fld ''tbid'' td___u32]), Fld ''smac'' (CArr td___u8 6),
     Fld ''dmac'' (CArr td___u8 6)]"

lemma layout_struct_bpf_fib_lookup [layout]:
  "sizeof struct_bpf_fib_lookup = 64" "alignof struct_bpf_fib_lookup = 4" "wf_cty struct_bpf_fib_lookup" "is_struct struct_bpf_fib_lookup"
  by (simp_all add: struct_bpf_fib_lookup_def layout)

definition struct_bpf_redir_neigh :: cty where
  "struct_bpf_redir_neigh = Struct [Fld ''nh_family'' td___u32,
     Fld '''' (Union [Fld ''ipv4_nh'' td___be32, Fld ''ipv6_nh'' (CArr td___u32 4)])]"

lemma layout_struct_bpf_redir_neigh [layout]:
  "sizeof struct_bpf_redir_neigh = 20" "alignof struct_bpf_redir_neigh = 4" "wf_cty struct_bpf_redir_neigh" "is_struct struct_bpf_redir_neigh"
  by (simp_all add: struct_bpf_redir_neigh_def layout)

definition union_bpf_attr :: cty where
  "union_bpf_attr = Union [Fld '''' (Struct [Fld ''map_type'' td___u32, Fld ''key_size'' td___u32,
     Fld ''value_size'' td___u32, Fld ''max_entries'' td___u32, Fld ''map_flags'' td___u32,
     Fld ''inner_map_fd'' td___u32, Fld ''numa_node'' td___u32, Fld ''map_name'' (CArr C_char 16),
     Fld ''map_ifindex'' td___u32, Fld ''btf_fd'' td___u32, Fld ''btf_key_type_id'' td___u32,
     Fld ''btf_value_type_id'' td___u32, Fld ''btf_vmlinux_value_type_id'' td___u32,
     Fld ''map_extra'' td___u64]), Fld '''' (Struct [Fld ''map_fd'' td___u32,
     Fld ''key'' td___u64, Fld '''' (Union [Fld ''value'' td___u64, Fld ''next_key'' td___u64]),
     Fld ''flags'' td___u64]), Fld ''batch'' (Struct [Fld ''in_batch'' td___u64,
     Fld ''out_batch'' td___u64, Fld ''keys'' td___u64, Fld ''values'' td___u64,
     Fld ''count'' td___u32, Fld ''map_fd'' td___u32, Fld ''elem_flags'' td___u64,
     Fld ''flags'' td___u64]), Fld '''' (Struct [Fld ''prog_type'' td___u32,
     Fld ''insn_cnt'' td___u32, Fld ''insns'' td___u64, Fld ''license'' td___u64,
     Fld ''log_level'' td___u32, Fld ''log_size'' td___u32, Fld ''log_buf'' td___u64,
     Fld ''kern_version'' td___u32, Fld ''prog_flags'' td___u32,
     Fld ''prog_name'' (CArr C_char 16), Fld ''prog_ifindex'' td___u32,
     Fld ''expected_attach_type'' td___u32, Fld ''prog_btf_fd'' td___u32,
     Fld ''func_info_rec_size'' td___u32, Fld ''func_info'' td___u64,
     Fld ''func_info_cnt'' td___u32, Fld ''line_info_rec_size'' td___u32,
     Fld ''line_info'' td___u64, Fld ''line_info_cnt'' td___u32, Fld ''attach_btf_id'' td___u32,
     Fld '''' (Union [Fld ''attach_prog_fd'' td___u32, Fld ''attach_btf_obj_fd'' td___u32]),
     Fld ''core_relo_cnt'' td___u32, Fld ''fd_array'' td___u64, Fld ''core_relos'' td___u64,
     Fld ''core_relo_rec_size'' td___u32, Fld ''log_true_size'' td___u32]),
     Fld '''' (Struct [Fld ''pathname'' td___u64, Fld ''bpf_fd'' td___u32,
     Fld ''file_flags'' td___u32, Fld ''path_fd'' td___s32]),
     Fld '''' (Struct [Fld ''target_fd'' td___u32, Fld ''attach_bpf_fd'' td___u32,
     Fld ''attach_type'' td___u32, Fld ''attach_flags'' td___u32,
     Fld ''replace_bpf_fd'' td___u32]), Fld ''test'' (Struct [Fld ''prog_fd'' td___u32,
     Fld ''retval'' td___u32, Fld ''data_size_in'' td___u32, Fld ''data_size_out'' td___u32,
     Fld ''data_in'' td___u64, Fld ''data_out'' td___u64, Fld ''repeat'' td___u32,
     Fld ''duration'' td___u32, Fld ''ctx_size_in'' td___u32, Fld ''ctx_size_out'' td___u32,
     Fld ''ctx_in'' td___u64, Fld ''ctx_out'' td___u64, Fld ''flags'' td___u32,
     Fld ''cpu'' td___u32, Fld ''batch_size'' td___u32]),
     Fld '''' (Struct [Fld '''' (Union [Fld ''start_id'' td___u32, Fld ''prog_id'' td___u32,
     Fld ''map_id'' td___u32, Fld ''btf_id'' td___u32, Fld ''link_id'' td___u32]),
     Fld ''next_id'' td___u32, Fld ''open_flags'' td___u32]),
     Fld ''info'' (Struct [Fld ''bpf_fd'' td___u32, Fld ''info_len'' td___u32,
     Fld ''info'' td___u64]), Fld ''query'' (Struct [Fld ''target_fd'' td___u32,
     Fld ''attach_type'' td___u32, Fld ''query_flags'' td___u32, Fld ''attach_flags'' td___u32,
     Fld ''prog_ids'' td___u64, Fld ''prog_cnt'' td___u32, Fld ''prog_attach_flags'' td___u64]),
     Fld ''raw_tracepoint'' (Struct [Fld ''name'' td___u64, Fld ''prog_fd'' td___u32]),
     Fld '''' (Struct [Fld ''btf'' td___u64, Fld ''btf_log_buf'' td___u64,
     Fld ''btf_size'' td___u32, Fld ''btf_log_size'' td___u32, Fld ''btf_log_level'' td___u32,
     Fld ''btf_log_true_size'' td___u32]), Fld ''task_fd_query'' (Struct [Fld ''pid'' td___u32,
     Fld ''fd'' td___u32, Fld ''flags'' td___u32, Fld ''buf_len'' td___u32, Fld ''buf'' td___u64,
     Fld ''prog_id'' td___u32, Fld ''fd_type'' td___u32, Fld ''probe_offset'' td___u64,
     Fld ''probe_addr'' td___u64]),
     Fld ''link_create'' (Struct [Fld '''' (Union [Fld ''prog_fd'' td___u32,
     Fld ''map_fd'' td___u32]), Fld '''' (Union [Fld ''target_fd'' td___u32,
     Fld ''target_ifindex'' td___u32]), Fld ''attach_type'' td___u32, Fld ''flags'' td___u32,
     Fld '''' (Union [Fld ''target_btf_id'' td___u32,
     Fld '''' (Struct [Fld ''iter_info'' td___u64, Fld ''iter_info_len'' td___u32]),
     Fld ''perf_event'' (Struct [Fld ''bpf_cookie'' td___u64]),
     Fld ''kprobe_multi'' (Struct [Fld ''flags'' td___u32, Fld ''cnt'' td___u32,
     Fld ''syms'' td___u64, Fld ''addrs'' td___u64, Fld ''cookies'' td___u64]),
     Fld ''tracing'' (Struct [Fld ''target_btf_id'' td___u32, Fld ''cookie'' td___u64]),
     Fld ''netfilter'' (Struct [Fld ''pf'' td___u32, Fld ''hooknum'' td___u32,
     Fld ''priority'' td___s32, Fld ''flags'' td___u32])])]),
     Fld ''link_update'' (Struct [Fld ''link_fd'' td___u32,
     Fld '''' (Union [Fld ''new_prog_fd'' td___u32, Fld ''new_map_fd'' td___u32]),
     Fld ''flags'' td___u32, Fld '''' (Union [Fld ''old_prog_fd'' td___u32,
     Fld ''old_map_fd'' td___u32])]), Fld ''link_detach'' (Struct [Fld ''link_fd'' td___u32]),
     Fld ''enable_stats'' (Struct [Fld ''type'' td___u32]),
     Fld ''iter_create'' (Struct [Fld ''link_fd'' td___u32, Fld ''flags'' td___u32]),
     Fld ''prog_bind_map'' (Struct [Fld ''prog_fd'' td___u32, Fld ''map_fd'' td___u32,
     Fld ''flags'' td___u32])]"

lemma layout_union_bpf_attr [layout]:
  "sizeof union_bpf_attr = 144" "alignof union_bpf_attr = 8" "wf_cty union_bpf_attr"
  by (simp_all add: union_bpf_attr_def layout)

definition enum_bpf_cmd :: "(string \<times> int) list" where
  "enum_bpf_cmd = [(''BPF_MAP_CREATE'', 0), (''BPF_MAP_LOOKUP_ELEM'', 1),
     (''BPF_MAP_UPDATE_ELEM'', 2), (''BPF_MAP_DELETE_ELEM'', 3), (''BPF_MAP_GET_NEXT_KEY'', 4),
     (''BPF_PROG_LOAD'', 5), (''BPF_OBJ_PIN'', 6), (''BPF_OBJ_GET'', 7), (''BPF_PROG_ATTACH'', 8),
     (''BPF_PROG_DETACH'', 9), (''BPF_PROG_TEST_RUN'', 10), (''BPF_PROG_RUN'', 10),
     (''BPF_PROG_GET_NEXT_ID'', 11), (''BPF_MAP_GET_NEXT_ID'', 12),
     (''BPF_PROG_GET_FD_BY_ID'', 13), (''BPF_MAP_GET_FD_BY_ID'', 14),
     (''BPF_OBJ_GET_INFO_BY_FD'', 15), (''BPF_PROG_QUERY'', 16),
     (''BPF_RAW_TRACEPOINT_OPEN'', 17), (''BPF_BTF_LOAD'', 18), (''BPF_BTF_GET_FD_BY_ID'', 19),
     (''BPF_TASK_FD_QUERY'', 20), (''BPF_MAP_LOOKUP_AND_DELETE_ELEM'', 21),
     (''BPF_MAP_FREEZE'', 22), (''BPF_BTF_GET_NEXT_ID'', 23), (''BPF_MAP_LOOKUP_BATCH'', 24),
     (''BPF_MAP_LOOKUP_AND_DELETE_BATCH'', 25), (''BPF_MAP_UPDATE_BATCH'', 26),
     (''BPF_MAP_DELETE_BATCH'', 27), (''BPF_LINK_CREATE'', 28), (''BPF_LINK_UPDATE'', 29),
     (''BPF_LINK_GET_FD_BY_ID'', 30), (''BPF_LINK_GET_NEXT_ID'', 31), (''BPF_ENABLE_STATS'', 32),
     (''BPF_ITER_CREATE'', 33), (''BPF_LINK_DETACH'', 34), (''BPF_PROG_BIND_MAP'', 35)]"

definition enum_bpf_map_type :: "(string \<times> int) list" where
  "enum_bpf_map_type = [(''BPF_MAP_TYPE_UNSPEC'', 0), (''BPF_MAP_TYPE_HASH'', 1),
     (''BPF_MAP_TYPE_ARRAY'', 2), (''BPF_MAP_TYPE_PROG_ARRAY'', 3),
     (''BPF_MAP_TYPE_PERF_EVENT_ARRAY'', 4), (''BPF_MAP_TYPE_PERCPU_HASH'', 5),
     (''BPF_MAP_TYPE_PERCPU_ARRAY'', 6), (''BPF_MAP_TYPE_STACK_TRACE'', 7),
     (''BPF_MAP_TYPE_CGROUP_ARRAY'', 8), (''BPF_MAP_TYPE_LRU_HASH'', 9),
     (''BPF_MAP_TYPE_LRU_PERCPU_HASH'', 10), (''BPF_MAP_TYPE_LPM_TRIE'', 11),
     (''BPF_MAP_TYPE_ARRAY_OF_MAPS'', 12), (''BPF_MAP_TYPE_HASH_OF_MAPS'', 13),
     (''BPF_MAP_TYPE_DEVMAP'', 14), (''BPF_MAP_TYPE_SOCKMAP'', 15), (''BPF_MAP_TYPE_CPUMAP'', 16),
     (''BPF_MAP_TYPE_XSKMAP'', 17), (''BPF_MAP_TYPE_SOCKHASH'', 18),
     (''BPF_MAP_TYPE_CGROUP_STORAGE_DEPRECATED'', 19), (''BPF_MAP_TYPE_CGROUP_STORAGE'', 19),
     (''BPF_MAP_TYPE_REUSEPORT_SOCKARRAY'', 20), (''BPF_MAP_TYPE_PERCPU_CGROUP_STORAGE'', 21),
     (''BPF_MAP_TYPE_QUEUE'', 22), (''BPF_MAP_TYPE_STACK'', 23),
     (''BPF_MAP_TYPE_SK_STORAGE'', 24), (''BPF_MAP_TYPE_DEVMAP_HASH'', 25),
     (''BPF_MAP_TYPE_STRUCT_OPS'', 26), (''BPF_MAP_TYPE_RINGBUF'', 27),
     (''BPF_MAP_TYPE_INODE_STORAGE'', 28), (''BPF_MAP_TYPE_TASK_STORAGE'', 29),
     (''BPF_MAP_TYPE_BLOOM_FILTER'', 30), (''BPF_MAP_TYPE_USER_RINGBUF'', 31),
     (''BPF_MAP_TYPE_CGRP_STORAGE'', 32)]"

definition enum_bpf_prog_type :: "(string \<times> int) list" where
  "enum_bpf_prog_type = [(''BPF_PROG_TYPE_UNSPEC'', 0), (''BPF_PROG_TYPE_SOCKET_FILTER'', 1),
     (''BPF_PROG_TYPE_KPROBE'', 2), (''BPF_PROG_TYPE_SCHED_CLS'', 3),
     (''BPF_PROG_TYPE_SCHED_ACT'', 4), (''BPF_PROG_TYPE_TRACEPOINT'', 5),
     (''BPF_PROG_TYPE_XDP'', 6), (''BPF_PROG_TYPE_PERF_EVENT'', 7),
     (''BPF_PROG_TYPE_CGROUP_SKB'', 8), (''BPF_PROG_TYPE_CGROUP_SOCK'', 9),
     (''BPF_PROG_TYPE_LWT_IN'', 10), (''BPF_PROG_TYPE_LWT_OUT'', 11),
     (''BPF_PROG_TYPE_LWT_XMIT'', 12), (''BPF_PROG_TYPE_SOCK_OPS'', 13),
     (''BPF_PROG_TYPE_SK_SKB'', 14), (''BPF_PROG_TYPE_CGROUP_DEVICE'', 15),
     (''BPF_PROG_TYPE_SK_MSG'', 16), (''BPF_PROG_TYPE_RAW_TRACEPOINT'', 17),
     (''BPF_PROG_TYPE_CGROUP_SOCK_ADDR'', 18), (''BPF_PROG_TYPE_LWT_SEG6LOCAL'', 19),
     (''BPF_PROG_TYPE_LIRC_MODE2'', 20), (''BPF_PROG_TYPE_SK_REUSEPORT'', 21),
     (''BPF_PROG_TYPE_FLOW_DISSECTOR'', 22), (''BPF_PROG_TYPE_CGROUP_SYSCTL'', 23),
     (''BPF_PROG_TYPE_RAW_TRACEPOINT_WRITABLE'', 24), (''BPF_PROG_TYPE_CGROUP_SOCKOPT'', 25),
     (''BPF_PROG_TYPE_TRACING'', 26), (''BPF_PROG_TYPE_STRUCT_OPS'', 27),
     (''BPF_PROG_TYPE_EXT'', 28), (''BPF_PROG_TYPE_LSM'', 29), (''BPF_PROG_TYPE_SK_LOOKUP'', 30),
     (''BPF_PROG_TYPE_SYSCALL'', 31), (''BPF_PROG_TYPE_NETFILTER'', 32)]"

definition enum_bpf_attach_type :: "(string \<times> int) list" where
  "enum_bpf_attach_type = [(''BPF_CGROUP_INET_INGRESS'', 0), (''BPF_CGROUP_INET_EGRESS'', 1),
     (''BPF_CGROUP_INET_SOCK_CREATE'', 2), (''BPF_CGROUP_SOCK_OPS'', 3),
     (''BPF_SK_SKB_STREAM_PARSER'', 4), (''BPF_SK_SKB_STREAM_VERDICT'', 5),
     (''BPF_CGROUP_DEVICE'', 6), (''BPF_SK_MSG_VERDICT'', 7), (''BPF_CGROUP_INET4_BIND'', 8),
     (''BPF_CGROUP_INET6_BIND'', 9), (''BPF_CGROUP_INET4_CONNECT'', 10),
     (''BPF_CGROUP_INET6_CONNECT'', 11), (''BPF_CGROUP_INET4_POST_BIND'', 12),
     (''BPF_CGROUP_INET6_POST_BIND'', 13), (''BPF_CGROUP_UDP4_SENDMSG'', 14),
     (''BPF_CGROUP_UDP6_SENDMSG'', 15), (''BPF_LIRC_MODE2'', 16), (''BPF_FLOW_DISSECTOR'', 17),
     (''BPF_CGROUP_SYSCTL'', 18), (''BPF_CGROUP_UDP4_RECVMSG'', 19),
     (''BPF_CGROUP_UDP6_RECVMSG'', 20), (''BPF_CGROUP_GETSOCKOPT'', 21),
     (''BPF_CGROUP_SETSOCKOPT'', 22), (''BPF_TRACE_RAW_TP'', 23), (''BPF_TRACE_FENTRY'', 24),
     (''BPF_TRACE_FEXIT'', 25), (''BPF_MODIFY_RETURN'', 26), (''BPF_LSM_MAC'', 27),
     (''BPF_TRACE_ITER'', 28), (''BPF_CGROUP_INET4_GETPEERNAME'', 29),
     (''BPF_CGROUP_INET6_GETPEERNAME'', 30), (''BPF_CGROUP_INET4_GETSOCKNAME'', 31),
     (''BPF_CGROUP_INET6_GETSOCKNAME'', 32), (''BPF_XDP_DEVMAP'', 33),
     (''BPF_CGROUP_INET_SOCK_RELEASE'', 34), (''BPF_XDP_CPUMAP'', 35), (''BPF_SK_LOOKUP'', 36),
     (''BPF_XDP'', 37), (''BPF_SK_SKB_VERDICT'', 38), (''BPF_SK_REUSEPORT_SELECT'', 39),
     (''BPF_SK_REUSEPORT_SELECT_OR_MIGRATE'', 40), (''BPF_PERF_EVENT'', 41),
     (''BPF_TRACE_KPROBE_MULTI'', 42), (''BPF_LSM_CGROUP'', 43), (''BPF_STRUCT_OPS'', 44),
     (''BPF_NETFILTER'', 45), (''__MAX_BPF_ATTACH_TYPE'', 46)]"

definition enum_bpf_link_type :: "(string \<times> int) list" where
  "enum_bpf_link_type = [(''BPF_LINK_TYPE_UNSPEC'', 0), (''BPF_LINK_TYPE_RAW_TRACEPOINT'', 1),
     (''BPF_LINK_TYPE_TRACING'', 2), (''BPF_LINK_TYPE_CGROUP'', 3), (''BPF_LINK_TYPE_ITER'', 4),
     (''BPF_LINK_TYPE_NETNS'', 5), (''BPF_LINK_TYPE_XDP'', 6), (''BPF_LINK_TYPE_PERF_EVENT'', 7),
     (''BPF_LINK_TYPE_KPROBE_MULTI'', 8), (''BPF_LINK_TYPE_STRUCT_OPS'', 9),
     (''BPF_LINK_TYPE_NETFILTER'', 10), (''MAX_BPF_LINK_TYPE'', 11)]"

definition enum_bpf_func_id :: "(string \<times> int) list" where
  "enum_bpf_func_id = [(''BPF_FUNC_unspec'', 0), (''BPF_FUNC_map_lookup_elem'', 1),
     (''BPF_FUNC_map_update_elem'', 2), (''BPF_FUNC_map_delete_elem'', 3),
     (''BPF_FUNC_probe_read'', 4), (''BPF_FUNC_ktime_get_ns'', 5), (''BPF_FUNC_trace_printk'', 6),
     (''BPF_FUNC_get_prandom_u32'', 7), (''BPF_FUNC_get_smp_processor_id'', 8),
     (''BPF_FUNC_skb_store_bytes'', 9), (''BPF_FUNC_l3_csum_replace'', 10),
     (''BPF_FUNC_l4_csum_replace'', 11), (''BPF_FUNC_tail_call'', 12),
     (''BPF_FUNC_clone_redirect'', 13), (''BPF_FUNC_get_current_pid_tgid'', 14),
     (''BPF_FUNC_get_current_uid_gid'', 15), (''BPF_FUNC_get_current_comm'', 16),
     (''BPF_FUNC_get_cgroup_classid'', 17), (''BPF_FUNC_skb_vlan_push'', 18),
     (''BPF_FUNC_skb_vlan_pop'', 19), (''BPF_FUNC_skb_get_tunnel_key'', 20),
     (''BPF_FUNC_skb_set_tunnel_key'', 21), (''BPF_FUNC_perf_event_read'', 22),
     (''BPF_FUNC_redirect'', 23), (''BPF_FUNC_get_route_realm'', 24),
     (''BPF_FUNC_perf_event_output'', 25), (''BPF_FUNC_skb_load_bytes'', 26),
     (''BPF_FUNC_get_stackid'', 27), (''BPF_FUNC_csum_diff'', 28),
     (''BPF_FUNC_skb_get_tunnel_opt'', 29), (''BPF_FUNC_skb_set_tunnel_opt'', 30),
     (''BPF_FUNC_skb_change_proto'', 31), (''BPF_FUNC_skb_change_type'', 32),
     (''BPF_FUNC_skb_under_cgroup'', 33), (''BPF_FUNC_get_hash_recalc'', 34),
     (''BPF_FUNC_get_current_task'', 35), (''BPF_FUNC_probe_write_user'', 36),
     (''BPF_FUNC_current_task_under_cgroup'', 37), (''BPF_FUNC_skb_change_tail'', 38),
     (''BPF_FUNC_skb_pull_data'', 39), (''BPF_FUNC_csum_update'', 40),
     (''BPF_FUNC_set_hash_invalid'', 41), (''BPF_FUNC_get_numa_node_id'', 42),
     (''BPF_FUNC_skb_change_head'', 43), (''BPF_FUNC_xdp_adjust_head'', 44),
     (''BPF_FUNC_probe_read_str'', 45), (''BPF_FUNC_get_socket_cookie'', 46),
     (''BPF_FUNC_get_socket_uid'', 47), (''BPF_FUNC_set_hash'', 48),
     (''BPF_FUNC_setsockopt'', 49), (''BPF_FUNC_skb_adjust_room'', 50),
     (''BPF_FUNC_redirect_map'', 51), (''BPF_FUNC_sk_redirect_map'', 52),
     (''BPF_FUNC_sock_map_update'', 53), (''BPF_FUNC_xdp_adjust_meta'', 54),
     (''BPF_FUNC_perf_event_read_value'', 55), (''BPF_FUNC_perf_prog_read_value'', 56),
     (''BPF_FUNC_getsockopt'', 57), (''BPF_FUNC_override_return'', 58),
     (''BPF_FUNC_sock_ops_cb_flags_set'', 59), (''BPF_FUNC_msg_redirect_map'', 60),
     (''BPF_FUNC_msg_apply_bytes'', 61), (''BPF_FUNC_msg_cork_bytes'', 62),
     (''BPF_FUNC_msg_pull_data'', 63), (''BPF_FUNC_bind'', 64),
     (''BPF_FUNC_xdp_adjust_tail'', 65), (''BPF_FUNC_skb_get_xfrm_state'', 66),
     (''BPF_FUNC_get_stack'', 67), (''BPF_FUNC_skb_load_bytes_relative'', 68),
     (''BPF_FUNC_fib_lookup'', 69), (''BPF_FUNC_sock_hash_update'', 70),
     (''BPF_FUNC_msg_redirect_hash'', 71), (''BPF_FUNC_sk_redirect_hash'', 72),
     (''BPF_FUNC_lwt_push_encap'', 73), (''BPF_FUNC_lwt_seg6_store_bytes'', 74),
     (''BPF_FUNC_lwt_seg6_adjust_srh'', 75), (''BPF_FUNC_lwt_seg6_action'', 76),
     (''BPF_FUNC_rc_repeat'', 77), (''BPF_FUNC_rc_keydown'', 78),
     (''BPF_FUNC_skb_cgroup_id'', 79), (''BPF_FUNC_get_current_cgroup_id'', 80),
     (''BPF_FUNC_get_local_storage'', 81), (''BPF_FUNC_sk_select_reuseport'', 82),
     (''BPF_FUNC_skb_ancestor_cgroup_id'', 83), (''BPF_FUNC_sk_lookup_tcp'', 84),
     (''BPF_FUNC_sk_lookup_udp'', 85), (''BPF_FUNC_sk_release'', 86),
     (''BPF_FUNC_map_push_elem'', 87), (''BPF_FUNC_map_pop_elem'', 88),
     (''BPF_FUNC_map_peek_elem'', 89), (''BPF_FUNC_msg_push_data'', 90),
     (''BPF_FUNC_msg_pop_data'', 91), (''BPF_FUNC_rc_pointer_rel'', 92),
     (''BPF_FUNC_spin_lock'', 93), (''BPF_FUNC_spin_unlock'', 94), (''BPF_FUNC_sk_fullsock'', 95),
     (''BPF_FUNC_tcp_sock'', 96), (''BPF_FUNC_skb_ecn_set_ce'', 97),
     (''BPF_FUNC_get_listener_sock'', 98), (''BPF_FUNC_skc_lookup_tcp'', 99),
     (''BPF_FUNC_tcp_check_syncookie'', 100), (''BPF_FUNC_sysctl_get_name'', 101),
     (''BPF_FUNC_sysctl_get_current_value'', 102), (''BPF_FUNC_sysctl_get_new_value'', 103),
     (''BPF_FUNC_sysctl_set_new_value'', 104), (''BPF_FUNC_strtol'', 105),
     (''BPF_FUNC_strtoul'', 106), (''BPF_FUNC_sk_storage_get'', 107),
     (''BPF_FUNC_sk_storage_delete'', 108), (''BPF_FUNC_send_signal'', 109),
     (''BPF_FUNC_tcp_gen_syncookie'', 110), (''BPF_FUNC_skb_output'', 111),
     (''BPF_FUNC_probe_read_user'', 112), (''BPF_FUNC_probe_read_kernel'', 113),
     (''BPF_FUNC_probe_read_user_str'', 114), (''BPF_FUNC_probe_read_kernel_str'', 115),
     (''BPF_FUNC_tcp_send_ack'', 116), (''BPF_FUNC_send_signal_thread'', 117),
     (''BPF_FUNC_jiffies64'', 118), (''BPF_FUNC_read_branch_records'', 119),
     (''BPF_FUNC_get_ns_current_pid_tgid'', 120), (''BPF_FUNC_xdp_output'', 121),
     (''BPF_FUNC_get_netns_cookie'', 122), (''BPF_FUNC_get_current_ancestor_cgroup_id'', 123),
     (''BPF_FUNC_sk_assign'', 124), (''BPF_FUNC_ktime_get_boot_ns'', 125),
     (''BPF_FUNC_seq_printf'', 126), (''BPF_FUNC_seq_write'', 127),
     (''BPF_FUNC_sk_cgroup_id'', 128), (''BPF_FUNC_sk_ancestor_cgroup_id'', 129),
     (''BPF_FUNC_ringbuf_output'', 130), (''BPF_FUNC_ringbuf_reserve'', 131),
     (''BPF_FUNC_ringbuf_submit'', 132), (''BPF_FUNC_ringbuf_discard'', 133),
     (''BPF_FUNC_ringbuf_query'', 134), (''BPF_FUNC_csum_level'', 135),
     (''BPF_FUNC_skc_to_tcp6_sock'', 136), (''BPF_FUNC_skc_to_tcp_sock'', 137),
     (''BPF_FUNC_skc_to_tcp_timewait_sock'', 138), (''BPF_FUNC_skc_to_tcp_request_sock'', 139),
     (''BPF_FUNC_skc_to_udp6_sock'', 140), (''BPF_FUNC_get_task_stack'', 141),
     (''BPF_FUNC_load_hdr_opt'', 142), (''BPF_FUNC_store_hdr_opt'', 143),
     (''BPF_FUNC_reserve_hdr_opt'', 144), (''BPF_FUNC_inode_storage_get'', 145),
     (''BPF_FUNC_inode_storage_delete'', 146), (''BPF_FUNC_d_path'', 147),
     (''BPF_FUNC_copy_from_user'', 148), (''BPF_FUNC_snprintf_btf'', 149),
     (''BPF_FUNC_seq_printf_btf'', 150), (''BPF_FUNC_skb_cgroup_classid'', 151),
     (''BPF_FUNC_redirect_neigh'', 152), (''BPF_FUNC_per_cpu_ptr'', 153),
     (''BPF_FUNC_this_cpu_ptr'', 154), (''BPF_FUNC_redirect_peer'', 155),
     (''BPF_FUNC_task_storage_get'', 156), (''BPF_FUNC_task_storage_delete'', 157),
     (''BPF_FUNC_get_current_task_btf'', 158), (''BPF_FUNC_bprm_opts_set'', 159),
     (''BPF_FUNC_ktime_get_coarse_ns'', 160), (''BPF_FUNC_ima_inode_hash'', 161),
     (''BPF_FUNC_sock_from_file'', 162), (''BPF_FUNC_check_mtu'', 163),
     (''BPF_FUNC_for_each_map_elem'', 164), (''BPF_FUNC_snprintf'', 165),
     (''BPF_FUNC_sys_bpf'', 166), (''BPF_FUNC_btf_find_by_name_kind'', 167),
     (''BPF_FUNC_sys_close'', 168), (''BPF_FUNC_timer_init'', 169),
     (''BPF_FUNC_timer_set_callback'', 170), (''BPF_FUNC_timer_start'', 171),
     (''BPF_FUNC_timer_cancel'', 172), (''BPF_FUNC_get_func_ip'', 173),
     (''BPF_FUNC_get_attach_cookie'', 174), (''BPF_FUNC_task_pt_regs'', 175),
     (''BPF_FUNC_get_branch_snapshot'', 176), (''BPF_FUNC_trace_vprintk'', 177),
     (''BPF_FUNC_skc_to_unix_sock'', 178), (''BPF_FUNC_kallsyms_lookup_name'', 179),
     (''BPF_FUNC_find_vma'', 180), (''BPF_FUNC_loop'', 181), (''BPF_FUNC_strncmp'', 182),
     (''BPF_FUNC_get_func_arg'', 183), (''BPF_FUNC_get_func_ret'', 184),
     (''BPF_FUNC_get_func_arg_cnt'', 185), (''BPF_FUNC_get_retval'', 186),
     (''BPF_FUNC_set_retval'', 187), (''BPF_FUNC_xdp_get_buff_len'', 188),
     (''BPF_FUNC_xdp_load_bytes'', 189), (''BPF_FUNC_xdp_store_bytes'', 190),
     (''BPF_FUNC_copy_from_user_task'', 191), (''BPF_FUNC_skb_set_tstamp'', 192),
     (''BPF_FUNC_ima_file_hash'', 193), (''BPF_FUNC_kptr_xchg'', 194),
     (''BPF_FUNC_map_lookup_percpu_elem'', 195), (''BPF_FUNC_skc_to_mptcp_sock'', 196),
     (''BPF_FUNC_dynptr_from_mem'', 197), (''BPF_FUNC_ringbuf_reserve_dynptr'', 198),
     (''BPF_FUNC_ringbuf_submit_dynptr'', 199), (''BPF_FUNC_ringbuf_discard_dynptr'', 200),
     (''BPF_FUNC_dynptr_read'', 201), (''BPF_FUNC_dynptr_write'', 202),
     (''BPF_FUNC_dynptr_data'', 203), (''BPF_FUNC_tcp_raw_gen_syncookie_ipv4'', 204),
     (''BPF_FUNC_tcp_raw_gen_syncookie_ipv6'', 205),
     (''BPF_FUNC_tcp_raw_check_syncookie_ipv4'', 206),
     (''BPF_FUNC_tcp_raw_check_syncookie_ipv6'', 207), (''BPF_FUNC_ktime_get_tai_ns'', 208),
     (''BPF_FUNC_user_ringbuf_drain'', 209), (''BPF_FUNC_cgrp_storage_get'', 210),
     (''BPF_FUNC_cgrp_storage_delete'', 211), (''__BPF_FUNC_MAX_ID'', 212)]"

definition enum_bpf_adj_room_mode :: "(string \<times> int) list" where
  "enum_bpf_adj_room_mode = [(''BPF_ADJ_ROOM_NET'', 0), (''BPF_ADJ_ROOM_MAC'', 1)]"

definition enum_bpf_hdr_start_off :: "(string \<times> int) list" where
  "enum_bpf_hdr_start_off = [(''BPF_HDR_START_MAC'', 0), (''BPF_HDR_START_NET'', 1)]"

end
