(* ===== verification/Vm_Kernel.thy ===== *)
theory Vm_Kernel
  imports Vm_BpfUapi
begin

text \<open>
  Kernel types that the later tables share: integer typedefs, lists, trees, locks, reference
  counts, work items and timers. Translated declaration by declaration from
  \<open>ebpf/vmlinux.h\<close>, in the order the types depend on each other; each type is
  followed by its size and alignment, computed by the layout.
\<close>

definition td_u16 :: cty where
  "td_u16 = td___u16"

lemma layout_td_u16 [layout]:
  "sizeof td_u16 = 2" "alignof td_u16 = 2" "wf_cty td_u16"
  by (simp_all add: td_u16_def layout)

definition td_u32 :: cty where
  "td_u32 = td___u32"

lemma layout_td_u32 [layout]:
  "sizeof td_u32 = 4" "alignof td_u32 = 4" "wf_cty td_u32"
  by (simp_all add: td_u32_def layout)

definition td_u8 :: cty where
  "td_u8 = td___u8"

lemma layout_td_u8 [layout]:
  "sizeof td_u8 = 1" "alignof td_u8 = 1" "wf_cty td_u8"
  by (simp_all add: td_u8_def layout)

definition td_u64 :: cty where
  "td_u64 = td___u64"

lemma layout_td_u64 [layout]:
  "sizeof td_u64 = 8" "alignof td_u64 = 8" "wf_cty td_u64"
  by (simp_all add: td_u64_def layout)

definition td___s64 :: cty where
  "td___s64 = C_longlong"

lemma layout_td___s64 [layout]:
  "sizeof td___s64 = 8" "alignof td___s64 = 8" "wf_cty td___s64"
  by (simp_all add: td___s64_def layout)

definition td_s64 :: cty where
  "td_s64 = td___s64"

lemma layout_td_s64 [layout]:
  "sizeof td_s64 = 8" "alignof td_s64 = 8" "wf_cty td_s64"
  by (simp_all add: td_s64_def layout)

definition td_atomic64_t :: cty where
  "td_atomic64_t = Struct [Fld ''counter'' td_s64]"

lemma layout_td_atomic64_t [layout]:
  "sizeof td_atomic64_t = 8" "alignof td_atomic64_t = 8" "wf_cty td_atomic64_t"
  by (simp_all add: td_atomic64_t_def layout)

definition td_atomic_long_t :: cty where
  "td_atomic_long_t = td_atomic64_t"

lemma layout_td_atomic_long_t [layout]:
  "sizeof td_atomic_long_t = 8" "alignof td_atomic_long_t = 8" "wf_cty td_atomic_long_t"
  by (simp_all add: td_atomic_long_t_def layout)

definition struct_list_head :: cty where
  "struct_list_head = Struct [Fld ''next'' CPtr, Fld ''prev'' CPtr]"

lemma layout_struct_list_head [layout]:
  "sizeof struct_list_head = 16" "alignof struct_list_head = 8" "wf_cty struct_list_head" "is_struct struct_list_head"
  by (simp_all add: struct_list_head_def layout)

definition td_work_func_t :: cty where
  "td_work_func_t = CPtr"

lemma layout_td_work_func_t [layout]:
  "sizeof td_work_func_t = 8" "alignof td_work_func_t = 8" "wf_cty td_work_func_t"
  by (simp_all add: td_work_func_t_def layout)

definition struct_work_struct :: cty where
  "struct_work_struct = Struct [Fld ''data'' td_atomic_long_t, Fld ''entry'' struct_list_head,
     Fld ''func'' td_work_func_t]"

lemma layout_struct_work_struct [layout]:
  "sizeof struct_work_struct = 32" "alignof struct_work_struct = 8" "wf_cty struct_work_struct" "is_struct struct_work_struct"
  by (simp_all add: struct_work_struct_def layout)

definition td_atomic_t :: cty where
  "td_atomic_t = Struct [Fld ''counter'' C_int]"

lemma layout_td_atomic_t [layout]:
  "sizeof td_atomic_t = 4" "alignof td_atomic_t = 4" "wf_cty td_atomic_t"
  by (simp_all add: td_atomic_t_def layout)

definition struct_qspinlock :: cty where
  "struct_qspinlock = Struct [Fld '''' (Union [Fld ''val'' td_atomic_t,
     Fld '''' (Struct [Fld ''locked'' td_u8, Fld ''pending'' td_u8]),
     Fld '''' (Struct [Fld ''locked_pending'' td_u16, Fld ''tail'' td_u16])])]"

lemma layout_struct_qspinlock [layout]:
  "sizeof struct_qspinlock = 4" "alignof struct_qspinlock = 4" "wf_cty struct_qspinlock" "is_struct struct_qspinlock"
  by (simp_all add: struct_qspinlock_def layout)

definition td_arch_spinlock_t :: cty where
  "td_arch_spinlock_t = struct_qspinlock"

lemma layout_td_arch_spinlock_t [layout]:
  "sizeof td_arch_spinlock_t = 4" "alignof td_arch_spinlock_t = 4" "wf_cty td_arch_spinlock_t"
  by (simp_all add: td_arch_spinlock_t_def layout)

definition struct_raw_spinlock :: cty where
  "struct_raw_spinlock = Struct [Fld ''raw_lock'' td_arch_spinlock_t]"

lemma layout_struct_raw_spinlock [layout]:
  "sizeof struct_raw_spinlock = 4" "alignof struct_raw_spinlock = 4" "wf_cty struct_raw_spinlock" "is_struct struct_raw_spinlock"
  by (simp_all add: struct_raw_spinlock_def layout)

definition td_raw_spinlock_t :: cty where
  "td_raw_spinlock_t = struct_raw_spinlock"

lemma layout_td_raw_spinlock_t [layout]:
  "sizeof td_raw_spinlock_t = 4" "alignof td_raw_spinlock_t = 4" "wf_cty td_raw_spinlock_t"
  by (simp_all add: td_raw_spinlock_t_def layout)

definition struct_optimistic_spin_queue :: cty where
  "struct_optimistic_spin_queue = Struct [Fld ''tail'' td_atomic_t]"

lemma layout_struct_optimistic_spin_queue [layout]:
  "sizeof struct_optimistic_spin_queue = 4" "alignof struct_optimistic_spin_queue = 4" "wf_cty struct_optimistic_spin_queue" "is_struct struct_optimistic_spin_queue"
  by (simp_all add: struct_optimistic_spin_queue_def layout)

definition struct_mutex :: cty where
  "struct_mutex = Struct [Fld ''owner'' td_atomic_long_t, Fld ''wait_lock'' td_raw_spinlock_t,
     Fld ''osq'' struct_optimistic_spin_queue, Fld ''wait_list'' struct_list_head]"

lemma layout_struct_mutex [layout]:
  "sizeof struct_mutex = 32" "alignof struct_mutex = 8" "wf_cty struct_mutex" "is_struct struct_mutex"
  by (simp_all add: struct_mutex_def layout)

definition struct_spinlock :: cty where
  "struct_spinlock = Struct [Fld '''' (Union [Fld ''rlock'' struct_raw_spinlock])]"

lemma layout_struct_spinlock [layout]:
  "sizeof struct_spinlock = 4" "alignof struct_spinlock = 4" "wf_cty struct_spinlock" "is_struct struct_spinlock"
  by (simp_all add: struct_spinlock_def layout)

definition td_spinlock_t :: cty where
  "td_spinlock_t = struct_spinlock"

lemma layout_td_spinlock_t [layout]:
  "sizeof td_spinlock_t = 4" "alignof td_spinlock_t = 4" "wf_cty td_spinlock_t"
  by (simp_all add: td_spinlock_t_def layout)

definition td_bool :: cty where
  "td_bool = C_bool"

lemma layout_td_bool [layout]:
  "sizeof td_bool = 1" "alignof td_bool = 1" "wf_cty td_bool"
  by (simp_all add: td_bool_def layout)

definition td_del_from_htab_func :: cty where
  "td_del_from_htab_func = CPtr"

lemma layout_td_del_from_htab_func [layout]:
  "sizeof td_del_from_htab_func = 8" "alignof td_del_from_htab_func = 8" "wf_cty td_del_from_htab_func"
  by (simp_all add: td_del_from_htab_func_def layout)

definition struct_hlist_nulls_node :: cty where
  "struct_hlist_nulls_node = Struct [Fld ''next'' CPtr, Fld ''pprev'' CPtr]"

lemma layout_struct_hlist_nulls_node [layout]:
  "sizeof struct_hlist_nulls_node = 16" "alignof struct_hlist_nulls_node = 8" "wf_cty struct_hlist_nulls_node" "is_struct struct_hlist_nulls_node"
  by (simp_all add: struct_hlist_nulls_node_def layout)

definition td___kernel_ulong_t :: cty where
  "td___kernel_ulong_t = C_ulong"

lemma layout_td___kernel_ulong_t [layout]:
  "sizeof td___kernel_ulong_t = 8" "alignof td___kernel_ulong_t = 8" "wf_cty td___kernel_ulong_t"
  by (simp_all add: td___kernel_ulong_t_def layout)

definition td___kernel_size_t :: cty where
  "td___kernel_size_t = td___kernel_ulong_t"

lemma layout_td___kernel_size_t [layout]:
  "sizeof td___kernel_size_t = 8" "alignof td___kernel_size_t = 8" "wf_cty td___kernel_size_t"
  by (simp_all add: td___kernel_size_t_def layout)

definition td_size_t :: cty where
  "td_size_t = td___kernel_size_t"

lemma layout_td_size_t [layout]:
  "sizeof td_size_t = 8" "alignof td_size_t = 8" "wf_cty td_size_t"
  by (simp_all add: td_size_t_def layout)

definition struct_rb_node :: cty where
  "struct_rb_node = Struct [Fld ''__rb_parent_color'' C_ulong, Fld ''rb_right'' CPtr,
     Fld ''rb_left'' CPtr]"

lemma layout_struct_rb_node [layout]:
  "sizeof struct_rb_node = 24" "alignof struct_rb_node = 8" "wf_cty struct_rb_node" "is_struct struct_rb_node"
  by (simp_all add: struct_rb_node_def layout)

definition struct_callback_head :: cty where
  "struct_callback_head = Struct [Fld ''next'' CPtr, Fld ''func'' CPtr]"

lemma layout_struct_callback_head [layout]:
  "sizeof struct_callback_head = 16" "alignof struct_callback_head = 8" "wf_cty struct_callback_head" "is_struct struct_callback_head"
  by (simp_all add: struct_callback_head_def layout)

definition td_local_t :: cty where
  "td_local_t = Struct [Fld ''a'' td_atomic_long_t]"

lemma layout_td_local_t [layout]:
  "sizeof td_local_t = 8" "alignof td_local_t = 8" "wf_cty td_local_t"
  by (simp_all add: td_local_t_def layout)

definition td_local64_t :: cty where
  "td_local64_t = Struct [Fld ''a'' td_local_t]"

lemma layout_td_local64_t [layout]:
  "sizeof td_local64_t = 8" "alignof td_local64_t = 8" "wf_cty td_local64_t"
  by (simp_all add: td_local64_t_def layout)

definition td_u64_stats_t :: cty where
  "td_u64_stats_t = Struct [Fld ''v'' td_local64_t]"

lemma layout_td_u64_stats_t [layout]:
  "sizeof td_u64_stats_t = 8" "alignof td_u64_stats_t = 8" "wf_cty td_u64_stats_t"
  by (simp_all add: td_u64_stats_t_def layout)

definition struct_u64_stats_sync :: cty where
  "struct_u64_stats_sync = Struct []"

lemma layout_struct_u64_stats_sync [layout]:
  "sizeof struct_u64_stats_sync = 0" "alignof struct_u64_stats_sync = 1" "wf_cty struct_u64_stats_sync" "is_struct struct_u64_stats_sync"
  by (simp_all add: struct_u64_stats_sync_def layout)

definition struct_user_pt_regs :: cty where
  "struct_user_pt_regs = Struct [Fld ''regs'' (CArr td___u64 31), Fld ''sp'' td___u64,
     Fld ''pc'' td___u64, Fld ''pstate'' td___u64]"

lemma layout_struct_user_pt_regs [layout]:
  "sizeof struct_user_pt_regs = 272" "alignof struct_user_pt_regs = 8" "wf_cty struct_user_pt_regs" "is_struct struct_user_pt_regs"
  by (simp_all add: struct_user_pt_regs_def layout)

definition td_bpf_user_pt_regs_t :: cty where
  "td_bpf_user_pt_regs_t = struct_user_pt_regs"

lemma layout_td_bpf_user_pt_regs_t [layout]:
  "sizeof td_bpf_user_pt_regs_t = 272" "alignof td_bpf_user_pt_regs_t = 8" "wf_cty td_bpf_user_pt_regs_t"
  by (simp_all add: td_bpf_user_pt_regs_t_def layout)

definition struct_llist_node :: cty where
  "struct_llist_node = Struct [Fld ''next'' CPtr]"

lemma layout_struct_llist_node [layout]:
  "sizeof struct_llist_node = 8" "alignof struct_llist_node = 8" "wf_cty struct_llist_node" "is_struct struct_llist_node"
  by (simp_all add: struct_llist_node_def layout)

definition td_ktime_t :: cty where
  "td_ktime_t = td_s64"

lemma layout_td_ktime_t [layout]:
  "sizeof td_ktime_t = 8" "alignof td_ktime_t = 8" "wf_cty td_ktime_t"
  by (simp_all add: td_ktime_t_def layout)

definition td___wsum :: cty where
  "td___wsum = td___u32"

lemma layout_td___wsum [layout]:
  "sizeof td___wsum = 4" "alignof td___wsum = 4" "wf_cty td___wsum"
  by (simp_all add: td___wsum_def layout)

definition td_sk_buff_data_t :: cty where
  "td_sk_buff_data_t = C_uint"

lemma layout_td_sk_buff_data_t [layout]:
  "sizeof td_sk_buff_data_t = 4" "alignof td_sk_buff_data_t = 4" "wf_cty td_sk_buff_data_t"
  by (simp_all add: td_sk_buff_data_t_def layout)

definition struct_refcount_struct :: cty where
  "struct_refcount_struct = Struct [Fld ''refs'' td_atomic_t]"

lemma layout_struct_refcount_struct [layout]:
  "sizeof struct_refcount_struct = 4" "alignof struct_refcount_struct = 4" "wf_cty struct_refcount_struct" "is_struct struct_refcount_struct"
  by (simp_all add: struct_refcount_struct_def layout)

definition td_refcount_t :: cty where
  "td_refcount_t = struct_refcount_struct"

lemma layout_td_refcount_t [layout]:
  "sizeof td_refcount_t = 4" "alignof td_refcount_t = 4" "wf_cty td_refcount_t"
  by (simp_all add: td_refcount_t_def layout)

definition struct_bio_vec :: cty where
  "struct_bio_vec = Struct [Fld ''bv_page'' CPtr, Fld ''bv_len'' C_uint,
     Fld ''bv_offset'' C_uint]"

lemma layout_struct_bio_vec [layout]:
  "sizeof struct_bio_vec = 16" "alignof struct_bio_vec = 8" "wf_cty struct_bio_vec" "is_struct struct_bio_vec"
  by (simp_all add: struct_bio_vec_def layout)

definition td_skb_frag_t :: cty where
  "td_skb_frag_t = struct_bio_vec"

lemma layout_td_skb_frag_t [layout]:
  "sizeof td_skb_frag_t = 16" "alignof td_skb_frag_t = 8" "wf_cty td_skb_frag_t"
  by (simp_all add: td_skb_frag_t_def layout)

definition struct_sk_buff_list :: cty where
  "struct_sk_buff_list = Struct [Fld ''next'' CPtr, Fld ''prev'' CPtr]"

lemma layout_struct_sk_buff_list [layout]:
  "sizeof struct_sk_buff_list = 16" "alignof struct_sk_buff_list = 8" "wf_cty struct_sk_buff_list" "is_struct struct_sk_buff_list"
  by (simp_all add: struct_sk_buff_list_def layout)

definition td___addrpair :: cty where
  "td___addrpair = td___u64"

lemma layout_td___addrpair [layout]:
  "sizeof td___addrpair = 8" "alignof td___addrpair = 8" "wf_cty td___addrpair"
  by (simp_all add: td___addrpair_def layout)

definition td___portpair :: cty where
  "td___portpair = td___u32"

lemma layout_td___portpair [layout]:
  "sizeof td___portpair = 4" "alignof td___portpair = 4" "wf_cty td___portpair"
  by (simp_all add: td___portpair_def layout)

definition struct_hlist_node :: cty where
  "struct_hlist_node = Struct [Fld ''next'' CPtr, Fld ''pprev'' CPtr]"

lemma layout_struct_hlist_node [layout]:
  "sizeof struct_hlist_node = 16" "alignof struct_hlist_node = 8" "wf_cty struct_hlist_node" "is_struct struct_hlist_node"
  by (simp_all add: struct_hlist_node_def layout)

definition td_possible_net_t :: cty where
  "td_possible_net_t = Struct [Fld ''net'' CPtr]"

lemma layout_td_possible_net_t [layout]:
  "sizeof td_possible_net_t = 8" "alignof td_possible_net_t = 8" "wf_cty td_possible_net_t"
  by (simp_all add: td_possible_net_t_def layout)

definition struct_wait_queue_head :: cty where
  "struct_wait_queue_head = Struct [Fld ''lock'' td_spinlock_t, Fld ''head'' struct_list_head]"

lemma layout_struct_wait_queue_head [layout]:
  "sizeof struct_wait_queue_head = 24" "alignof struct_wait_queue_head = 8" "wf_cty struct_wait_queue_head" "is_struct struct_wait_queue_head"
  by (simp_all add: struct_wait_queue_head_def layout)

definition td_wait_queue_head_t :: cty where
  "td_wait_queue_head_t = struct_wait_queue_head"

lemma layout_td_wait_queue_head_t [layout]:
  "sizeof td_wait_queue_head_t = 24" "alignof td_wait_queue_head_t = 8" "wf_cty td_wait_queue_head_t"
  by (simp_all add: td_wait_queue_head_t_def layout)

definition td_socket_lock_t :: cty where
  "td_socket_lock_t = Struct [Fld ''slock'' td_spinlock_t, Fld ''owned'' C_int,
     Fld ''wq'' td_wait_queue_head_t]"

lemma layout_td_socket_lock_t [layout]:
  "sizeof td_socket_lock_t = 32" "alignof td_socket_lock_t = 8" "wf_cty td_socket_lock_t"
  by (simp_all add: td_socket_lock_t_def layout)

definition struct_rb_root :: cty where
  "struct_rb_root = Struct [Fld ''rb_node'' CPtr]"

lemma layout_struct_rb_root [layout]:
  "sizeof struct_rb_root = 8" "alignof struct_rb_root = 8" "wf_cty struct_rb_root" "is_struct struct_rb_root"
  by (simp_all add: struct_rb_root_def layout)

definition struct_timer_list :: cty where
  "struct_timer_list = Struct [Fld ''entry'' struct_hlist_node, Fld ''expires'' C_ulong,
     Fld ''function'' CPtr, Fld ''flags'' td_u32]"

lemma layout_struct_timer_list [layout]:
  "sizeof struct_timer_list = 40" "alignof struct_timer_list = 8" "wf_cty struct_timer_list" "is_struct struct_timer_list"
  by (simp_all add: struct_timer_list_def layout)

definition td_netdev_features_t :: cty where
  "td_netdev_features_t = td_u64"

lemma layout_td_netdev_features_t [layout]:
  "sizeof td_netdev_features_t = 8" "alignof td_netdev_features_t = 8" "wf_cty td_netdev_features_t"
  by (simp_all add: td_netdev_features_t_def layout)

definition td_gfp_t :: cty where
  "td_gfp_t = C_uint"

lemma layout_td_gfp_t [layout]:
  "sizeof td_gfp_t = 4" "alignof td_gfp_t = 4" "wf_cty td_gfp_t"
  by (simp_all add: td_gfp_t_def layout)

definition struct_qrwlock :: cty where
  "struct_qrwlock = Struct [Fld '''' (Union [Fld ''cnts'' td_atomic_t,
     Fld '''' (Struct [Fld ''wlocked'' td_u8, Fld ''__lstate'' (CArr td_u8 3)])]),
     Fld ''wait_lock'' td_arch_spinlock_t]"

lemma layout_struct_qrwlock [layout]:
  "sizeof struct_qrwlock = 8" "alignof struct_qrwlock = 4" "wf_cty struct_qrwlock" "is_struct struct_qrwlock"
  by (simp_all add: struct_qrwlock_def layout)

definition td_arch_rwlock_t :: cty where
  "td_arch_rwlock_t = struct_qrwlock"

lemma layout_td_arch_rwlock_t [layout]:
  "sizeof td_arch_rwlock_t = 8" "alignof td_arch_rwlock_t = 4" "wf_cty td_arch_rwlock_t"
  by (simp_all add: td_arch_rwlock_t_def layout)

definition td_rwlock_t :: cty where
  "td_rwlock_t = Struct [Fld ''raw_lock'' td_arch_rwlock_t]"

lemma layout_td_rwlock_t [layout]:
  "sizeof td_rwlock_t = 8" "alignof td_rwlock_t = 4" "wf_cty td_rwlock_t"
  by (simp_all add: td_rwlock_t_def layout)

definition td___kernel_uid32_t :: cty where
  "td___kernel_uid32_t = C_uint"

lemma layout_td___kernel_uid32_t [layout]:
  "sizeof td___kernel_uid32_t = 4" "alignof td___kernel_uid32_t = 4" "wf_cty td___kernel_uid32_t"
  by (simp_all add: td___kernel_uid32_t_def layout)

definition td_uid_t :: cty where
  "td_uid_t = td___kernel_uid32_t"

lemma layout_td_uid_t [layout]:
  "sizeof td_uid_t = 4" "alignof td_uid_t = 4" "wf_cty td_uid_t"
  by (simp_all add: td_uid_t_def layout)

definition td_kuid_t :: cty where
  "td_kuid_t = Struct [Fld ''val'' td_uid_t]"

lemma layout_td_kuid_t [layout]:
  "sizeof td_kuid_t = 4" "alignof td_kuid_t = 4" "wf_cty td_kuid_t"
  by (simp_all add: td_kuid_t_def layout)

definition td_netns_tracker :: cty where
  "td_netns_tracker = Struct []"

lemma layout_td_netns_tracker [layout]:
  "sizeof td_netns_tracker = 0" "alignof td_netns_tracker = 1" "wf_cty td_netns_tracker"
  by (simp_all add: td_netns_tracker_def layout)

definition td___be64 :: cty where
  "td___be64 = td___u64"

lemma layout_td___be64 [layout]:
  "sizeof td___be64 = 8" "alignof td___be64 = 8" "wf_cty td___be64"
  by (simp_all add: td___be64_def layout)

definition td_socket_state :: cty where
  "td_socket_state = Enum"

lemma layout_td_socket_state [layout]:
  "sizeof td_socket_state = 4" "alignof td_socket_state = 4" "wf_cty td_socket_state"
  by (simp_all add: td_socket_state_def layout)

definition td_slab_flags_t :: cty where
  "td_slab_flags_t = C_uint"

lemma layout_td_slab_flags_t [layout]:
  "sizeof td_slab_flags_t = 4" "alignof td_slab_flags_t = 4" "wf_cty td_slab_flags_t"
  by (simp_all add: td_slab_flags_t_def layout)

definition td_rcuref_t :: cty where
  "td_rcuref_t = Struct [Fld ''refcnt'' td_atomic_t]"

lemma layout_td_rcuref_t [layout]:
  "sizeof td_rcuref_t = 4" "alignof td_rcuref_t = 4" "wf_cty td_rcuref_t"
  by (simp_all add: td_rcuref_t_def layout)

definition td_netdevice_tracker :: cty where
  "td_netdevice_tracker = Struct []"

lemma layout_td_netdevice_tracker [layout]:
  "sizeof td_netdevice_tracker = 0" "alignof td_netdevice_tracker = 1" "wf_cty td_netdevice_tracker"
  by (simp_all add: td_netdevice_tracker_def layout)

definition td_xdp_features_t :: cty where
  "td_xdp_features_t = td_u32"

lemma layout_td_xdp_features_t [layout]:
  "sizeof td_xdp_features_t = 4" "alignof td_xdp_features_t = 4" "wf_cty td_xdp_features_t"
  by (simp_all add: td_xdp_features_t_def layout)

definition struct_pm_message :: cty where
  "struct_pm_message = Struct [Fld ''event'' C_int]"

lemma layout_struct_pm_message [layout]:
  "sizeof struct_pm_message = 4" "alignof struct_pm_message = 4" "wf_cty struct_pm_message" "is_struct struct_pm_message"
  by (simp_all add: struct_pm_message_def layout)

definition td_pm_message_t :: cty where
  "td_pm_message_t = struct_pm_message"

lemma layout_td_pm_message_t [layout]:
  "sizeof td_pm_message_t = 4" "alignof td_pm_message_t = 4" "wf_cty td_pm_message_t"
  by (simp_all add: td_pm_message_t_def layout)

definition struct_timerqueue_node :: cty where
  "struct_timerqueue_node = Struct [Fld ''node'' struct_rb_node, Fld ''expires'' td_ktime_t]"

lemma layout_struct_timerqueue_node [layout]:
  "sizeof struct_timerqueue_node = 32" "alignof struct_timerqueue_node = 8" "wf_cty struct_timerqueue_node" "is_struct struct_timerqueue_node"
  by (simp_all add: struct_timerqueue_node_def layout)

definition struct_hrtimer :: cty where
  "struct_hrtimer = Struct [Fld ''node'' struct_timerqueue_node, Fld ''_softexpires'' td_ktime_t,
     Fld ''function'' CPtr, Fld ''base'' CPtr, Fld ''state'' td_u8, Fld ''is_rel'' td_u8,
     Fld ''is_soft'' td_u8, Fld ''is_hard'' td_u8]"

lemma layout_struct_hrtimer [layout]:
  "sizeof struct_hrtimer = 64" "alignof struct_hrtimer = 8" "wf_cty struct_hrtimer" "is_struct struct_hrtimer"
  by (simp_all add: struct_hrtimer_def layout)

definition td___kernel_dev_t :: cty where
  "td___kernel_dev_t = td_u32"

lemma layout_td___kernel_dev_t [layout]:
  "sizeof td___kernel_dev_t = 4" "alignof td___kernel_dev_t = 4" "wf_cty td___kernel_dev_t"
  by (simp_all add: td___kernel_dev_t_def layout)

definition td_dev_t :: cty where
  "td_dev_t = td___kernel_dev_t"

lemma layout_td_dev_t [layout]:
  "sizeof td_dev_t = 4" "alignof td_dev_t = 4" "wf_cty td_dev_t"
  by (simp_all add: td_dev_t_def layout)

definition td_s16 :: cty where
  "td_s16 = td___s16"

lemma layout_td_s16 [layout]:
  "sizeof td_s16 = 2" "alignof td_s16 = 2" "wf_cty td_s16"
  by (simp_all add: td_s16_def layout)

definition td_perf_overflow_handler_t :: cty where
  "td_perf_overflow_handler_t = CPtr"

lemma layout_td_perf_overflow_handler_t [layout]:
  "sizeof td_perf_overflow_handler_t = 8" "alignof td_perf_overflow_handler_t = 8" "wf_cty td_perf_overflow_handler_t"
  by (simp_all add: td_perf_overflow_handler_t_def layout)

definition td_ftrace_func_t :: cty where
  "td_ftrace_func_t = CPtr"

lemma layout_td_ftrace_func_t [layout]:
  "sizeof td_ftrace_func_t = 8" "alignof td_ftrace_func_t = 8" "wf_cty td_ftrace_func_t"
  by (simp_all add: td_ftrace_func_t_def layout)

definition td_ftrace_ops_func_t :: cty where
  "td_ftrace_ops_func_t = CPtr"

lemma layout_td_ftrace_ops_func_t [layout]:
  "sizeof td_ftrace_ops_func_t = 8" "alignof td_ftrace_ops_func_t = 8" "wf_cty td_ftrace_ops_func_t"
  by (simp_all add: td_ftrace_ops_func_t_def layout)

end
