(* ===== verification/Vm_BpfKernel.thy ===== *)
theory Vm_BpfKernel
  imports Vm_Kernel
begin

text \<open>
  The kernel's BPF objects: programs, maps (array and hash maps with their buckets and
  elements), helper prototypes, and the event entries of a perf event array. Translated
  declaration by declaration from \<open>ebpf/vmlinux.h\<close>, in the order the types depend
  on each other; each type is followed by its size and alignment, computed by the layout.
\<close>

definition struct_sock_filter :: cty where
  "struct_sock_filter = Struct [Fld ''code'' td___u16, Fld ''jt'' td___u8, Fld ''jf'' td___u8,
     Fld ''k'' td___u32]"

lemma layout_struct_sock_filter [layout]:
  "sizeof struct_sock_filter = 8" "alignof struct_sock_filter = 4" "wf_cty struct_sock_filter" "is_struct struct_sock_filter"
  by (simp_all add: struct_sock_filter_def layout)

definition struct_bpf_prog :: cty where
  "struct_bpf_prog = Struct [Fld ''pages'' td_u16, Bits ''jited'' td_u16 1,
     Bits ''jit_requested'' td_u16 1, Bits ''gpl_compatible'' td_u16 1,
     Bits ''cb_access'' td_u16 1, Bits ''dst_needed'' td_u16 1,
     Bits ''blinding_requested'' td_u16 1, Bits ''blinded'' td_u16 1, Bits ''is_func'' td_u16 1,
     Bits ''kprobe_override'' td_u16 1, Bits ''has_callchain_buf'' td_u16 1,
     Bits ''enforce_expected_attach_type'' td_u16 1, Bits ''call_get_stack'' td_u16 1,
     Bits ''call_get_func_ip'' td_u16 1, Bits ''tstamp_type_access'' td_u16 1, Fld ''type'' Enum,
     Fld ''expected_attach_type'' Enum, Fld ''len'' td_u32, Fld ''jited_len'' td_u32,
     Fld ''tag'' (CArr td_u8 8), Fld ''stats'' CPtr, Fld ''active'' CPtr, Fld ''bpf_func'' CPtr,
     Fld ''aux'' CPtr, Fld ''orig_prog'' CPtr,
     Fld '''' (Union [Fld '''' (Struct [Fld ''__empty_insns'' (Struct []),
     Fld ''insns'' (CArr struct_sock_filter 0)]),
     Fld '''' (Struct [Fld ''__empty_insnsi'' (Struct []),
     Fld ''insnsi'' (CArr struct_bpf_insn 0)])])]"

lemma layout_struct_bpf_prog [layout]:
  "sizeof struct_bpf_prog = 72" "alignof struct_bpf_prog = 8" "wf_cty struct_bpf_prog" "is_struct struct_bpf_prog"
  by (simp_all add: struct_bpf_prog_def layout)

definition struct_bpf_map :: cty where
  "struct_bpf_map = Struct [Fld ''ops'' CPtr, Fld ''inner_map_meta'' CPtr, Fld ''security'' CPtr,
     Fld ''map_type'' Enum, Fld ''key_size'' td_u32, Fld ''value_size'' td_u32,
     Fld ''max_entries'' td_u32, Fld ''map_extra'' td_u64, Fld ''map_flags'' td_u32,
     Fld ''id'' td_u32, Fld ''record'' CPtr, Fld ''numa_node'' C_int,
     Fld ''btf_key_type_id'' td_u32, Fld ''btf_value_type_id'' td_u32,
     Fld ''btf_vmlinux_value_type_id'' td_u32, Fld ''btf'' CPtr, Fld ''objcg'' CPtr,
     Fld ''name'' (CArr C_char 16), Bits '''' C_long 64, Bits '''' C_long 64,
     Fld ''refcnt'' td_atomic64_t, Fld ''usercnt'' td_atomic64_t, Fld ''work'' struct_work_struct,
     Fld ''freeze_mutex'' struct_mutex, Fld ''writecnt'' td_atomic64_t,
     Fld ''owner'' (Struct [Fld ''lock'' td_spinlock_t, Fld ''type'' Enum, Fld ''jited'' td_bool,
     Fld ''xdp_has_frags'' td_bool]), Fld ''bypass_spec_v1'' td_bool, Fld ''frozen'' td_bool,
     Bits '''' C_long 64, Bits '''' C_long 64, Bits '''' C_long 64]"

lemma layout_struct_bpf_map [layout]:
  "sizeof struct_bpf_map = 256" "alignof struct_bpf_map = 8" "wf_cty struct_bpf_map" "is_struct struct_bpf_map"
  by (simp_all add: struct_bpf_map_def layout)

definition struct_bpf_array :: cty where
  "struct_bpf_array = Struct [Fld ''map'' struct_bpf_map, Fld ''elem_size'' td_u32,
     Fld ''index_mask'' td_u32, Fld ''aux'' CPtr,
     Fld '''' (Union [Fld '''' (Struct [Fld ''__empty_value'' (Struct []),
     Fld ''value'' (CArr C_char 0)]), Fld '''' (Struct [Fld ''__empty_ptrs'' (Struct []),
     Fld ''ptrs'' (CArr CPtr 0)]), Fld '''' (Struct [Fld ''__empty_pptrs'' (Struct []),
     Fld ''pptrs'' (CArr CPtr 0)])]), Bits '''' C_long 64, Bits '''' C_long 64,
     Bits '''' C_long 64, Bits '''' C_long 64, Bits '''' C_long 64, Bits '''' C_long 64]"

lemma layout_struct_bpf_array [layout]:
  "sizeof struct_bpf_array = 320" "alignof struct_bpf_array = 8" "wf_cty struct_bpf_array" "is_struct struct_bpf_array"
  by (simp_all add: struct_bpf_array_def layout)

definition struct_bpf_mem_alloc :: cty where
  "struct_bpf_mem_alloc = Struct [Fld ''caches'' CPtr, Fld ''cache'' CPtr,
     Fld ''work'' struct_work_struct]"

lemma layout_struct_bpf_mem_alloc [layout]:
  "sizeof struct_bpf_mem_alloc = 48" "alignof struct_bpf_mem_alloc = 8" "wf_cty struct_bpf_mem_alloc" "is_struct struct_bpf_mem_alloc"
  by (simp_all add: struct_bpf_mem_alloc_def layout)

definition struct_pcpu_freelist_head :: cty where
  "struct_pcpu_freelist_head = Struct [Fld ''first'' CPtr, Fld ''lock'' td_raw_spinlock_t]"

lemma layout_struct_pcpu_freelist_head [layout]:
  "sizeof struct_pcpu_freelist_head = 16" "alignof struct_pcpu_freelist_head = 8" "wf_cty struct_pcpu_freelist_head" "is_struct struct_pcpu_freelist_head"
  by (simp_all add: struct_pcpu_freelist_head_def layout)

definition struct_pcpu_freelist :: cty where
  "struct_pcpu_freelist = Struct [Fld ''freelist'' CPtr,
     Fld ''extralist'' struct_pcpu_freelist_head]"

lemma layout_struct_pcpu_freelist [layout]:
  "sizeof struct_pcpu_freelist = 24" "alignof struct_pcpu_freelist = 8" "wf_cty struct_pcpu_freelist" "is_struct struct_pcpu_freelist"
  by (simp_all add: struct_pcpu_freelist_def layout)

definition struct_bpf_lru_list :: cty where
  "struct_bpf_lru_list = Struct [Fld ''lists'' (CArr struct_list_head 3),
     Fld ''counts'' (CArr C_uint 2), Fld ''next_inactive_rotation'' CPtr,
     Fld ''lock'' td_raw_spinlock_t, Bits '''' C_long 64, Bits '''' C_long 64,
     Bits '''' C_long 64, Bits '''' C_long 64, Bits '''' C_long 64, Bits '''' C_long 64,
     Bits '''' C_long 64]"

lemma layout_struct_bpf_lru_list [layout]:
  "sizeof struct_bpf_lru_list = 128" "alignof struct_bpf_lru_list = 8" "wf_cty struct_bpf_lru_list" "is_struct struct_bpf_lru_list"
  by (simp_all add: struct_bpf_lru_list_def layout)

definition struct_bpf_common_lru :: cty where
  "struct_bpf_common_lru = Struct [Fld ''lru_list'' struct_bpf_lru_list, Fld ''local_list'' CPtr,
     Bits '''' C_long 64, Bits '''' C_long 64, Bits '''' C_long 64, Bits '''' C_long 64,
     Bits '''' C_long 64, Bits '''' C_long 64, Bits '''' C_long 64]"

lemma layout_struct_bpf_common_lru [layout]:
  "sizeof struct_bpf_common_lru = 192" "alignof struct_bpf_common_lru = 8" "wf_cty struct_bpf_common_lru" "is_struct struct_bpf_common_lru"
  by (simp_all add: struct_bpf_common_lru_def layout)

definition struct_bpf_lru :: cty where
  "struct_bpf_lru = Struct [Fld '''' (Union [Fld ''common_lru'' struct_bpf_common_lru,
     Fld ''percpu_lru'' CPtr]), Fld ''del_from_htab'' td_del_from_htab_func, Fld ''del_arg'' CPtr,
     Fld ''hash_offset'' C_uint, Fld ''nr_scans'' C_uint, Fld ''percpu'' td_bool,
     Bits '''' C_long 64, Bits '''' C_long 64, Bits '''' C_long 64, Bits '''' C_long 64]"

lemma layout_struct_bpf_lru [layout]:
  "sizeof struct_bpf_lru = 256" "alignof struct_bpf_lru = 8" "wf_cty struct_bpf_lru" "is_struct struct_bpf_lru"
  by (simp_all add: struct_bpf_lru_def layout)

definition struct_percpu_counter :: cty where
  "struct_percpu_counter = Struct [Fld ''lock'' td_raw_spinlock_t, Fld ''count'' td_s64,
     Fld ''list'' struct_list_head, Fld ''counters'' CPtr]"

lemma layout_struct_percpu_counter [layout]:
  "sizeof struct_percpu_counter = 40" "alignof struct_percpu_counter = 8" "wf_cty struct_percpu_counter" "is_struct struct_percpu_counter"
  by (simp_all add: struct_percpu_counter_def layout)

definition struct_lock_class_key :: cty where
  "struct_lock_class_key = Struct []"

lemma layout_struct_lock_class_key [layout]:
  "sizeof struct_lock_class_key = 0" "alignof struct_lock_class_key = 1" "wf_cty struct_lock_class_key" "is_struct struct_lock_class_key"
  by (simp_all add: struct_lock_class_key_def layout)

definition struct_bpf_htab :: cty where
  "struct_bpf_htab = Struct [Fld ''map'' struct_bpf_map, Fld ''ma'' struct_bpf_mem_alloc,
     Fld ''pcpu_ma'' struct_bpf_mem_alloc, Fld ''buckets'' CPtr, Fld ''elems'' CPtr,
     Bits '''' C_long 64, Bits '''' C_long 64,
     Fld '''' (Union [Fld ''freelist'' struct_pcpu_freelist, Fld ''lru'' struct_bpf_lru]),
     Fld ''extra_elems'' CPtr, Fld ''pcount'' struct_percpu_counter, Fld ''count'' td_atomic_t,
     Fld ''use_percpu_counter'' td_bool, Fld ''n_buckets'' td_u32, Fld ''elem_size'' td_u32,
     Fld ''hashrnd'' td_u32, Fld ''lockdep_key'' struct_lock_class_key,
     Fld ''map_locked'' (CArr CPtr 8), Bits '''' C_long 64, Bits '''' C_long 64,
     Bits '''' C_long 64, Bits '''' C_long 64, Bits '''' C_long 64, Bits '''' C_long 64,
     Bits '''' C_long 64]"

lemma layout_struct_bpf_htab [layout]:
  "sizeof struct_bpf_htab = 832" "alignof struct_bpf_htab = 8" "wf_cty struct_bpf_htab" "is_struct struct_bpf_htab"
  by (simp_all add: struct_bpf_htab_def layout)

definition struct_hlist_nulls_head :: cty where
  "struct_hlist_nulls_head = Struct [Fld ''first'' CPtr]"

lemma layout_struct_hlist_nulls_head [layout]:
  "sizeof struct_hlist_nulls_head = 8" "alignof struct_hlist_nulls_head = 8" "wf_cty struct_hlist_nulls_head" "is_struct struct_hlist_nulls_head"
  by (simp_all add: struct_hlist_nulls_head_def layout)

definition struct_bucket :: cty where
  "struct_bucket = Struct [Fld ''head'' struct_hlist_nulls_head,
     Fld ''raw_lock'' td_raw_spinlock_t]"

lemma layout_struct_bucket [layout]:
  "sizeof struct_bucket = 16" "alignof struct_bucket = 8" "wf_cty struct_bucket" "is_struct struct_bucket"
  by (simp_all add: struct_bucket_def layout)

definition struct_pcpu_freelist_node :: cty where
  "struct_pcpu_freelist_node = Struct [Fld ''next'' CPtr]"

lemma layout_struct_pcpu_freelist_node [layout]:
  "sizeof struct_pcpu_freelist_node = 8" "alignof struct_pcpu_freelist_node = 8" "wf_cty struct_pcpu_freelist_node" "is_struct struct_pcpu_freelist_node"
  by (simp_all add: struct_pcpu_freelist_node_def layout)

definition struct_bpf_lru_node :: cty where
  "struct_bpf_lru_node = Struct [Fld ''list'' struct_list_head, Fld ''cpu'' td_u16,
     Fld ''type'' td_u8, Fld ''ref'' td_u8]"

lemma layout_struct_bpf_lru_node [layout]:
  "sizeof struct_bpf_lru_node = 24" "alignof struct_bpf_lru_node = 8" "wf_cty struct_bpf_lru_node" "is_struct struct_bpf_lru_node"
  by (simp_all add: struct_bpf_lru_node_def layout)

definition struct_htab_elem :: cty where
  "struct_htab_elem = Struct [Fld '''' (Union [Fld ''hash_node'' struct_hlist_nulls_node,
     Fld '''' (Struct [Fld ''padding'' CPtr,
     Fld '''' (Union [Fld ''fnode'' struct_pcpu_freelist_node, Fld ''batch_flink'' CPtr])])]),
     Fld '''' (Union [Fld ''ptr_to_pptr'' CPtr, Fld ''lru_node'' struct_bpf_lru_node]),
     Fld ''hash'' td_u32, Bits '''' C_long 0, Fld ''key'' (CArr C_char 0)]"

lemma layout_struct_htab_elem [layout]:
  "sizeof struct_htab_elem = 48" "alignof struct_htab_elem = 8" "wf_cty struct_htab_elem" "is_struct struct_htab_elem"
  by (simp_all add: struct_htab_elem_def layout)

definition struct_bpf_map_ops :: cty where
  "struct_bpf_map_ops = Struct [Fld ''map_alloc_check'' CPtr, Fld ''map_alloc'' CPtr,
     Fld ''map_release'' CPtr, Fld ''map_free'' CPtr, Fld ''map_get_next_key'' CPtr,
     Fld ''map_release_uref'' CPtr, Fld ''map_lookup_elem_sys_only'' CPtr,
     Fld ''map_lookup_batch'' CPtr, Fld ''map_lookup_and_delete_elem'' CPtr,
     Fld ''map_lookup_and_delete_batch'' CPtr, Fld ''map_update_batch'' CPtr,
     Fld ''map_delete_batch'' CPtr, Fld ''map_lookup_elem'' CPtr, Fld ''map_update_elem'' CPtr,
     Fld ''map_delete_elem'' CPtr, Fld ''map_push_elem'' CPtr, Fld ''map_pop_elem'' CPtr,
     Fld ''map_peek_elem'' CPtr, Fld ''map_lookup_percpu_elem'' CPtr, Fld ''map_fd_get_ptr'' CPtr,
     Fld ''map_fd_put_ptr'' CPtr, Fld ''map_gen_lookup'' CPtr,
     Fld ''map_fd_sys_lookup_elem'' CPtr, Fld ''map_seq_show_elem'' CPtr,
     Fld ''map_check_btf'' CPtr, Fld ''map_poke_track'' CPtr, Fld ''map_poke_untrack'' CPtr,
     Fld ''map_poke_run'' CPtr, Fld ''map_direct_value_addr'' CPtr,
     Fld ''map_direct_value_meta'' CPtr, Fld ''map_mmap'' CPtr, Fld ''map_poll'' CPtr,
     Fld ''map_local_storage_charge'' CPtr, Fld ''map_local_storage_uncharge'' CPtr,
     Fld ''map_owner_storage_ptr'' CPtr, Fld ''map_redirect'' CPtr, Fld ''map_meta_equal'' CPtr,
     Fld ''map_set_for_each_callback_args'' CPtr, Fld ''map_for_each_callback'' CPtr,
     Fld ''map_mem_usage'' CPtr, Fld ''map_btf_id'' CPtr, Fld ''iter_seq_info'' CPtr]"

lemma layout_struct_bpf_map_ops [layout]:
  "sizeof struct_bpf_map_ops = 336" "alignof struct_bpf_map_ops = 8" "wf_cty struct_bpf_map_ops" "is_struct struct_bpf_map_ops"
  by (simp_all add: struct_bpf_map_ops_def layout)

definition struct_bpf_func_proto :: cty where
  "struct_bpf_func_proto = Struct [Fld ''func'' CPtr, Fld ''gpl_only'' td_bool,
     Fld ''pkt_access'' td_bool, Fld ''might_sleep'' td_bool, Fld ''ret_type'' Enum,
     Fld '''' (Union [Fld '''' (Struct [Fld ''arg1_type'' Enum, Fld ''arg2_type'' Enum,
     Fld ''arg3_type'' Enum, Fld ''arg4_type'' Enum, Fld ''arg5_type'' Enum]),
     Fld ''arg_type'' (CArr Enum 5)]),
     Fld '''' (Union [Fld '''' (Struct [Fld ''arg1_btf_id'' CPtr, Fld ''arg2_btf_id'' CPtr,
     Fld ''arg3_btf_id'' CPtr, Fld ''arg4_btf_id'' CPtr, Fld ''arg5_btf_id'' CPtr]),
     Fld ''arg_btf_id'' (CArr CPtr 5), Fld '''' (Struct [Fld ''arg1_size'' td_size_t,
     Fld ''arg2_size'' td_size_t, Fld ''arg3_size'' td_size_t, Fld ''arg4_size'' td_size_t,
     Fld ''arg5_size'' td_size_t]), Fld ''arg_size'' (CArr td_size_t 5)]),
     Fld ''ret_btf_id'' CPtr, Fld ''allowed'' CPtr]"

lemma layout_struct_bpf_func_proto [layout]:
  "sizeof struct_bpf_func_proto = 96" "alignof struct_bpf_func_proto = 8" "wf_cty struct_bpf_func_proto" "is_struct struct_bpf_func_proto"
  by (simp_all add: struct_bpf_func_proto_def layout)

definition struct_latch_tree_node :: cty where
  "struct_latch_tree_node = Struct [Fld ''node'' (CArr struct_rb_node 2)]"

lemma layout_struct_latch_tree_node [layout]:
  "sizeof struct_latch_tree_node = 48" "alignof struct_latch_tree_node = 8" "wf_cty struct_latch_tree_node" "is_struct struct_latch_tree_node"
  by (simp_all add: struct_latch_tree_node_def layout)

definition struct_bpf_ksym :: cty where
  "struct_bpf_ksym = Struct [Fld ''start'' C_ulong, Fld ''end'' C_ulong,
     Fld ''name'' (CArr C_char 512), Fld ''lnode'' struct_list_head,
     Fld ''tnode'' struct_latch_tree_node, Fld ''prog'' td_bool]"

lemma layout_struct_bpf_ksym [layout]:
  "sizeof struct_bpf_ksym = 600" "alignof struct_bpf_ksym = 8" "wf_cty struct_bpf_ksym" "is_struct struct_bpf_ksym"
  by (simp_all add: struct_bpf_ksym_def layout)

definition struct_bpf_prog_aux :: cty where
  "struct_bpf_prog_aux = Struct [Fld ''refcnt'' td_atomic64_t, Fld ''used_map_cnt'' td_u32,
     Fld ''used_btf_cnt'' td_u32, Fld ''max_ctx_offset'' td_u32, Fld ''max_pkt_offset'' td_u32,
     Fld ''max_tp_access'' td_u32, Fld ''stack_depth'' td_u32, Fld ''id'' td_u32,
     Fld ''func_cnt'' td_u32, Fld ''func_idx'' td_u32, Fld ''attach_btf_id'' td_u32,
     Fld ''ctx_arg_info_size'' td_u32, Fld ''max_rdonly_access'' td_u32,
     Fld ''max_rdwr_access'' td_u32, Fld ''attach_btf'' CPtr, Fld ''ctx_arg_info'' CPtr,
     Fld ''dst_mutex'' struct_mutex, Fld ''dst_prog'' CPtr, Fld ''dst_trampoline'' CPtr,
     Fld ''saved_dst_prog_type'' Enum, Fld ''saved_dst_attach_type'' Enum,
     Fld ''verifier_zext'' td_bool, Fld ''dev_bound'' td_bool, Fld ''offload_requested'' td_bool,
     Fld ''attach_btf_trace'' td_bool, Fld ''func_proto_unreliable'' td_bool,
     Fld ''sleepable'' td_bool, Fld ''tail_call_reachable'' td_bool,
     Fld ''xdp_has_frags'' td_bool, Fld ''attach_func_proto'' CPtr, Fld ''attach_func_name'' CPtr,
     Fld ''func'' CPtr, Fld ''jit_data'' CPtr, Fld ''poke_tab'' CPtr, Fld ''kfunc_tab'' CPtr,
     Fld ''kfunc_btf_tab'' CPtr, Fld ''size_poke_tab'' td_u32, Fld ''ksym'' struct_bpf_ksym,
     Fld ''ops'' CPtr, Fld ''used_maps'' CPtr, Fld ''used_maps_mutex'' struct_mutex,
     Fld ''used_btfs'' CPtr, Fld ''prog'' CPtr, Fld ''user'' CPtr, Fld ''load_time'' td_u64,
     Fld ''verified_insns'' td_u32, Fld ''cgroup_atype'' C_int,
     Fld ''cgroup_storage'' (CArr CPtr 2), Fld ''name'' (CArr C_char 16), Fld ''security'' CPtr,
     Fld ''offload'' CPtr, Fld ''btf'' CPtr, Fld ''func_info'' CPtr, Fld ''func_info_aux'' CPtr,
     Fld ''linfo'' CPtr, Fld ''jited_linfo'' CPtr, Fld ''func_info_cnt'' td_u32,
     Fld ''nr_linfo'' td_u32, Fld ''linfo_idx'' td_u32, Fld ''mod'' CPtr,
     Fld ''num_exentries'' td_u32, Fld ''extable'' CPtr,
     Fld '''' (Union [Fld ''work'' struct_work_struct, Fld ''rcu'' struct_callback_head])]"

lemma layout_struct_bpf_prog_aux [layout]:
  "sizeof struct_bpf_prog_aux = 1056" "alignof struct_bpf_prog_aux = 8" "wf_cty struct_bpf_prog_aux" "is_struct struct_bpf_prog_aux"
  by (simp_all add: struct_bpf_prog_aux_def layout)

definition struct_bpf_prog_ops :: cty where
  "struct_bpf_prog_ops = Struct [Fld ''test_run'' CPtr]"

lemma layout_struct_bpf_prog_ops [layout]:
  "sizeof struct_bpf_prog_ops = 8" "alignof struct_bpf_prog_ops = 8" "wf_cty struct_bpf_prog_ops" "is_struct struct_bpf_prog_ops"
  by (simp_all add: struct_bpf_prog_ops_def layout)

definition struct_bpf_verifier_ops :: cty where
  "struct_bpf_verifier_ops = Struct [Fld ''get_func_proto'' CPtr, Fld ''is_valid_access'' CPtr,
     Fld ''gen_prologue'' CPtr, Fld ''gen_ld_abs'' CPtr, Fld ''convert_ctx_access'' CPtr,
     Fld ''btf_struct_access'' CPtr]"

lemma layout_struct_bpf_verifier_ops [layout]:
  "sizeof struct_bpf_verifier_ops = 48" "alignof struct_bpf_verifier_ops = 8" "wf_cty struct_bpf_verifier_ops" "is_struct struct_bpf_verifier_ops"
  by (simp_all add: struct_bpf_verifier_ops_def layout)

definition struct_bpf_prog_stats :: cty where
  "struct_bpf_prog_stats = Struct [Fld ''cnt'' td_u64_stats_t, Fld ''nsecs'' td_u64_stats_t,
     Fld ''misses'' td_u64_stats_t, Fld ''syncp'' struct_u64_stats_sync, Bits '''' C_long 64]"

lemma layout_struct_bpf_prog_stats [layout]:
  "sizeof struct_bpf_prog_stats = 32" "alignof struct_bpf_prog_stats = 8" "wf_cty struct_bpf_prog_stats" "is_struct struct_bpf_prog_stats"
  by (simp_all add: struct_bpf_prog_stats_def layout)

definition struct_bpf_prog_array_item :: cty where
  "struct_bpf_prog_array_item = Struct [Fld ''prog'' CPtr,
     Fld '''' (Union [Fld ''cgroup_storage'' (CArr CPtr 2), Fld ''bpf_cookie'' td_u64])]"

lemma layout_struct_bpf_prog_array_item [layout]:
  "sizeof struct_bpf_prog_array_item = 24" "alignof struct_bpf_prog_array_item = 8" "wf_cty struct_bpf_prog_array_item" "is_struct struct_bpf_prog_array_item"
  by (simp_all add: struct_bpf_prog_array_item_def layout)

definition struct_bpf_prog_array :: cty where
  "struct_bpf_prog_array = Struct [Fld ''rcu'' struct_callback_head,
     Fld ''items'' (CArr struct_bpf_prog_array_item 0)]"

lemma layout_struct_bpf_prog_array [layout]:
  "sizeof struct_bpf_prog_array = 16" "alignof struct_bpf_prog_array = 8" "wf_cty struct_bpf_prog_array" "is_struct struct_bpf_prog_array"
  by (simp_all add: struct_bpf_prog_array_def layout)

definition struct_bpf_event_entry :: cty where
  "struct_bpf_event_entry = Struct [Fld ''event'' CPtr, Fld ''perf_file'' CPtr,
     Fld ''map_file'' CPtr, Fld ''rcu'' struct_callback_head]"

lemma layout_struct_bpf_event_entry [layout]:
  "sizeof struct_bpf_event_entry = 40" "alignof struct_bpf_event_entry = 8" "wf_cty struct_bpf_event_entry" "is_struct struct_bpf_event_entry"
  by (simp_all add: struct_bpf_event_entry_def layout)

definition struct_bpf_perf_event_data :: cty where
  "struct_bpf_perf_event_data = Struct [Fld ''regs'' td_bpf_user_pt_regs_t,
     Fld ''sample_period'' td___u64, Fld ''addr'' td___u64]"

lemma layout_struct_bpf_perf_event_data [layout]:
  "sizeof struct_bpf_perf_event_data = 288" "alignof struct_bpf_perf_event_data = 8" "wf_cty struct_bpf_perf_event_data" "is_struct struct_bpf_perf_event_data"
  by (simp_all add: struct_bpf_perf_event_data_def layout)

definition struct_qdisc_skb_cb :: cty where
  "struct_qdisc_skb_cb = Struct [Fld '''' (Struct [Fld ''pkt_len'' C_uint,
     Fld ''slave_dev_queue_mapping'' td_u16, Fld ''tc_classid'' td_u16]),
     Fld ''data'' (CArr C_uchar 20)]"

lemma layout_struct_qdisc_skb_cb [layout]:
  "sizeof struct_qdisc_skb_cb = 28" "alignof struct_qdisc_skb_cb = 4" "wf_cty struct_qdisc_skb_cb" "is_struct struct_qdisc_skb_cb"
  by (simp_all add: struct_qdisc_skb_cb_def layout)

definition struct_bpf_skb_data_end :: cty where
  "struct_bpf_skb_data_end = Struct [Fld ''qdisc_cb'' struct_qdisc_skb_cb, Fld ''data_meta'' CPtr,
     Fld ''data_end'' CPtr]"

lemma layout_struct_bpf_skb_data_end [layout]:
  "sizeof struct_bpf_skb_data_end = 48" "alignof struct_bpf_skb_data_end = 8" "wf_cty struct_bpf_skb_data_end" "is_struct struct_bpf_skb_data_end"
  by (simp_all add: struct_bpf_skb_data_end_def layout)

definition enum_bpf_reg_type :: "(string \<times> int) list" where
  "enum_bpf_reg_type = [(''NOT_INIT'', 0), (''SCALAR_VALUE'', 1), (''PTR_TO_CTX'', 2),
     (''CONST_PTR_TO_MAP'', 3), (''PTR_TO_MAP_VALUE'', 4), (''PTR_TO_MAP_KEY'', 5),
     (''PTR_TO_STACK'', 6), (''PTR_TO_PACKET_META'', 7), (''PTR_TO_PACKET'', 8),
     (''PTR_TO_PACKET_END'', 9), (''PTR_TO_FLOW_KEYS'', 10), (''PTR_TO_SOCKET'', 11),
     (''PTR_TO_SOCK_COMMON'', 12), (''PTR_TO_TCP_SOCK'', 13), (''PTR_TO_TP_BUFFER'', 14),
     (''PTR_TO_XDP_SOCK'', 15), (''PTR_TO_BTF_ID'', 16), (''PTR_TO_MEM'', 17),
     (''PTR_TO_BUF'', 18), (''PTR_TO_FUNC'', 19), (''CONST_PTR_TO_DYNPTR'', 20),
     (''__BPF_REG_TYPE_MAX'', 21), (''PTR_TO_MAP_VALUE_OR_NULL'', 260),
     (''PTR_TO_SOCKET_OR_NULL'', 267), (''PTR_TO_SOCK_COMMON_OR_NULL'', 268),
     (''PTR_TO_TCP_SOCK_OR_NULL'', 269), (''PTR_TO_BTF_ID_OR_NULL'', 272),
     (''__BPF_REG_TYPE_LIMIT'', 33554431)]"

definition enum_bpf_arg_type :: "(string \<times> int) list" where
  "enum_bpf_arg_type = [(''ARG_DONTCARE'', 0), (''ARG_CONST_MAP_PTR'', 1),
     (''ARG_PTR_TO_MAP_KEY'', 2), (''ARG_PTR_TO_MAP_VALUE'', 3), (''ARG_PTR_TO_MEM'', 4),
     (''ARG_CONST_SIZE'', 5), (''ARG_CONST_SIZE_OR_ZERO'', 6), (''ARG_PTR_TO_CTX'', 7),
     (''ARG_ANYTHING'', 8), (''ARG_PTR_TO_SPIN_LOCK'', 9), (''ARG_PTR_TO_SOCK_COMMON'', 10),
     (''ARG_PTR_TO_INT'', 11), (''ARG_PTR_TO_LONG'', 12), (''ARG_PTR_TO_SOCKET'', 13),
     (''ARG_PTR_TO_BTF_ID'', 14), (''ARG_PTR_TO_RINGBUF_MEM'', 15),
     (''ARG_CONST_ALLOC_SIZE_OR_ZERO'', 16), (''ARG_PTR_TO_BTF_ID_SOCK_COMMON'', 17),
     (''ARG_PTR_TO_PERCPU_BTF_ID'', 18), (''ARG_PTR_TO_FUNC'', 19), (''ARG_PTR_TO_STACK'', 20),
     (''ARG_PTR_TO_CONST_STR'', 21), (''ARG_PTR_TO_TIMER'', 22), (''ARG_PTR_TO_KPTR'', 23),
     (''ARG_PTR_TO_DYNPTR'', 24), (''__BPF_ARG_TYPE_MAX'', 25),
     (''ARG_PTR_TO_MAP_VALUE_OR_NULL'', 259), (''ARG_PTR_TO_MEM_OR_NULL'', 260),
     (''ARG_PTR_TO_CTX_OR_NULL'', 263), (''ARG_PTR_TO_SOCKET_OR_NULL'', 269),
     (''ARG_PTR_TO_STACK_OR_NULL'', 276), (''ARG_PTR_TO_BTF_ID_OR_NULL'', 270),
     (''ARG_PTR_TO_UNINIT_MEM'', 32772), (''ARG_PTR_TO_FIXED_SIZE_MEM'', 262148),
     (''__BPF_ARG_TYPE_LIMIT'', 33554431)]"

definition enum_bpf_return_type :: "(string \<times> int) list" where
  "enum_bpf_return_type = [(''RET_INTEGER'', 0), (''RET_VOID'', 1), (''RET_PTR_TO_MAP_VALUE'', 2),
     (''RET_PTR_TO_SOCKET'', 3), (''RET_PTR_TO_TCP_SOCK'', 4), (''RET_PTR_TO_SOCK_COMMON'', 5),
     (''RET_PTR_TO_MEM'', 6), (''RET_PTR_TO_MEM_OR_BTF_ID'', 7), (''RET_PTR_TO_BTF_ID'', 8),
     (''__BPF_RET_TYPE_MAX'', 9), (''RET_PTR_TO_MAP_VALUE_OR_NULL'', 258),
     (''RET_PTR_TO_SOCKET_OR_NULL'', 259), (''RET_PTR_TO_TCP_SOCK_OR_NULL'', 260),
     (''RET_PTR_TO_SOCK_COMMON_OR_NULL'', 261), (''RET_PTR_TO_RINGBUF_MEM_OR_NULL'', 1286),
     (''RET_PTR_TO_DYNPTR_MEM_OR_NULL'', 262), (''RET_PTR_TO_BTF_ID_OR_NULL'', 264),
     (''RET_PTR_TO_BTF_ID_TRUSTED'', 1048584), (''__BPF_RET_TYPE_LIMIT'', 33554431)]"

definition enum_bpf_access_type :: "(string \<times> int) list" where
  "enum_bpf_access_type = [(''BPF_READ'', 1), (''BPF_WRITE'', 2)]"

end
