(* ===== verification/Vm_Skb.thy ===== *)
theory Vm_Skb
  imports Vm_BpfKernel
begin

text \<open>
  Packets and sockets inside the kernel: \<open>sk_buff\<close> and its shared info, the queue-
  discipline control block with \<open>tc_classid\<close>, sockets and routing entries.
  Translated declaration by declaration from \<open>ebpf/vmlinux.h\<close>, in the order the
  types depend on each other; each type is followed by its size and alignment, computed by the
  layout.
\<close>

definition struct_sk_buff :: cty where
  "struct_sk_buff = Struct [Fld '''' (Union [Fld '''' (Struct [Fld ''next'' CPtr,
     Fld ''prev'' CPtr, Fld '''' (Union [Fld ''dev'' CPtr, Fld ''dev_scratch'' C_ulong])]),
     Fld ''rbnode'' struct_rb_node, Fld ''list'' struct_list_head,
     Fld ''ll_node'' struct_llist_node]), Fld '''' (Union [Fld ''sk'' CPtr,
     Fld ''ip_defrag_offset'' C_int]), Fld '''' (Union [Fld ''tstamp'' td_ktime_t,
     Fld ''skb_mstamp_ns'' td_u64]), Fld ''cb'' (CArr C_char 48),
     Fld '''' (Union [Fld '''' (Struct [Fld ''_skb_refdst'' C_ulong, Fld ''destructor'' CPtr]),
     Fld ''tcp_tsorted_anchor'' struct_list_head, Fld ''_sk_redir'' C_ulong]),
     Fld ''_nfct'' C_ulong, Fld ''len'' C_uint, Fld ''data_len'' C_uint, Fld ''mac_len'' td___u16,
     Fld ''hdr_len'' td___u16, Fld ''queue_mapping'' td___u16,
     Fld ''__cloned_offset'' (CArr td___u8 0), Bits ''cloned'' td___u8 1,
     Bits ''nohdr'' td___u8 1, Bits ''fclone'' td___u8 2, Bits ''peeked'' td___u8 1,
     Bits ''head_frag'' td___u8 1, Bits ''pfmemalloc'' td___u8 1, Bits ''pp_recycle'' td___u8 1,
     Fld ''active_extensions'' td___u8,
     Fld '''' (Union [Fld '''' (Struct [Fld ''__pkt_type_offset'' (CArr td___u8 0),
     Bits ''pkt_type'' td___u8 3, Bits ''ignore_df'' td___u8 1,
     Bits ''dst_pending_confirm'' td___u8 1, Bits ''ip_summed'' td___u8 2,
     Bits ''ooo_okay'' td___u8 1, Fld ''__mono_tc_offset'' (CArr td___u8 0),
     Bits ''mono_delivery_time'' td___u8 1, Bits ''tc_at_ingress'' td___u8 1,
     Bits ''tc_skip_classify'' td___u8 1, Bits ''remcsum_offload'' td___u8 1,
     Bits ''csum_complete_sw'' td___u8 1, Bits ''csum_level'' td___u8 2,
     Bits ''inner_protocol_type'' td___u8 1, Bits ''l4_hash'' td___u8 1,
     Bits ''sw_hash'' td___u8 1, Bits ''wifi_acked_valid'' td___u8 1,
     Bits ''wifi_acked'' td___u8 1, Bits ''no_fcs'' td___u8 1, Bits ''encapsulation'' td___u8 1,
     Bits ''encap_hdr_csum'' td___u8 1, Bits ''csum_valid'' td___u8 1,
     Bits ''ndisc_nodetype'' td___u8 2, Bits ''ipvs_property'' td___u8 1,
     Bits ''nf_trace'' td___u8 1, Bits ''offload_fwd_mark'' td___u8 1,
     Bits ''offload_l3_fwd_mark'' td___u8 1, Bits ''redirected'' td___u8 1,
     Bits ''from_ingress'' td___u8 1, Bits ''nf_skip_egress'' td___u8 1,
     Bits ''decrypted'' td___u8 1, Bits ''slow_gro'' td___u8 1, Bits ''csum_not_inet'' td___u8 1,
     Fld ''tc_index'' td___u16, Fld ''alloc_cpu'' td_u16, Fld '''' (Union [Fld ''csum'' td___wsum,
     Fld '''' (Struct [Fld ''csum_start'' td___u16, Fld ''csum_offset'' td___u16])]),
     Fld ''priority'' td___u32, Fld ''skb_iif'' C_int, Fld ''hash'' td___u32,
     Fld '''' (Union [Fld ''vlan_all'' td_u32, Fld '''' (Struct [Fld ''vlan_proto'' td___be16,
     Fld ''vlan_tci'' td___u16])]), Fld '''' (Union [Fld ''napi_id'' C_uint,
     Fld ''sender_cpu'' C_uint]), Fld ''secmark'' td___u32,
     Fld '''' (Union [Fld ''mark'' td___u32, Fld ''reserved_tailroom'' td___u32]),
     Fld '''' (Union [Fld ''inner_protocol'' td___be16, Fld ''inner_ipproto'' td___u8]),
     Fld ''inner_transport_header'' td___u16, Fld ''inner_network_header'' td___u16,
     Fld ''inner_mac_header'' td___u16, Fld ''protocol'' td___be16,
     Fld ''transport_header'' td___u16, Fld ''network_header'' td___u16,
     Fld ''mac_header'' td___u16]),
     Fld ''headers'' (Struct [Fld ''__pkt_type_offset'' (CArr td___u8 0),
     Bits ''pkt_type'' td___u8 3, Bits ''ignore_df'' td___u8 1,
     Bits ''dst_pending_confirm'' td___u8 1, Bits ''ip_summed'' td___u8 2,
     Bits ''ooo_okay'' td___u8 1, Fld ''__mono_tc_offset'' (CArr td___u8 0),
     Bits ''mono_delivery_time'' td___u8 1, Bits ''tc_at_ingress'' td___u8 1,
     Bits ''tc_skip_classify'' td___u8 1, Bits ''remcsum_offload'' td___u8 1,
     Bits ''csum_complete_sw'' td___u8 1, Bits ''csum_level'' td___u8 2,
     Bits ''inner_protocol_type'' td___u8 1, Bits ''l4_hash'' td___u8 1,
     Bits ''sw_hash'' td___u8 1, Bits ''wifi_acked_valid'' td___u8 1,
     Bits ''wifi_acked'' td___u8 1, Bits ''no_fcs'' td___u8 1, Bits ''encapsulation'' td___u8 1,
     Bits ''encap_hdr_csum'' td___u8 1, Bits ''csum_valid'' td___u8 1,
     Bits ''ndisc_nodetype'' td___u8 2, Bits ''ipvs_property'' td___u8 1,
     Bits ''nf_trace'' td___u8 1, Bits ''offload_fwd_mark'' td___u8 1,
     Bits ''offload_l3_fwd_mark'' td___u8 1, Bits ''redirected'' td___u8 1,
     Bits ''from_ingress'' td___u8 1, Bits ''nf_skip_egress'' td___u8 1,
     Bits ''decrypted'' td___u8 1, Bits ''slow_gro'' td___u8 1, Bits ''csum_not_inet'' td___u8 1,
     Fld ''tc_index'' td___u16, Fld ''alloc_cpu'' td_u16, Fld '''' (Union [Fld ''csum'' td___wsum,
     Fld '''' (Struct [Fld ''csum_start'' td___u16, Fld ''csum_offset'' td___u16])]),
     Fld ''priority'' td___u32, Fld ''skb_iif'' C_int, Fld ''hash'' td___u32,
     Fld '''' (Union [Fld ''vlan_all'' td_u32, Fld '''' (Struct [Fld ''vlan_proto'' td___be16,
     Fld ''vlan_tci'' td___u16])]), Fld '''' (Union [Fld ''napi_id'' C_uint,
     Fld ''sender_cpu'' C_uint]), Fld ''secmark'' td___u32,
     Fld '''' (Union [Fld ''mark'' td___u32, Fld ''reserved_tailroom'' td___u32]),
     Fld '''' (Union [Fld ''inner_protocol'' td___be16, Fld ''inner_ipproto'' td___u8]),
     Fld ''inner_transport_header'' td___u16, Fld ''inner_network_header'' td___u16,
     Fld ''inner_mac_header'' td___u16, Fld ''protocol'' td___be16,
     Fld ''transport_header'' td___u16, Fld ''network_header'' td___u16,
     Fld ''mac_header'' td___u16])]), Fld ''tail'' td_sk_buff_data_t,
     Fld ''end'' td_sk_buff_data_t, Fld ''head'' CPtr, Fld ''data'' CPtr, Fld ''truesize'' C_uint,
     Fld ''users'' td_refcount_t, Fld ''extensions'' CPtr]"

lemma layout_struct_sk_buff [layout]:
  "sizeof struct_sk_buff = 232" "alignof struct_sk_buff = 8" "wf_cty struct_sk_buff" "is_struct struct_sk_buff"
  by (simp_all add: struct_sk_buff_def layout)

definition struct_skb_shared_hwtstamps :: cty where
  "struct_skb_shared_hwtstamps = Struct [Fld '''' (Union [Fld ''hwtstamp'' td_ktime_t,
     Fld ''netdev_data'' CPtr])]"

lemma layout_struct_skb_shared_hwtstamps [layout]:
  "sizeof struct_skb_shared_hwtstamps = 8" "alignof struct_skb_shared_hwtstamps = 8" "wf_cty struct_skb_shared_hwtstamps" "is_struct struct_skb_shared_hwtstamps"
  by (simp_all add: struct_skb_shared_hwtstamps_def layout)

definition struct_skb_shared_info :: cty where
  "struct_skb_shared_info = Struct [Fld ''flags'' td___u8, Fld ''meta_len'' td___u8,
     Fld ''nr_frags'' td___u8, Fld ''tx_flags'' td___u8, Fld ''gso_size'' C_ushort,
     Fld ''gso_segs'' C_ushort, Fld ''frag_list'' CPtr,
     Fld ''hwtstamps'' struct_skb_shared_hwtstamps, Fld ''gso_type'' C_uint, Fld ''tskey'' td_u32,
     Fld ''dataref'' td_atomic_t, Fld ''xdp_frags_size'' C_uint, Fld ''destructor_arg'' CPtr,
     Fld ''frags'' (CArr td_skb_frag_t 17)]"

lemma layout_struct_skb_shared_info [layout]:
  "sizeof struct_skb_shared_info = 320" "alignof struct_skb_shared_info = 8" "wf_cty struct_skb_shared_info" "is_struct struct_skb_shared_info"
  by (simp_all add: struct_skb_shared_info_def layout)

definition struct_sk_buff_head :: cty where
  "struct_sk_buff_head = Struct [Fld '''' (Union [Fld '''' (Struct [Fld ''next'' CPtr,
     Fld ''prev'' CPtr]), Fld ''list'' struct_sk_buff_list]), Fld ''qlen'' td___u32,
     Fld ''lock'' td_spinlock_t]"

lemma layout_struct_sk_buff_head [layout]:
  "sizeof struct_sk_buff_head = 24" "alignof struct_sk_buff_head = 8" "wf_cty struct_sk_buff_head" "is_struct struct_sk_buff_head"
  by (simp_all add: struct_sk_buff_head_def layout)

definition struct_sock_common :: cty where
  "struct_sock_common = Struct [Fld '''' (Union [Fld ''skc_addrpair'' td___addrpair,
     Fld '''' (Struct [Fld ''skc_daddr'' td___be32, Fld ''skc_rcv_saddr'' td___be32])]),
     Fld '''' (Union [Fld ''skc_hash'' C_uint, Fld ''skc_u16hashes'' (CArr td___u16 2)]),
     Fld '''' (Union [Fld ''skc_portpair'' td___portpair,
     Fld '''' (Struct [Fld ''skc_dport'' td___be16, Fld ''skc_num'' td___u16])]),
     Fld ''skc_family'' C_ushort, Fld ''skc_state'' C_uchar, Bits ''skc_reuse'' C_uchar 4,
     Bits ''skc_reuseport'' C_uchar 1, Bits ''skc_ipv6only'' C_uchar 1,
     Bits ''skc_net_refcnt'' C_uchar 1, Fld ''skc_bound_dev_if'' C_int,
     Fld '''' (Union [Fld ''skc_bind_node'' struct_hlist_node,
     Fld ''skc_portaddr_node'' struct_hlist_node]), Fld ''skc_prot'' CPtr,
     Fld ''skc_net'' td_possible_net_t, Fld ''skc_v6_daddr'' struct_in6_addr,
     Fld ''skc_v6_rcv_saddr'' struct_in6_addr, Fld ''skc_cookie'' td_atomic64_t,
     Fld '''' (Union [Fld ''skc_flags'' C_ulong, Fld ''skc_listener'' CPtr,
     Fld ''skc_tw_dr'' CPtr]), Fld ''skc_dontcopy_begin'' (CArr C_int 0),
     Fld '''' (Union [Fld ''skc_node'' struct_hlist_node,
     Fld ''skc_nulls_node'' struct_hlist_nulls_node]), Fld ''skc_tx_queue_mapping'' C_ushort,
     Fld ''skc_rx_queue_mapping'' C_ushort, Fld '''' (Union [Fld ''skc_incoming_cpu'' C_int,
     Fld ''skc_rcv_wnd'' td_u32, Fld ''skc_tw_rcv_nxt'' td_u32]),
     Fld ''skc_refcnt'' td_refcount_t, Fld ''skc_dontcopy_end'' (CArr C_int 0),
     Fld '''' (Union [Fld ''skc_rxhash'' td_u32, Fld ''skc_window_clamp'' td_u32,
     Fld ''skc_tw_snd_nxt'' td_u32])]"

lemma layout_struct_sock_common [layout]:
  "sizeof struct_sock_common = 136" "alignof struct_sock_common = 8" "wf_cty struct_sock_common" "is_struct struct_sock_common"
  by (simp_all add: struct_sock_common_def layout)

definition struct_page_frag :: cty where
  "struct_page_frag = Struct [Fld ''page'' CPtr, Fld ''offset'' td___u32, Fld ''size'' td___u32]"

lemma layout_struct_page_frag [layout]:
  "sizeof struct_page_frag = 16" "alignof struct_page_frag = 8" "wf_cty struct_page_frag" "is_struct struct_page_frag"
  by (simp_all add: struct_page_frag_def layout)

definition struct_sock_cgroup_data :: cty where
  "struct_sock_cgroup_data = Struct [Fld ''cgroup'' CPtr, Fld ''classid'' td_u32,
     Fld ''prioidx'' td_u16]"

lemma layout_struct_sock_cgroup_data [layout]:
  "sizeof struct_sock_cgroup_data = 16" "alignof struct_sock_cgroup_data = 8" "wf_cty struct_sock_cgroup_data" "is_struct struct_sock_cgroup_data"
  by (simp_all add: struct_sock_cgroup_data_def layout)

definition struct_sock :: cty where
  "struct_sock = Struct [Fld ''__sk_common'' struct_sock_common, Fld ''sk_rx_dst'' CPtr,
     Fld ''sk_rx_dst_ifindex'' C_int, Fld ''sk_rx_dst_cookie'' td_u32,
     Fld ''sk_lock'' td_socket_lock_t, Fld ''sk_drops'' td_atomic_t, Fld ''sk_rcvlowat'' C_int,
     Fld ''sk_error_queue'' struct_sk_buff_head, Fld ''sk_receive_queue'' struct_sk_buff_head,
     Fld ''sk_backlog'' (Struct [Fld ''rmem_alloc'' td_atomic_t, Fld ''len'' C_int,
     Fld ''head'' CPtr, Fld ''tail'' CPtr]), Fld ''sk_forward_alloc'' C_int,
     Fld ''sk_reserved_mem'' td_u32, Fld ''sk_ll_usec'' C_uint, Fld ''sk_napi_id'' C_uint,
     Fld ''sk_rcvbuf'' C_int, Fld ''sk_disconnects'' C_int, Fld ''sk_filter'' CPtr,
     Fld '''' (Union [Fld ''sk_wq'' CPtr, Fld ''sk_wq_raw'' CPtr]),
     Fld ''sk_policy'' (CArr CPtr 2), Fld ''sk_dst_cache'' CPtr,
     Fld ''sk_omem_alloc'' td_atomic_t, Fld ''sk_sndbuf'' C_int, Fld ''sk_wmem_queued'' C_int,
     Fld ''sk_wmem_alloc'' td_refcount_t, Fld ''sk_tsq_flags'' C_ulong,
     Fld '''' (Union [Fld ''sk_send_head'' CPtr, Fld ''tcp_rtx_queue'' struct_rb_root]),
     Fld ''sk_write_queue'' struct_sk_buff_head, Fld ''sk_peek_off'' td___s32,
     Fld ''sk_write_pending'' C_int, Fld ''sk_dst_pending_confirm'' td___u32,
     Fld ''sk_pacing_status'' td_u32, Fld ''sk_sndtimeo'' C_long,
     Fld ''sk_timer'' struct_timer_list, Fld ''sk_priority'' td___u32, Fld ''sk_mark'' td___u32,
     Fld ''sk_pacing_rate'' C_ulong, Fld ''sk_max_pacing_rate'' C_ulong,
     Fld ''sk_frag'' struct_page_frag, Fld ''sk_route_caps'' td_netdev_features_t,
     Fld ''sk_gso_type'' C_int, Fld ''sk_gso_max_size'' C_uint, Fld ''sk_allocation'' td_gfp_t,
     Fld ''sk_txhash'' td___u32, Bits ''sk_gso_disabled'' td_u8 1, Bits ''sk_kern_sock'' td_u8 1,
     Bits ''sk_no_check_tx'' td_u8 1, Bits ''sk_no_check_rx'' td_u8 1,
     Bits ''sk_userlocks'' td_u8 4, Fld ''sk_pacing_shift'' td_u8, Fld ''sk_type'' td_u16,
     Fld ''sk_protocol'' td_u16, Fld ''sk_gso_max_segs'' td_u16, Fld ''sk_lingertime'' C_ulong,
     Fld ''sk_prot_creator'' CPtr, Fld ''sk_callback_lock'' td_rwlock_t, Fld ''sk_err'' C_int,
     Fld ''sk_err_soft'' C_int, Fld ''sk_ack_backlog'' td_u32, Fld ''sk_max_ack_backlog'' td_u32,
     Fld ''sk_uid'' td_kuid_t, Fld ''sk_txrehash'' td_u8, Fld ''sk_prefer_busy_poll'' td_u8,
     Fld ''sk_busy_poll_budget'' td_u16, Fld ''sk_peer_lock'' td_spinlock_t,
     Fld ''sk_bind_phc'' C_int, Fld ''sk_peer_pid'' CPtr, Fld ''sk_peer_cred'' CPtr,
     Fld ''sk_rcvtimeo'' C_long, Fld ''sk_stamp'' td_ktime_t, Fld ''sk_tskey'' td_atomic_t,
     Fld ''sk_zckey'' td_atomic_t, Fld ''sk_tsflags'' td_u32, Fld ''sk_shutdown'' td_u8,
     Fld ''sk_clockid'' td_u8, Bits ''sk_txtime_deadline_mode'' td_u8 1,
     Bits ''sk_txtime_report_errors'' td_u8 1, Bits ''sk_txtime_unused'' td_u8 6,
     Fld ''sk_use_task_frag'' td_bool, Fld ''sk_socket'' CPtr, Fld ''sk_user_data'' CPtr,
     Fld ''sk_security'' CPtr, Fld ''sk_cgrp_data'' struct_sock_cgroup_data,
     Fld ''sk_memcg'' CPtr, Fld ''sk_state_change'' CPtr, Fld ''sk_data_ready'' CPtr,
     Fld ''sk_write_space'' CPtr, Fld ''sk_error_report'' CPtr, Fld ''sk_backlog_rcv'' CPtr,
     Fld ''sk_validate_xmit_skb'' CPtr, Fld ''sk_destruct'' CPtr, Fld ''sk_reuseport_cb'' CPtr,
     Fld ''sk_bpf_storage'' CPtr, Fld ''sk_rcu'' struct_callback_head,
     Fld ''ns_tracker'' td_netns_tracker, Fld ''sk_bind2_node'' struct_hlist_node]"

lemma layout_struct_sock [layout]:
  "sizeof struct_sock = 776" "alignof struct_sock = 8" "wf_cty struct_sock" "is_struct struct_sock"
  by (simp_all add: struct_sock_def layout)

definition struct_inet_cork :: cty where
  "struct_inet_cork = Struct [Fld ''flags'' C_uint, Fld ''addr'' td___be32, Fld ''opt'' CPtr,
     Fld ''fragsize'' C_uint, Fld ''length'' C_int, Fld ''dst'' CPtr, Fld ''tx_flags'' td_u8,
     Fld ''ttl'' td___u8, Fld ''tos'' td___s16, Fld ''priority'' C_char,
     Fld ''gso_size'' td___u16, Fld ''transmit_time'' td_u64, Fld ''mark'' td_u32]"

lemma layout_struct_inet_cork [layout]:
  "sizeof struct_inet_cork = 56" "alignof struct_inet_cork = 8" "wf_cty struct_inet_cork" "is_struct struct_inet_cork"
  by (simp_all add: struct_inet_cork_def layout)

definition struct_flowi_tunnel :: cty where
  "struct_flowi_tunnel = Struct [Fld ''tun_id'' td___be64]"

lemma layout_struct_flowi_tunnel [layout]:
  "sizeof struct_flowi_tunnel = 8" "alignof struct_flowi_tunnel = 8" "wf_cty struct_flowi_tunnel" "is_struct struct_flowi_tunnel"
  by (simp_all add: struct_flowi_tunnel_def layout)

definition struct_flowi_common :: cty where
  "struct_flowi_common = Struct [Fld ''flowic_oif'' C_int, Fld ''flowic_iif'' C_int,
     Fld ''flowic_l3mdev'' C_int, Fld ''flowic_mark'' td___u32, Fld ''flowic_tos'' td___u8,
     Fld ''flowic_scope'' td___u8, Fld ''flowic_proto'' td___u8, Fld ''flowic_flags'' td___u8,
     Fld ''flowic_secid'' td___u32, Fld ''flowic_uid'' td_kuid_t,
     Fld ''flowic_multipath_hash'' td___u32, Fld ''flowic_tun_key'' struct_flowi_tunnel]"

lemma layout_struct_flowi_common [layout]:
  "sizeof struct_flowi_common = 40" "alignof struct_flowi_common = 8" "wf_cty struct_flowi_common" "is_struct struct_flowi_common"
  by (simp_all add: struct_flowi_common_def layout)

definition union_flowi_uli :: cty where
  "union_flowi_uli = Union [Fld ''ports'' (Struct [Fld ''dport'' td___be16,
     Fld ''sport'' td___be16]), Fld ''icmpt'' (Struct [Fld ''type'' td___u8,
     Fld ''code'' td___u8]), Fld ''gre_key'' td___be32,
     Fld ''mht'' (Struct [Fld ''type'' td___u8])]"

lemma layout_union_flowi_uli [layout]:
  "sizeof union_flowi_uli = 4" "alignof union_flowi_uli = 4" "wf_cty union_flowi_uli"
  by (simp_all add: union_flowi_uli_def layout)

definition struct_flowi4 :: cty where
  "struct_flowi4 = Struct [Fld ''__fl_common'' struct_flowi_common, Fld ''saddr'' td___be32,
     Fld ''daddr'' td___be32, Fld ''uli'' union_flowi_uli]"

lemma layout_struct_flowi4 [layout]:
  "sizeof struct_flowi4 = 56" "alignof struct_flowi4 = 8" "wf_cty struct_flowi4" "is_struct struct_flowi4"
  by (simp_all add: struct_flowi4_def layout)

definition struct_flowi6 :: cty where
  "struct_flowi6 = Struct [Fld ''__fl_common'' struct_flowi_common, Fld ''daddr'' struct_in6_addr,
     Fld ''saddr'' struct_in6_addr, Fld ''flowlabel'' td___be32, Fld ''uli'' union_flowi_uli,
     Fld ''mp_hash'' td___u32]"

lemma layout_struct_flowi6 [layout]:
  "sizeof struct_flowi6 = 88" "alignof struct_flowi6 = 8" "wf_cty struct_flowi6" "is_struct struct_flowi6"
  by (simp_all add: struct_flowi6_def layout)

definition struct_flowi :: cty where
  "struct_flowi = Struct [Fld ''u'' (Union [Fld ''__fl_common'' struct_flowi_common,
     Fld ''ip4'' struct_flowi4, Fld ''ip6'' struct_flowi6])]"

lemma layout_struct_flowi [layout]:
  "sizeof struct_flowi = 88" "alignof struct_flowi = 8" "wf_cty struct_flowi" "is_struct struct_flowi"
  by (simp_all add: struct_flowi_def layout)

definition struct_inet_cork_full :: cty where
  "struct_inet_cork_full = Struct [Fld ''base'' struct_inet_cork, Fld ''fl'' struct_flowi]"

lemma layout_struct_inet_cork_full [layout]:
  "sizeof struct_inet_cork_full = 144" "alignof struct_inet_cork_full = 8" "wf_cty struct_inet_cork_full" "is_struct struct_inet_cork_full"
  by (simp_all add: struct_inet_cork_full_def layout)

definition struct_inet_sock :: cty where
  "struct_inet_sock = Struct [Fld ''sk'' struct_sock, Fld ''pinet6'' CPtr,
     Fld ''inet_saddr'' td___be32, Fld ''uc_ttl'' td___s16, Fld ''cmsg_flags'' td___u16,
     Fld ''inet_opt'' CPtr, Fld ''inet_id'' td_atomic_t, Fld ''inet_sport'' td___be16,
     Fld ''tos'' td___u8, Fld ''min_ttl'' td___u8, Fld ''mc_ttl'' td___u8,
     Fld ''pmtudisc'' td___u8, Bits ''recverr'' td___u8 1, Bits ''is_icsk'' td___u8 1,
     Bits ''freebind'' td___u8 1, Bits ''hdrincl'' td___u8 1, Bits ''mc_loop'' td___u8 1,
     Bits ''transparent'' td___u8 1, Bits ''mc_all'' td___u8 1, Bits ''nodefrag'' td___u8 1,
     Bits ''bind_address_no_port'' td___u8 1, Bits ''recverr_rfc4884'' td___u8 1,
     Bits ''defer_connect'' td___u8 1, Fld ''rcv_tos'' td___u8, Fld ''convert_csum'' td___u8,
     Fld ''uc_index'' C_int, Fld ''mc_index'' C_int, Fld ''mc_addr'' td___be32,
     Fld ''mc_list'' CPtr, Fld ''cork'' struct_inet_cork_full,
     Fld ''local_port_range'' (Struct [Fld ''lo'' td___u16, Fld ''hi'' td___u16])]"

lemma layout_struct_inet_sock [layout]:
  "sizeof struct_inet_sock = 992" "alignof struct_inet_sock = 8" "wf_cty struct_inet_sock" "is_struct struct_inet_sock"
  by (simp_all add: struct_inet_sock_def layout)

definition struct_socket_wq :: cty where
  "struct_socket_wq = Struct [Fld ''wait'' td_wait_queue_head_t, Fld ''fasync_list'' CPtr,
     Fld ''flags'' C_ulong, Fld ''rcu'' struct_callback_head, Bits '''' C_long 64]"

lemma layout_struct_socket_wq [layout]:
  "sizeof struct_socket_wq = 64" "alignof struct_socket_wq = 8" "wf_cty struct_socket_wq" "is_struct struct_socket_wq"
  by (simp_all add: struct_socket_wq_def layout)

definition struct_socket :: cty where
  "struct_socket = Struct [Fld ''state'' td_socket_state, Fld ''type'' C_short,
     Fld ''flags'' C_ulong, Fld ''file'' CPtr, Fld ''sk'' CPtr, Fld ''ops'' CPtr,
     Bits '''' C_long 64, Bits '''' C_long 64, Bits '''' C_long 64, Fld ''wq'' struct_socket_wq]"

lemma layout_struct_socket [layout]:
  "sizeof struct_socket = 128" "alignof struct_socket = 8" "wf_cty struct_socket" "is_struct struct_socket"
  by (simp_all add: struct_socket_def layout)

definition struct_proto :: cty where
  "struct_proto = Struct [Fld ''close'' CPtr, Fld ''pre_connect'' CPtr, Fld ''connect'' CPtr,
     Fld ''disconnect'' CPtr, Fld ''accept'' CPtr, Fld ''ioctl'' CPtr, Fld ''init'' CPtr,
     Fld ''destroy'' CPtr, Fld ''shutdown'' CPtr, Fld ''setsockopt'' CPtr,
     Fld ''getsockopt'' CPtr, Fld ''keepalive'' CPtr, Fld ''compat_ioctl'' CPtr,
     Fld ''sendmsg'' CPtr, Fld ''recvmsg'' CPtr, Fld ''splice_eof'' CPtr, Fld ''bind'' CPtr,
     Fld ''bind_add'' CPtr, Fld ''backlog_rcv'' CPtr, Fld ''bpf_bypass_getsockopt'' CPtr,
     Fld ''release_cb'' CPtr, Fld ''hash'' CPtr, Fld ''unhash'' CPtr, Fld ''rehash'' CPtr,
     Fld ''get_port'' CPtr, Fld ''put_port'' CPtr, Fld ''psock_update_sk_prot'' CPtr,
     Fld ''inuse_idx'' C_uint, Fld ''forward_alloc_get'' CPtr, Fld ''stream_memory_free'' CPtr,
     Fld ''sock_is_readable'' CPtr, Fld ''enter_memory_pressure'' CPtr,
     Fld ''leave_memory_pressure'' CPtr, Fld ''memory_allocated'' CPtr,
     Fld ''per_cpu_fw_alloc'' CPtr, Fld ''sockets_allocated'' CPtr, Fld ''memory_pressure'' CPtr,
     Fld ''sysctl_mem'' CPtr, Fld ''sysctl_wmem'' CPtr, Fld ''sysctl_rmem'' CPtr,
     Fld ''sysctl_wmem_offset'' td_u32, Fld ''sysctl_rmem_offset'' td_u32,
     Fld ''max_header'' C_int, Fld ''no_autobind'' td_bool, Fld ''slab'' CPtr,
     Fld ''obj_size'' C_uint, Fld ''ipv6_pinfo_offset'' C_uint,
     Fld ''slab_flags'' td_slab_flags_t, Fld ''useroffset'' C_uint, Fld ''usersize'' C_uint,
     Fld ''orphan_count'' CPtr, Fld ''rsk_prot'' CPtr, Fld ''twsk_prot'' CPtr,
     Fld ''h'' (Union [Fld ''hashinfo'' CPtr, Fld ''udp_table'' CPtr, Fld ''raw_hash'' CPtr,
     Fld ''smc_hash'' CPtr]), Fld ''owner'' CPtr, Fld ''name'' (CArr C_char 32),
     Fld ''node'' struct_list_head, Fld ''diag_destroy'' CPtr]"

lemma layout_struct_proto [layout]:
  "sizeof struct_proto = 464" "alignof struct_proto = 8" "wf_cty struct_proto" "is_struct struct_proto"
  by (simp_all add: struct_proto_def layout)

definition struct_proto_ops :: cty where
  "struct_proto_ops = Struct [Fld ''family'' C_int, Fld ''owner'' CPtr, Fld ''release'' CPtr,
     Fld ''bind'' CPtr, Fld ''connect'' CPtr, Fld ''socketpair'' CPtr, Fld ''accept'' CPtr,
     Fld ''getname'' CPtr, Fld ''poll'' CPtr, Fld ''ioctl'' CPtr, Fld ''compat_ioctl'' CPtr,
     Fld ''gettstamp'' CPtr, Fld ''listen'' CPtr, Fld ''shutdown'' CPtr, Fld ''setsockopt'' CPtr,
     Fld ''getsockopt'' CPtr, Fld ''show_fdinfo'' CPtr, Fld ''sendmsg'' CPtr,
     Fld ''recvmsg'' CPtr, Fld ''mmap'' CPtr, Fld ''splice_read'' CPtr, Fld ''splice_eof'' CPtr,
     Fld ''set_peek_off'' CPtr, Fld ''peek_len'' CPtr, Fld ''read_sock'' CPtr,
     Fld ''read_skb'' CPtr, Fld ''sendmsg_locked'' CPtr, Fld ''set_rcvlowat'' CPtr]"

lemma layout_struct_proto_ops [layout]:
  "sizeof struct_proto_ops = 224" "alignof struct_proto_ops = 8" "wf_cty struct_proto_ops" "is_struct struct_proto_ops"
  by (simp_all add: struct_proto_ops_def layout)

definition struct_dst_entry :: cty where
  "struct_dst_entry = Struct [Fld ''dev'' CPtr, Fld ''ops'' CPtr, Fld ''_metrics'' C_ulong,
     Fld ''expires'' C_ulong, Fld ''xfrm'' CPtr, Fld ''input'' CPtr, Fld ''output'' CPtr,
     Fld ''flags'' C_ushort, Fld ''obsolete'' C_short, Fld ''header_len'' C_ushort,
     Fld ''trailer_len'' C_ushort, Fld ''__rcuref'' td_rcuref_t, Fld ''__use'' C_int,
     Fld ''lastuse'' C_ulong, Fld ''callback_head'' struct_callback_head, Fld ''error'' C_short,
     Fld ''__pad'' C_short, Fld ''tclassid'' td___u32, Fld ''dev_tracker'' td_netdevice_tracker,
     Fld ''rt_uncached'' struct_list_head, Fld ''rt_uncached_list'' CPtr, Fld ''lwtstate'' CPtr]"

lemma layout_struct_dst_entry [layout]:
  "sizeof struct_dst_entry = 136" "alignof struct_dst_entry = 8" "wf_cty struct_dst_entry" "is_struct struct_dst_entry"
  by (simp_all add: struct_dst_entry_def layout)

definition struct_header_ops :: cty where
  "struct_header_ops = Struct [Fld ''create'' CPtr, Fld ''parse'' CPtr, Fld ''cache'' CPtr,
     Fld ''cache_update'' CPtr, Fld ''validate'' CPtr, Fld ''parse_protocol'' CPtr]"

lemma layout_struct_header_ops [layout]:
  "sizeof struct_header_ops = 48" "alignof struct_header_ops = 8" "wf_cty struct_header_ops" "is_struct struct_header_ops"
  by (simp_all add: struct_header_ops_def layout)

definition enum_skb_drop_reason :: "(string \<times> int) list" where
  "enum_skb_drop_reason = [(''SKB_NOT_DROPPED_YET'', 0), (''SKB_CONSUMED'', 1),
     (''SKB_DROP_REASON_NOT_SPECIFIED'', 2), (''SKB_DROP_REASON_NO_SOCKET'', 3),
     (''SKB_DROP_REASON_PKT_TOO_SMALL'', 4), (''SKB_DROP_REASON_TCP_CSUM'', 5),
     (''SKB_DROP_REASON_SOCKET_FILTER'', 6), (''SKB_DROP_REASON_UDP_CSUM'', 7),
     (''SKB_DROP_REASON_NETFILTER_DROP'', 8), (''SKB_DROP_REASON_OTHERHOST'', 9),
     (''SKB_DROP_REASON_IP_CSUM'', 10), (''SKB_DROP_REASON_IP_INHDR'', 11),
     (''SKB_DROP_REASON_IP_RPFILTER'', 12), (''SKB_DROP_REASON_UNICAST_IN_L2_MULTICAST'', 13),
     (''SKB_DROP_REASON_XFRM_POLICY'', 14), (''SKB_DROP_REASON_IP_NOPROTO'', 15),
     (''SKB_DROP_REASON_SOCKET_RCVBUFF'', 16), (''SKB_DROP_REASON_PROTO_MEM'', 17),
     (''SKB_DROP_REASON_TCP_MD5NOTFOUND'', 18), (''SKB_DROP_REASON_TCP_MD5UNEXPECTED'', 19),
     (''SKB_DROP_REASON_TCP_MD5FAILURE'', 20), (''SKB_DROP_REASON_SOCKET_BACKLOG'', 21),
     (''SKB_DROP_REASON_TCP_FLAGS'', 22), (''SKB_DROP_REASON_TCP_ZEROWINDOW'', 23),
     (''SKB_DROP_REASON_TCP_OLD_DATA'', 24), (''SKB_DROP_REASON_TCP_OVERWINDOW'', 25),
     (''SKB_DROP_REASON_TCP_OFOMERGE'', 26), (''SKB_DROP_REASON_TCP_RFC7323_PAWS'', 27),
     (''SKB_DROP_REASON_TCP_INVALID_SEQUENCE'', 28), (''SKB_DROP_REASON_TCP_RESET'', 29),
     (''SKB_DROP_REASON_TCP_INVALID_SYN'', 30), (''SKB_DROP_REASON_TCP_CLOSE'', 31),
     (''SKB_DROP_REASON_TCP_FASTOPEN'', 32), (''SKB_DROP_REASON_TCP_OLD_ACK'', 33),
     (''SKB_DROP_REASON_TCP_TOO_OLD_ACK'', 34), (''SKB_DROP_REASON_TCP_ACK_UNSENT_DATA'', 35),
     (''SKB_DROP_REASON_TCP_OFO_QUEUE_PRUNE'', 36), (''SKB_DROP_REASON_TCP_OFO_DROP'', 37),
     (''SKB_DROP_REASON_IP_OUTNOROUTES'', 38), (''SKB_DROP_REASON_BPF_CGROUP_EGRESS'', 39),
     (''SKB_DROP_REASON_IPV6DISABLED'', 40), (''SKB_DROP_REASON_NEIGH_CREATEFAIL'', 41),
     (''SKB_DROP_REASON_NEIGH_FAILED'', 42), (''SKB_DROP_REASON_NEIGH_QUEUEFULL'', 43),
     (''SKB_DROP_REASON_NEIGH_DEAD'', 44), (''SKB_DROP_REASON_TC_EGRESS'', 45),
     (''SKB_DROP_REASON_QDISC_DROP'', 46), (''SKB_DROP_REASON_CPU_BACKLOG'', 47),
     (''SKB_DROP_REASON_XDP'', 48), (''SKB_DROP_REASON_TC_INGRESS'', 49),
     (''SKB_DROP_REASON_UNHANDLED_PROTO'', 50), (''SKB_DROP_REASON_SKB_CSUM'', 51),
     (''SKB_DROP_REASON_SKB_GSO_SEG'', 52), (''SKB_DROP_REASON_SKB_UCOPY_FAULT'', 53),
     (''SKB_DROP_REASON_DEV_HDR'', 54), (''SKB_DROP_REASON_DEV_READY'', 55),
     (''SKB_DROP_REASON_FULL_RING'', 56), (''SKB_DROP_REASON_NOMEM'', 57),
     (''SKB_DROP_REASON_HDR_TRUNC'', 58), (''SKB_DROP_REASON_TAP_FILTER'', 59),
     (''SKB_DROP_REASON_TAP_TXFILTER'', 60), (''SKB_DROP_REASON_ICMP_CSUM'', 61),
     (''SKB_DROP_REASON_INVALID_PROTO'', 62), (''SKB_DROP_REASON_IP_INADDRERRORS'', 63),
     (''SKB_DROP_REASON_IP_INNOROUTES'', 64), (''SKB_DROP_REASON_PKT_TOO_BIG'', 65),
     (''SKB_DROP_REASON_DUP_FRAG'', 66), (''SKB_DROP_REASON_FRAG_REASM_TIMEOUT'', 67),
     (''SKB_DROP_REASON_FRAG_TOO_FAR'', 68), (''SKB_DROP_REASON_TCP_MINTTL'', 69),
     (''SKB_DROP_REASON_IPV6_BAD_EXTHDR'', 70), (''SKB_DROP_REASON_IPV6_NDISC_FRAG'', 71),
     (''SKB_DROP_REASON_IPV6_NDISC_HOP_LIMIT'', 72),
     (''SKB_DROP_REASON_IPV6_NDISC_BAD_CODE'', 73),
     (''SKB_DROP_REASON_IPV6_NDISC_BAD_OPTIONS'', 74),
     (''SKB_DROP_REASON_IPV6_NDISC_NS_OTHERHOST'', 75), (''SKB_DROP_REASON_MAX'', 76),
     (''SKB_DROP_REASON_SUBSYS_MASK'', 4294901760)]"

end
