(* ===== verification/Vm_NetDev.thy ===== *)
theory Vm_NetDev
  imports Vm_Skb
begin

text \<open>
  Network devices, queue disciplines and tc classifiers, and the netlink messages that configure
  them. Translated declaration by declaration from \<open>ebpf/vmlinux.h\<close>, in the order
  the types depend on each other; each type is followed by its size and alignment, computed by
  the layout.
\<close>

definition struct_net_device_stats :: cty where
  "struct_net_device_stats = Struct [Fld '''' (Union [Fld ''rx_packets'' C_ulong,
     Fld ''__rx_packets'' td_atomic_long_t]), Fld '''' (Union [Fld ''tx_packets'' C_ulong,
     Fld ''__tx_packets'' td_atomic_long_t]), Fld '''' (Union [Fld ''rx_bytes'' C_ulong,
     Fld ''__rx_bytes'' td_atomic_long_t]), Fld '''' (Union [Fld ''tx_bytes'' C_ulong,
     Fld ''__tx_bytes'' td_atomic_long_t]), Fld '''' (Union [Fld ''rx_errors'' C_ulong,
     Fld ''__rx_errors'' td_atomic_long_t]), Fld '''' (Union [Fld ''tx_errors'' C_ulong,
     Fld ''__tx_errors'' td_atomic_long_t]), Fld '''' (Union [Fld ''rx_dropped'' C_ulong,
     Fld ''__rx_dropped'' td_atomic_long_t]), Fld '''' (Union [Fld ''tx_dropped'' C_ulong,
     Fld ''__tx_dropped'' td_atomic_long_t]), Fld '''' (Union [Fld ''multicast'' C_ulong,
     Fld ''__multicast'' td_atomic_long_t]), Fld '''' (Union [Fld ''collisions'' C_ulong,
     Fld ''__collisions'' td_atomic_long_t]), Fld '''' (Union [Fld ''rx_length_errors'' C_ulong,
     Fld ''__rx_length_errors'' td_atomic_long_t]),
     Fld '''' (Union [Fld ''rx_over_errors'' C_ulong, Fld ''__rx_over_errors'' td_atomic_long_t]),
     Fld '''' (Union [Fld ''rx_crc_errors'' C_ulong, Fld ''__rx_crc_errors'' td_atomic_long_t]),
     Fld '''' (Union [Fld ''rx_frame_errors'' C_ulong,
     Fld ''__rx_frame_errors'' td_atomic_long_t]),
     Fld '''' (Union [Fld ''rx_fifo_errors'' C_ulong, Fld ''__rx_fifo_errors'' td_atomic_long_t]),
     Fld '''' (Union [Fld ''rx_missed_errors'' C_ulong,
     Fld ''__rx_missed_errors'' td_atomic_long_t]),
     Fld '''' (Union [Fld ''tx_aborted_errors'' C_ulong,
     Fld ''__tx_aborted_errors'' td_atomic_long_t]),
     Fld '''' (Union [Fld ''tx_carrier_errors'' C_ulong,
     Fld ''__tx_carrier_errors'' td_atomic_long_t]),
     Fld '''' (Union [Fld ''tx_fifo_errors'' C_ulong, Fld ''__tx_fifo_errors'' td_atomic_long_t]),
     Fld '''' (Union [Fld ''tx_heartbeat_errors'' C_ulong,
     Fld ''__tx_heartbeat_errors'' td_atomic_long_t]),
     Fld '''' (Union [Fld ''tx_window_errors'' C_ulong,
     Fld ''__tx_window_errors'' td_atomic_long_t]),
     Fld '''' (Union [Fld ''rx_compressed'' C_ulong, Fld ''__rx_compressed'' td_atomic_long_t]),
     Fld '''' (Union [Fld ''tx_compressed'' C_ulong, Fld ''__tx_compressed'' td_atomic_long_t])]"

lemma layout_struct_net_device_stats [layout]:
  "sizeof struct_net_device_stats = 184" "alignof struct_net_device_stats = 8" "wf_cty struct_net_device_stats" "is_struct struct_net_device_stats"
  by (simp_all add: struct_net_device_stats_def layout)

definition struct_netdev_hw_addr_list :: cty where
  "struct_netdev_hw_addr_list = Struct [Fld ''list'' struct_list_head, Fld ''count'' C_int,
     Fld ''tree'' struct_rb_root]"

lemma layout_struct_netdev_hw_addr_list [layout]:
  "sizeof struct_netdev_hw_addr_list = 32" "alignof struct_netdev_hw_addr_list = 8" "wf_cty struct_netdev_hw_addr_list" "is_struct struct_netdev_hw_addr_list"
  by (simp_all add: struct_netdev_hw_addr_list_def layout)

definition struct_hlist_head :: cty where
  "struct_hlist_head = Struct [Fld ''first'' CPtr]"

lemma layout_struct_hlist_head [layout]:
  "sizeof struct_hlist_head = 8" "alignof struct_hlist_head = 8" "wf_cty struct_hlist_head" "is_struct struct_hlist_head"
  by (simp_all add: struct_hlist_head_def layout)

definition struct_ref_tracker_dir :: cty where
  "struct_ref_tracker_dir = Struct []"

lemma layout_struct_ref_tracker_dir [layout]:
  "sizeof struct_ref_tracker_dir = 0" "alignof struct_ref_tracker_dir = 1" "wf_cty struct_ref_tracker_dir" "is_struct struct_ref_tracker_dir"
  by (simp_all add: struct_ref_tracker_dir_def layout)

definition struct_kref :: cty where
  "struct_kref = Struct [Fld ''refcount'' td_refcount_t]"

lemma layout_struct_kref [layout]:
  "sizeof struct_kref = 4" "alignof struct_kref = 4" "wf_cty struct_kref" "is_struct struct_kref"
  by (simp_all add: struct_kref_def layout)

definition struct_kobject :: cty where
  "struct_kobject = Struct [Fld ''name'' CPtr, Fld ''entry'' struct_list_head,
     Fld ''parent'' CPtr, Fld ''kset'' CPtr, Fld ''ktype'' CPtr, Fld ''sd'' CPtr,
     Fld ''kref'' struct_kref, Bits ''state_initialized'' C_uint 1,
     Bits ''state_in_sysfs'' C_uint 1, Bits ''state_add_uevent_sent'' C_uint 1,
     Bits ''state_remove_uevent_sent'' C_uint 1, Bits ''uevent_suppress'' C_uint 1]"

lemma layout_struct_kobject [layout]:
  "sizeof struct_kobject = 64" "alignof struct_kobject = 8" "wf_cty struct_kobject" "is_struct struct_kobject"
  by (simp_all add: struct_kobject_def layout)

definition struct_dev_links_info :: cty where
  "struct_dev_links_info = Struct [Fld ''suppliers'' struct_list_head,
     Fld ''consumers'' struct_list_head, Fld ''defer_sync'' struct_list_head,
     Fld ''status'' Enum]"

lemma layout_struct_dev_links_info [layout]:
  "sizeof struct_dev_links_info = 56" "alignof struct_dev_links_info = 8" "wf_cty struct_dev_links_info" "is_struct struct_dev_links_info"
  by (simp_all add: struct_dev_links_info_def layout)

definition struct_swait_queue_head :: cty where
  "struct_swait_queue_head = Struct [Fld ''lock'' td_raw_spinlock_t,
     Fld ''task_list'' struct_list_head]"

lemma layout_struct_swait_queue_head [layout]:
  "sizeof struct_swait_queue_head = 24" "alignof struct_swait_queue_head = 8" "wf_cty struct_swait_queue_head" "is_struct struct_swait_queue_head"
  by (simp_all add: struct_swait_queue_head_def layout)

definition struct_completion :: cty where
  "struct_completion = Struct [Fld ''done'' C_uint, Fld ''wait'' struct_swait_queue_head]"

lemma layout_struct_completion [layout]:
  "sizeof struct_completion = 32" "alignof struct_completion = 8" "wf_cty struct_completion" "is_struct struct_completion"
  by (simp_all add: struct_completion_def layout)

definition struct_dev_pm_info :: cty where
  "struct_dev_pm_info = Struct [Fld ''power_state'' td_pm_message_t, Bits ''can_wakeup'' C_uint 1,
     Bits ''async_suspend'' C_uint 1, Bits ''in_dpm_list'' td_bool 1,
     Bits ''is_prepared'' td_bool 1, Bits ''is_suspended'' td_bool 1,
     Bits ''is_noirq_suspended'' td_bool 1, Bits ''is_late_suspended'' td_bool 1,
     Bits ''no_pm'' td_bool 1, Bits ''early_init'' td_bool 1, Bits ''direct_complete'' td_bool 1,
     Fld ''driver_flags'' td_u32, Fld ''lock'' td_spinlock_t, Fld ''entry'' struct_list_head,
     Fld ''completion'' struct_completion, Fld ''wakeup'' CPtr, Bits ''wakeup_path'' td_bool 1,
     Bits ''syscore'' td_bool 1, Bits ''no_pm_callbacks'' td_bool 1,
     Bits ''must_resume'' C_uint 1, Bits ''may_skip_resume'' C_uint 1,
     Fld ''suspend_timer'' struct_hrtimer, Fld ''timer_expires'' td_u64,
     Fld ''work'' struct_work_struct, Fld ''wait_queue'' td_wait_queue_head_t,
     Fld ''wakeirq'' CPtr, Fld ''usage_count'' td_atomic_t, Fld ''child_count'' td_atomic_t,
     Bits ''disable_depth'' C_uint 3, Bits ''idle_notification'' C_uint 1,
     Bits ''request_pending'' C_uint 1, Bits ''deferred_resume'' C_uint 1,
     Bits ''needs_force_resume'' C_uint 1, Bits ''runtime_auto'' C_uint 1,
     Bits ''ignore_children'' td_bool 1, Bits ''no_callbacks'' C_uint 1,
     Bits ''irq_safe'' C_uint 1, Bits ''use_autosuspend'' C_uint 1,
     Bits ''timer_autosuspends'' C_uint 1, Bits ''memalloc_noio'' C_uint 1,
     Fld ''links_count'' C_uint, Fld ''request'' Enum, Fld ''runtime_status'' Enum,
     Fld ''last_status'' Enum, Fld ''runtime_error'' C_int, Fld ''autosuspend_delay'' C_int,
     Fld ''last_busy'' td_u64, Fld ''active_time'' td_u64, Fld ''suspended_time'' td_u64,
     Fld ''accounting_timestamp'' td_u64, Fld ''subsys_data'' CPtr,
     Fld ''set_latency_tolerance'' CPtr, Fld ''qos'' CPtr]"

lemma layout_struct_dev_pm_info [layout]:
  "sizeof struct_dev_pm_info = 312" "alignof struct_dev_pm_info = 8" "wf_cty struct_dev_pm_info" "is_struct struct_dev_pm_info"
  by (simp_all add: struct_dev_pm_info_def layout)

definition struct_dev_msi_info :: cty where
  "struct_dev_msi_info = Struct [Fld ''domain'' CPtr, Fld ''data'' CPtr]"

lemma layout_struct_dev_msi_info [layout]:
  "sizeof struct_dev_msi_info = 16" "alignof struct_dev_msi_info = 8" "wf_cty struct_dev_msi_info" "is_struct struct_dev_msi_info"
  by (simp_all add: struct_dev_msi_info_def layout)

definition struct_dev_archdata :: cty where
  "struct_dev_archdata = Struct []"

lemma layout_struct_dev_archdata [layout]:
  "sizeof struct_dev_archdata = 0" "alignof struct_dev_archdata = 1" "wf_cty struct_dev_archdata" "is_struct struct_dev_archdata"
  by (simp_all add: struct_dev_archdata_def layout)

definition struct_device :: cty where
  "struct_device = Struct [Fld ''kobj'' struct_kobject, Fld ''parent'' CPtr, Fld ''p'' CPtr,
     Fld ''init_name'' CPtr, Fld ''type'' CPtr, Fld ''bus'' CPtr, Fld ''driver'' CPtr,
     Fld ''platform_data'' CPtr, Fld ''driver_data'' CPtr, Fld ''mutex'' struct_mutex,
     Fld ''links'' struct_dev_links_info, Fld ''power'' struct_dev_pm_info,
     Fld ''pm_domain'' CPtr, Fld ''em_pd'' CPtr, Fld ''pins'' CPtr,
     Fld ''msi'' struct_dev_msi_info, Fld ''dma_ops'' CPtr, Fld ''dma_mask'' CPtr,
     Fld ''coherent_dma_mask'' td_u64, Fld ''bus_dma_limit'' td_u64, Fld ''dma_range_map'' CPtr,
     Fld ''dma_parms'' CPtr, Fld ''dma_pools'' struct_list_head, Fld ''dma_mem'' CPtr,
     Fld ''cma_area'' CPtr, Fld ''dma_io_tlb_mem'' CPtr, Fld ''archdata'' struct_dev_archdata,
     Fld ''of_node'' CPtr, Fld ''fwnode'' CPtr, Fld ''numa_node'' C_int, Fld ''devt'' td_dev_t,
     Fld ''id'' td_u32, Fld ''devres_lock'' td_spinlock_t, Fld ''devres_head'' struct_list_head,
     Fld ''class'' CPtr, Fld ''groups'' CPtr, Fld ''release'' CPtr, Fld ''iommu_group'' CPtr,
     Fld ''iommu'' CPtr, Fld ''physical_location'' CPtr, Fld ''removable'' Enum,
     Bits ''offline_disabled'' td_bool 1, Bits ''offline'' td_bool 1,
     Bits ''of_node_reused'' td_bool 1, Bits ''state_synced'' td_bool 1,
     Bits ''can_match'' td_bool 1, Bits ''dma_coherent'' td_bool 1]"

lemma layout_struct_device [layout]:
  "sizeof struct_device = 760" "alignof struct_device = 8" "wf_cty struct_device" "is_struct struct_device"
  by (simp_all add: struct_device_def layout)

definition struct_netdev_tc_txq :: cty where
  "struct_netdev_tc_txq = Struct [Fld ''count'' td_u16, Fld ''offset'' td_u16]"

lemma layout_struct_netdev_tc_txq [layout]:
  "sizeof struct_netdev_tc_txq = 4" "alignof struct_netdev_tc_txq = 2" "wf_cty struct_netdev_tc_txq" "is_struct struct_netdev_tc_txq"
  by (simp_all add: struct_netdev_tc_txq_def layout)

definition struct_bpf_xdp_entity :: cty where
  "struct_bpf_xdp_entity = Struct [Fld ''prog'' CPtr, Fld ''link'' CPtr]"

lemma layout_struct_bpf_xdp_entity [layout]:
  "sizeof struct_bpf_xdp_entity = 16" "alignof struct_bpf_xdp_entity = 8" "wf_cty struct_bpf_xdp_entity" "is_struct struct_bpf_xdp_entity"
  by (simp_all add: struct_bpf_xdp_entity_def layout)

definition struct_net_device :: cty where
  "struct_net_device = Struct [Fld ''name'' (CArr C_char 16), Fld ''name_node'' CPtr,
     Fld ''ifalias'' CPtr, Fld ''mem_end'' C_ulong, Fld ''mem_start'' C_ulong,
     Fld ''base_addr'' C_ulong, Fld ''state'' C_ulong, Fld ''dev_list'' struct_list_head,
     Fld ''napi_list'' struct_list_head, Fld ''unreg_list'' struct_list_head,
     Fld ''close_list'' struct_list_head, Fld ''ptype_all'' struct_list_head,
     Fld ''ptype_specific'' struct_list_head,
     Fld ''adj_list'' (Struct [Fld ''upper'' struct_list_head, Fld ''lower'' struct_list_head]),
     Fld ''flags'' C_uint, Fld ''xdp_features'' td_xdp_features_t, Fld ''priv_flags'' C_ulonglong,
     Fld ''netdev_ops'' CPtr, Fld ''xdp_metadata_ops'' CPtr, Fld ''ifindex'' C_int,
     Fld ''gflags'' C_ushort, Fld ''hard_header_len'' C_ushort, Fld ''mtu'' C_uint,
     Fld ''needed_headroom'' C_ushort, Fld ''needed_tailroom'' C_ushort,
     Fld ''features'' td_netdev_features_t, Fld ''hw_features'' td_netdev_features_t,
     Fld ''wanted_features'' td_netdev_features_t, Fld ''vlan_features'' td_netdev_features_t,
     Fld ''hw_enc_features'' td_netdev_features_t, Fld ''mpls_features'' td_netdev_features_t,
     Fld ''gso_partial_features'' td_netdev_features_t, Fld ''min_mtu'' C_uint,
     Fld ''max_mtu'' C_uint, Fld ''type'' C_ushort, Fld ''min_header_len'' C_uchar,
     Fld ''name_assign_type'' C_uchar, Fld ''group'' C_int, Fld ''stats'' struct_net_device_stats,
     Fld ''core_stats'' CPtr, Fld ''carrier_up_count'' td_atomic_t,
     Fld ''carrier_down_count'' td_atomic_t, Fld ''wireless_handlers'' CPtr,
     Fld ''wireless_data'' CPtr, Fld ''ethtool_ops'' CPtr, Fld ''l3mdev_ops'' CPtr,
     Fld ''ndisc_ops'' CPtr, Fld ''xfrmdev_ops'' CPtr, Fld ''tlsdev_ops'' CPtr,
     Fld ''header_ops'' CPtr, Fld ''operstate'' C_uchar, Fld ''link_mode'' C_uchar,
     Fld ''if_port'' C_uchar, Fld ''dma'' C_uchar, Fld ''perm_addr'' (CArr C_uchar 32),
     Fld ''addr_assign_type'' C_uchar, Fld ''addr_len'' C_uchar, Fld ''upper_level'' C_uchar,
     Fld ''lower_level'' C_uchar, Fld ''neigh_priv_len'' C_ushort, Fld ''dev_id'' C_ushort,
     Fld ''dev_port'' C_ushort, Fld ''padded'' C_ushort, Fld ''addr_list_lock'' td_spinlock_t,
     Fld ''irq'' C_int, Fld ''uc'' struct_netdev_hw_addr_list,
     Fld ''mc'' struct_netdev_hw_addr_list, Fld ''dev_addrs'' struct_netdev_hw_addr_list,
     Fld ''queues_kset'' CPtr, Fld ''promiscuity'' C_uint, Fld ''allmulti'' C_uint,
     Fld ''uc_promisc'' td_bool, Fld ''ip_ptr'' CPtr, Fld ''ip6_ptr'' CPtr,
     Fld ''vlan_info'' CPtr, Fld ''dsa_ptr'' CPtr, Fld ''tipc_ptr'' CPtr, Fld ''atalk_ptr'' CPtr,
     Fld ''ax25_ptr'' CPtr, Fld ''ieee80211_ptr'' CPtr, Fld ''ieee802154_ptr'' CPtr,
     Fld ''mpls_ptr'' CPtr, Fld ''mctp_ptr'' CPtr, Fld ''dev_addr'' CPtr, Fld ''_rx'' CPtr,
     Fld ''num_rx_queues'' C_uint, Fld ''real_num_rx_queues'' C_uint, Fld ''xdp_prog'' CPtr,
     Fld ''gro_flush_timeout'' C_ulong, Fld ''napi_defer_hard_irqs'' C_int,
     Fld ''gro_max_size'' C_uint, Fld ''gro_ipv4_max_size'' C_uint, Fld ''rx_handler'' CPtr,
     Fld ''rx_handler_data'' CPtr, Fld ''miniq_ingress'' CPtr, Fld ''ingress_queue'' CPtr,
     Fld ''nf_hooks_ingress'' CPtr, Fld ''broadcast'' (CArr C_uchar 32), Fld ''rx_cpu_rmap'' CPtr,
     Fld ''index_hlist'' struct_hlist_node, Bits '''' C_long 64, Bits '''' C_long 64,
     Bits '''' C_long 64, Bits '''' C_long 64, Fld ''_tx'' CPtr, Fld ''num_tx_queues'' C_uint,
     Fld ''real_num_tx_queues'' C_uint, Fld ''qdisc'' CPtr, Fld ''tx_queue_len'' C_uint,
     Fld ''tx_global_lock'' td_spinlock_t, Fld ''xdp_bulkq'' CPtr, Fld ''xps_maps'' (CArr CPtr 2),
     Fld ''miniq_egress'' CPtr, Fld ''nf_hooks_egress'' CPtr,
     Fld ''qdisc_hash'' (CArr struct_hlist_head 16), Fld ''watchdog_timer'' struct_timer_list,
     Fld ''watchdog_timeo'' C_int, Fld ''proto_down_reason'' td_u32,
     Fld ''todo_list'' struct_list_head, Fld ''pcpu_refcnt'' CPtr,
     Fld ''refcnt_tracker'' struct_ref_tracker_dir, Fld ''link_watch_list'' struct_list_head,
     Bits ''reg_state'' Enum 8, Fld ''dismantle'' td_bool, Bits ''rtnl_link_state'' Enum 16,
     Fld ''needs_free_netdev'' td_bool, Fld ''priv_destructor'' CPtr, Fld ''npinfo'' CPtr,
     Fld ''nd_net'' td_possible_net_t, Fld ''ml_priv'' CPtr, Fld ''ml_priv_type'' Enum,
     Bits ''pcpu_stat_type'' Enum 8, Fld '''' (Union [Fld ''lstats'' CPtr, Fld ''tstats'' CPtr,
     Fld ''dstats'' CPtr]), Fld ''garp_port'' CPtr, Fld ''mrp_port'' CPtr,
     Fld ''dm_private'' CPtr, Fld ''dev'' struct_device, Fld ''sysfs_groups'' (CArr CPtr 4),
     Fld ''sysfs_rx_queue_group'' CPtr, Fld ''rtnl_link_ops'' CPtr, Fld ''gso_max_size'' C_uint,
     Fld ''tso_max_size'' C_uint, Fld ''gso_max_segs'' td_u16, Fld ''tso_max_segs'' td_u16,
     Fld ''gso_ipv4_max_size'' C_uint, Fld ''dcbnl_ops'' CPtr, Fld ''num_tc'' td_s16,
     Fld ''tc_to_txq'' (CArr struct_netdev_tc_txq 16), Fld ''prio_tc_map'' (CArr td_u8 16),
     Fld ''fcoe_ddp_xid'' C_uint, Fld ''priomap'' CPtr, Fld ''phydev'' CPtr, Fld ''sfp_bus'' CPtr,
     Fld ''qdisc_tx_busylock'' CPtr, Fld ''proto_down'' td_bool, Bits ''wol_enabled'' C_uint 1,
     Bits ''threaded'' C_uint 1, Fld ''net_notifier_list'' struct_list_head,
     Fld ''macsec_ops'' CPtr, Fld ''udp_tunnel_nic_info'' CPtr, Fld ''udp_tunnel_nic'' CPtr,
     Fld ''xdp_state'' (CArr struct_bpf_xdp_entity 3), Fld ''dev_addr_shadow'' (CArr td_u8 32),
     Fld ''linkwatch_dev_tracker'' td_netdevice_tracker,
     Fld ''watchdog_dev_tracker'' td_netdevice_tracker,
     Fld ''dev_registered_tracker'' td_netdevice_tracker, Fld ''offload_xstats_l3'' CPtr,
     Fld ''devlink_port'' CPtr, Bits '''' C_long 64]"

lemma layout_struct_net_device [layout]:
  "sizeof struct_net_device = 2496" "alignof struct_net_device = 8" "wf_cty struct_net_device" "is_struct struct_net_device"
  by (simp_all add: struct_net_device_def layout)

definition struct_net_device_ops :: cty where
  "struct_net_device_ops = Struct [Fld ''ndo_init'' CPtr, Fld ''ndo_uninit'' CPtr,
     Fld ''ndo_open'' CPtr, Fld ''ndo_stop'' CPtr, Fld ''ndo_start_xmit'' CPtr,
     Fld ''ndo_features_check'' CPtr, Fld ''ndo_select_queue'' CPtr,
     Fld ''ndo_change_rx_flags'' CPtr, Fld ''ndo_set_rx_mode'' CPtr,
     Fld ''ndo_set_mac_address'' CPtr, Fld ''ndo_validate_addr'' CPtr, Fld ''ndo_do_ioctl'' CPtr,
     Fld ''ndo_eth_ioctl'' CPtr, Fld ''ndo_siocbond'' CPtr, Fld ''ndo_siocwandev'' CPtr,
     Fld ''ndo_siocdevprivate'' CPtr, Fld ''ndo_set_config'' CPtr, Fld ''ndo_change_mtu'' CPtr,
     Fld ''ndo_neigh_setup'' CPtr, Fld ''ndo_tx_timeout'' CPtr, Fld ''ndo_get_stats64'' CPtr,
     Fld ''ndo_has_offload_stats'' CPtr, Fld ''ndo_get_offload_stats'' CPtr,
     Fld ''ndo_get_stats'' CPtr, Fld ''ndo_vlan_rx_add_vid'' CPtr,
     Fld ''ndo_vlan_rx_kill_vid'' CPtr, Fld ''ndo_poll_controller'' CPtr,
     Fld ''ndo_netpoll_setup'' CPtr, Fld ''ndo_netpoll_cleanup'' CPtr,
     Fld ''ndo_set_vf_mac'' CPtr, Fld ''ndo_set_vf_vlan'' CPtr, Fld ''ndo_set_vf_rate'' CPtr,
     Fld ''ndo_set_vf_spoofchk'' CPtr, Fld ''ndo_set_vf_trust'' CPtr,
     Fld ''ndo_get_vf_config'' CPtr, Fld ''ndo_set_vf_link_state'' CPtr,
     Fld ''ndo_get_vf_stats'' CPtr, Fld ''ndo_set_vf_port'' CPtr, Fld ''ndo_get_vf_port'' CPtr,
     Fld ''ndo_get_vf_guid'' CPtr, Fld ''ndo_set_vf_guid'' CPtr,
     Fld ''ndo_set_vf_rss_query_en'' CPtr, Fld ''ndo_setup_tc'' CPtr,
     Fld ''ndo_fcoe_enable'' CPtr, Fld ''ndo_fcoe_disable'' CPtr, Fld ''ndo_fcoe_ddp_setup'' CPtr,
     Fld ''ndo_fcoe_ddp_done'' CPtr, Fld ''ndo_fcoe_ddp_target'' CPtr,
     Fld ''ndo_fcoe_get_hbainfo'' CPtr, Fld ''ndo_fcoe_get_wwn'' CPtr,
     Fld ''ndo_rx_flow_steer'' CPtr, Fld ''ndo_add_slave'' CPtr, Fld ''ndo_del_slave'' CPtr,
     Fld ''ndo_get_xmit_slave'' CPtr, Fld ''ndo_sk_get_lower_dev'' CPtr,
     Fld ''ndo_fix_features'' CPtr, Fld ''ndo_set_features'' CPtr,
     Fld ''ndo_neigh_construct'' CPtr, Fld ''ndo_neigh_destroy'' CPtr, Fld ''ndo_fdb_add'' CPtr,
     Fld ''ndo_fdb_del'' CPtr, Fld ''ndo_fdb_del_bulk'' CPtr, Fld ''ndo_fdb_dump'' CPtr,
     Fld ''ndo_fdb_get'' CPtr, Fld ''ndo_mdb_add'' CPtr, Fld ''ndo_mdb_del'' CPtr,
     Fld ''ndo_mdb_dump'' CPtr, Fld ''ndo_bridge_setlink'' CPtr, Fld ''ndo_bridge_getlink'' CPtr,
     Fld ''ndo_bridge_dellink'' CPtr, Fld ''ndo_change_carrier'' CPtr,
     Fld ''ndo_get_phys_port_id'' CPtr, Fld ''ndo_get_port_parent_id'' CPtr,
     Fld ''ndo_get_phys_port_name'' CPtr, Fld ''ndo_dfwd_add_station'' CPtr,
     Fld ''ndo_dfwd_del_station'' CPtr, Fld ''ndo_set_tx_maxrate'' CPtr,
     Fld ''ndo_get_iflink'' CPtr, Fld ''ndo_fill_metadata_dst'' CPtr,
     Fld ''ndo_set_rx_headroom'' CPtr, Fld ''ndo_bpf'' CPtr, Fld ''ndo_xdp_xmit'' CPtr,
     Fld ''ndo_xdp_get_xmit_slave'' CPtr, Fld ''ndo_xsk_wakeup'' CPtr,
     Fld ''ndo_tunnel_ctl'' CPtr, Fld ''ndo_get_peer_dev'' CPtr,
     Fld ''ndo_fill_forward_path'' CPtr, Fld ''ndo_get_tstamp'' CPtr]"

lemma layout_struct_net_device_ops [layout]:
  "sizeof struct_net_device_ops = 704" "alignof struct_net_device_ops = 8" "wf_cty struct_net_device_ops" "is_struct struct_net_device_ops"
  by (simp_all add: struct_net_device_ops_def layout)

definition struct_dql :: cty where
  "struct_dql = Struct [Fld ''num_queued'' C_uint, Fld ''adj_limit'' C_uint,
     Fld ''last_obj_cnt'' C_uint, Bits '''' C_long 64, Bits '''' C_long 64, Bits '''' C_long 64,
     Bits '''' C_long 64, Bits '''' C_long 64, Bits '''' C_long 64, Fld ''limit'' C_uint,
     Fld ''num_completed'' C_uint, Fld ''prev_ovlimit'' C_uint, Fld ''prev_num_queued'' C_uint,
     Fld ''prev_last_obj_cnt'' C_uint, Fld ''lowest_slack'' C_uint,
     Fld ''slack_start_time'' C_ulong, Fld ''max_limit'' C_uint, Fld ''min_limit'' C_uint,
     Fld ''slack_hold_time'' C_uint, Bits '''' C_long 64, Bits '''' C_long 64]"

lemma layout_struct_dql [layout]:
  "sizeof struct_dql = 128" "alignof struct_dql = 8" "wf_cty struct_dql" "is_struct struct_dql"
  by (simp_all add: struct_dql_def layout)

definition struct_netdev_queue :: cty where
  "struct_netdev_queue = Struct [Fld ''dev'' CPtr, Fld ''dev_tracker'' td_netdevice_tracker,
     Fld ''qdisc'' CPtr, Fld ''qdisc_sleeping'' CPtr, Fld ''kobj'' struct_kobject,
     Fld ''numa_node'' C_int, Fld ''tx_maxrate'' C_ulong, Fld ''trans_timeout'' td_atomic_long_t,
     Fld ''sb_dev'' CPtr, Fld ''pool'' CPtr, Fld ''_xmit_lock'' td_spinlock_t,
     Fld ''xmit_lock_owner'' C_int, Fld ''trans_start'' C_ulong, Fld ''state'' C_ulong,
     Bits '''' C_long 64, Bits '''' C_long 64, Bits '''' C_long 64, Bits '''' C_long 64,
     Bits '''' C_long 64, Fld ''dql'' struct_dql]"

lemma layout_struct_netdev_queue [layout]:
  "sizeof struct_netdev_queue = 320" "alignof struct_netdev_queue = 8" "wf_cty struct_netdev_queue" "is_struct struct_netdev_queue"
  by (simp_all add: struct_netdev_queue_def layout)

definition struct_qdisc_skb_head :: cty where
  "struct_qdisc_skb_head = Struct [Fld ''head'' CPtr, Fld ''tail'' CPtr, Fld ''qlen'' td___u32,
     Fld ''lock'' td_spinlock_t]"

lemma layout_struct_qdisc_skb_head [layout]:
  "sizeof struct_qdisc_skb_head = 24" "alignof struct_qdisc_skb_head = 8" "wf_cty struct_qdisc_skb_head" "is_struct struct_qdisc_skb_head"
  by (simp_all add: struct_qdisc_skb_head_def layout)

definition struct_gnet_stats_basic_sync :: cty where
  "struct_gnet_stats_basic_sync = Struct [Fld ''bytes'' td_u64_stats_t,
     Fld ''packets'' td_u64_stats_t, Fld ''syncp'' struct_u64_stats_sync]"

lemma layout_struct_gnet_stats_basic_sync [layout]:
  "sizeof struct_gnet_stats_basic_sync = 16" "alignof struct_gnet_stats_basic_sync = 8" "wf_cty struct_gnet_stats_basic_sync" "is_struct struct_gnet_stats_basic_sync"
  by (simp_all add: struct_gnet_stats_basic_sync_def layout)

definition struct_gnet_stats_queue :: cty where
  "struct_gnet_stats_queue = Struct [Fld ''qlen'' td___u32, Fld ''backlog'' td___u32,
     Fld ''drops'' td___u32, Fld ''requeues'' td___u32, Fld ''overlimits'' td___u32]"

lemma layout_struct_gnet_stats_queue [layout]:
  "sizeof struct_gnet_stats_queue = 20" "alignof struct_gnet_stats_queue = 4" "wf_cty struct_gnet_stats_queue" "is_struct struct_gnet_stats_queue"
  by (simp_all add: struct_gnet_stats_queue_def layout)

definition struct_Qdisc :: cty where
  "struct_Qdisc = Struct [Fld ''enqueue'' CPtr, Fld ''dequeue'' CPtr, Fld ''flags'' C_uint,
     Fld ''limit'' td_u32, Fld ''ops'' CPtr, Fld ''stab'' CPtr, Fld ''hash'' struct_hlist_node,
     Fld ''handle'' td_u32, Fld ''parent'' td_u32, Fld ''dev_queue'' CPtr, Fld ''rate_est'' CPtr,
     Fld ''cpu_bstats'' CPtr, Fld ''cpu_qstats'' CPtr, Fld ''pad'' C_int,
     Fld ''refcnt'' td_refcount_t, Bits '''' C_long 64, Bits '''' C_long 64, Bits '''' C_long 64,
     Fld ''gso_skb'' struct_sk_buff_head, Fld ''q'' struct_qdisc_skb_head,
     Fld ''bstats'' struct_gnet_stats_basic_sync, Fld ''qstats'' struct_gnet_stats_queue,
     Fld ''state'' C_ulong, Fld ''state2'' C_ulong, Fld ''next_sched'' CPtr,
     Fld ''skb_bad_txq'' struct_sk_buff_head, Bits '''' C_long 64, Bits '''' C_long 64,
     Bits '''' C_long 64, Bits '''' C_long 64, Bits '''' C_long 64, Bits '''' C_long 64,
     Bits '''' C_long 64, Fld ''busylock'' td_spinlock_t, Fld ''seqlock'' td_spinlock_t,
     Fld ''rcu'' struct_callback_head, Fld ''dev_tracker'' td_netdevice_tracker,
     Bits '''' C_long 64, Bits '''' C_long 64, Bits '''' C_long 64, Bits '''' C_long 64,
     Bits '''' C_long 64, Fld ''privdata'' (CArr C_long 0)]"

lemma layout_struct_Qdisc [layout]:
  "sizeof struct_Qdisc = 384" "alignof struct_Qdisc = 8" "wf_cty struct_Qdisc" "is_struct struct_Qdisc"
  by (simp_all add: struct_Qdisc_def layout)

definition struct_Qdisc_ops :: cty where
  "struct_Qdisc_ops = Struct [Fld ''next'' CPtr, Fld ''cl_ops'' CPtr, Fld ''id'' (CArr C_char 16),
     Fld ''priv_size'' C_int, Fld ''static_flags'' C_uint, Fld ''enqueue'' CPtr,
     Fld ''dequeue'' CPtr, Fld ''peek'' CPtr, Fld ''init'' CPtr, Fld ''reset'' CPtr,
     Fld ''destroy'' CPtr, Fld ''change'' CPtr, Fld ''attach'' CPtr,
     Fld ''change_tx_queue_len'' CPtr, Fld ''change_real_num_tx'' CPtr, Fld ''dump'' CPtr,
     Fld ''dump_stats'' CPtr, Fld ''ingress_block_set'' CPtr, Fld ''egress_block_set'' CPtr,
     Fld ''ingress_block_get'' CPtr, Fld ''egress_block_get'' CPtr, Fld ''owner'' CPtr]"

lemma layout_struct_Qdisc_ops [layout]:
  "sizeof struct_Qdisc_ops = 176" "alignof struct_Qdisc_ops = 8" "wf_cty struct_Qdisc_ops" "is_struct struct_Qdisc_ops"
  by (simp_all add: struct_Qdisc_ops_def layout)

definition struct_Qdisc_class_ops :: cty where
  "struct_Qdisc_class_ops = Struct [Fld ''flags'' C_uint, Fld ''select_queue'' CPtr,
     Fld ''graft'' CPtr, Fld ''leaf'' CPtr, Fld ''qlen_notify'' CPtr, Fld ''find'' CPtr,
     Fld ''change'' CPtr, Fld ''delete'' CPtr, Fld ''walk'' CPtr, Fld ''tcf_block'' CPtr,
     Fld ''bind_tcf'' CPtr, Fld ''unbind_tcf'' CPtr, Fld ''dump'' CPtr, Fld ''dump_stats'' CPtr]"

lemma layout_struct_Qdisc_class_ops [layout]:
  "sizeof struct_Qdisc_class_ops = 112" "alignof struct_Qdisc_class_ops = 8" "wf_cty struct_Qdisc_class_ops" "is_struct struct_Qdisc_class_ops"
  by (simp_all add: struct_Qdisc_class_ops_def layout)

definition struct_tc_sizespec :: cty where
  "struct_tc_sizespec = Struct [Fld ''cell_log'' C_uchar, Fld ''size_log'' C_uchar,
     Fld ''cell_align'' C_short, Fld ''overhead'' C_int, Fld ''linklayer'' C_uint,
     Fld ''mpu'' C_uint, Fld ''mtu'' C_uint, Fld ''tsize'' C_uint]"

lemma layout_struct_tc_sizespec [layout]:
  "sizeof struct_tc_sizespec = 24" "alignof struct_tc_sizespec = 4" "wf_cty struct_tc_sizespec" "is_struct struct_tc_sizespec"
  by (simp_all add: struct_tc_sizespec_def layout)

definition struct_qdisc_size_table :: cty where
  "struct_qdisc_size_table = Struct [Fld ''rcu'' struct_callback_head,
     Fld ''list'' struct_list_head, Fld ''szopts'' struct_tc_sizespec, Fld ''refcnt'' C_int,
     Fld ''data'' (CArr td_u16 0)]"

lemma layout_struct_qdisc_size_table [layout]:
  "sizeof struct_qdisc_size_table = 64" "alignof struct_qdisc_size_table = 8" "wf_cty struct_qdisc_size_table" "is_struct struct_qdisc_size_table"
  by (simp_all add: struct_qdisc_size_table_def layout)

definition struct_tc_ratespec :: cty where
  "struct_tc_ratespec = Struct [Fld ''cell_log'' C_uchar, Fld ''linklayer'' td___u8,
     Fld ''overhead'' C_ushort, Fld ''cell_align'' C_short, Fld ''mpu'' C_ushort,
     Fld ''rate'' td___u32]"

lemma layout_struct_tc_ratespec [layout]:
  "sizeof struct_tc_ratespec = 12" "alignof struct_tc_ratespec = 4" "wf_cty struct_tc_ratespec" "is_struct struct_tc_ratespec"
  by (simp_all add: struct_tc_ratespec_def layout)

definition struct_qdisc_rate_table :: cty where
  "struct_qdisc_rate_table = Struct [Fld ''rate'' struct_tc_ratespec,
     Fld ''data'' (CArr td_u32 256), Fld ''next'' CPtr, Fld ''refcnt'' C_int]"

lemma layout_struct_qdisc_rate_table [layout]:
  "sizeof struct_qdisc_rate_table = 1056" "alignof struct_qdisc_rate_table = 8" "wf_cty struct_qdisc_rate_table" "is_struct struct_qdisc_rate_table"
  by (simp_all add: struct_qdisc_rate_table_def layout)

definition struct_tcf_proto :: cty where
  "struct_tcf_proto = Struct [Fld ''next'' CPtr, Fld ''root'' CPtr, Fld ''classify'' CPtr,
     Fld ''protocol'' td___be16, Fld ''prio'' td_u32, Fld ''data'' CPtr, Fld ''ops'' CPtr,
     Fld ''chain'' CPtr, Fld ''lock'' td_spinlock_t, Fld ''deleting'' td_bool,
     Fld ''refcnt'' td_refcount_t, Fld ''rcu'' struct_callback_head,
     Fld ''destroy_ht_node'' struct_hlist_node]"

lemma layout_struct_tcf_proto [layout]:
  "sizeof struct_tcf_proto = 104" "alignof struct_tcf_proto = 8" "wf_cty struct_tcf_proto" "is_struct struct_tcf_proto"
  by (simp_all add: struct_tcf_proto_def layout)

definition struct_tcf_proto_ops :: cty where
  "struct_tcf_proto_ops = Struct [Fld ''head'' struct_list_head, Fld ''kind'' (CArr C_char 16),
     Fld ''classify'' CPtr, Fld ''init'' CPtr, Fld ''destroy'' CPtr, Fld ''get'' CPtr,
     Fld ''put'' CPtr, Fld ''change'' CPtr, Fld ''delete'' CPtr, Fld ''delete_empty'' CPtr,
     Fld ''walk'' CPtr, Fld ''reoffload'' CPtr, Fld ''hw_add'' CPtr, Fld ''hw_del'' CPtr,
     Fld ''bind_class'' CPtr, Fld ''tmplt_create'' CPtr, Fld ''tmplt_destroy'' CPtr,
     Fld ''get_exts'' CPtr, Fld ''dump'' CPtr, Fld ''terse_dump'' CPtr, Fld ''tmplt_dump'' CPtr,
     Fld ''owner'' CPtr, Fld ''flags'' C_int]"

lemma layout_struct_tcf_proto_ops [layout]:
  "sizeof struct_tcf_proto_ops = 200" "alignof struct_tcf_proto_ops = 8" "wf_cty struct_tcf_proto_ops" "is_struct struct_tcf_proto_ops"
  by (simp_all add: struct_tcf_proto_ops_def layout)

definition struct_tcf_result :: cty where
  "struct_tcf_result = Struct [Fld '''' (Union [Fld '''' (Struct [Fld ''class'' C_ulong,
     Fld ''classid'' td_u32]), Fld ''goto_tp'' CPtr])]"

lemma layout_struct_tcf_result [layout]:
  "sizeof struct_tcf_result = 16" "alignof struct_tcf_result = 8" "wf_cty struct_tcf_result" "is_struct struct_tcf_result"
  by (simp_all add: struct_tcf_result_def layout)

definition struct_rw_semaphore :: cty where
  "struct_rw_semaphore = Struct [Fld ''count'' td_atomic_long_t, Fld ''owner'' td_atomic_long_t,
     Fld ''osq'' struct_optimistic_spin_queue, Fld ''wait_lock'' td_raw_spinlock_t,
     Fld ''wait_list'' struct_list_head]"

lemma layout_struct_rw_semaphore [layout]:
  "sizeof struct_rw_semaphore = 40" "alignof struct_rw_semaphore = 8" "wf_cty struct_rw_semaphore" "is_struct struct_rw_semaphore"
  by (simp_all add: struct_rw_semaphore_def layout)

definition struct_flow_block :: cty where
  "struct_flow_block = Struct [Fld ''cb_list'' struct_list_head]"

lemma layout_struct_flow_block [layout]:
  "sizeof struct_flow_block = 16" "alignof struct_flow_block = 8" "wf_cty struct_flow_block" "is_struct struct_flow_block"
  by (simp_all add: struct_flow_block_def layout)

definition struct_tcf_block :: cty where
  "struct_tcf_block = Struct [Fld ''lock'' struct_mutex, Fld ''chain_list'' struct_list_head,
     Fld ''index'' td_u32, Fld ''classid'' td_u32, Fld ''refcnt'' td_refcount_t, Fld ''net'' CPtr,
     Fld ''q'' CPtr, Fld ''cb_lock'' struct_rw_semaphore, Fld ''flow_block'' struct_flow_block,
     Fld ''owner_list'' struct_list_head, Fld ''keep_dst'' td_bool,
     Fld ''offloadcnt'' td_atomic_t, Fld ''nooffloaddevcnt'' C_uint, Fld ''lockeddevcnt'' C_uint,
     Fld ''chain0'' (Struct [Fld ''chain'' CPtr, Fld ''filter_chain_list'' struct_list_head]),
     Fld ''rcu'' struct_callback_head, Fld ''proto_destroy_ht'' (CArr struct_hlist_head 128),
     Fld ''proto_destroy_lock'' struct_mutex]"

lemma layout_struct_tcf_block [layout]:
  "sizeof struct_tcf_block = 1264" "alignof struct_tcf_block = 8" "wf_cty struct_tcf_block" "is_struct struct_tcf_block"
  by (simp_all add: struct_tcf_block_def layout)

definition struct_tcf_chain :: cty where
  "struct_tcf_chain = Struct [Fld ''filter_chain_lock'' struct_mutex, Fld ''filter_chain'' CPtr,
     Fld ''list'' struct_list_head, Fld ''block'' CPtr, Fld ''index'' td_u32,
     Fld ''refcnt'' C_uint, Fld ''action_refcnt'' C_uint, Fld ''explicitly_created'' td_bool,
     Fld ''flushing'' td_bool, Fld ''tmplt_ops'' CPtr, Fld ''tmplt_priv'' CPtr,
     Fld ''rcu'' struct_callback_head]"

lemma layout_struct_tcf_chain [layout]:
  "sizeof struct_tcf_chain = 112" "alignof struct_tcf_chain = 8" "wf_cty struct_tcf_chain" "is_struct struct_tcf_chain"
  by (simp_all add: struct_tcf_chain_def layout)

definition struct_mini_Qdisc :: cty where
  "struct_mini_Qdisc = Struct [Fld ''filter_list'' CPtr, Fld ''block'' CPtr,
     Fld ''cpu_bstats'' CPtr, Fld ''cpu_qstats'' CPtr, Fld ''rcu_state'' C_ulong]"

lemma layout_struct_mini_Qdisc [layout]:
  "sizeof struct_mini_Qdisc = 40" "alignof struct_mini_Qdisc = 8" "wf_cty struct_mini_Qdisc" "is_struct struct_mini_Qdisc"
  by (simp_all add: struct_mini_Qdisc_def layout)

definition struct_mini_Qdisc_pair :: cty where
  "struct_mini_Qdisc_pair = Struct [Fld ''miniq1'' struct_mini_Qdisc,
     Fld ''miniq2'' struct_mini_Qdisc, Fld ''p_miniq'' CPtr]"

lemma layout_struct_mini_Qdisc_pair [layout]:
  "sizeof struct_mini_Qdisc_pair = 88" "alignof struct_mini_Qdisc_pair = 8" "wf_cty struct_mini_Qdisc_pair" "is_struct struct_mini_Qdisc_pair"
  by (simp_all add: struct_mini_Qdisc_pair_def layout)

definition struct_nlmsghdr :: cty where
  "struct_nlmsghdr = Struct [Fld ''nlmsg_len'' td___u32, Fld ''nlmsg_type'' td___u16,
     Fld ''nlmsg_flags'' td___u16, Fld ''nlmsg_seq'' td___u32, Fld ''nlmsg_pid'' td___u32]"

lemma layout_struct_nlmsghdr [layout]:
  "sizeof struct_nlmsghdr = 16" "alignof struct_nlmsghdr = 4" "wf_cty struct_nlmsghdr" "is_struct struct_nlmsghdr"
  by (simp_all add: struct_nlmsghdr_def layout)

definition struct_nlattr :: cty where
  "struct_nlattr = Struct [Fld ''nla_len'' td___u16, Fld ''nla_type'' td___u16]"

lemma layout_struct_nlattr [layout]:
  "sizeof struct_nlattr = 4" "alignof struct_nlattr = 2" "wf_cty struct_nlattr" "is_struct struct_nlattr"
  by (simp_all add: struct_nlattr_def layout)

definition struct_ifinfomsg :: cty where
  "struct_ifinfomsg = Struct [Fld ''ifi_family'' C_uchar, Fld ''__ifi_pad'' C_uchar,
     Fld ''ifi_type'' C_ushort, Fld ''ifi_index'' C_int, Fld ''ifi_flags'' C_uint,
     Fld ''ifi_change'' C_uint]"

lemma layout_struct_ifinfomsg [layout]:
  "sizeof struct_ifinfomsg = 16" "alignof struct_ifinfomsg = 4" "wf_cty struct_ifinfomsg" "is_struct struct_ifinfomsg"
  by (simp_all add: struct_ifinfomsg_def layout)

definition struct_tcmsg :: cty where
  "struct_tcmsg = Struct [Fld ''tcm_family'' C_uchar, Fld ''tcm__pad1'' C_uchar,
     Fld ''tcm__pad2'' C_ushort, Fld ''tcm_ifindex'' C_int, Fld ''tcm_handle'' td___u32,
     Fld ''tcm_parent'' td___u32, Fld ''tcm_info'' td___u32]"

lemma layout_struct_tcmsg [layout]:
  "sizeof struct_tcmsg = 20" "alignof struct_tcmsg = 4" "wf_cty struct_tcmsg" "is_struct struct_tcmsg"
  by (simp_all add: struct_tcmsg_def layout)

definition struct_rtnl_link_stats64 :: cty where
  "struct_rtnl_link_stats64 = Struct [Fld ''rx_packets'' td___u64, Fld ''tx_packets'' td___u64,
     Fld ''rx_bytes'' td___u64, Fld ''tx_bytes'' td___u64, Fld ''rx_errors'' td___u64,
     Fld ''tx_errors'' td___u64, Fld ''rx_dropped'' td___u64, Fld ''tx_dropped'' td___u64,
     Fld ''multicast'' td___u64, Fld ''collisions'' td___u64, Fld ''rx_length_errors'' td___u64,
     Fld ''rx_over_errors'' td___u64, Fld ''rx_crc_errors'' td___u64,
     Fld ''rx_frame_errors'' td___u64, Fld ''rx_fifo_errors'' td___u64,
     Fld ''rx_missed_errors'' td___u64, Fld ''tx_aborted_errors'' td___u64,
     Fld ''tx_carrier_errors'' td___u64, Fld ''tx_fifo_errors'' td___u64,
     Fld ''tx_heartbeat_errors'' td___u64, Fld ''tx_window_errors'' td___u64,
     Fld ''rx_compressed'' td___u64, Fld ''tx_compressed'' td___u64,
     Fld ''rx_nohandler'' td___u64, Fld ''rx_otherhost_dropped'' td___u64]"

lemma layout_struct_rtnl_link_stats64 [layout]:
  "sizeof struct_rtnl_link_stats64 = 200" "alignof struct_rtnl_link_stats64 = 8" "wf_cty struct_rtnl_link_stats64" "is_struct struct_rtnl_link_stats64"
  by (simp_all add: struct_rtnl_link_stats64_def layout)

definition enum_tc_setup_type :: "(string \<times> int) list" where
  "enum_tc_setup_type = [(''TC_QUERY_CAPS'', 0), (''TC_SETUP_QDISC_MQPRIO'', 1),
     (''TC_SETUP_CLSU32'', 2), (''TC_SETUP_CLSFLOWER'', 3), (''TC_SETUP_CLSMATCHALL'', 4),
     (''TC_SETUP_CLSBPF'', 5), (''TC_SETUP_BLOCK'', 6), (''TC_SETUP_QDISC_CBS'', 7),
     (''TC_SETUP_QDISC_RED'', 8), (''TC_SETUP_QDISC_PRIO'', 9), (''TC_SETUP_QDISC_MQ'', 10),
     (''TC_SETUP_QDISC_ETF'', 11), (''TC_SETUP_ROOT_QDISC'', 12), (''TC_SETUP_QDISC_GRED'', 13),
     (''TC_SETUP_QDISC_TAPRIO'', 14), (''TC_SETUP_FT'', 15), (''TC_SETUP_QDISC_ETS'', 16),
     (''TC_SETUP_QDISC_TBF'', 17), (''TC_SETUP_QDISC_FIFO'', 18), (''TC_SETUP_QDISC_HTB'', 19),
     (''TC_SETUP_ACT'', 20)]"

definition enum_qdisc_state_t :: "(string \<times> int) list" where
  "enum_qdisc_state_t = [(''__QDISC_STATE_SCHED'', 0), (''__QDISC_STATE_DEACTIVATED'', 1),
     (''__QDISC_STATE_MISSED'', 2), (''__QDISC_STATE_DRAINING'', 3)]"

definition enum_qdisc_state2_t :: "(string \<times> int) list" where
  "enum_qdisc_state2_t = [(''__QDISC_STATE2_RUNNING'', 0)]"

definition enum_netdev_queue_state_t :: "(string \<times> int) list" where
  "enum_netdev_queue_state_t = [(''__QUEUE_STATE_DRV_XOFF'', 0),
     (''__QUEUE_STATE_STACK_XOFF'', 1), (''__QUEUE_STATE_FROZEN'', 2)]"

definition enum_netdev_ml_priv_type :: "(string \<times> int) list" where
  "enum_netdev_ml_priv_type = [(''ML_PRIV_NONE'', 0), (''ML_PRIV_CAN'', 1)]"

definition enum_netdev_stat_type :: "(string \<times> int) list" where
  "enum_netdev_stat_type = [(''NETDEV_PCPU_STAT_NONE'', 0), (''NETDEV_PCPU_STAT_LSTATS'', 1),
     (''NETDEV_PCPU_STAT_TSTATS'', 2), (''NETDEV_PCPU_STAT_DSTATS'', 3)]"

definition enum_dl_dev_state :: "(string \<times> int) list" where
  "enum_dl_dev_state = [(''DL_DEV_NO_DRIVER'', 0), (''DL_DEV_PROBING'', 1),
     (''DL_DEV_DRIVER_BOUND'', 2), (''DL_DEV_UNBINDING'', 3)]"

definition enum_rpm_request :: "(string \<times> int) list" where
  "enum_rpm_request = [(''RPM_REQ_NONE'', 0), (''RPM_REQ_IDLE'', 1), (''RPM_REQ_SUSPEND'', 2),
     (''RPM_REQ_AUTOSUSPEND'', 3), (''RPM_REQ_RESUME'', 4)]"

definition enum_rpm_status :: "(string \<times> int) list" where
  "enum_rpm_status = [(''RPM_INVALID'', - 1), (''RPM_ACTIVE'', 0), (''RPM_RESUMING'', 1),
     (''RPM_SUSPENDED'', 2), (''RPM_SUSPENDING'', 3)]"

definition enum_device_removable :: "(string \<times> int) list" where
  "enum_device_removable = [(''DEVICE_REMOVABLE_NOT_SUPPORTED'', 0),
     (''DEVICE_REMOVABLE_UNKNOWN'', 1), (''DEVICE_FIXED'', 2), (''DEVICE_REMOVABLE'', 3)]"

end
