(* ===== verification/Vm_Perf.thy ===== *)
theory Vm_Perf
  imports Vm_NetDev
begin

text \<open>
  Perf events, through which the sniffer's packets reach user space. Translated declaration by
  declaration from \<open>ebpf/vmlinux.h\<close>, in the order the types depend on each other;
  each type is followed by its size and alignment, computed by the layout.
\<close>

definition struct_perf_event_attr :: cty where
  "struct_perf_event_attr = Struct [Fld ''type'' td___u32, Fld ''size'' td___u32,
     Fld ''config'' td___u64, Fld '''' (Union [Fld ''sample_period'' td___u64,
     Fld ''sample_freq'' td___u64]), Fld ''sample_type'' td___u64, Fld ''read_format'' td___u64,
     Bits ''disabled'' td___u64 1, Bits ''inherit'' td___u64 1, Bits ''pinned'' td___u64 1,
     Bits ''exclusive'' td___u64 1, Bits ''exclude_user'' td___u64 1,
     Bits ''exclude_kernel'' td___u64 1, Bits ''exclude_hv'' td___u64 1,
     Bits ''exclude_idle'' td___u64 1, Bits ''mmap'' td___u64 1, Bits ''comm'' td___u64 1,
     Bits ''freq'' td___u64 1, Bits ''inherit_stat'' td___u64 1,
     Bits ''enable_on_exec'' td___u64 1, Bits ''task'' td___u64 1, Bits ''watermark'' td___u64 1,
     Bits ''precise_ip'' td___u64 2, Bits ''mmap_data'' td___u64 1,
     Bits ''sample_id_all'' td___u64 1, Bits ''exclude_host'' td___u64 1,
     Bits ''exclude_guest'' td___u64 1, Bits ''exclude_callchain_kernel'' td___u64 1,
     Bits ''exclude_callchain_user'' td___u64 1, Bits ''mmap2'' td___u64 1,
     Bits ''comm_exec'' td___u64 1, Bits ''use_clockid'' td___u64 1,
     Bits ''context_switch'' td___u64 1, Bits ''write_backward'' td___u64 1,
     Bits ''namespaces'' td___u64 1, Bits ''ksymbol'' td___u64 1, Bits ''bpf_event'' td___u64 1,
     Bits ''aux_output'' td___u64 1, Bits ''cgroup'' td___u64 1, Bits ''text_poke'' td___u64 1,
     Bits ''build_id'' td___u64 1, Bits ''inherit_thread'' td___u64 1,
     Bits ''remove_on_exec'' td___u64 1, Bits ''sigtrap'' td___u64 1,
     Bits ''__reserved_1'' td___u64 26, Fld '''' (Union [Fld ''wakeup_events'' td___u32,
     Fld ''wakeup_watermark'' td___u32]), Fld ''bp_type'' td___u32,
     Fld '''' (Union [Fld ''bp_addr'' td___u64, Fld ''kprobe_func'' td___u64,
     Fld ''uprobe_path'' td___u64, Fld ''config1'' td___u64]),
     Fld '''' (Union [Fld ''bp_len'' td___u64, Fld ''kprobe_addr'' td___u64,
     Fld ''probe_offset'' td___u64, Fld ''config2'' td___u64]),
     Fld ''branch_sample_type'' td___u64, Fld ''sample_regs_user'' td___u64,
     Fld ''sample_stack_user'' td___u32, Fld ''clockid'' td___s32,
     Fld ''sample_regs_intr'' td___u64, Fld ''aux_watermark'' td___u32,
     Fld ''sample_max_stack'' td___u16, Fld ''__reserved_2'' td___u16,
     Fld ''aux_sample_size'' td___u32, Fld ''__reserved_3'' td___u32, Fld ''sig_data'' td___u64,
     Fld ''config3'' td___u64]"

lemma layout_struct_perf_event_attr [layout]:
  "sizeof struct_perf_event_attr = 136" "alignof struct_perf_event_attr = 8" "wf_cty struct_perf_event_attr" "is_struct struct_perf_event_attr"
  by (simp_all add: struct_perf_event_attr_def layout)

definition struct_perf_event_header :: cty where
  "struct_perf_event_header = Struct [Fld ''type'' td___u32, Fld ''misc'' td___u16,
     Fld ''size'' td___u16]"

lemma layout_struct_perf_event_header [layout]:
  "sizeof struct_perf_event_header = 8" "alignof struct_perf_event_header = 4" "wf_cty struct_perf_event_header" "is_struct struct_perf_event_header"
  by (simp_all add: struct_perf_event_header_def layout)

definition struct_hw_perf_event_extra :: cty where
  "struct_hw_perf_event_extra = Struct [Fld ''config'' td_u64, Fld ''reg'' C_uint,
     Fld ''alloc'' C_int, Fld ''idx'' C_int]"

lemma layout_struct_hw_perf_event_extra [layout]:
  "sizeof struct_hw_perf_event_extra = 24" "alignof struct_hw_perf_event_extra = 8" "wf_cty struct_hw_perf_event_extra" "is_struct struct_hw_perf_event_extra"
  by (simp_all add: struct_hw_perf_event_extra_def layout)

definition struct_arch_hw_breakpoint_ctrl :: cty where
  "struct_arch_hw_breakpoint_ctrl = Struct [Bits ''__reserved'' td_u32 19, Bits ''len'' td_u32 8,
     Bits ''type'' td_u32 2, Bits ''privilege'' td_u32 2, Bits ''enabled'' td_u32 1]"

lemma layout_struct_arch_hw_breakpoint_ctrl [layout]:
  "sizeof struct_arch_hw_breakpoint_ctrl = 4" "alignof struct_arch_hw_breakpoint_ctrl = 4" "wf_cty struct_arch_hw_breakpoint_ctrl" "is_struct struct_arch_hw_breakpoint_ctrl"
  by (simp_all add: struct_arch_hw_breakpoint_ctrl_def layout)

definition struct_arch_hw_breakpoint :: cty where
  "struct_arch_hw_breakpoint = Struct [Fld ''address'' td_u64, Fld ''trigger'' td_u64,
     Fld ''ctrl'' struct_arch_hw_breakpoint_ctrl]"

lemma layout_struct_arch_hw_breakpoint [layout]:
  "sizeof struct_arch_hw_breakpoint = 24" "alignof struct_arch_hw_breakpoint = 8" "wf_cty struct_arch_hw_breakpoint" "is_struct struct_arch_hw_breakpoint"
  by (simp_all add: struct_arch_hw_breakpoint_def layout)

definition struct_rhash_head :: cty where
  "struct_rhash_head = Struct [Fld ''next'' CPtr]"

lemma layout_struct_rhash_head [layout]:
  "sizeof struct_rhash_head = 8" "alignof struct_rhash_head = 8" "wf_cty struct_rhash_head" "is_struct struct_rhash_head"
  by (simp_all add: struct_rhash_head_def layout)

definition struct_rhlist_head :: cty where
  "struct_rhlist_head = Struct [Fld ''rhead'' struct_rhash_head, Fld ''next'' CPtr]"

lemma layout_struct_rhlist_head [layout]:
  "sizeof struct_rhlist_head = 16" "alignof struct_rhlist_head = 8" "wf_cty struct_rhlist_head" "is_struct struct_rhlist_head"
  by (simp_all add: struct_rhlist_head_def layout)

definition struct_hw_perf_event :: cty where
  "struct_hw_perf_event = Struct [Fld '''' (Union [Fld '''' (Struct [Fld ''config'' td_u64,
     Fld ''last_tag'' td_u64, Fld ''config_base'' C_ulong, Fld ''event_base'' C_ulong,
     Fld ''event_base_rdpmc'' C_int, Fld ''idx'' C_int, Fld ''last_cpu'' C_int,
     Fld ''flags'' C_int, Fld ''extra_reg'' struct_hw_perf_event_extra,
     Fld ''branch_reg'' struct_hw_perf_event_extra]),
     Fld '''' (Struct [Fld ''hrtimer'' struct_hrtimer]),
     Fld '''' (Struct [Fld ''tp_list'' struct_list_head]),
     Fld '''' (Struct [Fld ''pwr_acc'' td_u64, Fld ''ptsc'' td_u64]),
     Fld '''' (Struct [Fld ''info'' struct_arch_hw_breakpoint,
     Fld ''bp_list'' struct_rhlist_head]), Fld '''' (Struct [Fld ''iommu_bank'' td_u8,
     Fld ''iommu_cntr'' td_u8, Fld ''padding'' td_u16, Fld ''conf'' td_u64,
     Fld ''conf1'' td_u64])]), Fld ''target'' CPtr, Fld ''addr_filters'' CPtr,
     Fld ''addr_filters_gen'' C_ulong, Fld ''state'' C_int, Fld ''prev_count'' td_local64_t,
     Fld ''sample_period'' td_u64, Fld '''' (Union [Fld '''' (Struct [Fld ''last_period'' td_u64,
     Fld ''period_left'' td_local64_t]), Fld '''' (Struct [Fld ''saved_metric'' td_u64,
     Fld ''saved_slots'' td_u64])]), Fld ''interrupts_seq'' td_u64, Fld ''interrupts'' td_u64,
     Fld ''freq_time_stamp'' td_u64, Fld ''freq_count_stamp'' td_u64]"

lemma layout_struct_hw_perf_event [layout]:
  "sizeof struct_hw_perf_event = 192" "alignof struct_hw_perf_event = 8" "wf_cty struct_hw_perf_event" "is_struct struct_hw_perf_event"
  by (simp_all add: struct_hw_perf_event_def layout)

definition struct___call_single_node :: cty where
  "struct___call_single_node = Struct [Fld ''llist'' struct_llist_node,
     Fld '''' (Union [Fld ''u_flags'' C_uint, Fld ''a_flags'' td_atomic_t]), Fld ''src'' td_u16,
     Fld ''dst'' td_u16]"

lemma layout_struct___call_single_node [layout]:
  "sizeof struct___call_single_node = 16" "alignof struct___call_single_node = 8" "wf_cty struct___call_single_node" "is_struct struct___call_single_node"
  by (simp_all add: struct___call_single_node_def layout)

definition struct_rcuwait :: cty where
  "struct_rcuwait = Struct [Fld ''task'' CPtr]"

lemma layout_struct_rcuwait [layout]:
  "sizeof struct_rcuwait = 8" "alignof struct_rcuwait = 8" "wf_cty struct_rcuwait" "is_struct struct_rcuwait"
  by (simp_all add: struct_rcuwait_def layout)

definition struct_irq_work :: cty where
  "struct_irq_work = Struct [Fld ''node'' struct___call_single_node, Fld ''func'' CPtr,
     Fld ''irqwait'' struct_rcuwait]"

lemma layout_struct_irq_work [layout]:
  "sizeof struct_irq_work = 32" "alignof struct_irq_work = 8" "wf_cty struct_irq_work" "is_struct struct_irq_work"
  by (simp_all add: struct_irq_work_def layout)

definition struct_perf_addr_filters_head :: cty where
  "struct_perf_addr_filters_head = Struct [Fld ''list'' struct_list_head,
     Fld ''lock'' td_raw_spinlock_t, Fld ''nr_file_filters'' C_uint]"

lemma layout_struct_perf_addr_filters_head [layout]:
  "sizeof struct_perf_addr_filters_head = 24" "alignof struct_perf_addr_filters_head = 8" "wf_cty struct_perf_addr_filters_head" "is_struct struct_perf_addr_filters_head"
  by (simp_all add: struct_perf_addr_filters_head_def layout)

definition struct_ftrace_ops_hash :: cty where
  "struct_ftrace_ops_hash = Struct [Fld ''notrace_hash'' CPtr, Fld ''filter_hash'' CPtr,
     Fld ''regex_lock'' struct_mutex]"

lemma layout_struct_ftrace_ops_hash [layout]:
  "sizeof struct_ftrace_ops_hash = 48" "alignof struct_ftrace_ops_hash = 8" "wf_cty struct_ftrace_ops_hash" "is_struct struct_ftrace_ops_hash"
  by (simp_all add: struct_ftrace_ops_hash_def layout)

definition struct_ftrace_ops :: cty where
  "struct_ftrace_ops = Struct [Fld ''func'' td_ftrace_func_t, Fld ''next'' CPtr,
     Fld ''flags'' C_ulong, Fld ''private'' CPtr, Fld ''saved_func'' td_ftrace_func_t,
     Fld ''local_hash'' struct_ftrace_ops_hash, Fld ''func_hash'' CPtr,
     Fld ''old_hash'' struct_ftrace_ops_hash, Fld ''trampoline'' C_ulong,
     Fld ''trampoline_size'' C_ulong, Fld ''list'' struct_list_head,
     Fld ''ops_func'' td_ftrace_ops_func_t, Fld ''direct_call'' C_ulong]"

lemma layout_struct_ftrace_ops [layout]:
  "sizeof struct_ftrace_ops = 192" "alignof struct_ftrace_ops = 8" "wf_cty struct_ftrace_ops" "is_struct struct_ftrace_ops"
  by (simp_all add: struct_ftrace_ops_def layout)

definition struct_perf_event :: cty where
  "struct_perf_event = Struct [Fld ''event_entry'' struct_list_head,
     Fld ''sibling_list'' struct_list_head, Fld ''active_list'' struct_list_head,
     Fld ''group_node'' struct_rb_node, Fld ''group_index'' td_u64,
     Fld ''migrate_entry'' struct_list_head, Fld ''hlist_entry'' struct_hlist_node,
     Fld ''active_entry'' struct_list_head, Fld ''nr_siblings'' C_int, Fld ''event_caps'' C_int,
     Fld ''group_caps'' C_int, Fld ''group_generation'' C_uint, Fld ''group_leader'' CPtr,
     Fld ''pmu'' CPtr, Fld ''pmu_private'' CPtr, Fld ''state'' Enum, Fld ''attach_state'' C_uint,
     Fld ''count'' td_local64_t, Fld ''child_count'' td_atomic64_t,
     Fld ''total_time_enabled'' td_u64, Fld ''total_time_running'' td_u64, Fld ''tstamp'' td_u64,
     Fld ''attr'' struct_perf_event_attr, Fld ''header_size'' td_u16,
     Fld ''id_header_size'' td_u16, Fld ''read_size'' td_u16, Fld ''hw'' struct_hw_perf_event,
     Fld ''ctx'' CPtr, Fld ''pmu_ctx'' CPtr, Fld ''refcount'' td_atomic_long_t,
     Fld ''child_total_time_enabled'' td_atomic64_t,
     Fld ''child_total_time_running'' td_atomic64_t, Fld ''child_mutex'' struct_mutex,
     Fld ''child_list'' struct_list_head, Fld ''parent'' CPtr, Fld ''oncpu'' C_int,
     Fld ''cpu'' C_int, Fld ''owner_entry'' struct_list_head, Fld ''owner'' CPtr,
     Fld ''mmap_mutex'' struct_mutex, Fld ''mmap_count'' td_atomic_t, Fld ''rb'' CPtr,
     Fld ''rb_entry'' struct_list_head, Fld ''rcu_batches'' C_ulong, Fld ''rcu_pending'' C_int,
     Fld ''waitq'' td_wait_queue_head_t, Fld ''fasync'' CPtr, Fld ''pending_wakeup'' C_uint,
     Fld ''pending_kill'' C_uint, Fld ''pending_disable'' C_uint, Fld ''pending_sigtrap'' C_uint,
     Fld ''pending_addr'' C_ulong, Fld ''pending_irq'' struct_irq_work,
     Fld ''pending_task'' struct_callback_head, Fld ''pending_work'' C_uint,
     Fld ''event_limit'' td_atomic_t, Fld ''addr_filters'' struct_perf_addr_filters_head,
     Fld ''addr_filter_ranges'' CPtr, Fld ''addr_filters_gen'' C_ulong, Fld ''aux_event'' CPtr,
     Fld ''destroy'' CPtr, Fld ''callback_head'' struct_callback_head, Fld ''ns'' CPtr,
     Fld ''id'' td_u64, Fld ''lost_samples'' td_atomic64_t, Fld ''clock'' CPtr,
     Fld ''overflow_handler'' td_perf_overflow_handler_t, Fld ''overflow_handler_context'' CPtr,
     Fld ''orig_overflow_handler'' td_perf_overflow_handler_t, Fld ''prog'' CPtr,
     Fld ''bpf_cookie'' td_u64, Fld ''tp_event'' CPtr, Fld ''filter'' CPtr,
     Fld ''ftrace_ops'' struct_ftrace_ops, Fld ''cgrp'' CPtr, Fld ''security'' CPtr,
     Fld ''sb_list'' struct_list_head, Fld ''orig_type'' td___u32]"

lemma layout_struct_perf_event [layout]:
  "sizeof struct_perf_event = 1264" "alignof struct_perf_event = 8" "wf_cty struct_perf_event" "is_struct struct_perf_event"
  by (simp_all add: struct_perf_event_def layout)

definition struct_perf_buffer :: cty where
  "struct_perf_buffer = Struct [Fld ''refcount'' td_refcount_t,
     Fld ''callback_head'' struct_callback_head, Fld ''nr_pages'' C_int, Fld ''overwrite'' C_int,
     Fld ''paused'' C_int, Fld ''poll'' td_atomic_t, Fld ''head'' td_local_t, Fld ''nest'' C_uint,
     Fld ''events'' td_local_t, Fld ''wakeup'' td_local_t, Fld ''lost'' td_local_t,
     Fld ''watermark'' C_long, Fld ''aux_watermark'' C_long, Fld ''event_lock'' td_spinlock_t,
     Fld ''event_list'' struct_list_head, Fld ''mmap_count'' td_atomic_t,
     Fld ''mmap_locked'' C_ulong, Fld ''mmap_user'' CPtr, Fld ''aux_head'' C_long,
     Fld ''aux_nest'' C_uint, Fld ''aux_wakeup'' C_long, Fld ''aux_pgoff'' C_ulong,
     Fld ''aux_nr_pages'' C_int, Fld ''aux_overwrite'' C_int, Fld ''aux_mmap_count'' td_atomic_t,
     Fld ''aux_mmap_locked'' C_ulong, Fld ''free_aux'' CPtr, Fld ''aux_refcount'' td_refcount_t,
     Fld ''aux_in_sampling'' C_int, Fld ''aux_pages'' CPtr, Fld ''aux_priv'' CPtr,
     Fld ''user_page'' CPtr, Fld ''data_pages'' (CArr CPtr 0)]"

lemma layout_struct_perf_buffer [layout]:
  "sizeof struct_perf_buffer = 240" "alignof struct_perf_buffer = 8" "wf_cty struct_perf_buffer" "is_struct struct_perf_buffer"
  by (simp_all add: struct_perf_buffer_def layout)

definition union_perf_sample_weight :: cty where
  "union_perf_sample_weight = Union [Fld ''full'' td___u64,
     Fld '''' (Struct [Fld ''var1_dw'' td___u32, Fld ''var2_w'' td___u16,
     Fld ''var3_w'' td___u16])]"

lemma layout_union_perf_sample_weight [layout]:
  "sizeof union_perf_sample_weight = 8" "alignof union_perf_sample_weight = 8" "wf_cty union_perf_sample_weight"
  by (simp_all add: union_perf_sample_weight_def layout)

definition union_perf_mem_data_src :: cty where
  "union_perf_mem_data_src = Union [Fld ''val'' td___u64,
     Fld '''' (Struct [Bits ''mem_op'' td___u64 5, Bits ''mem_lvl'' td___u64 14,
     Bits ''mem_snoop'' td___u64 5, Bits ''mem_lock'' td___u64 2, Bits ''mem_dtlb'' td___u64 7,
     Bits ''mem_lvl_num'' td___u64 4, Bits ''mem_remote'' td___u64 1,
     Bits ''mem_snoopx'' td___u64 2, Bits ''mem_blk'' td___u64 3, Bits ''mem_hops'' td___u64 3,
     Bits ''mem_rsvd'' td___u64 18])]"

lemma layout_union_perf_mem_data_src [layout]:
  "sizeof union_perf_mem_data_src = 8" "alignof union_perf_mem_data_src = 8" "wf_cty union_perf_mem_data_src"
  by (simp_all add: union_perf_mem_data_src_def layout)

definition struct_perf_regs :: cty where
  "struct_perf_regs = Struct [Fld ''abi'' td___u64, Fld ''regs'' CPtr]"

lemma layout_struct_perf_regs [layout]:
  "sizeof struct_perf_regs = 16" "alignof struct_perf_regs = 8" "wf_cty struct_perf_regs" "is_struct struct_perf_regs"
  by (simp_all add: struct_perf_regs_def layout)

definition struct_perf_sample_data :: cty where
  "struct_perf_sample_data = Struct [Fld ''sample_flags'' td_u64, Fld ''period'' td_u64,
     Fld ''dyn_size'' td_u64, Fld ''type'' td_u64, Fld ''tid_entry'' (Struct [Fld ''pid'' td_u32,
     Fld ''tid'' td_u32]), Fld ''time'' td_u64, Fld ''id'' td_u64,
     Fld ''cpu_entry'' (Struct [Fld ''cpu'' td_u32, Fld ''reserved'' td_u32]), Fld ''ip'' td_u64,
     Fld ''callchain'' CPtr, Fld ''raw'' CPtr, Fld ''br_stack'' CPtr,
     Fld ''weight'' union_perf_sample_weight, Fld ''data_src'' union_perf_mem_data_src,
     Fld ''txn'' td_u64, Fld ''regs_user'' struct_perf_regs, Fld ''regs_intr'' struct_perf_regs,
     Fld ''stack_user_size'' td_u64, Fld ''stream_id'' td_u64, Fld ''cgroup'' td_u64,
     Fld ''addr'' td_u64, Fld ''phys_addr'' td_u64, Fld ''data_page_size'' td_u64,
     Fld ''code_page_size'' td_u64, Fld ''aux_size'' td_u64, Bits '''' C_long 64,
     Bits '''' C_long 64, Bits '''' C_long 64, Bits '''' C_long 64, Bits '''' C_long 64]"

lemma layout_struct_perf_sample_data [layout]:
  "sizeof struct_perf_sample_data = 256" "alignof struct_perf_sample_data = 8" "wf_cty struct_perf_sample_data" "is_struct struct_perf_sample_data"
  by (simp_all add: struct_perf_sample_data_def layout)

definition enum_perf_event_state :: "(string \<times> int) list" where
  "enum_perf_event_state = [(''PERF_EVENT_STATE_DEAD'', - 4), (''PERF_EVENT_STATE_EXIT'', - 3),
     (''PERF_EVENT_STATE_ERROR'', - 2), (''PERF_EVENT_STATE_OFF'', - 1),
     (''PERF_EVENT_STATE_INACTIVE'', 0), (''PERF_EVENT_STATE_ACTIVE'', 1)]"

end
