(* ===== verification/HeaderLayout.thy ===== *)
theory HeaderLayout
  imports Packet DnsSniff Vm_Perf "HOL-Library.Code_Target_Nat"
begin

text \<open>
  The packet model's offsets against the declarations: where \<open>ebpf/vmlinux.h\<close> and the structs of
  \<open>ebpf/dnspkt.bpf.c\<close> put the header fields that the programs load.
\<close>

section \<open>The sniffer's own structs\<close>

definition struct_payload_t :: cty where
  "struct_payload_t = Struct [Fld ''len'' td___u32, Fld ''data'' (CArr C_uchar 508)]"

definition struct_eth_hdr :: cty where
  "struct_eth_hdr = Struct [Fld ''h_dest'' (CArr C_uchar 6), Fld ''h_source'' (CArr C_uchar 6),
     Fld ''h_proto'' C_ushort]"

lemma own_structs:
  "is_struct struct_payload_t" "wf_cty struct_payload_t" "is_struct struct_eth_hdr" "wf_cty struct_eth_hdr"
  by (simp_all add: struct_payload_t_def struct_eth_hdr_def layout)

section \<open>Byte offsets of members\<close>

text \<open>The byte offset and the size of a member that occupies whole bytes.\<close>

definition member_at :: "cty \<Rightarrow> string \<Rightarrow> (nat \<times> nat) option" where
  "member_at t n =
     (case locate (Suc (Suc (Suc (Suc 0)))) n (members t) of
        Some (s, w, u) \<Rightarrow> if s mod 8 = 0 \<and> w mod 8 = 0 then Some (s div 8, w div 8) else None
      | None \<Rightarrow> None)"

lemma ethhdr_members:
  "member_at struct_ethhdr ''h_proto'' = Some (12, 2)"
  "member_at struct_eth_hdr ''h_proto'' = Some (12, 2)"
  by code_simp+

lemma iphdr_members:
  "member_at struct_iphdr ''tot_len'' = Some (2, 2)"
  "member_at struct_iphdr ''protocol'' = Some (9, 1)"
  "member_at struct_iphdr ''saddr'' = Some (12, 4)"
  "member_at struct_iphdr ''daddr'' = Some (16, 4)"
  by code_simp+

lemma udphdr_members:
  "member_at struct_udphdr ''source'' = Some (0, 2)"
  "member_at struct_udphdr ''dest'' = Some (2, 2)"
  by code_simp+

lemma payload_members:
  "sizeof struct_payload_t = 512" "member_at struct_payload_t ''data'' = Some (4, 508)"
  by code_simp+

lemma context_members:
  "member_at struct___sk_buff ''len'' = Some (0, 4)"
  "member_at struct___sk_buff ''protocol'' = Some (16, 4)"
  "member_at struct___sk_buff ''tc_classid'' = Some (72, 4)"
  "member_at struct___sk_buff ''data'' = Some (76, 4)"
  "member_at struct___sk_buff ''data_end'' = Some (80, 4)"
  by code_simp+

text \<open>The offsets at which the three programs load from a frame, the header sizes they check for
  and the size of the sniffer's buffer are those of the declared structs: the packet model reads
  what the C expressions \<open>eth->h_proto\<close>, \<open>l3->saddr\<close>, \<open>l3->daddr\<close>, \<open>l3->tot_len\<close>,
  \<open>ip->protocol\<close>, \<open>udp_hdr->source\<close> and \<open>udp_hdr->dest\<close> read; and the fields of the program
  context that it keeps are members of \<open>struct __sk_buff\<close>, in this order.\<close>

lemma frame_offsets_declared:
  "sizeof struct_ethhdr = ETH_HLEN \<and> sizeof struct_eth_hdr = ETH_HLEN \<and>
   sizeof struct_iphdr = sizeof_iphdr \<and> sizeof struct_udphdr = sizeof_udphdr \<and>
   member_at struct_ethhdr ''h_proto'' = Some (off_h_proto, 2) \<and>
   member_at struct_eth_hdr ''h_proto'' = Some (off_h_proto, 2) \<and>
   member_at struct_iphdr ''tot_len'' = Some (off_tot_len - ETH_HLEN, 2) \<and>
   member_at struct_iphdr ''protocol'' = Some (off_protocol - ETH_HLEN, 1) \<and>
   member_at struct_iphdr ''saddr'' = Some (off_saddr - ETH_HLEN, 4) \<and>
   member_at struct_iphdr ''daddr'' = Some (off_daddr - ETH_HLEN, 4) \<and>
   member_at struct_udphdr ''source'' = Some (off_udp_source - ETH_HLEN - sizeof_iphdr, 2) \<and>
   member_at struct_udphdr ''dest'' = Some (off_udp_dest - ETH_HLEN - sizeof_iphdr, 2) \<and>
   member_at struct_payload_t ''data'' = Some (sizeof struct_payload_t - DATA_LEN, DATA_LEN) \<and>
   map (member_at struct___sk_buff) [''len'', ''protocol'', ''tc_classid'', ''data'', ''data_end''] =
     [Some (0, 4), Some (16, 4), Some (72, 4), Some (76, 4), Some (80, 4)]"
proof -
  have "sizeof struct_eth_hdr = 14" by (simp add: struct_eth_hdr_def layout)
  then show ?thesis
    unfolding frame_offsets DATA_LEN_def ethhdr_members iphdr_members udphdr_members payload_members
    by (simp add: layout context_members)
qed

section \<open>All structs\<close>

text \<open>Every struct of the development that models a declaration.\<close>

definition declared_structs :: "cty list" where
  "declared_structs = [
    struct_ethhdr, struct_vlan_hdr, struct_vlan_ethhdr, struct_arphdr, struct_iphdr,
    struct_in6_addr, struct_ipv6hdr, struct_udphdr, struct_tcphdr, struct_icmphdr,
    struct_in_addr, struct_sockaddr_in, struct___sk_buff, struct_bpf_sock,
    struct_bpf_flow_keys, struct_bpf_tunnel_key, struct_xdp_md, struct_bpf_tcp_sock,
    struct_bpf_insn, struct_bpf_sock_addr, struct_bpf_sock_ops, struct_sk_msg_md,
    struct_sk_reuseport_md, struct_bpf_map_info, struct_bpf_prog_info, struct_bpf_btf_info,
    struct_bpf_link_info, struct_bpf_func_info, struct_bpf_line_info, struct_bpf_spin_lock,
    struct_bpf_fib_lookup, struct_bpf_redir_neigh, struct_list_head, struct_work_struct,
    struct_qspinlock, struct_raw_spinlock, struct_optimistic_spin_queue, struct_mutex,
    struct_spinlock, struct_hlist_nulls_node, struct_rb_node, struct_callback_head,
    struct_u64_stats_sync, struct_user_pt_regs, struct_llist_node, struct_refcount_struct,
    struct_bio_vec, struct_sk_buff_list, struct_hlist_node, struct_wait_queue_head,
    struct_rb_root, struct_timer_list, struct_qrwlock, struct_pm_message,
    struct_timerqueue_node, struct_hrtimer, struct_sock_filter, struct_bpf_prog,
    struct_bpf_map, struct_bpf_array, struct_bpf_mem_alloc, struct_pcpu_freelist_head,
    struct_pcpu_freelist, struct_bpf_lru_list, struct_bpf_common_lru, struct_bpf_lru,
    struct_percpu_counter, struct_lock_class_key, struct_bpf_htab, struct_hlist_nulls_head,
    struct_bucket, struct_pcpu_freelist_node, struct_bpf_lru_node, struct_htab_elem,
    struct_bpf_map_ops, struct_bpf_func_proto, struct_latch_tree_node, struct_bpf_ksym,
    struct_bpf_prog_aux, struct_bpf_prog_ops, struct_bpf_verifier_ops, struct_bpf_prog_stats,
    struct_bpf_prog_array_item, struct_bpf_prog_array, struct_bpf_event_entry,
    struct_bpf_perf_event_data, struct_qdisc_skb_cb, struct_bpf_skb_data_end, struct_sk_buff,
    struct_skb_shared_hwtstamps, struct_skb_shared_info, struct_sk_buff_head,
    struct_sock_common, struct_page_frag, struct_sock_cgroup_data, struct_sock,
    struct_inet_cork, struct_flowi_tunnel, struct_flowi_common, struct_flowi4, struct_flowi6,
    struct_flowi, struct_inet_cork_full, struct_inet_sock, struct_socket_wq, struct_socket,
    struct_proto, struct_proto_ops, struct_dst_entry, struct_header_ops,
    struct_net_device_stats, struct_netdev_hw_addr_list, struct_hlist_head,
    struct_ref_tracker_dir, struct_kref, struct_kobject, struct_dev_links_info,
    struct_swait_queue_head, struct_completion, struct_dev_pm_info, struct_dev_msi_info,
    struct_dev_archdata, struct_device, struct_netdev_tc_txq, struct_bpf_xdp_entity,
    struct_net_device, struct_net_device_ops, struct_dql, struct_netdev_queue,
    struct_qdisc_skb_head, struct_gnet_stats_basic_sync, struct_gnet_stats_queue, struct_Qdisc,
    struct_Qdisc_ops, struct_Qdisc_class_ops, struct_tc_sizespec, struct_qdisc_size_table,
    struct_tc_ratespec, struct_qdisc_rate_table, struct_tcf_proto, struct_tcf_proto_ops,
    struct_tcf_result, struct_rw_semaphore, struct_flow_block, struct_tcf_block,
    struct_tcf_chain, struct_mini_Qdisc, struct_mini_Qdisc_pair, struct_nlmsghdr,
    struct_nlattr, struct_ifinfomsg, struct_tcmsg, struct_rtnl_link_stats64,
    struct_perf_event_attr, struct_perf_event_header, struct_hw_perf_event_extra,
    struct_arch_hw_breakpoint_ctrl, struct_arch_hw_breakpoint, struct_rhash_head,
    struct_rhlist_head, struct_hw_perf_event, struct___call_single_node, struct_rcuwait,
    struct_irq_work, struct_perf_addr_filters_head, struct_ftrace_ops_hash, struct_ftrace_ops,
    struct_perf_event, struct_perf_buffer, struct_perf_regs, struct_perf_sample_data,
    struct_payload_t, struct_eth_hdr]"

text \<open>The layout of every declared struct is sound: the members follow each other without overlap and
  end inside the struct, whose size is a multiple of its alignment; unless the struct is packed
  every ordinary member is aligned and every bit-field lies inside one storage unit.\<close>

theorem declared_structs_sound:
  "list_all layout_sound declared_structs"
proof -
  have "list_all (\<lambda>t. is_struct t \<and> wf_cty t) declared_structs"
    unfolding declared_structs_def
    by (simp add: layout own_structs)
  then show ?thesis by (auto simp: list_all_iff intro: wf_layout_sound)
qed

end
