(* ===== verification/GoText.thy ===== *)
theory GoText
  imports Prelude
begin

text \<open>
  Text as the Go code produces it and as the C compiler reads it back: decimal printing of
  integers, dotted-decimal addresses (\<open>net.IP.String\<close>), \<open>strings.ReplaceAll\<close> of one character,
  splitting at a separator, and C integer literals.
\<close>

section \<open>Digits\<close>

definition digit_char :: "nat \<Rightarrow> char" where
  "digit_char d = char_of (48 + d)"

definition digit_val :: "char \<Rightarrow> nat option" where
  "digit_val c =
     (let n = of_char c :: nat in
      if 48 \<le> n \<and> n \<le> 57 then Some (n - 48)
      else if 97 \<le> n \<and> n \<le> 102 then Some (n - 87)
      else if 65 \<le> n \<and> n \<le> 70 then Some (n - 55)
      else None)"

lemma digit_val_char [simp]: "d < 10 \<Longrightarrow> digit_val (digit_char d) = Some d"
  by (simp add: digit_val_def digit_char_def)

lemma of_char_digit: "d < 10 \<Longrightarrow> of_char (digit_char d) = (48 + d :: nat)"
  by (simp add: digit_char_def)

lemma digit_char_eq_iff: "d < 10 \<Longrightarrow> digit_char d = c \<longleftrightarrow> 48 + d = (of_char c :: nat)"
  by (metis of_char_digit of_char_eq_iff)

lemma digit_char_neq:
  "d < 10 \<Longrightarrow> digit_char d \<noteq> CHR ''.''"
  "d < 10 \<Longrightarrow> digit_char d \<noteq> CHR '',''"
  "d < 10 \<Longrightarrow> digit_char d = CHR ''0'' \<longleftrightarrow> d = 0"
  by (simp_all add: digit_char_eq_iff)

fun dec_of_nat :: "nat \<Rightarrow> string" where
  "dec_of_nat n =
     (if n < 10 then [digit_char n] else dec_of_nat (n div 10) @ [digit_char (n mod 10)])"

declare dec_of_nat.simps [simp del]

lemma dec_of_nat_small: "n < 10 \<Longrightarrow> dec_of_nat n = [digit_char n]"
  by (subst dec_of_nat.simps) simp

lemma dec_of_nat_big: "10 \<le> n \<Longrightarrow> dec_of_nat n = dec_of_nat (n div 10) @ [digit_char (n mod 10)]"
  by (subst dec_of_nat.simps) simp

lemma dec_of_nat_nonempty [simp]: "dec_of_nat n \<noteq> []"
  by (subst dec_of_nat.simps) simp

lemma set_dec_of_nat: "c \<in> set (dec_of_nat n) \<Longrightarrow> \<exists>d<10. c = digit_char d"
proof (induction n rule: dec_of_nat.induct)
  case (1 n)
  show ?case
  proof (cases "n < 10")
    case True
    with 1(2) show ?thesis by (auto simp: dec_of_nat_small)
  next
    case False
    with 1 show ?thesis by (force simp: dec_of_nat_big)
  qed
qed

lemma dec_of_nat_no_sep [simp]:
  "CHR ''.'' \<notin> set (dec_of_nat n)" "CHR '','' \<notin> set (dec_of_nat n)"
  using set_dec_of_nat digit_char_neq by metis+

text \<open>A decimal number has no leading zero.\<close>

lemma hd_dec_of_nat: "hd (dec_of_nat n) = CHR ''0'' \<longleftrightarrow> n = 0"
proof (induction n rule: dec_of_nat.induct)
  case (1 n)
  show ?case
  proof (cases "n < 10")
    case True
    then show ?thesis by (simp add: dec_of_nat_small digit_char_neq)
  next
    case False
    with 1 have "hd (dec_of_nat n) = CHR ''0'' \<longleftrightarrow> n div 10 = 0"
      by (simp add: dec_of_nat_big)
    with False show ?thesis by simp
  qed
qed

definition go_itoa :: "int \<Rightarrow> string" where
  "go_itoa i = (if i < 0 then CHR ''-'' # dec_of_nat (nat (- i)) else dec_of_nat (nat i))"

section \<open>Numbers in a base\<close>

fun digits_val :: "nat \<Rightarrow> string \<Rightarrow> nat \<Rightarrow> nat option" where
  "digits_val b [] acc = Some acc"
| "digits_val b (c # cs) acc =
     (case digit_val c of None \<Rightarrow> None
      | Some d \<Rightarrow> if d < b then digits_val b cs (acc * b + d) else None)"

definition parse_base :: "nat \<Rightarrow> string \<Rightarrow> nat option" where
  "parse_base b s = (if s = [] then None else digits_val b s 0)"

lemma digits_val_append:
  "digits_val b (s @ t) acc = Option.bind (digits_val b s acc) (digits_val b t)"
  by (induction s arbitrary: acc) (auto split: option.split)

text \<open>The value of the decimal digits of \<open>n\<close> read in base \<open>b\<close>.\<close>

fun redigit :: "nat \<Rightarrow> nat \<Rightarrow> nat" where
  "redigit b n = (if n < 10 then n else redigit b (n div 10) * b + n mod 10)"

declare redigit.simps [simp del]

lemma digits_val_dec: "10 \<le> b \<Longrightarrow> digits_val b (dec_of_nat n) 0 = Some (redigit b n)"
proof (induction n rule: dec_of_nat.induct)
  case (1 n)
  show ?case
  proof (cases "n < 10")
    case True
    with 1 show ?thesis by (simp add: dec_of_nat_small redigit.simps [of b n])
  next
    case False
    with 1 show ?thesis
      by (simp add: dec_of_nat_big digits_val_append redigit.simps [of b n])
  qed
qed

lemma redigit_10 [simp]: "redigit 10 n = n"
proof (induction n rule: dec_of_nat.induct)
  case (1 n)
  then show ?case
    by (cases "n < 10") (simp_all add: redigit.simps [of 10 n])
qed

lemma redigit_two: "n < 100 \<Longrightarrow> redigit b n = n div 10 * b + n mod 10"
proof -
  assume "n < 100"
  then have "n div 10 < 10" by simp
  then show ?thesis by (simp add: redigit.simps [of b n] redigit.simps [of b "n div 10"])
qed

lemma parse_base_dec: "10 \<le> b \<Longrightarrow> parse_base b (dec_of_nat n) = Some (redigit b n)"
  by (simp add: parse_base_def digits_val_dec)

section \<open>C integer literals\<close>

text \<open>
  An unsuffixed C integer literal: hexadecimal after \<open>0x\<close>, octal after another leading \<open>0\<close>,
  decimal otherwise. \<open>None\<close>: the text is no such literal.
\<close>

definition c_int_literal :: "string \<Rightarrow> nat option" where
  "c_int_literal s =
     (case s of
        c0 # c1 # cs \<Rightarrow>
          if c0 = CHR ''0'' then
            if c1 = CHR ''x'' then parse_base 16 cs else parse_base 8 (c1 # cs)
          else parse_base 10 s
      | _ \<Rightarrow> parse_base 10 s)"

lemma c_int_literal_dec [simp]: "c_int_literal (dec_of_nat n) = Some n"
proof (cases "n = 0")
  case True
  then show ?thesis
    by (simp add: c_int_literal_def dec_of_nat_small parse_base_def)
next
  case False
  then have "c_int_literal (dec_of_nat n) = parse_base 10 (dec_of_nat n)"
    using hd_dec_of_nat [of n] by (auto simp: c_int_literal_def split: list.split)
  then show ?thesis by (simp add: parse_base_dec)
qed

section \<open>Separators\<close>

fun split_on :: "char \<Rightarrow> string \<Rightarrow> string list" where
  "split_on sep [] = [[]]"
| "split_on sep (c # cs) =
     (if c = sep then [] # split_on sep cs
      else case split_on sep cs of [] \<Rightarrow> [[c]] | w # ws \<Rightarrow> (c # w) # ws)"

definition replace_all :: "char \<Rightarrow> char \<Rightarrow> string \<Rightarrow> string" where
  "replace_all old new s = map (\<lambda>c. if c = old then new else c) s"

lemma split_on_no_sep: "sep \<notin> set s \<Longrightarrow> split_on sep s = [s]"
  by (induction s) auto

lemma split_on_append: "sep \<notin> set s \<Longrightarrow> split_on sep (s @ sep # t) = s # split_on sep t"
  by (induction s) auto

lemma replace_all_append [simp]:
  "replace_all a b (s @ t) = replace_all a b s @ replace_all a b t"
  "replace_all a b (a # t) = b # replace_all a b t"
  by (simp_all add: replace_all_def)

lemma replace_all_absent: "a \<notin> set s \<Longrightarrow> replace_all a b s = s"
  by (auto simp: replace_all_def intro: map_idI)

section \<open>Dotted decimal\<close>

text \<open>\<open>net.IP.String\<close> of an IPv4 address.\<close>

fun ip_string :: "u8 list \<Rightarrow> string" where
  "ip_string [a, b, c, d] =
     dec_of_nat (unat a) @ CHR ''.'' # dec_of_nat (unat b) @ CHR ''.'' #
     dec_of_nat (unat c) @ CHR ''.'' # dec_of_nat (unat d)"
| "ip_string _ = ''<nil>''"

lemma split_ip_string:
  "split_on CHR ''.'' (ip_string [a, b, c, d]) =
     [dec_of_nat (unat a), dec_of_nat (unat b), dec_of_nat (unat c), dec_of_nat (unat d)]"
  by (simp add: split_on_append split_on_no_sep)

lemma split_comma_ip_string:
  "split_on CHR '','' (replace_all CHR ''.'' CHR '','' (ip_string [a, b, c, d])) =
     [dec_of_nat (unat a), dec_of_nat (unat b), dec_of_nat (unat c), dec_of_nat (unat d)]"
  by (simp add: split_on_append split_on_no_sep replace_all_absent)

lemma dec_of_nat_inject [simp]: "dec_of_nat m = dec_of_nat n \<longleftrightarrow> m = n"
  by (metis c_int_literal_dec option.inject)

lemma ip_string_inject:
  assumes "length xs = 4" and "length ys = 4"
  shows "ip_string xs = ip_string ys \<longleftrightarrow> xs = ys"
proof
  assume eq: "ip_string xs = ip_string ys"
  obtain a b c d where xs: "xs = [a, b, c, d]"
    using assms(1) by (auto simp: numeral_eq_Suc length_Suc_conv)
  obtain a' b' c' d' where ys: "ys = [a', b', c', d']"
    using assms(2) by (auto simp: numeral_eq_Suc length_Suc_conv)
  have "split_on CHR ''.'' (ip_string xs) = split_on CHR ''.'' (ip_string ys)" by (simp only: eq)
  then show "xs = ys" unfolding xs ys split_ip_string by (simp add: word_unat_eq_iff)
qed simp

lemma ip_string_nonempty: "length xs = 4 \<Longrightarrow> ip_string xs \<noteq> []"
  by (auto simp: numeral_eq_Suc length_Suc_conv)

end
