(* ===== verification/Throttle.thy ===== *)
theory Throttle
  imports Packet BpfMaps GoText
begin

text \<open>
  The throttler \<open>handlers/throttle.bpf.c.tpl\<close>: a C template that \<open>handlers/bpf.go\<close> renders
  with one block per IP policy and compiles. The first part models the rendering (the text of a
  policy's fields becomes the arguments of the \<open>IP_ADDRESS\<close> macro and a hexadecimal class), the
  second the program made of the rendered rules.
\<close>

section \<open>From a policy's text to a rule\<close>

text \<open>\<open>models.IpPolicy\<close>.\<close>

record ip_policy =
  SrcIpAddr :: string
  DestIpAddr :: string
  ClassId :: int

text \<open>The macro \<open>IP_ADDRESS\<close>, on 32-bit integers.\<close>

definition IP_ADDRESS :: "u32 \<Rightarrow> u32 \<Rightarrow> u32 \<Rightarrow> u32 \<Rightarrow> u32" where
  "IP_ADDRESS o1 o2 o3 o4 = o1 + push_bit 8 o2 + push_bit 16 o3 + push_bit 24 o4"

text \<open>
  The text between the macro's brackets, split into its four arguments. \<open>None\<close>: not four
  unsuffixed integer literals (with another number of arguments the program does not compile).
\<close>

definition macro_ip :: "string \<Rightarrow> u32 option" where
  "macro_ip s =
     (case map c_int_literal (split_on CHR '','' s) of
        [Some o1, Some o2, Some o3, Some o4] \<Rightarrow>
          Some (IP_ADDRESS (word_of_nat o1) (word_of_nat o2) (word_of_nat o3) (word_of_nat o4))
      | _ \<Rightarrow> None)"

text \<open>One rendered block: the constants it compares with, and the class it assigns.\<close>

record rule =
  rule_saddr :: u32
  rule_daddr :: "u32 option"
  rule_class :: u32

definition compile_rule :: "ip_policy \<Rightarrow> rule option" where
  "compile_rule p = do {
     sa \<leftarrow> macro_ip (DestIpAddr p);
     da \<leftarrow> (if SrcIpAddr p \<noteq> [] then map_option Some (macro_ip (SrcIpAddr p)) else Some None);
     cls \<leftarrow> c_int_literal (''0x'' @ go_itoa (ClassId p));
     Some \<lparr>rule_saddr = sa, rule_daddr = da, rule_class = word_of_nat cls\<rparr>
   }"

text \<open>The whole template: one block per policy, in the order of the list.\<close>

fun compile_rules :: "ip_policy list \<Rightarrow> rule list option" where
  "compile_rules [] = Some []"
| "compile_rules (p # ps) = do {
     r \<leftarrow> compile_rule p; rs \<leftarrow> compile_rules ps; Some (r # rs)}"

lemma IP_ADDRESS_bytes:
  "IP_ADDRESS (ucast a) (ucast b) (ucast c) (ucast d) =
   load32 LittleEndian (a :: u8) (b :: u8) (c :: u8) (d :: u8)"
proof -
  have 1: "ucast a + push_bit 8 (ucast b) = (ucast a OR push_bit 8 (ucast b) :: u32)"
    by (rule disjunctive_add) (auto simp: bit_simps dest: bit_imp_le_length)
  have 2: "(ucast a OR push_bit 8 (ucast b)) + push_bit 16 (ucast c) =
      (ucast a OR push_bit 8 (ucast b) OR push_bit 16 (ucast c) :: u32)"
    by (subst disjunctive_add) (auto simp: bit_simps ac_simps dest: bit_imp_le_length)
  have 3: "(ucast a OR push_bit 8 (ucast b) OR push_bit 16 (ucast c)) + push_bit 24 (ucast d) =
      (ucast a OR push_bit 8 (ucast b) OR push_bit 16 (ucast c) OR push_bit 24 (ucast d) :: u32)"
    by (subst disjunctive_add) (auto simp: bit_simps ac_simps dest: bit_imp_le_length)
  show ?thesis by (simp only: IP_ADDRESS_def load32.simps 1 2 3)
qed

lemma word_of_unat_u8: "(word_of_nat (unat (a :: u8)) :: u32) = ucast a"
  by simp

text \<open>The text of an address, with its dots replaced by commas, gives the little-endian word.\<close>

lemma macro_ip_address:
  assumes "length xs = 4"
  shows "macro_ip (replace_all CHR ''.'' CHR '','' (ip_string xs)) = Some (ip_word LittleEndian xs)"
proof -
  obtain a b c d where "xs = [a, b, c, d]"
    using assms by (auto simp: numeral_eq_Suc length_Suc_conv)
  then show ?thesis
    by (simp add: macro_ip_def split_comma_ip_string IP_ADDRESS_bytes del: ip_string.simps)
qed

lemma class_literal:
  assumes "0 \<le> cls"
  shows "c_int_literal (CHR ''0'' # CHR ''x'' # go_itoa cls) = Some (redigit 16 (nat cls))"
  using assms by (simp add: c_int_literal_def go_itoa_def parse_base_dec)

text \<open>The policy text that the Go side builds for two addresses, and its rule.\<close>

definition policy_text :: "u8 list \<Rightarrow> u8 list \<Rightarrow> int \<Rightarrow> ip_policy" where
  "policy_text client remote cls =
     \<lparr>SrcIpAddr = replace_all CHR ''.'' CHR '','' (ip_string client),
      DestIpAddr = replace_all CHR ''.'' CHR '','' (ip_string remote), ClassId = cls\<rparr>"

lemma compile_policy_text:
  assumes "length client = 4" and "length remote = 4" and "0 \<le> cls"
  shows "compile_rule (policy_text client remote cls) =
    Some \<lparr>rule_saddr = ip_word LittleEndian remote, rule_daddr = Some (ip_word LittleEndian client),
      rule_class = word_of_nat (redigit 16 (nat cls))\<rparr>"
proof -
  have "replace_all CHR ''.'' CHR '','' (ip_string client) \<noteq> []"
    using ip_string_nonempty [OF assms(1)] by (simp add: replace_all_def)
  then show ?thesis
    using assms by (simp add: compile_rule_def policy_text_def macro_ip_address class_literal)
qed

section \<open>The program\<close>

text \<open>\<open>increment_scanned\<close> (index 0) and \<open>increment_throttled\<close> (index 1).\<close>

definition increment :: "('m \<Rightarrow> u32 \<Rightarrow> u32 option) \<Rightarrow> ('m \<Rightarrow> u32 \<Rightarrow> u32 \<Rightarrow> 'm) \<Rightarrow> u32 \<Rightarrow> 'm \<Rightarrow> 'm" where
  "increment lookup update i m =
     update m i (case lookup m i of None \<Rightarrow> 0 | Some p \<Rightarrow> p + 1)"

text \<open>The condition of a block, with its loads in C's short-circuit order.\<close>

definition rule_cond :: "endian \<Rightarrow> skb \<Rightarrow> rule \<Rightarrow> bool option" where
  "rule_cond e skb r = do {
     saddr \<leftarrow> rd32 e (skb_data skb) off_saddr;
     if saddr = rule_saddr r then
       case rule_daddr r of None \<Rightarrow> Some True
       | Some a \<Rightarrow> do {daddr \<leftarrow> rd32 e (skb_data skb) off_daddr; Some (daddr = a)}
     else Some False
   }"

fun run_rules ::
  "endian \<Rightarrow> ('m \<Rightarrow> u32 \<Rightarrow> u32 option) \<Rightarrow> ('m \<Rightarrow> u32 \<Rightarrow> u32 \<Rightarrow> 'm) \<Rightarrow> rule list \<Rightarrow> skb \<Rightarrow> 'm \<Rightarrow>
   (skb \<times> 'm) option" where
  "run_rules e lookup update [] skb m = Some (skb, m)"
| "run_rules e lookup update (r # rs) skb m = do {
     c \<leftarrow> rule_cond e skb r;
     if c then run_rules e lookup update rs (skb\<lparr>skb_tc_classid := rule_class r\<rparr>)
                 (increment lookup update 1 m)
     else run_rules e lookup update rs skb m
   }"

definition throttle ::
  "endian \<Rightarrow> ('m \<Rightarrow> u32 \<Rightarrow> u32 option) \<Rightarrow> ('m \<Rightarrow> u32 \<Rightarrow> u32 \<Rightarrow> 'm) \<Rightarrow> rule list \<Rightarrow> skb \<Rightarrow> 'm \<Rightarrow>
   (tc_action \<times> skb \<times> 'm) option" where
  "throttle e lookup update rules skb m =
     (if skb_protocol skb \<noteq> ucast (bpf_htons e ETH_P_IP) then Some (TC_ACT_OK, skb, m)
      else if length (skb_data skb) < ETH_HLEN then Some (TC_ACT_OK, skb, m)
      else if length (skb_data skb) < ETH_HLEN + sizeof_iphdr then Some (TC_ACT_OK, skb, m)
      else do {
        (skb', m') \<leftarrow> run_rules e lookup update rules skb (increment lookup update 0 m);
        Some (TC_ACT_OK, skb', m')
      })"

section \<open>What the program decides\<close>

text \<open>A rule applies to a frame when its constants are the words loaded from the frame.\<close>

definition rule_applies :: "endian \<Rightarrow> skb \<Rightarrow> rule \<Rightarrow> bool" where
  "rule_applies e skb r \<longleftrightarrow>
     rule_saddr r = ip_word e (src_bytes skb) \<and>
     (case rule_daddr r of None \<Rightarrow> True | Some a \<Rightarrow> a = ip_word e (dst_bytes skb))"

text \<open>The class of the last applying rule, or the class the packet already has.\<close>

definition final_class :: "endian \<Rightarrow> rule list \<Rightarrow> skb \<Rightarrow> u32" where
  "final_class e rules skb =
     (case rev (filter (rule_applies e skb) rules) of [] \<Rightarrow> skb_tc_classid skb | r # _ \<Rightarrow> rule_class r)"

lemma frame_fields_classid [simp]:
  "src_bytes (skb\<lparr>skb_tc_classid := c\<rparr>) = src_bytes skb"
  "dst_bytes (skb\<lparr>skb_tc_classid := c\<rparr>) = dst_bytes skb"
  "is_ipv4_frame e (skb\<lparr>skb_tc_classid := c\<rparr>) = is_ipv4_frame e skb"
  "rule_applies e (skb\<lparr>skb_tc_classid := c\<rparr>) = rule_applies e skb"
  by (simp_all add: src_bytes_def dst_bytes_def is_ipv4_frame_def rule_applies_def fun_eq_iff
      split: option.split)

lemma rule_cond_eq: "is_ipv4_frame e skb \<Longrightarrow> rule_cond e skb r = Some (rule_applies e skb r)"
  by (auto simp: rule_cond_def rule_applies_def pkt_read split: option.split)

lemma final_class_Cons:
  "final_class e (r # rs) skb =
   (if rule_applies e skb r then final_class e rs (skb\<lparr>skb_tc_classid := rule_class r\<rparr>)
    else final_class e rs skb)"
  by (simp add: final_class_def split: list.split)

lemma run_rules_eq:
  "is_ipv4_frame e skb \<Longrightarrow>
   run_rules e lookup update rs skb m =
   Some (skb\<lparr>skb_tc_classid := final_class e rs skb\<rparr>,
     (increment lookup update 1 ^^ length (filter (rule_applies e skb) rs)) m)"
  by (induction rs arbitrary: skb m)
    (simp_all add: rule_cond_eq final_class_Cons funpow_swap1, simp add: final_class_def)

lemma throttle_eq:
  "throttle e lookup update rules skb m =
   Some (if is_ipv4_frame e skb
     then (TC_ACT_OK, skb\<lparr>skb_tc_classid := final_class e rules skb\<rparr>,
           (increment lookup update 1 ^^ length (filter (rule_applies e skb) rules))
             (increment lookup update 0 m))
     else (TC_ACT_OK, skb, m))"
proof (cases "is_ipv4_frame e skb")
  case True
  then have "skb_protocol skb = ucast (bpf_htons e ETH_P_IP)"
    and "\<not> length (skb_data skb) < ETH_HLEN" and "\<not> length (skb_data skb) < ETH_HLEN + sizeof_iphdr"
    by (auto simp: is_ipv4_frame_def)
  with True show ?thesis by (simp add: throttle_def run_rules_eq)
next
  case False
  then show ?thesis by (auto simp: throttle_def is_ipv4_frame_def)
qed

section \<open>Verdict\<close>

text \<open>C11: For every packet and every rule list the throttler returns \<open>TC_ACT_OK\<close> and reads nothing out
  of bounds; it changes nothing of the packet but its class, which becomes the class of the last
  rule that applies and stays as it was when the packet is not IPv4 or no rule applies.\<close>

theorem throttle_verdict:
  "\<exists>m'. throttle e lookup update rules skb m =
     Some (TC_ACT_OK,
       skb\<lparr>skb_tc_classid := (if is_ipv4_frame e skb then final_class e rules skb
                             else skb_tc_classid skb)\<rparr>, m')"
  by (simp add: throttle_eq)

text \<open>An array map of 32-bit statistics.\<close>

locale bpf_stats = bpf_array lookup update ok max_entries
  for lookup :: "'m \<Rightarrow> u32 \<Rightarrow> u32 option" and update ok max_entries
begin

lemma lookup_increment:
  assumes "ok m" and "unat i < max_entries"
  shows "lookup (increment lookup update i m) = (lookup m)(i \<mapsto> the (lookup m i) + 1)"
proof -
  from assms present [of m i] obtain p where "lookup m i = Some p" by auto
  then show ?thesis
    using assms(1) by (simp add: increment_def update_present)
qed

lemma ok_increment: "ok m \<Longrightarrow> ok (increment lookup update i m)"
  by (simp add: increment_def ok_update)

lemma lookup_increments:
  assumes "ok m" and "unat i < max_entries"
  shows "ok ((increment lookup update i ^^ n) m) \<and>
    lookup ((increment lookup update i ^^ n) m) = (lookup m)(i \<mapsto> the (lookup m i) + word_of_nat n)"
proof (induction n)
  case 0
  from assms present [of m i] obtain p where "lookup m i = Some p" by auto
  then show ?case using assms(1) by (simp add: fun_upd_idem)
next
  case (Suc n)
  then show ?case
    using assms(2) by (auto simp: lookup_increment ok_increment ac_simps fun_eq_iff)
qed

end

interpretation ref_stats: bpf_stats array_lookup array_update "array_ok n" n
  for n
  by (rule bpf_stats.intro) (rule array_is_bpf_array)

text \<open>\<open>throttle_stats\<close> has three entries.\<close>

definition throttle_stats_entries :: nat where
  "throttle_stats_entries = 3"

text \<open>For an IPv4 packet the statistics entry 0 grows by one and entry 1 by the number of rules
  that apply to the packet; no other entry changes.\<close>

theorem throttle_counts:
  assumes "bpf_array lookup update ok throttle_stats_entries" and "ok m" and "is_ipv4_frame e skb"
  shows "\<exists>skb' m'. throttle e lookup update rules skb m = Some (TC_ACT_OK, skb', m') \<and>
    lookup m' = (lookup m)(0 \<mapsto> the (lookup m 0) + 1,
      1 \<mapsto> the (lookup m 1) + word_of_nat (length (filter (rule_applies e skb) rules)))"
proof -
  have st: "bpf_stats lookup update ok throttle_stats_entries" by (rule bpf_stats.intro [OF assms(1)])
  have "unat (0 :: u32) < throttle_stats_entries" "unat (1 :: u32) < throttle_stats_entries"
    by (simp_all add: throttle_stats_entries_def)
  then show ?thesis
    using bpf_stats.lookup_increment [OF st assms(2)] assms(3)
      bpf_stats.lookup_increments [OF st bpf_stats.ok_increment [OF st assms(2)]]
    by (simp add: throttle_eq)
qed

text \<open>Two policies for the same pair of addresses, as two glob groups that match the same domain
  produce them.\<close>

definition demo_rules :: "rule list" where
  "demo_rules =
     [\<lparr>rule_saddr = ip_word LittleEndian [142, 251, 33, 174],
       rule_daddr = Some (ip_word LittleEndian [192, 168, 0, 14]), rule_class = 0x20\<rparr>,
      \<lparr>rule_saddr = ip_word LittleEndian [142, 251, 33, 174], rule_daddr = None, rule_class = 0x30\<rparr>]"

definition demo_skb :: skb where
  "demo_skb = mk_frame LittleEndian [142, 251, 33, 174] [192, 168, 0, 14] 6 [0, 60] []"

lemma demo_skb_rules:
  "is_ipv4_frame LittleEndian demo_skb"
  "filter (rule_applies LittleEndian demo_skb) demo_rules = demo_rules"
  by (simp_all add: demo_skb_def demo_rules_def mk_frame_parts rule_applies_def)

theorem throttle_counts_witness:
  "\<exists>skb' m'. throttle LittleEndian array_lookup array_update demo_rules demo_skb [5, 7, 0] =
     Some (TC_ACT_OK, skb', m') \<and> array_lookup m' 0 = Some 6 \<and> array_lookup m' 1 = Some 9"
proof -
  have "array_ok throttle_stats_entries [5, 7, 0 :: u32]"
    by (simp add: array_ok_def throttle_stats_entries_def)
  from throttle_counts [OF array_is_bpf_array this demo_skb_rules(1), of demo_rules] show ?thesis
    by (auto simp: demo_skb_rules(2)) (simp_all add: demo_rules_def array_lookup_def)
qed

text \<open>The entry the source calls "packets throttled" counts applying rules, not packets: one packet
  to which two policies apply raises it by two.\<close>

theorem throttled_counts_rules:
  "\<exists>skb' m'. throttle LittleEndian array_lookup array_update demo_rules demo_skb [0, 0, 0] =
     Some (TC_ACT_OK, skb', m') \<and> array_lookup m' 0 = Some 1 \<and> array_lookup m' 1 = Some 2 \<and>
     skb_tc_classid skb' = 0x30"
proof -
  have inc: "increment array_lookup array_update 0 [0, 0, 0] = [1, 0, 0]"
    "increment array_lookup array_update 1 [1, 0, 0] = [1, 1, 0]"
    "increment array_lookup array_update 1 [1, 1, 0] = [1, 2, 0]"
    by (simp_all add: increment_def array_lookup_def array_update_def)
  have "length demo_rules = 2" "rule_class (last demo_rules) = 0x30"
    by (simp_all add: demo_rules_def)
  then have "(increment array_lookup array_update 1 ^^ length demo_rules) [1, 0, 0] = [1, 2, 0]"
    and "final_class LittleEndian demo_rules demo_skb = 0x30"
    by (simp_all add: numeral_eq_Suc inc final_class_def demo_skb_rules(2))
      (simp_all add: demo_rules_def)
  then show ?thesis
    by (simp add: throttle_eq demo_skb_rules inc(1)) (simp add: array_lookup_def)
qed

section \<open>What a policy's rule means\<close>

lemma ip_word_rev: "length xs = 4 \<Longrightarrow> ip_word BigEndian (rev xs) = ip_word LittleEndian xs"
  by (auto simp: numeral_eq_Suc length_Suc_conv load32.simps ac_simps)

text \<open>The bytes on the wire that a compiled address stands for.\<close>

definition wire_order :: "endian \<Rightarrow> u8 list \<Rightarrow> u8 list" where
  "wire_order e xs = (case e of LittleEndian \<Rightarrow> xs | BigEndian \<Rightarrow> rev xs)"

lemma ip_word_wire_order: "length xs = 4 \<Longrightarrow> ip_word LittleEndian xs = ip_word e (wire_order e xs)"
  by (cases e) (simp_all add: wire_order_def ip_word_rev)

text \<open>C12: The rule compiled from the text of a client address, a remote address and a class below 100
  applies to a frame exactly when, on a little-endian machine, the frame goes from the remote to
  the client; its class is the decimal class read as hexadecimal digits. (On a big-endian machine
  the addresses are compared with their bytes reversed.)\<close>

theorem compiled_rule_meaning:
  assumes "length client = 4" and "length remote = 4" and "0 \<le> cls" and "cls < 100"
    and "is_ipv4_frame e skb"
  shows "\<exists>r. compile_rule (policy_text client remote cls) = Some r \<and>
    (rule_applies e skb r \<longleftrightarrow>
       src_bytes skb = wire_order e remote \<and> dst_bytes skb = wire_order e client) \<and>
    rule_class r = word_of_int (cls div 10 * 16 + cls mod 10)"
proof -
  have len: "length (wire_order e remote) = 4" "length (wire_order e client) = 4"
    using assms(1,2) by (simp_all add: wire_order_def split: endian.split)
  obtain k where k: "cls = int k" using assms(3) by (rule nonneg_int_cases)
  then have "redigit 16 (nat cls) = k div 10 * 16 + k mod 10"
    using assms(4) by (simp add: redigit_two)
  moreover have "cls div 10 * 16 + cls mod 10 = int (k div 10 * 16 + k mod 10)"
    by (simp add: k zdiv_int zmod_int)
  ultimately have cls: "word_of_nat (redigit 16 (nat cls)) = (word_of_int (cls div 10 * 16 + cls mod 10) :: u32)"
    by (simp only: of_int_of_nat_eq)
  let ?r = "\<lparr>rule_saddr = ip_word LittleEndian remote, rule_daddr = Some (ip_word LittleEndian client),
    rule_class = word_of_nat (redigit 16 (nat cls))\<rparr>"
  have "ip_word e (wire_order e remote) = ip_word e (src_bytes skb) \<longleftrightarrow> src_bytes skb = wire_order e remote"
    "ip_word e (wire_order e client) = ip_word e (dst_bytes skb) \<longleftrightarrow> dst_bytes skb = wire_order e client"
    using len length_src_bytes [OF assms(5)] length_dst_bytes [OF assms(5)]
    by (auto simp: ip_word_inject)
  then have "rule_applies e skb ?r \<longleftrightarrow>
      src_bytes skb = wire_order e remote \<and> dst_bytes skb = wire_order e client"
    by (simp add: rule_applies_def ip_word_wire_order [OF assms(1), of e]
        ip_word_wire_order [OF assms(2), of e])
  with cls show ?thesis
    by (intro exI [of _ ?r]) (simp add: compile_policy_text [OF assms(1-3)])
qed

theorem compiled_rule_meaning_witness:
  "\<exists>r. compile_rule (policy_text [192, 168, 0, 14] [142, 251, 33, 174] 20) = Some r \<and>
     rule_applies LittleEndian demo_skb r \<and> rule_class r = 0x20"
  using compiled_rule_meaning [of "[192, 168, 0, 14]" "[142, 251, 33, 174]" 20 LittleEndian demo_skb]
  by (simp add: demo_skb_def mk_frame_parts wire_order_def)

text \<open>On a big-endian machine, for which the sources also generate objects, a rule never applies to
  the packets it was made for, unless the remote address reads the same backwards.\<close>

theorem big_endian_rule_misses:
  assumes "length client = 4" and "length remote = 4" and "0 \<le> cls" and "cls < 100"
    and "is_ipv4_frame BigEndian skb" and "src_bytes skb = remote" and "rev remote \<noteq> remote"
  shows "\<exists>r. compile_rule (policy_text client remote cls) = Some r \<and> \<not> rule_applies BigEndian skb r"
proof -
  have "wire_order BigEndian remote \<noteq> remote" using assms(7) by (simp add: wire_order_def)
  have "\<not> rule_applies BigEndian skb
      \<lparr>rule_saddr = ip_word LittleEndian remote, rule_daddr = Some (ip_word LittleEndian client),
       rule_class = word_of_nat (redigit 16 (nat cls))\<rparr>"
    using assms(2,6,7) ip_word_inject [of "rev remote" remote BigEndian]
    by (simp add: rule_applies_def flip: ip_word_rev)
  then show ?thesis by (simp add: compile_policy_text [OF assms(1-3)])
qed

theorem big_endian_rule_misses_witness:
  "\<exists>r. compile_rule (policy_text [192, 168, 0, 14] [142, 251, 33, 174] 20) = Some r \<and>
     \<not> rule_applies BigEndian (mk_frame BigEndian [142, 251, 33, 174] [192, 168, 0, 14] 6 [0, 60] []) r"
  by (rule big_endian_rule_misses) (simp_all add: mk_frame_parts)

end
