(* ===== verification/MapDecls.thy ===== *)
theory MapDecls
  imports HeaderLayout TrafficMon Throttle
begin

text \<open>
  The declarations of the BPF maps in \<open>ebpf/trafficmon.bpf.c\<close>, \<open>ebpf/dnspkt.bpf.c\<close> and
  \<open>handlers/throttle.bpf.c.tpl\<close>, with the sizes their C types have, and the sniffer on the map it
  declares: its buffer is entry 0 of a per-processor array.
\<close>

section \<open>Declarations\<close>

text \<open>The type by its name in \<open>enum bpf_map_type\<close>; a map that does not declare \<open>max_entries\<close> has 0
  there, which the loader replaces by the number of processors for an array of perf events.\<close>

record map_decl =
  map_type :: string
  key_size :: nat
  value_size :: nat
  max_entries :: nat

definition src_dest_bytes :: map_decl where
  "src_dest_bytes = \<lparr>map_type = ''BPF_MAP_TYPE_HASH'', key_size = sizeof td___u64, value_size = sizeof td___u64,
     max_entries = 25000\<rparr>"

definition tmp_map :: map_decl where
  "tmp_map = \<lparr>map_type = ''BPF_MAP_TYPE_PERCPU_ARRAY'', key_size = sizeof td___u32,
     value_size = sizeof struct_payload_t, max_entries = 1\<rparr>"

definition dns_arr :: map_decl where
  "dns_arr = \<lparr>map_type = ''BPF_MAP_TYPE_PERF_EVENT_ARRAY'', key_size = sizeof td___u32, value_size = sizeof td___u32,
     max_entries = 0\<rparr>"

definition throttle_stats :: map_decl where
  "throttle_stats = \<lparr>map_type = ''BPF_MAP_TYPE_PERCPU_ARRAY'', key_size = sizeof td___u32,
     value_size = sizeof td___u32, max_entries = 3\<rparr>"

text \<open>The capacities the properties speak of are the declared ones, keys of pairs are 64-bit words as
  the reader of the map takes them, and the types are types of the kernel.\<close>

lemma declared_maps:
  "max_entries src_dest_bytes = src_dest_max_entries" "max_entries throttle_stats = throttle_stats_entries"
  "8 * key_size src_dest_bytes = LENGTH(64)" "8 * value_size src_dest_bytes = LENGTH(64)"
  "value_size tmp_map = 4 + DATA_LEN"
  "\<forall>m \<in> set [src_dest_bytes, tmp_map, dns_arr, throttle_stats]. map_of enum_bpf_map_type (map_type m) \<noteq> None"
  by code_simp+

section \<open>The sniffer on its map\<close>

text \<open>The program with the lookup of entry 0 in the array of this processor. The program writes to the
  entry through the pointer, so the map holds the new buffer afterwards.\<close>

definition sniff_with_map ::
  "endian \<Rightarrow> (nat \<Rightarrow> nat \<Rightarrow> u8 list \<Rightarrow> u8 list) \<Rightarrow> ('m \<Rightarrow> u32 \<Rightarrow> payload_t option) \<Rightarrow>
   ('m \<Rightarrow> u32 \<Rightarrow> payload_t \<Rightarrow> 'm) \<Rightarrow> skb \<Rightarrow> 'm \<Rightarrow> (tc_action \<times> 'm \<times> u8 list list) option" where
  "sniff_with_map e probe_read lookup store skb m = do {
     (act, buf, evs) \<leftarrow> udp_dns_sniff e probe_read skb (lookup m 0);
     Some (act, case buf of None \<Rightarrow> m | Some payload \<Rightarrow> store m 0 payload, evs)
   }"

lemma sniff_never_unspecified:
  assumes "bpf_array lookup store ok (max_entries tmp_map)" and "ok m"
  shows "\<exists>m' evs. sniff_with_map e probe_read lookup store skb m = Some (TC_ACT_OK, m', evs) \<and> ok m' \<and>
    length evs = (if passes_test skb then 1 else 0)"
proof -
  have "lookup m 0 \<noteq> None"
    using bpf_array.present [OF assms, of 0] by (simp add: tmp_map_def)
  then obtain payload where "lookup m 0 = Some payload" by blast
  moreover have "ok (store m i p)" for i p
    using bpf_map.ok_update [OF bpf_array.axioms(1) [OF assms(1)] assms(2)] .
  ultimately show ?thesis by (simp add: sniff_with_map_def sniff_eq)
qed

end
