(* ===== verification/Store.thy ===== *)
theory Store
  imports GoText
begin

text \<open>
  The tables of \<open>database/database.go\<close> and \<open>database/dns.go\<close> and the operations on them. A table
  is the list of its rows in the order they were inserted; an operation is its SQL statement as a
  function on rows. The SQLite engine is not part of the repository: whether it executes a
  statement is the argument \<open>ok\<close> of each operation (a busy timeout, say, makes it fail), its
  \<open>GLOB\<close> operator and its choice among rows with equal sort keys are arguments, and \<open>datetime()\<close> is
  a number of seconds since the epoch.
\<close>

section \<open>Tables with a primary key\<close>

definition table_map :: "('r \<Rightarrow> 'k) \<Rightarrow> 'r list \<Rightarrow> 'k \<Rightarrow> 'r option" where
  "table_map key t k = find (\<lambda>p. key p = k) t"

definition keys_ok :: "('r \<Rightarrow> 'k) \<Rightarrow> 'r list \<Rightarrow> bool" where
  "keys_ok key t \<longleftrightarrow> distinct (map key t)"

text \<open>\<open>INSERT ... ON CONFLICT (key) DO UPDATE\<close>: the row is changed in place by \<open>upd\<close>, or added.\<close>

fun upsert :: "('r \<Rightarrow> 'k) \<Rightarrow> ('r \<Rightarrow> 'r \<Rightarrow> 'r) \<Rightarrow> 'r \<Rightarrow> 'r list \<Rightarrow> 'r list" where
  "upsert key upd r [] = [r]"
| "upsert key upd r (p # ps) = (if key p = key r then upd r p # ps else p # upsert key upd r ps)"

lemma table_map_simps [simp]:
  "table_map key [] k = None"
  "table_map key (p # t) k = (if key p = k then Some p else table_map key t k)"
  by (simp_all add: table_map_def)

lemma table_map_None: "table_map key t k = None \<longleftrightarrow> k \<notin> key ` set t"
  by (induction t) auto

lemma table_map_key: "table_map key t k = Some p \<Longrightarrow> key p = k \<and> p \<in> set t"
  by (induction t) (auto split: if_splits)

lemma table_map_mem: "keys_ok key t \<Longrightarrow> p \<in> set t \<Longrightarrow> table_map key t (key p) = Some p"
  by (induction t) (auto simp: keys_ok_def)

lemma table_map_iff: "keys_ok key t \<Longrightarrow> p \<in> set t \<longleftrightarrow> table_map key t (key p) = Some p"
  using table_map_mem table_map_key by metis

lemma table_map_filter: "table_map key (filter (\<lambda>p. key p \<noteq> k) t) = (table_map key t)(k := None)"
proof (induction t)
  case Nil
  show ?case by (rule ext) simp
next
  case (Cons p t)
  then show ?case by (intro ext) auto
qed

lemma keys_ok_filter: "keys_ok key t \<Longrightarrow> keys_ok key (filter P t)"
  by (auto simp: keys_ok_def distinct_map inj_on_def)

text \<open>An update that, on a row of the same key, makes the row to be inserted.\<close>

locale keyed =
  fixes key :: "'r \<Rightarrow> 'k" and upd :: "'r \<Rightarrow> 'r \<Rightarrow> 'r"
  assumes upd: "key p = key r \<Longrightarrow> upd r p = r"
begin

lemma table_map_upsert: "table_map key (upsert key upd r t) = (table_map key t)(key r \<mapsto> r)"
proof (induction t)
  case Nil
  show ?case by (rule ext) auto
next
  case (Cons p t)
  then show ?case by (intro ext) (auto simp: upd)
qed

lemma keys_upsert: "key ` set (upsert key upd r t) = insert (key r) (key ` set t)"
  by (induction t) (auto simp: upd)

lemma set_upsert: "set (upsert key upd r t) \<subseteq> insert r (set t)"
  by (induction t) (auto simp: upd)

lemma keys_ok_upsert: "keys_ok key t \<Longrightarrow> keys_ok key (upsert key upd r t)"
proof (induction t)
  case (Cons p t)
  then show ?case by (cases "key p = key r") (auto simp: keys_ok_def keys_upsert upd)
qed (simp add: keys_ok_def)

end

section \<open>Rows\<close>

record glob_group =
  Name :: string
  Description :: string
  Glob :: string
  Device :: string

record policy =
  SrcIp :: string
  GlobGroup :: string
  Class :: int
  Tstamp :: int

record dns_row =
  saddr :: string
  daddr :: string
  domain :: string
  dns_tstamp :: int

type_synonym pkey = "string \<times> string"

definition policy_key :: "policy \<Rightarrow> pkey" where
  "policy_key p = (SrcIp p, GlobGroup p)"

section \<open>Glob groups\<close>

definition GetGlob :: "bool \<Rightarrow> string \<Rightarrow> glob_group list \<Rightarrow> glob_group option" where
  "GetGlob ok name t = (if ok then find (\<lambda>g. Name g = name) t else None)"

definition GetGlobs :: "bool \<Rightarrow> glob_group list \<Rightarrow> glob_group list" where
  "GetGlobs ok t = (if ok then t else [])"

text \<open>The name is the primary key: a second group of a name is refused.\<close>

definition AddGlob :: "bool \<Rightarrow> glob_group \<Rightarrow> glob_group list \<Rightarrow> glob_group list \<times> bool" where
  "AddGlob ok g t =
     (if ok \<and> Name g \<notin> Name ` set t then (t @ [g], False) else (t, True))"

section \<open>Policies\<close>

text \<open>The result of a statement that changes the table: the table and whether there was an error.\<close>

definition GetPolicy :: "bool \<Rightarrow> string \<Rightarrow> string \<Rightarrow> policy list \<Rightarrow> policy option" where
  "GetPolicy ok src_ip glob_group t =
     (if ok then find (\<lambda>p. SrcIp p = src_ip \<and> GlobGroup p = glob_group) t else None)"

definition GetAllPolicies :: "bool \<Rightarrow> policy list \<Rightarrow> policy list option" where
  "GetAllPolicies ok t = (if ok then Some t else None)"

text \<open>The \<open>DO UPDATE SET class = :class, tstamp = datetime()\<close> of the statement.\<close>

definition set_policy :: "policy \<Rightarrow> policy \<Rightarrow> policy" where
  "set_policy r p = p\<lparr>Class := Class r, Tstamp := Tstamp r\<rparr>"

definition UpdatePolicy ::
  "bool \<Rightarrow> int \<Rightarrow> string \<Rightarrow> string \<Rightarrow> int \<Rightarrow> policy list \<Rightarrow> policy list \<times> bool" where
  "UpdatePolicy ok now src_ip glob_group cls t =
     (if ok then (upsert policy_key set_policy
        \<lparr>SrcIp = src_ip, GlobGroup = glob_group, Class = cls, Tstamp = now\<rparr> t, False)
      else (t, True))"

definition DeletePolicy :: "bool \<Rightarrow> string \<Rightarrow> string \<Rightarrow> policy list \<Rightarrow> policy list \<times> bool" where
  "DeletePolicy ok src_ip glob_group t =
     (if ok then (filter (\<lambda>p. \<not> (SrcIp p = src_ip \<and> GlobGroup p = glob_group)) t, False)
      else (t, True))"

section \<open>The policy table as a map\<close>

abbreviation policies_ok :: "policy list \<Rightarrow> bool" where
  "policies_ok \<equiv> keys_ok policy_key"

abbreviation policy_map :: "policy list \<Rightarrow> pkey \<Rightarrow> policy option" where
  "policy_map \<equiv> table_map policy_key"

interpretation policy_table: keyed policy_key set_policy
proof
  show "policy_key p = policy_key r \<Longrightarrow> set_policy r p = r" for p r
    by (cases p; cases r) (simp add: policy_key_def set_policy_def)
qed

lemma GetPolicy_map: "GetPolicy True s g t = policy_map t (s, g)"
  by (induction t) (auto simp: GetPolicy_def policy_key_def)

text \<open>
  The contract between the store and the policy engine: an update sets the class and the time of
  one key, a deletion removes one key, and neither touches another key.
\<close>

locale policy_store =
  fixes get :: "'s \<Rightarrow> 'k \<Rightarrow> 'r option"
    and put :: "'k \<Rightarrow> int \<Rightarrow> int \<Rightarrow> 's \<Rightarrow> 's"
    and del :: "'k \<Rightarrow> 's \<Rightarrow> 's"
    and row :: "'k \<Rightarrow> int \<Rightarrow> int \<Rightarrow> 'r"
    and inv :: "'s \<Rightarrow> bool"
  assumes get_put: "inv s \<Longrightarrow> get (put k c t s) = (get s)(k \<mapsto> row k c t)"
    and get_del: "inv s \<Longrightarrow> get (del k s) = (get s)(k := None)"
    and inv_put: "inv s \<Longrightarrow> inv (put k c t s)"
    and inv_del: "inv s \<Longrightarrow> inv (del k s)"

text \<open>What a visit of a key can do to the store.\<close>

datatype store_op = Keep | Put int int | Drop

fun run_op :: "('k \<Rightarrow> int \<Rightarrow> int \<Rightarrow> 's \<Rightarrow> 's) \<Rightarrow> ('k \<Rightarrow> 's \<Rightarrow> 's) \<Rightarrow> 'k \<Rightarrow> store_op \<Rightarrow> 's \<Rightarrow> 's" where
  "run_op put del k Keep s = s"
| "run_op put del k (Put c t) s = put k c t s"
| "run_op put del k Drop s = del k s"

text \<open>
  A loop over keys, each visited with some data: at every visit the operation is decided from
  what the store holds for that key.
\<close>

definition visit ::
  "('s \<Rightarrow> 'k \<Rightarrow> 'r option) \<Rightarrow> ('k \<Rightarrow> int \<Rightarrow> int \<Rightarrow> 's \<Rightarrow> 's) \<Rightarrow> ('k \<Rightarrow> 's \<Rightarrow> 's) \<Rightarrow>
   ('d \<Rightarrow> 'r option \<Rightarrow> store_op) \<Rightarrow> 's \<Rightarrow> 'k \<times> 'd \<Rightarrow> 's" where
  "visit get put del dec s v = run_op put del (fst v) (dec (snd v) (get s (fst v))) s"

fun op_result :: "('k \<Rightarrow> int \<Rightarrow> int \<Rightarrow> 'r) \<Rightarrow> 'k \<Rightarrow> store_op \<Rightarrow> 'r option \<Rightarrow> 'r option" where
  "op_result row k Keep r = r"
| "op_result row k (Put c t) r = Some (row k c t)"
| "op_result row k Drop r = None"

context policy_store
begin

lemma inv_visit: "inv s \<Longrightarrow> inv (visit get put del dec s v)"
  by (cases "dec (snd v) (get s (fst v))") (simp_all add: visit_def inv_put inv_del)

lemma get_visit:
  "inv s \<Longrightarrow> get (visit get put del dec s (k, d)) =
   (get s)(k := op_result row k (dec d (get s k)) (get s k))"
  by (cases "dec d (get s k)") (simp_all add: visit_def get_put get_del fun_upd_idem)

lemma inv_visits: "inv s \<Longrightarrow> inv (foldl (visit get put del dec) s vs)"
  by (induction vs arbitrary: s) (simp_all add: inv_visit)

text \<open>Over keys that are all different, the loop acts on each key by itself.\<close>

lemma get_visits:
  assumes "inv s" and "distinct (map fst vs)"
  shows "get (foldl (visit get put del dec) s vs) k =
    (case map_of vs k of None \<Rightarrow> get s k
     | Some d \<Rightarrow> op_result row k (dec d (get s k)) (get s k))"
  using assms
proof (induction vs arbitrary: s)
  case (Cons v vs)
  obtain k' d where v: "v = (k', d)" by (cases v)
  have "map_of vs k' = None" using Cons.prems(2) by (simp add: v map_of_eq_None_iff)
  then show ?case
    using Cons.prems Cons.IH [OF inv_visit [OF Cons.prems(1)], of dec v]
    by (auto simp: v get_visit split: option.split)
qed simp

end

section \<open>The table provides the contract\<close>

definition put_policy :: "pkey \<Rightarrow> int \<Rightarrow> int \<Rightarrow> policy list \<Rightarrow> policy list" where
  "put_policy k c now t = fst (UpdatePolicy True now (fst k) (snd k) c t)"

definition del_policy :: "pkey \<Rightarrow> policy list \<Rightarrow> policy list" where
  "del_policy k t = fst (DeletePolicy True (fst k) (snd k) t)"

definition policy_row :: "pkey \<Rightarrow> int \<Rightarrow> int \<Rightarrow> policy" where
  "policy_row k c now = \<lparr>SrcIp = fst k, GlobGroup = snd k, Class = c, Tstamp = now\<rparr>"

lemma policy_key_row [simp]: "policy_key (policy_row k c now) = k"
  by (simp add: policy_key_def policy_row_def)

lemma put_policy_eq: "put_policy k c now t = upsert policy_key set_policy (policy_row k c now) t"
  by (simp add: put_policy_def UpdatePolicy_def policy_row_def)

lemma del_policy_eq: "del_policy k t = filter (\<lambda>p. policy_key p \<noteq> k) t"
  by (auto simp: del_policy_def DeletePolicy_def policy_key_def intro!: filter_cong)

interpretation policies: policy_store policy_map put_policy del_policy policy_row policies_ok
  by unfold_locales
    (simp_all add: put_policy_eq del_policy_eq policy_table.table_map_upsert table_map_filter
      policy_table.keys_ok_upsert keys_ok_filter)

section \<open>DNS rows\<close>

definition dns_key :: "dns_row \<Rightarrow> string \<times> string \<times> string" where
  "dns_key r = (saddr r, daddr r, domain r)"

definition set_dns :: "dns_row \<Rightarrow> dns_row \<Rightarrow> dns_row" where
  "set_dns r p = p\<lparr>dns_tstamp := dns_tstamp r\<rparr>"

text \<open>\<open>AddDns\<close>: the address is the four octets of an A record.\<close>

definition AddDns ::
  "bool \<Rightarrow> int \<Rightarrow> string \<Rightarrow> u8 list \<Rightarrow> dns_row list \<Rightarrow> dns_row list \<times> bool" where
  "AddDns ok now name ipaddr t =
     (if ok then (upsert dns_key set_dns
        \<lparr>saddr = ''0.0.0.0'', daddr = ip_string ipaddr, domain = name, dns_tstamp = now\<rparr> t, False)
      else (t, True))"

text \<open>
  \<open>GetDomainForIP\<close>: of the rows of the address with the greatest time, one that the engine chooses
  (\<open>pick\<close>); the empty string when there is none.
\<close>

definition newest :: "dns_row list \<Rightarrow> dns_row list" where
  "newest rs = filter (\<lambda>r. \<forall>r' \<in> set rs. dns_tstamp r' \<le> dns_tstamp r) rs"

definition GetDomainForIP ::
  "bool \<Rightarrow> (dns_row list \<Rightarrow> dns_row) \<Rightarrow> string \<Rightarrow> dns_row list \<Rightarrow> string" where
  "GetDomainForIP ok pick ip t =
     (let rs = filter (\<lambda>r. daddr r = ip) t
      in if ok \<and> rs \<noteq> [] then domain (pick (newest rs)) else [])"

text \<open>
  \<open>GetIPsMatchingGlob\<close>: the distinct addresses of the rows whose domain matches the pattern and
  whose time lies between the date five days before today and the date of tomorrow. The times are
  texts \<open>YYYY-MM-DD HH:MM:SS\<close> and the bounds texts \<open>YYYY-MM-DD\<close>, compared as texts: a row of any time
  of tomorrow is greater than the upper bound.
\<close>

definition day_of :: "int \<Rightarrow> int" where
  "day_of secs = secs div 86400"

definition recent_row :: "int \<Rightarrow> dns_row \<Rightarrow> bool" where
  "recent_row now r \<longleftrightarrow>
     day_of now - 5 \<le> day_of (dns_tstamp r) \<and> day_of (dns_tstamp r) < day_of now + 1"

definition GetIPsMatchingGlob ::
  "bool \<Rightarrow> (string \<Rightarrow> string \<Rightarrow> bool) \<Rightarrow> int \<Rightarrow> glob_group \<Rightarrow> dns_row list \<Rightarrow> string list option" where
  "GetIPsMatchingGlob ok glob now g t =
     (if ok then Some (remdups (map daddr (filter (\<lambda>r. glob (Glob g) (domain r) \<and> recent_row now r) t)))
      else None)"

interpretation dns_table: keyed dns_key set_dns
proof
  show "dns_key p = dns_key r \<Longrightarrow> set_dns r p = r" for p r
    by (cases p; cases r) (simp add: dns_key_def set_dns_def)
qed

end
