(* ===== verification/NetConfig.thy ===== *)
theory NetConfig
  imports Prelude
begin

text \<open>
  The configuration of \<open>config/config.go\<close>, its built-in values, and how \<open>main\<close> of
  \<open>cmd/nethadone.go\<close> makes the configuration the other components read: the built-in values, over
  them the values of the file, over them the interfaces of the command line. Durations are
  nanoseconds, as Go's \<open>time.Duration\<close>. The YAML decoder is third-party code and an argument.
\<close>

section \<open>Configuration\<close>

record config =
  WanInterface :: string
  LanInterface :: string
  CfgDb :: string
  DnsDb :: string
  PrometheusUrl :: string
  MapCollectionInterval :: int
  PolicyCheckInterval :: int
  NumQdiscClasses :: int
  WanMbps :: int
  StartRateKbs :: int
  MaxDelayMs :: int
  MinRateKbs :: int
  ActivityThresholdBytes :: int
  PolicyBackoffInterval :: int

definition time_Second :: int where "time_Second = 1000000000"
definition time_Minute :: int where "time_Minute = 60 * time_Second"

definition baseConfig :: config where
  "baseConfig = \<lparr>
     WanInterface = ''eth0'', LanInterface = ''lan0'',
     CfgDb = ''/root/cfg.db'', DnsDb = ''/root/dns.db'', PrometheusUrl = ''http://localhost:9090'',
     MapCollectionInterval = time_Second * 30, PolicyCheckInterval = time_Minute * 1,
     NumQdiscClasses = 5, WanMbps = 100, StartRateKbs = 1000, MaxDelayMs = 50, MinRateKbs = 50,
     ActivityThresholdBytes = 100, PolicyBackoffInterval = time_Minute * 3\<rparr>"

text \<open>
  \<open>ParseConfig\<close>: without the file the configuration stays; with it the decoder writes the fields
  that the text sets over the configuration, or fails and the process ends (\<open>None\<close>).
\<close>

definition ParseConfig ::
  "(string \<Rightarrow> config \<Rightarrow> config option) \<Rightarrow> string option \<Rightarrow> config \<Rightarrow> config option" where
  "ParseConfig decode file cfg =
     (case file of None \<Rightarrow> Some cfg | Some text \<Rightarrow> decode text cfg)"

text \<open>The beginning of \<open>main\<close>: the flags are the empty string when they are not given.\<close>

definition main_config ::
  "(string \<Rightarrow> config \<Rightarrow> config option) \<Rightarrow> string option \<Rightarrow> string \<Rightarrow> string \<Rightarrow> config option" where
  "main_config decode file wanIf lanIf = do {
     cfg \<leftarrow> ParseConfig decode file baseConfig;
     let cfg = (if lanIf \<noteq> [] then cfg\<lparr>LanInterface := lanIf\<rparr> else cfg);
     let cfg = (if wanIf \<noteq> [] then cfg\<lparr>WanInterface := wanIf\<rparr> else cfg);
     Some cfg
   }"

text \<open>A flag decides its interface; what the file does not set keeps its built-in value.\<close>

theorem flags_override_file:
  assumes "ParseConfig decode file baseConfig = Some cfg"
  shows "main_config decode file wanIf lanIf =
    Some (cfg\<lparr>WanInterface := (if wanIf = [] then WanInterface cfg else wanIf),
              LanInterface := (if lanIf = [] then LanInterface cfg else lanIf)\<rparr>)"
  using assms by (simp add: main_config_def Let_def)

theorem flags_override_file_witness:
  "main_config (\<lambda>_ cfg. Some (cfg\<lparr>LanInterface := ''eth1'', NumQdiscClasses := 3\<rparr>)) (Some ''...'') ''wlan0'' [] =
   Some (baseConfig\<lparr>WanInterface := ''wlan0'', LanInterface := ''eth1'', NumQdiscClasses := 3\<rparr>)"
proof -
  have "ParseConfig (\<lambda>_ cfg. Some (cfg\<lparr>LanInterface := ''eth1'', NumQdiscClasses := 3\<rparr>)) (Some ''...'') baseConfig =
      Some (baseConfig\<lparr>LanInterface := ''eth1'', NumQdiscClasses := 3\<rparr>)"
    by (simp add: ParseConfig_def)
  from flags_override_file [OF this, of "''wlan0''" "[]"] show ?thesis
    by (simp add: baseConfig_def)
qed

end
