(* ===== verification/Policy.thy ===== *)
theory Policy
  imports Store NetConfig
begin

text \<open>
  The policy engine \<open>policy/simpleloadavg.go\<close> and its query \<open>database/prom.go\<close>. A tick of
  \<open>pollPolicyCheck\<close> raises the class of the active pairs of a client and a glob group and, when
  nothing was raised, lowers the class of the quiet ones. Prometheus is not part of the
  repository: its query API is an argument. Go's \<open>ToSlice\<close> enumerates a set in any order, so the
  loops are functions of the enumeration, and the tick is a relation that allows every one.
  Times of Go are nanoseconds since the epoch, times in the database seconds.
\<close>

section \<open>The queries\<close>

text \<open>A metric is a map from label names to values; a label that is missing reads as empty.\<close>

type_synonym metric = "string \<Rightarrow> string option"

definition label :: "metric \<Rightarrow> string \<Rightarrow> string" where
  "label m name = (case m name of None \<Rightarrow> [] | Some v \<Rightarrow> v)"

text \<open>\<open>createSrcGlobSet\<close>.\<close>

definition createSrcGlobSet :: "metric list \<Rightarrow> pkey set" where
  "createSrcGlobSet vec = set (map (\<lambda>m. (label m ''src_ip'', label m ''glob'')) vec)"

text \<open>The PromQL text of \<open>GetSrcGlobUsage\<close>, with the line breaks and tabs of the source.\<close>

definition pql :: "int \<Rightarrow> int \<Rightarrow> bool \<Rightarrow> string" where
  "pql rate k over =
     ''sum by (src_ip, glob) ('' @ [CHR 0x0A, CHR 0x09, CHR 0x09, CHR 0x09] @
     ''rate(ip_pair_vic_bytes_total{glob!='' @ [CHR 0x22, CHR 0x22] @ ''}['' @ go_itoa rate @ ''m])'' @
     [CHR 0x0A, CHR 0x09, CHR 0x09] @ '') '' @ (if over then ''>'' else ''<'') @ '' '' @ go_itoa k"

text \<open>\<open>GetSrcGlobUsage\<close>: the query API gives a vector or (\<open>None\<close>) an error.\<close>

definition GetSrcGlobUsage ::
  "(string \<Rightarrow> int \<Rightarrow> metric list option) \<Rightarrow> int \<Rightarrow> int \<Rightarrow> int \<Rightarrow> int \<Rightarrow> bool \<Rightarrow> metric list" where
  "GetSrcGlobUsage query now rate mins k over =
     (case query (pql rate k over) (now + -1 * (mins * time_Minute)) of
        None \<Rightarrow> [] | Some v \<Rightarrow> v)"

text \<open>\<open>getActiveGlobGroups\<close>, with the times of its three queries.\<close>

definition getActiveGlobGroups ::
  "(string \<Rightarrow> int \<Rightarrow> metric list option) \<Rightarrow> config \<Rightarrow> int \<times> int \<times> int \<Rightarrow> pkey set" where
  "getActiveGlobGroups query cfg ts =
     (let k = ActivityThresholdBytes cfg;
          s1 = createSrcGlobSet (GetSrcGlobUsage query (fst ts) 2 0 k True);
          s2 = createSrcGlobSet (GetSrcGlobUsage query (fst (snd ts)) 2 5 k True);
          s3 = createSrcGlobSet (GetSrcGlobUsage query (snd (snd ts)) 5 0 k True);
          s12 = s1 \<inter> s2
      in s3 \<inter> s12)"

section \<open>The loops\<close>

text \<open>
  What an iteration meets: whether its read and its write of the database succeed, \<open>time.Now()\<close>
  (nanoseconds), and the time at which the database executes the write (seconds).
\<close>

record visit_env =
  get_ok :: bool
  exec_ok :: bool
  go_now :: int
  sql_now :: int

text \<open>\<open>p.Tstamp.After(backOff)\<close>.\<close>

definition too_soon :: "config \<Rightarrow> visit_env \<Rightarrow> policy \<Rightarrow> bool" where
  "too_soon cfg e p \<longleftrightarrow> Tstamp p * time_Second > go_now e + PolicyBackoffInterval cfg"

text \<open>One iteration of the loop of \<open>increaseThrottling\<close>: the state is \<open>changed\<close> and the table.\<close>

definition increase_one ::
  "config \<Rightarrow> bool \<times> policy list \<Rightarrow> pkey \<times> visit_env \<Rightarrow> bool \<times> policy list" where
  "increase_one cfg st match =
     (let (changed, t) = st; ((src_ip, glob), e) = match
      in case GetPolicy (get_ok e) src_ip glob t of
           None \<Rightarrow>
             (let (t', err) = UpdatePolicy (exec_ok e) (sql_now e) src_ip glob 10 t
              in if err then (changed, t') else (True, t'))
         | Some p \<Rightarrow>
             if too_soon cfg e p then (changed, t)
             else if Class p > NumQdiscClasses cfg * 10 then (changed, t)
             else (True, fst (UpdatePolicy (exec_ok e) (sql_now e) src_ip glob (Class p + 10) t)))"

definition increase_loop ::
  "config \<Rightarrow> (pkey \<times> visit_env) list \<Rightarrow> policy list \<Rightarrow> bool \<times> policy list" where
  "increase_loop cfg matches t = foldl (increase_one cfg) (False, t) matches"

text \<open>One iteration of the loop of \<open>decreasingThrottling\<close>.\<close>

definition decrease_one ::
  "config \<Rightarrow> bool \<times> policy list \<Rightarrow> pkey \<times> visit_env \<Rightarrow> bool \<times> policy list" where
  "decrease_one cfg st match =
     (let (changed, t) = st; ((src_ip, glob), e) = match
      in case GetPolicy (get_ok e) src_ip glob t of
           None \<Rightarrow> (changed, t)
         | Some p \<Rightarrow>
             if too_soon cfg e p then (changed, t)
             else if Class p \<le> 10 then (True, fst (DeletePolicy (exec_ok e) src_ip glob t))
             else (True, fst (UpdatePolicy (exec_ok e) (sql_now e) src_ip glob (Class p - 10) t)))"

definition decrease_loop ::
  "config \<Rightarrow> (pkey \<times> visit_env) list \<Rightarrow> policy list \<Rightarrow> bool \<times> policy list" where
  "decrease_loop cfg matches t = foldl (decrease_one cfg) (False, t) matches"

text \<open>\<open>ToSlice\<close>: each element of the set once, in any order.\<close>

definition enumerates :: "(pkey \<times> visit_env) list \<Rightarrow> pkey set \<Rightarrow> bool" where
  "enumerates matches s \<longleftrightarrow> distinct (map fst matches) \<and> set (map fst matches) = s"

inductive increaseThrottling ::
  "(string \<Rightarrow> int \<Rightarrow> metric list option) \<Rightarrow> config \<Rightarrow> policy list \<Rightarrow> bool \<Rightarrow> policy list \<Rightarrow> bool"
  for query cfg where
  increaseI: "enumerates matches (getActiveGlobGroups query cfg ts) \<Longrightarrow>
    increase_loop cfg matches t = (changed, t') \<Longrightarrow> increaseThrottling query cfg t changed t'"

inductive decreasingThrottling ::
  "(string \<Rightarrow> int \<Rightarrow> metric list option) \<Rightarrow> config \<Rightarrow> policy list \<Rightarrow> bool \<Rightarrow> policy list \<Rightarrow> bool"
  for query cfg where
  decreaseI: "enumerates matches
      (createSrcGlobSet (GetSrcGlobUsage query now 5 0 (ActivityThresholdBytes cfg) False)) \<Longrightarrow>
    decrease_loop cfg matches t = (changed, t') \<Longrightarrow> decreasingThrottling query cfg t changed t'"

text \<open>
  One tick of \<open>pollPolicyCheck\<close>: \<open>changed || decreasingThrottling()\<close> does not call the second
  function when the first changed something. The flag says whether the policies are applied.
\<close>

inductive policy_tick ::
  "(string \<Rightarrow> int \<Rightarrow> metric list option) \<Rightarrow> config \<Rightarrow> policy list \<Rightarrow> bool \<Rightarrow> policy list \<Rightarrow> bool"
  for query cfg where
  tick_increased: "increaseThrottling query cfg t True t' \<Longrightarrow> policy_tick query cfg t True t'"
| tick_decrease: "increaseThrottling query cfg t False t' \<Longrightarrow>
    decreasingThrottling query cfg t' changed t'' \<Longrightarrow> policy_tick query cfg t changed t''"

text \<open>The same tick as a function of the two enumerations.\<close>

definition check_policy ::
  "config \<Rightarrow> (pkey \<times> visit_env) list \<Rightarrow> (pkey \<times> visit_env) list \<Rightarrow> policy list \<Rightarrow> bool \<times> policy list" where
  "check_policy cfg incs decs t =
     (let (changed, t') = increase_loop cfg incs t
      in if changed then (changed, t') else decrease_loop cfg decs t')"

text \<open>The tables the loop can make from a table, whatever Prometheus answers at each tick.\<close>

inductive policy_reach :: "config \<Rightarrow> policy list \<Rightarrow> policy list \<Rightarrow> bool" for cfg t0 where
  reach_start: "policy_reach cfg t0 t0"
| reach_tick: "policy_reach cfg t0 t \<Longrightarrow> policy_tick query cfg t changed t' \<Longrightarrow> policy_reach cfg t0 t'"

inductive_cases increaseThrottlingE: "increaseThrottling query cfg t changed t'"
inductive_cases decreasingThrottlingE: "decreasingThrottling query cfg t changed t'"
inductive_cases policy_tickE: "policy_tick query cfg t changed t'"

section \<open>The loops act on each pair by itself\<close>

text \<open>What an iteration does to the row of its pair, and whether it reports a change.\<close>

definition raise_op :: "config \<Rightarrow> visit_env \<Rightarrow> policy option \<Rightarrow> store_op" where
  "raise_op cfg e r =
     (if \<not> exec_ok e then Keep
      else case (if get_ok e then r else None) of
          None \<Rightarrow> Put 10 (sql_now e)
        | Some p \<Rightarrow> if too_soon cfg e p \<or> Class p > NumQdiscClasses cfg * 10 then Keep
                    else Put (Class p + 10) (sql_now e))"

definition raise_reports :: "config \<Rightarrow> visit_env \<Rightarrow> policy option \<Rightarrow> bool" where
  "raise_reports cfg e r =
     (case (if get_ok e then r else None) of
        None \<Rightarrow> exec_ok e
      | Some p \<Rightarrow> \<not> too_soon cfg e p \<and> Class p \<le> NumQdiscClasses cfg * 10)"

definition lower_op :: "config \<Rightarrow> visit_env \<Rightarrow> policy option \<Rightarrow> store_op" where
  "lower_op cfg e r =
     (if \<not> exec_ok e then Keep
      else case (if get_ok e then r else None) of
          None \<Rightarrow> Keep
        | Some p \<Rightarrow> if too_soon cfg e p then Keep else if Class p \<le> 10 then Drop
                    else Put (Class p - 10) (sql_now e))"

definition lower_reports :: "config \<Rightarrow> visit_env \<Rightarrow> policy option \<Rightarrow> bool" where
  "lower_reports cfg e r =
     (case (if get_ok e then r else None) of None \<Rightarrow> False | Some p \<Rightarrow> \<not> too_soon cfg e p)"

lemma GetPolicy_eq: "GetPolicy ok s g t = (if ok then policy_map t (s, g) else None)"
  using GetPolicy_map by (simp add: GetPolicy_def)

lemma UpdatePolicy_eq:
  "UpdatePolicy ok now s g c t = (if ok then (put_policy (s, g) c now t, False) else (t, True))"
  by (simp add: put_policy_def UpdatePolicy_def)

lemma DeletePolicy_eq:
  "DeletePolicy ok s g t = (if ok then (del_policy (s, g) t, False) else (t, True))"
  by (simp add: del_policy_def DeletePolicy_def)

lemma increase_one_eq:
  "increase_one cfg (ch, t) (k, e) =
   (ch \<or> raise_reports cfg e (policy_map t k),
    visit policy_map put_policy del_policy (raise_op cfg) t (k, e))"
  by (cases k)
    (auto simp: increase_one_def raise_reports_def raise_op_def visit_def GetPolicy_eq UpdatePolicy_eq
      split: option.split)

lemma decrease_one_eq:
  "decrease_one cfg (ch, t) (k, e) =
   (ch \<or> lower_reports cfg e (policy_map t k),
    visit policy_map put_policy del_policy (lower_op cfg) t (k, e))"
  by (cases k)
    (auto simp: decrease_one_def lower_reports_def lower_op_def visit_def GetPolicy_eq
      UpdatePolicy_eq DeletePolicy_eq split: option.split)

text \<open>Both loops are the same loop over different decisions.\<close>

definition loop_with ::
  "(visit_env \<Rightarrow> policy option \<Rightarrow> store_op) \<Rightarrow> (visit_env \<Rightarrow> policy option \<Rightarrow> bool) \<Rightarrow>
   bool \<times> policy list \<Rightarrow> pkey \<times> visit_env \<Rightarrow> bool \<times> policy list" where
  "loop_with dec rep st v =
     (fst st \<or> rep (snd v) (policy_map (snd st) (fst v)),
      visit policy_map put_policy del_policy dec (snd st) v)"

lemma increase_loop_with: "increase_loop cfg ms t = foldl (loop_with (raise_op cfg) (raise_reports cfg)) (False, t) ms"
proof -
  have "increase_one cfg = loop_with (raise_op cfg) (raise_reports cfg)"
    by (intro ext) (auto simp: loop_with_def increase_one_eq)
  then show ?thesis by (simp add: increase_loop_def)
qed

lemma decrease_loop_with: "decrease_loop cfg ms t = foldl (loop_with (lower_op cfg) (lower_reports cfg)) (False, t) ms"
proof -
  have "decrease_one cfg = loop_with (lower_op cfg) (lower_reports cfg)"
    by (intro ext) (auto simp: loop_with_def decrease_one_eq)
  then show ?thesis by (simp add: decrease_loop_def)
qed

lemma loop_with_table:
  "snd (foldl (loop_with dec rep) (ch, t) ms) = foldl (visit policy_map put_policy del_policy dec) t ms"
  by (induction ms arbitrary: ch t) (simp_all add: loop_with_def)

lemma loop_with_reports:
  assumes "policies_ok t" and "distinct (map fst ms)"
  shows "fst (foldl (loop_with dec rep) (ch, t) ms) \<longleftrightarrow>
    ch \<or> (\<exists>(k, e) \<in> set ms. rep e (policy_map t k))"
  using assms
proof (induction ms arbitrary: ch t)
  case (Cons v ms)
  obtain k e where v: "v = (k, e)" by (cases v)
  let ?t = "visit policy_map put_policy del_policy dec t v"
  have "policy_map ?t k' = policy_map t k'" if "k' \<in> fst ` set ms" for k'
    using that Cons.prems by (auto simp: v policies.get_visit)
  then have "(\<exists>(k, e) \<in> set ms. rep e (policy_map ?t k)) = (\<exists>(k, e) \<in> set ms. rep e (policy_map t k))"
    by force
  moreover have "loop_with dec rep (ch, t) v = (ch \<or> rep e (policy_map t k), ?t)"
    by (simp add: loop_with_def v)
  ultimately show ?case
    using Cons.prems Cons.IH [OF policies.inv_visit [OF Cons.prems(1), of dec v], of "ch \<or> rep e (policy_map t k)"]
    by (simp add: v disj_assoc)
qed simp

definition loop_result ::
  "(visit_env \<Rightarrow> policy option \<Rightarrow> store_op) \<Rightarrow> (pkey \<times> visit_env) list \<Rightarrow> policy list \<Rightarrow> pkey \<Rightarrow> policy option" where
  "loop_result dec ms t k =
     (case map_of ms k of None \<Rightarrow> policy_map t k
      | Some e \<Rightarrow> op_result policy_row k (dec e (policy_map t k)) (policy_map t k))"

lemma increase_loop_map:
  "policies_ok t \<Longrightarrow> distinct (map fst ms) \<Longrightarrow>
   policy_map (snd (increase_loop cfg ms t)) = loop_result (raise_op cfg) ms t"
  by (rule ext) (simp add: increase_loop_with loop_with_table policies.get_visits loop_result_def)

lemma decrease_loop_map:
  "policies_ok t \<Longrightarrow> distinct (map fst ms) \<Longrightarrow>
   policy_map (snd (decrease_loop cfg ms t)) = loop_result (lower_op cfg) ms t"
  by (rule ext) (simp add: decrease_loop_with loop_with_table policies.get_visits loop_result_def)

lemma loops_ok:
  "policies_ok t \<Longrightarrow> policies_ok (snd (increase_loop cfg ms t))"
  "policies_ok t \<Longrightarrow> policies_ok (snd (decrease_loop cfg ms t))"
  by (simp_all add: increase_loop_with decrease_loop_with loop_with_table policies.inv_visits)

lemma increase_loop_reports:
  "policies_ok t \<Longrightarrow> distinct (map fst ms) \<Longrightarrow>
   fst (increase_loop cfg ms t) \<longleftrightarrow> (\<exists>(k, e) \<in> set ms. raise_reports cfg e (policy_map t k))"
  by (simp add: increase_loop_with loop_with_reports)

lemma decrease_loop_reports:
  "policies_ok t \<Longrightarrow> distinct (map fst ms) \<Longrightarrow>
   fst (decrease_loop cfg ms t) \<longleftrightarrow> (\<exists>(k, e) \<in> set ms. lower_reports cfg e (policy_map t k))"
  by (simp add: decrease_loop_with loop_with_reports)

text \<open>Decisions that agree on the rows a loop visits make the same loop.\<close>

lemma loop_with_cong:
  assumes "policies_ok t" and "distinct (map fst ms)"
    and "\<And>k e. (k, e) \<in> set ms \<Longrightarrow> dec e (policy_map t k) = dec' e (policy_map t k)"
    and "\<And>k e. (k, e) \<in> set ms \<Longrightarrow> rep e (policy_map t k) = rep' e (policy_map t k)"
  shows "foldl (loop_with dec rep) (ch, t) ms = foldl (loop_with dec' rep') (ch, t) ms"
  using assms
proof (induction ms arbitrary: ch t)
  case (Cons v ms)
  obtain k e where v: "v = (k, e)" by (cases v)
  let ?t = "visit policy_map put_policy del_policy dec t v"
  have same: "policy_map ?t k' = policy_map t k'" if "(k', e') \<in> set ms" for k' e'
    using that Cons.prems(1,2) by (auto simp: v policies.get_visit image_iff)
  have step: "loop_with dec rep (ch, t) v = (ch \<or> rep e (policy_map t k), ?t)"
    "loop_with dec' rep' (ch, t) v = (ch \<or> rep e (policy_map t k), ?t)"
    using Cons.prems(3,4) [of k e] by (simp_all add: loop_with_def v visit_def)
  have "foldl (loop_with dec rep) (ch \<or> rep e (policy_map t k), ?t) ms =
      foldl (loop_with dec' rep') (ch \<or> rep e (policy_map t k), ?t) ms"
  proof (rule Cons.IH)
    show "policies_ok ?t" by (rule policies.inv_visit [OF Cons.prems(1)])
    show "distinct (map fst ms)" using Cons.prems(2) by simp
  qed (use same Cons.prems(3,4) in auto)
  then show ?case by (simp add: step)
qed simp

text \<open>A loop that reports nothing changed nothing, when a decision that is not reported is to keep.\<close>

lemma loop_with_silent:
  assumes "\<And>e r. \<not> rep e r \<Longrightarrow> dec e r = Keep" and "\<not> fst (foldl (loop_with dec rep) (ch, t) ms)"
  shows "snd (foldl (loop_with dec rep) (ch, t) ms) = t"
proof -
  have mono: "fst (foldl (loop_with dec rep) st ms)" if "fst st" for st ms
    using that by (induction ms arbitrary: st) (simp_all add: loop_with_def)
  show ?thesis using assms(2)
  proof (induction ms arbitrary: ch t)
    case (Cons v ms)
    let ?s = "loop_with dec rep (ch, t) v"
    have "\<not> fst ?s" using Cons.prems mono [of ?s ms] by auto
    then have "?s = (ch, t)"
      using assms(1) by (auto simp: loop_with_def visit_def)
    with Cons show ?case by simp
  qed simp
qed

lemma silent_ops:
  "\<not> raise_reports cfg e r \<Longrightarrow> raise_op cfg e r = Keep"
  "\<not> lower_reports cfg e r \<Longrightarrow> lower_op cfg e r = Keep"
  by (auto simp: raise_reports_def raise_op_def lower_reports_def lower_op_def
      split: option.splits if_splits)

lemma silent_loops:
  "\<not> fst (increase_loop cfg ms t) \<Longrightarrow> snd (increase_loop cfg ms t) = t"
  "\<not> fst (decrease_loop cfg ms t) \<Longrightarrow> snd (decrease_loop cfg ms t) = t"
  using loop_with_silent [of "raise_reports cfg" "raise_op cfg"]
    loop_with_silent [of "lower_reports cfg" "lower_op cfg"]
  by (simp_all add: increase_loop_with decrease_loop_with silent_ops)

end
