(* ===== verification/PolicyLevels.thy ===== *)
theory PolicyLevels
  imports Policy
begin

text \<open>
  What the policy engine promises: the classes it stores, the abstract machine of throttling
  levels it implements, how long it takes to reach the strongest throttling and to give it up,
  where the code does not do what its comments say, and what a failed read does.
\<close>

section \<open>Classes\<close>

text \<open>A class is a positive multiple of ten, at most ten times one more than the number of classes.\<close>

definition class_ok :: "config \<Rightarrow> int \<Rightarrow> bool" where
  "class_ok cfg c \<longleftrightarrow> c mod 10 = 0 \<and> 10 \<le> c \<and> c \<le> 10 * max 1 (NumQdiscClasses cfg + 1)"

definition table_ok :: "config \<Rightarrow> policy list \<Rightarrow> bool" where
  "table_ok cfg t \<longleftrightarrow> policies_ok t \<and> (\<forall>p \<in> set t. class_ok cfg (Class p))"

lemma table_ok_class: "table_ok cfg t \<Longrightarrow> policy_map t k = Some p \<Longrightarrow> class_ok cfg (Class p)"
  by (auto simp: table_ok_def dest!: table_map_key)

lemma table_ok_keys: "table_ok cfg t \<Longrightarrow> policies_ok t"
  by (simp add: table_ok_def)

lemma table_okI:
  "policies_ok t \<Longrightarrow> (\<And>k p. policy_map t k = Some p \<Longrightarrow> class_ok cfg (Class p)) \<Longrightarrow> table_ok cfg t"
  unfolding table_ok_def using table_map_mem by metis

lemma class_ok_start: "class_ok cfg 10"
  by (simp add: class_ok_def)

lemma class_ok_raise: "class_ok cfg c \<Longrightarrow> c \<le> NumQdiscClasses cfg * 10 \<Longrightarrow> class_ok cfg (c + 10)"
  by (simp add: class_ok_def)

lemma class_ok_lower: "class_ok cfg c \<Longrightarrow> 10 < c \<Longrightarrow> class_ok cfg (c - 10)"
proof -
  assume *: "class_ok cfg c" "10 < c"
  then have "c mod 10 = 0" by (simp add: class_ok_def)
  with * have "20 \<le> c" "(c - 10) mod 10 = 0" by presburger+
  with * show ?thesis by (simp add: class_ok_def)
qed

lemma Class_policy_row [simp]: "Class (policy_row k c now) = c"
  by (simp add: policy_row_def)

lemma op_result_class_ok:
  assumes "op_result policy_row k (dec e r) r = Some p" and "dec = raise_op cfg \<or> dec = lower_op cfg"
    and "\<And>q. r = Some q \<Longrightarrow> class_ok cfg (Class q)"
  shows "class_ok cfg (Class p)"
  using assms
  by (auto simp: raise_op_def lower_op_def class_ok_start class_ok_raise class_ok_lower
      split: if_splits option.splits)

lemma table_ok_loop_result:
  assumes "table_ok cfg t" and "dec = raise_op cfg \<or> dec = lower_op cfg"
    and "loop_result dec ms t k = Some p"
  shows "class_ok cfg (Class p)"
proof (cases "map_of ms k")
  case None
  then show ?thesis using assms(1,3) by (simp add: loop_result_def table_ok_class)
next
  case (Some e)
  with assms(3) have "op_result policy_row k (dec e (policy_map t k)) (policy_map t k) = Some p"
    by (simp add: loop_result_def)
  then show ?thesis using op_result_class_ok assms(2) table_ok_class [OF assms(1)] by blast
qed

lemma table_ok_loopI:
  assumes "table_ok cfg t" and "dec = raise_op cfg \<or> dec = lower_op cfg"
    and "policies_ok t'" and "policy_map t' = loop_result dec ms t"
  shows "table_ok cfg t'"
  using assms(3)
proof (rule table_okI)
  show "class_ok cfg (Class p)" if "policy_map t' k = Some p" for k p
    using that assms(4) by (simp add: table_ok_loop_result [OF assms(1,2)])
qed

lemma table_ok_loops:
  assumes "table_ok cfg t" and "distinct (map fst ms)"
  shows "table_ok cfg (snd (increase_loop cfg ms t))" and "table_ok cfg (snd (decrease_loop cfg ms t))"
proof -
  note ok = table_ok_keys [OF assms(1)]
  show "table_ok cfg (snd (increase_loop cfg ms t))"
    by (rule table_ok_loopI [OF assms(1) disjI1 [OF refl] loops_ok(1) [OF ok] increase_loop_map [OF ok assms(2)]])
  show "table_ok cfg (snd (decrease_loop cfg ms t))"
    by (rule table_ok_loopI [OF assms(1) disjI2 [OF refl] loops_ok(2) [OF ok] decrease_loop_map [OF ok assms(2)]])
qed

lemma table_ok_increase: "increaseThrottling query cfg t ch t' \<Longrightarrow> table_ok cfg t \<Longrightarrow> table_ok cfg t'"
  by (elim increaseThrottlingE) (use table_ok_loops(1) in \<open>fastforce simp: enumerates_def\<close>)

lemma table_ok_decrease: "decreasingThrottling query cfg t ch t' \<Longrightarrow> table_ok cfg t \<Longrightarrow> table_ok cfg t'"
  by (elim decreasingThrottlingE) (use table_ok_loops(2) in \<open>fastforce simp: enumerates_def\<close>)

lemma table_ok_tick: "policy_tick query cfg t changed t' \<Longrightarrow> table_ok cfg t \<Longrightarrow> table_ok cfg t'"
  by (elim policy_tickE) (blast intro: table_ok_increase table_ok_decrease)+

text \<open>C10: Whatever Prometheus answers, however the sets are enumerated and whatever database statements
  fail, from an empty table the loop only makes tables with one row per pair and classes 10, 20
  and so on up to ten times one more than the number of classes.\<close>

theorem policy_classes_bounded:
  assumes "policy_reach cfg t0 t" and "table_ok cfg t0"
  shows "table_ok cfg t"
  using assms by induction (auto intro: table_ok_tick)

text \<open>A client that uses one glob group: Prometheus answers every query for traffic over the threshold
  with that pair, and every other query with nothing.\<close>

definition demo_query :: "string \<Rightarrow> int \<Rightarrow> metric list option" where
  "demo_query q at =
     Some (if CHR ''>'' \<in> set q
       then [[''src_ip'' \<mapsto> ''192.168.0.14'', ''glob'' \<mapsto> ''video'']] else [])"

definition demo_pair :: pkey where
  "demo_pair = (''192.168.0.14'', ''video'')"

definition demo_env :: visit_env where
  "demo_env = \<lparr>get_ok = True, exec_ok = True, go_now = 1700000000 * time_Second, sql_now = 1700000000\<rparr>"

lemma pql_operator: "CHR ''>'' \<in> set (pql rate k over) \<longleftrightarrow> over"
proof -
  have "digit_char d \<noteq> CHR ''>''" if "d < 10" for d
    using that by (simp add: digit_char_eq_iff)
  then have "CHR ''>'' \<notin> set (dec_of_nat n)" for n
    using set_dec_of_nat by metis
  then have "CHR ''>'' \<notin> set (go_itoa i)" for i
    by (simp add: go_itoa_def)
  then show ?thesis by (simp add: pql_def)
qed

lemma demo_queries:
  "GetSrcGlobUsage demo_query now rate mins 1 over =
   (if over then [[''src_ip'' \<mapsto> ''192.168.0.14'', ''glob'' \<mapsto> ''video'']] else [])"
  by (simp add: GetSrcGlobUsage_def demo_query_def pql_operator)

lemma demo_active: "getActiveGlobGroups demo_query (baseConfig\<lparr>ActivityThresholdBytes := 1\<rparr>) ts = {demo_pair}"
  by (simp add: getActiveGlobGroups_def demo_queries createSrcGlobSet_def demo_pair_def label_def Let_def)

definition demo_cfg :: config where
  "demo_cfg = baseConfig\<lparr>ActivityThresholdBytes := 1\<rparr>"

lemma demo_tick:
  "increase_loop demo_cfg [(demo_pair, demo_env)] t = (True, t') \<Longrightarrow> policy_tick demo_query demo_cfg t True t'"
  using demo_active unfolding demo_cfg_def
  by (intro tick_increased increaseI [of "[(demo_pair, demo_env)]" _ _ "(0, 0, 0)"])
    (simp_all add: enumerates_def)

definition demo_table :: "int \<Rightarrow> policy list" where
  "demo_table c = [policy_row demo_pair c 1700000000]"

lemma demo_raise:
  "increase_loop demo_cfg [(demo_pair, demo_env)] [] = (True, demo_table 10)"
  "increase_loop demo_cfg [(demo_pair, demo_env)] (demo_table 10) = (True, demo_table 20)"
  by code_simp+

theorem policy_classes_bounded_witness:
  "table_ok demo_cfg (demo_table 20)"
proof (rule policy_classes_bounded)
  show "policy_reach demo_cfg [] (demo_table 20)"
    by (meson demo_raise demo_tick reach_start reach_tick)
  show "table_ok demo_cfg []"
    by (simp add: table_ok_def keys_ok_def)
qed

section \<open>A tick that reports no change makes none\<close>

text \<open>When a tick does not have the policies applied again, the table is as it was before the tick, so
  the throttler that is attached is still the one made of the table.\<close>

theorem silent_tick_keeps_table:
  assumes "policy_tick query cfg t False t'"
  shows "t' = t"
  using assms
proof cases
  case (tick_decrease u)
  then have "u = t" "t' = u"
    by (auto elim!: increaseThrottlingE decreasingThrottlingE dest!: silent_loops [of cfg] dest: sym
        simp: prod_eq_iff)
  then show ?thesis by simp
qed simp

text \<open>The strongest class, of a pair that stays active.\<close>

theorem silent_tick_keeps_table_witness:
  "policy_tick demo_query demo_cfg (demo_table 60) False (demo_table 60)"
proof -
  have inc: "increase_loop demo_cfg [(demo_pair, demo_env)] (demo_table 60) = (False, demo_table 60)"
    by code_simp
  have dec: "decrease_loop demo_cfg [] (demo_table 60) = (False, demo_table 60)"
    by code_simp
  have "enumerates [(demo_pair, demo_env)] (getActiveGlobGroups demo_query demo_cfg (0, 0, 0))"
    by (simp add: enumerates_def demo_active demo_cfg_def)
  then have up: "increaseThrottling demo_query demo_cfg (demo_table 60) False (demo_table 60)"
    using inc by (rule increaseI)
  have "enumerates [] (createSrcGlobSet (GetSrcGlobUsage demo_query 0 5 0 (ActivityThresholdBytes demo_cfg) False))"
    by (simp add: enumerates_def demo_queries demo_cfg_def createSrcGlobSet_def)
  then have "decreasingThrottling demo_query demo_cfg (demo_table 60) False (snd (False, demo_table 60))"
    using dec by (auto intro: decreaseI)
  from tick_decrease [OF up this] silent_tick_keeps_table [OF tick_decrease [OF up this]]
  show ?thesis by simp
qed

section \<open>The order of the enumeration does not matter\<close>

lemma map_of_set_eq:
  "distinct (map fst xs) \<Longrightarrow> distinct (map fst ys) \<Longrightarrow> set xs = set ys \<Longrightarrow> map_of xs = map_of ys"
  by (rule map_of_inject_set [THEN iffD2])

lemma check_policy_map:
  assumes "policies_ok t" and "distinct (map fst incs)" and "distinct (map fst decs)"
  shows "fst (check_policy cfg incs decs t) \<longleftrightarrow>
      (\<exists>(k, e) \<in> set incs. raise_reports cfg e (policy_map t k)) \<or>
      (\<exists>(k, e) \<in> set decs. lower_reports cfg e (policy_map t k))"
    and "policy_map (snd (check_policy cfg incs decs t)) =
      (if \<exists>(k, e) \<in> set incs. raise_reports cfg e (policy_map t k)
       then loop_result (raise_op cfg) incs t else loop_result (lower_op cfg) decs t)"
    and "policies_ok (snd (check_policy cfg incs decs t))"
proof -
  let ?inc = "increase_loop cfg incs t"
  have *: "check_policy cfg incs decs t = (if fst ?inc then ?inc else decrease_loop cfg decs t)"
    using silent_loops(1) [of cfg incs t] by (auto simp: check_policy_def Let_def case_prod_beta prod_eq_iff)
  note facts = increase_loop_reports [OF assms(1,2)] decrease_loop_reports [OF assms(1,3)]
    increase_loop_map [OF assms(1,2)] decrease_loop_map [OF assms(1,3)] loops_ok [OF assms(1)]
  show "fst (check_policy cfg incs decs t) \<longleftrightarrow>
      (\<exists>(k, e) \<in> set incs. raise_reports cfg e (policy_map t k)) \<or>
      (\<exists>(k, e) \<in> set decs. lower_reports cfg e (policy_map t k))"
    unfolding * using facts by auto
  show "policy_map (snd (check_policy cfg incs decs t)) =
      (if \<exists>(k, e) \<in> set incs. raise_reports cfg e (policy_map t k)
       then loop_result (raise_op cfg) incs t else loop_result (lower_op cfg) decs t)"
    unfolding * using facts by simp
  show "policies_ok (snd (check_policy cfg incs decs t))"
    unfolding * using facts by simp
qed

text \<open>Two enumerations of the same visits, in any order, report the same change and make tables with
  the same row for every pair.\<close>

theorem tick_order_irrelevant:
  assumes "policies_ok t"
    and "distinct (map fst incs)" and "distinct (map fst incs')" and "set incs = set incs'"
    and "distinct (map fst decs)" and "distinct (map fst decs')" and "set decs = set decs'"
  shows "fst (check_policy cfg incs decs t) = fst (check_policy cfg incs' decs' t) \<and>
    policy_map (snd (check_policy cfg incs decs t)) = policy_map (snd (check_policy cfg incs' decs' t))"
  using assms map_of_set_eq [OF assms(2-4)] map_of_set_eq [OF assms(5-7)]
  by (simp add: check_policy_map loop_result_def fun_eq_iff)

theorem tick_order_irrelevant_witness:
  "fst (check_policy demo_cfg [((''a'', ''g''), demo_env), ((''b'', ''g''), demo_env)] [] []) =
     fst (check_policy demo_cfg [((''b'', ''g''), demo_env), ((''a'', ''g''), demo_env)] [] []) \<and>
   policy_map (snd (check_policy demo_cfg [((''a'', ''g''), demo_env), ((''b'', ''g''), demo_env)] [] [])) =
     policy_map (snd (check_policy demo_cfg [((''b'', ''g''), demo_env), ((''a'', ''g''), demo_env)] [] []))"
  by (rule tick_order_irrelevant) (auto simp: keys_ok_def)

section \<open>Levels\<close>

text \<open>The abstract machine: every pair has a level, 0 without a policy.\<close>

definition raise_level :: "int \<Rightarrow> int \<Rightarrow> int" where
  "raise_level n l = (if l = 0 then 1 else if n < l then l else l + 1)"

definition lower_level :: "int \<Rightarrow> int" where
  "lower_level l = (if l \<le> 1 then 0 else l - 1)"

text \<open>One step: the active pairs go up; when none of them can, the quiet pairs go down.\<close>

definition level_step ::
  "int \<Rightarrow> pkey set \<Rightarrow> pkey set \<Rightarrow> (pkey \<Rightarrow> int) \<Rightarrow> bool \<times> (pkey \<Rightarrow> int)" where
  "level_step n active quiet lvl =
     (if \<exists>k \<in> active. raise_level n (lvl k) \<noteq> lvl k
      then (True, \<lambda>k. if k \<in> active then raise_level n (lvl k) else lvl k)
      else (\<exists>k \<in> quiet. lvl k \<noteq> 0, \<lambda>k. if k \<in> quiet then lower_level (lvl k) else lvl k))"

definition row_level :: "policy option \<Rightarrow> int" where
  "row_level r = (case r of None \<Rightarrow> 0 | Some p \<Rightarrow> Class p div 10)"

definition level :: "policy list \<Rightarrow> pkey \<Rightarrow> int" where
  "level t k = row_level (policy_map t k)"

text \<open>The database works, and no row's time lies in the future by more than the backoff interval.\<close>

definition healthy :: "config \<Rightarrow> policy list \<Rightarrow> (pkey \<times> visit_env) list \<Rightarrow> bool" where
  "healthy cfg t ms \<longleftrightarrow>
     distinct (map fst ms) \<and>
     (\<forall>(k, e) \<in> set ms. get_ok e \<and> exec_ok e \<and> (\<forall>p \<in> set t. \<not> too_soon cfg e p))"

lemma class_ok_level:
  assumes "class_ok cfg c"
  shows "c = 10 * (c div 10)" and "1 \<le> c div 10" and "c div 10 \<le> max 1 (NumQdiscClasses cfg + 1)"
  using assms by (auto simp: class_ok_def)

lemma raise_level_row:
  assumes "get_ok e" and "exec_ok e" and "\<And>p. r = Some p \<Longrightarrow> \<not> too_soon cfg e p \<and> class_ok cfg (Class p)"
  shows "row_level (op_result policy_row k (raise_op cfg e r) r) = raise_level (NumQdiscClasses cfg) (row_level r)"
    and "raise_reports cfg e r \<longleftrightarrow> raise_level (NumQdiscClasses cfg) (row_level r) \<noteq> row_level r"
  using assms class_ok_level [of cfg "Class (the r)"]
  by (cases r; simp add: raise_op_def raise_reports_def row_level_def raise_level_def; presburger)+

lemma lower_level_row:
  assumes "get_ok e" and "exec_ok e" and "\<And>p. r = Some p \<Longrightarrow> \<not> too_soon cfg e p \<and> class_ok cfg (Class p)"
  shows "row_level (op_result policy_row k (lower_op cfg e r) r) = lower_level (row_level r)"
    and "lower_reports cfg e r \<longleftrightarrow> row_level r \<noteq> 0"
  using assms class_ok_level [of cfg "Class (the r)"]
  by (cases r; simp add: lower_op_def lower_reports_def row_level_def lower_level_def; presburger)+

lemma healthy_visit:
  assumes "table_ok cfg t" and "healthy cfg t ms" and "(k, e) \<in> set ms"
  shows "get_ok e" and "exec_ok e"
    and "policy_map t k = Some p \<Longrightarrow> \<not> too_soon cfg e p \<and> class_ok cfg (Class p)"
  using assms table_ok_class [OF assms(1), of k p] table_map_key [of policy_key t k p]
  by (auto simp: healthy_def)

lemma bex_fst:
  "(\<And>k e. (k, e) \<in> set ms \<Longrightarrow> R e k \<longleftrightarrow> Q k) \<Longrightarrow> (\<exists>(k, e) \<in> set ms. R e k) \<longleftrightarrow> (\<exists>k \<in> fst ` set ms. Q k)"
  by (force simp: split_beta)

lemma healthy_reports:
  assumes "table_ok cfg t" and "healthy cfg t ms"
  shows "(\<exists>(k, e) \<in> set ms. raise_reports cfg e (policy_map t k)) \<longleftrightarrow>
      (\<exists>k \<in> fst ` set ms. raise_level (NumQdiscClasses cfg) (level t k) \<noteq> level t k)"
    and "(\<exists>(k, e) \<in> set ms. lower_reports cfg e (policy_map t k)) \<longleftrightarrow>
      (\<exists>k \<in> fst ` set ms. level t k \<noteq> 0)"
proof -
  note visit = healthy_visit [OF assms]
  show "(\<exists>(k, e) \<in> set ms. raise_reports cfg e (policy_map t k)) \<longleftrightarrow>
      (\<exists>k \<in> fst ` set ms. raise_level (NumQdiscClasses cfg) (level t k) \<noteq> level t k)"
    unfolding level_def by (intro bex_fst raise_level_row(2)) (use visit in blast)+
  show "(\<exists>(k, e) \<in> set ms. lower_reports cfg e (policy_map t k)) \<longleftrightarrow>
      (\<exists>k \<in> fst ` set ms. level t k \<noteq> 0)"
    unfolding level_def by (intro bex_fst lower_level_row(2)) (use visit in blast)+
qed

lemma healthy_levels:
  assumes "table_ok cfg t" and "healthy cfg t ms"
  shows "row_level (loop_result (raise_op cfg) ms t k) =
      (if k \<in> fst ` set ms then raise_level (NumQdiscClasses cfg) (level t k) else level t k)"
    and "row_level (loop_result (lower_op cfg) ms t k) =
      (if k \<in> fst ` set ms then lower_level (level t k) else level t k)"
proof -
  note visit = healthy_visit [OF assms]
  have "row_level (loop_result (raise_op cfg) ms t k) = raise_level (NumQdiscClasses cfg) (level t k) \<and>
      row_level (loop_result (lower_op cfg) ms t k) = lower_level (level t k)"
    if "map_of ms k = Some e" for e
    using that visit [OF map_of_SomeD [OF that]]
    by (simp add: loop_result_def level_def raise_level_row(1) lower_level_row(1))
  moreover have "map_of ms k = None \<longleftrightarrow> k \<notin> fst ` set ms"
    by (rule map_of_eq_None_iff)
  ultimately show "row_level (loop_result (raise_op cfg) ms t k) =
      (if k \<in> fst ` set ms then raise_level (NumQdiscClasses cfg) (level t k) else level t k)"
    and "row_level (loop_result (lower_op cfg) ms t k) =
      (if k \<in> fst ` set ms then lower_level (level t k) else level t k)"
    by (cases "map_of ms k"; simp add: loop_result_def level_def)+
qed

lemma tick_refines_levels_aux:
  assumes "table_ok cfg t" and "healthy cfg t incs" and "healthy cfg t decs"
  shows "level_step (NumQdiscClasses cfg) (fst ` set incs) (fst ` set decs) (level t) =
    (fst (check_policy cfg incs decs t), level (snd (check_policy cfg incs decs t)))"
proof -
  have "distinct (map fst incs)" "distinct (map fst decs)"
    using assms(2,3) by (auto simp: healthy_def)
  note check = check_policy_map [OF table_ok_keys [OF assms(1)] this, of cfg]
  note levels = healthy_levels [OF assms(1)]
  show ?thesis
    by (auto simp: level_step_def check(1) healthy_reports [OF assms(1,2)] healthy_reports [OF assms(1,3)]
        level_def [of "snd (check_policy cfg incs decs t)"] check(2) levels [OF assms(2)] levels [OF assms(3)] fun_eq_iff)
qed

text \<open>C5: While the database works and the backoff guard is open, a tick is one step of the abstract machine
  of levels: it reports what the step reports and changes every pair's level as the step does.\<close>

theorem tick_refines_levels:
  assumes "table_ok cfg t" and "healthy cfg t incs" and "healthy cfg t decs"
  shows "level_step (NumQdiscClasses cfg) (fst ` set incs) (fst ` set decs) (level t) =
    (fst (check_policy cfg incs decs t), level (snd (check_policy cfg incs decs t)))"
  using assms by (rule tick_refines_levels_aux)

theorem tick_refines_levels_witness:
  "level_step 5 {demo_pair} {(''b'', ''g'')} (level (demo_table 30)) =
   (fst (check_policy demo_cfg [(demo_pair, demo_env)] [((''b'', ''g''), demo_env)] (demo_table 30)),
    level (snd (check_policy demo_cfg [(demo_pair, demo_env)] [((''b'', ''g''), demo_env)] (demo_table 30))))"
proof -
  have "table_ok demo_cfg (demo_table 30)" "healthy demo_cfg (demo_table 30) [(demo_pair, demo_env)]"
    "healthy demo_cfg (demo_table 30) [((''b'', ''g''), demo_env)]"
    by code_simp+
  from tick_refines_levels [OF this] show ?thesis by (simp add: demo_cfg_def baseConfig_def)
qed

section \<open>How long it takes\<close>

text \<open>Ticks one after the other, each with its enumerations.\<close>

type_synonym tick_visits = "(pkey \<times> visit_env) list \<times> (pkey \<times> visit_env) list"

fun run_ticks :: "config \<Rightarrow> tick_visits list \<Rightarrow> policy list \<Rightarrow> policy list" where
  "run_ticks cfg [] t = t"
| "run_ticks cfg ((incs, decs) # vs) t = run_ticks cfg vs (snd (check_policy cfg incs decs t))"

fun healthy_run :: "config \<Rightarrow> tick_visits list \<Rightarrow> policy list \<Rightarrow> bool" where
  "healthy_run cfg [] t \<longleftrightarrow> True"
| "healthy_run cfg ((incs, decs) # vs) t \<longleftrightarrow>
     healthy cfg t incs \<and> healthy cfg t decs \<and> healthy_run cfg vs (snd (check_policy cfg incs decs t))"

lemma table_ok_check:
  assumes "table_ok cfg t" and "distinct (map fst incs)" and "distinct (map fst decs)"
  shows "table_ok cfg (snd (check_policy cfg incs decs t))"
  using table_ok_loops(1) [OF assms(1,2)] table_ok_loops(2) [OF table_ok_loops(1) [OF assms(1,2)] assms(3)]
  by (simp add: check_policy_def Let_def case_prod_beta)

lemma healthy_step:
  assumes "table_ok cfg t" and "healthy cfg t incs" and "healthy cfg t decs"
  shows "table_ok cfg (snd (check_policy cfg incs decs t))"
    and "level (snd (check_policy cfg incs decs t)) =
      snd (level_step (NumQdiscClasses cfg) (fst ` set incs) (fst ` set decs) (level t))"
    and "fst (check_policy cfg incs decs t) =
      fst (level_step (NumQdiscClasses cfg) (fst ` set incs) (fst ` set decs) (level t))"
  using tick_refines_levels_aux [OF assms] table_ok_check [OF assms(1)] assms(2,3)
  by (simp_all add: healthy_def)

lemma level_bounds:
  assumes "table_ok cfg t" and "0 \<le> NumQdiscClasses cfg"
  shows "0 \<le> level t k" and "level t k \<le> NumQdiscClasses cfg + 1"
  using assms(2) table_ok_class [OF assms(1), of k] class_ok_level [of cfg "Class (the (policy_map t k))"]
  by (cases "policy_map t k"; force simp: level_def row_level_def)+

lemma escalates:
  assumes "table_ok cfg t" and "0 \<le> NumQdiscClasses cfg" and "healthy_run cfg vs t"
    and "\<forall>(incs, decs) \<in> set vs. k \<in> fst ` set incs \<and> k \<notin> fst ` set decs"
  shows "level (run_ticks cfg vs t) k = min (NumQdiscClasses cfg + 1) (level t k + int (length vs))"
  using assms
proof (induction vs arbitrary: t)
  case Nil
  then show ?case using level_bounds [of cfg t k] by simp
next
  case (Cons v vs)
  obtain incs decs where v: "v = (incs, decs)" by (cases v)
  have h: "healthy cfg t incs" "healthy cfg t decs"
    and run: "healthy_run cfg vs (snd (check_policy cfg incs decs t))"
    and k: "k \<in> fst ` set incs" "k \<notin> fst ` set decs"
    using Cons.prems by (auto simp: v)
  note step = healthy_step [OF Cons.prems(1) h]
  have "level (snd (check_policy cfg incs decs t)) k = raise_level (NumQdiscClasses cfg) (level t k)"
    using k by (auto simp: step(2) level_step_def)
  with Cons.IH [OF step(1) Cons.prems(2) run] Cons.prems(4) level_bounds [OF Cons.prems(1,2), of k]
  show ?case by (auto simp: v raise_level_def)
qed

lemma table_ok_run_ticks:
  "table_ok cfg t \<Longrightarrow> healthy_run cfg vs t \<Longrightarrow> table_ok cfg (run_ticks cfg vs t)"
  by (induction vs arbitrary: t) (auto dest: healthy_step(1))

text \<open>C19: A pair that is active at every tick is one level stronger after each tick, up to the strongest
  level, which it keeps: as many ticks as there are classes and one more are enough.\<close>

theorem active_pair_escalates:
  assumes "table_ok cfg t" and "0 \<le> NumQdiscClasses cfg" and "healthy_run cfg vs t"
    and "\<forall>(incs, decs) \<in> set vs. k \<in> fst ` set incs \<and> k \<notin> fst ` set decs"
  shows "level (run_ticks cfg vs t) k = min (NumQdiscClasses cfg + 1) (level t k + int (length vs))"
  using assms by (rule escalates)

theorem active_pair_escalates_witness:
  "level (run_ticks demo_cfg (replicate 7 ([(demo_pair, demo_env)], [])) []) demo_pair = 6"
proof -
  have "table_ok demo_cfg []" "0 \<le> NumQdiscClasses demo_cfg"
    "healthy_run demo_cfg (replicate 7 ([(demo_pair, demo_env)], [])) []" "level [] demo_pair = 0"
    by code_simp+
  from active_pair_escalates [OF this(1-3), of demo_pair] this(4) show ?thesis
    by (simp add: demo_cfg_def baseConfig_def)
qed

text \<open>C20: A pair that is quiet at every tick loses one level at each tick in which no pair is active, and
  has no policy after as many ticks as it had levels.\<close>

theorem quiet_pair_recovers:
  assumes "table_ok cfg t" and "0 \<le> NumQdiscClasses cfg" and "healthy_run cfg vs t"
    and "\<forall>(incs, decs) \<in> set vs. incs = [] \<and> k \<in> fst ` set decs"
  shows "level (run_ticks cfg vs t) k = max 0 (level t k - int (length vs))"
  using assms
proof (induction vs arbitrary: t)
  case Nil
  then show ?case using level_bounds [of cfg t k] by simp
next
  case (Cons v vs)
  obtain decs where v: "v = ([], decs)" using Cons.prems(4) by (cases v) auto
  have h: "healthy cfg t []" "healthy cfg t decs"
    and run: "healthy_run cfg vs (snd (check_policy cfg [] decs t))" and k: "k \<in> fst ` set decs"
    using Cons.prems by (auto simp: v)
  note step = healthy_step [OF Cons.prems(1) h]
  have "level (snd (check_policy cfg [] decs t)) k = lower_level (level t k)"
    using k by (simp add: step(2) level_step_def)
  with Cons.IH [OF step(1) Cons.prems(2) run] Cons.prems(4) level_bounds [OF Cons.prems(1,2), of k]
  show ?case by (auto simp: v lower_level_def)
qed

theorem quiet_pair_recovers_witness:
  "level (run_ticks demo_cfg (replicate 3 ([], [(demo_pair, demo_env)])) (demo_table 30)) demo_pair = 0"
proof -
  have "table_ok demo_cfg (demo_table 30)" "0 \<le> NumQdiscClasses demo_cfg"
    "healthy_run demo_cfg (replicate 3 ([], [(demo_pair, demo_env)])) (demo_table 30)"
    "level (demo_table 30) demo_pair = 3"
    by code_simp+
  from quiet_pair_recovers [OF this(1-3), of demo_pair] this(4) show ?thesis by simp
qed

text \<open>One pair that can still be raised keeps every other pair's level: the tick does not look at the
  quiet pairs.\<close>

theorem raising_defers_recovery:
  assumes "table_ok cfg t" and "healthy cfg t incs" and "healthy cfg t decs"
    and "k \<in> fst ` set incs" and "level t k \<le> NumQdiscClasses cfg" and "k' \<notin> fst ` set incs"
  shows "fst (check_policy cfg incs decs t) \<and> level (snd (check_policy cfg incs decs t)) k' = level t k'"
proof -
  have "raise_level (NumQdiscClasses cfg) (level t k) \<noteq> level t k"
    using assms(5) by (simp add: raise_level_def)
  then have "\<exists>k \<in> fst ` set incs. raise_level (NumQdiscClasses cfg) (level t k) \<noteq> level t k"
    using assms(4) by blast
  with healthy_step(2,3) [OF assms(1-3)] assms(6) show ?thesis
    by (simp only: level_step_def if_True fst_conv snd_conv if_False simp_thms)
qed

theorem raising_defers_recovery_witness:
  "fst (check_policy demo_cfg [(demo_pair, demo_env)] [((''b'', ''g''), demo_env)]
     (demo_table 10 @ [policy_row (''b'', ''g'') 30 0])) \<and>
   level (snd (check_policy demo_cfg [(demo_pair, demo_env)] [((''b'', ''g''), demo_env)]
     (demo_table 10 @ [policy_row (''b'', ''g'') 30 0]))) (''b'', ''g'') =
   level (demo_table 10 @ [policy_row (''b'', ''g'') 30 0]) (''b'', ''g'')"
  by (rule raising_defers_recovery [where k = demo_pair]) code_simp+

section \<open>The backoff interval\<close>

text \<open>
  The source says the interval is how long to wait before another change of a policy. The guard
  compares the time of the last change with a time in the future, so it holds for no row whose
  time is in the past: the interval changes nothing.
\<close>

lemma not_too_soon:
  "Tstamp p * time_Second \<le> go_now e \<Longrightarrow> 0 \<le> PolicyBackoffInterval cfg \<Longrightarrow> \<not> too_soon cfg e p"
  by (simp add: too_soon_def)

lemma loops_cfg_cong:
  assumes "policies_ok t" and "distinct (map fst ms)" and "NumQdiscClasses cfg = NumQdiscClasses cfg'"
    and "\<And>k e p. (k, e) \<in> set ms \<Longrightarrow> p \<in> set t \<Longrightarrow> too_soon cfg e p = too_soon cfg' e p"
  shows "increase_loop cfg ms t = increase_loop cfg' ms t"
    and "decrease_loop cfg ms t = decrease_loop cfg' ms t"
proof -
  have "raise_op cfg e (policy_map t k) = raise_op cfg' e (policy_map t k) \<and>
      raise_reports cfg e (policy_map t k) = raise_reports cfg' e (policy_map t k) \<and>
      lower_op cfg e (policy_map t k) = lower_op cfg' e (policy_map t k) \<and>
      lower_reports cfg e (policy_map t k) = lower_reports cfg' e (policy_map t k)"
    if "(k, e) \<in> set ms" for k e
  proof (cases "policy_map t k")
    case (Some p)
    with assms(3) assms(4) [OF that, of p] table_map_key [of policy_key t k p] show ?thesis
      by (simp add: raise_op_def raise_reports_def lower_op_def lower_reports_def)
  qed (simp add: raise_op_def raise_reports_def lower_op_def lower_reports_def)
  then show "increase_loop cfg ms t = increase_loop cfg' ms t"
    and "decrease_loop cfg ms t = decrease_loop cfg' ms t"
    unfolding increase_loop_with decrease_loop_with using assms(1,2)
    by (intro loop_with_cong; blast)+
qed

text \<open>C35: When no row's time is in the future, two configurations that differ only in the backoff interval
  make the same tick, as long as neither interval is negative: a policy can be raised again at the
  next tick. (A negative interval would keep recently changed rows from being changed.)\<close>

theorem backoff_has_no_effect:
  assumes "policies_ok t" and "distinct (map fst incs)" and "distinct (map fst decs)"
    and "\<forall>(k, e) \<in> set incs \<union> set decs. \<forall>p \<in> set t. Tstamp p * time_Second \<le> go_now e"
    and "0 \<le> PolicyBackoffInterval cfg" and "0 \<le> interval"
  shows "check_policy cfg incs decs t = check_policy (cfg\<lparr>PolicyBackoffInterval := interval\<rparr>) incs decs t"
proof -
  let ?cfg = "cfg\<lparr>PolicyBackoffInterval := interval\<rparr>"
  have same: "too_soon cfg e p = too_soon ?cfg e p" if "(k, e) \<in> set incs \<union> set decs" "p \<in> set t" for k e p
    using that assms(4-6) not_too_soon [of p e cfg] not_too_soon [of p e ?cfg] by fastforce
  have "increase_loop cfg incs t = increase_loop ?cfg incs t"
    by (rule loops_cfg_cong [OF assms(1,2)]) (use same in auto)
  moreover have "decrease_loop cfg decs t = decrease_loop ?cfg decs t"
    by (rule loops_cfg_cong [OF assms(1,3)]) (use same in auto)
  moreover have "check_policy c incs decs t =
      (if fst (increase_loop c incs t) then increase_loop c incs t else decrease_loop c decs t)" for c
    using silent_loops(1) [of c incs t] by (auto simp: check_policy_def Let_def case_prod_beta prod_eq_iff)
  ultimately show ?thesis by simp
qed

theorem backoff_has_no_effect_witness:
  "check_policy demo_cfg [(demo_pair, demo_env)] [] (demo_table 20) =
   check_policy (demo_cfg\<lparr>PolicyBackoffInterval := 1000 * time_Minute\<rparr>) [(demo_pair, demo_env)] [] (demo_table 20)"
proof (rule backoff_has_no_effect)
  show "policies_ok (demo_table 20)" by code_simp
qed (simp_all add: demo_table_def demo_env_def policy_row_def demo_cfg_def baseConfig_def time_Minute_def time_Second_def)

section \<open>A read that fails\<close>

text \<open>\<open>GetPolicy\<close> gives the same answer for a row that is missing and for a read that failed. A pair
  whose read fails while it is active gets the first class, whatever class it had.\<close>

theorem failed_read_restarts:
  assumes "policies_ok t" and "distinct (map fst incs)" and "distinct (map fst decs)"
    and "(k, e) \<in> set incs" and "\<not> get_ok e" and "exec_ok e"
  shows "fst (check_policy cfg incs decs t) \<and>
    policy_map (snd (check_policy cfg incs decs t)) k = Some (policy_row k 10 (sql_now e))"
proof -
  have "raise_reports cfg e (policy_map t k)" "raise_op cfg e (policy_map t k) = Put 10 (sql_now e)"
    using assms(5,6) by (simp_all add: raise_reports_def raise_op_def)
  moreover have "map_of incs k = Some e" using assms(2,4) by simp
  ultimately show ?thesis
    using assms(4) by (auto simp: check_policy_map [OF assms(1-3)] loop_result_def)
qed

theorem failed_read_restarts_witness:
  "fst (check_policy demo_cfg [(demo_pair, demo_env\<lparr>get_ok := False\<rparr>)] [] (demo_table 60)) \<and>
   policy_map (snd (check_policy demo_cfg [(demo_pair, demo_env\<lparr>get_ok := False\<rparr>)] [] (demo_table 60))) demo_pair =
     Some (policy_row demo_pair 10 1700000000)"
  using failed_read_restarts [of "demo_table 60" "[(demo_pair, demo_env\<lparr>get_ok := False\<rparr>)]" "[]"
      demo_pair "demo_env\<lparr>get_ok := False\<rparr>" demo_cfg]
  by (simp add: demo_table_def keys_ok_def demo_env_def)

end
