(* ===== verification/DnsCache.thy ===== *)
theory DnsCache
  imports Store
begin

text \<open>
  The DNS cache: \<open>pollDnsResponses\<close> of \<open>handlers/bpf.go\<close> decodes each event of the sniffer and
  stores its A records with \<open>AddDns\<close>; \<open>GetDomainForIP\<close> and \<open>GetIPsMatchingGlob\<close> of
  \<open>database/dns.go\<close> read them. The decoder \<open>dns.Msg.Unpack\<close> is third-party code and an argument: it
  gives the answers it decoded, and whether it failed (the code goes on after a failure, with
  the answers decoded until then).
\<close>

section \<open>Storing the answers of a message\<close>

text \<open>\<open>dns.RR\<close>, of which only \<open>*dns.A\<close> matters here.\<close>

datatype dns_rr = RR_A string "u8 list" | RR_other

text \<open>One answer, with whether the statement executes and the time it executes at.\<close>

fun store_answer :: "dns_row list \<Rightarrow> dns_rr \<times> bool \<times> int \<Rightarrow> dns_row list" where
  "store_answer t (RR_A name a, ok, now) = fst (AddDns ok now name a t)"
| "store_answer t (RR_other, ok, now) = t"

definition handle_event ::
  "(u8 list \<Rightarrow> dns_rr list \<times> bool) \<Rightarrow> u8 list \<Rightarrow> (bool \<times> int) list \<Rightarrow> dns_row list \<Rightarrow> dns_row list" where
  "handle_event unpack sample env t = foldl store_answer t (zip (fst (unpack sample)) env)"

section \<open>The table the sniffer makes\<close>

text \<open>The rows have different keys, and their addresses are texts of four octets.\<close>

definition dns_ok :: "dns_row list \<Rightarrow> bool" where
  "dns_ok t \<longleftrightarrow> keys_ok dns_key t \<and>
     (\<forall>r \<in> set t. saddr r = ''0.0.0.0'' \<and> (\<exists>a. length a = 4 \<and> daddr r = ip_string a))"

definition dns_row_of :: "string \<Rightarrow> u8 list \<Rightarrow> int \<Rightarrow> dns_row" where
  "dns_row_of name a now = \<lparr>saddr = ''0.0.0.0'', daddr = ip_string a, domain = name, dns_tstamp = now\<rparr>"

lemma dns_row_of_simps [simp]:
  "saddr (dns_row_of name a now) = ''0.0.0.0''" "daddr (dns_row_of name a now) = ip_string a"
  "domain (dns_row_of name a now) = name" "dns_tstamp (dns_row_of name a now) = now"
  by (simp_all add: dns_row_of_def)

lemma dns_key_row: "dns_key (dns_row_of name a now) = (''0.0.0.0'', ip_string a, name)"
  by (simp add: dns_key_def)

lemma AddDns_eq: "fst (AddDns True now name a t) = upsert dns_key set_dns (dns_row_of name a now) t"
  by (simp add: AddDns_def dns_row_of_def)

lemma AddDns_fails [simp]: "fst (AddDns False now name a t) = t"
  by (simp add: AddDns_def)

definition valid_rr :: "dns_rr \<Rightarrow> bool" where
  "valid_rr rr \<longleftrightarrow> (case rr of RR_A name a \<Rightarrow> length a = 4 | RR_other \<Rightarrow> True)"

lemma dns_ok_store_answer:
  "dns_ok t \<Longrightarrow> valid_rr (fst x) \<Longrightarrow> dns_ok (store_answer t x)"
proof -
  assume ok: "dns_ok t" "valid_rr (fst x)"
  obtain rr e now where x: "x = (rr, e, now)" by (cases x)
  show ?thesis
  proof (cases rr)
    case (RR_A name a)
    then show ?thesis
      using ok dns_table.keys_ok_upsert [of t]
      by (cases e) (auto simp: dns_ok_def AddDns_eq valid_rr_def x dest!: subsetD [OF dns_table.set_upsert])
  qed (use ok x in simp)
qed

lemma dns_ok_store_answers:
  "dns_ok t \<Longrightarrow> (\<forall>x \<in> set xs. valid_rr (fst x)) \<Longrightarrow> dns_ok (foldl store_answer t xs)"
  by (induction xs arbitrary: t) (simp_all add: dns_ok_store_answer)

lemma keys_ok_store_answers: "keys_ok dns_key t \<Longrightarrow> keys_ok dns_key (foldl store_answer t xs)"
proof (induction xs arbitrary: t)
  case (Cons x xs)
  obtain rr ok now where x: "x = (rr, ok, now)" by (cases x)
  have "keys_ok dns_key (store_answer t x)"
    using Cons.prems by (cases rr; cases ok) (simp_all add: x AddDns_eq dns_table.keys_ok_upsert)
  with Cons.IH show ?case by simp
qed simp

lemma dns_rows_store_answer:
  "r \<in> set (store_answer t (rr, ok, now)) \<Longrightarrow>
   r \<in> set t \<or> (\<exists>name a. rr = RR_A name a \<and> ok \<and> r = dns_row_of name a now)"
  using dns_table.set_upsert
  by (cases rr; cases ok) (auto simp: AddDns_eq)

lemma dns_rows_store_answers:
  "r \<in> set (foldl store_answer t xs) \<Longrightarrow>
   r \<in> set t \<or> (\<exists>name a now. (RR_A name a, True, now) \<in> set xs \<and> r = dns_row_of name a now)"
proof (induction xs arbitrary: t)
  case (Cons x xs)
  obtain rr ok now where x: "x = (rr, ok, now)" by (cases x)
  from Cons.prems Cons.IH [of "store_answer t x"] dns_rows_store_answer [of r t rr ok now] show ?case
    by (auto simp: x)
qed simp

text \<open>A key has a row with a property in the end when an answer wrote it, all rows written having the
  property, or the row it had before has it.\<close>

lemma dns_key_store_answer:
  "table_map dns_key (store_answer t (rr, ok, now)) k =
   (case rr of RR_A name a \<Rightarrow>
      if ok \<and> k = (''0.0.0.0'', ip_string a, name) then Some (dns_row_of name a now)
      else table_map dns_key t k
    | RR_other \<Rightarrow> table_map dns_key t k)"
  by (cases rr; cases ok) (auto simp: AddDns_eq dns_table.table_map_upsert dns_key_row)

definition writes_key :: "(dns_rr \<times> bool \<times> int) list \<Rightarrow> string \<times> string \<times> string \<Rightarrow> bool" where
  "writes_key xs k \<longleftrightarrow>
     (\<exists>name a now. (RR_A name a, True, now) \<in> set xs \<and> k = (''0.0.0.0'', ip_string a, name))"

lemma writes_key_Cons:
  "writes_key ((rr, ok, now) # xs) k \<longleftrightarrow>
   (\<exists>name a. rr = RR_A name a \<and> ok \<and> k = (''0.0.0.0'', ip_string a, name)) \<or> writes_key xs k"
  by (simp add: writes_key_def) blast

lemma dns_key_store_answers:
  assumes "\<And>name a now. (RR_A name a, True, now) \<in> set xs \<Longrightarrow> P (dns_row_of name a now)"
  shows "(\<exists>r. table_map dns_key (foldl store_answer t xs) k = Some r \<and> P r) \<longleftrightarrow>
    writes_key xs k \<or> (\<exists>r. table_map dns_key t k = Some r \<and> P r)"
  using assms
proof (induction xs arbitrary: t)
  case Nil
  then show ?case by (simp add: writes_key_def)
next
  case (Cons x xs)
  obtain rr ok now' where x: "x = (rr, ok, now')" by (cases x)
  have "writes_key (x # xs) k \<or> (\<exists>r. table_map dns_key t k = Some r \<and> P r) \<longleftrightarrow>
      writes_key xs k \<or> (\<exists>r. table_map dns_key (store_answer t x) k = Some r \<and> P r)"
    using Cons.prems by (auto simp: x writes_key_Cons dns_key_store_answer split: dns_rr.split)
  with Cons.prems Cons.IH [of "store_answer t x"] show ?case by simp
qed

section \<open>Answers are found again\<close>

lemma recent_row_from:
  "lo \<le> dns_tstamp r \<Longrightarrow> dns_tstamp r \<le> now \<Longrightarrow> now \<le> lo + 5 * 86400 \<Longrightarrow> recent_row now r"
  by (simp add: recent_row_def day_of_def) linarith

text \<open>The addresses found are those of the keys that match and have a recent row.\<close>

lemma ips_keys:
  assumes "keys_ok dns_key t"
  shows "set (the (GetIPsMatchingGlob True glob now g t)) =
    {fst (snd k) |k. glob (Glob g) (snd (snd k)) \<and> (\<exists>r. table_map dns_key t k = Some r \<and> recent_row now r)}"
proof (intro set_eqI iffI)
  fix ip
  assume "ip \<in> set (the (GetIPsMatchingGlob True glob now g t))"
  then obtain r where "r \<in> set t" "glob (Glob g) (domain r)" "recent_row now r" "ip = daddr r"
    by (auto simp: GetIPsMatchingGlob_def)
  with assms show "ip \<in> {fst (snd k) |k. glob (Glob g) (snd (snd k)) \<and>
      (\<exists>r. table_map dns_key t k = Some r \<and> recent_row now r)}"
    by (intro CollectI exI [of _ "dns_key r"]) (auto simp: dns_key_def dest: table_map_mem)
next
  fix ip
  assume "ip \<in> {fst (snd k) |k. glob (Glob g) (snd (snd k)) \<and>
      (\<exists>r. table_map dns_key t k = Some r \<and> recent_row now r)}"
  then obtain r where "r \<in> set t" "glob (Glob g) (domain r)" "recent_row now r" "ip = daddr r"
    by (auto simp: dns_key_def dest!: table_map_key)
  then show "ip \<in> set (the (GetIPsMatchingGlob True glob now g t))"
    by (auto simp: GetIPsMatchingGlob_def)
qed

definition answered :: "dns_rr list \<Rightarrow> (string \<Rightarrow> bool) \<Rightarrow> string set" where
  "answered rrs match = {ip. \<exists>name a. RR_A name a \<in> set rrs \<and> match name \<and> ip = ip_string a}"

lemma answered_keys:
  assumes "length env = length rrs" and "\<forall>(ok, at) \<in> set env. ok"
  shows "answered rrs match = {fst (snd k) |k. match (snd (snd k)) \<and> writes_key (zip rrs env) k}"
proof -
  have "rr \<in> set rrs \<longleftrightarrow> (\<exists>at. (rr, True, at) \<in> set (zip rrs env))" for rr
  proof
    assume "rr \<in> set rrs"
    then obtain i where i: "i < length env" "rrs ! i = rr" using assms(1) by (auto simp: in_set_conv_nth)
    then have "env ! i = (True, snd (env ! i))" using assms(2) by (cases "env ! i") (auto dest!: nth_mem)
    with i assms(1) show "\<exists>at. (rr, True, at) \<in> set (zip rrs env)" by (auto simp: in_set_zip)
  qed (auto dest: set_zip_leftD)
  then show ?thesis by (auto simp: answered_def writes_key_def)
qed


text \<open>After an event whose answers were all stored between two times, every address of its A records
  is among the addresses of every glob group whose pattern matches the name of the record, at
  any later time within five days; the other addresses of the group are those it had before.\<close>

theorem dns_answers_found:
  assumes "keys_ok dns_key t" and "length env = length (fst (unpack sample))"
    and "\<forall>(ok, at) \<in> set env. ok \<and> lo \<le> at \<and> at \<le> now" and "now \<le> lo + 5 * 86400"
  shows "set (the (GetIPsMatchingGlob True glob now g (handle_event unpack sample env t))) =
    answered (fst (unpack sample)) (glob (Glob g)) \<union> set (the (GetIPsMatchingGlob True glob now g t))"
proof -
  let ?xs = "zip (fst (unpack sample)) env"
  have "keys_ok dns_key (handle_event unpack sample env t)"
    unfolding handle_event_def by (rule keys_ok_store_answers [OF assms(1)])
  moreover have "recent_row now (dns_row_of name a at)" if "(RR_A name a, True, at) \<in> set ?xs" for name a at
    using that assms(3,4) by (intro recent_row_from [of lo]) (auto dest: set_zip_rightD)
  moreover have "\<forall>(ok, at) \<in> set env. ok" using assms(3) by auto
  ultimately show ?thesis
    using dns_key_store_answers [of ?xs "recent_row now"]
    by (auto simp: ips_keys assms(1) answered_keys [OF assms(2)] handle_event_def)
qed

theorem dns_answers_found_witness:
  "set (the (GetIPsMatchingGlob True (\<lambda>p d. p = d) 1000 \<lparr>Name = ''g'', Description = [], Glob = ''a.b.'', Device = []\<rparr>
     (handle_event (\<lambda>s. ([RR_A ''a.b.'' [1, 2, 3, 4], RR_other], False)) [] [(True, 900), (True, 901)] []))) =
   {''1.2.3.4''}"
proof -
  have "ip_string [1, 2, 3, 4] = ''1.2.3.4''" by code_simp
  then show ?thesis
    by (subst dns_answers_found [where lo = 900])
      (auto simp: keys_ok_def answered_def GetIPsMatchingGlob_def)
qed

text \<open>After an A record is stored, the name shown and exported for its address is the name of the
  record, when the rows the address has are older and the engine chooses among its newest rows.\<close>

theorem domain_of_new_answer:
  assumes "\<forall>xs. xs \<noteq> [] \<longrightarrow> pick xs \<in> set xs" and "keys_ok dns_key t"
    and "\<forall>r \<in> set t. daddr r = ip_string a \<longrightarrow> dns_tstamp r < now"
  shows "GetDomainForIP True pick (ip_string a) (fst (AddDns True now name a t)) = name"
proof -
  let ?t = "fst (AddDns True now name a t)" and ?r = "dns_row_of name a now"
  let ?rs = "filter (\<lambda>r. daddr r = ip_string a) ?t"
  have "table_map dns_key ?t (dns_key ?r) = Some ?r"
    by (simp add: AddDns_eq dns_table.table_map_upsert)
  then have mem: "?r \<in> set ?rs" by (auto dest: table_map_key)
  have old: "r = ?r \<or> dns_tstamp r < now" if "r \<in> set ?rs" for r
    using that assms(3) by (auto simp: AddDns_eq dest!: subsetD [OF dns_table.set_upsert])
  have "newest ?rs \<noteq> []" using mem old by (force simp: newest_def filter_empty_conv)
  then have "pick (newest ?rs) \<in> set (newest ?rs)" using assms(1) by blast
  moreover have "r = ?r" if "r \<in> set (newest ?rs)" for r
    using that mem old by (fastforce simp: newest_def)
  ultimately have "pick (newest ?rs) = ?r" by blast
  moreover have "?rs \<noteq> []" using mem by fastforce
  ultimately show ?thesis by (simp add: GetDomainForIP_def Let_def del: filter_empty_conv)
qed

theorem domain_of_new_answer_witness:
  "GetDomainForIP True hd ''1.2.3.4''
     (fst (AddDns True 7 ''new.'' [1, 2, 3, 4] (fst (AddDns True 5 ''old.'' [1, 2, 3, 4] [])))) = ''new.''"
proof -
  have ip: "ip_string [1, 2, 3, 4] = ''1.2.3.4''" by code_simp
  show ?thesis
    unfolding ip [symmetric]
    by (rule domain_of_new_answer) (simp_all add: AddDns_def keys_ok_def)
qed

end
