(* ===== verification/IpPolicies.thy ===== *)
theory IpPolicies
  imports PolicyLevels DnsCache Throttle
begin

text \<open>
  From the policy table to the throttler: \<open>GetIpPolicies\<close> of \<open>database/database.go\<close> makes one IP
  policy per remote address of a policy's glob group, \<open>applyPolicies\<close> of
  \<open>policy/simpleloadavg.go\<close> joins those of all policies, and \<open>ApplyPolicies\<close> of
  \<open>handlers/bpf.go\<close> renders and compiles them.
\<close>

section \<open>The policies of the addresses\<close>

definition GetIpPolicies ::
  "bool \<Rightarrow> bool \<Rightarrow> (string \<Rightarrow> string \<Rightarrow> bool) \<Rightarrow> int \<Rightarrow> glob_group list \<Rightarrow> dns_row list \<Rightarrow> policy \<Rightarrow>
   ip_policy list option" where
  "GetIpPolicies glob_ok ips_ok glob now globs dns p =
     (case GetGlob glob_ok (GlobGroup p) globs of
        None \<Rightarrow> None
      | Some gg \<Rightarrow>
          (case GetIPsMatchingGlob ips_ok glob now gg dns of
             None \<Rightarrow> None
           | Some ipstr \<Rightarrow>
               Some (map (\<lambda>ip. \<lparr>SrcIpAddr = replace_all CHR ''.'' CHR '','' (SrcIp p),
                                DestIpAddr = replace_all CHR ''.'' CHR '','' ip,
                                ClassId = Class p\<rparr>) ipstr)))"

text \<open>How applying the policies ends: the rules of the attached program, a dereference of a nil
  pointer (the process panics), or a compiler that fails (the process exits).\<close>

datatype apply_error = NilDereference | CompilerFails

text \<open>The loop over the policies; each call of \<open>GetIpPolicies\<close> has its own database answers.\<close>

type_synonym db_answers = "bool \<times> bool \<times> int"

fun all_ip_policies ::
  "(string \<Rightarrow> string \<Rightarrow> bool) \<Rightarrow> glob_group list \<Rightarrow> dns_row list \<Rightarrow> (policy \<times> db_answers) list \<Rightarrow>
   apply_error + ip_policy list" where
  "all_ip_policies glob globs dns [] = Inr []"
| "all_ip_policies glob globs dns ((p, glob_ok, ips_ok, now) # ps) =
     (case GetIpPolicies glob_ok ips_ok glob now globs dns p of
        None \<Rightarrow> Inl NilDereference
      | Some ips \<Rightarrow>
          (case all_ip_policies glob globs dns ps of
             Inl e \<Rightarrow> Inl e
           | Inr rest \<Rightarrow> Inr (ips @ rest)))"

text \<open>\<open>applyPolicies\<close>, and with it the rules that the rendered template is compiled to.\<close>

definition applyPolicies ::
  "bool \<Rightarrow> (string \<Rightarrow> string \<Rightarrow> bool) \<Rightarrow> glob_group list \<Rightarrow> dns_row list \<Rightarrow> db_answers list \<Rightarrow> policy list \<Rightarrow>
   apply_error + rule list" where
  "applyPolicies ok glob globs dns env t =
     (case GetAllPolicies ok t of
        None \<Rightarrow> Inl NilDereference
      | Some policies \<Rightarrow>
          (case all_ip_policies glob globs dns (zip policies env) of
             Inl e \<Rightarrow> Inl e
           | Inr ips \<Rightarrow>
               (case compile_rules ips of None \<Rightarrow> Inl CompilerFails | Some rules \<Rightarrow> Inr rules)))"

section \<open>When it panics\<close>

definition answerable :: "glob_group list \<Rightarrow> policy \<times> db_answers \<Rightarrow> bool" where
  "answerable globs x \<longleftrightarrow>
     (case x of (p, glob_ok, ips_ok, now) \<Rightarrow> glob_ok \<and> ips_ok \<and> GlobGroup p \<in> Name ` set globs)"

definition ip_policies_of ::
  "(string \<Rightarrow> string \<Rightarrow> bool) \<Rightarrow> glob_group list \<Rightarrow> dns_row list \<Rightarrow> policy \<times> db_answers \<Rightarrow> ip_policy list" where
  "ip_policies_of glob globs dns x =
     (case x of (p, _, _, now) \<Rightarrow> the (GetIpPolicies True True glob now globs dns p))"

lemma GetGlob_None: "GetGlob True name globs = None \<longleftrightarrow> name \<notin> Name ` set globs"
  by (auto simp: GetGlob_def find_None_iff)

lemma GetIpPolicies_cases:
  "GetIpPolicies glob_ok ips_ok glob now globs dns p =
   (if answerable globs (p, glob_ok, ips_ok, now)
    then Some (ip_policies_of glob globs dns (p, glob_ok, ips_ok, now)) else None)"
proof (cases "glob_ok \<and> GlobGroup p \<in> Name ` set globs")
  case True
  then obtain gg where "GetGlob True (GlobGroup p) globs = Some gg" using GetGlob_None by blast
  with True show ?thesis
    by (simp add: GetIpPolicies_def ip_policies_of_def answerable_def GetIPsMatchingGlob_def)
next
  case False
  then have "GetGlob glob_ok (GlobGroup p) globs = None"
    using GetGlob_None by (auto simp: GetGlob_def)
  with False show ?thesis by (auto simp: GetIpPolicies_def answerable_def)
qed

lemma all_ip_policies_eq:
  "all_ip_policies glob globs dns ps =
   (if \<forall>x \<in> set ps. answerable globs x then Inr (concat (map (ip_policies_of glob globs dns) ps))
    else Inl NilDereference)"
  by (induction glob globs dns ps rule: all_ip_policies.induct) (auto simp: GetIpPolicies_cases)

text \<open>C34: While the database answers, applying the policies panics exactly when a policy names a glob group
  that is not in the table: the code dereferences what \<open>GetIpPolicies\<close> returns without a test.\<close>

theorem apply_panics_iff:
  assumes "length env = length t" and "\<forall>(glob_ok, ips_ok, now) \<in> set env. glob_ok \<and> ips_ok"
  shows "applyPolicies True glob globs dns env t = Inl NilDereference \<longleftrightarrow>
    (\<exists>p \<in> set t. GlobGroup p \<notin> Name ` set globs)"
proof -
  have "(\<forall>x \<in> set (zip t env). answerable globs x) \<longleftrightarrow> (\<forall>p \<in> set t. GlobGroup p \<in> Name ` set globs)"
    (is "?L \<longleftrightarrow> ?R")
  proof
    assume ?L
    show ?R
    proof
      fix p
      assume "p \<in> set t"
      then obtain i where "i < length t" "p = t ! i" by (auto simp: in_set_conv_nth)
      with assms(1) have "(p, env ! i) \<in> set (zip t env)" by (auto simp: in_set_zip)
      with \<open>?L\<close> have "answerable globs (p, env ! i)" by blast
      then show "GlobGroup p \<in> Name ` set globs" by (cases "env ! i") (simp add: answerable_def)
    qed
  next
    assume ?R
    show ?L
    proof
      fix x
      assume x: "x \<in> set (zip t env)"
      obtain p e where "x = (p, e)" by (cases x)
      with x \<open>?R\<close> assms(2) show "answerable globs x"
        by (auto simp: answerable_def dest: set_zip_leftD set_zip_rightD)
    qed
  qed
  then show ?thesis
    by (simp add: applyPolicies_def GetAllPolicies_def all_ip_policies_eq split: option.split)
qed

theorem apply_panics_iff_witness:
  "applyPolicies True (=) [] [] [(True, True, 0)] [policy_row (''10.0.0.1'', ''video'') 10 0] = Inl NilDereference"
  by (subst apply_panics_iff) simp_all

section \<open>From a policy to the class of a packet\<close>

text \<open>
  A policy governs a client and a remote address when it is the client's and the name of a recent
  DNS row of the remote address matches the pattern of the policy's glob group.
\<close>

definition governs ::
  "(string \<Rightarrow> string \<Rightarrow> bool) \<Rightarrow> int \<Rightarrow> glob_group list \<Rightarrow> dns_row list \<Rightarrow> u8 list \<Rightarrow> u8 list \<Rightarrow> policy \<Rightarrow> bool" where
  "governs glob now globs dns client remote p \<longleftrightarrow>
     SrcIp p = ip_string client \<and>
     (\<exists>r \<in> set dns. daddr r = ip_string remote \<and> recent_row now r \<and>
        glob (Glob (the (GetGlob True (GlobGroup p) globs))) (domain r))"

text \<open>What the running system keeps of its tables: the addresses are texts of octets, and the classes
  are those the engine makes with at most eight classes configured.\<close>

definition addresses_ok :: "policy list \<Rightarrow> bool" where
  "addresses_ok t \<longleftrightarrow> (\<forall>p \<in> set t. \<exists>a. length a = 4 \<and> SrcIp p = ip_string a)"

lemma ip_policies_of_address:
  assumes "SrcIp p = ip_string client" and "map ip_string remotes = ips"
    and "GetIPsMatchingGlob True glob now (the (GetGlob True (GlobGroup p) globs)) dns = Some ips"
    and "GlobGroup p \<in> Name ` set globs"
  shows "ip_policies_of glob globs dns (p, glob_ok, ips_ok, now) =
    map (\<lambda>remote. policy_text client remote (Class p)) remotes"
proof -
  obtain gg where "GetGlob True (GlobGroup p) globs = Some gg" using assms(4) GetGlob_None by blast
  with assms show ?thesis
    by (auto simp: ip_policies_of_def GetIpPolicies_def policy_text_def)
qed

lemma compile_rules_append:
  "compile_rules (ps @ qs) = do {rs \<leftarrow> compile_rules ps; rs' \<leftarrow> compile_rules qs; Some (rs @ rs')}"
  by (induction ps) (auto simp: Option.bind_assoc split: bind_splits)

lemma class_digits:
  "class_ok cfg c \<Longrightarrow> c < 100 \<Longrightarrow> 0 \<le> c \<and> redigit 16 (nat c) = nat (16 * (c div 10))"
proof -
  assume *: "class_ok cfg c" "c < 100"
  then have "0 \<le> c" "c mod 10 = 0" by (auto simp: class_ok_def)
  moreover have "redigit 16 (nat c) = nat c div 10 * 16 + nat c mod 10"
    using * by (intro redigit_two) auto
  moreover have "nat c div 10 = nat (c div 10)" "nat c mod 10 = nat (c mod 10)"
    using \<open>0 \<le> c\<close> by (simp_all add: nat_div_distrib nat_mod_distrib)
  ultimately show ?thesis by (simp add: nat_mult_distrib)
qed

definition rule_for :: "u8 list \<Rightarrow> int \<Rightarrow> u8 list \<Rightarrow> rule" where
  "rule_for client c remote =
     \<lparr>rule_saddr = ip_word LittleEndian remote, rule_daddr = Some (ip_word LittleEndian client),
      rule_class = word_of_int (16 * (c div 10))\<rparr>"

lemma rule_class_for [simp]: "rule_class (rule_for client c remote) = word_of_int (16 * (c div 10))"
  by (simp add: rule_for_def)

lemma compile_policy_rules:
  assumes "length client = 4" and "\<forall>remote \<in> set remotes. length remote = 4"
    and "class_ok cfg c" and "c < 100"
  shows "compile_rules (map (\<lambda>remote. policy_text client remote c) remotes) = Some (map (rule_for client c) remotes)"
proof -
  have c: "0 \<le> c" "redigit 16 (nat c) = nat (16 * (c div 10))" "0 \<le> 16 * (c div 10)"
    using class_digits [OF assms(3,4)] by (simp_all add: pos_imp_zdiv_nonneg_iff)
  then have "(word_of_nat (redigit 16 (nat c)) :: u32) = word_of_int (16 * (c div 10))"
    by (simp only: of_nat_nat)
  then show ?thesis
    using assms(1,2) c(1) by (induction remotes) (simp_all add: compile_policy_text rule_for_def)
qed

lemma map_witness: "(\<forall>y \<in> set ys. \<exists>x. P x \<and> y = f x) \<Longrightarrow> \<exists>xs. ys = map f xs \<and> (\<forall>x \<in> set xs. P x)"
proof (induction ys)
  case (Cons y ys)
  then obtain x xs where "P x" "y = f x" "ys = map f xs" "\<forall>x \<in> set xs. P x" by auto
  then have "y # ys = map f (x # xs) \<and> (\<forall>x \<in> set (x # xs). P x)" by simp
  then show ?case by (rule exI [of _ "x # xs"])
qed simp

text \<open>Of the rules of one policy at most one applies to a packet, and one does when the policy governs
  the packet's addresses.\<close>

lemma applying_rules:
  assumes "length client = 4" and "\<forall>remote \<in> set remotes. length remote = 4" and "distinct remotes"
    and "is_ipv4_frame LittleEndian skb"
  shows "map rule_class (filter (rule_applies LittleEndian skb) (map (rule_for client c) remotes)) =
    (if client = dst_bytes skb \<and> src_bytes skb \<in> set remotes then [word_of_int (16 * (c div 10))] else [])"
proof -
  have applies: "rule_applies LittleEndian skb (rule_for client c remote) \<longleftrightarrow>
      client = dst_bytes skb \<and> remote = src_bytes skb" if "length remote = 4" for remote
    using that assms(1,4)
    by (auto simp: rule_applies_def rule_for_def ip_word_inject length_src_bytes length_dst_bytes)
  show ?thesis
    using assms(2,3)
  proof (induction remotes)
    case (Cons remote remotes)
    then show ?case by (auto simp: applies)
  qed simp
qed

lemma rules_of_policy:
  assumes "dns_ok dns" and "GlobGroup p \<in> Name ` set globs" and "length client = 4"
    and "SrcIp p = ip_string client" and "class_ok cfg (Class p)" and "Class p < 100"
    and "is_ipv4_frame LittleEndian skb"
  shows "\<exists>rules. compile_rules (ip_policies_of glob globs dns (p, True, True, now)) = Some rules \<and>
    map rule_class (filter (rule_applies LittleEndian skb) rules) =
      (if governs glob now globs dns (dst_bytes skb) (src_bytes skb) p
       then [word_of_int (16 * (Class p div 10))] else [])"
proof -
  let ?gg = "the (GetGlob True (GlobGroup p) globs)"
  let ?rows = "filter (\<lambda>r. glob (Glob ?gg) (domain r) \<and> recent_row now r) dns"
  have ips: "GetIPsMatchingGlob True glob now ?gg dns = Some (remdups (map daddr ?rows))"
    by (simp add: GetIPsMatchingGlob_def)
  have "\<forall>ip \<in> set (remdups (map daddr ?rows)). \<exists>a. length a = 4 \<and> ip = ip_string a"
    using assms(1) by (auto simp: dns_ok_def)
  from map_witness [OF this] obtain remotes where remotes: "remdups (map daddr ?rows) = map ip_string remotes"
    "\<forall>a \<in> set remotes. length a = 4" by blast
  have "distinct (map ip_string remotes)" by (metis remotes(1) distinct_remdups)
  then have dist: "distinct remotes" by (simp add: distinct_map)
  have src: "length (src_bytes skb) = 4" and dst: "length (dst_bytes skb) = 4"
    using assms(7) by (simp_all add: length_src_bytes length_dst_bytes)
  have "src_bytes skb \<in> set remotes \<longleftrightarrow> ip_string (src_bytes skb) \<in> set (map ip_string remotes)"
    using remotes(2) src ip_string_inject by (auto simp: image_iff)
  also have "\<dots> \<longleftrightarrow> (\<exists>r \<in> set dns. daddr r = ip_string (src_bytes skb) \<and> recent_row now r \<and> glob (Glob ?gg) (domain r))"
    unfolding remotes(1) [symmetric] by (force simp: image_iff)
  finally have "client = dst_bytes skb \<and> src_bytes skb \<in> set remotes \<longleftrightarrow>
      governs glob now globs dns (dst_bytes skb) (src_bytes skb) p"
    using assms(3,4) dst by (auto simp: governs_def ip_string_inject)
  moreover have "ip_policies_of glob globs dns (p, True, True, now) =
      map (\<lambda>remote. policy_text client remote (Class p)) remotes"
    by (rule ip_policies_of_address [OF assms(4) _ ips assms(2)]) (simp add: remotes(1))
  ultimately show ?thesis
    using applying_rules [OF assms(3) remotes(2) dist assms(7), of "Class p"]
    by (simp add: compile_policy_rules [OF assms(3) remotes(2) assms(5,6)])
qed

lemma compile_rules_concat:
  assumes "\<forall>x \<in> set xs. \<exists>rules. compile_rules (f x) = Some rules \<and> map rule_class (filter Q rules) = g x"
  shows "\<exists>rules. compile_rules (concat (map f xs)) = Some rules \<and>
    map rule_class (filter Q rules) = concat (map g xs)"
  using assms by (induction xs) (auto simp: compile_rules_append)

lemma concat_singletons: "concat (map (\<lambda>x. if P x then [h x] else []) xs) = map h (filter P xs)"
  by (induction xs) simp_all

lemma final_class_classes:
  "final_class e rules skb =
   (case rev (map rule_class (filter (rule_applies e skb) rules)) of [] \<Rightarrow> skb_tc_classid skb | c # _ \<Rightarrow> c)"
  by (simp add: final_class_def rev_map split: list.split)

lemma zip_same_env:
  "length env = length t \<Longrightarrow> \<forall>a \<in> set env. a = v \<Longrightarrow> zip t env = map (\<lambda>p. (p, v)) t"
  by (induction t env rule: list_induct2') simp_all

lemma apply_policies_rules:
  assumes "table_ok cfg t" and "NumQdiscClasses cfg \<le> 8" and "addresses_ok t" and "dns_ok dns"
    and "\<forall>p \<in> set t. GlobGroup p \<in> Name ` set globs"
    and "length env = length t" and "\<forall>a \<in> set env. a = (True, True, now)"
    and "is_ipv4_frame LittleEndian skb"
  shows "\<exists>rules. applyPolicies True glob globs dns env t = Inr rules \<and>
    map rule_class (filter (rule_applies LittleEndian skb) rules) =
    map (\<lambda>p. word_of_int (16 * (Class p div 10)))
      (filter (governs glob now globs dns (dst_bytes skb) (src_bytes skb)) t)"
proof -
  let ?of = "\<lambda>p. ip_policies_of glob globs dns (p, True, True, now)"
  have zip: "zip t env = map (\<lambda>p. (p, True, True, now)) t"
    by (rule zip_same_env [OF assms(6,7)])
  have "\<forall>p \<in> set t. \<exists>rules. compile_rules (?of p) = Some rules \<and>
      map rule_class (filter (rule_applies LittleEndian skb) rules) =
      (if governs glob now globs dns (dst_bytes skb) (src_bytes skb) p
       then [word_of_int (16 * (Class p div 10))] else [])"
  proof
    fix p
    assume p: "p \<in> set t"
    then obtain client where "length client = 4" "SrcIp p = ip_string client"
      using assms(3) by (auto simp: addresses_ok_def)
    moreover have "class_ok cfg (Class p)" using p assms(1) by (simp add: table_ok_def)
    moreover from this assms(2) have "Class p < 100" by (auto simp: class_ok_def)
    ultimately show "\<exists>rules. compile_rules (?of p) = Some rules \<and>
        map rule_class (filter (rule_applies LittleEndian skb) rules) =
        (if governs glob now globs dns (dst_bytes skb) (src_bytes skb) p
         then [word_of_int (16 * (Class p div 10))] else [])"
      using p assms(5) by (intro rules_of_policy [OF assms(4) _ _ _ _ _ assms(8)]) auto
  qed
  from compile_rules_concat [OF this] obtain rules where
    "compile_rules (concat (map ?of t)) = Some rules"
    "map rule_class (filter (rule_applies LittleEndian skb) rules) =
      map (\<lambda>p. word_of_int (16 * (Class p div 10)))
        (filter (governs glob now globs dns (dst_bytes skb) (src_bytes skb)) t)"
    by (auto simp: concat_singletons)
  moreover have "\<forall>x \<in> set (zip t env). answerable globs x"
    using assms(5) by (auto simp: zip answerable_def)
  ultimately show ?thesis
    by (simp add: applyPolicies_def GetAllPolicies_def all_ip_policies_eq) (simp add: zip comp_def)
qed

lemma applied_policies_reach_packets:
  assumes "table_ok cfg t" and "NumQdiscClasses cfg \<le> 8" and "addresses_ok t" and "dns_ok dns"
    and "\<forall>p \<in> set t. GlobGroup p \<in> Name ` set globs"
    and "length env = length t" and "\<forall>a \<in> set env. a = (True, True, now)"
    and "is_ipv4_frame LittleEndian skb"
  shows "\<exists>rules m'. applyPolicies True glob globs dns env t = Inr rules \<and>
    throttle LittleEndian lookup update rules skb m =
      Some (TC_ACT_OK, skb\<lparr>skb_tc_classid :=
        (case rev (filter (governs glob now globs dns (dst_bytes skb) (src_bytes skb)) t) of
           [] \<Rightarrow> skb_tc_classid skb
         | p # _ \<Rightarrow> word_of_int (16 * level t (policy_key p)))\<rparr>, m')"
proof -
  obtain rules where rules: "applyPolicies True glob globs dns env t = Inr rules"
    "map rule_class (filter (rule_applies LittleEndian skb) rules) =
      map (\<lambda>p. word_of_int (16 * (Class p div 10)))
        (filter (governs glob now globs dns (dst_bytes skb) (src_bytes skb)) t)"
    using apply_policies_rules [OF assms] by blast
  have level: "level t (policy_key p) = Class p div 10" if "p \<in> set t" for p
    using table_map_mem [OF table_ok_keys [OF assms(1)] that] by (simp add: level_def row_level_def)
  have "final_class LittleEndian rules skb =
      (case rev (filter (governs glob now globs dns (dst_bytes skb) (src_bytes skb)) t) of
         [] \<Rightarrow> skb_tc_classid skb | p # _ \<Rightarrow> word_of_int (16 * level t (policy_key p)))"
    (is "_ = (case rev ?ps of [] \<Rightarrow> _ | p # _ \<Rightarrow> _)")
  proof (cases "rev ?ps")
    case (Cons p ps)
    then have "p \<in> set t" by (metis filter_is_subset list.set_intros(1) set_rev subsetD)
    with Cons show ?thesis by (simp add: final_class_classes rules(2) rev_map level)
  qed (simp add: final_class_classes rules(2) rev_map)
  then show ?thesis using rules(1) assms(8) by (auto simp: throttle_eq)
qed

text \<open>C4: On a little-endian machine with at most eight classes, applying the policies gives a program that
  assigns a packet from a remote address to a client the handle 16 times the level of the last
  policy that governs the two, and leaves the class of every other packet alone. Nothing else of
  the packet changes and every packet passes.\<close>

theorem policies_reach_packets:
  assumes "table_ok cfg t" and "NumQdiscClasses cfg \<le> 8" and "addresses_ok t" and "dns_ok dns"
    and "\<forall>p \<in> set t. GlobGroup p \<in> Name ` set globs"
    and "length env = length t" and "\<forall>a \<in> set env. a = (True, True, now)"
    and "is_ipv4_frame LittleEndian skb"
  shows "\<exists>rules m'. applyPolicies True glob globs dns env t = Inr rules \<and>
    throttle LittleEndian lookup update rules skb m =
      Some (TC_ACT_OK, skb\<lparr>skb_tc_classid :=
        (case rev (filter (governs glob now globs dns (dst_bytes skb) (src_bytes skb)) t) of
           [] \<Rightarrow> skb_tc_classid skb
         | p # _ \<Rightarrow> word_of_int (16 * level t (policy_key p)))\<rparr>, m')"
  using assms by (rule applied_policies_reach_packets)

definition demo_group :: glob_group where
  "demo_group = \<lparr>Name = ''video'', Description = [], Glob = ''v.example.'', Device = []\<rparr>"

text \<open>The demonstration: the DNS answer \<open>v.example. A 142.251.33.174\<close>, the client
  \<open>192.168.0.14\<close> at level 2, and a packet from the one to the other.\<close>

theorem policies_reach_packets_witness:
  "\<exists>rules m'. applyPolicies True (=) [demo_group] [dns_row_of ''v.example.'' [142, 251, 33, 174] 1000]
       [(True, True, 1000)] (demo_table 20) = Inr rules \<and>
     throttle LittleEndian array_lookup array_update rules demo_skb [0, 0, 0] =
       Some (TC_ACT_OK, demo_skb\<lparr>skb_tc_classid := 32\<rparr>, m')"
proof -
  let ?dns = "[dns_row_of ''v.example.'' [142, 251, 33, 174] 1000]"
  let ?client = "[192, 168, 0, 14] :: u8 list" and ?remote = "[142, 251, 33, 174] :: u8 list"
  have client: "ip_string ?client = ''192.168.0.14''" by code_simp
  have p: "SrcIp (policy_row demo_pair 20 1700000000) = ip_string ?client"
    unfolding client by (simp add: policy_row_def demo_pair_def)
  have gov: "governs (=) 1000 [demo_group] ?dns ?client ?remote (policy_row demo_pair 20 1700000000)"
    using p by (simp add: governs_def recent_row_def GetGlob_def demo_group_def policy_row_def demo_pair_def
        del: ip_string.simps)
  have frame: "is_ipv4_frame LittleEndian demo_skb" "dst_bytes demo_skb = ?client" "src_bytes demo_skb = ?remote"
    by (simp_all add: demo_skb_def mk_frame_parts)
  have "\<exists>rules m'. applyPolicies True (=) [demo_group] ?dns [(True, True, 1000)] (demo_table 20) = Inr rules \<and>
    throttle LittleEndian array_lookup array_update rules demo_skb [0, 0, 0] =
      Some (TC_ACT_OK, demo_skb\<lparr>skb_tc_classid :=
        (case rev (filter (governs (=) 1000 [demo_group] ?dns (dst_bytes demo_skb) (src_bytes demo_skb)) (demo_table 20)) of
           [] \<Rightarrow> skb_tc_classid demo_skb
         | p # _ \<Rightarrow> word_of_int (16 * level (demo_table 20) (policy_key p)))\<rparr>, m')"
  proof (rule policies_reach_packets)
    show "table_ok demo_cfg (demo_table 20)" by code_simp
    show "addresses_ok (demo_table 20)"
      using p unfolding addresses_ok_def demo_table_def
      by (auto intro!: exI [of _ ?client] simp del: ip_string.simps)
    show "dns_ok ?dns"
      by (auto intro!: exI [of _ ?remote] simp: dns_ok_def keys_ok_def simp del: ip_string.simps)
  qed (simp_all add: demo_cfg_def baseConfig_def demo_table_def demo_group_def policy_row_def demo_pair_def frame)
  moreover have "filter (governs (=) 1000 [demo_group] ?dns ?client ?remote) (demo_table 20) = demo_table 20"
    using gov by (simp add: demo_table_def)
  moreover have "level (demo_table 20) demo_pair = 2" by code_simp
  ultimately show ?thesis by (simp add: frame) (simp add: demo_table_def)
qed

end
