(* ===== verification/GoFloat.thy ===== *)
theory GoFloat
  imports Complex_Main "HOL-Library.Log_Nat" Prelude
begin

text \<open>
  Go's \<open>float64\<close> as far as the program uses it: the result of an operation is the exact rational
  rounded to 53 significant bits, ties to even. Values so large or so small that the exponent
  leaves its range do not occur: the operands come from integers. A conversion to an unsigned
  integer truncates; of a value that the type does not represent Go leaves the result to the
  implementation, which is \<open>None\<close> here.
\<close>

section \<open>Binary exponents\<close>

definition ilog2 :: "rat \<Rightarrow> int" where
  "ilog2 x =
     (let (a, b) = quotient_of x; k = bitlen a - bitlen b in if x < 2 powi k then k - 1 else k)"

lemma powi_nat: "0 \<le> k \<Longrightarrow> (2 :: rat) powi k = of_int (2 ^ nat k)"
  by (simp add: power_int_def)

lemma bitlen_powi:
  assumes "0 < n"
  shows "2 powi (bitlen n - 1) \<le> (of_int n :: rat)" and "(of_int n :: rat) < 2 powi bitlen n"
proof -
  have b: "2 ^ nat (bitlen n - 1) \<le> n" "n < 2 ^ nat (bitlen n)"
    using bitlen_bounds [OF assms] by auto
  have "1 \<le> bitlen n"
  proof (rule ccontr)
    assume "\<not> 1 \<le> bitlen n"
    then have "nat (bitlen n) = 0" by simp
    with b(2) assms show False by simp
  qed
  then have "(2 :: rat) powi (bitlen n - 1) = of_int (2 ^ nat (bitlen n - 1))"
    "(2 :: rat) powi bitlen n = of_int (2 ^ nat (bitlen n))"
    by (simp_all only: powi_nat)
  then show "2 powi (bitlen n - 1) \<le> (of_int n :: rat)" and "(of_int n :: rat) < 2 powi bitlen n"
    using b by (simp_all only: of_int_le_iff of_int_less_iff)
qed

lemma powi_less_imp: "(2 :: rat) powi j < 2 powi k \<Longrightarrow> j < k"
  by (rule ccontr) (simp add: power_int_increasing leD)

lemma powi_diff: "(2 :: rat) powi (j - k) = 2 powi j / 2 powi k"
  by (simp add: power_int_diff)

lemma ilog2_bounds:
  assumes "0 < x"
  shows "2 powi ilog2 x \<le> x" and "x < 2 powi (ilog2 x + 1)"
proof -
  obtain a b where q: "quotient_of x = (a, b)" by (cases "quotient_of x")
  then have x: "x = of_int a / of_int b" and b: "0 < b"
    by (auto simp: quotient_of_div quotient_of_denom_pos)
  then have a: "0 < a" using assms by (simp add: zero_less_divide_iff)
  let ?k = "bitlen a - bitlen b"
  have "x < 2 powi bitlen a / 2 powi (bitlen b - 1)"
    unfolding x using bitlen_powi(2) [OF a] bitlen_powi(1) [OF b] a b
    by (intro frac_less) auto
  also have "\<dots> = 2 powi (?k + 1)"
    by (subst powi_diff [symmetric]) (simp add: algebra_simps)
  finally have hi: "x < 2 powi (?k + 1)" .
  have "2 powi (?k - 1) = (2 :: rat) powi (bitlen a - 1) / 2 powi bitlen b"
    by (subst powi_diff [symmetric]) (simp add: algebra_simps)
  also have "\<dots> < x"
    unfolding x using bitlen_powi(2) [OF b] bitlen_powi(1) [OF a] a b
    by (intro frac_less2) auto
  finally have lo: "2 powi (?k - 1) < x" .
  show "2 powi ilog2 x \<le> x" and "x < 2 powi (ilog2 x + 1)"
    using hi lo by (auto simp: ilog2_def q Let_def)
qed

section \<open>Rounding\<close>

definition round_even :: "rat \<Rightarrow> int" where
  "round_even x =
     (let n = \<lfloor>x\<rfloor>; d = x - of_int n
      in if d < 1 / 2 then n else if 1 / 2 < d then n + 1 else if even n then n else n + 1)"

lemma round_even_mono: "x \<le> y \<Longrightarrow> round_even x \<le> round_even y"
proof -
  assume xy: "x \<le> y"
  then have "\<lfloor>x\<rfloor> \<le> \<lfloor>y\<rfloor>" by (rule floor_mono)
  then consider "\<lfloor>x\<rfloor> = \<lfloor>y\<rfloor>" | "\<lfloor>x\<rfloor> + 1 \<le> \<lfloor>y\<rfloor>" by linarith
  then show ?thesis
  proof cases
    case 1
    then show ?thesis using xy by (auto simp: round_even_def Let_def)
  next
    case 2
    have "round_even x \<le> \<lfloor>x\<rfloor> + 1" "\<lfloor>y\<rfloor> \<le> round_even y"
      by (simp_all add: round_even_def Let_def)
    with 2 show ?thesis by linarith
  qed
qed

lemma round_even_of_int [simp]: "round_even (of_int n) = n"
  by (simp add: round_even_def)

definition fl_pos :: "rat \<Rightarrow> rat" where
  "fl_pos x = (let u = 2 powi (ilog2 x - 52) in of_int (round_even (x / u)) * u)"

definition fl :: "rat \<Rightarrow> rat" where
  "fl x = (if x = 0 then 0 else if x < 0 then - fl_pos (- x) else fl_pos x)"

lemma fl_pos_bounds:
  assumes "0 < x"
  shows "2 powi ilog2 x \<le> fl_pos x" and "fl_pos x \<le> 2 powi (ilog2 x + 1)"
proof -
  let ?u = "(2 :: rat) powi (ilog2 x - 52)"
  have u: "0 < ?u" by simp
  have lo: "2 powi ilog2 x = of_int (2 ^ 52) * ?u" and hi: "2 powi (ilog2 x + 1) = of_int (2 ^ 53) * ?u"
    by (simp_all add: power_int_diff power_int_add)
  have "of_int (2 ^ 52) \<le> x / ?u" "x / ?u \<le> of_int (2 ^ 53)"
    using ilog2_bounds [OF assms] u unfolding lo hi by (simp_all add: field_simps)
  then have "2 ^ 52 \<le> round_even (x / ?u)" "round_even (x / ?u) \<le> 2 ^ 53"
    by (metis round_even_mono round_even_of_int)+
  then have "of_int (2 ^ 52) \<le> (of_int (round_even (x / ?u)) :: rat)"
    "(of_int (round_even (x / ?u)) :: rat) \<le> of_int (2 ^ 53)"
    by (simp_all only: of_int_le_iff)
  then show "2 powi ilog2 x \<le> fl_pos x" and "fl_pos x \<le> 2 powi (ilog2 x + 1)"
    unfolding lo hi fl_pos_def Let_def using u by (simp_all only: mult_right_mono less_imp_le)
qed

lemma fl_pos_mono:
  assumes "0 < x" and "x \<le> y"
  shows "fl_pos x \<le> fl_pos y"
proof -
  have y: "0 < y" using assms by simp
  have "2 powi ilog2 x < (2 :: rat) powi (ilog2 y + 1)"
    using ilog2_bounds(1) [OF assms(1)] ilog2_bounds(2) [OF y] assms(2) by linarith
  then have "ilog2 x < ilog2 y + 1" by (rule powi_less_imp)
  then consider "ilog2 x = ilog2 y" | "ilog2 x + 1 \<le> ilog2 y" by linarith
  then show ?thesis
  proof cases
    case 1
    then show ?thesis
      using assms(2) by (auto simp: fl_pos_def Let_def intro!: mult_right_mono round_even_mono divide_right_mono)
  next
    case 2
    then have "(2 :: rat) powi (ilog2 x + 1) \<le> 2 powi ilog2 y"
      by (rule power_int_increasing) simp
    with fl_pos_bounds(2) [OF assms(1)] fl_pos_bounds(1) [OF y] show ?thesis by linarith
  qed
qed

lemma fl_pos_pos: "0 < x \<Longrightarrow> 0 < fl_pos x"
  using fl_pos_bounds(1) [of x] by (metis order.strict_trans2 zero_less_numeral zero_less_power_int)

lemma fl_mono: "x \<le> y \<Longrightarrow> fl x \<le> fl y"
  using fl_pos_mono [of x y] fl_pos_mono [of "- y" "- x"] fl_pos_pos [of "- x"] fl_pos_pos [of y]
  by (auto simp: fl_def)

lemma fl_0 [simp]: "fl 0 = 0"
  by (simp add: fl_def)

text \<open>Integers of at most 53 bits are floats.\<close>

lemma fl_of_int:
  assumes "\<bar>n\<bar> < 2 ^ 53"
  shows "fl (of_int n) = of_int n"
proof -
  have pos: "fl_pos (of_int m) = of_int m" if "0 < m" "m < 2 ^ 53" for m :: int
  proof -
    let ?e = "ilog2 (of_int m)"
    have "2 powi ?e \<le> (of_int m :: rat)" using ilog2_bounds(1) that(1) by simp
    also have "\<dots> < of_int (2 ^ nat 53)"
      using that(2) by (subst of_int_less_iff) simp
    also have "\<dots> = 2 powi 53" by (rule powi_nat [symmetric]) simp
    finally have e: "?e < 53" by (rule powi_less_imp)
    have "(of_int m :: rat) / 2 powi (?e - 52) = of_int m * 2 powi (52 - ?e)"
      by (simp add: powi_diff)
    also have "\<dots> = of_int (m * 2 ^ nat (52 - ?e))"
      using e by (simp only: powi_nat of_int_mult)
    finally have "of_int (round_even (of_int m / 2 powi (?e - 52))) = (of_int m :: rat) / 2 powi (?e - 52)"
      by (simp only: round_even_of_int)
    then show ?thesis by (simp add: fl_pos_def Let_def)
  qed
  show ?thesis
    using assms pos [of n] pos [of "- n"] by (auto simp: fl_def)
qed

lemma fl_1 [simp]: "fl 1 = 1"
  using fl_of_int [of 1] by simp

section \<open>Conversions\<close>

definition go_trunc :: "rat \<Rightarrow> int" where
  "go_trunc x = (if x < 0 then \<lceil>x\<rceil> else \<lfloor>x\<rfloor>)"

definition go_uint64 :: "rat \<Rightarrow> u64 option" where
  "go_uint64 x =
     (if 0 \<le> go_trunc x \<and> go_trunc x < 2 ^ 64 then Some (word_of_int (go_trunc x)) else None)"

definition go_uint32 :: "rat \<Rightarrow> u32 option" where
  "go_uint32 x =
     (if 0 \<le> go_trunc x \<and> go_trunc x < 2 ^ 32 then Some (word_of_int (go_trunc x)) else None)"

definition go_float64 :: "int \<Rightarrow> rat" where
  "go_float64 i = fl (of_int i)"

lemma go_trunc_mono: "0 \<le> x \<Longrightarrow> x \<le> y \<Longrightarrow> go_trunc x \<le> go_trunc y"
  by (simp add: go_trunc_def floor_mono)

lemma go_trunc_of_int [simp]: "go_trunc (of_int i) = i"
  by (simp add: go_trunc_def)

lemma go_trunc_nonneg: "0 \<le> x \<Longrightarrow> 0 \<le> go_trunc x"
  by (simp add: go_trunc_def)

end
