(* ===== verification/Qdisc.thy ===== *)
theory Qdisc
  imports GoFloat NetConfig
begin

text \<open>
  The queueing disciplines of \<open>handlers/qdisc.go\<close>: \<open>generateQdiscLeafNodes\<close> computes a list of
  bandwidth classes from the configuration in floating point, \<open>createLeafQdiscs\<close> and \<open>createQdiscs\<close>
  send netlink requests. The netlink library and the kernel are not part of the repository: a
  request is a value that holds the arguments the code passes, and whether the kernel accepts it
  is an argument. A handle is the pair of numbers given to \<open>netlink.MakeHandle\<close>.
\<close>

section \<open>Bandwidth classes\<close>

record leafConfig =
  Rate :: u64
  Ceil :: u64
  Delay :: u32
  Variance :: u32
  Kind :: string
  Iface :: int

definition MBit :: int where "MBit = 1000 * 1000"
definition KBit :: int where "KBit = 1000"
definition Ms :: int where "Ms = 1000"

text \<open>
  The body of the loop of \<open>generateQdiscLeafNodes\<close>. Go may compute a product and a sum with one
  rounding (\<open>fused\<close>, as its compiler does on arm64) or with two.
\<close>

definition scaled_factor :: "config \<Rightarrow> int \<Rightarrow> rat" where
  "scaled_factor cfg i = fl (go_float64 i / go_float64 (NumQdiscClasses cfg))"

definition scaled_rate :: "bool \<Rightarrow> config \<Rightarrow> int \<Rightarrow> rat" where
  "scaled_rate fused cfg i =
     (let factor = scaled_factor cfg i;
          x = fl (1 - factor) * go_float64 (StartRateKbs cfg - MinRateKbs cfg);
          scaledRate = fl ((if fused then x else fl x) + go_float64 (MinRateKbs cfg))
      in fl (scaledRate * of_int KBit))"

definition scaled_delay :: "config \<Rightarrow> int \<Rightarrow> rat" where
  "scaled_delay cfg i = fl (fl (scaled_factor cfg i * go_float64 (MaxDelayMs cfg)) * of_int Ms)"

definition leaf_node :: "bool \<Rightarrow> config \<Rightarrow> int \<Rightarrow> int \<Rightarrow> leafConfig option" where
  "leaf_node fused cfg iface i = do {
     rate \<leftarrow> go_uint64 (scaled_rate fused cfg i);
     delay \<leftarrow> go_uint32 (scaled_delay cfg i);
     variance \<leftarrow> go_uint32 (fl (scaled_delay cfg i / 10));
     Some \<lparr>Rate = rate, Ceil = rate, Delay = delay, Variance = variance, Kind = ''netem'', Iface = iface\<rparr>
   }"

text \<open>\<open>None\<close>: some conversion has a result that Go leaves to the implementation.\<close>

definition generateQdiscLeafNodes :: "bool \<Rightarrow> config \<Rightarrow> int \<Rightarrow> leafConfig list option" where
  "generateQdiscLeafNodes fused cfg iface = do {
     leaves \<leftarrow> those (map (leaf_node fused cfg iface) [1..NumQdiscClasses cfg]);
     Some (\<lparr>Rate = word_of_int (95 * MBit), Ceil = word_of_int (100 * MBit), Delay = 0, Variance = 0,
            Kind = ''prio'', Iface = iface\<rparr> # leaves)
   }"

section \<open>Requests\<close>

datatype nl_handle = HANDLE_ROOT | HANDLE_CLSACT | MakeHandle u16 u16

datatype nl_request =
    QdiscDel int nl_handle
  | AddHtb int nl_handle nl_handle u32
  | AddHtbClass int nl_handle nl_handle u64 u64
  | AddPrio int nl_handle nl_handle
  | AddNetem int nl_handle nl_handle u32 u32
  | AddClsact int nl_handle nl_handle

text \<open>A request, and whether the process ends when it fails (\<open>log.Fatal\<close>).\<close>

type_synonym nl_step = "nl_request \<times> bool"

definition leaf_steps :: "nat \<Rightarrow> leafConfig \<Rightarrow> nl_step list" where
  "leaf_steps idx leaf =
     (let handleId = word_of_nat (idx + 1) * 16;
          h = MakeHandle 1 handleId; q = MakeHandle handleId 0
      in [(AddHtbClass (Iface leaf) h (MakeHandle 1 1) (Rate leaf) (Rate leaf), True),
          (if Kind leaf = ''netem'' then AddNetem (Iface leaf) q h (Delay leaf) (Variance leaf)
           else AddPrio (Iface leaf) q h, True)])"

definition createLeafQdiscs :: "leafConfig list \<Rightarrow> nl_step list" where
  "createLeafQdiscs leaves =
     concat (map (\<lambda>(idx, leaf). leaf_steps idx leaf) (zip [0..<length leaves] leaves))"

definition recreateBpfQdisc :: "int \<Rightarrow> nl_step list" where
  "recreateBpfQdisc iface =
     [(QdiscDel iface HANDLE_CLSACT, False), (AddClsact iface (MakeHandle 0xffff 0) HANDLE_CLSACT, True)]"

definition lan_steps :: "int \<Rightarrow> leafConfig list \<Rightarrow> nl_step list" where
  "lan_steps iface leaves =
     [(QdiscDel iface HANDLE_ROOT, False),
      (AddHtb iface (MakeHandle 1 0) HANDLE_ROOT 0x10, True),
      (AddHtbClass iface (MakeHandle 1 1) (MakeHandle 1 0) (word_of_int (100 * MBit)) (word_of_int (100 * MBit)), True)] @
     createLeafQdiscs leaves @ recreateBpfQdisc iface"

text \<open>Executing steps: the requests sent, in order, and whether the process is still running. The
  kernel's answer may depend on what was sent before.\<close>

fun run_steps ::
  "(nl_request list \<Rightarrow> nl_request \<Rightarrow> bool) \<Rightarrow> nl_step list \<Rightarrow> nl_request list \<Rightarrow> nl_request list \<times> bool" where
  "run_steps ok [] sent = (sent, True)"
| "run_steps ok ((req, fatal) # ss) sent =
     (if fatal \<and> \<not> ok sent req then (sent @ [req], False) else run_steps ok ss (sent @ [req]))"

text \<open>\<open>createQdiscs\<close>; \<open>ifidx\<close> is \<open>net.InterfaceByName\<close>, which fails for a name that does not exist.\<close>

definition createQdiscs ::
  "bool \<Rightarrow> (nl_request list \<Rightarrow> nl_request \<Rightarrow> bool) \<Rightarrow> (string \<Rightarrow> int option) \<Rightarrow> config \<Rightarrow>
   (nl_request list \<times> bool) option" where
  "createQdiscs fused ok ifidx cfg =
     (case ifidx (LanInterface cfg) of
        None \<Rightarrow> Some ([], False)
      | Some lan \<Rightarrow> do {
          leaves \<leftarrow> generateQdiscLeafNodes fused cfg lan;
          let (sent, running) = run_steps ok (lan_steps lan leaves) [];
          Some (if \<not> running then (sent, False)
            else case ifidx (WanInterface cfg) of
                None \<Rightarrow> (sent, False)
              | Some wan \<Rightarrow> run_steps ok (recreateBpfQdisc wan) sent)
        })"

section \<open>What the classes are\<close>

text \<open>A configuration whose rates and delays are in order, and small enough for the machine types.\<close>

definition rates_ok :: "config \<Rightarrow> bool" where
  "rates_ok cfg \<longleftrightarrow>
     1 \<le> NumQdiscClasses cfg \<and> NumQdiscClasses cfg < 2 ^ 53 \<and>
     0 \<le> MinRateKbs cfg \<and> MinRateKbs cfg \<le> StartRateKbs cfg \<and> StartRateKbs cfg * 1000 < 2 ^ 53 \<and>
     0 \<le> MaxDelayMs cfg \<and> MaxDelayMs cfg * 1000 < 2 ^ 32"

lemma go_float64_small: "0 \<le> n \<Longrightarrow> n < 2 ^ 53 \<Longrightarrow> go_float64 n = of_int n"
  by (simp add: go_float64_def fl_of_int)

lemma fl_between:
  "of_int a \<le> x \<Longrightarrow> x \<le> of_int b \<Longrightarrow> 0 \<le> a \<Longrightarrow> b < 2 ^ 53 \<Longrightarrow> of_int a \<le> fl x \<and> fl x \<le> of_int b"
proof -
  assume *: "of_int a \<le> x" "x \<le> of_int b" "0 \<le> a" "b < 2 ^ 53"
  then have "a \<le> b" by (metis of_int_le_iff order.trans)
  with * show ?thesis using fl_mono [OF *(1)] fl_mono [OF *(2)] by (simp add: fl_of_int)
qed

lemma scaled_factor_bounds:
  assumes "rates_ok cfg" and "1 \<le> i" and "i \<le> NumQdiscClasses cfg"
  shows "0 \<le> scaled_factor cfg i" and "scaled_factor cfg i \<le> 1"
proof -
  have "go_float64 i / go_float64 (NumQdiscClasses cfg) = of_int i / of_int (NumQdiscClasses cfg)"
    using assms by (simp add: rates_ok_def go_float64_small)
  moreover have "(of_int 0 :: rat) \<le> of_int i / of_int (NumQdiscClasses cfg)"
    "of_int i / of_int (NumQdiscClasses cfg) \<le> (of_int 1 :: rat)"
    using assms by (simp_all add: divide_le_eq_1)
  ultimately show "0 \<le> scaled_factor cfg i" and "scaled_factor cfg i \<le> 1"
    using fl_between [of 0 "of_int i / of_int (NumQdiscClasses cfg)" 1] by (simp_all add: scaled_factor_def)
qed

lemma scaled_factor_mono:
  assumes "rates_ok cfg" and "1 \<le> i" and "i \<le> j" and "j \<le> NumQdiscClasses cfg"
  shows "scaled_factor cfg i \<le> scaled_factor cfg j"
  using assms unfolding scaled_factor_def
  by (intro fl_mono) (simp add: rates_ok_def go_float64_small divide_right_mono)

lemma scaled_factor_last: "rates_ok cfg \<Longrightarrow> scaled_factor cfg (NumQdiscClasses cfg) = 1"
  by (simp add: scaled_factor_def rates_ok_def go_float64_small)

text \<open>The rate as a function of the factor: it falls as the factor grows, between the two rates.\<close>

definition rate_of_factor :: "bool \<Rightarrow> config \<Rightarrow> rat \<Rightarrow> rat" where
  "rate_of_factor fused cfg factor =
     (let x = fl (1 - factor) * of_int (StartRateKbs cfg - MinRateKbs cfg)
      in fl (fl ((if fused then x else fl x) + of_int (MinRateKbs cfg)) * 1000))"

lemma scaled_rate_factor: "rates_ok cfg \<Longrightarrow> scaled_rate fused cfg i = rate_of_factor fused cfg (scaled_factor cfg i)"
  by (simp add: scaled_rate_def rate_of_factor_def rates_ok_def go_float64_small KBit_def Let_def del: of_int_diff)

lemma rate_of_factor_antimono:
  assumes "rates_ok cfg" and "f \<le> g"
  shows "rate_of_factor fused cfg g \<le> rate_of_factor fused cfg f"
proof -
  have "fl (1 - g) \<le> fl (1 - f)" using assms(2) by (intro fl_mono) simp
  then have "fl (1 - g) * of_int (StartRateKbs cfg - MinRateKbs cfg) \<le>
      fl (1 - f) * of_int (StartRateKbs cfg - MinRateKbs cfg)"
    using assms(1) by (intro mult_right_mono) (simp_all add: rates_ok_def)
  then show ?thesis
    unfolding rate_of_factor_def Let_def
    by (cases fused) (auto intro!: fl_mono mult_right_mono add_right_mono)
qed

lemma rate_of_factor_ends:
  assumes "rates_ok cfg"
  shows "rate_of_factor fused cfg 1 = of_int (MinRateKbs cfg * 1000)"
    and "rate_of_factor fused cfg 0 = of_int (StartRateKbs cfg * 1000)"
proof -
  have "fl (of_int (MinRateKbs cfg)) = of_int (MinRateKbs cfg)"
    "fl (of_int (MinRateKbs cfg * 1000)) = of_int (MinRateKbs cfg * 1000)"
    "fl (of_int (StartRateKbs cfg)) = of_int (StartRateKbs cfg)"
    "fl (of_int (StartRateKbs cfg * 1000)) = of_int (StartRateKbs cfg * 1000)"
    "fl (of_int (StartRateKbs cfg - MinRateKbs cfg)) = of_int (StartRateKbs cfg - MinRateKbs cfg)"
    using assms unfolding rates_ok_def by (intro fl_of_int; simp)+
  then show "rate_of_factor fused cfg 1 = of_int (MinRateKbs cfg * 1000)"
    and "rate_of_factor fused cfg 0 = of_int (StartRateKbs cfg * 1000)"
    by (simp_all add: rate_of_factor_def Let_def)
qed

lemma scaled_rate_bounds:
  assumes "rates_ok cfg" and "1 \<le> i" and "i \<le> NumQdiscClasses cfg"
  shows "of_int (MinRateKbs cfg * 1000) \<le> scaled_rate fused cfg i"
    and "scaled_rate fused cfg i \<le> of_int (StartRateKbs cfg * 1000)"
  using rate_of_factor_antimono [OF assms(1) scaled_factor_bounds(1) [OF assms], of fused]
    rate_of_factor_antimono [OF assms(1) scaled_factor_bounds(2) [OF assms], of fused]
  by (simp_all only: rate_of_factor_ends [OF assms(1)] scaled_rate_factor [OF assms(1)])

lemma scaled_rate_antimono:
  assumes "rates_ok cfg" and "1 \<le> i" and "i \<le> j" and "j \<le> NumQdiscClasses cfg"
  shows "scaled_rate fused cfg j \<le> scaled_rate fused cfg i"
  using rate_of_factor_antimono [OF assms(1) scaled_factor_mono [OF assms]]
  by (simp add: scaled_rate_factor [OF assms(1)])

lemma scaled_delay_eq:
  "rates_ok cfg \<Longrightarrow> scaled_delay cfg i = fl (fl (scaled_factor cfg i * of_int (MaxDelayMs cfg)) * 1000)"
  by (simp add: scaled_delay_def rates_ok_def go_float64_small Ms_def)

lemma scaled_delay_mono:
  assumes "rates_ok cfg" and "1 \<le> i" and "i \<le> j" and "j \<le> NumQdiscClasses cfg"
  shows "scaled_delay cfg i \<le> scaled_delay cfg j"
  using scaled_factor_mono [OF assms] assms(1) unfolding scaled_delay_eq [OF assms(1)]
  by (intro fl_mono mult_right_mono) (simp_all add: rates_ok_def)

lemma scaled_delay_last:
  assumes "rates_ok cfg"
  shows "scaled_delay cfg (NumQdiscClasses cfg) = of_int (MaxDelayMs cfg * 1000)"
proof -
  have "fl (of_int (MaxDelayMs cfg)) = of_int (MaxDelayMs cfg)"
    "fl (of_int (MaxDelayMs cfg * 1000)) = of_int (MaxDelayMs cfg * 1000)"
    using assms unfolding rates_ok_def by (intro fl_of_int; simp)+
  then show ?thesis
    by (simp add: scaled_delay_eq [OF assms] scaled_factor_last [OF assms])
qed

lemma scaled_delay_bounds:
  assumes "rates_ok cfg" and "1 \<le> i" and "i \<le> NumQdiscClasses cfg"
  shows "0 \<le> scaled_delay cfg i" and "scaled_delay cfg i \<le> of_int (MaxDelayMs cfg * 1000)"
proof -
  have "fl 0 \<le> fl (scaled_factor cfg i * of_int (MaxDelayMs cfg))"
    using scaled_factor_bounds(1) [OF assms] assms(1) by (intro fl_mono) (simp add: rates_ok_def)
  then have "fl 0 \<le> scaled_delay cfg i"
    unfolding scaled_delay_eq [OF assms(1)] by (intro fl_mono) simp
  then show "0 \<le> scaled_delay cfg i" by simp
  show "scaled_delay cfg i \<le> of_int (MaxDelayMs cfg * 1000)"
    using scaled_delay_mono [OF assms(1,2,3)] by (simp only: scaled_delay_last [OF assms(1)] order_refl)
qed

lemma go_uint64_between:
  assumes "of_int a \<le> x" and "x \<le> of_int b" and "0 \<le> a" and "b < 2 ^ 64"
  shows "go_uint64 x = Some (word_of_int (go_trunc x))" and "uint (word_of_int (go_trunc x) :: u64) = go_trunc x"
    and "a \<le> go_trunc x" and "go_trunc x \<le> b"
proof -
  have "0 \<le> x" using assms(1,3) by (metis of_int_0_le_iff order.trans)
  with assms show "a \<le> go_trunc x" and "go_trunc x \<le> b"
    by (simp_all add: go_trunc_def le_floor_iff floor_le_iff)
  with assms(3,4) show "go_uint64 x = Some (word_of_int (go_trunc x))"
    and "uint (word_of_int (go_trunc x) :: u64) = go_trunc x"
    by (simp_all add: go_uint64_def unsigned_of_int take_bit_int_eq_self)
qed

lemma go_uint32_between:
  assumes "of_int a \<le> x" and "x \<le> of_int b" and "0 \<le> a" and "b < 2 ^ 32"
  shows "go_uint32 x = Some (word_of_int (go_trunc x))" and "uint (word_of_int (go_trunc x) :: u32) = go_trunc x"
proof -
  have "0 \<le> x" using assms(1,3) by (metis of_int_0_le_iff order.trans)
  with assms have "0 \<le> go_trunc x" and "go_trunc x \<le> b"
    by (simp_all add: go_trunc_def le_floor_iff floor_le_iff)
  with assms(4) show "go_uint32 x = Some (word_of_int (go_trunc x))"
    and "uint (word_of_int (go_trunc x) :: u32) = go_trunc x"
    by (simp_all add: go_uint32_def unsigned_of_int take_bit_int_eq_self)
qed

lemma leaf_node_some:
  assumes "rates_ok cfg" and "1 \<le> i" and "i \<le> NumQdiscClasses cfg"
  shows "\<exists>leaf. leaf_node fused cfg iface i = Some leaf \<and>
    uint (Rate leaf) = go_trunc (scaled_rate fused cfg i) \<and>
    uint (Delay leaf) = go_trunc (scaled_delay cfg i) \<and>
    MinRateKbs cfg * 1000 \<le> uint (Rate leaf) \<and> uint (Rate leaf) \<le> StartRateKbs cfg * 1000 \<and>
    Ceil leaf = Rate leaf \<and> Kind leaf = ''netem'' \<and> Iface leaf = iface"
proof -
  note r = go_uint64_between [OF scaled_rate_bounds [OF assms, of fused]]
  have small: "0 \<le> MinRateKbs cfg * 1000" "StartRateKbs cfg * 1000 < 2 ^ 64" "MaxDelayMs cfg * 1000 < 2 ^ 32"
    using assms(1) by (simp_all add: rates_ok_def)
  have d: "of_int 0 \<le> scaled_delay cfg i" "scaled_delay cfg i \<le> of_int (MaxDelayMs cfg * 1000)"
    using scaled_delay_bounds [OF assms] by simp_all
  have "fl 0 \<le> fl (scaled_delay cfg i / 10)" "fl (scaled_delay cfg i / 10) \<le> fl (of_int (MaxDelayMs cfg * 1000))"
    using d by (intro fl_mono; simp)+
  moreover have "fl (of_int (MaxDelayMs cfg * 1000)) = of_int (MaxDelayMs cfg * 1000)"
    using small(3) assms(1) by (intro fl_of_int) (simp add: rates_ok_def)
  ultimately have v: "of_int 0 \<le> fl (scaled_delay cfg i / 10)" "fl (scaled_delay cfg i / 10) \<le> of_int (MaxDelayMs cfg * 1000)"
    by simp_all
  show ?thesis
    using r [OF small(1,2)] go_uint32_between [OF d _ small(3)] go_uint32_between(1) [OF v _ small(3)]
    by (simp add: leaf_node_def)
qed

lemma those_map_some: "(\<And>x. x \<in> set xs \<Longrightarrow> f x = Some (g x)) \<Longrightarrow> those (map f xs) = Some (map g xs)"
  by (induction xs) simp_all

definition leaf_at :: "bool \<Rightarrow> config \<Rightarrow> int \<Rightarrow> int \<Rightarrow> leafConfig" where
  "leaf_at fused cfg iface i = the (leaf_node fused cfg iface i)"

lemma leaf_at_props:
  assumes "rates_ok cfg" and "1 \<le> i" and "i \<le> NumQdiscClasses cfg"
  shows "leaf_node fused cfg iface i = Some (leaf_at fused cfg iface i)"
    and "uint (Rate (leaf_at fused cfg iface i)) = go_trunc (scaled_rate fused cfg i)"
    and "uint (Delay (leaf_at fused cfg iface i)) = go_trunc (scaled_delay cfg i)"
    and "MinRateKbs cfg * 1000 \<le> uint (Rate (leaf_at fused cfg iface i))"
    and "uint (Rate (leaf_at fused cfg iface i)) \<le> StartRateKbs cfg * 1000"
    and "Iface (leaf_at fused cfg iface i) = iface"
  using leaf_node_some [OF assms, of fused iface] by (auto simp: leaf_at_def)

lemma generate_leaves_eq:
  assumes "rates_ok cfg"
  shows "generateQdiscLeafNodes fused cfg iface =
    Some (\<lparr>Rate = word_of_int (95 * MBit), Ceil = word_of_int (100 * MBit), Delay = 0, Variance = 0,
           Kind = ''prio'', Iface = iface\<rparr> # map (leaf_at fused cfg iface) [1..NumQdiscClasses cfg])"
proof -
  have "those (map (leaf_node fused cfg iface) [1..NumQdiscClasses cfg]) =
      Some (map (leaf_at fused cfg iface) [1..NumQdiscClasses cfg])"
    by (rule those_map_some) (simp add: leaf_at_props(1) [OF assms])
  then show ?thesis by (simp add: generateQdiscLeafNodes_def)
qed

text \<open>C14: With a configuration in order, one class more than configured is made. The configured ones have
  rates between the start rate and the minimum rate and never faster than the one before, and
  delays never shorter than the one before; the last has exactly the minimum rate and the maximum
  delay. This holds for both ways Go may round, and although every step is rounded.\<close>

theorem leaf_classes_degrade:
  assumes "rates_ok cfg"
  shows "\<exists>leaves. generateQdiscLeafNodes fused cfg iface = Some leaves \<and>
    int (length leaves) = NumQdiscClasses cfg + 1 \<and>
    (\<forall>i \<in> {1..NumQdiscClasses cfg}.
       MinRateKbs cfg * 1000 \<le> uint (Rate (leaves ! nat i)) \<and>
       uint (Rate (leaves ! nat i)) \<le> StartRateKbs cfg * 1000 \<and>
       (\<forall>j \<in> {i..NumQdiscClasses cfg}.
          Rate (leaves ! nat j) \<le> Rate (leaves ! nat i) \<and> Delay (leaves ! nat i) \<le> Delay (leaves ! nat j))) \<and>
    uint (Rate (last leaves)) = MinRateKbs cfg * 1000 \<and> uint (Delay (last leaves)) = MaxDelayMs cfg * 1000"
proof -
  let ?n = "NumQdiscClasses cfg" and ?at = "leaf_at fused cfg iface"
  have n: "1 \<le> ?n" using assms by (simp add: rates_ok_def)
  let ?leaves = "\<lparr>Rate = word_of_int (95 * MBit), Ceil = word_of_int (100 * MBit), Delay = 0, Variance = 0,
    Kind = ''prio'', Iface = iface\<rparr> # map ?at [1..?n]"
  have nth: "?leaves ! nat i = ?at i" if "1 \<le> i" "i \<le> ?n" for i
    using that by (simp add: nth_Cons' nth_upto of_nat_diff)
  have rate: "Rate (?at j) \<le> Rate (?at i)" and delay: "Delay (?at i) \<le> Delay (?at j)"
    if "1 \<le> i" "i \<le> j" "j \<le> ?n" for i j
  proof -
    have *: "(0 :: rat) \<le> scaled_rate fused cfg j"
      using scaled_rate_bounds(1) [OF assms, of j fused] that assms
      by (metis of_int_0_le_iff order.trans rates_ok_def zero_le_mult_iff zero_le_numeral)
    show "Rate (?at j) \<le> Rate (?at i)"
      using that * by (simp add: word_le_def leaf_at_props(2) [OF assms] go_trunc_mono scaled_rate_antimono [OF assms])
    show "Delay (?at i) \<le> Delay (?at j)"
      using that scaled_delay_bounds(1) [OF assms, of i]
      by (simp add: word_le_def leaf_at_props(3) [OF assms] go_trunc_mono scaled_delay_mono [OF assms])
  qed
  have last: "last ?leaves = ?at ?n"
    using n by (simp add: last_map upto_rec2)
  have "scaled_rate fused cfg ?n = of_int (MinRateKbs cfg * 1000)"
    by (simp only: scaled_rate_factor [OF assms] scaled_factor_last [OF assms] rate_of_factor_ends [OF assms])
  then have "uint (Rate (?at ?n)) = MinRateKbs cfg * 1000" "uint (Delay (?at ?n)) = MaxDelayMs cfg * 1000"
    using n by (simp_all only: leaf_at_props(2,3) [OF assms] order_refl scaled_delay_last [OF assms] go_trunc_of_int)
  moreover have "int (length ?leaves) = ?n + 1" using n by simp
  ultimately show ?thesis
    using generate_leaves_eq [OF assms] leaf_at_props(4,5) [OF assms] rate delay
    by (intro exI [of _ ?leaves]) (auto simp only: last nth atLeastAtMost_iff)
qed

theorem leaf_classes_degrade_witness:
  "\<exists>leaves. generateQdiscLeafNodes True baseConfig 2 = Some leaves \<and> int (length leaves) = 6 \<and>
     uint (Rate (last leaves)) = 50000 \<and> uint (Delay (last leaves)) = 50000"
proof -
  have "rates_ok baseConfig" by (simp add: rates_ok_def baseConfig_def)
  from leaf_classes_degrade [OF this, of True 2] show ?thesis
    by (auto simp: baseConfig_def)
qed

section \<open>Handles\<close>

text \<open>What a request creates and below what, with the interface.\<close>

fun created :: "nl_request \<Rightarrow> (int \<times> nl_handle) option" where
  "created (QdiscDel i p) = None"
| "created (AddHtb i h p d) = Some (i, h)"
| "created (AddHtbClass i h p r c) = Some (i, h)"
| "created (AddPrio i h p) = Some (i, h)"
| "created (AddNetem i h p l j) = Some (i, h)"
| "created (AddClsact i h p) = Some (i, h)"

fun below :: "nl_request \<Rightarrow> (int \<times> nl_handle) option" where
  "below (QdiscDel i p) = None"
| "below (AddHtb i h p d) = (if p = HANDLE_ROOT then None else Some (i, p))"
| "below (AddHtbClass i h p r c) = Some (i, p)"
| "below (AddPrio i h p) = Some (i, p)"
| "below (AddNetem i h p l j) = Some (i, p)"
| "below (AddClsact i h p) = (if p = HANDLE_CLSACT then None else Some (i, p))"

text \<open>Every request creates something new below something that was created before.\<close>

fun well_ordered :: "(int \<times> nl_handle) set \<Rightarrow> nl_request list \<Rightarrow> bool" where
  "well_ordered seen [] \<longleftrightarrow> True"
| "well_ordered seen (r # rs) \<longleftrightarrow>
     (case below r of None \<Rightarrow> True | Some p \<Rightarrow> p \<in> seen) \<and>
     (case created r of None \<Rightarrow> True | Some h \<Rightarrow> h \<notin> seen) \<and>
     well_ordered (case created r of None \<Rightarrow> seen | Some h \<Rightarrow> insert h seen) rs"

fun created_all :: "nl_request list \<Rightarrow> (int \<times> nl_handle) set" where
  "created_all [] = {}"
| "created_all (r # rs) = (case created r of None \<Rightarrow> {} | Some h \<Rightarrow> {h}) \<union> created_all rs"

lemma well_ordered_append:
  "well_ordered seen (rs @ rs') \<longleftrightarrow> well_ordered seen rs \<and> well_ordered (seen \<union> created_all rs) rs'"
proof (induction rs arbitrary: seen)
  case (Cons r rs)
  show ?case by (cases "created r") (simp_all add: Cons Un_assoc insert_commute)
qed simp

lemma created_all_append [simp]: "created_all (rs @ rs') = created_all rs \<union> created_all rs'"
  by (induction rs) auto

text \<open>The leaf classes and qdiscs of a list of leaves that starts at an index.\<close>

definition leaf_id :: "nat \<Rightarrow> u16" where
  "leaf_id idx = word_of_nat (idx + 1) * 16"

lemma unat_leaf_id: "idx < 4095 \<Longrightarrow> unat (leaf_id idx) = 16 * (idx + 1)"
proof -
  assume "idx < 4095"
  then have "(idx + 1) * 16 < 2 ^ 16" by simp
  then have "unat (word_of_nat ((idx + 1) * 16) :: u16) = (idx + 1) * 16"
    by (subst unat_of_nat) simp
  moreover have "leaf_id idx = word_of_nat ((idx + 1) * 16)" by (simp add: leaf_id_def)
  ultimately show ?thesis by (simp only: mult.commute)
qed

lemma leaf_id_inject: "i < 4095 \<Longrightarrow> j < 4095 \<Longrightarrow> leaf_id i = leaf_id j \<longleftrightarrow> i = j"
  by (metis unat_leaf_id add_right_cancel mult_left_cancel zero_neq_numeral)

lemma leaf_steps_eq:
  "map fst (leaf_steps idx leaf) =
   [AddHtbClass (Iface leaf) (MakeHandle 1 (leaf_id idx)) (MakeHandle 1 1) (Rate leaf) (Rate leaf),
    if Kind leaf = ''netem''
    then AddNetem (Iface leaf) (MakeHandle (leaf_id idx) 0) (MakeHandle 1 (leaf_id idx)) (Delay leaf) (Variance leaf)
    else AddPrio (Iface leaf) (MakeHandle (leaf_id idx) 0) (MakeHandle 1 (leaf_id idx))]"
  by (simp add: leaf_steps_def leaf_id_def Let_def)

fun leaf_requests :: "nat \<Rightarrow> leafConfig list \<Rightarrow> nl_request list" where
  "leaf_requests k [] = []"
| "leaf_requests k (leaf # leaves) = map fst (leaf_steps k leaf) @ leaf_requests (Suc k) leaves"

lemma leaf_requests_zip:
  "map fst (concat (map (\<lambda>(idx, leaf). leaf_steps idx leaf) (zip [k..<k + length leaves] leaves))) =
   leaf_requests k leaves"
proof (induction leaves arbitrary: k)
  case (Cons leaf leaves)
  have "[k..<k + length (leaf # leaves)] = k # [Suc k..<Suc k + length leaves]"
    by (simp add: upt_conv_Cons del: upt_Suc)
  with Cons [of "Suc k"] show ?case by (simp del: upt_Suc)
qed simp

lemma createLeafQdiscs_requests: "map fst (createLeafQdiscs leaves) = leaf_requests 0 leaves"
  using leaf_requests_zip [of 0 leaves] by (simp add: createLeafQdiscs_def)

lemma created_leaves:
  "\<forall>leaf \<in> set leaves. Iface leaf = i \<Longrightarrow>
   created_all (leaf_requests k leaves) =
   (\<lambda>idx. (i, MakeHandle 1 (leaf_id idx))) ` {k..<k + length leaves} \<union>
   (\<lambda>idx. (i, MakeHandle (leaf_id idx) 0)) ` {k..<k + length leaves}"
proof (induction leaves arbitrary: k)
  case (Cons leaf leaves)
  have "{k..<k + length (leaf # leaves)} = insert k {Suc k..<Suc k + length leaves}" by auto
  with Cons show ?case by (auto simp: leaf_steps_eq)
qed simp

lemma well_ordered_leaves:
  assumes "\<forall>leaf \<in> set leaves. Iface leaf = i" and "k + length leaves \<le> 4095" and "(i, MakeHandle 1 1) \<in> seen"
    and "\<And>idx. k \<le> idx \<Longrightarrow> idx < 4095 \<Longrightarrow> (i, MakeHandle 1 (leaf_id idx)) \<notin> seen \<and> (i, MakeHandle (leaf_id idx) 0) \<notin> seen"
  shows "well_ordered seen (leaf_requests k leaves)"
  using assms
proof (induction leaves arbitrary: k seen)
  case (Cons leaf leaves)
  let ?h = "(i, MakeHandle 1 (leaf_id k))" and ?q = "(i, MakeHandle (leaf_id k) 0)"
  have k: "k < 4095" using Cons.prems(2) by simp
  have id: "leaf_id idx \<noteq> 0" "leaf_id idx \<noteq> 1" if "idx < 4095" for idx
    using unat_leaf_id [OF that] by auto
  have "well_ordered (insert ?q (insert ?h seen)) (leaf_requests (Suc k) leaves)"
  proof (rule Cons.IH)
    fix idx
    assume "Suc k \<le> idx" "idx < 4095"
    then show "(i, MakeHandle 1 (leaf_id idx)) \<notin> insert ?q (insert ?h seen) \<and>
        (i, MakeHandle (leaf_id idx) 0) \<notin> insert ?q (insert ?h seen)"
      using Cons.prems(4) [of idx] id [of idx] id [OF k] leaf_id_inject [of idx k] k by auto
  qed (use Cons.prems in auto)
  then show ?case
    using Cons.prems(1,3) Cons.prems(4) [of k] id [OF k] k by (auto simp: leaf_steps_eq)
qed simp

lemma run_steps_all: "\<forall>sent req. ok sent req \<Longrightarrow> run_steps ok ss sent = (sent @ map fst ss, True)"
  by (induction ss arbitrary: sent) auto

lemma lan_steps_requests:
  "map fst (lan_steps i leaves) =
   [QdiscDel i HANDLE_ROOT, AddHtb i (MakeHandle 1 0) HANDLE_ROOT 0x10,
    AddHtbClass i (MakeHandle 1 1) (MakeHandle 1 0) (word_of_int (100 * MBit)) (word_of_int (100 * MBit))] @
   leaf_requests 0 leaves @ map fst (recreateBpfQdisc i)"
  by (simp add: lan_steps_def createLeafQdiscs_requests)

lemma recreateBpfQdisc_requests:
  "map fst (recreateBpfQdisc i) = [QdiscDel i HANDLE_CLSACT, AddClsact i (MakeHandle 0xffff 0) HANDLE_CLSACT]"
  by (simp add: recreateBpfQdisc_def)

definition setup_requests :: "int \<Rightarrow> int \<Rightarrow> leafConfig list \<Rightarrow> nl_request list" where
  "setup_requests lan wan leaves = map fst (lan_steps lan leaves) @ map fst (recreateBpfQdisc wan)"

lemma leaf_id_not:
  assumes "idx < 4095"
  shows "leaf_id idx \<noteq> 0" "leaf_id idx \<noteq> 1" "leaf_id idx \<noteq> 0xffff"
proof -
  have "unat (leaf_id idx) mod 16 = 0" "unat (leaf_id idx) \<noteq> 0"
    using unat_leaf_id [OF assms] by simp_all
  then show "leaf_id idx \<noteq> 0" "leaf_id idx \<noteq> 1" "leaf_id idx \<noteq> 0xffff" by auto
qed

lemma setup_well_ordered:
  assumes "\<forall>leaf \<in> set leaves. Iface leaf = lan" and "length leaves \<le> 4095" and "lan \<noteq> wan"
  shows "well_ordered {} (setup_requests lan wan leaves)"
proof -
  let ?top = "{(lan, MakeHandle 1 1), (lan, MakeHandle 1 0)}"
  have leaves: "well_ordered ?top (leaf_requests 0 leaves)"
    by (rule well_ordered_leaves [OF assms(1)]) (use assms(2) leaf_id_not in auto)
  have "(lan, MakeHandle 0xffff 0) \<notin> ?top \<union> created_all (leaf_requests 0 leaves)"
    using leaf_id_not assms(2) by (auto simp: created_leaves [OF assms(1)])
  moreover have "(wan, MakeHandle 0xffff 0) \<notin> ?top \<union> created_all (leaf_requests 0 leaves)"
    using assms(3) by (auto simp: created_leaves [OF assms(1)])
  ultimately show ?thesis
    using leaves assms(3)
    by (simp add: setup_requests_def lan_steps_requests recreateBpfQdisc_requests well_ordered_append insert_commute)
qed

lemma setup_classes:
  assumes "\<forall>leaf \<in> set leaves. Iface leaf = lan" and "length leaves \<le> 4095" and "lan \<noteq> wan"
  shows "{c. (lan, MakeHandle 1 c) \<in> created_all (setup_requests lan wan leaves)} =
    {0, 1} \<union> leaf_id ` {0..<length leaves}"
  using leaf_id_not assms(2,3)
  by (auto simp: setup_requests_def lan_steps_requests recreateBpfQdisc_requests created_leaves [OF assms(1)])

lemma createQdiscs_all_ok:
  assumes "rates_ok cfg" and "ifidx (LanInterface cfg) = Some lan" and "ifidx (WanInterface cfg) = Some wan"
    and "\<forall>sent req. ok sent req"
  shows "\<exists>leaves. createQdiscs fused ok ifidx cfg = Some (setup_requests lan wan leaves, True) \<and>
    int (length leaves) = NumQdiscClasses cfg + 1 \<and> (\<forall>leaf \<in> set leaves. Iface leaf = lan)"
proof -
  have n: "1 \<le> NumQdiscClasses cfg" using assms(1) by (simp add: rates_ok_def)
  obtain first where first: "generateQdiscLeafNodes fused cfg lan =
      Some (first # map (leaf_at fused cfg lan) [1..NumQdiscClasses cfg])" "Iface first = lan"
    using generate_leaves_eq [OF assms(1), of fused lan] by force
  let ?leaves = "first # map (leaf_at fused cfg lan) [1..NumQdiscClasses cfg]"
  have "createQdiscs fused ok ifidx cfg = Some (setup_requests lan wan ?leaves, True)"
    by (simp add: createQdiscs_def assms(2,3) first(1) run_steps_all [OF assms(4)] setup_requests_def)
  moreover have "int (length ?leaves) = NumQdiscClasses cfg + 1" using n by simp
  moreover have "\<forall>leaf \<in> set ?leaves. Iface leaf = lan"
    using first(2) leaf_at_props(6) [OF assms(1)] by auto
  ultimately show ?thesis by blast
qed

lemma ints_from_one: "{1..n + 1} = (\<lambda>i. i + 1) ` {0..<n + 1 :: int}"
proof (intro set_eqI iffI)
  fix x
  assume "x \<in> {1..n + 1}"
  then have "x = (x - 1) + 1" "x - 1 \<in> {0..<n + 1}" by auto
  then show "x \<in> (\<lambda>i. i + 1) ` {0..<n + 1}" by (rule image_eqI)
qed auto

lemma createQdiscs_setup:
  assumes "rates_ok cfg" and "NumQdiscClasses cfg < 4095" and "ifidx (LanInterface cfg) = Some lan"
    and "ifidx (WanInterface cfg) = Some wan" and "lan \<noteq> wan" and "\<forall>sent req. ok sent req"
  shows "\<exists>reqs. createQdiscs fused ok ifidx cfg = Some (reqs, True) \<and> well_ordered {} reqs \<and>
    {c. (lan, MakeHandle 1 c) \<in> created_all reqs} =
      {0, 1} \<union> (\<lambda>l. word_of_int (16 * l)) ` {1..NumQdiscClasses cfg + 1}"
proof -
  obtain leaves where leaves: "createQdiscs fused ok ifidx cfg = Some (setup_requests lan wan leaves, True)"
    "int (length leaves) = NumQdiscClasses cfg + 1" "\<forall>leaf \<in> set leaves. Iface leaf = lan"
    using createQdiscs_all_ok [OF assms(1,3,4,6)] by blast
  have len: "length leaves \<le> 4095" using leaves(2) assms(2) by simp
  have "leaf_id ` {0..<length leaves} = (\<lambda>l. word_of_int (16 * l)) ` {1..NumQdiscClasses cfg + 1}"
  proof -
    have "{1..NumQdiscClasses cfg + 1} = (\<lambda>i. i + 1) ` {0..<int (length leaves)}"
      unfolding leaves(2) by (rule ints_from_one)
    also have "{0..<int (length leaves)} = int ` {0..<length leaves}"
      by (simp add: image_int_atLeastLessThan)
    finally have "{1..NumQdiscClasses cfg + 1} = (\<lambda>idx. int idx + 1) ` {0..<length leaves}"
      by (simp only: image_image)
    then show ?thesis by (simp add: image_image leaf_id_def algebra_simps)
  qed
  with leaves setup_well_ordered [OF leaves(3) len assms(5)] setup_classes [OF leaves(3) len assms(5)]
  show ?thesis by (intro exI [of _ "setup_requests lan wan leaves"]) simp
qed

text \<open>C22: When the interfaces exist and the kernel accepts the requests, every request creates something new
  below something made before, and the classes below the root qdisc of the LAN interface are the
  root class and one leaf class for each level from 1 to one more than the configured number,
  with 16 times the level as its handle.\<close>

theorem qdisc_setup:
  assumes "rates_ok cfg" and "NumQdiscClasses cfg < 4095" and "ifidx (LanInterface cfg) = Some lan"
    and "ifidx (WanInterface cfg) = Some wan" and "lan \<noteq> wan" and "\<forall>sent req. ok sent req"
  shows "\<exists>reqs. createQdiscs fused ok ifidx cfg = Some (reqs, True) \<and> well_ordered {} reqs \<and>
    {c. (lan, MakeHandle 1 c) \<in> created_all reqs} =
      {0, 1} \<union> (\<lambda>l. word_of_int (16 * l)) ` {1..NumQdiscClasses cfg + 1}"
  using assms by (rule createQdiscs_setup)

theorem qdisc_setup_witness:
  "\<exists>reqs. createQdiscs False (\<lambda>_ _. True) [''lan0'' \<mapsto> 2, ''eth0'' \<mapsto> 3] baseConfig = Some (reqs, True) \<and>
     well_ordered {} reqs \<and>
     {c. (2, MakeHandle 1 c) \<in> created_all reqs} = {0, 1} \<union> (\<lambda>l. word_of_int (16 * l)) ` {1..6}"
  using qdisc_setup [of baseConfig "[''lan0'' \<mapsto> 2, ''eth0'' \<mapsto> 3]" 2 3 "\<lambda>_ _. True" False]
  by (simp add: rates_ok_def baseConfig_def)

section \<open>When the kernel refuses\<close>

lemma run_steps_prefix:
  "run_steps ok ss sent = (sent', running) \<Longrightarrow>
   \<exists>n. sent' = sent @ map fst (take n ss) \<and> (running \<longrightarrow> n = length ss) \<and>
     (\<not> running \<longrightarrow> 0 < n \<and> n \<le> length ss \<and> snd (ss ! (n - 1)) \<and> \<not> ok (butlast sent') (last sent'))"
proof (induction ss arbitrary: sent)
  case (Cons s ss)
  obtain req fatal where s: "s = (req, fatal)" by (cases s)
  show ?case
  proof (cases "fatal \<and> \<not> ok sent req")
    case True
    with Cons.prems show ?thesis by (intro exI [of _ 1]) (auto simp: s)
  next
    case False
    with Cons.prems have "run_steps ok ss (sent @ [req]) = (sent', running)" by (simp add: s)
    from Cons.IH [OF this] obtain n where n: "sent' = (sent @ [req]) @ map fst (take n ss)"
      "running \<longrightarrow> n = length ss"
      "\<not> running \<longrightarrow> 0 < n \<and> n \<le> length ss \<and> snd (ss ! (n - 1)) \<and> \<not> ok (butlast sent') (last sent')"
      by blast
    then show ?thesis by (intro exI [of _ "Suc n"]) (auto simp: s nth_Cons')
  qed
qed auto

text \<open>A request that is refused ends the process, and is the last one sent, unless it deletes an old
  qdisc: those fail on a fresh interface and the code goes on.\<close>

theorem refused_request_is_last:
  assumes "createQdiscs fused ok ifidx cfg = Some (sent, False)"
    and "ifidx (LanInterface cfg) = Some lan" and "ifidx (WanInterface cfg) = Some wan"
  shows "sent \<noteq> [] \<and> \<not> ok (butlast sent) (last sent) \<and> (\<forall>i p. last sent \<noteq> QdiscDel i p)"
proof -
  have del: "\<forall>s \<in> set (lan_steps i leaves) \<union> set (recreateBpfQdisc j). snd s \<longrightarrow> (\<forall>k p. fst s \<noteq> QdiscDel k p)"
    for i j leaves
    by (auto simp: lan_steps_def recreateBpfQdisc_def createLeafQdiscs_def leaf_steps_def Let_def)
  have stop: "sent \<noteq> [] \<and> \<not> ok (butlast sent) (last sent) \<and> (\<forall>i p. last sent \<noteq> QdiscDel i p)"
    if run: "run_steps ok ss before = (sent, False)" and ss: "\<forall>s \<in> set ss. snd s \<longrightarrow> (\<forall>k p. fst s \<noteq> QdiscDel k p)"
    for ss before
  proof -
    obtain n where n: "sent = before @ map fst (take n ss)" "0 < n" "n \<le> length ss" "snd (ss ! (n - 1))"
      "\<not> ok (butlast sent) (last sent)"
      using run_steps_prefix [OF run] by auto
    then have ne: "take n ss \<noteq> []" by auto
    then have "last (take n ss) = ss ! (n - 1)"
      using n(2,3) by (simp add: last_conv_nth min_def)
    with ne have "last sent = fst (ss ! (n - 1))" "sent \<noteq> []"
      using n(1) by (auto simp: last_map)
    with n ss show ?thesis by (metis diff_less less_le_trans nth_mem zero_less_one)
  qed
  obtain leaves where leaves: "generateQdiscLeafNodes fused cfg lan = Some leaves"
    using assms(1,2) by (auto simp: createQdiscs_def split: bind_splits)
  obtain s1 r1 where run: "run_steps ok (lan_steps lan leaves) [] = (s1, r1)" by force
  show ?thesis
  proof (cases r1)
    case True
    then have "run_steps ok (recreateBpfQdisc wan) s1 = (sent, False)"
      using assms leaves run by (simp add: createQdiscs_def)
    then show ?thesis by (rule stop) (use del in blast)
  next
    case False
    then have "run_steps ok (lan_steps lan leaves) [] = (sent, False)"
      using assms leaves run by (simp add: createQdiscs_def)
    then show ?thesis by (rule stop) (use del in blast)
  qed
qed

definition demo_requests :: "nl_request list" where
  "demo_requests = [QdiscDel 2 HANDLE_ROOT, AddHtb 2 (MakeHandle 1 0) HANDLE_ROOT 0x10]"

theorem refused_request_is_last_witness:
  "createQdiscs False (\<lambda>sent req. False) [''lan0'' \<mapsto> 2, ''eth0'' \<mapsto> 3] baseConfig = Some (demo_requests, False) \<and>
   demo_requests \<noteq> [] \<and> (\<forall>i p. last demo_requests \<noteq> QdiscDel i p)"
proof -
  have "rates_ok baseConfig" by (simp add: rates_ok_def baseConfig_def)
  then have *: "createQdiscs False (\<lambda>sent req. False) [''lan0'' \<mapsto> 2, ''eth0'' \<mapsto> 3] baseConfig = Some (demo_requests, False)"
    by (simp add: createQdiscs_def generate_leaves_eq lan_steps_def demo_requests_def)
      (simp add: baseConfig_def)
  from refused_request_is_last [OF this, of 2 3] * show ?thesis by (simp add: baseConfig_def)
qed

end
