(* ===== verification/GoMatch.thy ===== *)
theory GoMatch
  imports Prelude "HOL-Library.Sublist"
begin

text \<open>
  Go's \<open>filepath.Match\<close> on Unix, which \<open>getMatchingGlobGroup\<close> of \<open>handlers/handlers.go\<close> uses to
  find the glob group of a domain name: the pattern is read in chunks between stars, and a chunk
  after a star is matched at the leftmost place where it fits, without going back. A pattern with
  a syntax error never matches. Names are read byte by byte, as domain names are ASCII.
\<close>

section \<open>Patterns\<close>

datatype item = Lit char | AnyChar | CharClass bool "(char \<times> char) list"

datatype token = Star | Item item

text \<open>\<open>getEsc\<close>: a possibly escaped character of a class, after which the pattern must go on.\<close>

fun get_esc :: "string \<Rightarrow> (char \<times> string) option" where
  "get_esc [] = None"
| "get_esc (c # cs) =
     (if c = CHR ''-'' \<or> c = CHR '']'' then None
      else if c = CHR 0x5C then
        (case cs of r # r' # rest \<Rightarrow> Some (r, r' # rest) | _ \<Rightarrow> None)
      else if cs = [] then None else Some (c, cs))"

lemma get_esc_shorter: "get_esc s = Some (c, s') \<Longrightarrow> length s' < length s \<and> s' \<noteq> []"
  by (cases s) (auto split: if_splits list.splits)

text \<open>The ranges of a class up to its closing bracket; there must be one.\<close>

function class_ranges :: "string \<Rightarrow> (char \<times> char) list \<Rightarrow> ((char \<times> char) list \<times> string) option" where
  "class_ranges s acc =
     (if s \<noteq> [] \<and> hd s = CHR '']'' \<and> acc \<noteq> [] then Some (acc, tl s)
      else case get_esc s of
          None \<Rightarrow> None
        | Some (lo, s1) \<Rightarrow>
            if hd s1 = CHR ''-'' then
              (case get_esc (tl s1) of
                 None \<Rightarrow> None
               | Some (hi, s2) \<Rightarrow> class_ranges s2 (acc @ [(lo, hi)]))
            else class_ranges s1 (acc @ [(lo, lo)]))"
  by pat_completeness auto
termination
  by (relation "measure (\<lambda>(s, acc). length s)") (auto dest!: get_esc_shorter)

declare class_ranges.simps [simp del]

lemma class_ranges_shorter: "class_ranges s acc = Some (rs, s') \<Longrightarrow> length s' < length s"
proof (induction s acc arbitrary: rs s' rule: class_ranges.induct)
  case (1 s acc)
  show ?case
  proof (cases "s \<noteq> [] \<and> hd s = CHR '']'' \<and> acc \<noteq> []")
    case True
    with 1(3) show ?thesis by (auto simp: class_ranges.simps [of s])
  next
    case False
    with 1(3) obtain lo s1 where lo: "get_esc s = Some (lo, s1)"
      by (auto simp: class_ranges.simps [of s] split: option.splits)
    show ?thesis
    proof (cases "hd s1 = CHR ''-''")
      case True
      with False lo 1(3) obtain hi s2 where hi: "get_esc (tl s1) = Some (hi, s2)"
        and rec: "class_ranges s2 (acc @ [(lo, hi)]) = Some (rs, s')"
        by (auto simp: class_ranges.simps [of s] split: option.splits)
      have "length s' < length s2" by (rule 1(1) [OF False lo refl True hi refl rec])
      with get_esc_shorter [OF lo] get_esc_shorter [OF hi] show ?thesis
        by (simp add: less_diff_conv)
    next
      case no: False
      with False lo 1(3) have rec: "class_ranges s1 (acc @ [(lo, lo)]) = Some (rs, s')"
        by (auto simp: class_ranges.simps [of s])
      have "length s' < length s1" by (rule 1(2) [OF False lo refl no rec])
      with get_esc_shorter [OF lo] show ?thesis by simp
    qed
  qed
qed

function tokens :: "string \<Rightarrow> token list option" where
  "tokens [] = Some []"
| "tokens (c # cs) =
     (if c = CHR ''*'' then map_option (Cons Star) (tokens cs)
      else if c = CHR ''?'' then map_option (Cons (Item AnyChar)) (tokens cs)
      else if c = CHR ''['' then
        (let negated = (cs \<noteq> [] \<and> hd cs = CHR ''^'')
         in case class_ranges (if negated then tl cs else cs) [] of
              None \<Rightarrow> None
            | Some (rs, rest) \<Rightarrow> map_option (Cons (Item (CharClass negated rs))) (tokens rest))
      else if c = CHR 0x5C then
        (case cs of [] \<Rightarrow> None | d # ds \<Rightarrow> map_option (Cons (Item (Lit d))) (tokens ds))
      else map_option (Cons (Item (Lit c))) (tokens cs))"
  by pat_completeness auto
termination
  by (relation "measure length") (auto dest!: class_ranges_shorter split: if_splits)

text \<open>\<open>scanChunk\<close>: whether stars come first, the items up to the next star, and the rest.\<close>

fun chunk_of :: "token list \<Rightarrow> item list \<times> token list" where
  "chunk_of [] = ([], [])"
| "chunk_of (Star # ts) = ([], Star # ts)"
| "chunk_of (Item i # ts) = (let (is, rest) = chunk_of ts in (i # is, rest))"

lemma chunk_of_shorter: "length (snd (chunk_of ts)) \<le> length ts"
  by (induction ts rule: chunk_of.induct) (auto simp: case_prod_beta)

definition scan_chunk :: "token list \<Rightarrow> bool \<times> item list \<times> token list" where
  "scan_chunk ts =
     (ts \<noteq> [] \<and> hd ts = Star, chunk_of (dropWhile (\<lambda>t. t = Star) ts))"

section \<open>Matching\<close>

definition separator :: char where
  "separator = CHR ''/''"

fun item_matches :: "item \<Rightarrow> char \<Rightarrow> bool" where
  "item_matches (Lit d) c \<longleftrightarrow> c = d"
| "item_matches AnyChar c \<longleftrightarrow> c \<noteq> separator"
| "item_matches (CharClass negated rs) c \<longleftrightarrow>
     list_ex (\<lambda>(lo, hi). of_char lo \<le> (of_char c :: nat) \<and> of_char c \<le> (of_char hi :: nat)) rs \<noteq> negated"

text \<open>\<open>matchChunk\<close>: the rest of the name after the chunk.\<close>

fun match_chunk :: "item list \<Rightarrow> string \<Rightarrow> string option" where
  "match_chunk [] s = Some s"
| "match_chunk (i # is) [] = None"
| "match_chunk (i # is) (c # cs) = (if item_matches i c then match_chunk is cs else None)"

text \<open>The loop after a star: skip one character more until the chunk fits; of the last chunk, until
  it fits and nothing is left.\<close>

fun skip_match :: "item list \<Rightarrow> bool \<Rightarrow> string \<Rightarrow> string option" where
  "skip_match chunk last_chunk [] = None"
| "skip_match chunk last_chunk (c # cs) =
     (if c = separator then None
      else case match_chunk chunk cs of
          Some t \<Rightarrow> if last_chunk \<and> t \<noteq> [] then skip_match chunk last_chunk cs else Some t
        | None \<Rightarrow> skip_match chunk last_chunk cs)"

lemma scan_chunk_shorter:
  assumes "ts \<noteq> []" and "scan_chunk ts = (star, chunk, rest)"
  shows "length rest < length ts"
proof (cases ts)
  case (Cons t ts')
  have "length rest \<le> length (dropWhile (\<lambda>t. t = Star) ts)"
    using chunk_of_shorter assms(2) by (metis scan_chunk_def snd_conv)
  moreover have "length (dropWhile (\<lambda>t. t = Star) ts') \<le> length ts'"
    by (rule length_dropWhile_le)
  moreover have "length rest \<le> length ts'" if "t = Item i" for i
    using assms(2) that Cons chunk_of_shorter [of ts'] by (auto simp: scan_chunk_def case_prod_beta)
  ultimately show ?thesis using Cons by (cases t) auto
qed (use assms in simp)

function match_tokens :: "token list \<Rightarrow> string \<Rightarrow> bool" where
  "match_tokens ts name =
     (if ts = [] then name = []
      else let (star, chunk, rest) = scan_chunk ts
        in if star \<and> chunk = [] then separator \<notin> set name
           else case match_chunk chunk name of
               Some t \<Rightarrow>
                 if t = [] \<or> rest \<noteq> [] then match_tokens rest t
                 else if star then
                   (case skip_match chunk (rest = []) name of None \<Rightarrow> False | Some t' \<Rightarrow> match_tokens rest t')
                 else False
             | None \<Rightarrow>
                 if star then
                   (case skip_match chunk (rest = []) name of None \<Rightarrow> False | Some t' \<Rightarrow> match_tokens rest t')
                 else False)"
  by pat_completeness auto

termination
  by (relation "measure (\<lambda>(ts, name). length ts)") (auto dest: scan_chunk_shorter [OF _ sym])

definition filepath_Match :: "string \<Rightarrow> string \<Rightarrow> bool" where
  "filepath_Match pat name = (case tokens pat of None \<Rightarrow> False | Some ts \<Rightarrow> match_tokens ts name)"

section \<open>The documented meaning\<close>

text \<open>A star stands for any characters but the separator; an item for one character it matches.\<close>

fun glob_matches :: "token list \<Rightarrow> string \<Rightarrow> bool" where
  "glob_matches [] name \<longleftrightarrow> name = []"
| "glob_matches (Star # ts) name \<longleftrightarrow>
     (\<exists>k \<le> length name. separator \<notin> set (take k name) \<and> glob_matches ts (drop k name))"
| "glob_matches (Item i # ts) name \<longleftrightarrow> name \<noteq> [] \<and> item_matches i (hd name) \<and> glob_matches ts (tl name)"

lemma match_tokens_unfold:
  "match_tokens [] name \<longleftrightarrow> name = []"
  "ts \<noteq> [] \<Longrightarrow> scan_chunk ts = (star, chunk, rest) \<Longrightarrow>
   match_tokens ts name \<longleftrightarrow>
     (if star \<and> chunk = [] then separator \<notin> set name
      else case match_chunk chunk name of
          Some t \<Rightarrow>
            if t = [] \<or> rest \<noteq> [] then match_tokens rest t
            else star \<and> (case skip_match chunk (rest = []) name of None \<Rightarrow> False | Some t' \<Rightarrow> match_tokens rest t')
        | None \<Rightarrow> star \<and> (case skip_match chunk (rest = []) name of None \<Rightarrow> False | Some t' \<Rightarrow> match_tokens rest t'))"
  by (subst match_tokens.simps; auto split: option.split)+

declare match_tokens.simps [simp del]

text \<open>Chunks.\<close>

lemma chunk_of_tokens: "ts = map Item (fst (chunk_of ts)) @ snd (chunk_of ts)"
  by (induction ts rule: chunk_of.induct) (auto simp: case_prod_beta)

lemma chunk_of_rest: "snd (chunk_of ts) = [] \<or> hd (snd (chunk_of ts)) = Star"
  by (induction ts rule: chunk_of.induct) (auto simp: case_prod_beta)

lemma glob_matches_items:
  "glob_matches (map Item is @ ts) name \<longleftrightarrow> (\<exists>t. match_chunk is name = Some t \<and> glob_matches ts t)"
  by (induction "is" name rule: match_chunk.induct) auto

text \<open>In a name without the separator a star stands for any characters.\<close>

lemma glob_matches_star:
  assumes "separator \<notin> set name"
  shows "glob_matches (Star # ts) name \<longleftrightarrow> (\<exists>t. suffix t name \<and> glob_matches ts t)"
proof
  assume "glob_matches (Star # ts) name"
  then obtain k where "glob_matches ts (drop k name)" by auto
  then show "\<exists>t. suffix t name \<and> glob_matches ts t" using suffix_drop by blast
next
  assume "\<exists>t. suffix t name \<and> glob_matches ts t"
  then obtain p t where name: "name = p @ t" "glob_matches ts t" by (auto simp: suffix_def)
  then show "glob_matches (Star # ts) name"
    using assms by (auto intro!: exI [of _ "length p"])
qed

lemma suffix_no_separator: "suffix t name \<Longrightarrow> separator \<notin> set name \<Longrightarrow> separator \<notin> set t"
  using set_mono_suffix by blast

lemma glob_matches_longer:
  assumes "hd ts = Star" and "ts \<noteq> []" and "separator \<notin> set s" and "suffix t s" and "glob_matches ts t"
  shows "glob_matches ts s"
proof -
  obtain us where ts: "ts = Star # us" using assms(1,2) by (cases ts) auto
  from assms(3-5) glob_matches_star [OF suffix_no_separator [OF assms(4,3)], of us]
  obtain u where "suffix u t" "glob_matches us u" by (auto simp: ts)
  with assms(4) have "suffix u s" by (blast intro: suffix_order.trans)
  with \<open>glob_matches us u\<close> glob_matches_star [OF assms(3)] show ?thesis by (auto simp: ts)
qed

lemma glob_matches_stars:
  assumes "separator \<notin> set name"
  shows "glob_matches (Star # dropWhile (\<lambda>t. t = Star) ts) name = glob_matches (Star # ts) name"
proof (induction ts)
  case (Cons t ts)
  have "glob_matches (Star # Star # ts) name = glob_matches (Star # ts) name"
    using glob_matches_star [OF assms] glob_matches_longer [of "Star # ts" name, OF _ _ assms]
      suffix_order.refl by (metis list.sel(1) list.discI)
  with Cons show ?case by (cases t) simp_all
qed simp

text \<open>The first place of a name where a chunk fits.\<close>

fun first_fit :: "item list \<Rightarrow> bool \<Rightarrow> string \<Rightarrow> string option" where
  "first_fit chunk last_chunk s =
     (case match_chunk chunk s of
        Some t \<Rightarrow> if last_chunk \<and> t \<noteq> [] then (case s of [] \<Rightarrow> None | c # cs \<Rightarrow> first_fit chunk last_chunk cs) else Some t
      | None \<Rightarrow> (case s of [] \<Rightarrow> None | c # cs \<Rightarrow> first_fit chunk last_chunk cs))"

declare first_fit.simps [simp del]

lemma skip_match_first_fit:
  "separator \<notin> set (c # cs) \<Longrightarrow> skip_match chunk lc (c # cs) = first_fit chunk lc cs"
proof (induction cs arbitrary: c)
  case (Cons d ds)
  have "skip_match chunk lc (d # ds) = first_fit chunk lc ds"
    using Cons.prems by (intro Cons.IH) auto
  with Cons.prems show ?case
    by (subst skip_match.simps, subst first_fit.simps) (auto simp del: skip_match.simps split: option.split)
qed (subst first_fit.simps, auto split: option.split)

lemma match_or_skip:
  assumes "separator \<notin> set name"
  shows "first_fit chunk lc name =
    (case match_chunk chunk name of
       Some t \<Rightarrow> if t = [] \<or> \<not> lc then Some t else skip_match chunk lc name
     | None \<Rightarrow> skip_match chunk lc name)"
proof (cases name)
  case Nil
  then show ?thesis by (subst first_fit.simps) (auto split: option.split)
next
  case (Cons c cs)
  with assms skip_match_first_fit [of c cs chunk lc] have "skip_match chunk lc name = first_fit chunk lc cs"
    by (simp only: not_False_eq_True)
  with Cons show ?thesis by (subst first_fit.simps) (auto split: option.split)
qed

lemma first_fit_sound:
  "first_fit chunk lc s = Some u \<Longrightarrow> \<exists>t. suffix t s \<and> match_chunk chunk t = Some u \<and> (lc \<longrightarrow> u = [])"
proof (induction s)
  case Nil
  then show ?case by (subst (asm) first_fit.simps) (auto split: option.splits if_splits)
next
  case (Cons c cs)
  show ?case
  proof (cases "match_chunk chunk (c # cs) = Some u \<and> (lc \<longrightarrow> u = [])")
    case False
    with Cons.prems have "first_fit chunk lc cs = Some u"
      by (subst (asm) first_fit.simps) (auto split: option.splits if_splits)
    from Cons.IH [OF this] show ?thesis by (blast intro: suffix_ConsI)
  qed blast
qed

lemma match_chunk_drop: "match_chunk is s = Some t \<Longrightarrow> length is \<le> length s \<and> t = drop (length is) s"
  by (induction "is" s rule: match_chunk.induct) (auto split: if_splits)

lemma first_fit_complete:
  assumes "suffix t s" and "match_chunk chunk t = Some u" and "lc \<longrightarrow> u = []"
  shows "\<exists>u0. first_fit chunk lc s = Some u0 \<and> suffix u u0"
  using assms(1)
proof (induction s)
  case Nil
  with assms(2,3) show ?case by (subst first_fit.simps) auto
next
  case (Cons c cs)
  show ?case
  proof (cases "\<exists>u0. match_chunk chunk (c # cs) = Some u0 \<and> (lc \<longrightarrow> u0 = [])")
    case True
    then obtain u0 where u0: "match_chunk chunk (c # cs) = Some u0" "lc \<longrightarrow> u0 = []" by blast
    have "suffix (drop (length chunk) t) (drop (length chunk) (c # cs))"
    proof -
      obtain p where p: "c # cs = p @ t" using Cons.prems by (auto simp: suffix_def)
      then have "drop (length chunk) (c # cs) = drop (length chunk) p @ drop (length chunk - length p) t" by simp
      moreover have "suffix (drop (length chunk) t) (drop (length chunk - length p) t)"
        using suffix_drop [of "length chunk - (length chunk - length p)" "drop (length chunk - length p) t"]
        by simp
      ultimately show ?thesis by (metis suffix_appendI)
    qed
    with u0 match_chunk_drop [OF assms(2)] match_chunk_drop [OF u0(1)]
    have "suffix u u0" by simp
    with u0 show ?thesis by (subst first_fit.simps) auto
  next
    case False
    with assms(2,3) have "t \<noteq> c # cs" by auto
    with Cons.prems have "suffix t cs" by (auto simp: suffix_Cons)
    from Cons.IH [OF this] False show ?thesis
      by (subst first_fit.simps) (auto split: option.split)
  qed
qed

lemma glob_matches_scan:
  assumes "scan_chunk ts = (star, chunk, rest)" and "separator \<notin> set name"
  shows "glob_matches ts name \<longleftrightarrow>
      (\<exists>t u. (if star then suffix t name else t = name) \<and> match_chunk chunk t = Some u \<and> glob_matches rest u)"
    and "rest = [] \<or> hd rest = Star" and "star \<Longrightarrow> chunk = [] \<Longrightarrow> rest = []"
proof -
  let ?us = "dropWhile (\<lambda>t. t = Star) ts"
  have scan: "star \<longleftrightarrow> ts \<noteq> [] \<and> hd ts = Star" "chunk_of ?us = (chunk, rest)"
    using assms(1) by (auto simp: scan_chunk_def)
  then have us: "?us = map Item chunk @ rest" using chunk_of_tokens [of ?us] by simp
  have "glob_matches ts name = (if star then glob_matches (Star # ?us) name else glob_matches ?us name)"
  proof (cases star)
    case True
    then obtain ts' where "ts = Star # ts'" using scan(1) by (cases ts) auto
    then show ?thesis using True glob_matches_stars [OF assms(2), of ts'] by simp
  next
    case False
    then show ?thesis using scan(1) by (cases ts) auto
  qed
  then show "glob_matches ts name \<longleftrightarrow>
      (\<exists>t u. (if star then suffix t name else t = name) \<and> match_chunk chunk t = Some u \<and> glob_matches rest u)"
    unfolding us by (auto simp: glob_matches_star [OF assms(2)] glob_matches_items simp del: glob_matches.simps(2))
  show "rest = [] \<or> hd rest = Star" using chunk_of_rest [of ?us] scan(2) by simp
  show "rest = []" if "star" "chunk = []"
  proof -
    have "?us = [] \<or> hd ?us \<noteq> Star" using hd_dropWhile [of "\<lambda>t. t = Star" ts] by blast
    moreover have "rest = ?us" using us that by simp
    ultimately show ?thesis using chunk_of_rest [of ?us] scan(2) by auto
  qed
qed

lemma match_tokens_glob:
  "separator \<notin> set name \<Longrightarrow> match_tokens ts name = glob_matches ts name"
proof (induction "length ts" arbitrary: ts name rule: less_induct)
  case less
  show ?case
  proof (cases "ts = []")
    case False
    obtain star chunk rest where scan: "scan_chunk ts = (star, chunk, rest)" by (metis surj_pair)
    note step = match_tokens_unfold(2) [OF False scan, of name] and spec = glob_matches_scan [OF scan less.prems]
    have IH: "match_tokens rest u = glob_matches rest u" if "suffix u name" for u
      using less.hyps [OF scan_chunk_shorter [OF False scan]] suffix_no_separator [OF that less.prems] by blast
    have end_only: "glob_matches rest u \<Longrightarrow> rest = [] \<longrightarrow> u = []" for u by auto
    show ?thesis
    proof (cases "star \<and> chunk = []")
      case True
      then have "glob_matches ts name" using spec(1,3) by (auto simp: suffix_def intro!: exI [of _ "[]"])
      with True less.prems show ?thesis by (simp add: step)
    next
      case chunk: False
      show ?thesis
      proof (cases star)
        case True
        have fit: "match_tokens ts name \<longleftrightarrow> (case first_fit chunk (rest = []) name of None \<Rightarrow> False | Some u \<Rightarrow> match_tokens rest u)"
          using chunk True by (auto simp: step match_or_skip [OF less.prems] split: option.split)
        have "match_tokens ts name \<longleftrightarrow> (\<exists>u. first_fit chunk (rest = []) name = Some u \<and> glob_matches rest u)"
          unfolding fit using first_fit_sound match_chunk_drop IH
          by (auto split: option.split) (metis suffix_drop suffix_order.trans)+
        also have "\<dots> \<longleftrightarrow> glob_matches ts name"
        proof
          assume "\<exists>u. first_fit chunk (rest = []) name = Some u \<and> glob_matches rest u"
          then show "glob_matches ts name" using first_fit_sound spec(1) True by fastforce
        next
          assume "glob_matches ts name"
          then obtain t u where t: "suffix t name" "match_chunk chunk t = Some u" "glob_matches rest u"
            using spec(1) True by auto
          from first_fit_complete [OF t(1,2) end_only [OF t(3)]] obtain u0 where
            u0: "first_fit chunk (rest = []) name = Some u0" "suffix u u0" by blast
          from first_fit_sound [OF u0(1)] obtain t0 where t0: "suffix t0 name" "match_chunk chunk t0 = Some u0"
            "rest = [] \<longrightarrow> u0 = []" by blast
          have "separator \<notin> set u0"
            using match_chunk_drop [OF t0(2)] suffix_no_separator [OF t0(1) less.prems] by (auto dest: in_set_dropD)
          then have "glob_matches rest u0"
            using spec(2) t0(3) t(3) u0(2) glob_matches_longer by (cases "rest = []") auto
          with u0(1) show "\<exists>u. first_fit chunk (rest = []) name = Some u \<and> glob_matches rest u" by blast
        qed
        finally show ?thesis .
      next
        case False
        have "match_tokens rest u = glob_matches rest u" if "match_chunk chunk name = Some u" for u
          using IH match_chunk_drop [OF that] suffix_drop by blast
        with False spec(1) show ?thesis
          by (auto simp: step dest: end_only split: option.split)
      qed
    qed
  qed (simp add: match_tokens_unfold)
qed

text \<open>For a name without a slash, as domain names are, Go's leftmost matching without going back decides
  exactly the documented meaning of a pattern that has no syntax error.\<close>

lemma match_is_glob:
  assumes "separator \<notin> set name"
  shows "filepath_Match pat name \<longleftrightarrow> (\<exists>ts. tokens pat = Some ts \<and> glob_matches ts name)"
  by (simp add: filepath_Match_def match_tokens_glob [OF assms] split: option.split)

text \<open>The trailing dot of a domain name of a DNS answer is part of it: the pattern must have it too.\<close>

lemma match_examples:
  "filepath_Match ''*.tube.com.'' ''www.tube.com.''"
  "\<not> filepath_Match ''*.tube.com'' ''www.tube.com.''"
  "filepath_Match ''*a[x-z]?c*'' ''bbayqcd''"
  "\<not> filepath_Match ''*[]*'' ''a''"
  by code_simp+

end
