(* ===== verification/Bandwidth.thy ===== *)
theory Bandwidth
  imports TrafficMon DnsCache GoMatch GoFloat Throttle
begin

text \<open>
  From the monitor's map to the exported metrics: \<open>getBandwidthList\<close> of \<open>handlers/handlers.go\<close> reads
  the pairs of the map, turns a key back into addresses and finds the domain and the glob group of
  the remote address; \<open>pollMetrics\<close> of \<open>handlers/prom.go\<close> sets one counter per row. The counters
  are the VictoriaMetrics library's, here a map from their names to their values.
\<close>

section \<open>Keys\<close>

text \<open>\<open>binary.LittleEndian.PutUint64\<close>, \<open>binary.BigEndian.Uint32\<close> and \<open>binary.BigEndian.PutUint32\<close>.\<close>

definition put_le64 :: "u64 \<Rightarrow> u8 list" where
  "put_le64 w = map (\<lambda>i. ucast (drop_bit (8 * i) w)) [0..<8]"

fun get_be32 :: "u8 list \<Rightarrow> u32" where
  "get_be32 (a # b # c # d # _) = load32 BigEndian a b c d"
| "get_be32 _ = 0"

definition put_be32 :: "u32 \<Rightarrow> u8 list" where
  "put_be32 w = map (\<lambda>i. ucast (drop_bit (24 - 8 * i) w)) [0..<4]"

text \<open>The addresses \<open>srcip\<close> and \<open>destip\<close> of a key.\<close>

definition decode_key :: "u64 \<Rightarrow> u8 list \<times> u8 list" where
  "decode_key key =
     (let b = put_le64 key;
          src = get_be32 (take 4 b);
          dest = get_be32 (take 4 (drop 4 b))
      in (put_be32 src, put_be32 dest))"

lemma put_be32_load: "put_be32 (load32 BigEndian a b c d) = [a, b, c, d]"
  by (simp add: put_be32_def load32.simps upt_rec)
    (intro conjI; rule bit_word_eqI; auto simp: bit_simps dest: bit_imp_le_length)

lemma put_le64_pair:
  "put_le64 (pair_key (load32 e a b c d) (load32 e a' b' c' d')) =
   (case e of LittleEndian \<Rightarrow> [a', b', c', d', a, b, c, d] | BigEndian \<Rightarrow> [d', c', b', a', d, c, b, a])"
  by (cases e; simp add: put_le64_def pair_key_def load32.simps upt_rec;
      intro conjI; rule bit_word_eqI; auto simp: bit_simps dest: bit_imp_le_length)

lemma decode_pair_key:
  assumes "length src = 4" and "length dst = 4"
  shows "decode_key (pair_key (ip_word e src) (ip_word e dst)) = (wire_order e dst, wire_order e src)"
proof -
  obtain a b c d where "src = [a, b, c, d]"
    using assms(1) by (auto simp: numeral_eq_Suc length_Suc_conv)
  moreover obtain a' b' c' d' where "dst = [a', b', c', d']"
    using assms(2) by (auto simp: numeral_eq_Suc length_Suc_conv)
  ultimately show ?thesis
    by (cases e) (simp_all add: decode_key_def put_le64_pair put_be32_load wire_order_def)
qed

text \<open>On a little-endian machine the key under which a packet was counted decodes to the packet's
  destination, shown as the source (the client, whose download the packet is), and its source,
  shown as the destination; on a big-endian machine both come out with their bytes reversed.\<close>

theorem counted_key_decodes:
  assumes "is_ipv4_frame e skb"
  shows "decode_key (frame_key e skb) = (wire_order e (dst_bytes skb), wire_order e (src_bytes skb))"
  using assms by (simp add: frame_key_def decode_pair_key length_src_bytes length_dst_bytes)

theorem counted_key_decodes_witness:
  "decode_key (frame_key LittleEndian demo_skb) = ([192, 168, 0, 14], [142, 251, 33, 174])"
  using counted_key_decodes [of LittleEndian demo_skb]
  by (simp add: demo_skb_def mk_frame_parts wire_order_def)

section \<open>The list of pairs\<close>

record bandwidth =
  bw_SrcIpAddr :: "u8 list"
  bw_DestIpAddr :: "u8 list"
  bw_Bytes :: u64
  bw_ProbDomain :: string
  bw_GlobName :: string

definition getMatchingGlobGroup :: "bool \<Rightarrow> string \<Rightarrow> glob_group list \<Rightarrow> glob_group option" where
  "getMatchingGlobGroup ok name globs = find (\<lambda>g. filepath_Match (Glob g) name) (GetGlobs ok globs)"

text \<open>C31: For a name without a slash, as domain names are, the group found is the first whose pattern has no
  syntax error and matches the name in the documented meaning of patterns: Go's leftmost matching
  without going back loses no match.\<close>

theorem first_matching_group:
  assumes "separator \<notin> set name"
  shows "getMatchingGlobGroup ok name globs =
    (if ok then find (\<lambda>g. case tokens (Glob g) of None \<Rightarrow> False | Some ts \<Rightarrow> glob_matches ts name) globs
     else None)"
proof -
  have "filepath_Match pat name \<longleftrightarrow> (case tokens pat of None \<Rightarrow> False | Some ts \<Rightarrow> glob_matches ts name)" for pat
    by (simp add: match_is_glob [OF assms] split: option.split)
  then show ?thesis by (simp add: getMatchingGlobGroup_def GetGlobs_def)
qed

definition demo_globs :: "glob_group list" where
  "demo_globs =
     [\<lparr>Name = ''bad'', Description = [], Glob = ''*[]*'', Device = []\<rparr>,
      \<lparr>Name = ''nodot'', Description = [], Glob = ''*.tube.com'', Device = []\<rparr>,
      \<lparr>Name = ''video'', Description = [], Glob = ''*.tube.com.'', Device = []\<rparr>]"

theorem first_matching_group_witness:
  "find (\<lambda>g. case tokens (Glob g) of None \<Rightarrow> False | Some ts \<Rightarrow> glob_matches ts ''www.tube.com.'') demo_globs =
   Some (demo_globs ! 2)"
proof -
  have "getMatchingGlobGroup True ''www.tube.com.'' demo_globs = Some (demo_globs ! 2)" by code_simp
  with first_matching_group [of "''www.tube.com.''" True demo_globs] show ?thesis
    by (simp add: separator_def)
qed

text \<open>
  One iteration of the loop of \<open>getBandwidthList\<close>, with whether its two database reads succeed: the
  row, when it is to be listed.
\<close>

definition bandwidth_row ::
  "bool \<Rightarrow> (dns_row list \<Rightarrow> dns_row) \<Rightarrow> glob_group list \<Rightarrow> dns_row list \<Rightarrow> (u64 \<times> u64) \<times> bool \<times> bool \<Rightarrow>
   bandwidth option" where
  "bandwidth_row globsOnly pick globs dns x =
     (case x of ((key, val), ips_ok, globs_ok) \<Rightarrow>
       (let (srcip, destip) = decode_key key;
            name = GetDomainForIP ips_ok pick (ip_string destip) dns;
            gg = getMatchingGlobGroup globs_ok name globs;
            bl = \<lparr>bw_SrcIpAddr = srcip, bw_DestIpAddr = destip, bw_Bytes = val, bw_ProbDomain = name,
                  bw_GlobName = []\<rparr>
        in case gg of
             Some g \<Rightarrow> Some (bl\<lparr>bw_GlobName := Name g\<rparr>)
           | None \<Rightarrow> if globsOnly then None else Some bl))"

text \<open>\<open>loaded\<close>: the monitor's objects are there; the entries are those the map's iterator gives.\<close>

definition getBandwidthList ::
  "bool \<Rightarrow> bool \<Rightarrow> (dns_row list \<Rightarrow> dns_row) \<Rightarrow> glob_group list \<Rightarrow> dns_row list \<Rightarrow>
   ((u64 \<times> u64) \<times> bool \<times> bool) list \<Rightarrow> bandwidth list" where
  "getBandwidthList loaded globsOnly pick globs dns entries =
     (if loaded then List.map_filter (bandwidth_row globsOnly pick globs dns) entries else [])"

section \<open>The metrics\<close>

definition quoted :: "string \<Rightarrow> string" where
  "quoted s = CHR 0x22 # s @ [CHR 0x22]"

definition metric_name :: "bandwidth \<Rightarrow> string" where
  "metric_name b =
     ''ip_pair_vic_bytes_total{src_ip='' @ quoted (ip_string (bw_SrcIpAddr b)) @
     '', dest_ip='' @ quoted (ip_string (bw_DestIpAddr b)) @
     '', prob_domain='' @ quoted (bw_ProbDomain b) @
     '', glob='' @ quoted (bw_GlobName b) @ ''}''"

text \<open>One tick of \<open>pollMetrics\<close>: \<open>GetOrCreateFloatCounter(s).Set(float64(b.Bytes))\<close> for each row.\<close>

definition poll_metrics :: "bandwidth list \<Rightarrow> (string \<Rightarrow> rat option) \<Rightarrow> string \<Rightarrow> rat option" where
  "poll_metrics bl metrics =
     foldl (\<lambda>metrics b. metrics(metric_name b \<mapsto> go_float64 (uint (bw_Bytes b)))) metrics bl"

lemma quoted_prefix:
  "c \<notin> set s \<Longrightarrow> c \<notin> set s' \<Longrightarrow> s @ c # t = s' @ c # t' \<longleftrightarrow> s = s' \<and> t = t'"
proof (induction s arbitrary: s')
  case (Cons a s)
  then show ?case by (cases s') auto
qed (auto simp: Cons_eq_append_conv)

lemma ip_string_no_quote: "length a = 4 \<Longrightarrow> CHR 0x22 \<notin> set (ip_string a)"
proof -
  have "digit_char d \<noteq> CHR 0x22" if "d < 10" for d
    using that by (simp add: digit_char_eq_iff)
  then have "CHR 0x22 \<notin> set (dec_of_nat n)" for n
    using set_dec_of_nat by metis
  then show "length a = 4 \<Longrightarrow> CHR 0x22 \<notin> set (ip_string a)"
    by (auto simp: numeral_eq_Suc length_Suc_conv)
qed

text \<open>Rows of different pairs have different counters.\<close>

lemma metric_name_pair:
  assumes "length (bw_SrcIpAddr b) = 4" "length (bw_DestIpAddr b) = 4"
    and "length (bw_SrcIpAddr b') = 4" "length (bw_DestIpAddr b') = 4"
    and "metric_name b = metric_name b'"
  shows "bw_SrcIpAddr b = bw_SrcIpAddr b' \<and> bw_DestIpAddr b = bw_DestIpAddr b'"
  using assms(5)
  by (simp add: metric_name_def quoted_def quoted_prefix ip_string_no_quote ip_string_inject assms(1-4))

lemma put_le64_inject: "put_le64 w = put_le64 w' \<longleftrightarrow> w = w'"
proof
  assume eq: "put_le64 w = put_le64 w'"
  show "w = w'"
  proof (rule bit_word_eqI)
    fix n
    assume n: "n < LENGTH(64)"
    then have "n div 8 < 8" by simp
    with eq have "(ucast (drop_bit (8 * (n div 8)) w) :: u8) = ucast (drop_bit (8 * (n div 8)) w')"
      by (auto simp: put_le64_def)
    then have "bit (ucast (drop_bit (8 * (n div 8)) w) :: u8) (n mod 8) =
        bit (ucast (drop_bit (8 * (n div 8)) w') :: u8) (n mod 8)" by simp
    then show "bit w n = bit w' n" by (simp add: bit_simps)
  qed
qed simp

lemma length_put_le64: "length (put_le64 w) = 8"
  by (simp add: put_le64_def)

lemma decode_key_split: "decode_key key = (take 4 (put_le64 key), drop 4 (put_le64 key))"
proof -
  obtain a b c d a' b' c' d' where "put_le64 key = [a, b, c, d, a', b', c', d']"
    using length_put_le64 [of key] by (auto simp: numeral_eq_Suc length_Suc_conv)
  then show ?thesis by (simp add: decode_key_def put_be32_load)
qed

lemma decode_key_inject: "decode_key k = decode_key k' \<longleftrightarrow> k = k'"
  by (metis append_take_drop_id decode_key_split prod.inject put_le64_inject)

lemma bandwidth_row_pair:
  "bandwidth_row globsOnly pick globs dns ((key, val), oks) = Some b \<Longrightarrow>
   (bw_SrcIpAddr b, bw_DestIpAddr b) = decode_key key \<and> bw_Bytes b = val \<and>
   length (bw_SrcIpAddr b) = 4 \<and> length (bw_DestIpAddr b) = 4"
  by (cases oks) (auto simp: bandwidth_row_def decode_key_split length_put_le64 Let_def split: option.splits if_splits)

lemma distinct_metric_names:
  "distinct (map fst kvs) \<Longrightarrow>
   distinct (map metric_name (List.map_filter (bandwidth_row globsOnly pick globs dns) (map (\<lambda>kv. (kv, oks)) kvs)))"
proof (induction kvs)
  case (Cons kv kvs)
  obtain key val where kv: "kv = (key, val)" by (cases kv)
  let ?row = "bandwidth_row globsOnly pick globs dns"
  have "metric_name b \<noteq> metric_name b'"
    if "?row (kv, oks) = Some b" "(key', val') \<in> set kvs" "?row ((key', val'), oks) = Some b'" for b b' key' val'
  proof
    assume "metric_name b = metric_name b'"
    with that have "decode_key key = decode_key key'"
      using bandwidth_row_pair [of _ _ _ _ key val oks b] bandwidth_row_pair [of _ _ _ _ key' val' oks b']
        metric_name_pair [of b b'] by (metis kv)
    with that(2) Cons.prems show False by (auto simp: kv decode_key_inject rev_image_eqI)
  qed
  with Cons show ?case
    by (auto simp: List.map_filter_def split: option.split)
qed (simp add: List.map_filter_def)

lemma poll_metrics_row:
  assumes "distinct (map metric_name bl)" and "b \<in> set bl"
  shows "poll_metrics bl metrics (metric_name b) = Some (go_float64 (uint (bw_Bytes b)))"
  using assms
proof (induction bl rule: rev_induct)
  case (snoc x bl)
  show ?case
  proof (cases "b = x")
    case False
    with snoc.prems have b: "b \<in> set bl" by simp
    then have "metric_name b \<in> metric_name ` set bl" by (rule imageI)
    with snoc.prems(1) have "metric_name b \<noteq> metric_name x" by auto
    with snoc b show ?thesis by (simp add: poll_metrics_def)
  qed (simp add: poll_metrics_def)
qed simp

text \<open>From the wire to the metric, on a little-endian machine: after a sequence of packets with at most
  25000 pairs of addresses, one tick of the collector sets the counter that carries the packet's
  destination as \<open>src_ip\<close>, its source as \<open>dest_ip\<close>, the name the DNS cache has for the source and
  the first glob group matching that name, to the exact number of bytes that the packets of the
  pair announced, while these stay below \<open>2 ^ 53\<close>.\<close>

theorem exported_bytes:
  assumes "bpf_hash lookup update ok src_dest_max_entries" and "ok m" and "lookup m = (\<lambda>_. None)"
    and "card (frame_key LittleEndian ` {p \<in> set ps. is_ipv4_frame LittleEndian p}) \<le> src_dest_max_entries"
    and "traffic_run LittleEndian lookup update ps m = Some m'"
    and "distinct (map fst kvs)" and "\<forall>k v. (k, v) \<in> set kvs \<longleftrightarrow> lookup m' k = Some v"
    and "p \<in> set ps" and "is_ipv4_frame LittleEndian p"
    and "wire_sum LittleEndian ps (frame_key LittleEndian p) < 2 ^ 53"
  shows "let name = GetDomainForIP True pick (ip_string (src_bytes p)) dns;
      b = \<lparr>bw_SrcIpAddr = dst_bytes p, bw_DestIpAddr = src_bytes p,
           bw_Bytes = word_of_nat (wire_sum LittleEndian ps (frame_key LittleEndian p)), bw_ProbDomain = name,
           bw_GlobName = (case getMatchingGlobGroup True name globs of None \<Rightarrow> [] | Some g \<Rightarrow> Name g)\<rparr>
    in poll_metrics (getBandwidthList True False pick globs dns (map (\<lambda>kv. (kv, True, True)) kvs)) metrics
         (metric_name b) = Some (of_nat (wire_sum LittleEndian ps (frame_key LittleEndian p)))"
proof -
  let ?n = "wire_sum LittleEndian ps (frame_key LittleEndian p)"
  let ?name = "GetDomainForIP True pick (ip_string (src_bytes p)) dns"
  let ?b = "\<lparr>bw_SrcIpAddr = dst_bytes p, bw_DestIpAddr = src_bytes p, bw_Bytes = word_of_nat ?n,
    bw_ProbDomain = ?name,
    bw_GlobName = (case getMatchingGlobGroup True ?name globs of None \<Rightarrow> [] | Some g \<Rightarrow> Name g)\<rparr>"
  let ?bl = "getBandwidthList True False pick globs dns (map (\<lambda>kv. (kv, True, True)) kvs)"
  have "lookup m' (frame_key LittleEndian p) = Some (word_of_nat ?n)"
    using traffic_run_counter [OF assms(1-4,8,9)] assms(5) by simp
  then have entry: "(frame_key LittleEndian p, word_of_nat ?n) \<in> set kvs" using assms(7) by blast
  have "decode_key (frame_key LittleEndian p) = (dst_bytes p, src_bytes p)"
    using assms(9) by (simp add: frame_key_def decode_pair_key length_src_bytes length_dst_bytes wire_order_def)
  then have "bandwidth_row False pick globs dns ((frame_key LittleEndian p, word_of_nat ?n), True, True) = Some ?b"
    by (simp add: bandwidth_row_def Let_def split: option.split)
  with entry have mem: "?b \<in> set ?bl"
    by (force simp: getBandwidthList_def List.map_filter_def)
  have dist: "distinct (map metric_name ?bl)"
    using distinct_metric_names [OF assms(6)] by (simp add: getBandwidthList_def)
  have "uint (word_of_nat ?n :: u64) = int ?n" using assms(10) by (simp add: uint_nat unat_of_nat)
  then have "go_float64 (uint (bw_Bytes ?b)) = of_nat ?n"
    using assms(10) fl_of_int [of "int ?n"] by (simp add: go_float64_def)
  with poll_metrics_row [OF dist mem, of metrics] show ?thesis by (simp add: Let_def)
qed

theorem exported_bytes_witness:
  "\<exists>m'. traffic_run LittleEndian map_of (hash_update src_dest_max_entries) demo_frames [] = Some m' \<and>
     poll_metrics (getBandwidthList True False hd [] [] (map (\<lambda>kv. (kv, True, True)) m')) (\<lambda>_. None)
       (metric_name \<lparr>bw_SrcIpAddr = [192, 168, 0, 14], bw_DestIpAddr = [142, 251, 33, 174], bw_Bytes = 1560,
          bw_ProbDomain = [], bw_GlobName = []\<rparr>) = Some 1560"
proof -
  let ?m' = "bump_all map_of (hash_update src_dest_max_entries) (traffic_events LittleEndian demo_frames) []"
  have run: "traffic_run LittleEndian map_of (hash_update src_dest_max_entries) demo_frames [] = Some ?m'"
    by (rule traffic_run_eq)
  have start: "hash_ok src_dest_max_entries []" by (simp add: hash_ok_def)
  then have "hash_ok src_dest_max_entries ?m'" by (rule ref_hash.ok_bump_all)
  then have keys: "distinct (map fst ?m')" by (simp add: hash_ok_def)
  then have graph: "\<forall>k v. (k, v) \<in> set ?m' \<longleftrightarrow> map_of ?m' k = Some v" by simp
  have "map_of [] = (\<lambda>_. None)" by auto
  from exported_bytes [OF hash_is_bpf_hash start this demo_few run keys graph demo_frame, where pick = hd
      and globs = "[]" and dns = "[]" and metrics = "\<lambda>_. None"]
  have "poll_metrics (getBandwidthList True False hd [] [] (map (\<lambda>kv. (kv, True, True)) ?m')) (\<lambda>_. None)
      (metric_name \<lparr>bw_SrcIpAddr = [192, 168, 0, 14], bw_DestIpAddr = [142, 251, 33, 174], bw_Bytes = 1560,
          bw_ProbDomain = [], bw_GlobName = []\<rparr>) = Some 1560"
    by (simp add: demo_sum Let_def GetDomainForIP_def getMatchingGlobGroup_def GetGlobs_def)
      (simp add: demo_frames_def mk_frame_parts)
  with run show ?thesis by blast
qed

lemma matching_group_mem: "getMatchingGlobGroup ok name globs = Some g \<Longrightarrow> g \<in> set globs"
  by (auto simp: getMatchingGlobGroup_def GetGlobs_def find_Some_iff split: if_splits)

text \<open>The list of the pairs with a glob group is the full list without the pairs that have none, when no
  group has the empty name.\<close>

theorem globs_only_filters:
  assumes "\<forall>g \<in> set globs. Name g \<noteq> []"
  shows "getBandwidthList loaded True pick globs dns entries =
    filter (\<lambda>b. bw_GlobName b \<noteq> []) (getBandwidthList loaded False pick globs dns entries)"
proof -
  have row: "bandwidth_row True pick globs dns x =
      (case bandwidth_row False pick globs dns x of
         None \<Rightarrow> None | Some b \<Rightarrow> if bw_GlobName b \<noteq> [] then Some b else None)" for x
    using assms
    by (auto simp: bandwidth_row_def Let_def split: option.splits prod.splits dest: matching_group_mem)
  show ?thesis
  proof (cases loaded)
    case True
    have "List.map_filter (bandwidth_row True pick globs dns) entries =
        filter (\<lambda>b. bw_GlobName b \<noteq> []) (List.map_filter (bandwidth_row False pick globs dns) entries)"
      by (induction entries) (auto simp: List.map_filter_def row split: option.splits)
    with True show ?thesis by (simp add: getBandwidthList_def)
  qed (simp add: getBandwidthList_def)
qed

theorem globs_only_filters_witness:
  "getBandwidthList True True hd [] [] [((frame_key LittleEndian demo_skb, 60), True, True)] =
   filter (\<lambda>b. bw_GlobName b \<noteq> [])
     (getBandwidthList True False hd [] [] [((frame_key LittleEndian demo_skb, 60), True, True)])"
  by (rule globs_only_filters) simp

end
