(* ===== verification/TcKernel.thy ===== *)
theory TcKernel
  imports Qdisc Throttle
begin

text \<open>
  The interface to the traffic control of the kernel, as \<open>handlers/bpf.go\<close> and
  \<open>handlers/qdisc.go\<close> use it through the libraries go-tc and netlink: listing, adding and
  deleting filters, and the requests of \<open>Qdisc\<close>. The libraries and the kernel are not part of the
  repository: their operations are the fields of a record that every definition takes, on a kernel
  of any type, and the locale \<open>tc_kernel\<close> states what they are documented to do to the filters that
  are attached. A reference kernel shows that this can be met.
\<close>

section \<open>Objects\<close>

text \<open>
  The programs that are loaded; a file descriptor is represented by the program it refers to. The
  throttler is the program of its rules. A handle is a number or a call of go-tc's
  \<open>core.BuildHandle\<close> with a major and a minor number; the constants are those of go-tc, which
  are \<open>TC_H_ROOT\<close>, \<open>TC_H_MIN_INGRESS\<close> and \<open>TC_H_MIN_EGRESS\<close> of Linux.
\<close>

datatype prog = Prog_udp_dns_sniff | Prog_traffic_mon | Prog_throttle "rule list"

datatype tc_handle = Handle u32 | BuildHandle u32 u32

definition HandleRoot :: u32 where "HandleRoot = 0xFFFFFFFF"
definition HandleMinIngress :: u32 where "HandleMinIngress = 0xFFF2"
definition HandleMinEgress :: u32 where "HandleMinEgress = 0xFFF3"

record tc_msg =
  Ifindex :: u32
  msg_Handle :: tc_handle
  Parent :: tc_handle
  Info :: u32

record tc_bpf =
  FD :: prog
  Flags :: u32
  BPF_Name :: "string option"
  ClassID :: "tc_handle option"

record tc_object =
  Msg :: tc_msg
  tc_Kind :: string
  BPF :: "tc_bpf option"

record 'k tc_ops =
  InterfaceByName :: "string \<Rightarrow> int option"
  NlRequest :: "nl_request \<Rightarrow> 'k \<Rightarrow> 'k \<times> bool"
  FilterGet :: "tc_msg \<Rightarrow> 'k \<Rightarrow> tc_object list option"
  FilterAdd :: "tc_object \<Rightarrow> 'k \<Rightarrow> 'k \<times> bool"
  FilterDelete :: "tc_object \<Rightarrow> 'k \<Rightarrow> 'k \<times> bool"
  QdiscAdd :: "tc_object \<Rightarrow> 'k \<Rightarrow> 'k \<times> bool"
  QdiscReplace :: "tc_object \<Rightarrow> 'k \<Rightarrow> 'k \<times> bool"

section \<open>What the kernel is documented to do\<close>

text \<open>The qdisc a filter hangs on, by its parent, and the qdisc a request creates.\<close>

fun qdisc_of :: "tc_handle \<Rightarrow> nl_handle option" where
  "qdisc_of (Handle h) = None"
| "qdisc_of (BuildHandle maj mi) = Some (MakeHandle (ucast maj) 0)"

definition hangs_on :: "int \<Rightarrow> nl_handle \<Rightarrow> tc_object \<Rightarrow> bool" where
  "hangs_on i h f \<longleftrightarrow> Ifindex (Msg f) = word_of_int i \<and> qdisc_of (Parent (Msg f)) = Some h"

fun new_qdisc :: "nl_request \<Rightarrow> (int \<times> nl_handle) option" where
  "new_qdisc (AddHtb i h p d) = Some (i, h)"
| "new_qdisc (AddPrio i h p) = Some (i, h)"
| "new_qdisc (AddNetem i h p l j) = Some (i, h)"
| "new_qdisc (AddClsact i h p) = Some (i, h)"
| "new_qdisc _ = None"

text \<open>A request to list filters without a priority selects by interface, parent and protocol, the
  lower half of \<open>Info\<close>. The kernel chooses the priority, in the upper half, and the handle of a
  filter that is added without them.\<close>

definition selects :: "tc_msg \<Rightarrow> tc_object \<Rightarrow> bool" where
  "selects m f \<longleftrightarrow> Ifindex (Msg f) = Ifindex m \<and> Parent (Msg f) = Parent m \<and>
     (ucast (Info (Msg f)) :: u16) = ucast (Info m)"

definition same_request :: "tc_object \<Rightarrow> tc_object \<Rightarrow> bool" where
  "same_request f g \<longleftrightarrow> Ifindex (Msg f) = Ifindex (Msg g) \<and> Parent (Msg f) = Parent (Msg g) \<and>
     (ucast (Info (Msg f)) :: u16) = ucast (Info (Msg g)) \<and> BPF f = BPF g"

locale tc_kernel =
  fixes ops :: "'k tc_ops" and attached :: "'k \<Rightarrow> tc_object list"
  assumes filter_get: "drop_bit 16 (Info m) = 0 \<Longrightarrow> FilterGet ops m k = Some fs \<Longrightarrow>
      fs = filter (selects m) (attached k)"
    and filter_add: "FilterAdd ops f k = (k', True) \<Longrightarrow>
      \<exists>fs gs g. attached k = fs @ gs \<and> attached k' = fs @ g # gs \<and> same_request g f"
    and filter_add_refused: "FilterAdd ops f k = (k', False) \<Longrightarrow> attached k' = attached k"
    and filter_delete: "FilterDelete ops f k = (k', True) \<Longrightarrow> attached k' = filter (\<lambda>g. g \<noteq> f) (attached k)"
    and filter_delete_refused: "FilterDelete ops f k = (k', False) \<Longrightarrow> attached k' = attached k"
    and request_only_removes: "NlRequest ops r k = (k', ok) \<Longrightarrow> set (attached k') \<subseteq> set (attached k)"
    and new_qdisc_empty: "NlRequest ops r k = (k', True) \<Longrightarrow> new_qdisc r = Some (i, h) \<Longrightarrow>
      f \<in> set (attached k') \<Longrightarrow> \<not> hangs_on i h f"

section \<open>Requests in sequence\<close>

definition nl_run :: "'k tc_ops \<Rightarrow> nl_request list \<Rightarrow> 'k \<Rightarrow> 'k" where
  "nl_run ops reqs k = foldl (\<lambda>k r. fst (NlRequest ops r k)) k reqs"

text \<open>Whether the kernel accepts a request after those sent before.\<close>

definition nl_ok :: "'k tc_ops \<Rightarrow> 'k \<Rightarrow> nl_request list \<Rightarrow> nl_request \<Rightarrow> bool" where
  "nl_ok ops k sent r = snd (NlRequest ops r (nl_run ops sent k))"

lemma nl_run_simps [simp]:
  "nl_run ops [] k = k"
  "nl_run ops (rs @ rs') k = nl_run ops rs' (nl_run ops rs k)"
  "nl_run ops (r # rs) k = nl_run ops rs (fst (NlRequest ops r k))"
  by (simp_all add: nl_run_def)

lemma run_steps_accepted:
  "run_steps ok ss sent = (sent', True) \<Longrightarrow> sent' = sent @ map fst ss \<and>
   (\<forall>ss1 r ss2. ss = ss1 @ (r, True) # ss2 \<longrightarrow> ok (sent @ map fst ss1) r)"
proof (induction ss arbitrary: sent)
  case (Cons s ss)
  obtain r fatal where s: "s = (r, fatal)" by (cases s)
  with Cons.prems have r: "fatal \<longrightarrow> ok sent r" and rest: "run_steps ok ss (sent @ [r]) = (sent', True)"
    by (auto split: if_splits)
  show ?case
    using Cons.IH [OF rest] r by (auto simp: s Cons_eq_append_conv)
qed simp

context tc_kernel
begin

lemma run_only_removes: "set (attached (nl_run ops rs k)) \<subseteq> set (attached k)"
proof (induction rs arbitrary: k)
  case (Cons r rs)
  then show ?case
    using request_only_removes [of r k] by (fastforce simp: prod_eq_iff)
qed simp

text \<open>A sequence that went through leaves nothing attached to the qdiscs it created.\<close>

lemma run_new_qdisc_empty:
  assumes "run_steps (nl_ok ops k) ss sent = (sent', True)" and "(r, True) \<in> set ss"
    and "new_qdisc r = Some (i, h)" and "f \<in> set (attached (nl_run ops sent' k))"
  shows "\<not> hangs_on i h f"
proof -
  obtain ss1 ss2 where ss: "ss = ss1 @ (r, True) # ss2" using assms(2) by (meson split_list)
  let ?k = "nl_run ops (sent @ map fst ss1) k"
  have "snd (NlRequest ops r ?k)" and sent': "sent' = sent @ map fst ss"
    using run_steps_accepted [OF assms(1)] ss by (auto simp: nl_ok_def)
  then have ok: "NlRequest ops r ?k = (fst (NlRequest ops r ?k), True)" by (simp add: prod_eq_iff)
  have "f \<in> set (attached (fst (NlRequest ops r ?k)))"
    using assms(4) run_only_removes [of "map fst ss2"] by (auto simp: sent' ss)
  from new_qdisc_empty [OF ok assms(3) this] show ?thesis .
qed

end

section \<open>A reference kernel\<close>

text \<open>Its state is the list of attached filters; it refuses the deletion of filters that are not
  \<open>deletable\<close>, and a root or clsact qdisc where filters are still attached.\<close>

fun ref_request :: "nl_request \<Rightarrow> tc_object list \<Rightarrow> tc_object list \<times> bool" where
  "ref_request (QdiscDel i p) fs =
     (filter (\<lambda>f. \<not> (Ifindex (Msg f) = word_of_int i \<and>
        (qdisc_of (Parent (Msg f)) = Some (MakeHandle 0xffff 0) \<longleftrightarrow> p = HANDLE_CLSACT))) fs, True)"
| "ref_request r fs =
     (fs, case new_qdisc r of None \<Rightarrow> True | Some (i, h) \<Rightarrow> \<forall>f \<in> set fs. \<not> hangs_on i h f)"

definition ref_ops :: "(string \<Rightarrow> int option) \<Rightarrow> (tc_object \<Rightarrow> bool) \<Rightarrow> tc_object list tc_ops" where
  "ref_ops ifidx deletable = \<lparr>InterfaceByName = ifidx, NlRequest = ref_request,
     FilterGet = (\<lambda>m fs. Some (filter (selects m) fs)), FilterAdd = (\<lambda>f fs. (f # fs, True)),
     FilterDelete = (\<lambda>f fs. if deletable f then (filter (\<lambda>g. g \<noteq> f) fs, True) else (fs, False)),
     QdiscAdd = (\<lambda>f fs. (fs, False)), QdiscReplace = (\<lambda>f fs. (fs, True))\<rparr>"

lemma ref_request_removes: "ref_request r fs = (fs', ok) \<Longrightarrow> set fs' \<subseteq> set fs"
  by (cases r) auto

lemma ref_request_new:
  "ref_request r fs = (fs', True) \<Longrightarrow> new_qdisc r = Some (i, h) \<Longrightarrow> f \<in> set fs' \<Longrightarrow> \<not> hangs_on i h f"
  by (cases r) auto

interpretation ref_kernel: tc_kernel "ref_ops ifidx deletable" "\<lambda>fs. fs"
  for ifidx deletable
proof
  show "\<exists>fs gs g. k = fs @ gs \<and> k' = fs @ g # gs \<and> same_request g f"
    if "FilterAdd (ref_ops ifidx deletable) f k = (k', True)" for f k k'
    using that by (intro exI [of _ "[]"] exI [of _ k] exI [of _ f]) (auto simp: ref_ops_def same_request_def)
qed (auto simp: ref_ops_def split: if_splits dest: ref_request_removes ref_request_new)

end
