(* ===== verification/Attach.thy ===== *)
theory Attach
  imports TcKernel IpPolicies
begin

text \<open>
  Loading and attaching the programs: \<open>handlers/bpf.go\<close>, and \<open>attachQdiscToIface\<close> of
  \<open>handlers/qdisc.go\<close>. The state is the kernel, the global \<open>BpfCtx\<close>, the goroutines that poll
  DNS events and the temporary files. \<open>log.Fatal\<close> ends the process, not the kernel: an outcome says
  whether the process is still running, in either case with the state it leaves. What the library
  calls that do not touch the attached filters answer is an argument.
\<close>

section \<open>The state of the process\<close>

record throttleObjects =
  Prog :: "prog option"
  objs_open :: bool

text \<open>\<open>BpfContext\<close>, with the kernel, the goroutines running \<open>pollDnsResponses\<close> and the temporary
  files. A pointer that is nil is \<open>None\<close>.\<close>

record 'k BpfContext =
  kernel :: 'k
  Tcnl :: bool
  DnspktObjs :: "prog option"
  TrafficmonObjs :: "prog option"
  ThrottleObjs :: "throttleObjects option"
  dns_pollers :: nat
  temp_files :: "string list"

datatype 's outcome = Running 's | Fatal 's

fun and_then :: "'s outcome \<Rightarrow> ('s \<Rightarrow> 's outcome) \<Rightarrow> 's outcome" where
  "and_then (Running s) f = f s"
| "and_then (Fatal s) f = Fatal s"

fun outcome_state :: "'s outcome \<Rightarrow> 's" where
  "outcome_state (Running s) = s"
| "outcome_state (Fatal s) = s"

lemma and_then_Running: "and_then x f = Running t \<longleftrightarrow> (\<exists>s. x = Running s \<and> f s = Running t)"
  by (cases x) auto

text \<open>The state at the start of the process.\<close>

definition fresh_process :: "'k \<Rightarrow> string list \<Rightarrow> 'k BpfContext" where
  "fresh_process k files =
     \<lparr>kernel = k, Tcnl = False, DnspktObjs = None, TrafficmonObjs = None, ThrottleObjs = None,
      dns_pollers = 0, temp_files = files\<rparr>"

section \<open>Attaching\<close>

text \<open>\<open>getTcnl\<close>; the argument says whether \<open>tc.Open\<close> and \<open>SetOption\<close> succeed.\<close>

definition getTcnl :: "bool \<times> bool \<Rightarrow> 'k BpfContext \<Rightarrow> 'k BpfContext outcome" where
  "getTcnl tc d =
     (if Tcnl d then Running d
      else if \<not> fst tc then Fatal d
      else if \<not> snd tc then Fatal d
      else Running (d\<lparr>Tcnl := True\<rparr>))"

text \<open>Adding a filter to the kernel: a refusal ends the process.\<close>

definition add_filter :: "'k tc_ops \<Rightarrow> tc_object \<Rightarrow> 'k BpfContext \<Rightarrow> 'k BpfContext outcome" where
  "add_filter ops flt d =
     (let (k, ok) = FilterAdd ops flt (kernel d)
      in if ok then Running (d\<lparr>kernel := k\<rparr>) else Fatal (d\<lparr>kernel := k\<rparr>))"

text \<open>The filter objects; \<open>clsact_filter\<close> is that of \<open>attachTrafficMonitor\<close> and \<open>attachDnsSniffer\<close>.\<close>

definition clsact_filter :: "int \<Rightarrow> u32 \<Rightarrow> prog \<Rightarrow> tc_object" where
  "clsact_filter idx direction fd =
     \<lparr>Msg = \<lparr>Ifindex = word_of_int idx, msg_Handle = Handle 0, Parent = BuildHandle HandleRoot direction, Info = 0x300\<rparr>,
      tc_Kind = ''bpf'', BPF = Some \<lparr>FD = fd, Flags = 1, BPF_Name = None, ClassID = None\<rparr>\<rparr>"

definition throttle_filter :: "int \<Rightarrow> prog \<Rightarrow> tc_object" where
  "throttle_filter idx fd =
     \<lparr>Msg = \<lparr>Ifindex = word_of_int idx, msg_Handle = BuildHandle 0 1, Parent = BuildHandle 1 0, Info = 0x300\<rparr>,
      tc_Kind = ''bpf'',
      BPF = Some \<lparr>FD = fd, Flags = 1, BPF_Name = Some ''throttle'', ClassID = Some (BuildHandle 1 0)\<rparr>\<rparr>"

definition attachTrafficMonitor ::
  "'k tc_ops \<Rightarrow> bool \<times> bool \<Rightarrow> string \<Rightarrow> u32 \<Rightarrow> 'k BpfContext \<Rightarrow> 'k BpfContext outcome" where
  "attachTrafficMonitor ops tc ifname direction d =
     and_then (getTcnl tc d) (\<lambda>d.
       case InterfaceByName ops ifname of
         None \<Rightarrow> Fatal d
       | Some idx \<Rightarrow>
           (case TrafficmonObjs d of
              None \<Rightarrow> Fatal d
            | Some fd \<Rightarrow> add_filter ops (clsact_filter idx direction fd) d))"

definition attachDnsSniffer ::
  "'k tc_ops \<Rightarrow> bool \<times> bool \<Rightarrow> string \<Rightarrow> u32 \<Rightarrow> 'k BpfContext \<Rightarrow> 'k BpfContext outcome" where
  "attachDnsSniffer ops tc ifname direction d =
     and_then (getTcnl tc d) (\<lambda>d.
       case InterfaceByName ops ifname of
         None \<Rightarrow> Fatal d
       | Some idx \<Rightarrow>
           (case DnspktObjs d of
              None \<Rightarrow> Fatal d
            | Some fd \<Rightarrow>
                and_then (add_filter ops (clsact_filter idx direction fd) d)
                  (\<lambda>d. Running (d\<lparr>dns_pollers := dns_pollers d + 1\<rparr>))))"

text \<open>\<open>attachQdiscToIface\<close> of \<open>handlers/qdisc.go\<close>, which nothing calls.\<close>

definition attachQdiscToIface :: "'k tc_ops \<Rightarrow> int \<Rightarrow> 'k BpfContext \<Rightarrow> 'k BpfContext outcome" where
  "attachQdiscToIface ops idx d =
     (let qdisc = \<lparr>Msg = \<lparr>Ifindex = word_of_int idx, msg_Handle = BuildHandle HandleRoot 0,
                          Parent = Handle HandleMinEgress, Info = 0\<rparr>,
                   tc_Kind = ''clsact'', BPF = None\<rparr>;
          (k, ok) = QdiscAdd ops qdisc (kernel d)
      in if ok then Running (d\<lparr>kernel := k\<rparr>)
         else (let (k', ok') = QdiscReplace ops qdisc k
               in if ok' then Running (d\<lparr>kernel := k'\<rparr>) else Fatal (d\<lparr>kernel := k'\<rparr>)))"

section \<open>Replacing the throttler\<close>

text \<open>The request by which \<open>cleanupThrottler\<close> lists the filters, and its test on each of them.\<close>

definition throttle_msg :: "int \<Rightarrow> tc_msg" where
  "throttle_msg idx = \<lparr>Ifindex = word_of_int idx, msg_Handle = Handle 0, Parent = BuildHandle 1 0, Info = 0x300\<rparr>"

definition is_throttle :: "tc_object \<Rightarrow> bool" where
  "is_throttle tobj =
     (case BPF tobj of None \<Rightarrow> False
      | Some bpf \<Rightarrow> (case BPF_Name bpf of None \<Rightarrow> False | Some name \<Rightarrow> name = ''throttle''))"

text \<open>The loop over the filters; the result of a deletion is not looked at.\<close>

fun delete_throttlers :: "'k tc_ops \<Rightarrow> tc_object list \<Rightarrow> 'k \<Rightarrow> 'k" where
  "delete_throttlers ops [] k = k"
| "delete_throttlers ops (tobj # tfilt) k =
     delete_throttlers ops tfilt (if is_throttle tobj then fst (FilterDelete ops tobj k) else k)"

definition cleanupThrottler ::
  "'k tc_ops \<Rightarrow> bool \<times> bool \<Rightarrow> int \<Rightarrow> 'k BpfContext \<Rightarrow> 'k BpfContext outcome" where
  "cleanupThrottler ops tc iface d =
     and_then (getTcnl tc d) (\<lambda>d.
       case FilterGet ops (throttle_msg iface) (kernel d) of
         None \<Rightarrow> Fatal d
       | Some tfilt \<Rightarrow>
           (let d = d\<lparr>kernel := delete_throttlers ops tfilt (kernel d)\<rparr>
            in case ThrottleObjs d of
                 None \<Rightarrow> Running d
               | Some objs \<Rightarrow> Running (d\<lparr>ThrottleObjs := Some (objs\<lparr>objs_open := False\<rparr>)\<rparr>)))"

text \<open>What the calls of one \<open>ApplyPolicies\<close> answer: the names of the two temporary files, whether
  the template can be written, the compiler runs, and the object is read and loaded, and whether
  the files can be removed.\<close>

record apply_env =
  tcnl_ok :: "bool \<times> bool"
  temp_targ :: "string option"
  temp_obj :: "string option"
  execute_ok :: bool
  clang_ok :: bool
  spec_ok :: bool
  assign_ok :: bool
  remove_ok :: "bool \<times> bool"

text \<open>\<open>rebuildBpf\<close>; the object file is represented by the rules of the program in it. A policy that
  does not make a valid block makes the compiler fail.\<close>

definition rebuildBpf :: "apply_env \<Rightarrow> ip_policy list \<Rightarrow> rule list option" where
  "rebuildBpf env ipPolicies =
     (if \<not> execute_ok env then None
      else if \<not> clang_ok env then None
      else compile_rules ipPolicies)"

definition reattachThrottler ::
  "'k tc_ops \<Rightarrow> apply_env \<Rightarrow> rule list \<Rightarrow> string \<Rightarrow> u32 \<Rightarrow> 'k BpfContext \<Rightarrow> 'k BpfContext outcome" where
  "reattachThrottler ops env objFile ifname direction d =
     and_then (getTcnl (tcnl_ok env) d) (\<lambda>d.
       case InterfaceByName ops ifname of
         None \<Rightarrow> Fatal d
       | Some iface \<Rightarrow>
           and_then (cleanupThrottler ops (tcnl_ok env) iface d) (\<lambda>d.
             let d = d\<lparr>ThrottleObjs := Some \<lparr>Prog = None, objs_open = False\<rparr>\<rparr>
             in if \<not> spec_ok env then Fatal d
                else if \<not> assign_ok env then Fatal d
                else let fd = Prog_throttle objFile;
                         d = d\<lparr>ThrottleObjs := Some \<lparr>Prog = Some fd, objs_open = True\<rparr>\<rparr>
                     in add_filter ops (throttle_filter iface fd) d))"

definition remove_file :: "bool \<Rightarrow> string \<Rightarrow> 'k BpfContext \<Rightarrow> 'k BpfContext" where
  "remove_file ok name d = (if ok then d\<lparr>temp_files := removeAll name (temp_files d)\<rparr> else d)"

text \<open>\<open>ApplyPolicies\<close>.\<close>

definition ApplyPolicies ::
  "'k tc_ops \<Rightarrow> config \<Rightarrow> apply_env \<Rightarrow> ip_policy list \<Rightarrow> 'k BpfContext \<Rightarrow> 'k BpfContext outcome" where
  "ApplyPolicies ops cfg env ipPolicies d =
     (case temp_targ env of
        None \<Rightarrow> Fatal d
      | Some targFile \<Rightarrow>
          (let d = d\<lparr>temp_files := targFile # temp_files d\<rparr>
           in case temp_obj env of
                None \<Rightarrow> Fatal d
              | Some objFile \<Rightarrow>
                  (let d = d\<lparr>temp_files := objFile # temp_files d\<rparr>
                   in case rebuildBpf env ipPolicies of
                        None \<Rightarrow> Fatal d
                      | Some rules \<Rightarrow>
                          and_then (reattachThrottler ops env rules (LanInterface cfg) HandleMinEgress d)
                            (\<lambda>d. Running (remove_file (snd (remove_ok env)) objFile
                                   (remove_file (fst (remove_ok env)) targFile d))))))"

section \<open>Starting\<close>

text \<open>The policy that is attached at the start.\<close>

definition default_ip_policies :: "ip_policy list" where
  "default_ip_policies = [\<lparr>SrcIpAddr = [], DestIpAddr = ''192,168,0,174'', ClassId = 10\<rparr>]"

record start_env =
  dnspkt_ok :: bool
  trafficmon_ok :: bool
  apply_env :: apply_env

text \<open>\<open>Initialize\<close>. \<open>None\<close>: as for \<open>createQdiscs\<close>, a conversion that Go leaves to the implementation.\<close>

definition Initialize ::
  "bool \<Rightarrow> 'k tc_ops \<Rightarrow> config \<Rightarrow> start_env \<Rightarrow> 'k BpfContext \<Rightarrow> 'k BpfContext outcome option" where
  "Initialize fused ops cfg env d =
     (case createQdiscs fused (nl_ok ops (kernel d)) (InterfaceByName ops) cfg of
        None \<Rightarrow> None
      | Some (reqs, running) \<Rightarrow>
          Some (let d = d\<lparr>kernel := nl_run ops reqs (kernel d)\<rparr>; tc = tcnl_ok (apply_env env)
            in if \<not> running then Fatal d
               else if \<not> dnspkt_ok env then Fatal d
               else let d = d\<lparr>DnspktObjs := Some Prog_udp_dns_sniff\<rparr>
               in if \<not> trafficmon_ok env then Fatal d
               else let d = d\<lparr>TrafficmonObjs := Some Prog_traffic_mon\<rparr>
               in and_then (attachDnsSniffer ops tc (WanInterface cfg) HandleMinEgress d) (\<lambda>d.
                  and_then (attachDnsSniffer ops tc (WanInterface cfg) HandleMinIngress d) (\<lambda>d.
                  and_then (attachTrafficMonitor ops tc (LanInterface cfg) HandleMinEgress d) (\<lambda>d.
                  ApplyPolicies ops cfg (apply_env env) default_ip_policies d)))))"

end
