(* ===== verification/AttachProps.thy ===== *)
theory AttachProps
  imports Attach
begin

text \<open>
  What loading and attaching does to the filters of a kernel that keeps the contract \<open>tc_kernel\<close>:
  after the start every program hangs where it should, once, whatever was attached before;
  applying policies replaces the throttler and nothing else; and what a failure and a refused
  deletion leave behind.
\<close>

section \<open>Filters of an interface\<close>

definition at_hook :: "int \<Rightarrow> tc_handle \<Rightarrow> tc_object \<Rightarrow> bool" where
  "at_hook i p f \<longleftrightarrow> Ifindex (Msg f) = word_of_int i \<and> Parent (Msg f) = p"

text \<open>The programs on a hook, and the throttlers among the filters below the root qdisc.\<close>

definition programs :: "tc_object list \<Rightarrow> int \<Rightarrow> tc_handle \<Rightarrow> prog option list" where
  "programs fs i p = map (\<lambda>f. map_option FD (BPF f)) (filter (at_hook i p) fs)"

definition throttler :: "int \<Rightarrow> tc_object \<Rightarrow> bool" where
  "throttler i f \<longleftrightarrow> selects (throttle_msg i) f \<and> is_throttle f"

lemma throttler_at_hook: "throttler i f \<Longrightarrow> at_hook i (BuildHandle 1 0) f"
  by (simp add: throttler_def selects_def throttle_msg_def at_hook_def)

lemma same_request_facts:
  assumes "same_request g f"
  shows "at_hook i p g = at_hook i p f" and "map_option FD (BPF g) = map_option FD (BPF f)"
    and "throttler i g = throttler i f"
  using assms by (simp_all add: same_request_def at_hook_def throttler_def selects_def is_throttle_def)

lemma at_hook_filters [simp]:
  "at_hook i p (clsact_filter j d fd) \<longleftrightarrow> (word_of_int j :: u32) = word_of_int i \<and> p = BuildHandle HandleRoot d"
  "at_hook i p (throttle_filter j fd) \<longleftrightarrow> (word_of_int j :: u32) = word_of_int i \<and> p = BuildHandle 1 0"
  "map_option FD (BPF (clsact_filter j d fd)) = Some fd"
  "map_option FD (BPF (throttle_filter j fd)) = Some fd"
  "throttler i (throttle_filter i fd)"
  by (auto simp: at_hook_def clsact_filter_def throttle_filter_def throttler_def selects_def
      throttle_msg_def is_throttle_def)

lemma at_hook_hangs_on: "at_hook i (BuildHandle maj mi) f \<Longrightarrow> hangs_on i (MakeHandle (ucast maj) 0) f"
  by (simp add: at_hook_def hangs_on_def)

lemma programs_none: "(\<And>f. f \<in> set fs \<Longrightarrow> \<not> at_hook i p f) \<Longrightarrow> programs fs i p = []"
  by (simp add: programs_def filter_empty_conv)

text \<open>A filter more, somewhere in the list.\<close>

lemma programs_insert:
  "programs (xs @ g # ys) i p =
   (if at_hook i p g then programs xs i p @ map_option FD (BPF g) # programs ys i p else programs (xs @ ys) i p)"
  by (simp add: programs_def)

text \<open>The kernel accepts what it is asked; a throttler that is attached can be deleted.\<close>

definition deletes_accepted :: "'k tc_ops \<Rightarrow> ('k \<Rightarrow> tc_object list) \<Rightarrow> bool" where
  "deletes_accepted ops attached \<longleftrightarrow>
     (\<forall>f k. f \<in> set (attached k) \<and> is_throttle f \<longrightarrow> snd (FilterDelete ops f k))"

text \<open>The kernel deletes the throttlers that are attached, except some.\<close>

definition deletes_except :: "'k tc_ops \<Rightarrow> ('k \<Rightarrow> tc_object list) \<Rightarrow> (tc_object \<Rightarrow> bool) \<Rightarrow> bool" where
  "deletes_except ops attached refused \<longleftrightarrow>
     (\<forall>f k. f \<in> set (attached k) \<and> is_throttle f \<longrightarrow> snd (FilterDelete ops f k) = (\<not> refused f))"

lemma deletes_except_none: "deletes_except ops attached (\<lambda>_. False) = deletes_accepted ops attached"
  by (simp add: deletes_except_def deletes_accepted_def)

definition filters_accepted :: "'k tc_ops \<Rightarrow> bool" where
  "filters_accepted ops \<longleftrightarrow> (\<forall>m k. FilterGet ops m k \<noteq> None) \<and> (\<forall>f k. snd (FilterAdd ops f k))"

lemma getTcnl_Running: "getTcnl tc d = Running d' \<Longrightarrow> d' = d\<lparr>Tcnl := True\<rparr>"
  by (auto simp: getTcnl_def split: if_splits)

lemma add_filter_Running:
  "add_filter ops f d = Running d' \<longleftrightarrow> (\<exists>k. FilterAdd ops f (kernel d) = (k, True) \<and> d' = d\<lparr>kernel := k\<rparr>)"
  by (auto simp: add_filter_def split: prod.splits if_splits)

lemma cleanup_eq:
  "cleanupThrottler ops tc i d =
   and_then (getTcnl tc d) (\<lambda>d.
     case FilterGet ops (throttle_msg i) (kernel d) of
       None \<Rightarrow> Fatal d
     | Some fs \<Rightarrow> Running (d\<lparr>kernel := delete_throttlers ops fs (kernel d),
         ThrottleObjs := map_option (objs_open_update (\<lambda>_. False)) (ThrottleObjs d)\<rparr>))"
proof -
  have "(case ThrottleObjs d of None \<Rightarrow> Running (d\<lparr>kernel := k\<rparr>)
      | Some objs \<Rightarrow> Running (d\<lparr>kernel := k, ThrottleObjs := Some (objs\<lparr>objs_open := False\<rparr>)\<rparr>)) =
      Running (d\<lparr>kernel := k, ThrottleObjs := map_option (objs_open_update (\<lambda>_. False)) (ThrottleObjs d)\<rparr>)"
    for d :: "'a BpfContext" and k
    by (cases "ThrottleObjs d"; cases d) simp_all
  then show ?thesis
    by (auto simp: cleanupThrottler_def Let_def intro!: arg_cong [of _ _ "and_then (getTcnl tc d)"] ext
        split: option.split)
qed

context tc_kernel
begin

lemma added_programs:
  assumes "FilterAdd ops f k = (k', True)"
  shows "\<not> at_hook i p f \<Longrightarrow> programs (attached k') i p = programs (attached k) i p"
    and "at_hook i p f \<Longrightarrow> programs (attached k) i p = [] \<Longrightarrow> programs (attached k') i p = [map_option FD (BPF f)]"
proof -
  obtain xs ys g where *: "attached k = xs @ ys" "attached k' = xs @ g # ys" "same_request g f"
    using filter_add [OF assms] by blast
  note g = same_request_facts [OF *(3)]
  show "\<not> at_hook i p f \<Longrightarrow> programs (attached k') i p = programs (attached k) i p"
    by (simp add: * programs_insert g)
  show "at_hook i p f \<Longrightarrow> programs (attached k) i p = [] \<Longrightarrow> programs (attached k') i p = [map_option FD (BPF f)]"
    by (simp add: * programs_insert g) (simp add: programs_def)
qed

text \<open>Deleting a filter that is not attached changes nothing, whether it is accepted or not.\<close>

lemma delete_effect:
  assumes "f \<in> set (attached k) \<longrightarrow> snd (FilterDelete ops f k)"
  shows "attached (fst (FilterDelete ops f k)) = filter (\<lambda>g. g \<noteq> f) (attached k)"
proof (cases "snd (FilterDelete ops f k)")
  case True
  then have "FilterDelete ops f k = (fst (FilterDelete ops f k), True)" by (simp add: prod_eq_iff)
  from filter_delete [OF this] show ?thesis .
next
  case False
  then have "FilterDelete ops f k = (fst (FilterDelete ops f k), False)" by (simp add: prod_eq_iff)
  from filter_delete_refused [OF this] False assms show ?thesis
    by (metis (mono_tags, lifting) filter_True)
qed

lemma delete_refused:
  assumes "\<not> snd (FilterDelete ops f k)"
  shows "attached (fst (FilterDelete ops f k)) = attached k"
proof -
  have "FilterDelete ops f k = (fst (FilterDelete ops f k), False)" using assms by (simp add: prod_eq_iff)
  from filter_delete_refused [OF this] show ?thesis .
qed

lemma deleted_throttlers:
  assumes "deletes_except ops attached refused"
  shows "attached (delete_throttlers ops ts k) =
    filter (\<lambda>f. \<not> (f \<in> set ts \<and> is_throttle f) \<or> refused f) (attached k)"
proof (induction ts arbitrary: k)
  case (Cons t ts)
  let ?k = "if is_throttle t then fst (FilterDelete ops t k) else k"
  have "attached ?k = filter (\<lambda>f. \<not> (f = t \<and> is_throttle f) \<or> refused f) (attached k)"
  proof (cases "is_throttle t \<and> t \<in> set (attached k) \<and> refused t")
    case True
    then have "\<not> snd (FilterDelete ops t k)" using assms by (simp add: deletes_except_def)
    with True show ?thesis by (auto simp: delete_refused intro!: filter_True [symmetric])
  next
    case False
    then have "is_throttle t \<Longrightarrow> t \<in> set (attached k) \<longrightarrow> snd (FilterDelete ops t k)"
      using assms by (simp add: deletes_except_def)
    with False show ?thesis by (auto simp: delete_effect intro!: filter_cong)
  qed
  then show ?case by (auto simp: Cons.IH intro!: filter_cong)
qed simp

lemma cleaned_up:
  assumes "deletes_except ops attached refused" and "cleanupThrottler ops tc i d = Running d'"
  shows "attached (kernel d') = filter (\<lambda>f. \<not> throttler i f \<or> refused f) (attached (kernel d))"
    and "\<exists>k objs. d' = d\<lparr>kernel := k, Tcnl := True, ThrottleObjs := objs\<rparr>"
proof -
  obtain fs where fs: "FilterGet ops (throttle_msg i) (kernel d) = Some fs"
    "d' = d\<lparr>Tcnl := True, kernel := delete_throttlers ops fs (kernel d),
       ThrottleObjs := map_option (objs_open_update (\<lambda>_. False)) (ThrottleObjs d)\<rparr>"
    using assms(2) unfolding cleanup_eq
    by (auto simp: and_then_Running dest!: getTcnl_Running split: option.splits)
  have "fs = filter (selects (throttle_msg i)) (attached (kernel d))"
    using fs(1) by (intro filter_get) (simp_all add: throttle_msg_def)
  then show "attached (kernel d') = filter (\<lambda>f. \<not> throttler i f \<or> refused f) (attached (kernel d))"
    by (auto simp: fs(2) deleted_throttlers [OF assms(1)] throttler_def intro!: filter_cong)
  show "\<exists>k objs. d' = d\<lparr>kernel := k, Tcnl := True, ThrottleObjs := objs\<rparr>"
    by (rule exI [of _ "kernel d'"], rule exI [of _ "ThrottleObjs d'"]) (simp add: fs(2))
qed

text \<open>After policies were applied there is a throttler of the rules beside the filters that are not
  throttlers and the throttlers whose deletion was refused.\<close>

lemma applied_except:
  assumes "deletes_except ops attached refused" and "InterfaceByName ops (LanInterface cfg) = Some lan"
    and "ApplyPolicies ops cfg env ips d = Running d'"
  shows "\<exists>rules xs ys g. compile_rules ips = Some rules \<and>
    filter (\<lambda>f. \<not> throttler lan f \<or> refused f) (attached (kernel d)) = xs @ ys \<and> attached (kernel d') = xs @ g # ys \<and>
    same_request g (throttle_filter lan (Prog_throttle rules)) \<and>
    (\<exists>files. d' = d\<lparr>kernel := kernel d', Tcnl := True, temp_files := files,
       ThrottleObjs := Some \<lparr>Prog = Some (Prog_throttle rules), objs_open = True\<rparr>\<rparr>)"
proof -
  let ?env = "\<lambda>a b. d\<lparr>temp_files := b # a # temp_files d\<rparr>"
  obtain a b rules d1 where 1: "rebuildBpf env ips = Some rules"
    "reattachThrottler ops env rules (LanInterface cfg) HandleMinEgress (?env a b) = Running d1"
    "d' = remove_file (snd (remove_ok env)) b (remove_file (fst (remove_ok env)) a d1)"
    using assms(3) by (auto simp: ApplyPolicies_def Let_def and_then_Running split: option.splits)
  from 1(2) obtain d2 where 2: "cleanupThrottler ops (tcnl_ok env) lan (?env a b\<lparr>Tcnl := True\<rparr>) = Running d2"
    "add_filter ops (throttle_filter lan (Prog_throttle rules))
       (d2\<lparr>ThrottleObjs := Some \<lparr>Prog = Some (Prog_throttle rules), objs_open = True\<rparr>\<rparr>) = Running d1"
    using assms(2)
    by (auto simp: reattachThrottler_def Let_def and_then_Running dest!: getTcnl_Running split: if_splits)
  note clean = cleaned_up [OF assms(1) 2(1)]
  obtain k where 3: "FilterAdd ops (throttle_filter lan (Prog_throttle rules)) (kernel d2) = (k, True)"
    "d1 = d2\<lparr>ThrottleObjs := Some \<lparr>Prog = Some (Prog_throttle rules), objs_open = True\<rparr>, kernel := k\<rparr>"
    using 2(2) by (auto simp: add_filter_Running)
  obtain xs ys g where 4: "attached (kernel d2) = xs @ ys" "attached k = xs @ g # ys"
    "same_request g (throttle_filter lan (Prog_throttle rules))"
    using filter_add [OF 3(1)] by blast
  have kernel: "kernel d' = k" by (simp add: 1(3) 3(2) remove_file_def)
  have "compile_rules ips = Some rules" using 1(1) by (simp add: rebuildBpf_def split: if_splits)
  moreover have "filter (\<lambda>f. \<not> throttler lan f \<or> refused f) (attached (kernel d)) = xs @ ys"
    using clean(1) 4(1) by simp
  moreover have "\<exists>files. d' = d\<lparr>kernel := k, Tcnl := True, temp_files := files,
      ThrottleObjs := Some \<lparr>Prog = Some (Prog_throttle rules), objs_open = True\<rparr>\<rparr>"
    using clean(2) by (elim exE) (intro exI [of _ "temp_files d'"], simp add: 1(3) 3(2) remove_file_def)
  ultimately show ?thesis using 4(2,3) by (metis kernel)
qed

lemma applied:
  assumes "deletes_accepted ops attached" and "InterfaceByName ops (LanInterface cfg) = Some lan"
    and "ApplyPolicies ops cfg env ips d = Running d'"
  shows "\<exists>rules xs ys g. compile_rules ips = Some rules \<and>
    filter (\<lambda>f. \<not> throttler lan f) (attached (kernel d)) = xs @ ys \<and> attached (kernel d') = xs @ g # ys \<and>
    same_request g (throttle_filter lan (Prog_throttle rules)) \<and>
    (\<exists>files. d' = d\<lparr>kernel := kernel d', Tcnl := True, temp_files := files,
       ThrottleObjs := Some \<lparr>Prog = Some (Prog_throttle rules), objs_open = True\<rparr>\<rparr>)"
  using applied_except [of "\<lambda>_. False", unfolded deletes_except_none, OF assms] by simp

end

section \<open>Applying policies\<close>

definition env_ok :: "apply_env \<Rightarrow> bool" where
  "env_ok env \<longleftrightarrow> tcnl_ok env = (True, True) \<and> temp_targ env \<noteq> None \<and> temp_obj env \<noteq> None \<and>
     execute_ok env \<and> clang_ok env \<and> spec_ok env \<and> assign_ok env \<and> remove_ok env = (True, True)"

lemma getTcnl_ok: "tc = (True, True) \<Longrightarrow> getTcnl tc d = Running (d\<lparr>Tcnl := True\<rparr>)"
  by (cases d) (simp add: getTcnl_def)

lemma add_filter_accepted:
  "filters_accepted ops \<Longrightarrow> add_filter ops f d = Running (d\<lparr>kernel := fst (FilterAdd ops f (kernel d))\<rparr>)"
  by (auto simp: add_filter_def filters_accepted_def prod.case_eq_if)

lemma cleanup_accepted:
  "filters_accepted ops \<Longrightarrow> \<exists>k objs. cleanupThrottler ops (True, True) i d = Running (d\<lparr>kernel := k, Tcnl := True, ThrottleObjs := objs\<rparr>)"
proof -
  assume "filters_accepted ops"
  then obtain fs where "FilterGet ops (throttle_msg i) (kernel d) = Some fs"
    by (metis filters_accepted_def not_None_eq)
  then have "cleanupThrottler ops (True, True) i d = Running (d\<lparr>Tcnl := True,
      kernel := delete_throttlers ops fs (kernel d), ThrottleObjs := map_option (objs_open_update (\<lambda>_. False)) (ThrottleObjs d)\<rparr>)"
    by (simp add: cleanup_eq getTcnl_ok)
  then show ?thesis by (cases d) auto
qed

lemma apply_runs:
  assumes "filters_accepted ops" and "InterfaceByName ops (LanInterface cfg) = Some lan"
    and "env_ok env" and "compile_rules ips = Some rules"
  shows "\<exists>d'. ApplyPolicies ops cfg env ips d = Running d' \<and>
    (the (temp_targ env) \<notin> set (temp_files d) \<longrightarrow> the (temp_obj env) \<notin> set (temp_files d) \<longrightarrow>
      temp_files d' = temp_files d)"
proof -
  obtain a b where env: "tcnl_ok env = (True, True)" "temp_targ env = Some a" "temp_obj env = Some b"
    "rebuildBpf env ips = Some rules" "spec_ok env" "assign_ok env" "remove_ok env = (True, True)"
    using assms(3,4) by (auto simp: env_ok_def rebuildBpf_def)
  obtain k objs where "cleanupThrottler ops (True, True) lan (d\<lparr>temp_files := b # a # temp_files d, Tcnl := True\<rparr>) =
      Running (d\<lparr>temp_files := b # a # temp_files d, Tcnl := True\<rparr>\<lparr>kernel := k, Tcnl := True, ThrottleObjs := objs\<rparr>)"
    using cleanup_accepted [OF assms(1)] by blast
  then show ?thesis
    by (simp add: ApplyPolicies_def reattachThrottler_def env assms(2) getTcnl_ok add_filter_accepted [OF assms(1)]
        remove_file_def Let_def)
qed

text \<open>C9: When the kernel and the libraries accept what they are asked, applying policies that compile
  leaves exactly one throttler below the root qdisc of the LAN interface, the program of these
  policies, whatever throttlers were there; every other filter stays as it is, \<open>BpfCtx\<close> holds the new
  program and the temporary files are gone.\<close>

theorem policies_replace_throttler:
  assumes "tc_kernel ops attached" and "filters_accepted ops" and "deletes_accepted ops attached"
    and "InterfaceByName ops (LanInterface cfg) = Some lan" and "env_ok env"
    and "the (temp_targ env) \<notin> set (temp_files d)" and "the (temp_obj env) \<notin> set (temp_files d)"
    and "compile_rules ips = Some rules"
  shows "\<exists>d'. ApplyPolicies ops cfg env ips d = Running d' \<and>
    map (\<lambda>f. map_option FD (BPF f)) (filter (throttler lan) (attached (kernel d'))) = [Some (Prog_throttle rules)] \<and>
    filter (\<lambda>f. \<not> throttler lan f) (attached (kernel d')) = filter (\<lambda>f. \<not> throttler lan f) (attached (kernel d)) \<and>
    ThrottleObjs d' = Some \<lparr>Prog = Some (Prog_throttle rules), objs_open = True\<rparr> \<and> temp_files d' = temp_files d"
proof -
  obtain d' where d': "ApplyPolicies ops cfg env ips d = Running d'" "temp_files d' = temp_files d"
    using apply_runs [OF assms(2,4,5,8)] assms(6,7) by blast
  obtain xs ys g files where *: "filter (\<lambda>f. \<not> throttler lan f) (attached (kernel d)) = xs @ ys"
    "attached (kernel d') = xs @ g # ys" "same_request g (throttle_filter lan (Prog_throttle rules))"
    "d' = d\<lparr>kernel := kernel d', Tcnl := True, temp_files := files,
       ThrottleObjs := Some \<lparr>Prog = Some (Prog_throttle rules), objs_open = True\<rparr>\<rparr>"
    using tc_kernel.applied [OF assms(1,3,4) d'(1)] assms(8) by auto
  have none: "\<forall>f \<in> set (xs @ ys). \<not> throttler lan f" unfolding *(1) [symmetric] by auto
  then have "filter (throttler lan) (xs @ g # ys) = [g]" "filter (\<lambda>f. \<not> throttler lan f) (xs @ g # ys) = xs @ ys"
    by (auto simp: same_request_facts(3) [OF *(3)] filter_empty_conv)
  moreover have "ThrottleObjs d' = Some \<lparr>Prog = Some (Prog_throttle rules), objs_open = True\<rparr>"
    by (subst *(4)) simp
  ultimately show ?thesis
    using d' same_request_facts(2) [OF *(3)] by (simp add: *(1,2))
qed

section \<open>What a failure leaves\<close>

text \<open>The interface of which \<open>ApplyPolicies\<close> gets to delete the throttlers: for that the object must have
  been built, the connection to netlink opened and the filters of the interface listed.\<close>

definition cleaned_interface ::
  "'k tc_ops \<Rightarrow> config \<Rightarrow> apply_env \<Rightarrow> ip_policy list \<Rightarrow> 'k BpfContext \<Rightarrow> int option" where
  "cleaned_interface ops cfg env ips d =
     (if temp_targ env \<noteq> None \<and> temp_obj env \<noteq> None \<and> rebuildBpf env ips \<noteq> None \<and>
         (Tcnl d \<or> tcnl_ok env = (True, True))
      then (case InterfaceByName ops (LanInterface cfg) of
              None \<Rightarrow> None
            | Some lan \<Rightarrow> if FilterGet ops (throttle_msg lan) (kernel d) = None then None else Some lan)
      else None)"

context tc_kernel
begin

lemma add_filter_Fatal: "add_filter ops f d = Fatal d' \<Longrightarrow> attached (kernel d') = attached (kernel d)"
  by (auto simp: add_filter_def prod.case_eq_if split: if_splits intro: filter_add_refused [of f "kernel d"] simp: prod_eq_iff)

lemma apply_fails:
  assumes "deletes_accepted ops attached" and "ApplyPolicies ops cfg env ips d = Fatal d'"
  shows "attached (kernel d') =
    (case cleaned_interface ops cfg env ips d of
       None \<Rightarrow> attached (kernel d)
     | Some lan \<Rightarrow> filter (\<lambda>f. \<not> throttler lan f) (attached (kernel d)))"
proof (cases "temp_targ env \<noteq> None \<and> temp_obj env \<noteq> None \<and> rebuildBpf env ips \<noteq> None")
  case True
  then obtain a b rules where built: "temp_targ env = Some a" "temp_obj env = Some b" "rebuildBpf env ips = Some rules"
    by blast
  let ?d = "d\<lparr>temp_files := b # a # temp_files d\<rparr>"
  have fatal: "reattachThrottler ops env rules (LanInterface cfg) HandleMinEgress ?d = Fatal d'"
    using assms(2) built by (cases "reattachThrottler ops env rules (LanInterface cfg) HandleMinEgress ?d")
      (simp_all add: ApplyPolicies_def Let_def)
  show ?thesis
  proof (cases "\<exists>lan fs. (Tcnl d \<or> tcnl_ok env = (True, True)) \<and> InterfaceByName ops (LanInterface cfg) = Some lan \<and>
      FilterGet ops (throttle_msg lan) (kernel d) = Some fs")
    case reached: True
    then obtain lan fs where lan: "Tcnl d \<or> tcnl_ok env = (True, True)" "InterfaceByName ops (LanInterface cfg) = Some lan"
      "FilterGet ops (throttle_msg lan) (kernel d) = Some fs" by blast
    obtain d1 where tc: "getTcnl (tcnl_ok env) ?d = Running d1" "kernel d1 = kernel d" "Tcnl d1"
      using lan(1) by (cases "Tcnl d") (auto simp: getTcnl_def)
    then obtain d2 where clean: "cleanupThrottler ops (tcnl_ok env) lan d1 = Running d2"
      using lan(3) by (simp add: cleanup_eq getTcnl_def)
    have "attached (kernel d') = attached (kernel d2)"
      using fatal tc(1) lan(2) clean by (auto simp: reattachThrottler_def Let_def dest: add_filter_Fatal split: if_splits)
    moreover have "cleaned_interface ops cfg env ips d = Some lan" using True lan by (simp add: cleaned_interface_def)
    ultimately show ?thesis
      using cleaned_up(1) [of "\<lambda>_. False", unfolded deletes_except_none, OF assms(1) clean] tc(2) by simp
  next
    case False
    then have "cleaned_interface ops cfg env ips d = None" by (auto simp: cleaned_interface_def split: option.split)
    moreover have "kernel d' = kernel d"
      using fatal False
      by (auto simp: reattachThrottler_def getTcnl_def cleanup_eq Let_def prod_eq_iff split: if_splits option.splits)
    ultimately show ?thesis by simp
  qed
next
  case False
  with assms(2) have "kernel d' = kernel d"
    by (auto simp: ApplyPolicies_def Let_def split: option.splits)
  moreover from False have "cleaned_interface ops cfg env ips d = None" by (auto simp: cleaned_interface_def)
  ultimately show ?thesis by simp
qed

end

text \<open>C24: Let applying policies end the process, and let the kernel refuse no deletion. If the end came
  before the code reached the deletion of the old throttlers - a temporary file or the object could
  not be made, the connection or the interface was missing, or the filters could not be listed - the
  attached filters are as before. If it came later, when the new object was read, loaded or
  attached, the old throttlers of the LAN interface are gone and no new one is attached, while all
  other filters are as before. It depends on nothing else.\<close>

theorem failed_reload_unthrottles:
  assumes "tc_kernel ops attached" and "deletes_accepted ops attached" and "ApplyPolicies ops cfg env ips d = Fatal d'"
  shows "attached (kernel d') =
    (case cleaned_interface ops cfg env ips d of
       None \<Rightarrow> attached (kernel d)
     | Some lan \<Rightarrow> filter (\<lambda>f. \<not> throttler lan f) (attached (kernel d)))"
  using assms by (rule tc_kernel.apply_fails)

text \<open>C40: The code does not look at the result of a deletion. When the kernel deletes the attached
  throttlers except some, and accepts everything else, applying policies that compile goes on, and
  the throttlers attached afterwards are the refused ones, in their order, and somewhere among them
  the new one; all other filters are as before.\<close>

theorem refused_throttlers_stay:
  assumes "tc_kernel ops attached" and "filters_accepted ops" and "deletes_except ops attached refused"
    and "InterfaceByName ops (LanInterface cfg) = Some lan" and "env_ok env" and "compile_rules ips = Some rules"
  shows "\<exists>d' xs ys. ApplyPolicies ops cfg env ips d = Running d' \<and>
    filter (\<lambda>f. throttler lan f \<and> refused f) (attached (kernel d)) = xs @ ys \<and>
    map (\<lambda>f. map_option FD (BPF f)) (filter (throttler lan) (attached (kernel d'))) =
      map (\<lambda>f. map_option FD (BPF f)) xs @ Some (Prog_throttle rules) # map (\<lambda>f. map_option FD (BPF f)) ys \<and>
    filter (\<lambda>f. \<not> throttler lan f) (attached (kernel d')) = filter (\<lambda>f. \<not> throttler lan f) (attached (kernel d))"
proof -
  obtain d' where d': "ApplyPolicies ops cfg env ips d = Running d'"
    using apply_runs [OF assms(2,4-6)] by blast
  obtain xs ys g where *: "filter (\<lambda>f. \<not> throttler lan f \<or> refused f) (attached (kernel d)) = xs @ ys"
    "attached (kernel d') = xs @ g # ys" "same_request g (throttle_filter lan (Prog_throttle rules))"
    using tc_kernel.applied_except [OF assms(1,3,4) d'] assms(6) by auto
  have g: "throttler lan g" "map_option FD (BPF g) = Some (Prog_throttle rules)"
    using same_request_facts(2,3) [OF *(3)] by simp_all
  have parts: "filter (throttler lan) (filter (\<lambda>f. \<not> throttler lan f \<or> refused f) zs) =
      filter (\<lambda>f. throttler lan f \<and> refused f) zs"
    "filter (\<lambda>f. \<not> throttler lan f) (filter (\<lambda>f. \<not> throttler lan f \<or> refused f) zs) =
      filter (\<lambda>f. \<not> throttler lan f) zs" for zs
    by (induction zs) auto
  have "filter (throttler lan) xs @ filter (throttler lan) ys = filter (\<lambda>f. throttler lan f \<and> refused f) (attached (kernel d))"
    using arg_cong [OF *(1), of "filter (throttler lan)"] by (simp only: parts filter_append)
  moreover have "filter (\<lambda>f. \<not> throttler lan f) xs @ filter (\<lambda>f. \<not> throttler lan f) ys =
      filter (\<lambda>f. \<not> throttler lan f) (attached (kernel d))"
    using arg_cong [OF *(1), of "filter (\<lambda>f. \<not> throttler lan f)"] by (simp only: parts filter_append)
  ultimately show ?thesis
    using d' g by (intro exI [of _ d'] exI [of _ "filter (throttler lan) xs"] exI [of _ "filter (throttler lan) ys"])
      (simp add: *(2))
qed

section \<open>Starting\<close>

lemma run_steps_append:
  "run_steps ok (ss @ ss') sent =
   (let (sent', running) = run_steps ok ss sent in if running then run_steps ok ss' sent' else (sent', False))"
  by (induction ss arbitrary: sent) auto

lemma createQdiscs_run:
  assumes "createQdiscs fused ok ifidx cfg = Some (reqs, True)"
    and "ifidx (LanInterface cfg) = Some lan" and "ifidx (WanInterface cfg) = Some wan"
  shows "\<exists>leaves. run_steps ok (lan_steps lan leaves @ recreateBpfQdisc wan) [] = (reqs, True)"
proof -
  obtain leaves s1 where "run_steps ok (lan_steps lan leaves) [] = (s1, True)"
    "run_steps ok (recreateBpfQdisc wan) s1 = (reqs, True)"
    using assms by (auto simp: createQdiscs_def Let_def split: bind_splits prod.splits if_splits)
  then show ?thesis by (intro exI [of _ leaves]) (simp add: run_steps_append)
qed

text \<open>The rules of the program attached at the start: one rule, for packets from 192.168.0.174.\<close>

definition default_rules :: "rule list" where
  "default_rules = [\<lparr>rule_saddr = ip_word LittleEndian [192, 168, 0, 174], rule_daddr = None, rule_class = 0x10\<rparr>]"

lemma compile_default: "compile_rules default_ip_policies = Some default_rules"
  by code_simp

lemma attachDnsSniffer_Running:
  "InterfaceByName ops ifname = Some i \<Longrightarrow> attachDnsSniffer ops tc ifname dir d = Running d' \<Longrightarrow>
   \<exists>fd k. DnspktObjs d = Some fd \<and> FilterAdd ops (clsact_filter i dir fd) (kernel d) = (k, True) \<and>
     d' = d\<lparr>Tcnl := True, kernel := k, dns_pollers := dns_pollers d + 1\<rparr>"
  by (auto simp: attachDnsSniffer_def and_then_Running add_filter_Running dest!: getTcnl_Running split: option.splits)

lemma attachTrafficMonitor_Running:
  "InterfaceByName ops ifname = Some i \<Longrightarrow> attachTrafficMonitor ops tc ifname dir d = Running d' \<Longrightarrow>
   \<exists>fd k. TrafficmonObjs d = Some fd \<and> FilterAdd ops (clsact_filter i dir fd) (kernel d) = (k, True) \<and>
     d' = d\<lparr>Tcnl := True, kernel := k\<rparr>"
  by (auto simp: attachTrafficMonitor_def and_then_Running add_filter_Running dest!: getTcnl_Running split: option.splits)

lemma hook_facts:
  "HandleMinEgress \<noteq> HandleMinIngress" "HandleMinIngress \<noteq> HandleMinEgress"
  "HandleRoot \<noteq> 1" "(1 :: u32) \<noteq> HandleRoot"
  by (simp_all add: HandleRoot_def HandleMinEgress_def HandleMinIngress_def)

context tc_kernel
begin

lemma qdiscs_bare:
  assumes "createQdiscs fused (nl_ok ops k) ifidx cfg = Some (reqs, True)"
    and "ifidx (LanInterface cfg) = Some lan" and "ifidx (WanInterface cfg) = Some wan"
  shows "programs (attached (nl_run ops reqs k)) lan (BuildHandle 1 0) = []"
    and "programs (attached (nl_run ops reqs k)) lan (BuildHandle HandleRoot dir) = []"
    and "programs (attached (nl_run ops reqs k)) wan (BuildHandle HandleRoot dir) = []"
proof -
  obtain leaves where run: "run_steps (nl_ok ops k) (lan_steps lan leaves @ recreateBpfQdisc wan) [] = (reqs, True)"
    using createQdiscs_run [OF assms] by blast
  note bare = run_new_qdisc_empty [OF run]
  have "\<not> hangs_on lan (MakeHandle 1 0) f" "\<not> hangs_on lan (MakeHandle 0xffff 0) f" "\<not> hangs_on wan (MakeHandle 0xffff 0) f"
    if "f \<in> set (attached (nl_run ops reqs k))" for f
  proof -
    show "\<not> hangs_on lan (MakeHandle 1 0) f"
      by (rule bare [OF _ _ that, of "AddHtb lan (MakeHandle 1 0) HANDLE_ROOT 0x10"]) (simp_all add: lan_steps_def)
    show "\<not> hangs_on lan (MakeHandle 0xffff 0) f"
      by (rule bare [OF _ _ that, of "AddClsact lan (MakeHandle 0xffff 0) HANDLE_CLSACT"])
        (simp_all add: lan_steps_def recreateBpfQdisc_def)
    show "\<not> hangs_on wan (MakeHandle 0xffff 0) f"
      by (rule bare [OF _ _ that, of "AddClsact wan (MakeHandle 0xffff 0) HANDLE_CLSACT"])
        (simp_all add: recreateBpfQdisc_def)
  qed
  moreover have "ucast HandleRoot = (0xffff :: u16)" "ucast (1 :: u32) = (1 :: u16)"
    by (simp_all add: HandleRoot_def)
  ultimately show "programs (attached (nl_run ops reqs k)) lan (BuildHandle 1 0) = []"
    and "programs (attached (nl_run ops reqs k)) lan (BuildHandle HandleRoot dir) = []"
    and "programs (attached (nl_run ops reqs k)) wan (BuildHandle HandleRoot dir) = []"
    by (metis at_hook_hangs_on programs_none)+
qed

lemma started:
  assumes "deletes_accepted ops attached" and "InterfaceByName ops (LanInterface cfg) = Some lan"
    and "InterfaceByName ops (WanInterface cfg) = Some wan" and "(word_of_int lan :: u32) \<noteq> word_of_int wan"
    and "Initialize fused ops cfg env d = Some (Running d')"
  shows "programs (attached (kernel d')) lan (BuildHandle 1 0) = [Some (Prog_throttle default_rules)]"
    and "programs (attached (kernel d')) lan (BuildHandle HandleRoot HandleMinEgress) = [Some Prog_traffic_mon]"
    and "programs (attached (kernel d')) lan (BuildHandle HandleRoot HandleMinIngress) = []"
    and "programs (attached (kernel d')) wan (BuildHandle HandleRoot HandleMinEgress) = [Some Prog_udp_dns_sniff]"
    and "programs (attached (kernel d')) wan (BuildHandle HandleRoot HandleMinIngress) = [Some Prog_udp_dns_sniff]"
    and "ThrottleObjs d' = Some \<lparr>Prog = Some (Prog_throttle default_rules), objs_open = True\<rparr>"
    and "dns_pollers d' = dns_pollers d + 2" and "Tcnl d'"
    and "map (\<lambda>f. map_option FD (BPF f)) (filter (throttler lan) (attached (kernel d'))) = [Some (Prog_throttle default_rules)]"
proof -
  let ?lan = "BuildHandle 1 0" and ?egress = "BuildHandle HandleRoot HandleMinEgress"
    and ?ingress = "BuildHandle HandleRoot HandleMinIngress"
  let ?sniff = "\<lambda>dir. clsact_filter wan dir Prog_udp_dns_sniff" and ?mon = "clsact_filter lan HandleMinEgress Prog_traffic_mon"
  obtain reqs where reqs: "createQdiscs fused (nl_ok ops (kernel d)) (InterfaceByName ops) cfg = Some (reqs, True)"
    using assms(5) by (auto simp: Initialize_def Let_def split: option.splits prod.splits if_splits)
  let ?k0 = "nl_run ops reqs (kernel d)"
  let ?d0 = "d\<lparr>kernel := ?k0, DnspktObjs := Some Prog_udp_dns_sniff, TrafficmonObjs := Some Prog_traffic_mon\<rparr>"
  let ?env = "apply_env env"
  obtain d1 d2 d3 where steps: "attachDnsSniffer ops (tcnl_ok ?env) (WanInterface cfg) HandleMinEgress ?d0 = Running d1"
    "attachDnsSniffer ops (tcnl_ok ?env) (WanInterface cfg) HandleMinIngress d1 = Running d2"
    "attachTrafficMonitor ops (tcnl_ok ?env) (LanInterface cfg) HandleMinEgress d2 = Running d3"
    "ApplyPolicies ops cfg ?env default_ip_policies d3 = Running d'"
    using assms(5) reqs by (auto simp: Initialize_def Let_def and_then_Running split: if_splits)
  obtain k1 where k1: "FilterAdd ops (?sniff HandleMinEgress) ?k0 = (k1, True)"
    "d1 = ?d0\<lparr>Tcnl := True, kernel := k1, dns_pollers := dns_pollers d + 1\<rparr>"
    using attachDnsSniffer_Running [OF assms(3) steps(1)] by auto
  obtain k2 where k2: "FilterAdd ops (?sniff HandleMinIngress) k1 = (k2, True)"
    "d2 = d1\<lparr>Tcnl := True, kernel := k2, dns_pollers := dns_pollers d + 2\<rparr>"
    using attachDnsSniffer_Running [OF assms(3) steps(2)] by (auto simp: k1(2))
  obtain k3 where k3: "FilterAdd ops ?mon k2 = (k3, True)" "d3 = d2\<lparr>Tcnl := True, kernel := k3\<rparr>"
    using attachTrafficMonitor_Running [OF assms(2) steps(3)] by (auto simp: k2(2) k1(2))
  obtain xs ys g files where new: "filter (\<lambda>f. \<not> throttler lan f) (attached k3) = xs @ ys"
    "attached (kernel d') = xs @ g # ys" "same_request g (throttle_filter lan (Prog_throttle default_rules))"
    "d' = d3\<lparr>kernel := kernel d', Tcnl := True, temp_files := files,
       ThrottleObjs := Some \<lparr>Prog = Some (Prog_throttle default_rules), objs_open = True\<rparr>\<rparr>"
    using applied [OF assms(1,2) steps(4)] by (auto simp: compile_default k3(2))
  note bare = qdiscs_bare [OF reqs assms(2,3)]
  note p = added_programs [OF k1(1)] added_programs [OF k2(1)] added_programs [OF k3(1)]
  have k3_programs: "programs (attached k3) lan ?lan = []" "programs (attached k3) lan ?egress = [Some Prog_traffic_mon]"
    "programs (attached k3) lan ?ingress = []" "programs (attached k3) wan ?egress = [Some Prog_udp_dns_sniff]"
    "programs (attached k3) wan ?ingress = [Some Prog_udp_dns_sniff]"
    using assms(4) bare by (simp_all add: p hook_facts)
  have "\<not> throttler lan f" if "f \<in> set (attached k3)" for f
    using k3_programs(1) that throttler_at_hook by (fastforce simp: programs_def filter_empty_conv)
  then have k3': "attached k3 = xs @ ys" using new(1) by (metis (no_types, lifting) filter_True)
  have last: "programs (attached (kernel d')) i h =
      (if at_hook i h (throttle_filter lan (Prog_throttle default_rules))
       then programs xs i h @ Some (Prog_throttle default_rules) # programs ys i h else programs (attached k3) i h)" for i h
    by (simp only: new(2) programs_insert same_request_facts [OF new(3)] at_hook_filters k3')
  have "programs xs lan ?lan = []" "programs ys lan ?lan = []"
    using k3_programs(1) by (simp_all add: k3' programs_def)
  then show "programs (attached (kernel d')) lan ?lan = [Some (Prog_throttle default_rules)]"
    by (simp add: last)
  show "programs (attached (kernel d')) lan ?egress = [Some Prog_traffic_mon]"
    and "programs (attached (kernel d')) lan ?ingress = []"
    and "programs (attached (kernel d')) wan ?egress = [Some Prog_udp_dns_sniff]"
    and "programs (attached (kernel d')) wan ?ingress = [Some Prog_udp_dns_sniff]"
    by (simp_all add: last k3_programs hook_facts)
  show "ThrottleObjs d' = Some \<lparr>Prog = Some (Prog_throttle default_rules), objs_open = True\<rparr>"
    and "dns_pollers d' = dns_pollers d + 2" and "Tcnl d'"
    by (subst new(4), simp add: k3(2) k2(2))+
  have "\<forall>f \<in> set (xs @ ys). \<not> throttler lan f" using new(1) by (metis mem_Collect_eq set_filter)
  then have "filter (throttler lan) (attached (kernel d')) = [g]"
    by (auto simp: new(2) same_request_facts(3) [OF new(3)] filter_empty_conv)
  then show "map (\<lambda>f. map_option FD (BPF f)) (filter (throttler lan) (attached (kernel d'))) = [Some (Prog_throttle default_rules)]"
    by (simp add: same_request_facts(2) [OF new(3)])
qed

end

definition start_ok :: "start_env \<Rightarrow> bool" where
  "start_ok env \<longleftrightarrow> dnspkt_ok env \<and> trafficmon_ok env \<and> env_ok (apply_env env)"

lemma start_runs:
  assumes "filters_accepted ops" and "InterfaceByName ops (LanInterface cfg) = Some lan"
    and "InterfaceByName ops (WanInterface cfg) = Some wan" and "start_ok env"
    and "createQdiscs fused (nl_ok ops (kernel d)) (InterfaceByName ops) cfg = Some (reqs, True)"
  shows "\<exists>d'. Initialize fused ops cfg env d = Some (Running d')"
proof -
  have env: "dnspkt_ok env" "trafficmon_ok env" "tcnl_ok (apply_env env) = (True, True)" "env_ok (apply_env env)"
    using assms(4) by (auto simp: start_ok_def env_ok_def)
  have "\<exists>d'. ApplyPolicies ops cfg (apply_env env) default_ip_policies x = Running d'" for x :: "'a BpfContext"
    using apply_runs [OF assms(1,2) env(4) compile_default] by blast
  then show ?thesis
    by (simp add: Initialize_def assms(2,3,5) env(1-3) attachDnsSniffer_def attachTrafficMonitor_def getTcnl_ok
        add_filter_accepted [OF assms(1)] Let_def)
qed

text \<open>C8: Whatever was attached before, after a start in which the queueing disciplines were set up and
  the kernel accepted the filters the throttler of the default policy is the only program below
  the root qdisc of the LAN interface, the monitor the only one on its egress, and the sniffer the
  only one on each side of the WAN interface; two goroutines poll the events of the one sniffer.\<close>

theorem start_attaches:
  assumes "tc_kernel ops attached" and "filters_accepted ops" and "deletes_accepted ops attached"
    and "InterfaceByName ops (LanInterface cfg) = Some lan" and "InterfaceByName ops (WanInterface cfg) = Some wan"
    and "(word_of_int lan :: u32) \<noteq> word_of_int wan" and "start_ok env"
    and "createQdiscs fused (nl_ok ops (kernel d)) (InterfaceByName ops) cfg = Some (reqs, True)"
  shows "\<exists>d'. Initialize fused ops cfg env d = Some (Running d') \<and>
    programs (attached (kernel d')) lan (BuildHandle 1 0) = [Some (Prog_throttle default_rules)] \<and>
    programs (attached (kernel d')) lan (BuildHandle HandleRoot HandleMinEgress) = [Some Prog_traffic_mon] \<and>
    programs (attached (kernel d')) lan (BuildHandle HandleRoot HandleMinIngress) = [] \<and>
    programs (attached (kernel d')) wan (BuildHandle HandleRoot HandleMinEgress) = [Some Prog_udp_dns_sniff] \<and>
    programs (attached (kernel d')) wan (BuildHandle HandleRoot HandleMinIngress) = [Some Prog_udp_dns_sniff] \<and>
    dns_pollers d' = dns_pollers d + 2"
proof -
  obtain d' where d': "Initialize fused ops cfg env d = Some (Running d')"
    using start_runs [OF assms(2,4,5,7,8)] by blast
  from tc_kernel.started [OF assms(1,3-6) d'] d' show ?thesis by blast
qed

section \<open>Examples\<close>

text \<open>A machine with the two interfaces of the default configuration, where a throttler of an earlier
  run is still attached.\<close>

definition demo_ops :: "tc_object list tc_ops" where
  "demo_ops = ref_ops [''lan0'' \<mapsto> 2, ''eth0'' \<mapsto> 3] (\<lambda>_. True)"

definition old_filters :: "tc_object list" where
  "old_filters = [throttle_filter 2 (Prog_throttle [])]"

definition demo_apply_env :: apply_env where
  "demo_apply_env = \<lparr>tcnl_ok = (True, True), temp_targ = Some ''throttle-1.bpf.c'', temp_obj = Some ''throttle-2.o'',
     execute_ok = True, clang_ok = True, spec_ok = True, assign_ok = True, remove_ok = (True, True)\<rparr>"

definition demo_start_env :: start_env where
  "demo_start_env = \<lparr>dnspkt_ok = True, trafficmon_ok = True, apply_env = demo_apply_env\<rparr>"

lemma demo_kernel:
  "tc_kernel demo_ops (\<lambda>fs. fs)" "filters_accepted demo_ops" "deletes_accepted demo_ops (\<lambda>fs. fs)"
  "InterfaceByName demo_ops (LanInterface demo_cfg) = Some 2" "InterfaceByName demo_ops (WanInterface demo_cfg) = Some 3"
  "env_ok demo_apply_env" "start_ok demo_start_env"
  using ref_kernel.tc_kernel_axioms
  by (simp_all add: demo_ops_def filters_accepted_def deletes_accepted_def env_ok_def start_ok_def
      demo_start_env_def demo_apply_env_def) (simp_all add: ref_ops_def demo_cfg_def baseConfig_def)

lemma demo_no_filters: "nl_run demo_ops reqs [] = []"
proof (induction reqs)
  case (Cons r reqs)
  have "fst (NlRequest demo_ops r []) = []" by (cases r) (simp_all add: demo_ops_def ref_ops_def)
  with Cons show ?case by simp
qed simp

lemma demo_requests_ok: "nl_ok demo_ops old_filters (QdiscDel 2 HANDLE_ROOT # sent) r"
proof -
  have "fst (NlRequest demo_ops (QdiscDel 2 HANDLE_ROOT) old_filters) = []"
    by (simp add: demo_ops_def ref_ops_def old_filters_def throttle_filter_def)
  then show ?thesis
    by (cases r) (simp_all add: nl_ok_def demo_no_filters, simp_all add: demo_ops_def ref_ops_def)
qed

lemma run_steps_accepting: "(\<And>sent r. ok (x # sent) r) \<Longrightarrow> run_steps ok ss (x # sent) = (x # sent @ map fst ss, True)"
  by (induction ss arbitrary: sent) auto

lemma demo_qdiscs: "\<exists>reqs. createQdiscs False (nl_ok demo_ops old_filters) (InterfaceByName demo_ops) demo_cfg = Some (reqs, True)"
proof -
  have "rates_ok demo_cfg" by (simp add: rates_ok_def demo_cfg_def baseConfig_def)
  then obtain leaves where "generateQdiscLeafNodes False demo_cfg 2 = Some leaves"
    using generate_leaves_eq by blast
  then show ?thesis
    using run_steps_accepting [of "nl_ok demo_ops old_filters", OF demo_requests_ok] demo_kernel(4,5)
    by (simp add: createQdiscs_def lan_steps_def demo_requests_ok)
qed

theorem start_attaches_witness:
  "\<exists>d'. Initialize False demo_ops demo_cfg demo_start_env (fresh_process old_filters []) = Some (Running d') \<and>
     programs (kernel d') 2 (BuildHandle 1 0) = [Some (Prog_throttle default_rules)] \<and> dns_pollers d' = 2"
proof -
  let ?d = "fresh_process old_filters []"
  obtain reqs where reqs: "createQdiscs False (nl_ok demo_ops (kernel ?d)) (InterfaceByName demo_ops) demo_cfg = Some (reqs, True)"
    using demo_qdiscs by (auto simp: fresh_process_def)
  have "(word_of_int 2 :: u32) \<noteq> word_of_int 3" by simp
  from start_attaches [OF demo_kernel(1-5) this demo_kernel(7) reqs] show ?thesis
    by (auto simp: fresh_process_def)
qed

theorem policies_replace_throttler_witness:
  "\<exists>d'. ApplyPolicies demo_ops demo_cfg demo_apply_env default_ip_policies (fresh_process old_filters []) = Running d' \<and>
     map (\<lambda>f. map_option FD (BPF f)) (filter (throttler 2) (kernel d')) = [Some (Prog_throttle default_rules)]"
proof -
  let ?d = "fresh_process old_filters []"
  have fresh: "the (temp_targ demo_apply_env) \<notin> set (temp_files ?d)" "the (temp_obj demo_apply_env) \<notin> set (temp_files ?d)"
    by (simp_all add: fresh_process_def)
  from policies_replace_throttler [OF demo_kernel(1-4,6) fresh compile_default] show ?thesis by auto
qed

theorem failed_reload_unthrottles_witness:
  "\<exists>d'. ApplyPolicies demo_ops demo_cfg (demo_apply_env\<lparr>assign_ok := False\<rparr>) []
       (fresh_process old_filters []\<lparr>Tcnl := True\<rparr>) = Fatal d' \<and> filter (throttler 2) (kernel d') = []"
proof -
  let ?d = "fresh_process old_filters []\<lparr>Tcnl := True\<rparr>" and ?env = "demo_apply_env\<lparr>assign_ok := False\<rparr>"
  have built: "rebuildBpf ?env [] = Some []" by (simp add: rebuildBpf_def demo_apply_env_def)
  have get: "\<forall>m k. FilterGet demo_ops m k \<noteq> None" using demo_kernel(2) by (simp add: filters_accepted_def)
  obtain k objs where "cleanupThrottler demo_ops (True, True) 2 (?d\<lparr>temp_files := [''throttle-2.o'', ''throttle-1.bpf.c'']\<rparr>) =
      Running (?d\<lparr>temp_files := [''throttle-2.o'', ''throttle-1.bpf.c'']\<rparr>\<lparr>kernel := k, Tcnl := True, ThrottleObjs := objs\<rparr>)"
    using cleanup_accepted [OF demo_kernel(2)] by blast
  then obtain d' where d': "ApplyPolicies demo_ops demo_cfg ?env [] ?d = Fatal d'"
    using built demo_kernel(4)
    by (simp add: ApplyPolicies_def reattachThrottler_def getTcnl_def Let_def demo_apply_env_def fresh_process_def)
  obtain fs where "FilterGet demo_ops (throttle_msg 2) (kernel ?d) = Some fs" using get by blast
  then have "cleaned_interface demo_ops demo_cfg ?env [] ?d = Some 2"
    using built demo_kernel(4) by (simp add: cleaned_interface_def demo_apply_env_def)
  then have "filter (throttler 2) (kernel d') = []"
    using failed_reload_unthrottles [OF demo_kernel(1,3) d'] by (simp add: filter_empty_conv)
  with d' show ?thesis by blast
qed

text \<open>A kernel that deletes no throttler: the old program stays beside the new one.\<close>

theorem refused_throttlers_stay_witness:
  "\<exists>d'. ApplyPolicies (ref_ops [''lan0'' \<mapsto> 2] (\<lambda>_. False)) demo_cfg demo_apply_env default_ip_policies
       (fresh_process old_filters []) = Running d' \<and>
     set (map (\<lambda>f. map_option FD (BPF f)) (filter (throttler 2) (kernel d'))) =
       {Some (Prog_throttle []), Some (Prog_throttle default_rules)}"
proof -
  let ?ops = "ref_ops [''lan0'' \<mapsto> 2] (\<lambda>_. False)" and ?d = "fresh_process old_filters []"
  have ops: "filters_accepted ?ops" "deletes_except ?ops (\<lambda>fs. fs) (\<lambda>_. True)"
    "InterfaceByName ?ops (LanInterface demo_cfg) = Some 2"
    by (simp_all add: filters_accepted_def deletes_except_def ref_ops_def demo_cfg_def baseConfig_def)
  have old: "filter (\<lambda>f. throttler 2 f \<and> True) (kernel ?d) = [throttle_filter 2 (Prog_throttle [])]"
    by (simp add: fresh_process_def old_filters_def)
  from refused_throttlers_stay [OF ref_kernel.tc_kernel_axioms ops demo_kernel(6) compile_default, of ?d]
  obtain d' xs ys where *: "ApplyPolicies ?ops demo_cfg demo_apply_env default_ip_policies ?d = Running d'"
    "[throttle_filter 2 (Prog_throttle [])] = xs @ ys"
    "map (\<lambda>f. map_option FD (BPF f)) (filter (throttler 2) (kernel d')) =
      map (\<lambda>f. map_option FD (BPF f)) xs @ Some (Prog_throttle default_rules) # map (\<lambda>f. map_option FD (BPF f)) ys"
    unfolding old by blast
  have "set (map F xs @ n # map F ys) = insert n (F ` set (xs @ ys))" for F :: "tc_object \<Rightarrow> prog option" and n
    by auto
  with * show ?thesis by (intro exI [of _ d']) (auto simp flip: *(2))
qed

end
