(* ===== verification/Daemon.thy ===== *)
theory Daemon
  imports AttachProps
begin

text \<open>
  The daemon as a whole: the endless loop of \<open>pollDnsResponses\<close>, and the control plane as a
  sequence of events on its tables and on the programs it has attached. The events are those of its
  goroutines and of \<open>main\<close>: a DNS event, a new glob group, a tick of the policy loop with, if
  needed, the application of the policies, the start and the end of the process. The tables and the
  kernel outlive the process.
\<close>

section \<open>The loop that polls DNS events\<close>

text \<open>
  \<open>reads n\<close> is what the \<open>n\<close>-th \<open>reader.Read\<close> gives, \<open>None\<close> an error, which ends the process. The
  value is the table that is left then; \<open>None\<close> means that the loop does not end.
\<close>

partial_function (option) poll_dns ::
  "(u8 list \<Rightarrow> dns_rr list \<times> bool) \<Rightarrow> (nat \<Rightarrow> u8 list option) \<Rightarrow> (nat \<Rightarrow> (bool \<times> int) list) \<Rightarrow> nat \<Rightarrow>
   dns_row list \<Rightarrow> dns_row list option" where
  "poll_dns unpack reads envs n t =
     (case reads n of
        None \<Rightarrow> Some t
      | Some sample \<Rightarrow> poll_dns unpack reads envs (Suc n) (handle_event unpack sample (envs n) t))"

definition pollDnsResponses ::
  "(u8 list \<Rightarrow> dns_rr list \<times> bool) \<Rightarrow> bool \<Rightarrow> (nat \<Rightarrow> u8 list option) \<Rightarrow> (nat \<Rightarrow> (bool \<times> int) list) \<Rightarrow>
   dns_row list \<Rightarrow> dns_row list option" where
  "pollDnsResponses unpack reader_ok reads envs t =
     (if \<not> reader_ok then Some t else poll_dns unpack reads envs 0 t)"

text \<open>The table after the events from \<open>n\<close> on, \<open>m\<close> of them.\<close>

definition store_events ::
  "(u8 list \<Rightarrow> dns_rr list \<times> bool) \<Rightarrow> (nat \<Rightarrow> u8 list option) \<Rightarrow> (nat \<Rightarrow> (bool \<times> int) list) \<Rightarrow> nat list \<Rightarrow>
   dns_row list \<Rightarrow> dns_row list" where
  "store_events unpack reads envs ns t = foldl (\<lambda>t i. handle_event unpack (the (reads i)) (envs i) t) t ns"

lemma poll_dns_ends:
  "\<forall>i \<in> {n..<n + m}. reads i \<noteq> None \<Longrightarrow> reads (n + m) = None \<Longrightarrow>
   poll_dns unpack reads envs n t = Some (store_events unpack reads envs [n..<n + m] t)"
proof (induction m arbitrary: n t)
  case 0
  then show ?case by (subst poll_dns.simps) (simp add: store_events_def)
next
  case (Suc m)
  obtain sample where sample: "reads n = Some sample" using Suc.prems(1) by force
  have upt: "[n..<Suc (n + m)] = n # [Suc n..<Suc (n + m)]" by (simp add: upt_conv_Cons del: upt_Suc)
  have "poll_dns unpack reads envs (Suc n) (handle_event unpack sample (envs n) t) =
      Some (store_events unpack reads envs [Suc n..<Suc n + m] (handle_event unpack sample (envs n) t))"
    using Suc.prems by (intro Suc.IH) auto
  then show ?case
    by (subst poll_dns.simps) (simp add: sample upt store_events_def del: upt_Suc)
qed

text \<open>While reads succeed the loop goes on: a value is only reached through a failure.\<close>

lemma poll_dns_fails_somewhere:
  "poll_dns unpack reads envs n t = Some t' \<Longrightarrow> \<exists>i. reads i = None"
  by (rule poll_dns.raw_induct [where P = "\<lambda>unpack reads envs n t t'. \<exists>i. reads i = None"])
    (auto split: option.splits)

text \<open>C26: Polling DNS events ends exactly when the reader cannot be made or a read fails; the table then
  holds what the events before the first failure made of it, and without a failure the loop goes
  on for ever, whatever the events contain.\<close>

theorem polling_ends_iff_read_fails:
  "pollDnsResponses unpack reader_ok reads envs t =
   (if \<not> reader_ok then Some t
    else if \<exists>n. reads n = None
      then Some (store_events unpack reads envs [0..<LEAST n. reads n = None] t)
    else None)"
proof (cases "\<exists>n. reads n = None")
  case True
  have "poll_dns unpack reads envs 0 t =
      Some (store_events unpack reads envs [0..<LEAST n. reads n = None] t)"
    using poll_dns_ends [of 0 "LEAST n. reads n = None" reads unpack envs t]
    by (metis (mono_tags, lifting) LeastI_ex True add_0 atLeastLessThan_iff not_less_Least)
  then show ?thesis by (simp only: pollDnsResponses_def True if_True)
next
  case False
  have "poll_dns unpack reads envs 0 t = None"
  proof (cases "poll_dns unpack reads envs 0 t")
    case (Some t')
    from poll_dns_fails_somewhere [OF this] False show ?thesis by blast
  qed
  then show ?thesis by (simp only: pollDnsResponses_def False if_False)
qed

section \<open>The control plane\<close>

record 'k control =
  process :: "'k BpfContext"
  alive :: bool
  dns_table :: "dns_row list"
  glob_table :: "glob_group list"
  policy_table :: "policy list"

text \<open>What a tick meets: Prometheus and the times of its queries, the two enumerations with the
  answers of the database, and the answers met while the policies are applied.\<close>

record tick_env =
  te_query :: "string \<Rightarrow> int \<Rightarrow> metric list option"
  te_times :: "int \<times> int \<times> int"
  te_now :: int
  te_incs :: "(pkey \<times> visit_env) list"
  te_decs :: "(pkey \<times> visit_env) list"
  te_all_ok :: bool
  te_answers :: "db_answers list"
  te_apply :: apply_env

datatype control_event =
    DnsEvent "u8 list" "(bool \<times> int) list"
  | GlobAdded bool glob_group
  | Tick tick_env
  | Start start_env
  | Stop

text \<open>\<open>applyPolicies\<close> of \<open>policy/simpleloadavg.go\<close> in full: a nil pointer or a failed step ends the
  process.\<close>

definition apply_policies ::
  "'k tc_ops \<Rightarrow> config \<Rightarrow> (string \<Rightarrow> string \<Rightarrow> bool) \<Rightarrow> tick_env \<Rightarrow> 'k control \<Rightarrow> 'k control" where
  "apply_policies ops cfg glob te c =
     (case GetAllPolicies (te_all_ok te) (policy_table c) of
        None \<Rightarrow> c\<lparr>alive := False\<rparr>
      | Some policies \<Rightarrow>
          (case all_ip_policies glob (glob_table c) (dns_table c) (zip policies (te_answers te)) of
             Inl e \<Rightarrow> c\<lparr>alive := False\<rparr>
           | Inr allPolicies \<Rightarrow>
               (case ApplyPolicies ops cfg (te_apply te) allPolicies (process c) of
                  Running d \<Rightarrow> c\<lparr>process := d\<rparr>
                | Fatal d \<Rightarrow> c\<lparr>process := d, alive := False\<rparr>)))"

text \<open>The body of the loop of \<open>pollPolicyCheck\<close>.\<close>

definition pollPolicyCheck ::
  "'k tc_ops \<Rightarrow> config \<Rightarrow> (string \<Rightarrow> string \<Rightarrow> bool) \<Rightarrow> tick_env \<Rightarrow> 'k control \<Rightarrow> 'k control" where
  "pollPolicyCheck ops cfg glob te c =
     (let (changed, t) = check_policy cfg (te_incs te) (te_decs te) (policy_table c);
          c = c\<lparr>policy_table := t\<rparr>
      in if changed then apply_policies ops cfg glob te c else c)"

text \<open>The start: a new process on the kernel, the files and the tables as they are.\<close>

definition start_process :: "bool \<Rightarrow> 'k tc_ops \<Rightarrow> config \<Rightarrow> start_env \<Rightarrow> 'k control \<Rightarrow> 'k control" where
  "start_process fused ops cfg env c =
     (case Initialize fused ops cfg env (fresh_process (kernel (process c)) (temp_files (process c))) of
        None \<Rightarrow> c\<lparr>alive := False\<rparr>
      | Some (Running d) \<Rightarrow> c\<lparr>process := d, alive := True\<rparr>
      | Some (Fatal d) \<Rightarrow> c\<lparr>process := d, alive := False\<rparr>)"

fun happen ::
  "bool \<Rightarrow> 'k tc_ops \<Rightarrow> config \<Rightarrow> (string \<Rightarrow> string \<Rightarrow> bool) \<Rightarrow> (u8 list \<Rightarrow> dns_rr list \<times> bool) \<Rightarrow>
   control_event \<Rightarrow> 'k control \<Rightarrow> 'k control" where
  "happen fused ops cfg glob unpack (DnsEvent sample env) c =
     c\<lparr>dns_table := handle_event unpack sample env (dns_table c)\<rparr>"
| "happen fused ops cfg glob unpack (GlobAdded ok g) c = c\<lparr>glob_table := fst (AddGlob ok g (glob_table c))\<rparr>"
| "happen fused ops cfg glob unpack (Tick te) c = pollPolicyCheck ops cfg glob te c"
| "happen fused ops cfg glob unpack (Start env) c = start_process fused ops cfg env c"
| "happen fused ops cfg glob unpack Stop c = c\<lparr>alive := False\<rparr>"

text \<open>Which events can happen: those of the process while it is alive; \<open>time.Tick\<close> ticks only with a
  positive interval, a tick enumerates the sets of its queries, and every policy and every answer
  record meets an answer of the database.\<close>

fun possible :: "config \<Rightarrow> (u8 list \<Rightarrow> dns_rr list \<times> bool) \<Rightarrow> 'k control \<Rightarrow> control_event \<Rightarrow> bool" where
  "possible cfg unpack c (DnsEvent sample env) \<longleftrightarrow> alive c \<and> length env = length (fst (unpack sample))"
| "possible cfg unpack c (GlobAdded ok g) \<longleftrightarrow> alive c"
| "possible cfg unpack c (Tick te) \<longleftrightarrow> alive c \<and> 0 < PolicyCheckInterval cfg \<and>
     enumerates (te_incs te) (getActiveGlobGroups (te_query te) cfg (te_times te)) \<and>
     enumerates (te_decs te) (createSrcGlobSet
       (GetSrcGlobUsage (te_query te) (te_now te) 5 0 (ActivityThresholdBytes cfg) False)) \<and>
     length (te_answers te) = length (snd (check_policy cfg (te_incs te) (te_decs te) (policy_table c)))"
| "possible cfg unpack c (Start env) \<longleftrightarrow> \<not> alive c"
| "possible cfg unpack c Stop \<longleftrightarrow> alive c"

inductive control_reach ::
  "bool \<Rightarrow> 'k tc_ops \<Rightarrow> config \<Rightarrow> (string \<Rightarrow> string \<Rightarrow> bool) \<Rightarrow> (u8 list \<Rightarrow> dns_rr list \<times> bool) \<Rightarrow>
   'k control \<Rightarrow> 'k control \<Rightarrow> bool" for fused ops cfg glob unpack c0 where
  reach_refl: "control_reach fused ops cfg glob unpack c0 c0"
| reach_event: "control_reach fused ops cfg glob unpack c0 c \<Longrightarrow> possible cfg unpack c ev \<Longrightarrow>
    control_reach fused ops cfg glob unpack c0 (happen fused ops cfg glob unpack ev c)"

section \<open>The attached program follows the policy table\<close>

definition attached_throttlers :: "('k \<Rightarrow> tc_object list) \<Rightarrow> int \<Rightarrow> 'k control \<Rightarrow> prog option list" where
  "attached_throttlers attached lan c =
     map (\<lambda>f. map_option FD (BPF f)) (filter (throttler lan) (attached (kernel (process c))))"

text \<open>Rules that a tick on the way from \<open>c0\<close> to \<open>c\<close> compiled from the policy table that \<open>c\<close> still has,
  with the glob groups and DNS rows of that moment.\<close>

definition made_by_tick ::
  "bool \<Rightarrow> 'k tc_ops \<Rightarrow> config \<Rightarrow> (string \<Rightarrow> string \<Rightarrow> bool) \<Rightarrow> (u8 list \<Rightarrow> dns_rr list \<times> bool) \<Rightarrow>
   'k control \<Rightarrow> 'k control \<Rightarrow> tick_env \<Rightarrow> 'k control \<Rightarrow> rule list \<Rightarrow> bool" where
  "made_by_tick fused ops cfg glob unpack c0 c1 te c rules \<longleftrightarrow>
     control_reach fused ops cfg glob unpack c0 c1 \<and> possible cfg unpack c1 (Tick te) \<and>
     control_reach fused ops cfg glob unpack (happen fused ops cfg glob unpack (Tick te) c1) c \<and>
     policy_table (happen fused ops cfg glob unpack (Tick te) c1) = policy_table c \<and>
     applyPolicies True glob (glob_table c1) (dns_table c1) (te_answers te) (policy_table c) = Inr rules"

definition follows_table ::
  "('k \<Rightarrow> tc_object list) \<Rightarrow> int \<Rightarrow> bool \<Rightarrow> 'k tc_ops \<Rightarrow> config \<Rightarrow> (string \<Rightarrow> string \<Rightarrow> bool) \<Rightarrow>
   (u8 list \<Rightarrow> dns_rr list \<times> bool) \<Rightarrow> 'k control \<Rightarrow> 'k control \<Rightarrow> bool" where
  "follows_table attached lan fused ops cfg glob unpack c0 c \<longleftrightarrow>
     (\<exists>rules. attached_throttlers attached lan c = [Some (Prog_throttle rules)] \<and>
        (rules = default_rules \<or> (\<exists>c1 te. made_by_tick fused ops cfg glob unpack c0 c1 te c rules)))"

text \<open>An event after which the policy table and the throttlers are the same keeps this.\<close>

lemma follows_unchanged:
  assumes "follows_table attached lan fused ops cfg glob unpack c0 c" and "possible cfg unpack c ev"
    and "policy_table (happen fused ops cfg glob unpack ev c) = policy_table c"
    and "process (happen fused ops cfg glob unpack ev c) = process c"
  shows "follows_table attached lan fused ops cfg glob unpack c0 (happen fused ops cfg glob unpack ev c)"
proof -
  have "made_by_tick fused ops cfg glob unpack c0 c1 te (happen fused ops cfg glob unpack ev c) rules"
    if "made_by_tick fused ops cfg glob unpack c0 c1 te c rules" for c1 te rules
    using that assms(2,3) by (auto simp: made_by_tick_def intro: reach_event)
  moreover have "attached_throttlers attached lan (happen fused ops cfg glob unpack ev c) = attached_throttlers attached lan c"
    by (simp add: attached_throttlers_def assms(4))
  ultimately show ?thesis using assms(1) unfolding follows_table_def by metis
qed

definition tables_ok :: "config \<Rightarrow> 'k control \<Rightarrow> bool" where
  "tables_ok cfg c \<longleftrightarrow> table_ok cfg (policy_table c) \<and> dns_ok (dns_table c) \<and> distinct (map Name (glob_table c))"

lemma check_policy_silent: "fst (check_policy cfg incs decs t) = False \<Longrightarrow> snd (check_policy cfg incs decs t) = t"
  using silent_loops(1) [of cfg incs t] silent_loops(2) [of cfg decs "snd (increase_loop cfg incs t)"]
  by (auto simp: check_policy_def Let_def case_prod_beta split: if_splits)

lemma apply_policies_tables [simp]:
  "policy_table (apply_policies ops cfg glob te c) = policy_table c"
  "dns_table (apply_policies ops cfg glob te c) = dns_table c"
  "glob_table (apply_policies ops cfg glob te c) = glob_table c"
  by (simp_all add: apply_policies_def split: option.split sum.split outcome.split)

lemma poll_tables [simp]:
  "policy_table (pollPolicyCheck ops cfg glob te c) = snd (check_policy cfg (te_incs te) (te_decs te) (policy_table c))"
  "dns_table (pollPolicyCheck ops cfg glob te c) = dns_table c"
  "glob_table (pollPolicyCheck ops cfg glob te c) = glob_table c"
  by (simp_all add: pollPolicyCheck_def case_prod_beta Let_def)

lemma start_tables [simp]:
  "policy_table (start_process fused ops cfg env c) = policy_table c"
  "dns_table (start_process fused ops cfg env c) = dns_table c"
  "glob_table (start_process fused ops cfg env c) = glob_table c"
  by (simp_all add: start_process_def split: option.split outcome.split)

lemma dns_ok_handle_event:
  "dns_ok t \<Longrightarrow> \<forall>rr \<in> set (fst (unpack sample)). valid_rr rr \<Longrightarrow> dns_ok (handle_event unpack sample env t)"
  unfolding handle_event_def by (rule dns_ok_store_answers) (auto dest: set_zip_leftD)

lemma names_AddGlob: "distinct (map Name t) \<Longrightarrow> distinct (map Name (fst (AddGlob ok g t)))"
  by (auto simp: AddGlob_def)

lemma tables_ok_happen:
  assumes "tables_ok cfg c" and "possible cfg unpack c ev" and "\<forall>s. \<forall>rr \<in> set (fst (unpack s)). valid_rr rr"
  shows "tables_ok cfg (happen fused ops cfg glob unpack ev c)"
  using assms by (cases ev)
    (auto simp: tables_ok_def dns_ok_handle_event names_AddGlob enumerates_def intro: table_ok_check)

lemma tables_ok_reach:
  assumes "control_reach fused ops cfg glob unpack c0 c" and "tables_ok cfg c0"
    and "\<forall>s. \<forall>rr \<in> set (fst (unpack s)). valid_rr rr"
  shows "tables_ok cfg c"
  using assms(1) by induction (use assms(2) tables_ok_happen [OF _ _ assms(3)] in auto)

context tc_kernel
begin

lemma applied_rules:
  assumes "deletes_accepted ops attached" and "InterfaceByName ops (LanInterface cfg) = Some lan"
    and "alive (apply_policies ops cfg glob te c)"
  shows "\<exists>rules. attached_throttlers attached lan (apply_policies ops cfg glob te c) = [Some (Prog_throttle rules)] \<and>
    applyPolicies True glob (glob_table c) (dns_table c) (te_answers te) (policy_table c) = Inr rules"
proof -
  obtain ips d where
    ips: "all_ip_policies glob (glob_table c) (dns_table c) (zip (policy_table c) (te_answers te)) = Inr ips" and
    d: "ApplyPolicies ops cfg (te_apply te) ips (process c) = Running d" and
    c': "apply_policies ops cfg glob te c = c\<lparr>process := d\<rparr>"
    using assms(3)
    by (auto simp: apply_policies_def GetAllPolicies_def split: option.splits sum.splits outcome.splits if_splits)
  obtain rules xs ys g where new: "compile_rules ips = Some rules"
    "filter (\<lambda>f. \<not> throttler lan f) (attached (kernel (process c))) = xs @ ys"
    "attached (kernel d) = xs @ g # ys" "same_request g (throttle_filter lan (Prog_throttle rules))"
    using applied [OF assms(1,2) d] by blast
  have "\<forall>f \<in> set (xs @ ys). \<not> throttler lan f" using new(2) by (metis mem_Collect_eq set_filter)
  then have "filter (throttler lan) (attached (kernel d)) = [g]"
    by (auto simp: new(3) same_request_facts(3) [OF new(4)] filter_empty_conv)
  then have "attached_throttlers attached lan (apply_policies ops cfg glob te c) = [Some (Prog_throttle rules)]"
    by (simp add: attached_throttlers_def c' same_request_facts(2) [OF new(4)])
  moreover have "applyPolicies True glob (glob_table c) (dns_table c) (te_answers te) (policy_table c) = Inr rules"
    by (simp add: applyPolicies_def GetAllPolicies_def ips new(1))
  ultimately show ?thesis by blast
qed

text \<open>A tick that has the policies applied makes the rules of its own table.\<close>

lemma follows_apply:
  assumes "deletes_accepted ops attached" and "InterfaceByName ops (LanInterface cfg) = Some lan"
    and "control_reach fused ops cfg glob unpack c0 c" and "possible cfg unpack c (Tick te)"
    and "fst (check_policy cfg (te_incs te) (te_decs te) (policy_table c))"
    and "alive (happen fused ops cfg glob unpack (Tick te) c)"
  shows "follows_table attached lan fused ops cfg glob unpack c0 (happen fused ops cfg glob unpack (Tick te) c)"
proof -
  let ?c = "c\<lparr>policy_table := snd (check_policy cfg (te_incs te) (te_decs te) (policy_table c))\<rparr>"
  have eq: "happen fused ops cfg glob unpack (Tick te) c = apply_policies ops cfg glob te ?c"
    using assms(5) by (simp add: pollPolicyCheck_def case_prod_beta)
  obtain rules where rules: "attached_throttlers attached lan (apply_policies ops cfg glob te ?c) = [Some (Prog_throttle rules)]"
    "applyPolicies True glob (glob_table ?c) (dns_table ?c) (te_answers te) (policy_table ?c) = Inr rules"
    using applied_rules [OF assms(1,2) assms(6) [unfolded eq]] by blast
  have "made_by_tick fused ops cfg glob unpack c0 c te (happen fused ops cfg glob unpack (Tick te) c) rules"
    using assms(3,4) rules(2) by (simp add: made_by_tick_def reach_refl)
  with rules(1) show ?thesis unfolding follows_table_def eq by blast
qed

lemma follows_happen:
  assumes "deletes_accepted ops attached" and "InterfaceByName ops (LanInterface cfg) = Some lan"
    and "InterfaceByName ops (WanInterface cfg) = Some wan" and "(word_of_int lan :: u32) \<noteq> word_of_int wan"
    and "control_reach fused ops cfg glob unpack c0 c" and "possible cfg unpack c ev"
    and "alive c \<longrightarrow> follows_table attached lan fused ops cfg glob unpack c0 c"
    and "alive (happen fused ops cfg glob unpack ev c)"
  shows "follows_table attached lan fused ops cfg glob unpack c0 (happen fused ops cfg glob unpack ev c)"
proof (cases ev)
  case (Tick te)
  show ?thesis
  proof (cases "fst (check_policy cfg (te_incs te) (te_decs te) (policy_table c))")
    case True
    with follows_apply [OF assms(1,2,5)] assms(6,8) show ?thesis by (simp only: Tick)
  next
    case False
    then have "happen fused ops cfg glob unpack ev c = c"
      by (simp add: Tick pollPolicyCheck_def case_prod_beta check_policy_silent)
    with assms(7,8) show ?thesis by simp
  qed
next
  case (Start env)
  obtain d where d: "Initialize fused ops cfg env (fresh_process (kernel (process c)) (temp_files (process c))) = Some (Running d)"
    "happen fused ops cfg glob unpack ev c = c\<lparr>process := d, alive := True\<rparr>"
    using assms(8) by (auto simp: Start start_process_def split: option.splits outcome.splits)
  from started(9) [OF assms(1-4) d(1)] show ?thesis
    by (simp add: d(2) follows_table_def attached_throttlers_def)
next
  case Stop
  with assms(8) show ?thesis by simp
next
  case (DnsEvent sample env)
  show ?thesis by (rule follows_unchanged [OF _ assms(6)]) (use assms(6,7) DnsEvent in simp_all)
next
  case (GlobAdded ok g)
  show ?thesis by (rule follows_unchanged [OF _ assms(6)]) (use assms(6,7) GlobAdded in simp_all)
qed

end

lemma control_inv:
  assumes "tc_kernel ops attached" and "deletes_accepted ops attached"
    and "InterfaceByName ops (LanInterface cfg) = Some lan" and "InterfaceByName ops (WanInterface cfg) = Some wan"
    and "(word_of_int lan :: u32) \<noteq> word_of_int wan" and "\<forall>s. \<forall>rr \<in> set (fst (unpack s)). valid_rr rr"
    and "tables_ok cfg c0" and "\<not> alive c0" and "control_reach fused ops cfg glob unpack c0 c"
  shows "tables_ok cfg c \<and> (alive c \<longrightarrow> follows_table attached lan fused ops cfg glob unpack c0 c)"
  using assms(9)
proof induction
  case reach_refl
  then show ?case using assms(7,8) by simp
next
  case (reach_event c ev)
  then show ?case
    using tables_ok_happen [OF _ reach_event(2) assms(6)]
      tc_kernel.follows_happen [OF assms(1-5) reach_event(1,2)] by blast
qed

text \<open>C2: On a kernel that never refuses to delete an attached throttler, and with two different interfaces
  that exist: in every state the daemon can reach, through any events in any order, with any other
  failures and any restarts, the tables keep their invariants, and while the process runs exactly
  one throttler is attached: the one of the start, or the one that an earlier tick made of the policy
  table, which is still the same, with the glob groups and DNS rows of that tick. (C40 is what a
  refused deletion does.)\<close>

theorem program_follows_table:
  assumes "tc_kernel ops attached" and "deletes_accepted ops attached"
    and "InterfaceByName ops (LanInterface cfg) = Some lan" and "InterfaceByName ops (WanInterface cfg) = Some wan"
    and "(word_of_int lan :: u32) \<noteq> word_of_int wan" and "\<forall>s. \<forall>rr \<in> set (fst (unpack s)). valid_rr rr"
    and "tables_ok cfg c0" and "\<not> alive c0" and "control_reach fused ops cfg glob unpack c0 c"
  shows "tables_ok cfg c \<and> (alive c \<longrightarrow> follows_table attached lan fused ops cfg glob unpack c0 c)"
  using assms by (rule control_inv)

section \<open>What packets get\<close>

text \<open>The levels, in the order of the table, of the policies that governed the addresses of a packet
  when the policies were applied.\<close>

definition governing_levels ::
  "(string \<Rightarrow> string \<Rightarrow> bool) \<Rightarrow> glob_group list \<Rightarrow> dns_row list \<Rightarrow> db_answers list \<Rightarrow> policy list \<Rightarrow> skb \<Rightarrow> int list" where
  "governing_levels glob globs dns env t skb =
     map (\<lambda>x. level t (policy_key (fst x)))
       (filter (\<lambda>(p, glob_ok, ips_ok, now). governs glob now globs dns (dst_bytes skb) (src_bytes skb) p) (zip t env))"

lemma applied_classes:
  assumes "table_ok cfg t" and "NumQdiscClasses cfg \<le> 8" and "addresses_ok t" and "dns_ok dns"
    and "applyPolicies True glob globs dns env t = Inr rules" and "is_ipv4_frame LittleEndian skb"
  shows "map rule_class (filter (rule_applies LittleEndian skb) rules) =
    map (\<lambda>l. word_of_int (16 * l)) (governing_levels glob globs dns env t skb)"
proof -
  let ?g = "\<lambda>(p, glob_ok :: bool, ips_ok :: bool, now). governs glob now globs dns (dst_bytes skb) (src_bytes skb) p"
  let ?h = "\<lambda>x. word_of_int (16 * (Class (fst x) div 10)) :: u32"
  have answer: "\<forall>x \<in> set (zip t env). answerable globs x"
    and rules: "compile_rules (concat (map (ip_policies_of glob globs dns) (zip t env))) = Some rules"
    using assms(5)
    by (auto simp: applyPolicies_def GetAllPolicies_def all_ip_policies_eq split: option.splits if_splits)
  have "\<forall>x \<in> set (zip t env). \<exists>rs. compile_rules (ip_policies_of glob globs dns x) = Some rs \<and>
      map rule_class (filter (rule_applies LittleEndian skb) rs) = (if ?g x then [?h x] else [])"
  proof
    fix x
    assume x: "x \<in> set (zip t env)"
    obtain p a b now where p: "x = (p, a, b, now)" by (cases x)
    with x have mem: "p \<in> set t" by (auto dest: set_zip_leftD)
    then obtain client where "length client = 4" "SrcIp p = ip_string client"
      using assms(3) by (auto simp: addresses_ok_def)
    moreover have "class_ok cfg (Class p)" using mem assms(1) by (simp add: table_ok_def)
    moreover from this assms(2) have "Class p < 100" by (auto simp: class_ok_def)
    moreover have "GlobGroup p \<in> Name ` set globs" using answer x p by (auto simp: answerable_def)
    ultimately have "\<exists>rs. compile_rules (ip_policies_of glob globs dns (p, True, True, now)) = Some rs \<and>
        map rule_class (filter (rule_applies LittleEndian skb) rs) =
        (if governs glob now globs dns (dst_bytes skb) (src_bytes skb) p then [word_of_int (16 * (Class p div 10))] else [])"
      by (intro rules_of_policy [OF assms(4) _ _ _ _ _ assms(6)])
    moreover have "ip_policies_of glob globs dns x = ip_policies_of glob globs dns (p, True, True, now)"
      by (simp add: p ip_policies_of_def)
    ultimately show "\<exists>rs. compile_rules (ip_policies_of glob globs dns x) = Some rs \<and>
        map rule_class (filter (rule_applies LittleEndian skb) rs) = (if ?g x then [?h x] else [])"
      by (simp only: p prod.case fst_conv)
  qed
  from compile_rules_concat [OF this] rules
  have "map rule_class (filter (rule_applies LittleEndian skb) rules) = map ?h (filter ?g (zip t env))"
    by (simp add: concat_singletons)
  also have "\<dots> = map (\<lambda>l. word_of_int (16 * l)) (governing_levels glob globs dns env t skb)"
  proof -
    have "level t (policy_key p) = Class p div 10" if "p \<in> set t" for p
      using table_map_mem [OF table_ok_keys [OF assms(1)] that] by (simp add: level_def row_level_def)
    then show ?thesis by (auto simp: governing_levels_def dest: set_zip_leftD)
  qed
  finally show ?thesis .
qed

lemma classified:
  assumes "table_ok cfg t" and "NumQdiscClasses cfg \<le> 8" and "addresses_ok t" and "dns_ok dns"
    and "applyPolicies True glob globs dns env t = Inr rules" and "is_ipv4_frame LittleEndian skb"
  shows "final_class LittleEndian rules skb =
    (case rev (governing_levels glob globs dns env t skb) of [] \<Rightarrow> skb_tc_classid skb | l # _ \<Rightarrow> word_of_int (16 * l))"
  unfolding final_class_classes applied_classes [OF assms] by (simp add: rev_map split: list.split)

text \<open>The program of the start classifies packets from one address, into the class that is the default anyway.\<close>

lemma default_class:
  assumes "is_ipv4_frame LittleEndian skb"
  shows "final_class LittleEndian default_rules skb =
    (if src_bytes skb = [192, 168, 0, 174] then 0x10 else skb_tc_classid skb)"
proof -
  have "rule_applies LittleEndian skb (hd default_rules) \<longleftrightarrow> src_bytes skb = [192, 168, 0, 174]"
    using ip_word_inject [of "[192, 168, 0, 174]" "src_bytes skb" LittleEndian] length_src_bytes [OF assms]
    by (auto simp: rule_applies_def default_rules_def)
  then show ?thesis by (simp add: final_class_def) (simp add: default_rules_def)
qed

text \<open>C3: On a kernel that never refuses to delete an attached throttler, with two different interfaces that
  exist, at most eight classes and a little-endian machine: in every reachable state of a running
  daemon whose policies are for dotted IPv4 addresses, the one attached throttler passes every IPv4
  packet. It is the program of the start, or it gives the packet 16 times the present level of the last policy that governed its addresses when
  a tick made the program from this table, or leaves its class when there was none.\<close>

theorem daemon_classifies_packets:
  assumes "tc_kernel ops attached" and "deletes_accepted ops attached"
    and "InterfaceByName ops (LanInterface cfg) = Some lan" and "InterfaceByName ops (WanInterface cfg) = Some wan"
    and "(word_of_int lan :: u32) \<noteq> word_of_int wan" and "\<forall>s. \<forall>rr \<in> set (fst (unpack s)). valid_rr rr"
    and "tables_ok cfg c0" and "\<not> alive c0" and "control_reach fused ops cfg glob unpack c0 c" and "alive c"
    and "NumQdiscClasses cfg \<le> 8" and "addresses_ok (policy_table c)" and "is_ipv4_frame LittleEndian skb"
  shows "\<exists>rules m'. attached_throttlers attached lan c = [Some (Prog_throttle rules)] \<and>
    throttle LittleEndian lookup update rules skb m =
      Some (TC_ACT_OK, skb\<lparr>skb_tc_classid := final_class LittleEndian rules skb\<rparr>, m') \<and>
    (rules = default_rules \<or>
     (\<exists>c1 te. made_by_tick fused ops cfg glob unpack c0 c1 te c rules \<and> final_class LittleEndian rules skb =
        (case rev (governing_levels glob (glob_table c1) (dns_table c1) (te_answers te) (policy_table c) skb) of
           [] \<Rightarrow> skb_tc_classid skb | l # _ \<Rightarrow> word_of_int (16 * l))))"
proof -
  have inv: "table_ok cfg (policy_table c)" "follows_table attached lan fused ops cfg glob unpack c0 c"
    using control_inv [OF assms(1-9)] assms(10) by (simp_all add: tables_ok_def)
  obtain rules where rules: "attached_throttlers attached lan c = [Some (Prog_throttle rules)]"
    "rules = default_rules \<or> (\<exists>c1 te. made_by_tick fused ops cfg glob unpack c0 c1 te c rules)"
    using inv(2) by (auto simp: follows_table_def)
  have "final_class LittleEndian rules skb =
      (case rev (governing_levels glob (glob_table c1) (dns_table c1) (te_answers te) (policy_table c) skb) of
         [] \<Rightarrow> skb_tc_classid skb | l # _ \<Rightarrow> word_of_int (16 * l))"
    if made: "made_by_tick fused ops cfg glob unpack c0 c1 te c rules" for c1 te
  proof (rule classified [OF inv(1) assms(11,12) _ _ assms(13)])
    from made have "control_reach fused ops cfg glob unpack c0 c1" by (simp add: made_by_tick_def)
    then show "dns_ok (dns_table c1)" using tables_ok_reach [OF _ assms(7,6)] by (simp add: tables_ok_def)
    from made show "applyPolicies True glob (glob_table c1) (dns_table c1) (te_answers te) (policy_table c) = Inr rules"
      by (simp add: made_by_tick_def)
  qed
  then show ?thesis
    using rules assms(13) by (auto simp: throttle_eq)
qed

section \<open>After a restart\<close>

text \<open>The states of a sequence of events.\<close>

fun happens ::
  "bool \<Rightarrow> 'k tc_ops \<Rightarrow> config \<Rightarrow> (string \<Rightarrow> string \<Rightarrow> bool) \<Rightarrow> (u8 list \<Rightarrow> dns_rr list \<times> bool) \<Rightarrow>
   control_event list \<Rightarrow> 'k control \<Rightarrow> 'k control option" where
  "happens fused ops cfg glob unpack [] c = Some c"
| "happens fused ops cfg glob unpack (ev # evs) c =
     (if possible cfg unpack c ev then happens fused ops cfg glob unpack evs (happen fused ops cfg glob unpack ev c)
      else None)"

text \<open>A tick whose statements the database executes and which leaves the policy table as it is.\<close>

fun leaves_policies :: "config \<Rightarrow> policy list \<Rightarrow> control_event \<Rightarrow> bool" where
  "leaves_policies cfg t (Tick te) \<longleftrightarrow>
     (\<forall>(k, e) \<in> set (te_incs te) \<union> set (te_decs te). get_ok e \<and> exec_ok e) \<and>
     snd (check_policy cfg (te_incs te) (te_decs te) t) = t"
| "leaves_policies cfg t ev \<longleftrightarrow> True"

text \<open>A statement that is reported and executed changes the row of its pair.\<close>

lemma reported_changes_row:
  assumes "get_ok e" and "exec_ok e"
  shows "raise_reports cfg e r \<Longrightarrow> op_result policy_row k (raise_op cfg e r) r \<noteq> r"
    and "lower_reports cfg e r \<Longrightarrow> op_result policy_row k (lower_op cfg e r) r \<noteq> r"
proof -
  have "policy_row k c now \<noteq> p" if "c \<noteq> Class p" for c now p using that by auto
  then show "raise_reports cfg e r \<Longrightarrow> op_result policy_row k (raise_op cfg e r) r \<noteq> r"
    and "lower_reports cfg e r \<Longrightarrow> op_result policy_row k (lower_op cfg e r) r \<noteq> r"
    using assms by (auto simp: raise_reports_def raise_op_def lower_reports_def lower_op_def split: option.splits)
qed

lemma leaving_tick_silent:
  assumes "policies_ok t" and "leaves_policies cfg t (Tick te)"
    and "distinct (map fst (te_incs te))" and "distinct (map fst (te_decs te))"
  shows "check_policy cfg (te_incs te) (te_decs te) t = (False, t)"
proof -
  note check = check_policy_map(1,2) [OF assms(1,3,4), of cfg]
  have works: "get_ok e \<and> exec_ok e" if "(k, e) \<in> set (te_incs te) \<union> set (te_decs te)" for k e
    using assms(2) that by auto
  have row: "loop_result dec ms t k = op_result policy_row k (dec e (policy_map t k)) (policy_map t k)"
    if "(k, e) \<in> set ms" "distinct (map fst ms)" for dec ms k e
    using that by (simp add: loop_result_def)
  have kept: "policy_map (snd (check_policy cfg (te_incs te) (te_decs te) t)) = policy_map t"
    using assms(2) by simp
  have "\<not> raise_reports cfg e (policy_map t k)" if v: "(k, e) \<in> set (te_incs te)" for k e
  proof
    assume reports: "raise_reports cfg e (policy_map t k)"
    then have "\<exists>(k, e) \<in> set (te_incs te). raise_reports cfg e (policy_map t k)" using v by blast
    with kept check(2) have "loop_result (raise_op cfg) (te_incs te) t = policy_map t" by simp
    then have "op_result policy_row k (raise_op cfg e (policy_map t k)) (policy_map t k) = policy_map t k"
      using row [OF v assms(3), of "raise_op cfg"] by simp
    with reported_changes_row(1) [of e cfg "policy_map t k" k] works [of k e] v reports show False by simp
  qed
  then have silent: "\<not> (\<exists>(k, e) \<in> set (te_incs te). raise_reports cfg e (policy_map t k))" by blast
  with kept check(2) have lowered: "loop_result (lower_op cfg) (te_decs te) t = policy_map t" by simp
  have "\<not> lower_reports cfg e (policy_map t k)" if v: "(k, e) \<in> set (te_decs te)" for k e
  proof -
    have "op_result policy_row k (lower_op cfg e (policy_map t k)) (policy_map t k) = policy_map t k"
      using row [OF v assms(4), of "lower_op cfg"] lowered by simp
    with reported_changes_row(2) [of e cfg "policy_map t k" k] works [of k e] v show ?thesis by auto
  qed
  with silent have "\<not> fst (check_policy cfg (te_incs te) (te_decs te) t)" unfolding check(1) by blast
  with assms(2) show ?thesis by (simp add: prod_eq_iff)
qed

context tc_kernel
begin

lemma leaving_events_change_nothing:
  assumes "deletes_accepted ops attached" and "InterfaceByName ops (LanInterface cfg) = Some lan"
    and "InterfaceByName ops (WanInterface cfg) = Some wan" and "(word_of_int lan :: u32) \<noteq> word_of_int wan"
    and "policies_ok (policy_table c)" and "\<forall>ev \<in> set evs. leaves_policies cfg (policy_table c) ev"
    and "alive c \<longrightarrow> attached_throttlers attached lan c = [Some (Prog_throttle default_rules)]"
    and "happens fused ops cfg glob unpack evs c = Some c'"
  shows "policy_table c' = policy_table c \<and>
    (alive c' \<longrightarrow> attached_throttlers attached lan c' = [Some (Prog_throttle default_rules)])"
  using assms(5-8)
proof (induction evs arbitrary: c)
  case (Cons ev evs)
  let ?c = "happen fused ops cfg glob unpack ev c"
  have ev: "possible cfg unpack c ev" and rest: "happens fused ops cfg glob unpack evs ?c = Some c'"
    using Cons.prems(4) by (auto split: if_splits)
  have "policy_table ?c = policy_table c \<and>
      (alive ?c \<longrightarrow> attached_throttlers attached lan ?c = [Some (Prog_throttle default_rules)])"
  proof (cases ev)
    case (Tick te)
    have "check_policy cfg (te_incs te) (te_decs te) (policy_table c) = (False, policy_table c)"
      using Cons.prems(1,2) ev Tick by (intro leaving_tick_silent) (auto simp: enumerates_def)
    then have "?c = c" by (simp add: Tick pollPolicyCheck_def)
    with Cons.prems(3) show ?thesis by simp
  next
    case (Start env)
    have "attached_throttlers attached lan ?c = [Some (Prog_throttle default_rules)]" if live: "alive ?c"
    proof -
      obtain d where "Initialize fused ops cfg env (fresh_process (kernel (process c)) (temp_files (process c))) = Some (Running d)"
        "?c = c\<lparr>process := d, alive := True\<rparr>"
        using live ev by (auto simp: Start start_process_def split: option.splits outcome.splits)
      with started(9) [OF assms(1-4)] show ?thesis by (simp add: attached_throttlers_def)
    qed
    then show ?thesis by (simp add: Start)
  qed (use Cons.prems(3) ev in \<open>simp_all add: attached_throttlers_def\<close>)
  with Cons.IH [OF _ _ _ rest] Cons.prems(1,2) show ?case by simp
qed simp

end

text \<open>C23: After a start, as long as no statement of a tick fails in the database and no tick changes the
  policy table, whatever else happens, further starts and ends included, the policies in the table
  are not applied: while the process runs the one throttler attached is the fixed one of the start,
  which leaves the packets of all addresses but one alone.\<close>

theorem restart_forgets_policies:
  assumes "tc_kernel ops attached" and "deletes_accepted ops attached"
    and "InterfaceByName ops (LanInterface cfg) = Some lan" and "InterfaceByName ops (WanInterface cfg) = Some wan"
    and "(word_of_int lan :: u32) \<noteq> word_of_int wan" and "policies_ok (policy_table c)" and "\<not> alive c"
    and "happens fused ops cfg glob unpack (Start env # evs) c = Some c'"
    and "\<forall>ev \<in> set evs. leaves_policies cfg (policy_table c) ev" and "alive c'"
  shows "policy_table c' = policy_table c \<and>
    attached_throttlers attached lan c' = [Some (Prog_throttle default_rules)] \<and>
    (\<forall>skb. is_ipv4_frame LittleEndian skb \<and> src_bytes skb \<noteq> [192, 168, 0, 174] \<longrightarrow>
       final_class LittleEndian default_rules skb = skb_tc_classid skb)"
  using tc_kernel.leaving_events_change_nothing [OF assms(1-5) assms(6) _ _ assms(8)] assms(7,9,10)
  by (simp add: default_class)

section \<open>Examples\<close>

text \<open>The client \<open>192.168.0.14\<close> uses the glob group \<open>video\<close>: a start and a tick.\<close>

definition demo_dns_table :: "dns_row list" where
  "demo_dns_table = [dns_row_of ''v.example.'' [142, 251, 33, 174] 1000]"

definition demo_control :: "policy list \<Rightarrow> tc_object list control" where
  "demo_control t = \<lparr>process = fresh_process old_filters [], alive = False, dns_table = demo_dns_table,
     glob_table = [demo_group], policy_table = t\<rparr>"

definition demo_unpack :: "u8 list \<Rightarrow> dns_rr list \<times> bool" where
  "demo_unpack sample = ([], False)"

definition demo_tick_env :: tick_env where
  "demo_tick_env = \<lparr>te_query = demo_query, te_times = (0, 0, 0), te_now = 0, te_incs = [(demo_pair, demo_env)],
     te_decs = [], te_all_ok = True, te_answers = [(True, True, 1000)], te_apply = demo_apply_env\<rparr>"

lemma demo_start:
  "\<exists>d. happen False demo_ops demo_cfg (=) demo_unpack (Start demo_start_env) (demo_control t) =
     demo_control t\<lparr>process := d, alive := True\<rparr>"
proof -
  let ?d = "fresh_process (kernel (process (demo_control t))) (temp_files (process (demo_control t)))"
  have "?d = fresh_process old_filters []" by (simp add: demo_control_def fresh_process_def)
  then have "kernel ?d = old_filters" by (simp add: fresh_process_def)
  then obtain reqs where "createQdiscs False (nl_ok demo_ops (kernel ?d)) (InterfaceByName demo_ops) demo_cfg = Some (reqs, True)"
    using demo_qdiscs by auto
  from start_runs [OF demo_kernel(2,4,5,7) this] show ?thesis by (auto simp: start_process_def)
qed

lemma demo_apply:
  "applyPolicies True (=) [demo_group] demo_dns_table [(True, True, 1000)] (demo_table 10) =
   Inr [rule_for [192, 168, 0, 14] 10 [142, 251, 33, 174]]"
  by code_simp

lemma demo_tick_possible:
  "possible demo_cfg demo_unpack (demo_control []\<lparr>process := d, alive := True\<rparr>) (Tick demo_tick_env)"
proof -
  have "check_policy demo_cfg [(demo_pair, demo_env)] [] [] = (True, demo_table 10)" by code_simp
  moreover have "enumerates [] (createSrcGlobSet (GetSrcGlobUsage demo_query 0 5 0 (ActivityThresholdBytes demo_cfg) False))"
    by (simp add: enumerates_def demo_queries demo_cfg_def createSrcGlobSet_def)
  moreover have "0 < PolicyCheckInterval demo_cfg" by code_simp
  ultimately show ?thesis
    using demo_active by (simp add: demo_tick_env_def enumerates_def demo_cfg_def demo_control_def demo_table_def)
qed

lemma demo_tick_runs:
  "\<exists>d'. happen False demo_ops demo_cfg (=) demo_unpack (Tick demo_tick_env) (demo_control []\<lparr>process := d, alive := True\<rparr>) =
     demo_control (demo_table 10)\<lparr>process := d', alive := True\<rparr>"
proof -
  have check: "check_policy demo_cfg [(demo_pair, demo_env)] [] [] = (True, demo_table 10)" by code_simp
  obtain ips where ips: "all_ip_policies (=) [demo_group] demo_dns_table (zip (demo_table 10) [(True, True, 1000)]) = Inr ips"
    "compile_rules ips = Some [rule_for [192, 168, 0, 14] 10 [142, 251, 33, 174]]"
    using demo_apply by (auto simp: applyPolicies_def GetAllPolicies_def split: sum.splits option.splits)
  from apply_runs [OF demo_kernel(2,4,6) this(2)] obtain d' where
    "ApplyPolicies demo_ops demo_cfg demo_apply_env ips d = Running d'" by blast
  then show ?thesis
    using check ips(1)
    by (simp add: pollPolicyCheck_def apply_policies_def GetAllPolicies_def demo_tick_env_def demo_control_def)
qed

lemma demo_tables: "tables_ok demo_cfg (demo_control [])" "\<not> alive (demo_control t)"
  "\<forall>s. \<forall>rr \<in> set (fst (demo_unpack s)). valid_rr rr"
  by (auto simp: tables_ok_def demo_control_def demo_unpack_def table_ok_def keys_ok_def dns_ok_def demo_dns_table_def
      intro!: exI [of _ "[142, 251, 33, 174]"] simp del: ip_string.simps)

lemma demo_reach:
  "\<exists>d. control_reach False demo_ops demo_cfg (=) demo_unpack (demo_control [])
     (demo_control (demo_table 10)\<lparr>process := d, alive := True\<rparr>)"
proof -
  obtain d where 1: "happen False demo_ops demo_cfg (=) demo_unpack (Start demo_start_env) (demo_control []) =
      demo_control []\<lparr>process := d, alive := True\<rparr>"
    using demo_start by blast
  have "possible demo_cfg demo_unpack (demo_control []) (Start demo_start_env)" by (simp add: demo_control_def)
  from reach_event [OF reach_refl this, of False demo_ops "(=)"]
  have "control_reach False demo_ops demo_cfg (=) demo_unpack (demo_control []) (demo_control []\<lparr>process := d, alive := True\<rparr>)"
    by (simp only: 1)
  from reach_event [OF this demo_tick_possible] demo_tick_runs [of d] show ?thesis by auto
qed

theorem program_follows_table_witness:
  "\<exists>d. control_reach False demo_ops demo_cfg (=) demo_unpack (demo_control [])
       (demo_control (demo_table 10)\<lparr>process := d, alive := True\<rparr>) \<and>
     follows_table (\<lambda>fs. fs) 2 False demo_ops demo_cfg (=) demo_unpack (demo_control [])
       (demo_control (demo_table 10)\<lparr>process := d, alive := True\<rparr>)"
proof -
  obtain d where d: "control_reach False demo_ops demo_cfg (=) demo_unpack (demo_control [])
      (demo_control (demo_table 10)\<lparr>process := d, alive := True\<rparr>)"
    using demo_reach by blast
  have "(word_of_int 2 :: u32) \<noteq> word_of_int 3" by simp
  from program_follows_table [OF demo_kernel(1,3-5) this demo_tables(3,1,2) d] d show ?thesis by auto
qed

theorem daemon_classifies_packets_witness:
  "\<exists>d rules m'. control_reach False demo_ops demo_cfg (=) demo_unpack (demo_control [])
       (demo_control (demo_table 10)\<lparr>process := d, alive := True\<rparr>) \<and>
     attached_throttlers (\<lambda>fs. fs) 2 (demo_control (demo_table 10)\<lparr>process := d, alive := True\<rparr>) = [Some (Prog_throttle rules)] \<and>
     throttle LittleEndian array_lookup array_update rules demo_skb [0, 0, 0] =
       Some (TC_ACT_OK, demo_skb\<lparr>skb_tc_classid := final_class LittleEndian rules demo_skb\<rparr>, m')"
proof -
  obtain d where d: "control_reach False demo_ops demo_cfg (=) demo_unpack (demo_control [])
      (demo_control (demo_table 10)\<lparr>process := d, alive := True\<rparr>)"
    using demo_reach by blast
  let ?c = "demo_control (demo_table 10)\<lparr>process := d, alive := True\<rparr>"
  have ip: "ip_string [192, 168, 0, 14] = ''192.168.0.14''" by code_simp
  have "addresses_ok (policy_table ?c)"
    by (auto simp: addresses_ok_def demo_control_def demo_table_def policy_row_def demo_pair_def ip
        intro!: exI [of _ "[192, 168, 0, 14]"] simp del: ip_string.simps)
  moreover have "(word_of_int 2 :: u32) \<noteq> word_of_int 3" "alive ?c" "NumQdiscClasses demo_cfg \<le> 8"
    by (simp_all add: demo_cfg_def baseConfig_def)
  ultimately show ?thesis
    using daemon_classifies_packets [OF demo_kernel(1,3-5) _ demo_tables(3,1,2) d _ _ _ demo_skb_rules(1),
        where lookup = array_lookup and update = array_update and m = "[0, 0, 0]"] d
    by blast
qed

text \<open>The table says level 6, the strongest of five classes, and the client goes on as before.\<close>

theorem restart_forgets_policies_witness:
  "\<exists>c'. happens False demo_ops demo_cfg (=) demo_unpack [Start demo_start_env, Tick demo_tick_env]
       (demo_control (demo_table 60)) = Some c' \<and>
     policy_table c' = demo_table 60 \<and> level (policy_table c') demo_pair = 6 \<and>
     attached_throttlers (\<lambda>fs. fs) 2 c' = [Some (Prog_throttle default_rules)]"
proof -
  let ?c = "demo_control (demo_table 60)"
  obtain d where 1: "happen False demo_ops demo_cfg (=) demo_unpack (Start demo_start_env) ?c = ?c\<lparr>process := d, alive := True\<rparr>"
    using demo_start by blast
  have check: "check_policy demo_cfg [(demo_pair, demo_env)] [] (demo_table 60) = (False, demo_table 60)" by code_simp
  have "enumerates [] (createSrcGlobSet (GetSrcGlobUsage demo_query 0 5 0 (ActivityThresholdBytes demo_cfg) False))"
    by (simp add: enumerates_def demo_queries demo_cfg_def createSrcGlobSet_def)
  moreover have "0 < PolicyCheckInterval demo_cfg" by code_simp
  ultimately have "possible demo_cfg demo_unpack (?c\<lparr>process := d, alive := True\<rparr>) (Tick demo_tick_env)"
    using demo_active check by (simp add: demo_tick_env_def enumerates_def demo_cfg_def demo_control_def demo_table_def)
  moreover have "happen False demo_ops demo_cfg (=) demo_unpack (Tick demo_tick_env) (?c\<lparr>process := d, alive := True\<rparr>) =
      ?c\<lparr>process := d, alive := True\<rparr>"
    using check by (simp add: pollPolicyCheck_def demo_tick_env_def demo_control_def)
  ultimately have run: "happens False demo_ops demo_cfg (=) demo_unpack [Start demo_start_env, Tick demo_tick_env] ?c =
      Some (?c\<lparr>process := d, alive := True\<rparr>)"
    by (simp add: 1 [simplified] demo_tables(2))
  have "check_policy demo_cfg [(demo_pair, demo_env)] [] (demo_table 60) = (False, demo_table 60)" by code_simp
  then have sat: "\<forall>ev \<in> set [Tick demo_tick_env]. leaves_policies demo_cfg (policy_table ?c) ev"
    by (simp add: demo_tick_env_def demo_control_def) (simp add: demo_env_def)
  have "(word_of_int 2 :: u32) \<noteq> word_of_int 3" "policies_ok (policy_table ?c)" "alive (?c\<lparr>process := d, alive := True\<rparr>)"
    by (simp_all add: keys_ok_def demo_control_def demo_table_def)
  from restart_forgets_policies [OF demo_kernel(1,3-5) this(1,2) demo_tables(2) run sat this(3)] run
  have *: "happens False demo_ops demo_cfg (=) demo_unpack [Start demo_start_env, Tick demo_tick_env] ?c =
      Some (?c\<lparr>process := d, alive := True\<rparr>)"
    "policy_table (?c\<lparr>process := d, alive := True\<rparr>) = demo_table 60"
    "attached_throttlers (\<lambda>fs. fs) 2 (?c\<lparr>process := d, alive := True\<rparr>) = [Some (Prog_throttle default_rules)]"
    by (simp_all add: demo_control_def)
  moreover have "level (demo_table 60) demo_pair = 6" by code_simp
  ultimately show ?thesis by auto
qed

end
