(* ===== verification/EndToEnd.thy ===== *)
theory EndToEnd
  imports Daemon
begin

text \<open>
  From traffic to throttling: one tick of the control plane for a client that uses a glob group too
  much, from the answer of Prometheus to the class of the client's packets.
\<close>

lemma apply_policies_runs:
  assumes "filters_accepted ops" and "InterfaceByName ops (LanInterface cfg) = Some lan"
    and "env_ok (te_apply te)" and "te_all_ok te"
    and "applyPolicies True glob (glob_table c) (dns_table c) (te_answers te) (policy_table c) = Inr rules"
  shows "\<exists>d. apply_policies ops cfg glob te c = c\<lparr>process := d\<rparr>"
proof -
  obtain ips where ips: "all_ip_policies glob (glob_table c) (dns_table c) (zip (policy_table c) (te_answers te)) = Inr ips"
    "compile_rules ips = Some rules"
    using assms(5) by (auto simp: applyPolicies_def GetAllPolicies_def split: sum.splits option.splits)
  from apply_runs [OF assms(1-3) ips(2)] obtain d where
    "ApplyPolicies ops cfg (te_apply te) ips (process c) = Running d" by blast
  then show ?thesis using ips(1) assms(4) by (auto simp: apply_policies_def GetAllPolicies_def)
qed

text \<open>The row of one key among rows of different keys.\<close>

lemma filter_by_key:
  assumes "policies_ok t" and "policy_map t k = Some p" and "\<forall>q \<in> set t. P q \<longleftrightarrow> policy_key q = k"
  shows "filter P t = [p]"
proof -
  have p: "policy_key p = k" "p \<in> set t" using table_map_key [OF assms(2)] by simp_all
  have "filter P t = filter (\<lambda>q. policy_key q = policy_key p) t"
    using assms(3) p(1) by (intro filter_cong) auto
  with filter_distinct_single [of policy_key t p] assms(1) p(2) show ?thesis by (simp add: keys_ok_def)
qed

text \<open>A working tick that reports a change has the policies applied: the one throttler attached afterwards
  applies to a packet the classes of the policies of the new table that govern its addresses.\<close>

lemma changing_tick_applies:
  assumes "tc_kernel ops attached" and "filters_accepted ops" and "deletes_accepted ops attached"
    and "InterfaceByName ops (LanInterface cfg) = Some lan" and "env_ok (te_apply te)" and "te_all_ok te"
    and "tables_ok cfg c" and "alive c" and "possible cfg unpack c (Tick te)" and "NumQdiscClasses cfg \<le> 8"
    and "healthy cfg (policy_table c) (te_incs te)" and "healthy cfg (policy_table c) (te_decs te)"
    and "fst (check_policy cfg (te_incs te) (te_decs te) (policy_table c))"
    and "c' = happen fused ops cfg glob unpack (Tick te) c"
    and "addresses_ok (policy_table c')" and "\<forall>p \<in> set (policy_table c'). GlobGroup p \<in> Name ` set (glob_table c)"
    and "\<forall>a \<in> set (te_answers te). a = (True, True, now)" and "is_ipv4_frame LittleEndian skb"
  shows "alive c' \<and> (\<exists>rules. attached_throttlers attached lan c' = [Some (Prog_throttle rules)] \<and>
    map rule_class (filter (rule_applies LittleEndian skb) rules) = map (\<lambda>p. word_of_int (16 * (Class p div 10)))
      (filter (governs glob now (glob_table c) (dns_table c) (dst_bytes skb) (src_bytes skb)) (policy_table c')))"
proof -
  let ?t' = "snd (check_policy cfg (te_incs te) (te_decs te) (policy_table c))"
  let ?c = "c\<lparr>policy_table := ?t'\<rparr>"
  have ok: "table_ok cfg (policy_table c)" and dns: "dns_ok (dns_table c)" using assms(7) by (simp_all add: tables_ok_def)
  have t': "policy_table c' = ?t'" by (simp add: assms(14))
  note step = healthy_step [OF ok assms(11,12)]
  have c': "c' = apply_policies ops cfg glob te ?c"
    using assms(13) by (simp add: assms(14) pollPolicyCheck_def case_prod_beta)
  have len: "length (te_answers te) = length ?t'" using assms(9) by simp
  obtain rules where rules: "applyPolicies True glob (glob_table c) (dns_table c) (te_answers te) ?t' = Inr rules"
    "map rule_class (filter (rule_applies LittleEndian skb) rules) = map (\<lambda>p. word_of_int (16 * (Class p div 10)))
      (filter (governs glob now (glob_table c) (dns_table c) (dst_bytes skb) (src_bytes skb)) ?t')"
    using apply_policies_rules [OF step(1) assms(10) _ dns _ len assms(17,18)] assms(15,16) unfolding t' by blast
  have "\<exists>d. apply_policies ops cfg glob te ?c = ?c\<lparr>process := d\<rparr>"
    by (rule apply_policies_runs [OF assms(2,4,5,6)]) (simp add: rules(1))
  then have alive: "alive c'" using assms(8) by (auto simp: c')
  from tc_kernel.applied_rules [OF assms(1,3,4) this [unfolded c']] rules(1)
  have "attached_throttlers attached lan c' = [Some (Prog_throttle rules)]" by (simp add: c')
  with alive rules(2) show ?thesis unfolding t' by blast
qed

text \<open>A packet that the policy of one pair alone governs, if the pair has one.\<close>

lemma governed_by_pair:
  assumes "table_ok cfg t" and "0 \<le> NumQdiscClasses cfg" and "\<forall>p \<in> set t. G p \<longleftrightarrow> policy_key p = k"
    and "map rule_class (filter (rule_applies LittleEndian skb) rules) = map (\<lambda>p. word_of_int (16 * (Class p div 10))) (filter G t)"
  shows "final_class LittleEndian rules skb = (if level t k = 0 then skb_tc_classid skb else word_of_int (16 * level t k))"
proof (cases "policy_map t k")
  case None
  then have "filter G t = []"
    using assms(3) table_map_mem [OF table_ok_keys [OF assms(1)]] by (auto simp: filter_empty_conv)
  with None show ?thesis by (simp add: final_class_classes assms(4) level_def row_level_def)
next
  case (Some p)
  have "filter G t = [p]" by (rule filter_by_key [OF table_ok_keys [OF assms(1)] Some assms(3)])
  moreover have "1 \<le> Class p div 10" using class_ok_level(2) [OF table_ok_class [OF assms(1) Some]] .
  ultimately show ?thesis using Some by (simp add: final_class_classes assms(4) level_def row_level_def)
qed

text \<open>A tick in which a pair of a client and a glob group is active, and not at the strongest class,
  has the policies applied: afterwards the pair is one level stronger, and the one throttler that is
  attached gives a packet of the client's that this policy alone governs 16 times the new level as
  its class. This holds while the database, the libraries and the kernel do what they are asked.\<close>

theorem active_client_is_throttled:
  assumes "tc_kernel ops attached" and "filters_accepted ops" and "deletes_accepted ops attached"
    and "InterfaceByName ops (LanInterface cfg) = Some lan" and "env_ok (te_apply te)" and "te_all_ok te"
    and "tables_ok cfg c" and "alive c" and "possible cfg unpack c (Tick te)"
    and "1 \<le> NumQdiscClasses cfg" and "NumQdiscClasses cfg \<le> 8"
    and "healthy cfg (policy_table c) (te_incs te)" and "healthy cfg (policy_table c) (te_decs te)"
    and "k \<in> getActiveGlobGroups (te_query te) cfg (te_times te)" and "level (policy_table c) k \<le> NumQdiscClasses cfg"
    and "c' = happen fused ops cfg glob unpack (Tick te) c"
    and "addresses_ok (policy_table c')" and "\<forall>p \<in> set (policy_table c'). GlobGroup p \<in> Name ` set (glob_table c)"
    and "\<forall>a \<in> set (te_answers te). a = (True, True, now)" and "is_ipv4_frame LittleEndian skb"
    and "\<forall>p \<in> set (policy_table c').
      governs glob now (glob_table c) (dns_table c) (dst_bytes skb) (src_bytes skb) p \<longleftrightarrow> policy_key p = k"
  shows "alive c' \<and> level (policy_table c') k = level (policy_table c) k + 1 \<and>
    (\<exists>rules. attached_throttlers attached lan c' = [Some (Prog_throttle rules)] \<and>
       final_class LittleEndian rules skb = word_of_int (16 * (level (policy_table c) k + 1)))"
proof -
  let ?t = "policy_table c" and ?n = "NumQdiscClasses cfg"
  let ?t' = "snd (check_policy cfg (te_incs te) (te_decs te) ?t)"
  have ok: "table_ok cfg ?t" using assms(7) by (simp add: tables_ok_def)
  have t': "policy_table c' = ?t'" by (simp add: assms(16))
  have active: "k \<in> fst ` set (te_incs te)" using assms(9,14) by (auto simp: enumerates_def)
  have raise: "raise_level ?n (level ?t k) = level ?t k + 1" using assms(10,15) by (simp add: raise_level_def)
  then have some: "\<exists>k \<in> fst ` set (te_incs te). raise_level ?n (level ?t k) \<noteq> level ?t k"
    using active by (intro bexI [of _ k]) simp_all
  note step = healthy_step [OF ok assms(12,13)]
  have changed: "fst (check_policy cfg (te_incs te) (te_decs te) ?t)"
    and level: "level ?t' k = level ?t k + 1"
    using step(2,3) some active raise by (simp_all only: level_step_def if_True fst_conv snd_conv)
  have "0 \<le> level ?t k" using level_bounds(1) [OF ok] assms(10) by simp
  with changing_tick_applies [OF assms(1-9,11-13) changed assms(16-20)]
    governed_by_pair [OF step(1) _ assms(21) [unfolded t']] assms(10) level
  show ?thesis by (fastforce simp: t')
qed

text \<open>A working tick in which no active pair can be raised lowers the quiet pairs: one that has a policy is
  a level weaker afterwards, and the one throttler attached gives a packet of the client's that its
  policy alone governs 16 times the new level, or leaves its class when the policy is gone.\<close>

theorem quiet_client_is_relieved:
  assumes "tc_kernel ops attached" and "filters_accepted ops" and "deletes_accepted ops attached"
    and "InterfaceByName ops (LanInterface cfg) = Some lan" and "env_ok (te_apply te)" and "te_all_ok te"
    and "tables_ok cfg c" and "alive c" and "possible cfg unpack c (Tick te)"
    and "1 \<le> NumQdiscClasses cfg" and "NumQdiscClasses cfg \<le> 8"
    and "healthy cfg (policy_table c) (te_incs te)" and "healthy cfg (policy_table c) (te_decs te)"
    and "\<forall>k' \<in> getActiveGlobGroups (te_query te) cfg (te_times te). NumQdiscClasses cfg < level (policy_table c) k'"
    and "k \<in> createSrcGlobSet (GetSrcGlobUsage (te_query te) (te_now te) 5 0 (ActivityThresholdBytes cfg) False)"
    and "0 < level (policy_table c) k"
    and "c' = happen fused ops cfg glob unpack (Tick te) c"
    and "addresses_ok (policy_table c')" and "\<forall>p \<in> set (policy_table c'). GlobGroup p \<in> Name ` set (glob_table c)"
    and "\<forall>a \<in> set (te_answers te). a = (True, True, now)" and "is_ipv4_frame LittleEndian skb"
    and "\<forall>p \<in> set (policy_table c').
      governs glob now (glob_table c) (dns_table c) (dst_bytes skb) (src_bytes skb) p \<longleftrightarrow> policy_key p = k"
  shows "alive c' \<and> level (policy_table c') k = level (policy_table c) k - 1 \<and>
    (\<exists>rules. attached_throttlers attached lan c' = [Some (Prog_throttle rules)] \<and>
       final_class LittleEndian rules skb =
         (if level (policy_table c) k = 1 then skb_tc_classid skb else word_of_int (16 * (level (policy_table c) k - 1))))"
proof -
  let ?t = "policy_table c" and ?n = "NumQdiscClasses cfg"
  let ?t' = "snd (check_policy cfg (te_incs te) (te_decs te) ?t)"
  have ok: "table_ok cfg ?t" using assms(7) by (simp add: tables_ok_def)
  have t': "policy_table c' = ?t'" by (simp add: assms(17))
  have "\<forall>k' \<in> fst ` set (te_incs te). ?n < level ?t k'" using assms(9,14) by (auto simp: enumerates_def)
  then have none: "\<not> (\<exists>k' \<in> fst ` set (te_incs te). raise_level ?n (level ?t k') \<noteq> level ?t k')"
    using assms(10) by (auto simp: raise_level_def)
  have quiet: "k \<in> fst ` set (te_decs te)" using assms(9,15) by (auto simp: enumerates_def)
  with assms(16) have some: "\<exists>k \<in> fst ` set (te_decs te). level ?t k \<noteq> 0" by force
  note step = healthy_step [OF ok assms(12,13)]
  have changed: "fst (check_policy cfg (te_incs te) (te_decs te) ?t)"
    and lowered: "level ?t' k = lower_level (level ?t k)"
    using step(2,3) none some quiet by (simp_all only: level_step_def if_False if_True fst_conv snd_conv)
  then have level: "level ?t' k = level ?t k - 1" using assms(16) by (auto simp: lower_level_def)
  with changing_tick_applies [OF assms(1-9,11-13) changed assms(17-21)]
    governed_by_pair [OF step(1) _ assms(22) [unfolded t']] assms(10)
  show ?thesis by (fastforce simp: t')
qed

theorem active_client_is_throttled_witness:
  "\<exists>rules. attached_throttlers (\<lambda>fs. fs) 2
       (happen False demo_ops demo_cfg (=) demo_unpack (Tick demo_tick_env) (demo_control []\<lparr>alive := True\<rparr>)) =
       [Some (Prog_throttle rules)] \<and> final_class LittleEndian rules demo_skb = 16"
proof -
  let ?c = "demo_control []\<lparr>process := process (demo_control []), alive := True\<rparr>"
  let ?c' = "happen False demo_ops demo_cfg (=) demo_unpack (Tick demo_tick_env) ?c"
  have check: "check_policy demo_cfg [(demo_pair, demo_env)] [] [] = (True, demo_table 10)" by code_simp
  have t': "policy_table ?c' = demo_table 10" by (simp add: demo_tick_env_def demo_control_def check)
  have empty: "policy_table (demo_control []) = []" "level [] demo_pair = 0" by (simp_all add: demo_control_def level_def row_level_def)
  have client: "ip_string [192, 168, 0, 14] = ''192.168.0.14''" by code_simp
  have p: "SrcIp (policy_row demo_pair 10 1700000000) = ip_string [192, 168, 0, 14]"
    unfolding client by (simp add: policy_row_def demo_pair_def)
  have bytes: "dst_bytes demo_skb = [192, 168, 0, 14]" "src_bytes demo_skb = [142, 251, 33, 174]"
    by (simp_all add: demo_skb_def mk_frame_parts)
  have gov: "governs (=) 1000 [demo_group] demo_dns_table [192, 168, 0, 14] [142, 251, 33, 174] (policy_row demo_pair 10 1700000000)"
    using p by (simp add: governs_def recent_row_def GetGlob_def demo_group_def policy_row_def demo_pair_def demo_dns_table_def
        del: ip_string.simps)
  have healthy: "healthy demo_cfg [] [(demo_pair, demo_env)]" "healthy demo_cfg [] []" by code_simp+
  have "alive ?c' \<and> level (policy_table ?c') demo_pair = level (policy_table ?c) demo_pair + 1 \<and>
    (\<exists>rules. attached_throttlers (\<lambda>fs. fs) 2 ?c' = [Some (Prog_throttle rules)] \<and>
       final_class LittleEndian rules demo_skb = word_of_int (16 * (level (policy_table ?c) demo_pair + 1)))"
  proof (rule active_client_is_throttled [OF demo_kernel(1-4)])
    show "possible demo_cfg demo_unpack ?c (Tick demo_tick_env)" by (rule demo_tick_possible)
    show "tables_ok demo_cfg ?c" using demo_tables(1) by (simp add: tables_ok_def)
    show "env_ok (te_apply demo_tick_env)" using demo_kernel(6) by (simp add: demo_tick_env_def)
    show "demo_pair \<in> getActiveGlobGroups (te_query demo_tick_env) demo_cfg (te_times demo_tick_env)"
      using demo_active by (simp add: demo_tick_env_def demo_cfg_def)
    show "healthy demo_cfg (policy_table ?c) (te_incs demo_tick_env)" "healthy demo_cfg (policy_table ?c) (te_decs demo_tick_env)"
      using healthy by (simp_all add: demo_tick_env_def empty)
    show "addresses_ok (policy_table ?c')"
      unfolding t' using p by (auto simp: addresses_ok_def demo_table_def intro!: exI [of _ "[192, 168, 0, 14]"] simp del: ip_string.simps)
    show "\<forall>p \<in> set (policy_table ?c'). GlobGroup p \<in> Name ` set (glob_table ?c)"
      unfolding t' by (simp add: demo_table_def demo_control_def demo_group_def policy_row_def demo_pair_def)
    show "\<forall>p \<in> set (policy_table ?c').
        governs (=) 1000 (glob_table ?c) (dns_table ?c) (dst_bytes demo_skb) (src_bytes demo_skb) p \<longleftrightarrow> policy_key p = demo_pair"
      unfolding t' bytes using gov by (simp add: demo_table_def demo_control_def)
  qed (simp_all add: empty demo_tick_env_def demo_cfg_def baseConfig_def demo_skb_rules(1))
  moreover have "?c = demo_control []\<lparr>alive := True\<rparr>" by (simp add: demo_control_def)
  ultimately show ?thesis by (simp add: empty)
qed

end
