(* ===== verification/Usage.thy ===== *)
theory Usage
  imports Complex_Main PolicyLevels Bandwidth
begin

text \<open>
  From packets to the pairs that the policy engine finds active. The collector of
  \<open>handlers/prom.go\<close> copies the monitor's counters to the metrics page, Prometheus scrapes the page
  and answers the queries of \<open>database/prom.go\<close>. Prometheus is not part of the repository: the locale
  \<open>prometheus\<close> states what it documents about labels, windows, \<open>rate\<close> and \<open>sum by\<close>, in exact
  arithmetic, and a reference implementation meets it. While names do not change, every sample of a
  counter since a start is the number of bytes on the wire since then that the last collection saw.
\<close>

section \<open>Scrapes and samples\<close>

text \<open>The metrics page as a list of lines, and the pages scraped, with their times in nanoseconds.\<close>

type_synonym metrics_page = "(string \<times> rat) list"

type_synonym scrape = "int \<times> metrics_page"

definition samples :: "scrape list \<Rightarrow> (int \<Rightarrow> bool) \<Rightarrow> string \<Rightarrow> (int \<times> rat) list" where
  "samples H inside s =
     List.map_filter (\<lambda>(t, page). if inside t then map_option (Pair t) (map_of page s) else None) H"

definition all_series :: "scrape list \<Rightarrow> string list" where
  "all_series H = remdups (map fst (concat (map snd H)))"

text \<open>
  What \<open>sum by (src_ip, glob) (rate(...{glob!=""}[w m]))\<close> is at a time, for one pair of labels, given
  the labels of a line, the times of a window, and the rate of the samples in it.
\<close>

definition series_key :: "(string \<Rightarrow> metric) \<Rightarrow> string \<Rightarrow> pkey" where
  "series_key labels_of s = (label (labels_of s) ''src_ip'', label (labels_of s) ''glob'')"

definition rated_series ::
  "(string \<Rightarrow> metric) \<Rightarrow> (int \<Rightarrow> int \<Rightarrow> int \<Rightarrow> bool) \<Rightarrow> (int \<Rightarrow> int \<Rightarrow> (int \<times> rat) list \<Rightarrow> rat option) \<Rightarrow>
   scrape list \<Rightarrow> int \<Rightarrow> int \<Rightarrow> pkey \<Rightarrow> rat list" where
  "rated_series labels_of inside rate H w tm k =
     List.map_filter (\<lambda>s. if series_key labels_of s = k then rate w tm (samples H (inside w tm) s) else None)
       (all_series H)"

definition usage_of ::
  "(string \<Rightarrow> metric) \<Rightarrow> (int \<Rightarrow> int \<Rightarrow> int \<Rightarrow> bool) \<Rightarrow> (int \<Rightarrow> int \<Rightarrow> (int \<times> rat) list \<Rightarrow> rat option) \<Rightarrow>
   scrape list \<Rightarrow> int \<Rightarrow> int \<Rightarrow> pkey \<Rightarrow> rat option" where
  "usage_of labels_of inside rate H w tm k =
     (let xs = rated_series labels_of inside rate H w tm k
      in if snd k = [] \<or> xs = [] then None else Some (sum_list xs))"

text \<open>A row whose names need no escape in a label value.\<close>

definition plain :: "string \<Rightarrow> bool" where
  "plain s \<longleftrightarrow> (\<forall>c \<in> set s. c \<noteq> CHR 0x22 \<and> c \<noteq> CHR 0x5C \<and> c \<noteq> CHR 0x0A)"

definition plain_row :: "bandwidth \<Rightarrow> bool" where
  "plain_row b \<longleftrightarrow> length (bw_SrcIpAddr b) = 4 \<and> length (bw_DestIpAddr b) = 4 \<and>
     plain (bw_ProbDomain b) \<and> plain (bw_GlobName b)"

section \<open>What Prometheus documents\<close>

text \<open>The increase of a counter over its samples: a sample below the one before means that the counter
  was reset to zero in between.\<close>

fun counter_increase :: "rat list \<Rightarrow> rat" where
  "counter_increase (x # y # ys) = (if y < x then y else y - x) + counter_increase (y # ys)"
| "counter_increase _ = 0"

text \<open>
  A window reaches \<open>w\<close> minutes back; whether it includes its oldest instant depends on the version. The
  rate needs two samples; for samples that are not negative it is not negative, zero for a constant
  series, and at least the increase, with resets, over the length of the window, as it extrapolates
  to the ends. The queries are the three that the program sends.
\<close>

locale prometheus =
  fixes labels_of :: "string \<Rightarrow> metric"
    and inside :: "int \<Rightarrow> int \<Rightarrow> int \<Rightarrow> bool"
    and rate :: "int \<Rightarrow> int \<Rightarrow> (int \<times> rat) list \<Rightarrow> rat option"
    and query :: "scrape list \<Rightarrow> string \<Rightarrow> int \<Rightarrow> metric list option"
    and thr :: int
  assumes labels: "plain_row b \<Longrightarrow> series_key labels_of (metric_name b) = (ip_string (bw_SrcIpAddr b), bw_GlobName b)"
    and inside_window: "tm - w * time_Minute < t \<Longrightarrow> t \<le> tm \<Longrightarrow> inside w tm t"
    and window_inside: "inside w tm t \<Longrightarrow> tm - w * time_Minute \<le> t \<and> t \<le> tm"
    and rate_defined: "rate w tm xs \<noteq> None \<longleftrightarrow> 2 \<le> length xs"
    and rate_nonneg: "0 < w \<Longrightarrow> \<forall>x \<in> set xs. 0 \<le> snd x \<Longrightarrow> rate w tm xs = Some r \<Longrightarrow> 0 \<le> r"
    and rate_flat: "\<forall>x \<in> set xs. snd x = c \<Longrightarrow> rate w tm xs = Some r \<Longrightarrow> r = 0"
    and rate_increase: "0 < w \<Longrightarrow> \<forall>x \<in> set xs. 0 \<le> snd x \<Longrightarrow> rate w tm xs = Some r \<Longrightarrow>
      counter_increase (map snd xs) \<le> r * (60 * of_int w)"
    and query_sum: "(w, over) \<in> {(2, True), (5, True), (5, False)} \<Longrightarrow>
      \<exists>vec. query H (pql w thr over) tm = Some vec \<and> createSrcGlobSet vec =
        {k. \<exists>x. usage_of labels_of inside rate H w tm k = Some x \<and> (if over then of_int thr < x else x < of_int thr)}"

section \<open>A reference implementation\<close>

text \<open>The labels between the quotes of a line, the increases between neighbouring samples, and the sums
  over all lines.\<close>

fun split_quotes :: "string \<Rightarrow> string list" where
  "split_quotes [] = [[]]"
| "split_quotes (c # s) =
     (if c = CHR 0x22 then [] # split_quotes s
      else case split_quotes s of [] \<Rightarrow> [[c]] | part # parts \<Rightarrow> (c # part) # parts)"

definition ref_labels :: "string \<Rightarrow> metric" where
  "ref_labels s =
     (case split_quotes s of
        [_, a, _, b, _, c, _, d, _] \<Rightarrow>
          [''src_ip'' \<mapsto> a, ''dest_ip'' \<mapsto> b, ''prob_domain'' \<mapsto> c, ''glob'' \<mapsto> d]
      | _ \<Rightarrow> Map.empty)"

definition ref_inside :: "int \<Rightarrow> int \<Rightarrow> int \<Rightarrow> bool" where
  "ref_inside w tm t \<longleftrightarrow> tm - w * time_Minute < t \<and> t \<le> tm"

definition ref_rate :: "int \<Rightarrow> int \<Rightarrow> (int \<times> rat) list \<Rightarrow> rat option" where
  "ref_rate w tm xs = (if length xs < 2 then None else Some (counter_increase (map snd xs) / (60 * of_int w)))"

definition ref_answer :: "int \<Rightarrow> scrape list \<Rightarrow> int \<Rightarrow> bool \<Rightarrow> int \<Rightarrow> metric list" where
  "ref_answer thr H w over tm =
     map (\<lambda>k. [''src_ip'' \<mapsto> fst k, ''glob'' \<mapsto> snd k])
       (filter (\<lambda>k. case usage_of ref_labels ref_inside ref_rate H w tm k of
          None \<Rightarrow> False | Some x \<Rightarrow> if over then of_int thr < x else x < of_int thr)
         (map (series_key ref_labels) (all_series H)))"

definition ref_query :: "int \<Rightarrow> scrape list \<Rightarrow> string \<Rightarrow> int \<Rightarrow> metric list option" where
  "ref_query thr H q tm =
     (if q = pql 2 thr True then Some (ref_answer thr H 2 True tm)
      else if q = pql 5 thr True then Some (ref_answer thr H 5 True tm)
      else if q = pql 5 thr False then Some (ref_answer thr H 5 False tm)
      else None)"

lemma split_quotes_append: "CHR 0x22 \<notin> set s \<Longrightarrow> split_quotes (s @ CHR 0x22 # t) = s # split_quotes t"
  by (induction s) auto

lemma split_quotes_end: "CHR 0x22 \<notin> set s \<Longrightarrow> split_quotes s = [s]"
  by (induction s) auto

lemma ref_labels_row: "plain_row b \<Longrightarrow>
  ref_labels (metric_name b) = [''src_ip'' \<mapsto> ip_string (bw_SrcIpAddr b), ''dest_ip'' \<mapsto> ip_string (bw_DestIpAddr b),
    ''prob_domain'' \<mapsto> bw_ProbDomain b, ''glob'' \<mapsto> bw_GlobName b]"
proof -
  assume b: "plain_row b"
  then have "CHR 0x22 \<notin> set (bw_ProbDomain b)" "CHR 0x22 \<notin> set (bw_GlobName b)"
    "CHR 0x22 \<notin> set (ip_string (bw_SrcIpAddr b))" "CHR 0x22 \<notin> set (ip_string (bw_DestIpAddr b))"
    by (auto simp: plain_row_def plain_def ip_string_no_quote)
  then have "split_quotes (metric_name b) = [''ip_pair_vic_bytes_total{src_ip='', ip_string (bw_SrcIpAddr b),
      '', dest_ip='', ip_string (bw_DestIpAddr b), '', prob_domain='', bw_ProbDomain b, '', glob='', bw_GlobName b, ''}'']"
    by (simp add: metric_name_def quoted_def split_quotes_append)
  then show ?thesis by (simp add: ref_labels_def)
qed

lemma counter_increase_nonneg: "\<forall>x \<in> set xs. 0 \<le> x \<Longrightarrow> 0 \<le> counter_increase xs"
  by (induction xs rule: counter_increase.induct) auto

lemma counter_increase_flat: "\<forall>x \<in> set xs. x = c \<Longrightarrow> counter_increase xs = 0"
  by (induction xs rule: counter_increase.induct) auto

lemma counter_increase_sorted: "sorted xs \<Longrightarrow> xs \<noteq> [] \<Longrightarrow> counter_increase xs = last xs - hd xs"
  by (induction xs rule: counter_increase.induct) auto

text \<open>A part of the samples increases by no more than all of them.\<close>

lemma counter_increase_left: "\<forall>x \<in> set (xs @ ys). 0 \<le> x \<Longrightarrow> counter_increase xs \<le> counter_increase (xs @ ys)"
  by (induction xs rule: counter_increase.induct) (auto intro!: counter_increase_nonneg)

lemma counter_increase_right: "\<forall>x \<in> set (xs @ ys). 0 \<le> x \<Longrightarrow> counter_increase ys \<le> counter_increase (xs @ ys)"
proof (induction xs)
  case (Cons x xs)
  then have "counter_increase ys \<le> counter_increase (xs @ ys)" by simp
  also have "\<dots> \<le> counter_increase (x # xs @ ys)"
    using Cons.prems by (cases "xs @ ys") auto
  finally show ?case by simp
qed simp

lemma counter_increase_part:
  "\<forall>x \<in> set (xs @ ys @ zs). 0 \<le> x \<Longrightarrow> counter_increase ys \<le> counter_increase (xs @ ys @ zs)"
  using counter_increase_left [of ys zs] counter_increase_right [of xs "ys @ zs"] by force

lemma pql_queries:
  "pql 5 thr True \<noteq> pql 2 thr True" "pql 5 thr False \<noteq> pql 2 thr True" "pql 5 thr False \<noteq> pql 5 thr True"
proof -
  have "go_itoa 5 = ''5''" "go_itoa 2 = ''2''" by code_simp+
  then show "pql 5 thr True \<noteq> pql 2 thr True" "pql 5 thr False \<noteq> pql 2 thr True" "pql 5 thr False \<noteq> pql 5 thr True"
    by (simp_all add: pql_def)
qed

lemma usage_has_series:
  "usage_of labels_of inside rate H w tm k = Some x \<Longrightarrow> k \<in> series_key labels_of ` set (all_series H)"
proof -
  assume "usage_of labels_of inside rate H w tm k = Some x"
  then have "set (rated_series labels_of inside rate H w tm k) \<noteq> {}"
    by (auto simp: usage_of_def Let_def split: if_splits)
  then show ?thesis
    by (auto simp: rated_series_def List.map_filter_def split: if_splits)
qed

lemma ref_answer_set:
  "createSrcGlobSet (ref_answer thr H w over tm) =
   {k. \<exists>x. usage_of ref_labels ref_inside ref_rate H w tm k = Some x \<and> (if over then of_int thr < x else x < of_int thr)}"
  using usage_has_series [of ref_labels ref_inside ref_rate H w tm]
  by (auto simp: createSrcGlobSet_def ref_answer_def label_def comp_def split: option.splits)

lemma ref_query_sum:
  assumes "(w, over) \<in> {(2, True), (5, True), (5, False)}"
  shows "\<exists>vec. ref_query thr H (pql w thr over) tm = Some vec \<and> createSrcGlobSet vec =
    {k. \<exists>x. usage_of ref_labels ref_inside ref_rate H w tm k = Some x \<and> (if over then of_int thr < x else x < of_int thr)}"
proof -
  have "ref_query thr H (pql w thr over) tm = Some (ref_answer thr H w over tm)"
    using assms pql_queries [of thr] by (auto simp: ref_query_def)
  then show ?thesis using ref_answer_set by blast
qed

interpretation ref_prometheus: prometheus ref_labels ref_inside ref_rate "ref_query thr" thr for thr
proof
  show "series_key ref_labels (metric_name b) = (ip_string (bw_SrcIpAddr b), bw_GlobName b)" if "plain_row b" for b
    by (simp add: series_key_def label_def ref_labels_row [OF that])
  show "counter_increase (map snd xs) \<le> r * (60 * of_int w)"
    if "0 < w" "ref_rate w tm xs = Some r" for w xs r tm
    using that by (auto simp: ref_rate_def split: if_splits)
  show "r = 0" if "\<forall>x \<in> set xs. snd x = c" "ref_rate w tm xs = Some r" for xs w c r and tm :: int
    using that counter_increase_flat [of "map snd xs" c] by (auto simp: ref_rate_def split: if_splits)
qed (use ref_query_sum in \<open>auto simp: ref_inside_def ref_rate_def counter_increase_nonneg split: if_splits simp del: insert_iff\<close>)

section \<open>Packets, collections and scrapes\<close>

text \<open>What a tick of the collector meets: the tables, the choice among equal times, and the entries of
  the monitor's map in the order of its iterator, with whether the two reads of each succeed.\<close>

record collect_env =
  c_pick :: "dns_row list \<Rightarrow> dns_row"
  c_globs :: "glob_group list"
  c_dns :: "dns_row list"
  c_entries :: "((u64 \<times> u64) \<times> bool \<times> bool) list"

datatype traffic_event = Packet skb | Collect collect_env | Scrape int metrics_page

record 'm traffic_state =
  monitor :: 'm
  counters :: "string \<Rightarrow> rat option"
  scrapes :: "scrape list"

fun observe ::
  "endian \<Rightarrow> ('m \<Rightarrow> u64 \<Rightarrow> u64 option) \<Rightarrow> ('m \<Rightarrow> u64 \<Rightarrow> u64 \<Rightarrow> 'm) \<Rightarrow> traffic_event \<Rightarrow> 'm traffic_state \<Rightarrow>
   'm traffic_state option" where
  "observe e lookup update (Packet p) s =
     map_option (\<lambda>(_, m). s\<lparr>monitor := m\<rparr>) (traffic_mon e lookup update p (monitor s))"
| "observe e lookup update (Collect c) s =
     Some (s\<lparr>counters := poll_metrics
       (getBandwidthList True False (c_pick c) (c_globs c) (c_dns c) (c_entries c)) (counters s)\<rparr>)"
| "observe e lookup update (Scrape t page) s = Some (s\<lparr>scrapes := scrapes s @ [(t, page)]\<rparr>)"

text \<open>The iterator gives every entry of the map once, a page has all counters, and time goes on.\<close>

fun observable :: "('m \<Rightarrow> u64 \<Rightarrow> u64 option) \<Rightarrow> traffic_event \<Rightarrow> 'm traffic_state \<Rightarrow> bool" where
  "observable lookup (Packet p) s \<longleftrightarrow> True"
| "observable lookup (Collect c) s \<longleftrightarrow>
     distinct (map (fst \<circ> fst) (c_entries c)) \<and> map_of (map fst (c_entries c)) = lookup (monitor s)"
| "observable lookup (Scrape t page) s \<longleftrightarrow>
     map_of page = counters s \<and> (\<forall>x \<in> set (scrapes s). fst x < t)"

inductive traffic_trace ::
  "endian \<Rightarrow> ('m \<Rightarrow> u64 \<Rightarrow> u64 option) \<Rightarrow> ('m \<Rightarrow> u64 \<Rightarrow> u64 \<Rightarrow> 'm) \<Rightarrow> 'm traffic_state \<Rightarrow>
   traffic_event list \<Rightarrow> 'm traffic_state \<Rightarrow> bool" for e lookup update s0 where
  trace_init: "traffic_trace e lookup update s0 [] s0"
| trace_step: "traffic_trace e lookup update s0 evs s \<Longrightarrow> observable lookup ev s \<Longrightarrow>
    observe e lookup update ev s = Some s' \<Longrightarrow> traffic_trace e lookup update s0 (evs @ [ev]) s'"

text \<open>What is known from the events alone: the packets so far, those before the last collection, and
  for every scrape the time and the packets its page accounts for.\<close>

record ledger =
  seen :: "skb list"
  collected :: "skb list"
  reported :: "(int \<times> skb list) list"

fun enter :: "traffic_event \<Rightarrow> ledger \<Rightarrow> ledger" where
  "enter (Packet p) l = l\<lparr>seen := seen l @ [p]\<rparr>"
| "enter (Collect c) l = l\<lparr>collected := seen l\<rparr>"
| "enter (Scrape t page) l = l\<lparr>reported := reported l @ [(t, collected l)]\<rparr>"

definition ledger_of :: "traffic_event list \<Rightarrow> ledger" where
  "ledger_of evs = fold enter evs \<lparr>seen = [], collected = [], reported = []\<rparr>"

lemma ledger_of_simps [simp]:
  "ledger_of [] = \<lparr>seen = [], collected = [], reported = []\<rparr>"
  "ledger_of (evs @ [ev]) = enter ev (ledger_of evs)"
  by (simp_all add: ledger_of_def)

text \<open>The counter of a pair of addresses under a name and a group, and the packets of the pair.\<close>

definition series_of :: "u8 list \<Rightarrow> u8 list \<Rightarrow> string \<Rightarrow> string \<Rightarrow> string" where
  "series_of client remote nm grp =
     metric_name \<lparr>bw_SrcIpAddr = client, bw_DestIpAddr = remote, bw_Bytes = 0, bw_ProbDomain = nm, bw_GlobName = grp\<rparr>"

definition flow_key :: "u8 list \<Rightarrow> u8 list \<Rightarrow> u64" where
  "flow_key client remote = pair_key (ip_word LittleEndian remote) (ip_word LittleEndian client)"

text \<open>A collection whose reads all succeed and in which an address has this name and group.\<close>

fun named :: "u8 list \<Rightarrow> string \<Rightarrow> string \<Rightarrow> traffic_event \<Rightarrow> bool" where
  "named remote nm grp (Collect c) \<longleftrightarrow>
     (\<forall>x \<in> set (c_entries c). snd x = (True, True)) \<and>
     GetDomainForIP True (c_pick c) (ip_string remote) (c_dns c) = nm \<and>
     (case getMatchingGlobGroup True nm (c_globs c) of None \<Rightarrow> [] | Some g \<Rightarrow> Name g) = grp"
| "named remote nm grp _ \<longleftrightarrow> True"

section \<open>What a collection sets\<close>

lemma poll_metrics_absent: "s \<notin> metric_name ` set bl \<Longrightarrow> poll_metrics bl C s = C s"
  by (induction bl rule: rev_induct) (auto simp: poll_metrics_def)

lemma decode_flow_key:
  "length client = 4 \<Longrightarrow> length remote = 4 \<Longrightarrow> decode_key key = (client, remote) \<longleftrightarrow> key = flow_key client remote"
  using decode_pair_key [of remote client LittleEndian] decode_key_inject [of key "flow_key client remote"]
  by (auto simp: flow_key_def wire_order_def)

text \<open>A row of the list as a function of its entry.\<close>

definition row_at :: "collect_env \<Rightarrow> u64 \<Rightarrow> u64 \<Rightarrow> bandwidth" where
  "row_at c key val =
     (let name = GetDomainForIP True (c_pick c) (ip_string (snd (decode_key key))) (c_dns c)
      in \<lparr>bw_SrcIpAddr = fst (decode_key key), bw_DestIpAddr = snd (decode_key key), bw_Bytes = val,
          bw_ProbDomain = name,
          bw_GlobName = (case getMatchingGlobGroup True name (c_globs c) of None \<Rightarrow> [] | Some g \<Rightarrow> Name g)\<rparr>)"

lemma row_at_addresses [simp]:
  "bw_SrcIpAddr (row_at c key val) = fst (decode_key key)"
  "bw_DestIpAddr (row_at c key val) = snd (decode_key key)"
  by (simp_all add: row_at_def Let_def)

lemma decode_key_lengths [simp]: "length (fst (decode_key key)) = 4" "length (snd (decode_key key)) = 4"
  by (simp_all add: decode_key_split length_put_le64)

lemma map_filter_Some: "\<forall>x \<in> set xs. f x = Some (g x) \<Longrightarrow> List.map_filter f xs = map g xs"
  by (induction xs) (simp_all add: List.map_filter_simps)

lemma collected_rows:
  assumes "\<forall>x \<in> set (c_entries c). snd x = (True, True)"
  shows "getBandwidthList True False (c_pick c) (c_globs c) (c_dns c) (c_entries c) =
    map (\<lambda>x. row_at c (fst (fst x)) (snd (fst x))) (c_entries c)"
proof -
  have "bandwidth_row False (c_pick c) (c_globs c) (c_dns c) x = Some (row_at c (fst (fst x)) (snd (fst x)))"
    if "x \<in> set (c_entries c)" for x
  proof -
    have "snd x = (True, True)" using assms that by blast
    then have "x = ((fst (fst x), snd (fst x)), True, True)" by (simp add: prod_eq_iff)
    then obtain key val where "x = ((key, val), True, True)" by blast
    then show ?thesis
      by (cases "decode_key key") (simp add: bandwidth_row_def row_at_def Let_def split: option.split)
  qed
  then show ?thesis by (simp add: getBandwidthList_def map_filter_Some)
qed

lemma row_name:
  assumes "length client = 4" and "length remote = 4"
    and "metric_name (row_at c key val) = series_of client remote nm grp"
  shows "key = flow_key client remote"
proof -
  have "decode_key key = (client, remote)"
    using metric_name_pair [OF _ _ _ _ assms(3) [unfolded series_of_def]] assms(1,2) by (simp add: prod_eq_iff)
  then show ?thesis using decode_flow_key [OF assms(1,2)] by simp
qed

lemma row_series:
  assumes "length client = 4" and "length remote = 4" and "named remote nm grp (Collect c)"
  shows "metric_name (row_at c (flow_key client remote) val) = series_of client remote nm grp"
  using assms decode_flow_key [of client remote "flow_key client remote"]
  by (simp add: row_at_def series_of_def metric_name_def Let_def)

text \<open>A collection sets the counter of a pair to the value in the map, if the map has the pair.\<close>

lemma collect_series:
  assumes "length client = 4" and "length remote = 4" and "named remote nm grp (Collect c)"
    and "observable lookup (Collect c) s" and "observe e lookup update (Collect c) s = Some s'"
  shows "counters s' (series_of client remote nm grp) =
    (case lookup (monitor s) (flow_key client remote) of
       None \<Rightarrow> counters s (series_of client remote nm grp) | Some v \<Rightarrow> Some (go_float64 (uint v)))"
proof -
  let ?rows = "map (\<lambda>x. row_at c (fst (fst x)) (snd (fst x))) (c_entries c)" and ?k = "flow_key client remote"
  have s': "counters s' = poll_metrics ?rows (counters s)"
    using assms(3,5) by (auto simp: collected_rows)
  have entries: "distinct (map (fst \<circ> fst) (c_entries c))" "map_of (map fst (c_entries c)) = lookup (monitor s)"
    using assms(4) by simp_all
  show ?thesis
  proof (cases "lookup (monitor s) ?k")
    case None
    then have "?k \<notin> fst ` fst ` set (c_entries c)"
      using entries(2) map_of_eq_None_iff [of "map fst (c_entries c)" ?k] by (simp add: image_image)
    then have "series_of client remote nm grp \<notin> metric_name ` set ?rows"
      using row_name [OF assms(1,2)] by (auto simp: image_iff dest!: sym [of "series_of client remote nm grp"])
    then show ?thesis using None by (simp add: s' poll_metrics_absent)
  next
    case (Some v)
    then obtain x where x: "x \<in> set (c_entries c)" "fst x = (?k, v)"
      using map_of_SomeD [of "map fst (c_entries c)" ?k v] entries(2) by auto
    have "inj_on (metric_name \<circ> (\<lambda>x. row_at c (fst (fst x)) (snd (fst x)))) (set (c_entries c))"
    proof (rule inj_onI)
      fix y z
      assume yz: "y \<in> set (c_entries c)" "z \<in> set (c_entries c)"
        and eq: "(metric_name \<circ> (\<lambda>x. row_at c (fst (fst x)) (snd (fst x)))) y =
          (metric_name \<circ> (\<lambda>x. row_at c (fst (fst x)) (snd (fst x)))) z"
      then have "decode_key (fst (fst y)) = decode_key (fst (fst z))"
        using metric_name_pair [of "row_at c (fst (fst y)) (snd (fst y))" "row_at c (fst (fst z)) (snd (fst z))"]
        by (simp add: prod_eq_iff)
      then have "(fst \<circ> fst) y = (fst \<circ> fst) z" by (simp add: decode_key_inject)
      with entries(1) yz show "y = z" by (simp only: distinct_map inj_on_def)
    qed
    then have "distinct (map metric_name ?rows)"
      using entries(1) by (auto simp: distinct_map comp_def)
    moreover have "row_at c ?k v \<in> set ?rows" using x by force
    ultimately have "poll_metrics ?rows (counters s) (metric_name (row_at c ?k v)) = Some (go_float64 (uint v))"
      using poll_metrics_row [of ?rows "row_at c ?k v"] by (simp add: row_at_def Let_def)
    then show ?thesis by (simp add: s' Some row_series [OF assms(1-3)])
  qed
qed

section \<open>Counters and samples are the bytes on the wire\<close>

definition few_pairs :: "skb list \<Rightarrow> bool" where
  "few_pairs ps \<longleftrightarrow> card (frame_key LittleEndian ` {p \<in> set ps. is_ipv4_frame LittleEndian p}) \<le> src_dest_max_entries"

definition wire_value :: "skb list \<Rightarrow> u64 \<Rightarrow> rat option" where
  "wire_value ps k =
     (if k \<in> frame_key LittleEndian ` {p \<in> set ps. is_ipv4_frame LittleEndian p}
      then Some (of_nat (wire_sum LittleEndian ps k)) else None)"

text \<open>A process that has just started: the map and the counters are empty, Prometheus has what it scraped
  before. The very first start has no scrapes either.\<close>

definition begun_traffic :: "('m \<Rightarrow> u64 \<Rightarrow> u64 option) \<Rightarrow> ('m \<Rightarrow> bool) \<Rightarrow> 'm traffic_state \<Rightarrow> bool" where
  "begun_traffic lookup ok s \<longleftrightarrow> ok (monitor s) \<and> lookup (monitor s) = (\<lambda>_. None) \<and> counters s = Map.empty"

definition fresh_traffic :: "('m \<Rightarrow> u64 \<Rightarrow> u64 option) \<Rightarrow> ('m \<Rightarrow> bool) \<Rightarrow> 'm traffic_state \<Rightarrow> bool" where
  "fresh_traffic lookup ok s \<longleftrightarrow> begun_traffic lookup ok s \<and> scrapes s = []"

lemma few_pairs_append: "few_pairs (ps @ qs) \<Longrightarrow> few_pairs ps"
  unfolding few_pairs_def by (rule order_trans [OF card_mono]) auto

lemma wire_sum_append: "wire_sum e (ps @ qs) k = wire_sum e ps k + wire_sum e qs k"
  by (simp add: wire_sum_def)

lemma wire_value_None: "wire_value (ps @ qs) k = None \<Longrightarrow> wire_value ps k = None"
  by (auto simp: wire_value_def split: if_splits)

lemma counted_lookup:
  assumes "bpf_hash lookup update ok src_dest_max_entries" and "ok m" and "lookup m = (\<lambda>_. None)" and "few_pairs ps"
  shows "lookup (bump_all lookup update (traffic_events LittleEndian ps) m) k =
    map_option (\<lambda>_. word_of_nat (wire_sum LittleEndian ps k)) (wire_value ps k)"
proof -
  have "set (admit src_dest_max_entries (map fst (traffic_events LittleEndian ps))) =
      set (map fst (traffic_events LittleEndian ps))"
    by (rule admit_few) (use assms(4) in \<open>simp only: few_pairs_def set_traffic_keys\<close>)
  then have "set (admit src_dest_max_entries (map fst (traffic_events LittleEndian ps))) =
      frame_key LittleEndian ` {p \<in> set ps. is_ipv4_frame LittleEndian p}"
    by (simp only: set_traffic_keys)
  then show ?thesis
    using bpf_counter.lookup_bump_all [OF bpf_counter.intro [OF assms(1)] assms(2,3)]
    by (simp add: total_of_wire_sum wire_value_def)
qed

lemma wire_value_word:
  assumes "wire_sum LittleEndian ps k < 2 ^ 53" and "wire_value ps k = Some x"
  shows "go_float64 (uint (word_of_nat (wire_sum LittleEndian ps k) :: u64)) = x"
proof -
  have "uint (word_of_nat (wire_sum LittleEndian ps k) :: u64) = int (wire_sum LittleEndian ps k)"
    using assms(1) by (simp add: uint_nat unat_of_nat)
  then show ?thesis
    using assms fl_of_int [of "int (wire_sum LittleEndian ps k)"]
    by (auto simp: go_float64_def wire_value_def split: if_splits)
qed

text \<open>What was collected is a beginning of what was seen.\<close>

lemma collected_seen: "\<exists>qs. seen (ledger_of evs) = collected (ledger_of evs) @ qs"
proof (induction evs rule: rev_induct)
  case (snoc ev evs)
  then show ?case by (cases ev) auto
qed simp

lemma trace_monitor:
  "traffic_trace e lookup update s0 evs s \<Longrightarrow>
   monitor s = bump_all lookup update (traffic_events e (seen (ledger_of evs))) (monitor s0)"
proof (induction rule: traffic_trace.induct)
  case (trace_step evs s ev s')
  then show ?case
    by (cases ev) (auto simp: traffic_mon_eq traffic_events_def bump_all_def)
qed (simp add: traffic_events_def bump_all_def)

text \<open>While an address keeps its name and group, the counter of a pair and all samples of it
  since the start are the bytes that the ledger says were counted.\<close>

lemma trace_accounts:
  assumes "bpf_hash lookup update ok src_dest_max_entries" and "begun_traffic lookup ok s0"
    and "length client = 4" and "length remote = 4"
    and "traffic_trace LittleEndian lookup update s0 evs s" and "\<forall>ev \<in> set evs. named remote nm grp ev"
    and "few_pairs (seen (ledger_of evs))" and "wire_sum LittleEndian (seen (ledger_of evs)) (flow_key client remote) < 2 ^ 53"
  shows "counters s (series_of client remote nm grp) = wire_value (collected (ledger_of evs)) (flow_key client remote) \<and>
    (\<exists>new. scrapes s = scrapes s0 @ new \<and>
       map (\<lambda>(t, page). (t, map_of page (series_of client remote nm grp))) new =
       map (\<lambda>(t, ps). (t, wire_value ps (flow_key client remote))) (reported (ledger_of evs)))"
  using assms(5-8)
proof (induction rule: traffic_trace.induct)
  case trace_init
  then show ?case using assms(2) by (simp add: begun_traffic_def wire_value_def)
next
  case (trace_step evs s ev s')
  let ?k = "flow_key client remote" and ?l = "ledger_of evs"
  have few: "few_pairs (seen ?l)" and size: "wire_sum LittleEndian (seen ?l) ?k < 2 ^ 53"
    using trace_step.prems(2,3) few_pairs_append by (cases ev; force simp: wire_sum_append)+
  have IH: "counters s (series_of client remote nm grp) = wire_value (collected ?l) ?k \<and>
      (\<exists>new. scrapes s = scrapes s0 @ new \<and>
        map (\<lambda>(t, page). (t, map_of page (series_of client remote nm grp))) new =
        map (\<lambda>(t, ps). (t, wire_value ps ?k)) (reported ?l))"
    using trace_step.IH trace_step.prems(1) few size by simp
  show ?case
  proof (cases ev)
    case (Packet p)
    with trace_step.hyps(3) IH show ?thesis by (auto simp: traffic_mon_eq)
  next
    case (Collect c)
    have "lookup (monitor s) ?k = map_option (\<lambda>_. word_of_nat (wire_sum LittleEndian (seen ?l) ?k)) (wire_value (seen ?l) ?k)"
      unfolding trace_monitor [OF trace_step.hyps(1)]
      using assms(2) by (intro counted_lookup [OF assms(1) _ _ few]) (simp_all add: begun_traffic_def)
    moreover have "wire_value (seen ?l) ?k = None \<Longrightarrow> wire_value (collected ?l) ?k = None"
      using collected_seen [of evs] wire_value_None by auto
    moreover have "named remote nm grp (Collect c)" using trace_step.prems(1) Collect by auto
    ultimately have "counters s' (series_of client remote nm grp) = wire_value (seen ?l) ?k"
      using collect_series [OF assms(3,4) _ trace_step.hyps(2) [unfolded Collect] trace_step.hyps(3) [unfolded Collect]]
        IH wire_value_word [OF size] by (auto split: option.splits)
    moreover have "scrapes s' = scrapes s" using trace_step.hyps(3) Collect by auto
    ultimately show ?thesis using IH Collect by simp
  next
    case (Scrape t page)
    from IH obtain new where "scrapes s = scrapes s0 @ new"
      "map (\<lambda>(t, page). (t, map_of page (series_of client remote nm grp))) new =
        map (\<lambda>(t, ps). (t, wire_value ps ?k)) (reported ?l)" by blast
    with Scrape trace_step.hyps(2,3) IH show ?thesis by (auto intro!: exI [of _ "new @ [(t, page)]"])
  qed
qed

text \<open>No counter is negative, and no sample of one.\<close>

definition nonneg_scrapes :: "scrape list \<Rightarrow> bool" where
  "nonneg_scrapes H \<longleftrightarrow> (\<forall>x \<in> set H. \<forall>v \<in> ran (map_of (snd x)). 0 \<le> v)"

definition nonneg_traffic :: "'m traffic_state \<Rightarrow> bool" where
  "nonneg_traffic s \<longleftrightarrow> (\<forall>v \<in> ran (counters s). 0 \<le> v) \<and> nonneg_scrapes (scrapes s)"

lemma go_float64_nonneg: "0 \<le> i \<Longrightarrow> 0 \<le> go_float64 i"
  using fl_mono [of 0 "of_int i"] by (simp add: go_float64_def)

lemma poll_metrics_nonneg: "\<forall>v \<in> ran C. 0 \<le> v \<Longrightarrow> \<forall>v \<in> ran (poll_metrics bl C). 0 \<le> v"
proof (induction bl rule: rev_induct)
  case (snoc b bl)
  then show ?case using go_float64_nonneg by (auto simp: poll_metrics_def ran_def split: if_splits)
qed (simp add: poll_metrics_def)

lemma observe_nonneg:
  assumes "nonneg_traffic s" and "observable lookup ev s" and "observe e lookup update ev s = Some s'"
  shows "nonneg_traffic s'"
proof (cases ev)
  case (Collect c)
  with assms(1,3) show ?thesis
    using poll_metrics_nonneg [of "counters s"] by (auto simp: nonneg_traffic_def)
qed (use assms in \<open>auto simp: nonneg_traffic_def nonneg_scrapes_def\<close>)

lemma fresh_nonneg: "fresh_traffic lookup ok s \<Longrightarrow> nonneg_traffic s"
  by (simp add: fresh_traffic_def begun_traffic_def nonneg_traffic_def nonneg_scrapes_def)

end
