(* ===== verification/Activity.thy ===== *)
theory Activity
  imports Usage
begin

text \<open>
  What the policy engine concludes from traffic, through the collector and Prometheus of theory
  \<open>Usage\<close>: a client with enough traffic is found active, a client without traffic is not, and an
  address that changes its name takes the bytes it had under the other name with it.
\<close>

section \<open>Enough traffic makes a pair active\<close>

text \<open>Two scrapes in a window between which the bytes reported for a pair grow by more than \<open>n\<close>.\<close>

definition rises :: "(int \<times> skb list) list \<Rightarrow> u64 \<Rightarrow> int \<Rightarrow> int \<Rightarrow> int \<Rightarrow> bool" where
  "rises rep k w tm n \<longleftrightarrow>
     (\<exists>j < length rep. \<exists>i < j. tm - w * time_Minute < fst (rep ! i) \<and> fst (rep ! j) \<le> tm \<and>
        wire_value (snd (rep ! i)) k \<noteq> None \<and>
        int (wire_sum LittleEndian (snd (rep ! i)) k) + n < int (wire_sum LittleEndian (snd (rep ! j)) k))"

text \<open>The ledger: times increase, and each report extends the one before.\<close>

definition later :: "int \<times> skb list \<Rightarrow> int \<times> skb list \<Rightarrow> bool" where
  "later x y \<longleftrightarrow> fst x < fst y \<and> (\<exists>qs. snd y = snd x @ qs)"

lemma reported_later:
  "traffic_trace e lookup update s0 evs s \<Longrightarrow>
   (\<exists>new. scrapes s = scrapes s0 @ new \<and> map fst (reported (ledger_of evs)) = map fst new) \<and>
   sorted_wrt later (reported (ledger_of evs)) \<and>
   (\<forall>x \<in> set (reported (ledger_of evs)). \<exists>qs. collected (ledger_of evs) = snd x @ qs)"
proof (induction rule: traffic_trace.induct)
  case (trace_step evs s ev s')
  obtain new where new: "scrapes s = scrapes s0 @ new" "map fst (reported (ledger_of evs)) = map fst new"
    using trace_step.IH by blast
  show ?case
  proof (cases ev)
    case (Collect c)
    obtain qs where "seen (ledger_of evs) = collected (ledger_of evs) @ qs" using collected_seen by blast
    with Collect trace_step show ?thesis by fastforce
  next
    case (Scrape t page)
    have "fst x < t" if "x \<in> set (reported (ledger_of evs))" for x
    proof -
      have "fst x \<in> fst ` set (reported (ledger_of evs))" using that by (rule imageI)
      also have "\<dots> = fst ` set new" using new(2) by (metis list.set_map)
      finally obtain y where "y \<in> set new" "fst x = fst y" by blast
      then show ?thesis using trace_step.hyps(2) Scrape new(1) by auto
    qed
    moreover have "scrapes s' = scrapes s0 @ new @ [(t, page)]" using trace_step.hyps(3) Scrape new(1) by auto
    ultimately show ?thesis using trace_step.IH new(2) Scrape by (auto simp: sorted_wrt_append later_def)
  qed (use trace_step new in \<open>auto simp: traffic_mon_eq\<close>)
qed simp

lemma trace_nonneg:
  "traffic_trace e lookup update s0 evs s \<Longrightarrow> nonneg_traffic s0 \<Longrightarrow> nonneg_traffic s"
  by (induction rule: traffic_trace.induct) (auto intro: observe_nonneg)

lemma wire_value_mono: "later x y \<Longrightarrow> wire_value (snd x) k = Some a \<Longrightarrow> \<exists>b. wire_value (snd y) k = Some b \<and> a \<le> b"
  by (auto simp: later_def wire_value_def wire_sum_append split: if_splits)

text \<open>Samples taken from the reports.\<close>

definition report_samples :: "(int \<times> skb list) list \<Rightarrow> u64 \<Rightarrow> (int \<Rightarrow> bool) \<Rightarrow> (int \<times> rat) list" where
  "report_samples rep k inside =
     List.map_filter (\<lambda>(t, ps). if inside t then map_option (Pair t) (wire_value ps k) else None) rep"

lemma map_filter_map: "List.map_filter f (map g xs) = List.map_filter (f \<circ> g) xs"
  by (induction xs) (simp_all split: option.split)

lemma map_filter_append: "List.map_filter f (xs @ ys) = List.map_filter f xs @ List.map_filter f ys"
  by (simp add: List.map_filter_def)

lemma samples_report:
  assumes "map (\<lambda>(t, page). (t, map_of page ser)) H = map (\<lambda>(t, ps). (t, wire_value ps k)) rep"
  shows "samples H inside ser = report_samples rep k inside"
proof -
  let ?f = "\<lambda>(t, v). if inside t then map_option (Pair t) v else None"
  have "samples H inside ser = List.map_filter ?f (map (\<lambda>(t, page). (t, map_of page ser)) H)"
    unfolding samples_def map_filter_map by (rule arg_cong [of _ _ "\<lambda>f. List.map_filter f H"]) auto
  also have "\<dots> = report_samples rep k inside"
    unfolding assms report_samples_def map_filter_map by (rule arg_cong [of _ _ "\<lambda>f. List.map_filter f rep"]) auto
  finally show ?thesis .
qed

lemma set_samples:
  "x \<in> set (samples H ins s) \<longleftrightarrow> (\<exists>page. (fst x, page) \<in> set H \<and> ins (fst x) \<and> map_of page s = Some (snd x))"
  by (induction H) (auto simp: samples_def split: option.splits if_splits prod.splits)

lemma samples_append: "samples (H @ H') ins s = samples H ins s @ samples H' ins s"
  by (simp add: samples_def map_filter_append)

lemma samples_mono:
  "(\<And>t. ins t \<Longrightarrow> ins' t) \<Longrightarrow> length (samples H ins s) \<le> length (samples H ins' s)"
  by (induction H) (auto simp: samples_def List.map_filter_simps split: option.split if_splits)

lemma samples_nonneg: "nonneg_scrapes H \<Longrightarrow> \<forall>x \<in> set (samples H ins s). 0 \<le> snd x"
  by (force simp: nonneg_scrapes_def set_samples ran_def)

lemma report_samples_Cons:
  "report_samples (x # rep) k inside =
   (if inside (fst x) \<and> wire_value (snd x) k \<noteq> None
    then (fst x, the (wire_value (snd x) k)) # report_samples rep k inside else report_samples rep k inside)"
  by (cases x) (auto simp: report_samples_def)

lemma report_samples_append: "report_samples (xs @ ys) k inside = report_samples xs k inside @ report_samples ys k inside"
  by (simp add: report_samples_def map_filter_append)

lemma report_samples_sorted: "sorted_wrt later rep \<Longrightarrow> sorted (map snd (report_samples rep k inside))"
proof (induction rep)
  case (Cons x rep)
  have "the (wire_value (snd x) k) \<le> snd y"
    if some: "wire_value (snd x) k \<noteq> None" and mem: "y \<in> set (report_samples rep k inside)" for y
  proof -
    obtain z where "z \<in> set rep" "snd y = the (wire_value (snd z) k)"
      using mem by (force simp: report_samples_def List.map_filter_def split: if_splits)
    then show ?thesis
      using wire_value_mono [of x z k] Cons.prems some by fastforce
  qed
  with Cons show ?case by (auto simp: report_samples_Cons)
qed (simp add: report_samples_def)

text \<open>Samples of a rise: there are two, and the last exceeds the first by more than \<open>n\<close>.\<close>

lemma rise_samples:
  assumes "sorted_wrt later rep" and "rises rep k w tm n"
    and "\<And>t. tm - w * time_Minute < t \<Longrightarrow> t \<le> tm \<Longrightarrow> inside t"
  shows "2 \<le> length (report_samples rep k inside)"
    and "of_int n < snd (last (report_samples rep k inside)) - snd (hd (report_samples rep k inside))"
proof -
  obtain i j where ij: "i < j" "j < length rep" "tm - w * time_Minute < fst (rep ! i)" "fst (rep ! j) \<le> tm"
    "wire_value (snd (rep ! i)) k \<noteq> None"
    "int (wire_sum LittleEndian (snd (rep ! i)) k) + n < int (wire_sum LittleEndian (snd (rep ! j)) k)"
    using assms(2) by (auto simp: rises_def)
  have ord: "later (rep ! i) (rep ! j)" using sorted_wrt_nth_less [OF assms(1) ij(1,2)] .
  then have "fst (rep ! i) < fst (rep ! j)" by (simp add: later_def)
  then have inside: "inside (fst (rep ! i))" "inside (fst (rep ! j))"
    using ij(3,4) by (intro assms(3); simp)+
  obtain a where a: "wire_value (snd (rep ! i)) k = Some a" using ij(5) by blast
  then obtain b where b: "wire_value (snd (rep ! j)) k = Some b" using wire_value_mono [OF ord] by blast
  have ab: "of_int n < b - a"
  proof -
    have "a = of_int (int (wire_sum LittleEndian (snd (rep ! i)) k))" "b = of_int (int (wire_sum LittleEndian (snd (rep ! j)) k))"
      using a b by (auto simp: wire_value_def split: if_splits)
    moreover have "of_int (int (wire_sum LittleEndian (snd (rep ! i)) k) + n) < (of_int (int (wire_sum LittleEndian (snd (rep ! j)) k)) :: rat)"
      using ij(6) by (simp only: of_int_less_iff)
    ultimately show ?thesis by simp
  qed
  have "rep = take i rep @ rep ! i # drop (Suc i) rep" using ij(1,2) by (simp add: id_take_nth_drop)
  moreover have "drop (Suc i) rep = take (j - Suc i) (drop (Suc i) rep) @ rep ! j # drop (Suc j) rep"
    using ij(1,2) id_take_nth_drop [of "j - Suc i" "drop (Suc i) rep"] by simp
  ultimately obtain xs ys zs where "rep = xs @ rep ! i # ys @ rep ! j # zs" by metis
  then have samples: "report_samples rep k inside =
      report_samples xs k inside @ (fst (rep ! i), a) # report_samples ys k inside @ (fst (rep ! j), b) # report_samples zs k inside"
    using inside a b by (metis (no_types, lifting) option.distinct(1) option.sel report_samples_Cons report_samples_append)
  then show "2 \<le> length (report_samples rep k inside)" by simp
  have "snd (hd (report_samples rep k inside)) \<le> a" "b \<le> snd (last (report_samples rep k inside))"
    using report_samples_sorted [OF assms(1), of k inside] unfolding samples
    by (auto simp: sorted_append hd_append last_append neq_Nil_conv dest: last_in_set)
  with ab show "of_int n < snd (last (report_samples rep k inside)) - snd (hd (report_samples rep k inside))" by simp
qed

lemma sum_list_member: "\<forall>x \<in> set xs. 0 \<le> x \<Longrightarrow> y \<in> set xs \<Longrightarrow> y \<le> sum_list xs" for xs :: "rat list"
proof (induction xs)
  case (Cons x xs)
  then have "0 \<le> sum_list xs" by (intro sum_list_nonneg) simp
  with Cons show ?case by auto
qed simp

lemma set_all_series: "set (all_series H) = (\<Union>x \<in> set H. fst ` set (snd x))"
  by (auto simp: all_series_def)

lemma sampled_series: "samples H inside s \<noteq> [] \<Longrightarrow> s \<in> set (all_series H)"
proof -
  assume "samples H inside s \<noteq> []"
  then obtain t page where "(t, page) \<in> set H" "map_of page s \<noteq> None"
    by (auto simp: samples_def List.map_filter_def filter_empty_conv split: if_splits)
  moreover have "s \<in> fst ` set page" using calculation(2) by (simp add: map_of_eq_None_iff)
  ultimately show ?thesis unfolding set_all_series by force
qed

context prometheus
begin

lemma rated_nonneg:
  "nonneg_scrapes H \<Longrightarrow> 0 < w \<Longrightarrow> \<forall>x \<in> set (rated_series labels_of inside rate H w tm k). 0 \<le> x"
  using rate_nonneg [OF _ samples_nonneg]
  by (fastforce simp: rated_series_def List.map_filter_def split: if_splits)

lemma usage_at_least:
  assumes "0 < w" and "series_key labels_of s = k" and "snd k \<noteq> []"
    and "rate w tm (samples H (inside w tm) s) = Some r" and "nonneg_scrapes H"
  shows "\<exists>x. usage_of labels_of inside rate H w tm k = Some x \<and> r \<le> x"
proof -
  have "2 \<le> length (samples H (inside w tm) s)" using rate_defined assms(4) by blast
  then have "s \<in> set (all_series H)" by (intro sampled_series [of H "inside w tm"]) auto
  then have "r \<in> set (rated_series labels_of inside rate H w tm k)"
    using assms(2,4) by (force simp: rated_series_def List.map_filter_def)
  with sum_list_member [OF rated_nonneg [OF assms(5,1)] this] assms(3) show ?thesis
    by (auto simp: usage_of_def Let_def)
qed

lemma usage_query:
  assumes "(w, over) \<in> {(2, True), (5, True), (5, False)}"
  shows "createSrcGlobSet (GetSrcGlobUsage (query H) now w mins thr over) =
    {k. \<exists>x. usage_of labels_of inside rate H w (now - mins * time_Minute) k = Some x \<and>
      (if over then of_int thr < x else x < of_int thr)}"
proof -
  obtain vec where "query H (pql w thr over) (now - mins * time_Minute) = Some vec"
    "createSrcGlobSet vec = {k. \<exists>x. usage_of labels_of inside rate H w (now - mins * time_Minute) k = Some x \<and>
      (if over then of_int thr < x else x < of_int thr)}"
    using query_sum [OF assms, of H "now - mins * time_Minute"] by blast
  then show ?thesis by (simp add: GetSrcGlobUsage_def)
qed

lemma active_iff:
  assumes "ActivityThresholdBytes cfg = thr"
  shows "k \<in> getActiveGlobGroups (query H) cfg (now1, now2, now3) \<longleftrightarrow>
    (\<forall>(w, tm) \<in> {(2, now1), (2, now2 - 5 * time_Minute), (5, now3)}.
       \<exists>x. usage_of labels_of inside rate H w tm k = Some x \<and> of_int thr < x)"
  using usage_query [of 2 True H now1 0] usage_query [of 2 True H now2 5] usage_query [of 5 True H now3 0]
  by (auto simp: getActiveGlobGroups_def Let_def assms)

text \<open>The samples that report the packets since a start, between those from before and from later runs.\<close>

lemma rise_usage:
  assumes "0 < w" and "series_key labels_of ser = k" and "snd k \<noteq> []"
    and "map (\<lambda>(t, page). (t, map_of page ser)) new = map (\<lambda>(t, ps). (t, wire_value ps key)) rep"
    and "sorted_wrt later rep" and "rises rep key w tm (thr * 60 * w)" and "nonneg_scrapes (old @ new @ rest)"
  shows "\<exists>x. usage_of labels_of inside rate (old @ new @ rest) w tm k = Some x \<and> of_int thr < x"
proof -
  let ?S = "\<lambda>H. samples H (inside w tm) ser"
  let ?xs = "?S (old @ new @ rest)"
  have samples: "?S new = report_samples rep key (inside w tm)"
    by (rule samples_report [OF assms(4)])
  have split: "?xs = ?S old @ ?S new @ ?S rest" by (simp add: samples_append)
  have two: "2 \<le> length (?S new)" and rise: "of_int (thr * 60 * w) < snd (last (?S new)) - snd (hd (?S new))"
    unfolding samples by (rule rise_samples [OF assms(5,6)]; rule inside_window; assumption)+
  have "?S new \<noteq> []" using two by auto
  then have "snd (last (?S new)) - snd (hd (?S new)) = counter_increase (map snd (?S new))"
    using report_samples_sorted [OF assms(5), of key "inside w tm"]
    by (simp add: counter_increase_sorted last_map list.map_sel(1) samples)
  also have "\<dots> \<le> counter_increase (map snd ?xs)"
    unfolding split map_append using samples_nonneg [OF assms(7)]
    by (intro counter_increase_part) (auto simp: samples_append)
  finally have more: "of_int (thr * 60 * w) < counter_increase (map snd ?xs)" using rise by linarith
  have "rate w tm ?xs \<noteq> None" unfolding rate_defined using two by (simp add: split)
  then obtain r where r: "rate w tm ?xs = Some r" by blast
  have "counter_increase (map snd ?xs) \<le> r * (60 * of_int w)"
    by (rule rate_increase [OF assms(1) samples_nonneg [OF assms(7)] r])
  with more have "of_int (thr * 60 * w) < r * (60 * of_int w)" by (rule less_le_trans)
  then have "of_int thr * (60 * of_int w) < r * (60 * of_int w)" by simp
  then have "of_int thr < r" using assms(1) by (simp only: mult_less_cancel_right)
  with usage_at_least [OF assms(1-3) r assms(7)] show ?thesis by fastforce
qed

end

lemma series_key_of:
  assumes "prometheus labels_of inside rate query thr"
    and "length client = 4" and "length remote = 4" and "plain nm" and "plain grp"
  shows "series_key labels_of (series_of client remote nm grp) = (ip_string client, grp)"
  unfolding series_of_def using assms(2-5) by (subst prometheus.labels [OF assms(1)]) (simp_all add: plain_row_def)

text \<open>One run of the process: packets, collections and scrapes after a start, in which the address of a
  remote keeps its name and glob group, with at most 25000 pairs of addresses. If in a window the
  bytes of the packets from the remote to a client that were counted at two scrapes of the run
  differ by more than the threshold times the length of the window, the use of the group by the
  client is above the threshold, whatever was scraped before the start and comes after the run.\<close>

lemma run_usage:
  assumes "prometheus labels_of inside rate query thr"
    and "bpf_hash lookup update ok src_dest_max_entries" and "begun_traffic lookup ok s0"
    and "length client = 4" and "length remote = 4" and "plain nm" and "plain grp" and "grp \<noteq> []"
    and "traffic_trace LittleEndian lookup update s0 evs s" and "\<forall>ev \<in> set evs. named remote nm grp ev"
    and "few_pairs (seen (ledger_of evs))" and "wire_sum LittleEndian (seen (ledger_of evs)) (flow_key client remote) < 2 ^ 53"
    and "0 < w" and "rises (reported (ledger_of evs)) (flow_key client remote) w tm (thr * 60 * w)"
    and "nonneg_scrapes (scrapes s @ rest)"
  shows "\<exists>x. usage_of labels_of inside rate (scrapes s @ rest) w tm (ip_string client, grp) = Some x \<and> of_int thr < x"
proof -
  obtain new where new: "scrapes s = scrapes s0 @ new"
      "map (\<lambda>(t, page). (t, map_of page (series_of client remote nm grp))) new =
      map (\<lambda>(t, ps). (t, wire_value ps (flow_key client remote))) (reported (ledger_of evs))"
    using trace_accounts [OF assms(2-5,9-12)] by blast
  have "nonneg_scrapes (scrapes s0 @ new @ rest)" using assms(15) by (simp add: new(1))
  from prometheus.rise_usage [OF assms(1,13) series_key_of [OF assms(1,4-7)] _ new(2) _ assms(14) this]
    reported_later [OF assms(9)] assms(8) show ?thesis by (simp add: new(1))
qed

text \<open>When that is so in each of the three windows, the pair of the client and the group is active.\<close>

theorem heavy_traffic_is_active:
  assumes "prometheus labels_of inside rate query (ActivityThresholdBytes cfg)"
    and "bpf_hash lookup update ok src_dest_max_entries" and "fresh_traffic lookup ok s0"
    and "length client = 4" and "length remote = 4" and "plain nm" and "plain grp" and "grp \<noteq> []"
    and "traffic_trace LittleEndian lookup update s0 evs s" and "\<forall>ev \<in> set evs. named remote nm grp ev"
    and "few_pairs (seen (ledger_of evs))" and "wire_sum LittleEndian (seen (ledger_of evs)) (flow_key client remote) < 2 ^ 53"
    and "\<forall>(w, tm) \<in> {(2, now1), (2, now2 - 5 * time_Minute), (5, now3)}.
      rises (reported (ledger_of evs)) (flow_key client remote) w tm (ActivityThresholdBytes cfg * 60 * w)"
  shows "(ip_string client, grp) \<in> getActiveGlobGroups (query (scrapes s)) cfg (now1, now2, now3)"
proof -
  have begun: "begun_traffic lookup ok s0" using assms(3) by (simp add: fresh_traffic_def)
  have "nonneg_scrapes (scrapes s @ [])"
    using trace_nonneg [OF assms(9) fresh_nonneg [OF assms(3)]] by (simp add: nonneg_traffic_def)
  note run = run_usage [OF assms(1,2) begun assms(4-12) _ _ this]
  show ?thesis
    unfolding prometheus.active_iff [OF assms(1) refl]
    using assms(13) by (auto intro!: run [unfolded append_Nil2])
qed

section \<open>A client without traffic is not active\<close>

text \<open>Every address keeps its name and group.\<close>

definition steady :: "(u8 list \<Rightarrow> string \<times> string) \<Rightarrow> traffic_event \<Rightarrow> bool" where
  "steady names ev \<longleftrightarrow>
     (\<forall>remote. length remote = 4 \<longrightarrow> named remote (fst (names remote)) (snd (names remote)) ev)"

text \<open>The event is no packet to the client.\<close>

fun silent :: "u8 list \<Rightarrow> traffic_event \<Rightarrow> bool" where
  "silent client (Packet p) \<longleftrightarrow> \<not> (is_ipv4_frame LittleEndian p \<and> dst_bytes p = client)"
| "silent client _ \<longleftrightarrow> True"

lemma bump_other:
  assumes "bpf_hash lookup update ok cap" and "ok m" and "k' \<noteq> k"
  shows "lookup (bump lookup update k' n m) k = lookup m k"
proof -
  let ?v = "case lookup m k' of None \<Rightarrow> n | Some p \<Rightarrow> p + n"
  consider "lookup m k' \<noteq> None" | "lookup m k' = None" "card (dom (lookup m)) < cap"
    | "lookup m k' = None" "cap \<le> card (dom (lookup m))" by linarith
  then have "lookup (update m k' ?v) = (lookup m)(k' \<mapsto> ?v) \<or> lookup (update m k' ?v) = lookup m"
    using bpf_map.update_present [OF bpf_hash.axioms(1) [OF assms(1)] assms(2)]
      bpf_hash.update_room [OF assms(1,2)] bpf_hash.update_full [OF assms(1,2)] by cases blast+
  with assms(3) show ?thesis by (auto simp: bump_def)
qed

lemma collect_scrapes: "observe e lookup update (Collect c) s = Some s' \<Longrightarrow> scrapes s' = scrapes s"
  by auto

lemma observe_ok:
  assumes "bpf_hash lookup update ok cap" and "ok (monitor s)" and "observe e lookup update ev s = Some s'"
  shows "ok (monitor s')"
  using assms(2,3) bpf_counter.ok_bump [OF bpf_counter.intro [OF assms(1)]]
  by (cases ev) (auto simp: traffic_mon_eq split: if_splits)

text \<open>Packets to others leave the client's counters in the map.\<close>

lemma silent_packet:
  assumes "bpf_hash lookup update ok cap" and "ok (monitor s)" and "silent client (Packet p)"
    and "length client = 4" and "length remote = 4"
    and "observe LittleEndian lookup update (Packet p) s = Some s'"
  shows "lookup (monitor s') (flow_key client remote) = lookup (monitor s) (flow_key client remote)"
proof (cases "is_ipv4_frame LittleEndian p")
  case True
  then have "dst_bytes p \<noteq> client" using assms(3) by simp
  then have "frame_key LittleEndian p \<noteq> flow_key client remote"
    using True assms(4) ip_word_inject [of "dst_bytes p" client LittleEndian]
    by (simp add: frame_key_def flow_key_def pair_key_inject length_dst_bytes)
  then show ?thesis
    using assms(6) True bump_other [OF assms(1,2)] by (auto simp: traffic_mon_eq)
qed (use assms(6) in \<open>auto simp: traffic_mon_eq\<close>)

context prometheus
begin

text \<open>The counters with the client's label that a collection sets are those of pairs of the client.\<close>

lemma collect_client:
  assumes "length client = 4" and "steady names (Collect c)"
    and "\<forall>remote. plain (fst (names remote)) \<and> plain (snd (names remote))"
    and "observable lookup (Collect c) s" and "observe e lookup update (Collect c) s = Some s'"
    and "fst (series_key labels_of ser) = ip_string client"
  shows "counters s' ser = counters s ser \<or>
    (\<exists>remote. length remote = 4 \<and> ser = series_of client remote (fst (names remote)) (snd (names remote)) \<and>
       lookup (monitor s) (flow_key client remote) \<noteq> None)"
proof -
  let ?rows = "map (\<lambda>x. row_at c (fst (fst x)) (snd (fst x))) (c_entries c)"
  have ok: "\<forall>x \<in> set (c_entries c). snd x = (True, True)"
    using assms(2) by (auto simp: steady_def dest!: spec [of _ "[0, 0, 0, 0]"])
  then have s': "counters s' = poll_metrics ?rows (counters s)" using assms(5) by (auto simp: collected_rows)
  show ?thesis
  proof (cases "ser \<in> metric_name ` set ?rows")
    case True
    then obtain x where x: "x \<in> set (c_entries c)" "ser = metric_name (row_at c (fst (fst x)) (snd (fst x)))" by auto
    obtain key v where kv: "fst x = (key, v)" by fastforce
    obtain src remote where dec: "decode_key key = (src, remote)" by fastforce
    have len: "length src = 4" "length remote = 4" using decode_key_lengths [of key] by (simp_all add: dec)
    have key: "key = flow_key src remote" using decode_flow_key [OF len] dec by simp
    have named: "named remote (fst (names remote)) (snd (names remote)) (Collect c)"
      using assms(2) len(2) by (simp only: steady_def)
    have ser: "ser = series_of src remote (fst (names remote)) (snd (names remote))"
      using row_series [OF len named] by (simp add: x(2) kv key)
    have "series_key labels_of ser = (ip_string src, snd (names remote))"
      unfolding ser series_of_def using assms(3) len by (subst labels) (simp_all add: plain_row_def)
    then have "src = client" using assms(1,6) len(1) by (simp add: ip_string_inject)
    moreover have "lookup (monitor s) key \<noteq> None"
      using assms(4) x(1) kv map_of_eq_None_iff [of "map fst (c_entries c)" key] by force
    ultimately show ?thesis using ser key len(2) by blast
  qed (simp add: s' poll_metrics_absent)
qed

end

text \<open>From a collection on, as long as the client receives nothing, all its counters keep their values, or
  are gone: a start empties the map and the counters, and then they stay empty.\<close>

definition unchanged ::
  "('m \<Rightarrow> u64 \<Rightarrow> u64 option) \<Rightarrow> (string \<Rightarrow> metric) \<Rightarrow> u8 list \<Rightarrow> 'm traffic_state \<Rightarrow> 'm traffic_state \<Rightarrow> bool" where
  "unchanged lookup labels_of client s1 s \<longleftrightarrow>
     (\<forall>remote. length remote = 4 \<longrightarrow>
        lookup (monitor s) (flow_key client remote) \<in> {None, lookup (monitor s1) (flow_key client remote)}) \<and>
     (\<forall>ser. fst (series_key labels_of ser) = ip_string client \<longrightarrow> counters s ser \<in> {None, counters s1 ser}) \<and>
     (\<forall>x \<in> set (scrapes s). x \<in> set (scrapes s1) \<or>
        (\<forall>ser. fst (series_key labels_of ser) = ip_string client \<longrightarrow> map_of (snd x) ser \<in> {None, counters s1 ser}))"

text \<open>After a collection the counters of the client are the values in the map.\<close>

definition synced ::
  "('m \<Rightarrow> u64 \<Rightarrow> u64 option) \<Rightarrow> (u8 list \<Rightarrow> string \<times> string) \<Rightarrow> u8 list \<Rightarrow> 'm traffic_state \<Rightarrow> bool" where
  "synced lookup names client s \<longleftrightarrow>
     (\<forall>remote v. length remote = 4 \<longrightarrow> lookup (monitor s) (flow_key client remote) = Some v \<longrightarrow>
        counters s (series_of client remote (fst (names remote)) (snd (names remote))) = Some (go_float64 (uint v)))"

lemma unchanged_refl: "unchanged lookup labels_of client s s"
  by (simp add: unchanged_def)

lemma unchanged_restart:
  "unchanged lookup labels_of client s1 s \<Longrightarrow> lookup m = (\<lambda>_. None) \<Longrightarrow>
   unchanged lookup labels_of client s1 (s\<lparr>monitor := m, counters := Map.empty\<rparr>)"
  by (simp add: unchanged_def)

lemma collect_synced:
  assumes "length client = 4" and "steady names (Collect c)" and "observable lookup (Collect c) s"
    and "observe e lookup update (Collect c) s = Some s'"
  shows "synced lookup names client s'"
  unfolding synced_def
proof (intro allI impI)
  fix remote :: "u8 list" and v
  assume remote: "length remote = 4" "lookup (monitor s') (flow_key client remote) = Some v"
  have "named remote (fst (names remote)) (snd (names remote)) (Collect c)"
    using assms(2) remote(1) by (simp only: steady_def)
  from collect_series [OF assms(1) remote(1) this assms(3,4)] remote(2) assms(4)
  show "counters s' (series_of client remote (fst (names remote)) (snd (names remote))) = Some (go_float64 (uint v))"
    by auto
qed

lemma sum_list_zeros: "\<forall>x \<in> set xs. x = 0 \<Longrightarrow> sum_list xs = 0" for xs :: "rat list"
  by (induction xs) simp_all

context prometheus
begin

lemma unchanged_observe:
  assumes "bpf_hash lookup update ok src_dest_max_entries" and "ok (monitor s)"
    and "length client = 4" and "\<forall>remote. plain (fst (names remote)) \<and> plain (snd (names remote))"
    and "synced lookup names client s1" and "unchanged lookup labels_of client s1 s"
    and "steady names ev" and "silent client ev" and "observable lookup ev s"
    and "observe LittleEndian lookup update ev s = Some s'"
  shows "unchanged lookup labels_of client s1 s'"
proof (cases ev)
  case (Packet p)
  from silent_packet [OF assms(1,2) assms(8) [unfolded Packet] assms(3) _ assms(10) [unfolded Packet]] assms(6)
  show ?thesis using assms(10) Packet by (auto simp: unchanged_def traffic_mon_eq)
next
  case (Collect c)
  note col = collect_client [OF assms(3) assms(7) [unfolded Collect] assms(4) assms(9,10) [unfolded Collect]]
  have "counters s' ser \<in> {None, counters s1 ser}" if client: "fst (series_key labels_of ser) = ip_string client" for ser
  proof (cases "counters s' ser = counters s ser")
    case False
    with col [OF client] obtain remote v where remote: "length remote = 4"
      "ser = series_of client remote (fst (names remote)) (snd (names remote))"
      "lookup (monitor s) (flow_key client remote) = Some v" by blast
    have "named remote (fst (names remote)) (snd (names remote)) (Collect c)"
      using assms(7) remote(1) Collect by (simp only: steady_def)
    from collect_series [OF assms(3) remote(1) this assms(9,10) [unfolded Collect]] remote(3)
    have "counters s' ser = Some (go_float64 (uint v))" by (simp add: remote(2))
    moreover have "lookup (monitor s1) (flow_key client remote) = Some v"
      using assms(6) remote(1,3) unfolding unchanged_def by force
    ultimately show ?thesis using assms(5) remote(1) by (simp add: synced_def remote(2))
  qed (use assms(6) client in \<open>simp add: unchanged_def\<close>)
  moreover have "monitor s' = monitor s" "scrapes s' = scrapes s" using assms(10) Collect by auto
  ultimately show ?thesis using assms(6) by (simp add: unchanged_def)
next
  case (Scrape t page)
  then have "map_of page = counters s" "s' = s\<lparr>scrapes := scrapes s @ [(t, page)]\<rparr>" using assms(9,10) by simp_all
  with assms(6) show ?thesis by (simp add: unchanged_def)
qed

lemma flat_usage:
  assumes "\<And>ser x. series_key labels_of ser = k \<Longrightarrow> x \<in> set (samples H (inside w tm) ser) \<Longrightarrow> Some (snd x) = C ser"
    and "usage_of labels_of inside rate H w tm k = Some x"
  shows "x = 0"
proof -
  have "r = 0" if mem: "r \<in> set (rated_series labels_of inside rate H w tm k)" for r
  proof -
    obtain ser where ser: "series_key labels_of ser = k" "rate w tm (samples H (inside w tm) ser) = Some r"
      using mem by (auto simp: rated_series_def List.map_filter_def split: if_splits)
    have "\<forall>x \<in> set (samples H (inside w tm) ser). snd x = the (C ser)"
      using assms(1) [OF ser(1)] by (metis option.sel)
    from rate_flat [OF this ser(2)] show ?thesis .
  qed
  then have "sum_list (rated_series labels_of inside rate H w tm k) = 0" by (simp add: sum_list_zeros)
  then show ?thesis using assms(2) by (auto simp: usage_of_def Let_def split: if_splits)
qed

lemma silent_usage:
  assumes "unchanged lookup labels_of client s1 s" and "\<forall>x \<in> set (scrapes s1). fst x < tm - w * time_Minute"
    and "usage_of labels_of inside rate (scrapes s) w tm (ip_string client, grp) = Some x"
  shows "x = 0"
proof (rule flat_usage [OF _ assms(3)])
  fix ser x
  assume ser: "series_key labels_of ser = (ip_string client, grp)" and x: "x \<in> set (samples (scrapes s) (inside w tm) ser)"
  obtain page where t: "(fst x, page) \<in> set (scrapes s)" "inside w tm (fst x)" "map_of page ser = Some (snd x)"
    using x unfolding set_samples by blast
  from t(2) have "tm - w * time_Minute \<le> fst x" using window_inside by blast
  then have "(fst x, page) \<notin> set (scrapes s1)" using assms(2) by auto
  moreover have "fst (series_key labels_of ser) = ip_string client" by (simp add: ser)
  ultimately have "map_of (snd (fst x, page)) ser \<in> {None, counters s1 ser}"
    using assms(1) t(1) unfolding unchanged_def by blast
  with t(3) show "Some (snd x) = counters s1 ser" by simp
qed

lemma silent_inactive:
  assumes "thr = ActivityThresholdBytes cfg" and "0 \<le> thr" and "unchanged lookup labels_of client s1 s"
    and "\<forall>x \<in> set (scrapes s1). fst x < now1 - 2 * time_Minute"
  shows "(ip_string client, grp) \<notin> getActiveGlobGroups (query (scrapes s)) cfg (now1, now2, now3)"
proof
  assume "(ip_string client, grp) \<in> getActiveGlobGroups (query (scrapes s)) cfg (now1, now2, now3)"
  then obtain x where x: "usage_of labels_of inside rate (scrapes s) 2 now1 (ip_string client, grp) = Some x" "of_int thr < x"
    using active_iff [OF assms(1) [symmetric]] by auto
  from silent_usage [OF assms(3,4) x(1)] x(2) assms(2) show False by simp
qed

text \<open>A series with two samples in the last five minutes makes the pair quiet when it is flat.\<close>

lemma silent_quiet:
  assumes "thr = ActivityThresholdBytes cfg" and "0 < thr" and "unchanged lookup labels_of client s1 s"
    and "\<forall>x \<in> set (scrapes s1). fst x < now - 5 * time_Minute"
    and "series_key labels_of ser = (ip_string client, grp)" and "grp \<noteq> []"
    and "2 \<le> length (samples (scrapes s) (\<lambda>t. now - 5 * time_Minute < t \<and> t \<le> now) ser)"
  shows "(ip_string client, grp) \<in> createSrcGlobSet (GetSrcGlobUsage (query (scrapes s)) now 5 0 (ActivityThresholdBytes cfg) False)"
proof -
  let ?xs = "samples (scrapes s) (inside 5 now) ser"
  have two: "2 \<le> length ?xs"
    using assms(7) samples_mono [of "\<lambda>t. now - 5 * time_Minute < t \<and> t \<le> now" "inside 5 now" "scrapes s" ser] inside_window by force
  then obtain r where r: "rate 5 now ?xs = Some r" using rate_defined by blast
  have "ser \<in> set (all_series (scrapes s))" using two by (intro sampled_series [of "scrapes s" "inside 5 now"]) auto
  then have "r \<in> set (rated_series labels_of inside rate (scrapes s) 5 now (ip_string client, grp))"
    using assms(5) r by (force simp: rated_series_def List.map_filter_def)
  then have "rated_series labels_of inside rate (scrapes s) 5 now (ip_string client, grp) \<noteq> []" by auto
  then obtain x where x: "usage_of labels_of inside rate (scrapes s) 5 now (ip_string client, grp) = Some x"
    using assms(6) by (simp add: usage_of_def Let_def)
  have "x = 0" by (rule silent_usage [OF assms(3,4) x])
  then show ?thesis using usage_query [of 5 False "scrapes s" now 0] x assms(1,2) by simp
qed

text \<open>With a threshold of zero, which the configuration file suggests, no pair is ever quiet: a tick
  deletes no policy and lowers no class.\<close>

lemma zero_threshold_never_lowers:
  assumes "thr = ActivityThresholdBytes cfg" and "thr \<le> 0" and "nonneg_scrapes H"
    and "decreasingThrottling (query H) cfg t changed t'"
  shows "changed = False \<and> t' = t"
  using assms(4)
proof cases
  case (decreaseI matches now)
  have "0 \<le> x" if "usage_of labels_of inside rate H 5 now k = Some x" for k x
    using that rated_nonneg [OF assms(3), of 5 now k] by (auto simp: usage_of_def Let_def sum_list_nonneg split: if_splits)
  then have "\<not> x < of_int thr" if "usage_of labels_of inside rate H 5 now k = Some x" for k x
    using that assms(2) by (metis of_int_le_0_iff order.trans not_less)
  then have "createSrcGlobSet (GetSrcGlobUsage (query H) now 5 0 (ActivityThresholdBytes cfg) False) = {}"
    using usage_query [of 5 False H now 0] assms(1) by auto
  with decreaseI show ?thesis by (simp add: enumerates_def decrease_loop_def)
qed

end

section \<open>An address that changes its name\<close>

text \<open>C30: A collection gives the counter of a pair under the present name and group of the remote address
  all bytes of the pair since the start, whatever names the address had while they arrived, and
  leaves the counters of its other names as they are: after a change of name the bytes are counted
  for both, and when the name changes back the counter jumps by what came in under the other.\<close>

theorem renamed_address_keeps_bytes:
  assumes "bpf_hash lookup update ok src_dest_max_entries" and "begun_traffic lookup ok s0"
    and "length client = 4" and "length remote = 4" and "traffic_trace LittleEndian lookup update s0 evs s"
    and "observable lookup (Collect c) s" and "named remote nm grp (Collect c)"
    and "few_pairs (seen (ledger_of evs))" and "wire_sum LittleEndian (seen (ledger_of evs)) (flow_key client remote) < 2 ^ 53"
    and "wire_value (seen (ledger_of evs)) (flow_key client remote) \<noteq> None"
  shows "\<exists>s'. observe LittleEndian lookup update (Collect c) s = Some s' \<and>
    counters s' (series_of client remote nm grp) =
      Some (of_nat (wire_sum LittleEndian (seen (ledger_of evs)) (flow_key client remote))) \<and>
    (\<forall>nm' grp'. series_of client remote nm' grp' \<noteq> series_of client remote nm grp \<longrightarrow>
       counters s' (series_of client remote nm' grp') = counters s (series_of client remote nm' grp'))"
proof -
  let ?k = "flow_key client remote" and ?ps = "seen (ledger_of evs)"
  let ?rows = "map (\<lambda>x. row_at c (fst (fst x)) (snd (fst x))) (c_entries c)"
  obtain s' where s': "observe LittleEndian lookup update (Collect c) s = Some s'" by simp
  have wire: "wire_value ?ps ?k = Some (of_nat (wire_sum LittleEndian ?ps ?k))"
    using assms(10) by (simp add: wire_value_def split: if_splits)
  have "lookup (monitor s) ?k = Some (word_of_nat (wire_sum LittleEndian ?ps ?k))"
    unfolding trace_monitor [OF assms(5)] using assms(2)
    by (subst counted_lookup [OF assms(1) _ _ assms(8)]) (simp_all add: begun_traffic_def wire)
  then have "counters s' (series_of client remote nm grp) = Some (of_nat (wire_sum LittleEndian ?ps ?k))"
    using collect_series [OF assms(3,4,7,6) s'] wire_value_word [OF assms(9) wire] by simp
  moreover have "counters s' (series_of client remote nm' grp') = counters s (series_of client remote nm' grp')"
    if other: "series_of client remote nm' grp' \<noteq> series_of client remote nm grp" for nm' grp'
  proof -
    have "series_of client remote nm' grp' \<notin> metric_name ` set ?rows"
    proof
      assume "series_of client remote nm' grp' \<in> metric_name ` set ?rows"
      then obtain x where "metric_name (row_at c (fst (fst x)) (snd (fst x))) = series_of client remote nm' grp'" by auto
      moreover from row_name [OF assms(3,4) this] have "fst (fst x) = ?k" .
      ultimately show False using other row_series [OF assms(3,4,7)] by simp
    qed
    moreover have "counters s' = poll_metrics ?rows (counters s)"
      using s' assms(7) by (auto simp: collected_rows)
    ultimately show ?thesis by (simp add: poll_metrics_absent)
  qed
  ultimately show ?thesis using s' by blast
qed

text \<open>Names are put between quotes as they are: a quote in one makes another line.\<close>

lemma labels_not_escaped:
  "metric_name \<lparr>bw_SrcIpAddr = a, bw_DestIpAddr = b, bw_Bytes = n, bw_ProbDomain = ''x'',
     bw_GlobName = ''y'' @ [CHR 0x22] @ '', glob='' @ [CHR 0x22] @ ''z''\<rparr> =
   metric_name \<lparr>bw_SrcIpAddr = a, bw_DestIpAddr = b, bw_Bytes = n,
     bw_ProbDomain = ''x'' @ [CHR 0x22] @ '', glob='' @ [CHR 0x22] @ ''y'', bw_GlobName = ''z''\<rparr>"
  by (simp add: metric_name_def quoted_def)

section \<open>Examples\<close>

text \<open>The client \<open>192.168.0.14\<close> receives four packets of 1500 bytes from \<open>142.251.33.174\<close>, whose name
  matches the group \<open>video\<close>; each is collected and scraped, after 4, 5, 9 and 10 minutes.\<close>

abbreviation demo_client :: "u8 list" where "demo_client \<equiv> [192, 168, 0, 14]"
abbreviation demo_remote :: "u8 list" where "demo_remote \<equiv> [142, 251, 33, 174]"

definition demo_packet :: skb where
  "demo_packet = mk_frame LittleEndian demo_remote demo_client 6 [5, 220] []"

definition demo_series :: string where
  "demo_series = series_of demo_client demo_remote ''www.tube.com.'' ''video''"

definition demo_dns :: "string \<Rightarrow> dns_row list" where
  "demo_dns nm = [dns_row_of nm demo_remote 1000]"

definition demo_collect :: "string \<Rightarrow> u64 \<Rightarrow> traffic_event" where
  "demo_collect nm v = Collect \<lparr>c_pick = hd, c_globs = [demo_globs ! 2], c_dns = demo_dns nm,
     c_entries = [((flow_key demo_client demo_remote, v), True, True)]\<rparr>"

lemma demo_packet_facts:
  "is_ipv4_frame LittleEndian demo_packet" "frame_key LittleEndian demo_packet = flow_key demo_client demo_remote"
  "wire_tot_len demo_packet = 1500" "frame_bytes demo_packet = 1500"
  "src_bytes demo_packet = demo_remote" "dst_bytes demo_packet = demo_client"
  by (simp_all add: demo_packet_def mk_frame_parts frame_key_def flow_key_def frame_bytes_def load16.simps)

lemma demo_domain: "GetDomainForIP True hd (ip_string demo_remote) (demo_dns nm) = nm"
  by (simp add: GetDomainForIP_def demo_dns_def dns_row_of_def newest_def Let_def del: ip_string.simps)

lemma demo_named: "named demo_remote ''www.tube.com.'' ''video'' (demo_collect ''www.tube.com.'' v)"
proof -
  have "getMatchingGlobGroup True ''www.tube.com.'' [demo_globs ! 2] = Some (demo_globs ! 2)"
    "Name (demo_globs ! 2) = ''video''" by code_simp+
  then show ?thesis unfolding demo_collect_def named.simps by (simp add: demo_domain del: ip_string.simps)
qed

text \<open>A round of one packet, its collection and a scrape.\<close>

definition demo_state :: "(u64 \<times> u64) list \<Rightarrow> metrics_page \<Rightarrow> scrape list \<Rightarrow> (u64 \<times> u64) list traffic_state" where
  "demo_state m page H = \<lparr>monitor = m, counters = map_of page, scrapes = H\<rparr>"

definition demo_round :: "u64 \<Rightarrow> int \<Rightarrow> traffic_event list" where
  "demo_round v t = [Packet demo_packet, demo_collect ''www.tube.com.'' v, Scrape t [(demo_series, go_float64 (uint v))]]"

lemma demo_round:
  assumes "traffic_trace LittleEndian map_of (hash_update src_dest_max_entries) s0 evs (demo_state m page H)"
    and "bump map_of (hash_update src_dest_max_entries) (flow_key demo_client demo_remote) 1500 m =
      [(flow_key demo_client demo_remote, v)]"
    and "page = [] \<or> (\<exists>x. page = [(demo_series, x)])" and "\<forall>x \<in> set H. fst x < t"
  shows "traffic_trace LittleEndian map_of (hash_update src_dest_max_entries) s0 (evs @ demo_round v t)
    (demo_state [(flow_key demo_client demo_remote, v)] [(demo_series, go_float64 (uint v))]
       (H @ [(t, [(demo_series, go_float64 (uint v))])]))"
proof -
  let ?T = "traffic_trace LittleEndian map_of (hash_update src_dest_max_entries) s0"
  let ?m = "[(flow_key demo_client demo_remote, v)]" and ?page = "[(demo_series, go_float64 (uint v))]"
  have 1: "?T (evs @ [Packet demo_packet]) (demo_state ?m page H)"
    using trace_step [OF assms(1), of "Packet demo_packet"] assms(2)
    by (simp add: traffic_mon_eq demo_packet_facts demo_state_def)
  obtain c where c: "demo_collect ''www.tube.com.'' v = Collect c"
    "c_entries c = [((flow_key demo_client demo_remote, v), True, True)]"
    by (simp add: demo_collect_def)
  have "observe LittleEndian map_of (hash_update src_dest_max_entries) (Collect c) (demo_state ?m page H) =
      Some (demo_state ?m ?page H)"
  proof -
    have "poll_metrics [row_at c (flow_key demo_client demo_remote) v] (map_of page) = map_of ?page"
      using assms(3) row_series [of demo_client demo_remote "''www.tube.com.''" "''video''" c v] demo_named [of v]
      unfolding c(1) demo_series_def [symmetric] by (auto simp: poll_metrics_def row_at_def Let_def)
    moreover have "getBandwidthList True False (c_pick c) (c_globs c) (c_dns c) (c_entries c) =
        [row_at c (flow_key demo_client demo_remote) v]"
      using collected_rows [of c] by (simp add: c(2))
    ultimately show ?thesis by (simp add: demo_state_def del: map_of.simps)
  qed
  moreover have "observable map_of (Collect c) (demo_state ?m page H)" by (simp add: c(2) demo_state_def)
  ultimately have 2: "?T ((evs @ [Packet demo_packet]) @ [Collect c]) (demo_state ?m ?page H)"
    using trace_step [OF 1] by blast
  have "?T (((evs @ [Packet demo_packet]) @ [Collect c]) @ [Scrape t ?page]) (demo_state ?m ?page (H @ [(t, ?page)]))"
    by (rule trace_step [OF 2]) (use assms(4) in \<open>simp_all add: demo_state_def\<close>)
  then show ?thesis by (simp add: demo_round_def c(1))
qed

definition demo_trace :: "traffic_event list" where
  "demo_trace = demo_round 1500 (4 * time_Minute) @ demo_round 3000 (5 * time_Minute) @
     demo_round 4500 (9 * time_Minute) @ demo_round 6000 (10 * time_Minute)"

definition demo_scrapes :: "scrape list" where
  "demo_scrapes = [(4 * time_Minute, [(demo_series, 1500)]), (5 * time_Minute, [(demo_series, 3000)]),
     (9 * time_Minute, [(demo_series, 4500)]), (10 * time_Minute, [(demo_series, 6000)])]"

lemma demo_trace:
  "traffic_trace LittleEndian map_of (hash_update src_dest_max_entries) (demo_state [] [] []) demo_trace
     (demo_state [(flow_key demo_client demo_remote, 6000)] [(demo_series, 6000)] demo_scrapes)"
proof -
  let ?k = "flow_key demo_client demo_remote"
  let ?T = "traffic_trace LittleEndian map_of (hash_update src_dest_max_entries) (demo_state [] [] [])"
  have float: "go_float64 1500 = 1500" "go_float64 3000 = 3000" "go_float64 4500 = 4500" "go_float64 6000 = 6000"
    using fl_of_int [of 1500] fl_of_int [of 3000] fl_of_int [of 4500] fl_of_int [of 6000] by (simp_all add: go_float64_def)
  have bump: "bump map_of (hash_update src_dest_max_entries) ?k 1500 [] = [(?k, 1500)]"
    "bump map_of (hash_update src_dest_max_entries) ?k 1500 [(?k, v)] = [(?k, v + 1500)]" for v
    by (simp_all add: bump_def hash_update_def src_dest_max_entries_def)
  have t: "4 * time_Minute < 5 * time_Minute" "4 * time_Minute < 9 * time_Minute" "5 * time_Minute < 9 * time_Minute"
    "4 * time_Minute < 10 * time_Minute" "5 * time_Minute < 10 * time_Minute" "9 * time_Minute < 10 * time_Minute"
    by (simp_all add: time_Minute_def time_Second_def)
  have 1: "?T ([] @ demo_round 1500 (4 * time_Minute)) (demo_state [(?k, 1500)] [(demo_series, go_float64 (uint (1500 :: u64)))]
      ([] @ [(4 * time_Minute, [(demo_series, go_float64 (uint (1500 :: u64)))])]))"
    by (rule demo_round [OF trace_init]) (simp_all add: bump)
  note 2 = demo_round [OF 1, of 3000 "5 * time_Minute"]
  note 3 = demo_round [OF 2, of 4500 "9 * time_Minute"]
  note 4 = demo_round [OF 3, of 6000 "10 * time_Minute"]
  show ?thesis
    using 4 by (simp add: bump t demo_trace_def demo_scrapes_def float)
qed

lemma demo_trace_named: "\<forall>ev \<in> set demo_trace. named demo_remote ''www.tube.com.'' ''video'' ev"
  by (simp add: demo_trace_def demo_round_def demo_named)

lemma demo_ledger:
  "seen (ledger_of demo_trace) = replicate 4 demo_packet"
  "reported (ledger_of demo_trace) = [(4 * time_Minute, replicate 1 demo_packet), (5 * time_Minute, replicate 2 demo_packet),
     (9 * time_Minute, replicate 3 demo_packet), (10 * time_Minute, replicate 4 demo_packet)]"
  by (simp_all add: demo_trace_def demo_round_def demo_collect_def ledger_of_def numeral_eq_Suc)

lemma demo_bytes: "wire_sum LittleEndian (replicate n demo_packet) (flow_key demo_client demo_remote) = 1500 * n"
  by (induction n) (simp_all add: wire_sum_def demo_packet_facts)

lemma demo_value: "wire_value (replicate (Suc n) demo_packet) (flow_key demo_client demo_remote) \<noteq> None"
proof -
  have "demo_packet \<in> {p \<in> set (replicate (Suc n) demo_packet). is_ipv4_frame LittleEndian p}"
    by (simp add: demo_packet_facts)
  then have "flow_key demo_client demo_remote \<in> frame_key LittleEndian ` {p \<in> set (replicate (Suc n) demo_packet). is_ipv4_frame LittleEndian p}"
    using demo_packet_facts(2) by (metis imageI)
  then show ?thesis by (simp only: wire_value_def if_True option.distinct not_False_eq_True)
qed

lemma demo_few_pairs: "few_pairs (replicate n demo_packet)"
proof -
  have "card (frame_key LittleEndian ` {p \<in> set (replicate n demo_packet). is_ipv4_frame LittleEndian p}) \<le> card {flow_key demo_client demo_remote}"
    by (rule card_mono) (auto simp: demo_packet_facts)
  then show ?thesis by (simp add: few_pairs_def src_dest_max_entries_def)
qed

lemma demo_rises:
  "rises (reported (ledger_of demo_trace)) (flow_key demo_client demo_remote) 2 (10 * time_Minute) 120"
  "rises (reported (ledger_of demo_trace)) (flow_key demo_client demo_remote) 2 (10 * time_Minute - 5 * time_Minute) 120"
  "rises (reported (ledger_of demo_trace)) (flow_key demo_client demo_remote) 5 (10 * time_Minute) 300"
proof -
  let ?rep = "reported (ledger_of demo_trace)" and ?k = "flow_key demo_client demo_remote"
  have rise: "rises ?rep ?k w tm n"
    if "i < j" "j < 4" "tm - w * time_Minute < fst (?rep ! i)" "fst (?rep ! j) \<le> tm" "n < 1500" for i j w tm n
  proof -
    have "snd (?rep ! i) = replicate (Suc i) demo_packet" "snd (?rep ! j) = replicate (Suc j) demo_packet"
      using that(1,2) by (auto simp: demo_ledger less_Suc_eq numeral_eq_Suc)
    moreover have "int (1500 * Suc i) + n < int (1500 * Suc j)"
    proof -
      have "int i + 1 \<le> int j" using that(1) by simp
      with that(5) show ?thesis by simp
    qed
    moreover have "j < length ?rep" using that(2) by (simp add: demo_ledger(2))
    ultimately show ?thesis
      using that(1,3,4) demo_value [of i] unfolding rises_def demo_bytes [symmetric] by metis
  qed
  have "time_Minute > 0" by (simp add: time_Minute_def time_Second_def)
  then show "rises ?rep ?k 2 (10 * time_Minute) 120" "rises ?rep ?k 2 (10 * time_Minute - 5 * time_Minute) 120"
    "rises ?rep ?k 5 (10 * time_Minute) 300"
    using rise [of 2 3 "10 * time_Minute" 2 120] rise [of 0 1 "10 * time_Minute - 5 * time_Minute" 2 120]
      rise [of 2 3 "10 * time_Minute" 5 300]
    by (simp_all add: demo_ledger(2))
qed

lemma demo_fresh: "fresh_traffic map_of (hash_ok src_dest_max_entries) (demo_state [] [] [])"
  by (simp add: fresh_traffic_def begun_traffic_def demo_state_def hash_ok_def)

lemma demo_begun: "begun_traffic map_of (hash_ok src_dest_max_entries) (demo_state [] [] [])"
  using demo_fresh by (simp add: fresh_traffic_def)

lemma demo_plain: "plain ''www.tube.com.''" "plain ''video''"
  by (simp_all add: plain_def)

theorem heavy_traffic_is_active_witness:
  "(''192.168.0.14'', ''video'') \<in>
     getActiveGlobGroups (ref_query 1 demo_scrapes) demo_cfg (10 * time_Minute, 10 * time_Minute, 10 * time_Minute)"
proof -
  have thr: "ActivityThresholdBytes demo_cfg = 1" by (simp add: demo_cfg_def)
  have ip: "ip_string demo_client = ''192.168.0.14''" by code_simp
  have rises: "\<forall>(w, tm) \<in> {(2, 10 * time_Minute), (2, 10 * time_Minute - 5 * time_Minute), (5, 10 * time_Minute)}.
      rises (reported (ledger_of demo_trace)) (flow_key demo_client demo_remote) w tm (ActivityThresholdBytes demo_cfg * 60 * w)"
    using demo_rises by (simp add: thr)
  have size: "wire_sum LittleEndian (seen (ledger_of demo_trace)) (flow_key demo_client demo_remote) < 2 ^ 53"
    by (simp add: demo_ledger(1) demo_bytes)
  have few: "few_pairs (seen (ledger_of demo_trace))" by (simp only: demo_ledger(1) demo_few_pairs)
  have "(ip_string demo_client, ''video'') \<in> getActiveGlobGroups (ref_query (ActivityThresholdBytes demo_cfg)
      (scrapes (demo_state [(flow_key demo_client demo_remote, 6000)] [(demo_series, 6000)] demo_scrapes))) demo_cfg
      (10 * time_Minute, 10 * time_Minute, 10 * time_Minute)"
    by (rule heavy_traffic_is_active [OF ref_prometheus.prometheus_axioms hash_is_bpf_hash demo_fresh _ _ demo_plain _
        demo_trace demo_trace_named few size rises]) simp_all
  then show ?thesis unfolding ip thr by (simp add: demo_state_def)
qed

text \<open>Two packets: the first is collected under the name \<open>www.tube.com.\<close>, the second when the newest
  name of the address is another one. Both counters hold its bytes once it is collected again.\<close>

theorem renamed_address_keeps_bytes_witness:
  "\<exists>s s'. traffic_trace LittleEndian map_of (hash_update src_dest_max_entries) (demo_state [] [] [])
       (demo_round 1500 0 @ [Packet demo_packet]) s \<and>
     observe LittleEndian map_of (hash_update src_dest_max_entries) (demo_collect ''cdn.net.'' 3000) s = Some s' \<and>
     counters s' (series_of demo_client demo_remote ''cdn.net.'' []) = Some 3000 \<and>
     counters s' demo_series = Some 1500"
proof -
  let ?k = "flow_key demo_client demo_remote"
  let ?evs = "demo_round 1500 0 @ [Packet demo_packet]"
  let ?s = "demo_state [(?k, 3000)] [(demo_series, 1500)] [(0, [(demo_series, 1500)])]"
  have float: "go_float64 1500 = 1500" using fl_of_int [of 1500] by (simp add: go_float64_def)
  have bump: "bump map_of (hash_update src_dest_max_entries) ?k 1500 [] = [(?k, 1500)]"
    "bump map_of (hash_update src_dest_max_entries) ?k 1500 [(?k, 1500)] = [(?k, 3000)]"
    by (simp_all add: bump_def hash_update_def src_dest_max_entries_def)
  have "traffic_trace LittleEndian map_of (hash_update src_dest_max_entries) (demo_state [] [] []) ([] @ demo_round 1500 0)
      (demo_state [(?k, 1500)] [(demo_series, go_float64 (uint (1500 :: u64)))] ([] @ [(0, [(demo_series, go_float64 (uint (1500 :: u64)))])]))"
    by (rule demo_round [OF trace_init]) (simp_all add: bump)
  then have "traffic_trace LittleEndian map_of (hash_update src_dest_max_entries) (demo_state [] [] []) (demo_round 1500 0)
      (demo_state [(?k, 1500)] [(demo_series, 1500)] [(0, [(demo_series, 1500)])])" by (simp add: float)
  then have tr: "traffic_trace LittleEndian map_of (hash_update src_dest_max_entries) (demo_state [] [] []) ?evs ?s"
    by (rule trace_step) (simp_all add: traffic_mon_eq demo_packet_facts demo_state_def bump)
  obtain c where c: "demo_collect ''cdn.net.'' 3000 = Collect c" by (simp add: demo_collect_def)
  have "getMatchingGlobGroup True ''cdn.net.'' [demo_globs ! 2] = None" by code_simp
  then have "named demo_remote ''cdn.net.'' [] (demo_collect ''cdn.net.'' 3000)"
    unfolding demo_collect_def named.simps by (simp add: demo_domain del: ip_string.simps)
  then have named: "named demo_remote ''cdn.net.'' [] (Collect c)" by (simp only: c)
  have obs: "observable map_of (Collect c) ?s"
    using c [symmetric] by (simp add: demo_collect_def demo_state_def)
  have seen: "seen (ledger_of ?evs) = replicate 2 demo_packet"
    by (simp add: demo_round_def demo_collect_def ledger_of_def numeral_eq_Suc)
  have few: "few_pairs (seen (ledger_of ?evs))" by (simp only: seen demo_few_pairs)
  have size: "wire_sum LittleEndian (seen (ledger_of ?evs)) ?k < 2 ^ 53" by (simp only: seen demo_bytes) simp
  have some: "wire_value (seen (ledger_of ?evs)) ?k \<noteq> None"
    using demo_value [of 1] by (simp only: seen numeral_2_eq_2 One_nat_def not_False_eq_True)
  have lens: "length demo_client = 4" "length demo_remote = 4" by simp_all
  have other: "demo_series \<noteq> series_of demo_client demo_remote ''cdn.net.'' []"
    by (simp add: demo_series_def series_of_def metric_name_def quoted_def)
  obtain s' where s': "observe LittleEndian map_of (hash_update src_dest_max_entries) (Collect c) ?s = Some s'"
    "counters s' (series_of demo_client demo_remote ''cdn.net.'' []) = Some (of_nat (wire_sum LittleEndian (seen (ledger_of ?evs)) ?k))"
    "\<forall>nm' grp'. series_of demo_client demo_remote nm' grp' \<noteq> series_of demo_client demo_remote ''cdn.net.'' [] \<longrightarrow>
       counters s' (series_of demo_client demo_remote nm' grp') = counters ?s (series_of demo_client demo_remote nm' grp')"
    using renamed_address_keeps_bytes [OF hash_is_bpf_hash demo_begun lens tr obs named few size some] by blast
  have "counters s' demo_series = Some 1500"
    using s'(3) other by (simp add: demo_series_def) (simp add: demo_state_def demo_series_def)
  moreover have "counters s' (series_of demo_client demo_remote ''cdn.net.'' []) = Some 3000"
    using s'(2) by (simp only: seen demo_bytes) simp
  ultimately show ?thesis unfolding c using tr s'(1) by blast
qed

end
