(* ===== verification/System.thy ===== *)
theory System
  imports EndToEnd Activity
begin

text \<open>
  The whole system: the daemon of theory \<open>Daemon\<close> with its tables and attached programs, and the
  traffic of theory \<open>Usage\<close>, in one state. The collector reads the tables the daemon has at that
  moment, the queries of a tick are answered from the pages that were scraped, and a start loads a
  new monitor with an empty map and empty counters, while the scrapes of earlier runs remain. The
  properties hold through any number of starts: a run of the process is a piece of the trace. They say
  when a client is throttled, left alone and relieved again.
\<close>

section \<open>State and events\<close>

record ('k, 'm) system =
  daemon :: "'k control"
  traffic :: "'m traffic_state"

datatype system_event = Daemon_event control_event | Traffic_event traffic_event

fun is_start :: "system_event \<Rightarrow> bool" where
  "is_start (Daemon_event (Start env)) = True"
| "is_start _ = False"

text \<open>What the parts of the environment are: the kernel and its maps, the library functions, and the
  configuration.\<close>

record ('k, 'm) world =
  w_fused :: bool
  w_ops :: "'k tc_ops"
  w_cfg :: config
  w_glob :: "string \<Rightarrow> string \<Rightarrow> bool"
  w_unpack :: "u8 list \<Rightarrow> dns_rr list \<times> bool"
  w_lookup :: "'m \<Rightarrow> u64 \<Rightarrow> u64 option"
  w_update :: "'m \<Rightarrow> u64 \<Rightarrow> u64 \<Rightarrow> 'm"
  w_new_map :: 'm
  w_query :: "scrape list \<Rightarrow> string \<Rightarrow> int \<Rightarrow> metric list option"

definition daemon_step :: "('k, 'm) world \<Rightarrow> control_event \<Rightarrow> 'k control \<Rightarrow> 'k control" where
  "daemon_step w = happen (w_fused w) (w_ops w) (w_cfg w) (w_glob w) (w_unpack w)"

fun system_happen :: "('k, 'm) world \<Rightarrow> system_event \<Rightarrow> ('k, 'm) system \<Rightarrow> ('k, 'm) system option" where
  "system_happen w (Daemon_event ev) s =
     Some (s\<lparr>daemon := daemon_step w ev (daemon s),
       traffic := (if is_start (Daemon_event ev)
         then (traffic s)\<lparr>monitor := w_new_map w, counters := Map.empty\<rparr> else traffic s)\<rparr>)"
| "system_happen w (Traffic_event ev) s =
     map_option (\<lambda>t. s\<lparr>traffic := t\<rparr>) (observe LittleEndian (w_lookup w) (w_update w) ev (traffic s))"

fun system_possible :: "('k, 'm) world \<Rightarrow> system_event \<Rightarrow> ('k, 'm) system \<Rightarrow> bool" where
  "system_possible w (Daemon_event ev) s \<longleftrightarrow>
     possible (w_cfg w) (w_unpack w) (daemon s) ev \<and>
     (case ev of Tick te \<Rightarrow> te_query te = w_query w (scrapes (traffic s)) | _ \<Rightarrow> True)"
| "system_possible w (Traffic_event ev) s \<longleftrightarrow>
     observable (w_lookup w) ev (traffic s) \<and>
     (case ev of
        Packet p \<Rightarrow> True
      | Collect c \<Rightarrow> alive (daemon s) \<and> c_globs c = glob_table (daemon s) \<and> c_dns c = dns_table (daemon s)
      | Scrape t page \<Rightarrow> alive (daemon s))"

inductive system_trace ::
  "('k, 'm) world \<Rightarrow> ('k, 'm) system \<Rightarrow> system_event list \<Rightarrow> ('k, 'm) system \<Rightarrow> bool" for w s0 where
  system_init: "system_trace w s0 [] s0"
| system_step: "system_trace w s0 evs s \<Longrightarrow> system_possible w ev s \<Longrightarrow> system_happen w ev s = Some s' \<Longrightarrow>
    system_trace w s0 (evs @ [ev]) s'"

inductive_simps system_trace_Nil: "system_trace w s0 [] s"

lemma system_trace_snoc:
  "system_trace w s0 (evs @ [ev]) s' \<longleftrightarrow>
   (\<exists>s. system_trace w s0 evs s \<and> system_possible w ev s \<and> system_happen w ev s = Some s')"
  by (auto intro: system_step elim: system_trace.cases)

lemma system_trace_append:
  "system_trace w s0 (evs @ evs') s \<longleftrightarrow> (\<exists>s1. system_trace w s0 evs s1 \<and> system_trace w s1 evs' s)"
proof (induction evs' arbitrary: s rule: rev_induct)
  case (snoc ev evs')
  show ?case unfolding append_assoc [symmetric] system_trace_snoc snoc.IH by blast
qed (simp add: system_trace_Nil)

section \<open>The two parts\<close>

text \<open>Seen from the daemon, the system is the daemon; seen from the traffic, between starts, it is the
  traffic. A start begins anew with the map and the counters, but keeps what was scraped.\<close>

fun traffic_event_of :: "system_event \<Rightarrow> traffic_event option" where
  "traffic_event_of (Traffic_event ev) = Some ev"
| "traffic_event_of (Daemon_event ev) = None"

definition traffic_of :: "system_event list \<Rightarrow> traffic_event list" where
  "traffic_of evs = List.map_filter traffic_event_of evs"

lemma traffic_of_simps [simp]:
  "traffic_of [] = []"
  "traffic_of (evs @ evs') = traffic_of evs @ traffic_of evs'"
  "traffic_of (Traffic_event ev # evs) = ev # traffic_of evs"
  "traffic_of (Daemon_event dv # evs) = traffic_of evs"
  by (simp_all add: traffic_of_def map_filter_append)

lemma daemon_part:
  "system_trace w s0 evs s \<Longrightarrow>
   control_reach (w_fused w) (w_ops w) (w_cfg w) (w_glob w) (w_unpack w) (daemon s0) (daemon s)"
proof (induction rule: system_trace.induct)
  case (system_step evs s ev s')
  then show ?case by (cases ev) (auto simp: daemon_step_def intro: reach_event)
qed (rule reach_refl)

lemma traffic_part:
  "system_trace w s0 evs s \<Longrightarrow> \<forall>ev \<in> set evs. \<not> is_start ev \<Longrightarrow>
   traffic_trace LittleEndian (w_lookup w) (w_update w) (traffic s0) (traffic_of evs) (traffic s)"
proof (induction rule: system_trace.induct)
  case (system_step evs s ev s')
  then show ?case
    by (cases ev) (auto intro: trace_step split: if_splits)
qed (simp add: trace_init)

definition monitor_ok :: "('m \<Rightarrow> bool) \<Rightarrow> ('k, 'm) world \<Rightarrow> bool" where
  "monitor_ok ok w \<longleftrightarrow>
     bpf_hash (w_lookup w) (w_update w) ok src_dest_max_entries \<and>
     ok (w_new_map w) \<and> w_lookup w (w_new_map w) = (\<lambda>_. None)"

lemma system_scrapes:
  "system_trace w s0 evs s \<Longrightarrow> \<exists>new. scrapes (traffic s) = scrapes (traffic s0) @ new"
proof (induction rule: system_trace.induct)
  case (system_step evs s ev s')
  show ?case
  proof (cases ev)
    case (Traffic_event tv)
    with system_step show ?thesis by (cases tv) auto
  qed (use system_step in auto)
qed simp

lemma system_scrape_events:
  "system_trace w s0 evs s \<Longrightarrow> scrapes (traffic s0) = [] \<Longrightarrow> x \<in> set (scrapes (traffic s)) \<Longrightarrow>
   Traffic_event (Scrape (fst x) (snd x)) \<in> set evs"
proof (induction rule: system_trace.induct)
  case (system_step evs s ev s')
  show ?case
  proof (cases ev)
    case (Traffic_event tv)
    with system_step show ?thesis by (cases tv) auto
  qed (use system_step in \<open>auto split: if_splits\<close>)
qed simp

lemma system_monitor:
  assumes "system_trace w s0 evs s" and "monitor_ok ok w" and "ok (monitor (traffic s0))"
  shows "ok (monitor (traffic s))"
  using assms(1)
proof (induction rule: system_trace.induct)
  case (system_step evs s ev s')
  have hash: "bpf_hash (w_lookup w) (w_update w) ok src_dest_max_entries" "ok (w_new_map w)"
    using assms(2) by (simp_all add: monitor_ok_def)
  show ?case
    using system_step.hyps(3) system_step.IH hash(2) by (cases ev) (auto intro: observe_ok [OF hash(1)])
qed (rule assms(3))

lemma system_nonneg:
  "system_trace w s0 evs s \<Longrightarrow> nonneg_traffic (traffic s0) \<Longrightarrow> nonneg_traffic (traffic s)"
proof (induction rule: system_trace.induct)
  case (system_step evs s ev s')
  then show ?case
    by (cases ev) (auto intro: observe_nonneg simp: nonneg_traffic_def [of "_\<lparr>monitor := _, counters := _\<rparr>"]
        dest: nonneg_traffic_def [THEN iffD1])
qed

lemma started_traffic:
  assumes "system_trace w s0 evs s" and "monitor_ok ok w"
    and "begun_traffic (w_lookup w) ok (traffic s0)" and "evs = [] \<or> is_start (last evs)"
  shows "begun_traffic (w_lookup w) ok (traffic s)"
  using assms(1,4)
proof (cases rule: system_trace.cases)
  case (system_step evs s1 ev)
  then have "is_start ev" using assms(4) by simp
  then have "traffic s = (traffic s1)\<lparr>monitor := w_new_map w, counters := Map.empty\<rparr>"
    using system_step by (cases ev) auto
  then show ?thesis using assms(2) by (simp add: begun_traffic_def monitor_ok_def)
qed (use assms(3) in simp)

text \<open>A run of the process: the events from a start, or the beginning, to some point before the next.\<close>

definition one_run :: "system_event list \<Rightarrow> system_event list \<Rightarrow> bool" where
  "one_run evs run \<longleftrightarrow>
     (\<exists>pre post. evs = pre @ run @ post \<and> (pre = [] \<or> is_start (last pre)) \<and> (\<forall>ev \<in> set run. \<not> is_start ev))"

lemma run_traffic:
  assumes "system_trace w s0 evs s" and "monitor_ok ok w" and "begun_traffic (w_lookup w) ok (traffic s0)"
    and "one_run evs run"
  shows "\<exists>t1 t2 rest. begun_traffic (w_lookup w) ok t1 \<and>
    traffic_trace LittleEndian (w_lookup w) (w_update w) t1 (traffic_of run) t2 \<and>
    scrapes (traffic s) = scrapes t2 @ rest"
proof -
  obtain pre post where evs: "evs = pre @ run @ post" "pre = [] \<or> is_start (last pre)" "\<forall>ev \<in> set run. \<not> is_start ev"
    using assms(4) by (auto simp: one_run_def)
  from assms(1) obtain s1 s2 where s: "system_trace w s0 pre s1" "system_trace w s1 run s2" "system_trace w s2 post s"
    unfolding evs(1) system_trace_append by blast
  have "begun_traffic (w_lookup w) ok (traffic s1)"
    by (rule started_traffic [OF s(1) assms(2,3) evs(2)])
  moreover have "traffic_trace LittleEndian (w_lookup w) (w_update w) (traffic s1) (traffic_of run) (traffic s2)"
    by (rule traffic_part [OF s(2) evs(3)])
  ultimately show ?thesis using system_scrapes [OF s(3)] by blast
qed

section \<open>Too much traffic is throttled\<close>

text \<open>What the environment keeps to: the contracts of the kernel, of its hash maps and of Prometheus, and
  a DNS decoder that gives valid records.\<close>

definition world_ok ::
  "(string \<Rightarrow> metric) \<Rightarrow> (int \<Rightarrow> int \<Rightarrow> int \<Rightarrow> bool) \<Rightarrow> (int \<Rightarrow> int \<Rightarrow> (int \<times> rat) list \<Rightarrow> rat option) \<Rightarrow>
   ('k \<Rightarrow> tc_object list) \<Rightarrow> ('m \<Rightarrow> bool) \<Rightarrow> ('k, 'm) world \<Rightarrow> bool" where
  "world_ok labels_of inside rate attached ok w \<longleftrightarrow>
     prometheus labels_of inside rate (w_query w) (ActivityThresholdBytes (w_cfg w)) \<and> monitor_ok ok w \<and>
     tc_kernel (w_ops w) attached \<and> filters_accepted (w_ops w) \<and> deletes_accepted (w_ops w) attached \<and>
     (\<forall>s. \<forall>rr \<in> set (fst (w_unpack w s)). valid_rr rr)"

text \<open>A tick in which every call works: the database, the libraries and the compiler.\<close>

definition tick_works :: "config \<Rightarrow> policy list \<Rightarrow> int \<Rightarrow> tick_env \<Rightarrow> bool" where
  "tick_works cfg t now te \<longleftrightarrow>
     te_all_ok te \<and> env_ok (te_apply te) \<and> healthy cfg t (te_incs te) \<and> healthy cfg t (te_decs te) \<and>
     (\<forall>a \<in> set (te_answers te). a = (True, True, now))"

text \<open>In a window some run of the process has reported more bytes from a remote address to the client than
  the threshold allows; the packets of the run are few enough to be counted, and the address has, at
  the collections of the run, one name and the group.\<close>

definition run_exceeds :: "u8 list \<Rightarrow> string \<Rightarrow> int \<Rightarrow> int \<Rightarrow> int \<Rightarrow> system_event list \<Rightarrow> bool" where
  "run_exceeds client grp thr v tm run \<longleftrightarrow>
     (\<exists>remote nm. length remote = 4 \<and> plain nm \<and> (\<forall>ev \<in> set (traffic_of run). named remote nm grp ev) \<and>
        few_pairs (seen (ledger_of (traffic_of run))) \<and>
        wire_sum LittleEndian (seen (ledger_of (traffic_of run))) (flow_key client remote) < 2 ^ 53 \<and>
        rises (reported (ledger_of (traffic_of run))) (flow_key client remote) v tm (thr * 60 * v))"

definition overuses :: "config \<Rightarrow> u8 list \<Rightarrow> string \<Rightarrow> int \<times> int \<times> int \<Rightarrow> system_event list \<Rightarrow> bool" where
  "overuses cfg client grp qs evs \<longleftrightarrow>
     length client = 4 \<and> plain grp \<and> grp \<noteq> [] \<and>
     (case qs of (now1, now2, now3) \<Rightarrow>
        \<forall>(v, tm) \<in> {(2, now1), (2, now2 - 5 * time_Minute), (5, now3)}.
          \<exists>run. one_run evs run \<and> run_exceeds client grp (ActivityThresholdBytes cfg) v tm run)"

lemma overuse_is_active:
  assumes "prometheus labels_of inside rate (w_query w) (ActivityThresholdBytes (w_cfg w))" and "monitor_ok ok w"
    and "fresh_traffic (w_lookup w) ok (traffic s0)" and "system_trace w s0 evs s"
    and "overuses (w_cfg w) client grp (now1, now2, now3) evs"
  shows "(ip_string client, grp) \<in> getActiveGlobGroups (w_query w (scrapes (traffic s))) (w_cfg w) (now1, now2, now3)"
proof -
  let ?thr = "ActivityThresholdBytes (w_cfg w)"
  have over: "length client = 4" "plain grp" "grp \<noteq> []"
    "\<forall>(v, tm) \<in> {(2, now1), (2, now2 - 5 * time_Minute), (5, now3)}. \<exists>run. one_run evs run \<and> run_exceeds client grp ?thr v tm run"
    using assms(5) unfolding overuses_def prod.case by blast+
  have begun: "begun_traffic (w_lookup w) ok (traffic s0)" using assms(3) by (simp add: fresh_traffic_def)
  have nonneg: "nonneg_scrapes (scrapes (traffic s))"
    using system_nonneg [OF assms(4) fresh_nonneg [OF assms(3)]] by (simp add: nonneg_traffic_def)
  have hash: "bpf_hash (w_lookup w) (w_update w) ok src_dest_max_entries" using assms(2) by (simp add: monitor_ok_def)
  have "\<exists>x. usage_of labels_of inside rate (scrapes (traffic s)) v tm (ip_string client, grp) = Some x \<and> of_int ?thr < x"
    if run: "0 < v" "one_run evs run" "run_exceeds client grp ?thr v tm run" for v tm :: int and run
  proof -
    obtain t1 t2 rest where t: "begun_traffic (w_lookup w) ok t1"
      "traffic_trace LittleEndian (w_lookup w) (w_update w) t1 (traffic_of run) t2" "scrapes (traffic s) = scrapes t2 @ rest"
      using run_traffic [OF assms(4,2) begun run(2)] by blast
    obtain remote nm where remote: "length remote = 4" "plain nm" "\<forall>ev \<in> set (traffic_of run). named remote nm grp ev"
      "few_pairs (seen (ledger_of (traffic_of run)))"
      "wire_sum LittleEndian (seen (ledger_of (traffic_of run))) (flow_key client remote) < 2 ^ 53"
      "rises (reported (ledger_of (traffic_of run))) (flow_key client remote) v tm (?thr * 60 * v)"
      using run(3) unfolding run_exceeds_def by blast
    show ?thesis
      unfolding t(3)
      by (rule run_usage [OF assms(1) hash t(1) over(1) remote(1,2) over(2,3) t(2) remote(3-5) run(1) remote(6)
          nonneg [unfolded t(3)]])
  qed
  note usage = this
  show ?thesis
    unfolding prometheus.active_iff [OF assms(1) refl]
  proof (clarify)
    fix v tm :: int
    assume "(v, tm) \<in> {(2, now1), (2, now2 - 5 * time_Minute), (5, now3)}"
    moreover from this have "0 < v" by auto
    ultimately show "\<exists>x. usage_of labels_of inside rate (scrapes (traffic s)) v tm (ip_string client, grp) = Some x \<and> of_int ?thr < x"
      using over(4) usage by blast
  qed
qed

text \<open>C1: From the wire to the class of a packet, with one to eight classes. Let the system run with any
  events, restarts of the process included, such that in each of the three windows some run of the
  process has reported more bytes for a client from an address of a glob group than the threshold
  allows. Then the next tick in which every call works raises the pair of the client and the group
  by one level, if it is not at the strongest; and when the policies are for IPv4 addresses and name
  existing groups, the one throttler attached afterwards gives an IPv4 packet that the policy of this
  pair governs, and no other policy, 16 times the new level as its class.\<close>

theorem overuse_is_throttled:
  assumes "world_ok labels_of inside rate attached ok w" and "InterfaceByName (w_ops w) (LanInterface (w_cfg w)) = Some lan"
    and "1 \<le> NumQdiscClasses (w_cfg w)" and "NumQdiscClasses (w_cfg w) \<le> 8"
    and "fresh_traffic (w_lookup w) ok (traffic s0)" and "tables_ok (w_cfg w) (daemon s0)"
    and "system_trace w s0 evs s"
    and "overuses (w_cfg w) client grp (te_times te) evs"
    and "system_possible w (Daemon_event (Tick te)) s"
    and "system_happen w (Daemon_event (Tick te)) s = Some s'"
    and "t = policy_table (daemon s)" and "t' = policy_table (daemon s')" and "k = (ip_string client, grp)"
    and "tick_works (w_cfg w) t now te" and "level t k \<le> NumQdiscClasses (w_cfg w)"
    and "addresses_ok t'" and "\<forall>p \<in> set t'. GlobGroup p \<in> Name ` set (glob_table (daemon s))"
    and "is_ipv4_frame LittleEndian skb"
    and "\<forall>p \<in> set t'. governs (w_glob w) now (glob_table (daemon s)) (dns_table (daemon s))
      (dst_bytes skb) (src_bytes skb) p \<longleftrightarrow> policy_key p = k"
  shows "alive (daemon s') \<and> level t' k = level t k + 1 \<and>
    (\<exists>rules. attached_throttlers attached lan (daemon s') = [Some (Prog_throttle rules)] \<and>
       final_class LittleEndian rules skb = word_of_int (16 * (level t k + 1)))"
proof -
  obtain now1 now2 now3 where times: "te_times te = (now1, now2, now3)" by (cases "te_times te") auto
  have world: "prometheus labels_of inside rate (w_query w) (ActivityThresholdBytes (w_cfg w))"
    "monitor_ok ok w" "tc_kernel (w_ops w) attached"
    "filters_accepted (w_ops w)" "deletes_accepted (w_ops w) attached"
    "\<forall>s. \<forall>rr \<in> set (fst (w_unpack w s)). valid_rr rr"
    using assms(1) unfolding world_ok_def by blast+
  have query: "te_query te = w_query w (scrapes (traffic s))"
    and possible: "possible (w_cfg w) (w_unpack w) (daemon s) (Tick te)"
    using assms(9) by (simp_all only: system_possible.simps control_event.case)
  have tables: "tables_ok (w_cfg w) (daemon s)"
    by (rule tables_ok_reach [OF daemon_part [OF assms(7)] assms(6) world(6)])
  have active: "k \<in> getActiveGlobGroups (te_query te) (w_cfg w) (te_times te)"
    unfolding query times assms(13)
    by (rule overuse_is_active [OF world(1,2) assms(5,7) assms(8) [unfolded times]])
  have alive: "alive (daemon s)" using possible by simp
  have s': "daemon s' = happen (w_fused w) (w_ops w) (w_cfg w) (w_glob w) (w_unpack w) (Tick te) (daemon s)"
    using assms(10) by (auto simp: daemon_step_def)
  have works: "env_ok (te_apply te)" "te_all_ok te" "healthy (w_cfg w) (policy_table (daemon s)) (te_incs te)"
    "healthy (w_cfg w) (policy_table (daemon s)) (te_decs te)" "\<forall>a \<in> set (te_answers te). a = (True, True, now)"
    using assms(14) unfolding tick_works_def assms(11) by blast+
  note rest = assms(15-19) [unfolded assms(11,12)]
  show ?thesis
    unfolding assms(11,12)
    by (rule active_client_is_throttled [OF world(3-5) assms(2) works(1,2) tables alive possible assms(3,4)
        works(3,4) active rest(1) s' rest(2,3) works(5) rest(4,5)])
qed

section \<open>A client without traffic is left alone\<close>

lemma inactive_not_raised:
  assumes "table_ok cfg t" and "distinct (map fst incs)" and "distinct (map fst decs)" and "k \<notin> set (map fst incs)"
  shows "level (snd (check_policy cfg incs decs t)) k \<le> level t k"
proof -
  note map = check_policy_map(2) [OF table_ok_keys [OF assms(1)] assms(2,3), of cfg]
  have "map_of incs k = None" using assms(4) by (simp add: map_of_eq_None_iff)
  then have raised: "loop_result (raise_op cfg) incs t k = policy_map t k" by (simp add: loop_result_def)
  have lowered: "row_level (loop_result (lower_op cfg) decs t k) \<le> row_level (policy_map t k)"
  proof (cases "policy_map t k")
    case (Some p)
    then have "1 \<le> Class p div 10" using table_ok_class [OF assms(1) Some] class_ok_level(2) by blast
    with Some show ?thesis
      by (auto simp: loop_result_def lower_op_def row_level_def policy_row_def split: option.splits)
  qed (auto simp: loop_result_def lower_op_def row_level_def split: option.splits)
  show ?thesis
    unfolding level_def map using raised lowered by simp
qed

lemma system_unchanged:
  assumes "prometheus labels_of inside rate (w_query w) thr" and "monitor_ok ok w"
    and "length client = 4" and "\<forall>remote. plain (fst (names remote)) \<and> plain (snd (names remote))"
    and "system_trace w s1 evs s" and "ok (monitor (traffic s1))" and "synced (w_lookup w) names client (traffic s1)"
    and "\<forall>ev \<in> set (traffic_of evs). steady names ev \<and> silent client ev"
  shows "unchanged (w_lookup w) labels_of client (traffic s1) (traffic s)"
  using assms(5,8)
proof (induction rule: system_trace.induct)
  case (system_step evs s ev s')
  have IH: "unchanged (w_lookup w) labels_of client (traffic s1) (traffic s)" using system_step by simp
  have hash: "bpf_hash (w_lookup w) (w_update w) ok src_dest_max_entries" "w_lookup w (w_new_map w) = (\<lambda>_. None)"
    using assms(2) by (simp_all add: monitor_ok_def)
  show ?case
  proof (cases ev)
    case (Daemon_event dv)
    then show ?thesis using system_step.hyps(3) IH unchanged_restart [OF IH hash(2)] by auto
  next
    case (Traffic_event tv)
    have "ok (monitor (traffic s))" by (rule system_monitor [OF system_step.hyps(1) assms(2,6)])
    moreover have "steady names tv" "silent client tv" using system_step.prems Traffic_event by simp_all
    moreover have "observable (w_lookup w) tv (traffic s)"
      "observe LittleEndian (w_lookup w) (w_update w) tv (traffic s) = Some (traffic s')"
      using system_step.hyps(2,3) Traffic_event by auto
    ultimately show ?thesis
      by (intro prometheus.unchanged_observe [OF assms(1) hash(1) _ assms(3,4,7) IH])
  qed
qed (rule unchanged_refl)

text \<open>Since a collection after which every address keeps its name and nothing arrives for a client: the
  client's counters stand still, and what was scraped before is among the earlier events.\<close>

lemma silent_since:
  assumes "prometheus labels_of inside rate (w_query w) thr" and "monitor_ok ok w"
    and "fresh_traffic (w_lookup w) ok (traffic s0)" and "length client = 4"
    and "system_trace w s0 (evs @ Traffic_event (Collect c) # evs') s"
    and "\<forall>ev \<in> set (traffic_of (Traffic_event (Collect c) # evs')). steady names ev \<and> silent client ev"
    and "\<forall>remote. plain (fst (names remote)) \<and> plain (snd (names remote))"
  shows "\<exists>t1. unchanged (w_lookup w) labels_of client t1 (traffic s) \<and>
    (\<forall>x \<in> set (scrapes t1). Traffic_event (Scrape (fst x) (snd x)) \<in> set evs)"
proof -
  have "system_trace w s0 ((evs @ [Traffic_event (Collect c)]) @ evs') s" using assms(5) by simp
  then obtain sa sb where "system_trace w s0 evs sa" "system_trace w sa [Traffic_event (Collect c)] sb"
    and rest: "system_trace w sb evs' s" unfolding system_trace_append by blast
  then have tr: "system_trace w s0 evs sa" "system_possible w (Traffic_event (Collect c)) sa"
    "system_happen w (Traffic_event (Collect c)) sa = Some sb"
    using system_trace_snoc [of w sa "[]"] by (auto simp: system_trace_Nil)
  have col: "observable (w_lookup w) (Collect c) (traffic sa)"
    "observe LittleEndian (w_lookup w) (w_update w) (Collect c) (traffic sa) = Some (traffic sb)"
    using tr(2,3) by auto
  have fresh: "ok (monitor (traffic s0))" "scrapes (traffic s0) = []"
    using assms(3) by (simp_all add: fresh_traffic_def begun_traffic_def)
  have "system_trace w s0 (evs @ [Traffic_event (Collect c)]) sb" by (rule system_step [OF tr])
  then have "ok (monitor (traffic sb))" by (rule system_monitor [OF _ assms(2) fresh(1)])
  then have "unchanged (w_lookup w) labels_of client (traffic sb) (traffic s)"
    using assms(6) collect_synced [OF assms(4) _ col, of names]
    by (intro system_unchanged [OF assms(1,2,4,7) rest]) simp_all
  moreover have "Traffic_event (Scrape (fst x) (snd x)) \<in> set evs" if "x \<in> set (scrapes (traffic sb))" for x
    using system_scrape_events [OF tr(1) fresh(2)] collect_scrapes [OF col(2)] that by simp
  ultimately show ?thesis by blast
qed

text \<open>C21: Let the system run, with any restarts of the process, and take a collection from which on every
  address keeps a name and a group that need no escapes, and no packet for a client arrives. Once
  the scrapes before it have left the window of two minutes, no tick, whatever fails in it, raises
  the level of a pair of the client, when the threshold is not negative.\<close>

theorem silent_client_not_raised:
  assumes "prometheus labels_of inside rate (w_query w) (ActivityThresholdBytes (w_cfg w))" and "monitor_ok ok w"
    and "\<forall>s. \<forall>rr \<in> set (fst (w_unpack w s)). valid_rr rr" and "0 \<le> ActivityThresholdBytes (w_cfg w)"
    and "fresh_traffic (w_lookup w) ok (traffic s0)" and "tables_ok (w_cfg w) (daemon s0)" and "length client = 4"
    and "system_trace w s0 (evs @ Traffic_event (Collect c) # evs') s"
    and "\<forall>ev \<in> set (traffic_of (Traffic_event (Collect c) # evs')). steady names ev \<and> silent client ev"
    and "\<forall>remote. plain (fst (names remote)) \<and> plain (snd (names remote))"
    and "\<forall>t page. Traffic_event (Scrape t page) \<in> set evs \<longrightarrow> t < fst (te_times te) - 2 * time_Minute"
    and "system_possible w (Daemon_event (Tick te)) s"
    and "system_happen w (Daemon_event (Tick te)) s = Some s'"
  shows "level (policy_table (daemon s')) (ip_string client, grp) \<le> level (policy_table (daemon s)) (ip_string client, grp)"
proof -
  obtain now1 now2 now3 where times: "te_times te = (now1, now2, now3)" by (cases "te_times te") auto
  have query: "te_query te = w_query w (scrapes (traffic s))"
    and possible: "possible (w_cfg w) (w_unpack w) (daemon s) (Tick te)"
    using assms(12) by (simp_all only: system_possible.simps control_event.case)
  obtain t1 where t1: "unchanged (w_lookup w) labels_of client t1 (traffic s)"
    "\<forall>x \<in> set (scrapes t1). Traffic_event (Scrape (fst x) (snd x)) \<in> set evs"
    using silent_since [OF assms(1,2,5,7-10)] by blast
  have "\<forall>x \<in> set (scrapes t1). fst x < now1 - 2 * time_Minute"
    using t1(2) assms(11) by (simp only: times fst_conv) blast
  then have inactive: "(ip_string client, grp) \<notin> getActiveGlobGroups (te_query te) (w_cfg w) (te_times te)"
    unfolding query times by (rule prometheus.silent_inactive [OF assms(1) refl assms(4) t1(1)])
  have "tables_ok (w_cfg w) (daemon s)"
    by (rule tables_ok_reach [OF daemon_part [OF assms(8)] assms(6,3)])
  moreover have "policy_table (daemon s') = snd (check_policy (w_cfg w) (te_incs te) (te_decs te) (policy_table (daemon s)))"
    using assms(13) by (auto simp: daemon_step_def)
  ultimately show ?thesis
    using inactive possible by (auto simp: enumerates_def tables_ok_def intro!: inactive_not_raised)
qed

section \<open>A client without traffic recovers\<close>

text \<open>In the last five minutes a counter of the client and an address of the glob group has been scraped
  at least twice.\<close>

definition scraped_twice :: "(u8 list \<Rightarrow> string \<times> string) \<Rightarrow> u8 list \<Rightarrow> string \<Rightarrow> int \<Rightarrow> scrape list \<Rightarrow> bool" where
  "scraped_twice names client grp now H \<longleftrightarrow>
     (\<exists>remote. length remote = 4 \<and> snd (names remote) = grp \<and>
        2 \<le> length (samples H (\<lambda>t. now - 5 * time_Minute < t \<and> t \<le> now)
          (series_of client remote (fst (names remote)) grp)))"

text \<open>C32: The way back, from the wire to the class of a packet. Let the system run, with any restarts of the
  process, and take a collection from which on every address keeps a name and a group that need no
  escapes, and no packet for a client arrives. Once the scrapes before it are older than five
  minutes, and a counter of the client and a glob group has been scraped twice since, a tick in
  which every call works and no active pair can be raised takes one level from the pair, if it has
  one, when the threshold is positive; and the one throttler attached afterwards gives a packet
  of the client's that only this policy governs 16 times the new level as its class, or leaves its
  class when the policy is gone. (At most eight classes; the policies name existing groups.)\<close>

theorem silent_client_recovers:
  assumes "world_ok labels_of inside rate attached ok w" and "InterfaceByName (w_ops w) (LanInterface (w_cfg w)) = Some lan"
    and "1 \<le> NumQdiscClasses (w_cfg w)" and "NumQdiscClasses (w_cfg w) \<le> 8" and "0 < ActivityThresholdBytes (w_cfg w)"
    and "fresh_traffic (w_lookup w) ok (traffic s0)" and "tables_ok (w_cfg w) (daemon s0)"
    and "length client = 4" and "grp \<noteq> []"
    and "system_trace w s0 (evs @ Traffic_event (Collect c) # evs') s"
    and "\<forall>ev \<in> set (traffic_of (Traffic_event (Collect c) # evs')). steady names ev \<and> silent client ev"
    and "\<forall>remote. plain (fst (names remote)) \<and> plain (snd (names remote))"
    and "\<forall>t page. Traffic_event (Scrape t page) \<in> set evs \<longrightarrow> t < te_now te - 5 * time_Minute"
    and "scraped_twice names client grp (te_now te) (scrapes (traffic s))"
    and "system_possible w (Daemon_event (Tick te)) s"
    and "system_happen w (Daemon_event (Tick te)) s = Some s'"
    and "t = policy_table (daemon s)" and "t' = policy_table (daemon s')" and "k = (ip_string client, grp)"
    and "tick_works (w_cfg w) t now te" and "0 < level t k"
    and "\<forall>k' \<in> getActiveGlobGroups (te_query te) (w_cfg w) (te_times te). NumQdiscClasses (w_cfg w) < level t k'"
    and "addresses_ok t'" and "\<forall>p \<in> set t'. GlobGroup p \<in> Name ` set (glob_table (daemon s))"
    and "is_ipv4_frame LittleEndian skb"
    and "\<forall>p \<in> set t'. governs (w_glob w) now (glob_table (daemon s)) (dns_table (daemon s))
      (dst_bytes skb) (src_bytes skb) p \<longleftrightarrow> policy_key p = k"
  shows "alive (daemon s') \<and> level t' k = level t k - 1 \<and>
    (\<exists>rules. attached_throttlers attached lan (daemon s') = [Some (Prog_throttle rules)] \<and>
       final_class LittleEndian rules skb =
         (if level t k = 1 then skb_tc_classid skb else word_of_int (16 * (level t k - 1))))"
proof -
  have world: "prometheus labels_of inside rate (w_query w) (ActivityThresholdBytes (w_cfg w))"
    "monitor_ok ok w" "tc_kernel (w_ops w) attached"
    "filters_accepted (w_ops w)" "deletes_accepted (w_ops w) attached"
    "\<forall>s. \<forall>rr \<in> set (fst (w_unpack w s)). valid_rr rr"
    using assms(1) unfolding world_ok_def by blast+
  have query: "te_query te = w_query w (scrapes (traffic s))"
    and possible: "possible (w_cfg w) (w_unpack w) (daemon s) (Tick te)"
    using assms(15) by (simp_all only: system_possible.simps control_event.case)
  obtain t1 where t1: "unchanged (w_lookup w) labels_of client t1 (traffic s)"
    "\<forall>x \<in> set (scrapes t1). Traffic_event (Scrape (fst x) (snd x)) \<in> set evs"
    using silent_since [OF world(1,2) assms(6,8,10-12)] by blast
  have old: "\<forall>x \<in> set (scrapes t1). fst x < te_now te - 5 * time_Minute" using t1(2) assms(13) by blast
  obtain remote where remote: "length remote = 4" "snd (names remote) = grp"
    "2 \<le> length (samples (scrapes (traffic s)) (\<lambda>t. te_now te - 5 * time_Minute < t \<and> t \<le> te_now te)
      (series_of client remote (fst (names remote)) grp))"
    using assms(14) unfolding scraped_twice_def by blast
  have "plain (fst (names remote))" "plain grp" using assms(12) remote(2) by auto
  from series_key_of [OF world(1) assms(8) remote(1) this]
  have quiet: "k \<in> createSrcGlobSet (GetSrcGlobUsage (te_query te) (te_now te) 5 0 (ActivityThresholdBytes (w_cfg w)) False)"
    unfolding query assms(19) by (rule prometheus.silent_quiet [OF world(1) refl assms(5) t1(1) old _ assms(9) remote(3)])
  have tables: "tables_ok (w_cfg w) (daemon s)"
    by (rule tables_ok_reach [OF daemon_part [OF assms(10)] assms(7) world(6)])
  have alive: "alive (daemon s)" using possible by simp
  have s': "daemon s' = happen (w_fused w) (w_ops w) (w_cfg w) (w_glob w) (w_unpack w) (Tick te) (daemon s)"
    using assms(16) by (auto simp: daemon_step_def)
  have works: "env_ok (te_apply te)" "te_all_ok te" "healthy (w_cfg w) (policy_table (daemon s)) (te_incs te)"
    "healthy (w_cfg w) (policy_table (daemon s)) (te_decs te)" "\<forall>a \<in> set (te_answers te). a = (True, True, now)"
    using assms(20) unfolding tick_works_def assms(17) by blast+
  note rest = assms(21-26) [unfolded assms(17,18)]
  show ?thesis
    unfolding assms(17,18)
    by (rule quiet_client_is_relieved [OF world(3-5) assms(2) works(1,2) tables alive possible assms(3,4)
        works(3,4) rest(2) quiet rest(1) s' rest(3,4) works(5) rest(5,6)])
qed

section \<open>Examples\<close>

text \<open>The rounds of theory \<open>Activity\<close> in runs of the system, on the reference kernel, map and Prometheus: two,
  after 4 and 5 minutes, the end of the process and a new start, and two more, after 9 and 10
  minutes, whose counters begin at zero again.\<close>

definition demo_world :: "(tc_object list, (u64 \<times> u64) list) world" where
  "demo_world = \<lparr>w_fused = False, w_ops = demo_ops, w_cfg = demo_cfg, w_glob = filepath_Match, w_unpack = demo_unpack,
     w_lookup = map_of, w_update = hash_update src_dest_max_entries, w_new_map = [], w_query = ref_query 1\<rparr>"

definition demo_daemon :: "tc_object list control" where
  "demo_daemon = (demo_control [])\<lparr>alive := True, glob_table := [demo_globs ! 2], dns_table := demo_dns ''www.tube.com.''\<rparr>"

definition demo_system :: "(u64 \<times> u64) list traffic_state \<Rightarrow> (tc_object list, (u64 \<times> u64) list) system" where
  "demo_system t = \<lparr>daemon = demo_daemon, traffic = t\<rparr>"

definition two_rounds :: "int \<Rightarrow> int \<Rightarrow> traffic_event list" where
  "two_rounds t t' = demo_round 1500 t @ demo_round 3000 t'"

definition two_scrapes :: "int \<Rightarrow> int \<Rightarrow> scrape list" where
  "two_scrapes t t' = [(t, [(demo_series, 1500)]), (t', [(demo_series, 3000)])]"

definition two_states :: "scrape list \<Rightarrow> (u64 \<times> u64) list traffic_state" where
  "two_states H = demo_state [(flow_key demo_client demo_remote, 3000)] [(demo_series, 3000)] H"

definition restart_events :: "system_event list" where
  "restart_events = map Traffic_event (two_rounds (4 * time_Minute) (5 * time_Minute)) @
     [Daemon_event Stop, Daemon_event (Start demo_start_env)] @
     map Traffic_event (two_rounds (9 * time_Minute) (10 * time_Minute))"

definition restart_scrapes :: "scrape list" where
  "restart_scrapes = two_scrapes (4 * time_Minute) (5 * time_Minute) @ two_scrapes (9 * time_Minute) (10 * time_Minute)"

text \<open>The system after these events, with the process that the second start has made.\<close>

definition restarted :: "tc_object list BpfContext \<Rightarrow> (tc_object list, (u64 \<times> u64) list) system" where
  "restarted d = \<lparr>daemon = demo_daemon\<lparr>process := d\<rparr>, traffic = two_states restart_scrapes\<rparr>"

definition demo_quarter :: tick_env where
  "demo_quarter = demo_tick_env\<lparr>te_query := ref_query 1 restart_scrapes,
     te_times := (10 * time_Minute, 10 * time_Minute, 10 * time_Minute), te_now := 10 * time_Minute\<rparr>"

text \<open>A run of the traffic alone is a run of the system when the collections see the daemon's tables.\<close>

lemma traffic_run_of_system:
  assumes "traffic_trace LittleEndian (w_lookup w) (w_update w) (traffic s0) evs t" and "alive (daemon s0)"
    and "\<forall>c. Collect c \<in> set evs \<longrightarrow> c_globs c = glob_table (daemon s0) \<and> c_dns c = dns_table (daemon s0)"
  shows "system_trace w s0 (map Traffic_event evs) (s0\<lparr>traffic := t\<rparr>)"
  using assms(1,3)
proof (induction rule: traffic_trace.induct)
  case (trace_step evs t ev t')
  have "system_possible w (Traffic_event ev) (s0\<lparr>traffic := t\<rparr>)"
    using trace_step.hyps(2) trace_step.prems assms(2) by (auto split: traffic_event.split)
  with trace_step show ?case by (auto intro: system_step)
qed (simp add: system_init)

lemma demo_minutes:
  "4 * time_Minute < 5 * time_Minute" "4 * time_Minute < 9 * time_Minute" "5 * time_Minute < 9 * time_Minute"
  "9 * time_Minute < 10 * time_Minute"
  by (simp_all add: time_Minute_def time_Second_def)

lemma two_rounds_trace:
  assumes "\<forall>x \<in> set H. fst x < t" and "t < t'"
  shows "traffic_trace LittleEndian map_of (hash_update src_dest_max_entries) (demo_state [] [] H) (two_rounds t t')
    (two_states (H @ two_scrapes t t'))"
proof -
  let ?k = "flow_key demo_client demo_remote"
  have float: "go_float64 1500 = 1500" "go_float64 3000 = 3000"
    using fl_of_int [of 1500] fl_of_int [of 3000] by (simp_all add: go_float64_def)
  have bump: "bump map_of (hash_update src_dest_max_entries) ?k 1500 [] = [(?k, 1500)]"
    "bump map_of (hash_update src_dest_max_entries) ?k 1500 [(?k, v)] = [(?k, v + 1500)]" for v
    by (simp_all add: bump_def hash_update_def src_dest_max_entries_def)
  have "traffic_trace LittleEndian map_of (hash_update src_dest_max_entries) (demo_state [] [] H) ([] @ demo_round 1500 t)
      (demo_state [(?k, 1500)] [(demo_series, go_float64 (uint (1500 :: u64)))]
        (H @ [(t, [(demo_series, go_float64 (uint (1500 :: u64)))])]))"
    by (rule demo_round [OF trace_init]) (use assms(1) in \<open>simp_all add: bump\<close>)
  from demo_round [OF this, of 3000 t'] assms show ?thesis
    by (force simp: bump two_rounds_def two_states_def two_scrapes_def float)
qed

lemma two_rounds_run:
  assumes "daemon s = demo_daemon\<lparr>process := d\<rparr>" and "traffic s = demo_state [] [] H"
    and "\<forall>x \<in> set H. fst x < t" and "t < t'"
  shows "system_trace demo_world s (map Traffic_event (two_rounds t t')) (s\<lparr>traffic := two_states (H @ two_scrapes t t')\<rparr>)"
  by (rule traffic_run_of_system)
    (use two_rounds_trace [OF assms(3,4)] in \<open>simp add: demo_world_def assms(2)\<close>,
     auto simp: demo_daemon_def assms(1) two_rounds_def demo_round_def demo_collect_def)

lemma demo_starts:
  "\<exists>d. daemon_step demo_world (Start demo_start_env) (demo_daemon\<lparr>alive := False\<rparr>) = demo_daemon\<lparr>process := d\<rparr>"
proof -
  let ?c = "demo_daemon\<lparr>alive := False\<rparr>"
  let ?d = "fresh_process (kernel (process ?c)) (temp_files (process ?c))"
  have "kernel ?d = old_filters" by (simp add: demo_daemon_def demo_control_def fresh_process_def)
  then obtain reqs where "createQdiscs False (nl_ok demo_ops (kernel ?d)) (InterfaceByName demo_ops) demo_cfg = Some (reqs, True)"
    using demo_qdiscs by auto
  from start_runs [OF demo_kernel(2,4,5,7) this] show ?thesis
    by (auto simp: daemon_step_def demo_world_def start_process_def demo_daemon_def demo_control_def)
qed

lemma restart_trace:
  "\<exists>d. system_trace demo_world (demo_system (demo_state [] [] [])) restart_events (restarted d)"
proof -
  let ?H = "two_scrapes (4 * time_Minute) (5 * time_Minute)"
  obtain d where d: "daemon_step demo_world (Start demo_start_env) (demo_daemon\<lparr>alive := False\<rparr>) = demo_daemon\<lparr>process := d\<rparr>"
    using demo_starts by blast
  have daemon: "demo_daemon = demo_daemon\<lparr>process := process demo_daemon\<rparr>" by simp
  have 1: "system_trace demo_world (demo_system (demo_state [] [] []))
      (map Traffic_event (two_rounds (4 * time_Minute) (5 * time_Minute))) (demo_system (two_states ?H))"
    using two_rounds_run [of "demo_system (demo_state [] [] [])" "process demo_daemon" "[]" "4 * time_Minute" "5 * time_Minute"]
      demo_minutes by (simp add: demo_system_def)
  have stop: "daemon_step demo_world Stop demo_daemon = demo_daemon\<lparr>alive := False\<rparr>" by (simp add: daemon_step_def)
  have alive: "alive demo_daemon" by (simp add: demo_daemon_def)
  have 2: "system_trace demo_world (demo_system (two_states ?H)) [Daemon_event Stop, Daemon_event (Start demo_start_env)]
      \<lparr>daemon = demo_daemon\<lparr>process := d\<rparr>, traffic = demo_state [] [] ?H\<rparr>"
    using system_trace_snoc [of demo_world "demo_system (two_states ?H)" "[]" "Daemon_event Stop"]
      system_trace_snoc [of demo_world "demo_system (two_states ?H)" "[Daemon_event Stop]" "Daemon_event (Start demo_start_env)"]
    by (simp add: system_trace_Nil demo_system_def stop d alive two_states_def demo_state_def)
      (simp add: demo_world_def)
  have "\<forall>x \<in> set ?H. fst x < 9 * time_Minute" using demo_minutes by (auto simp: two_scrapes_def)
  from two_rounds_run [OF _ _ this demo_minutes(4), of "\<lparr>daemon = demo_daemon\<lparr>process := d\<rparr>, traffic = demo_state [] [] ?H\<rparr>" d]
  have 3: "system_trace demo_world \<lparr>daemon = demo_daemon\<lparr>process := d\<rparr>, traffic = demo_state [] [] ?H\<rparr>
      (map Traffic_event (two_rounds (9 * time_Minute) (10 * time_Minute))) (restarted d)"
    by (simp add: restarted_def restart_scrapes_def)
  show ?thesis unfolding restart_events_def system_trace_append using 1 2 3 by blast
qed

lemma demo_world_ok: "world_ok ref_labels ref_inside ref_rate (\<lambda>fs. fs) (hash_ok src_dest_max_entries) demo_world"
  using demo_kernel demo_tables(3) hash_is_bpf_hash ref_prometheus.prometheus_axioms [of 1]
  by (simp add: world_ok_def monitor_ok_def demo_world_def demo_cfg_def hash_ok_def)

lemma demo_daemon_tables: "tables_ok demo_cfg demo_daemon"
proof -
  have "ip_string demo_remote = ''142.251.33.174''" by code_simp
  then show ?thesis
    by (auto simp: tables_ok_def demo_daemon_def demo_control_def table_ok_def keys_ok_def dns_ok_def demo_dns_def
        intro!: exI [of _ demo_remote] simp del: ip_string.simps)
qed

lemma traffic_of_map [simp]: "traffic_of (map Traffic_event evs) = evs"
  by (induction evs) simp_all

lemma two_rounds_exceed:
  assumes "tm - v * time_Minute < t" and "t' \<le> tm" and "60 * v < 1500"
  shows "run_exceeds demo_client ''video'' 1 v tm (map Traffic_event (two_rounds t t'))"
proof -
  let ?k = "flow_key demo_client demo_remote" and ?l = "ledger_of (two_rounds t t')"
  have ledger: "seen ?l = replicate 2 demo_packet"
    "reported ?l = [(t, replicate 1 demo_packet), (t', replicate 2 demo_packet)]"
    by (simp_all add: two_rounds_def demo_round_def demo_collect_def ledger_of_def numeral_eq_Suc)
  have "rises (reported ?l) ?k v tm (1 * 60 * v)"
    unfolding rises_def ledger(2)
    using assms demo_value [of 0] demo_bytes [of 1] demo_bytes [of 2]
    by (intro exI [of _ 1] exI [of _ 0] conjI) simp_all
  moreover have "\<forall>ev \<in> set (two_rounds t t'). named demo_remote ''www.tube.com.'' ''video'' ev"
    by (simp add: two_rounds_def demo_round_def demo_named)
  moreover have "few_pairs (seen ?l)" by (simp only: ledger(1) demo_few_pairs)
  moreover have "wire_sum LittleEndian (seen ?l) ?k < 2 ^ 53" unfolding ledger(1) demo_bytes by simp
  moreover have "length demo_remote = 4" by simp
  ultimately show ?thesis unfolding run_exceeds_def traffic_of_map using demo_plain(1) by blast
qed

lemma restart_overuses:
  "overuses demo_cfg demo_client ''video'' (10 * time_Minute, 10 * time_Minute, 10 * time_Minute) restart_events"
proof -
  let ?r1 = "map Traffic_event (two_rounds (4 * time_Minute) (5 * time_Minute))"
  let ?r2 = "map Traffic_event (two_rounds (9 * time_Minute) (10 * time_Minute))"
  have run: "one_run (pre @ map Traffic_event evs @ post) (map Traffic_event evs)"
    if "pre = [] \<or> is_start (last pre)" for pre evs post
    unfolding one_run_def using that by (intro exI conjI refl) auto
  have "one_run restart_events ?r1" "one_run restart_events ?r2"
    using run [of "[]" "two_rounds (4 * time_Minute) (5 * time_Minute)"]
      run [of "?r1 @ [Daemon_event Stop, Daemon_event (Start demo_start_env)]" "two_rounds (9 * time_Minute) (10 * time_Minute)" "[]"]
    by (simp_all add: restart_events_def)
  moreover have "run_exceeds demo_client ''video'' 1 2 (10 * time_Minute) ?r2"
    "run_exceeds demo_client ''video'' 1 2 (10 * time_Minute - 5 * time_Minute) ?r1"
    "run_exceeds demo_client ''video'' 1 5 (10 * time_Minute) ?r2"
    by (rule two_rounds_exceed; simp add: time_Minute_def time_Second_def)+
  ultimately show ?thesis
    using demo_plain by (auto simp: overuses_def demo_cfg_def)
qed

lemma demo_pair_only:
  "usage_of ref_labels ref_inside ref_rate restart_scrapes w tm k = Some x \<Longrightarrow> k = demo_pair"
proof -
  assume usage: "usage_of ref_labels ref_inside ref_rate restart_scrapes w tm k = Some x"
  have "set (all_series restart_scrapes) = {demo_series}"
    by (auto simp: set_all_series restart_scrapes_def two_scrapes_def)
  then have "k = series_key ref_labels demo_series" using usage_has_series [OF usage] by simp
  also have "\<dots> = (ip_string demo_client, ''video'')"
    unfolding demo_series_def
    by (rule series_key_of [OF ref_prometheus.prometheus_axioms]) (simp_all add: demo_plain)
  also have "ip_string demo_client = ''192.168.0.14''" by code_simp
  finally show "k = demo_pair" by (simp add: demo_pair_def)
qed

lemma demo_quarter_possible:
  "system_possible demo_world (Daemon_event (Tick demo_quarter))
     (restarted d)"
proof -
  let ?t = "10 * time_Minute"
  have thr: "ActivityThresholdBytes demo_cfg = 1" by (simp add: demo_cfg_def)
  have mem: "demo_pair \<in> getActiveGlobGroups (ref_query 1 restart_scrapes) demo_cfg (?t, ?t, ?t)"
  proof -
    obtain d where "system_trace demo_world (demo_system (demo_state [] [] [])) restart_events (restarted d)"
      using restart_trace by blast
    moreover have "prometheus ref_labels ref_inside ref_rate (w_query demo_world) (ActivityThresholdBytes (w_cfg demo_world))"
      "monitor_ok (hash_ok src_dest_max_entries) demo_world" using demo_world_ok unfolding world_ok_def by blast+
    moreover have "fresh_traffic (w_lookup demo_world) (hash_ok src_dest_max_entries) (traffic (demo_system (demo_state [] [] [])))"
      using demo_fresh by (simp add: demo_world_def demo_system_def)
    moreover have "overuses (w_cfg demo_world) demo_client ''video'' (?t, ?t, ?t) restart_events"
      using restart_overuses by (simp add: demo_world_def)
    ultimately have "(ip_string demo_client, ''video'') \<in>
        getActiveGlobGroups (w_query demo_world (scrapes (traffic (restarted d)))) (w_cfg demo_world) (?t, ?t, ?t)"
      by (intro overuse_is_active)
    moreover have "ip_string demo_client = ''192.168.0.14''" by code_simp
    ultimately show ?thesis
      by (simp add: demo_world_def restarted_def two_states_def demo_state_def demo_pair_def)
  qed
  then obtain x where x: "usage_of ref_labels ref_inside ref_rate restart_scrapes 5 ?t demo_pair = Some x" "1 < x"
    using ref_prometheus.active_iff [OF thr] by auto
  have "getActiveGlobGroups (ref_query 1 restart_scrapes) demo_cfg (?t, ?t, ?t) = {demo_pair}"
    using mem demo_pair_only ref_prometheus.active_iff [OF thr, of _ restart_scrapes ?t ?t ?t] by blast
  moreover have "createSrcGlobSet (GetSrcGlobUsage (ref_query 1 restart_scrapes) ?t 5 0 1 False) = {}"
    using x demo_pair_only ref_prometheus.usage_query [of 5 False 1 restart_scrapes ?t 0] by fastforce
  moreover have "check_policy demo_cfg [(demo_pair, demo_env)] [] [] = (True, demo_table 10)" by code_simp
  moreover have "0 < PolicyCheckInterval demo_cfg" by code_simp
  ultimately show ?thesis
    by (simp add: demo_world_def restarted_def two_states_def demo_daemon_def demo_quarter_def demo_tick_env_def demo_control_def
        demo_state_def enumerates_def thr demo_table_def)
qed

lemma demo_governs:
  "governs filepath_Match 1000 [demo_globs ! 2] (demo_dns ''www.tube.com.'') demo_client demo_remote
     (policy_row demo_pair c 1700000000)"
  "SrcIp (policy_row demo_pair c 1700000000) = ip_string demo_client" "Name (demo_globs ! 2) = ''video''"
proof -
  have client: "ip_string demo_client = ''192.168.0.14''" by code_simp
  then show src: "SrcIp (policy_row demo_pair c 1700000000) = ip_string demo_client"
    by (simp add: policy_row_def demo_pair_def)
  have "filepath_Match (Glob (demo_globs ! 2)) ''www.tube.com.''" by code_simp
  moreover show "Name (demo_globs ! 2) = ''video''" by code_simp
  ultimately show "governs filepath_Match 1000 [demo_globs ! 2] (demo_dns ''www.tube.com.'') demo_client demo_remote
     (policy_row demo_pair c 1700000000)"
    using src by (simp add: governs_def recent_row_def GetGlob_def policy_row_def demo_pair_def demo_dns_def
        dns_row_of_def del: ip_string.simps)
qed

text \<open>After the tick the packets of the client are in the class of level 1.\<close>

theorem overuse_is_throttled_witness:
  "\<exists>d s' rules. system_trace demo_world (demo_system (demo_state [] [] [])) restart_events (restarted d) \<and>
     system_happen demo_world (Daemon_event (Tick demo_quarter)) (restarted d) = Some s' \<and>
     attached_throttlers (\<lambda>fs. fs) 2 (daemon s') = [Some (Prog_throttle rules)] \<and>
     final_class LittleEndian rules demo_packet = 16"
proof -
  obtain d where trace: "system_trace demo_world (demo_system (demo_state [] [] [])) restart_events (restarted d)"
    using restart_trace by blast
  let ?s = "restarted d"
  obtain s' where s': "system_happen demo_world (Daemon_event (Tick demo_quarter)) ?s = Some s'" by simp
  have check: "check_policy demo_cfg [(demo_pair, demo_env)] [] [] = (True, demo_table 10)" by code_simp
  have t': "policy_table (daemon s') = demo_table 10"
    using s' check by (auto simp: daemon_step_def demo_world_def restarted_def demo_daemon_def demo_quarter_def
        demo_tick_env_def demo_control_def)
  have client: "ip_string demo_client = ''192.168.0.14''" by code_simp
  note gov = demo_governs(1) and src = demo_governs(2) and group = demo_governs(3)
  have healthy: "healthy demo_cfg [] [(demo_pair, demo_env)]" "healthy demo_cfg [] []" by code_simp+
  have world: "w_cfg demo_world = demo_cfg" "w_lookup demo_world = map_of" "w_ops demo_world = demo_ops"
    "w_glob demo_world = filepath_Match" by (simp_all add: demo_world_def)
  have "alive (daemon s') \<and> level (policy_table (daemon s')) demo_pair = level (policy_table (daemon ?s)) demo_pair + 1 \<and>
    (\<exists>rules. attached_throttlers (\<lambda>fs. fs) 2 (daemon s') = [Some (Prog_throttle rules)] \<and>
       final_class LittleEndian rules demo_packet = word_of_int (16 * (level (policy_table (daemon ?s)) demo_pair + 1)))"
  proof (rule overuse_is_throttled [OF demo_world_ok _ _ _ _ _ trace _ demo_quarter_possible s' refl refl])
    show "fresh_traffic (w_lookup demo_world) (hash_ok src_dest_max_entries) (traffic (demo_system (demo_state [] [] [])))"
      using demo_fresh by (simp add: world demo_system_def)
    show "tables_ok (w_cfg demo_world) (daemon (demo_system (demo_state [] [] [])))"
      using demo_daemon_tables by (simp add: world demo_system_def)
    show "overuses (w_cfg demo_world) demo_client ''video'' (te_times demo_quarter) restart_events"
      using restart_overuses by (simp add: world demo_quarter_def)
    show "demo_pair = (ip_string demo_client, ''video'')" by (simp only: client demo_pair_def)
    show "tick_works (w_cfg demo_world) (policy_table (daemon ?s)) 1000 demo_quarter"
      using healthy demo_kernel(6)
      by (simp add: tick_works_def world demo_quarter_def demo_tick_env_def restarted_def demo_daemon_def demo_control_def)
    show "addresses_ok (policy_table (daemon s'))"
      unfolding t' using src by (auto simp: addresses_ok_def demo_table_def intro!: exI [of _ demo_client] simp del: ip_string.simps)
    show "\<forall>p \<in> set (policy_table (daemon s')). GlobGroup p \<in> Name ` set (glob_table (daemon ?s))"
      unfolding t' using group(1) by (simp add: demo_table_def restarted_def demo_daemon_def policy_row_def demo_pair_def)
    show "\<forall>p \<in> set (policy_table (daemon s')). governs (w_glob demo_world) 1000 (glob_table (daemon ?s)) (dns_table (daemon ?s))
        (dst_bytes demo_packet) (src_bytes demo_packet) p \<longleftrightarrow> policy_key p = demo_pair"
      unfolding t' demo_packet_facts(5,6) world
      using gov by (simp add: demo_table_def restarted_def demo_daemon_def)
  qed (use demo_kernel(4) demo_packet_facts(1) in
    \<open>auto simp: world restarted_def demo_daemon_def demo_control_def demo_cfg_def baseConfig_def level_def row_level_def\<close>)
  moreover have "level (policy_table (daemon ?s)) demo_pair = 0"
    by (simp add: restarted_def demo_daemon_def demo_control_def level_def row_level_def)
  ultimately show ?thesis using trace s' by auto
qed

text \<open>The client received one packet, before the collection; the tick finds nothing active.\<close>

definition demo_idle_scrapes :: "scrape list" where
  "demo_idle_scrapes = [(4 * time_Minute, [(demo_series, 1500)])]"

definition demo_idle :: tick_env where
  "demo_idle = demo_tick_env\<lparr>te_query := ref_query 1 demo_idle_scrapes, te_incs := [],
     te_times := (7 * time_Minute, 7 * time_Minute, 7 * time_Minute), te_now := 7 * time_Minute\<rparr>"

definition demo_names :: "u8 list \<Rightarrow> string \<times> string" where
  "demo_names remote = (if remote = demo_remote then (''www.tube.com.'', ''video'') else ([], []))"

lemma demo_steady: "steady demo_names (demo_collect ''www.tube.com.'' v)"
proof -
  have none: "getMatchingGlobGroup True [] [demo_globs ! 2] = None" by code_simp
  have "named remote [] [] (demo_collect ''www.tube.com.'' v)" if remote: "length remote = 4" "remote \<noteq> demo_remote" for remote
  proof -
    have "ip_string remote \<noteq> ip_string demo_remote"
      using remote ip_string_inject [of remote demo_remote] by simp
    then have "GetDomainForIP True hd (ip_string remote) (demo_dns ''www.tube.com.'') = []"
      by (simp add: GetDomainForIP_def demo_dns_def dns_row_of_def del: ip_string.simps)
    then show ?thesis unfolding demo_collect_def named.simps by (simp add: none del: ip_string.simps)
  qed
  then show ?thesis by (auto simp: steady_def demo_names_def demo_named)
qed

lemma single_sample: "usage_of ref_labels ref_inside ref_rate demo_idle_scrapes w tm k = None"
proof -
  have "length (samples demo_idle_scrapes ins ser) \<le> 1" for ins ser
    by (simp add: samples_def demo_idle_scrapes_def split: option.split)
  then have "ref_rate w tm (samples demo_idle_scrapes ins ser) = None" for w tm ins ser
    by (simp add: ref_rate_def le_less_trans [of _ 1 2])
  then show ?thesis
    by (simp add: usage_of_def rated_series_def List.map_filter_def)
qed

theorem silent_client_not_raised_witness:
  "\<exists>s'. system_happen demo_world (Daemon_event (Tick demo_idle))
       \<lparr>daemon = demo_daemon\<lparr>policy_table := demo_table 30\<rparr>,
        traffic = demo_state [(flow_key demo_client demo_remote, 1500)] [(demo_series, 1500)] demo_idle_scrapes\<rparr> = Some s' \<and>
     level (policy_table (daemon s')) (''192.168.0.14'', ''video'') \<le> 3"
proof -
  let ?d = "demo_daemon\<lparr>policy_table := demo_table 30\<rparr>"
  let ?t = "demo_state [(flow_key demo_client demo_remote, 1500)] [(demo_series, 1500)] demo_idle_scrapes"
  let ?start = "\<lparr>daemon = ?d, traffic = demo_state [] [] []\<rparr>" and ?s = "\<lparr>daemon = ?d, traffic = ?t\<rparr>"
  have world: "w_cfg demo_world = demo_cfg" "w_lookup demo_world = map_of" "w_query demo_world = ref_query 1"
    "w_update demo_world = hash_update src_dest_max_entries" "w_unpack demo_world = demo_unpack" by (simp_all add: demo_world_def)
  have thr: "ActivityThresholdBytes demo_cfg = 1" by (simp add: demo_cfg_def)
  obtain c where c: "demo_collect ''www.tube.com.'' 1500 = Collect c"
    "c_globs c = [demo_globs ! 2]" "c_dns c = demo_dns ''www.tube.com.''" by (simp add: demo_collect_def)
  let ?evs = "[Packet demo_packet, Collect c, Scrape (4 * time_Minute) [(demo_series, 1500)]]"
  have bump: "bump map_of (hash_update src_dest_max_entries) (flow_key demo_client demo_remote) 1500 [] =
      [(flow_key demo_client demo_remote, 1500 :: u64)]"
    by (simp add: bump_def hash_update_def src_dest_max_entries_def)
  have float: "go_float64 1500 = 1500" using fl_of_int [of 1500] by (simp add: go_float64_def)
  have "traffic_trace LittleEndian map_of (hash_update src_dest_max_entries) (demo_state [] [] []) ([] @ demo_round 1500 (4 * time_Minute))
      (demo_state [(flow_key demo_client demo_remote, 1500)] [(demo_series, go_float64 (uint (1500 :: u64)))]
        ([] @ [(4 * time_Minute, [(demo_series, go_float64 (uint (1500 :: u64)))])]))"
    by (rule demo_round [OF trace_init]) (simp_all add: bump)
  then have "traffic_trace LittleEndian (w_lookup demo_world) (w_update demo_world) (traffic ?start) ?evs ?t"
    by (simp add: world float demo_round_def c(1) demo_idle_scrapes_def)
  then have "system_trace demo_world ?start (map Traffic_event ?evs) (?start\<lparr>traffic := ?t\<rparr>)"
    by (rule traffic_run_of_system) (auto simp: demo_daemon_def c)
  then have tr: "system_trace demo_world ?start
      ([Traffic_event (Packet demo_packet)] @ Traffic_event (Collect c) # [Traffic_event (Scrape (4 * time_Minute) [(demo_series, 1500)])]) ?s"
    by simp
  have steady: "steady demo_names (Collect c)" using demo_steady [of 1500] by (simp add: c(1))
  have "getActiveGlobGroups (ref_query 1 demo_idle_scrapes) demo_cfg (7 * time_Minute, 7 * time_Minute, 7 * time_Minute) = {}"
    using ref_prometheus.active_iff [OF thr] by (auto simp: single_sample)
  moreover have "createSrcGlobSet (GetSrcGlobUsage (ref_query 1 demo_idle_scrapes) (7 * time_Minute) 5 0 1 False) = {}"
    using ref_prometheus.usage_query [of 5 False 1 demo_idle_scrapes "7 * time_Minute" 0] by (simp add: single_sample)
  moreover have "check_policy demo_cfg [] [] (demo_table 30) = (False, demo_table 30)" by code_simp
  moreover have "0 < PolicyCheckInterval demo_cfg" by code_simp
  ultimately have possible: "system_possible demo_world (Daemon_event (Tick demo_idle)) ?s"
    by (simp add: demo_world_def demo_daemon_def demo_idle_def demo_tick_env_def demo_control_def
        demo_state_def enumerates_def thr demo_table_def)
  obtain s' where s': "system_happen demo_world (Daemon_event (Tick demo_idle)) ?s = Some s'" by simp
  have "level (policy_table (daemon s')) (ip_string demo_client, ''video'') \<le> level (policy_table (daemon ?s)) (ip_string demo_client, ''video'')"
  proof (rule silent_client_not_raised [OF _ _ _ _ _ _ _ tr _ _ _ possible s', where names = demo_names])
    show "prometheus ref_labels ref_inside ref_rate (w_query demo_world) (ActivityThresholdBytes (w_cfg demo_world))"
      using ref_prometheus.prometheus_axioms [of 1] by (simp add: world thr)
    show "monitor_ok (hash_ok src_dest_max_entries) demo_world" using demo_world_ok unfolding world_ok_def by blast
    show "fresh_traffic (w_lookup demo_world) (hash_ok src_dest_max_entries) (traffic ?start)" using demo_fresh by (simp add: world)
    have "table_ok demo_cfg (demo_table 30)" by code_simp
    then show "tables_ok (w_cfg demo_world) (daemon ?start)" using demo_daemon_tables by (simp add: tables_ok_def world)
    show "\<forall>ev \<in> set (traffic_of (Traffic_event (Collect c) # [Traffic_event (Scrape (4 * time_Minute) [(demo_series, 1500)])])).
        steady demo_names ev \<and> silent demo_client ev"
      using steady by (simp add: steady_def)
    show "\<forall>remote. plain (fst (demo_names remote)) \<and> plain (snd (demo_names remote))"
      by (simp add: demo_names_def plain_def)
    show "\<forall>s. \<forall>rr \<in> set (fst (w_unpack demo_world s)). valid_rr rr" using demo_tables(3) by (simp only: world)
  qed (simp_all add: world thr)
  moreover have "ip_string demo_client = ''192.168.0.14''" by code_simp
  moreover have "level (demo_table 30) (''192.168.0.14'', ''video'') = 3" by code_simp
  ultimately show ?thesis using s' by auto
qed

text \<open>The client received one packet, before the collection, and has a policy of class 30; the counter of
  the packet was scraped twice since. The tick takes one level, and the client's packets are in the
  class of level 2.\<close>

definition demo_relief_scrapes :: "scrape list" where
  "demo_relief_scrapes = [(4 * time_Minute, [(demo_series, 1500)]), (5 * time_Minute, [(demo_series, 1500)])]"

definition demo_relief :: tick_env where
  "demo_relief = demo_tick_env\<lparr>te_query := ref_query 1 demo_relief_scrapes, te_incs := [], te_decs := [(demo_pair, demo_env)],
     te_times := (7 * time_Minute, 7 * time_Minute, 7 * time_Minute), te_now := 7 * time_Minute\<rparr>"

definition demo_relieved :: "(tc_object list, (u64 \<times> u64) list) system" where
  "demo_relieved = \<lparr>daemon = demo_daemon\<lparr>policy_table := demo_table 30\<rparr>,
     traffic = demo_state [(flow_key demo_client demo_remote, 1500)] [(demo_series, 1500)] demo_relief_scrapes\<rparr>"

lemma demo_relief_samples:
  "samples demo_relief_scrapes ins demo_series =
     map (\<lambda>t. (t, 1500)) (filter ins [4 * time_Minute, 5 * time_Minute])"
  "ser \<noteq> demo_series \<Longrightarrow> samples demo_relief_scrapes ins ser = []"
  by (simp_all add: samples_def demo_relief_scrapes_def List.map_filter_simps)

lemma demo_relief_usage:
  "usage_of ref_labels ref_inside ref_rate demo_relief_scrapes 5 (7 * time_Minute) demo_pair = Some 0"
  "usage_of ref_labels ref_inside ref_rate demo_relief_scrapes w tm k = Some x \<Longrightarrow> k = demo_pair"
  "usage_of ref_labels ref_inside ref_rate demo_relief_scrapes 2 (7 * time_Minute) k = None"
proof -
  have all: "all_series demo_relief_scrapes = [demo_series]"
    by (simp add: all_series_def demo_relief_scrapes_def)
  have "series_key ref_labels demo_series = (ip_string demo_client, ''video'')"
    unfolding demo_series_def
    by (rule series_key_of [OF ref_prometheus.prometheus_axioms]) (simp_all add: demo_plain)
  also have "ip_string demo_client = ''192.168.0.14''" by code_simp
  finally have key: "series_key ref_labels demo_series = demo_pair" by (simp add: demo_pair_def)
  have rated: "rated_series ref_labels ref_inside ref_rate demo_relief_scrapes w tm k =
      (if demo_pair = k then List.map_filter (\<lambda>s. ref_rate w tm (samples demo_relief_scrapes (ref_inside w tm) s)) [demo_series] else [])"
    for w tm k by (simp add: rated_series_def all key List.map_filter_def)
  show "usage_of ref_labels ref_inside ref_rate demo_relief_scrapes w tm k = Some x \<Longrightarrow> k = demo_pair"
    by (auto simp: usage_of_def Let_def rated split: if_splits)
  have "samples demo_relief_scrapes (ref_inside 5 (7 * time_Minute)) demo_series = [(4 * time_Minute, 1500), (5 * time_Minute, 1500)]"
    "samples demo_relief_scrapes (ref_inside 2 (7 * time_Minute)) demo_series = []"
    by (simp_all add: demo_relief_samples ref_inside_def time_Minute_def time_Second_def)
  then show "usage_of ref_labels ref_inside ref_rate demo_relief_scrapes 5 (7 * time_Minute) demo_pair = Some 0"
    and "usage_of ref_labels ref_inside ref_rate demo_relief_scrapes 2 (7 * time_Minute) k = None"
    by (simp_all add: usage_of_def rated ref_rate_def List.map_filter_def) (simp add: demo_pair_def)
qed

lemma demo_relief_possible: "system_possible demo_world (Daemon_event (Tick demo_relief)) demo_relieved"
proof -
  have thr: "ActivityThresholdBytes demo_cfg = 1" by (simp add: demo_cfg_def)
  have "getActiveGlobGroups (ref_query 1 demo_relief_scrapes) demo_cfg (7 * time_Minute, 7 * time_Minute, 7 * time_Minute) = {}"
    using ref_prometheus.active_iff [OF thr] by (auto simp: demo_relief_usage(3))
  moreover have "createSrcGlobSet (GetSrcGlobUsage (ref_query 1 demo_relief_scrapes) (7 * time_Minute) 5 0 1 False) = {demo_pair}"
    using ref_prometheus.usage_query [of 5 False 1 demo_relief_scrapes "7 * time_Minute" 0] demo_relief_usage(1,2) by fastforce
  moreover have "check_policy demo_cfg [] [(demo_pair, demo_env)] (demo_table 30) = (True, demo_table 20)" by code_simp
  moreover have "0 < PolicyCheckInterval demo_cfg" by code_simp
  ultimately show ?thesis
    by (simp add: demo_world_def demo_daemon_def demo_relief_def demo_tick_env_def demo_control_def demo_relieved_def
        demo_state_def enumerates_def thr demo_table_def)
qed

lemma demo_relief_trace:
  obtains c where "system_trace demo_world (demo_relieved\<lparr>traffic := demo_state [] [] []\<rparr>)
      ([Traffic_event (Packet demo_packet)] @ Traffic_event (Collect c) #
        [Traffic_event (Scrape (4 * time_Minute) [(demo_series, 1500)]), Traffic_event (Scrape (5 * time_Minute) [(demo_series, 1500)])])
      demo_relieved"
    and "steady demo_names (Collect c)"
proof -
  let ?start = "demo_relieved\<lparr>traffic := demo_state [] [] []\<rparr>"
  let ?T = "traffic_trace LittleEndian map_of (hash_update src_dest_max_entries) (demo_state [] [] [])"
  obtain c where c: "demo_collect ''www.tube.com.'' 1500 = Collect c"
    "c_globs c = [demo_globs ! 2]" "c_dns c = demo_dns ''www.tube.com.''" by (simp add: demo_collect_def)
  have bump: "bump map_of (hash_update src_dest_max_entries) (flow_key demo_client demo_remote) 1500 [] =
      [(flow_key demo_client demo_remote, 1500 :: u64)]"
    by (simp add: bump_def hash_update_def src_dest_max_entries_def)
  have float: "go_float64 1500 = 1500" using fl_of_int [of 1500] by (simp add: go_float64_def)
  have "?T ([] @ demo_round 1500 (4 * time_Minute))
      (demo_state [(flow_key demo_client demo_remote, 1500)] [(demo_series, go_float64 (uint (1500 :: u64)))]
        ([] @ [(4 * time_Minute, [(demo_series, go_float64 (uint (1500 :: u64)))])]))"
    by (rule demo_round [OF trace_init]) (simp_all add: bump)
  then have "?T (demo_round 1500 (4 * time_Minute)) (demo_state [(flow_key demo_client demo_remote, 1500)]
      [(demo_series, 1500)] [(4 * time_Minute, [(demo_series, 1500)])])" by (simp add: float)
  from trace_step [OF this, of "Scrape (5 * time_Minute) [(demo_series, 1500)]"] demo_minutes
  have "?T (demo_round 1500 (4 * time_Minute) @ [Scrape (5 * time_Minute) [(demo_series, 1500)]]) (traffic demo_relieved)"
    by (simp add: demo_state_def demo_relieved_def demo_relief_scrapes_def)
  then have "system_trace demo_world ?start
      (map Traffic_event (demo_round 1500 (4 * time_Minute) @ [Scrape (5 * time_Minute) [(demo_series, 1500)]]))
      (?start\<lparr>traffic := traffic demo_relieved\<rparr>)"
    by (intro traffic_run_of_system) (auto simp: demo_world_def demo_relieved_def demo_daemon_def demo_round_def c)
  then show ?thesis
    using demo_steady [of 1500] by (intro that [of c]) (simp_all add: demo_round_def c(1) float)
qed

theorem silent_client_recovers_witness:
  "\<exists>s' rules. system_happen demo_world (Daemon_event (Tick demo_relief)) demo_relieved = Some s' \<and>
     level (policy_table (daemon s')) demo_pair = 2 \<and>
     attached_throttlers (\<lambda>fs. fs) 2 (daemon s') = [Some (Prog_throttle rules)] \<and>
     final_class LittleEndian rules demo_packet = 32"
proof -
  let ?s = demo_relieved and ?start = "demo_relieved\<lparr>traffic := demo_state [] [] []\<rparr>"
  obtain c where tr: "system_trace demo_world ?start
      ([Traffic_event (Packet demo_packet)] @ Traffic_event (Collect c) #
        [Traffic_event (Scrape (4 * time_Minute) [(demo_series, 1500)]), Traffic_event (Scrape (5 * time_Minute) [(demo_series, 1500)])])
      ?s" and steady: "steady demo_names (Collect c)" by (rule demo_relief_trace)
  obtain s' where s': "system_happen demo_world (Daemon_event (Tick demo_relief)) ?s = Some s'" by simp
  have check: "check_policy demo_cfg [] [(demo_pair, demo_env)] (demo_table 30) = (True, demo_table 20)" by code_simp
  have t': "policy_table (daemon s') = demo_table 20"
    using s' check by (auto simp: daemon_step_def demo_world_def demo_relieved_def demo_daemon_def demo_relief_def
        demo_tick_env_def demo_control_def)
  have world: "w_cfg demo_world = demo_cfg" "w_lookup demo_world = map_of" "w_ops demo_world = demo_ops"
    "w_glob demo_world = filepath_Match" "w_query demo_world = ref_query 1" by (simp_all add: demo_world_def)
  have state: "policy_table (daemon ?s) = demo_table 30" "glob_table (daemon ?s) = [demo_globs ! 2]"
    "dns_table (daemon ?s) = demo_dns ''www.tube.com.''" "scrapes (traffic ?s) = demo_relief_scrapes"
    by (simp_all add: demo_relieved_def demo_daemon_def demo_state_def)
  have healthy: "healthy demo_cfg (demo_table 30) []" "healthy demo_cfg (demo_table 30) [(demo_pair, demo_env)]" by code_simp+
  have "ip_string demo_client = ''192.168.0.14''" by code_simp
  then have pair: "demo_pair = (ip_string demo_client, ''video'')" by (simp only: demo_pair_def)
  have level: "level (demo_table 30) demo_pair = 3" by code_simp
  have "alive (daemon s') \<and> level (policy_table (daemon s')) demo_pair = level (policy_table (daemon ?s)) demo_pair - 1 \<and>
    (\<exists>rules. attached_throttlers (\<lambda>fs. fs) 2 (daemon s') = [Some (Prog_throttle rules)] \<and>
       final_class LittleEndian rules demo_packet =
         (if level (policy_table (daemon ?s)) demo_pair = 1 then skb_tc_classid demo_packet
          else word_of_int (16 * (level (policy_table (daemon ?s)) demo_pair - 1))))"
  proof (rule silent_client_recovers [where names = demo_names, OF demo_world_ok _ _ _ _ _ _ _ _ tr _ _ _ _
        demo_relief_possible s' refl refl pair])
    show "fresh_traffic (w_lookup demo_world) (hash_ok src_dest_max_entries) (traffic ?start)"
      using demo_fresh by (simp add: world)
    have "table_ok demo_cfg (demo_table 30)" by code_simp
    then show "tables_ok (w_cfg demo_world) (daemon ?start)"
      using demo_daemon_tables by (simp add: tables_ok_def world demo_relieved_def)
    show "\<forall>ev \<in> set (traffic_of (Traffic_event (Collect c) # [Traffic_event (Scrape (4 * time_Minute) [(demo_series, 1500)]),
        Traffic_event (Scrape (5 * time_Minute) [(demo_series, 1500)])])). steady demo_names ev \<and> silent demo_client ev"
      using steady by (simp add: steady_def)
    show "\<forall>remote. plain (fst (demo_names remote)) \<and> plain (snd (demo_names remote))"
      by (simp add: demo_names_def plain_def)
    show "scraped_twice demo_names demo_client ''video'' (te_now demo_relief) (scrapes (traffic ?s))"
      unfolding scraped_twice_def state demo_series_def [symmetric]
      by (intro exI [of _ demo_remote])
        (simp add: demo_names_def demo_series_def [symmetric] demo_relief_samples demo_relief_def time_Minute_def time_Second_def)
    show "tick_works (w_cfg demo_world) (policy_table (daemon ?s)) 1000 demo_relief"
      using healthy demo_kernel(6) by (simp add: tick_works_def world demo_relief_def demo_tick_env_def state)
    show "\<forall>k' \<in> getActiveGlobGroups (te_query demo_relief) (w_cfg demo_world) (te_times demo_relief).
        NumQdiscClasses (w_cfg demo_world) < level (policy_table (daemon ?s)) k'"
      using ref_prometheus.active_iff [of demo_cfg 1] demo_relief_usage(3)
      by (auto simp: demo_relief_def world demo_cfg_def)
    show "addresses_ok (policy_table (daemon s'))"
      unfolding t' using demo_governs(2) by (auto simp: addresses_ok_def demo_table_def intro!: exI [of _ demo_client] simp del: ip_string.simps)
    show "\<forall>p \<in> set (policy_table (daemon s')). GlobGroup p \<in> Name ` set (glob_table (daemon ?s))"
      unfolding t' state using demo_governs(3) by (simp add: demo_table_def policy_row_def demo_pair_def)
    show "\<forall>p \<in> set (policy_table (daemon s')). governs (w_glob demo_world) 1000 (glob_table (daemon ?s)) (dns_table (daemon ?s))
        (dst_bytes demo_packet) (src_bytes demo_packet) p \<longleftrightarrow> policy_key p = demo_pair"
      unfolding t' demo_packet_facts(5,6) world state using demo_governs(1) by (simp add: demo_table_def)
  qed (use demo_kernel(4) demo_packet_facts(1) level in \<open>simp_all add: world state demo_cfg_def baseConfig_def\<close>)
  then show ?thesis using s' by (simp add: state level)
qed

end
