(* ===== verification/Schema.thy ===== *)
theory Schema
  imports Store
begin

text \<open>
  \<open>Connect\<close> of \<open>database/database.go\<close>, which declares the tables, and the rows at the level of
  columns: what the \<open>INSERT\<close> statements put into the declared columns, by position, and what
  \<open>SELECT *\<close> reads back into the structs of \<open>models/models.go\<close>, by name. The rows of \<open>Store\<close> are
  these rows with the columns as fields.
\<close>

section \<open>Declared tables\<close>

datatype sql_type = Sql_text | Sql_int | Sql_timestamp

record table_decl =
  columns :: "(string \<times> sql_type) list"
  primary_key :: "string list"

text \<open>\<open>cfgSchema\<close> and the table of the DNS database.\<close>

definition cfgSchema :: "(string \<times> table_decl) list" where
  "cfgSchema =
     [(''glob_group'', \<lparr>columns = [(''name'', Sql_text), (''description'', Sql_text), (''glob'', Sql_text),
         (''device'', Sql_text)], primary_key = [''name'']\<rparr>),
      (''device'', \<lparr>columns = [(''name'', Sql_text), (''mac'', Sql_text), (''group'', Sql_text)],
         primary_key = [''name'']\<rparr>),
      (''policy'', \<lparr>columns = [(''src_ip'', Sql_text), (''glob_group'', Sql_text), (''class'', Sql_int),
         (''tstamp'', Sql_timestamp)], primary_key = [''src_ip'', ''glob_group'']\<rparr>)]"

definition dnsSchema :: "string \<times> table_decl" where
  "dnsSchema = (''dns'', \<lparr>columns = [(''saddr'', Sql_text), (''daddr'', Sql_text), (''domain'', Sql_text),
     (''tstamp'', Sql_timestamp)], primary_key = [''daddr'', ''saddr'', ''domain'']\<rparr>)"

type_synonym sql_db = "string \<Rightarrow> table_decl option"

text \<open>\<open>CREATE TABLE IF NOT EXISTS\<close>: a table of that name stays as it is, whatever its columns.\<close>

definition create_if_missing :: "sql_db \<Rightarrow> string \<times> table_decl \<Rightarrow> sql_db" where
  "create_if_missing db t = (case db (fst t) of None \<Rightarrow> db(fst t \<mapsto> snd t) | Some _ \<Rightarrow> db)"

text \<open>
  How \<open>Connect\<close> ends. \<open>sqlx.Open\<close> gives a nil pointer with its error, and the code uses the pointer
  before it looks at the error. \<open>MustExec\<close> panics when a statement fails; \<open>exec n\<close> says whether the
  \<open>n\<close>-th statement executes.
\<close>

datatype connect_end = Connected | NilPointer | MustExecPanics | NoPrometheus

fun must_exec_all :: "(nat \<Rightarrow> bool) \<Rightarrow> nat \<Rightarrow> (string \<times> table_decl) list \<Rightarrow> sql_db \<Rightarrow> sql_db \<times> bool" where
  "must_exec_all exec n [] db = (db, True)"
| "must_exec_all exec n (t # ts) db =
     (if exec n then must_exec_all exec (Suc n) ts (create_if_missing db t) else (db, False))"

definition Connect ::
  "bool \<Rightarrow> bool \<Rightarrow> (nat \<Rightarrow> bool) \<Rightarrow> bool \<Rightarrow> sql_db \<times> sql_db \<Rightarrow> connect_end \<times> sql_db \<times> sql_db" where
  "Connect dns_open cfg_open exec prom_ok dbs =
     (let (dnsDb, cfgDb) = dbs
      in if \<not> dns_open then (NilPointer, dnsDb, cfgDb)
         else let (dnsDb, ok) = must_exec_all exec 0 [dnsSchema] dnsDb
         in if \<not> ok then (MustExecPanics, dnsDb, cfgDb)
         else if \<not> cfg_open then (NilPointer, dnsDb, cfgDb)
         else let (cfgDb, ok) = must_exec_all exec 1 cfgSchema cfgDb
         in if \<not> ok then (MustExecPanics, dnsDb, cfgDb)
         else if \<not> prom_ok then (NoPrometheus, dnsDb, cfgDb)
         else (Connected, dnsDb, cfgDb))"

section \<open>Values of columns\<close>

datatype sql_value = Text_value string | Int_value int | Time_value int

fun has_type :: "sql_value \<Rightarrow> sql_type \<Rightarrow> bool" where
  "has_type (Text_value s) ty \<longleftrightarrow> ty = Sql_text"
| "has_type (Int_value i) ty \<longleftrightarrow> ty = Sql_int"
| "has_type (Time_value t) ty \<longleftrightarrow> ty = Sql_timestamp"

text \<open>An \<open>INSERT\<close> without column names assigns by position, one with names by name.\<close>

definition insert_by_position :: "table_decl \<Rightarrow> sql_value list \<Rightarrow> (string \<times> sql_value) list option" where
  "insert_by_position d vals =
     (if length vals = length (columns d) then Some (zip (map fst (columns d)) vals) else None)"

definition insert_by_name :: "table_decl \<Rightarrow> (string \<times> sql_value) list \<Rightarrow> (string \<times> sql_value) list option" where
  "insert_by_name d vals =
     those (map (\<lambda>c. map_option (Pair (fst c)) (map_of vals (fst c))) (columns d))"

definition well_typed :: "table_decl \<Rightarrow> (string \<times> sql_value) list \<Rightarrow> bool" where
  "well_typed d row \<longleftrightarrow>
     list_all2 (\<lambda>c v. fst c = fst v \<and> has_type (snd v) (snd c)) (columns d) row"

text \<open>The rows of the statements of \<open>UpdatePolicy\<close>, \<open>AddDns\<close> and \<open>AddGlob\<close>.\<close>

definition policy_insert :: "policy \<Rightarrow> sql_value list" where
  "policy_insert p = [Text_value (SrcIp p), Text_value (GlobGroup p), Int_value (Class p), Time_value (Tstamp p)]"

definition dns_insert :: "dns_row \<Rightarrow> sql_value list" where
  "dns_insert r = [Text_value (saddr r), Text_value (daddr r), Text_value (domain r), Time_value (dns_tstamp r)]"

definition glob_insert :: "glob_group \<Rightarrow> (string \<times> sql_value) list" where
  "glob_insert g = [(''name'', Text_value (Name g)), (''description'', Text_value (Description g)),
     (''glob'', Text_value (Glob g)), (''device'', Text_value (Device g))]"

section \<open>Structs\<close>

text \<open>The fields of a struct by their \<open>db\<close> tags. A column goes to the field with its name as tag; a
  column without one, or a value of another kind, is an error.\<close>

datatype go_type = Go_string | Go_int | Go_Time

datatype go_value = String_field string | Int_field int | Time_field int

fun scan_value :: "go_type \<Rightarrow> sql_value \<Rightarrow> go_value option" where
  "scan_value Go_string (Text_value s) = Some (String_field s)"
| "scan_value Go_int (Int_value i) = Some (Int_field i)"
| "scan_value Go_Time (Time_value t) = Some (Time_field t)"
| "scan_value _ _ = None"

definition zero_value :: "go_type \<Rightarrow> go_value" where
  "zero_value ty = (case ty of Go_string \<Rightarrow> String_field [] | Go_int \<Rightarrow> Int_field 0 | Go_Time \<Rightarrow> Time_field 0)"

fun scan_columns ::
  "(string \<times> go_type) list \<Rightarrow> (string \<times> sql_value) list \<Rightarrow> (string \<times> go_value) list option" where
  "scan_columns flds [] = Some []"
| "scan_columns flds ((col, v) # row) = do {
     ty \<leftarrow> map_of flds col; x \<leftarrow> scan_value ty v; xs \<leftarrow> scan_columns flds row; Some ((col, x) # xs)}"

definition scan_struct :: "(string \<times> go_type) list \<Rightarrow> (string \<times> sql_value) list \<Rightarrow> go_value list option" where
  "scan_struct flds row = do {
     xs \<leftarrow> scan_columns flds row;
     Some (map (\<lambda>(tag, ty). case map_of xs tag of None \<Rightarrow> zero_value ty | Some x \<Rightarrow> x) flds)}"

definition Policy_fields :: "(string \<times> go_type) list" where
  "Policy_fields = [(''src_ip'', Go_string), (''glob_group'', Go_string), (''class'', Go_int), (''tstamp'', Go_Time)]"

definition GlobGroup_fields :: "(string \<times> go_type) list" where
  "GlobGroup_fields = [(''name'', Go_string), (''description'', Go_string), (''glob'', Go_string), (''device'', Go_string)]"

definition DnsProbe_fields :: "(string \<times> go_type) list" where
  "DnsProbe_fields = [(''saddr'', Go_string), (''daddr'', Go_string), (''dport'', Go_int), (''domain'', Go_string),
     (''tstamp'', Go_Time)]"

text \<open>The structs as the records of \<open>Store\<close>.\<close>

definition Policy_struct :: "policy \<Rightarrow> go_value list" where
  "Policy_struct p = [String_field (SrcIp p), String_field (GlobGroup p), Int_field (Class p), Time_field (Tstamp p)]"

definition GlobGroup_struct :: "glob_group \<Rightarrow> go_value list" where
  "GlobGroup_struct g = [String_field (Name g), String_field (Description g), String_field (Glob g), String_field (Device g)]"

section \<open>Rows come back as they were written\<close>

text \<open>Databases whose tables, where they exist, are those the program declares.\<close>

definition agrees :: "(string \<times> table_decl) list \<Rightarrow> sql_db \<Rightarrow> bool" where
  "agrees ts db \<longleftrightarrow> (\<forall>(name, d) \<in> set ts. db name = None \<or> db name = Some d)"

lemma agrees_create:
  "agrees ts db \<Longrightarrow> t \<in> set ts \<Longrightarrow> distinct (map fst ts) \<Longrightarrow>
   agrees ts (create_if_missing db t) \<and> create_if_missing db t (fst t) = Some (snd t)"
  by (force simp: agrees_def create_if_missing_def eq_key_imp_eq_value split: option.split)

lemma create_keeps: "db name = Some d \<Longrightarrow> create_if_missing db t name = Some d"
  by (auto simp: create_if_missing_def split: option.split)

lemma must_exec_keeps: "must_exec_all exec n us db = (db', ok) \<Longrightarrow> db name = Some d \<Longrightarrow> db' name = Some d"
  by (induction exec n us db rule: must_exec_all.induct) (auto simp: create_keeps split: if_splits)

lemma must_exec_creates:
  "must_exec_all exec n us db = (db', True) \<Longrightarrow> agrees ts db \<Longrightarrow> set us \<subseteq> set ts \<Longrightarrow> distinct (map fst ts) \<Longrightarrow>
   \<forall>(name, d) \<in> set us. db' name = Some d"
proof (induction exec n us db rule: must_exec_all.induct)
  case (2 exec n t us db)
  have t: "agrees ts (create_if_missing db t) \<and> create_if_missing db t (fst t) = Some (snd t)"
    using 2 by (intro agrees_create) auto
  have run: "must_exec_all exec (Suc n) us (create_if_missing db t) = (db', True)" and "exec n"
    using 2(2) by (auto split: if_splits)
  then have "\<forall>(name, d) \<in> set us. db' name = Some d" using 2 t by auto
  with must_exec_keeps [OF run] t show ?case by auto
qed simp

lemma connected_tables:
  assumes "Connect dns_open cfg_open exec prom_ok (dns0, cfg0) = (Connected, dnsDb, cfgDb)"
    and "agrees [dnsSchema] dns0" and "agrees cfgSchema cfg0"
  shows "\<forall>(name, d) \<in> set [dnsSchema]. dnsDb name = Some d" and "\<forall>(name, d) \<in> set cfgSchema. cfgDb name = Some d"
proof -
  have "must_exec_all exec 0 [dnsSchema] dns0 = (dnsDb, True)" "must_exec_all exec 1 cfgSchema cfg0 = (cfgDb, True)"
    using assms(1) by (auto simp: Connect_def Let_def split: if_splits prod.splits)
  moreover have "distinct (map fst cfgSchema)" by (simp add: cfgSchema_def)
  ultimately show "\<forall>(name, d) \<in> set [dnsSchema]. dnsDb name = Some d" and "\<forall>(name, d) \<in> set cfgSchema. cfgDb name = Some d"
    using must_exec_creates [of exec 0 "[dnsSchema]" dns0 dnsDb "[dnsSchema]"]
      must_exec_creates [of exec 1 cfgSchema cfg0 cfgDb cfgSchema] assms(2,3) by auto
qed

lemma rows_scan:
  "\<exists>row. insert_by_position (snd (cfgSchema ! 2)) (policy_insert p) = Some row \<and>
     well_typed (snd (cfgSchema ! 2)) row \<and> scan_struct Policy_fields row = Some (Policy_struct p)"
  "\<exists>row. insert_by_name (snd (cfgSchema ! 0)) (glob_insert g) = Some row \<and>
     well_typed (snd (cfgSchema ! 0)) row \<and> scan_struct GlobGroup_fields row = Some (GlobGroup_struct g)"
  "\<exists>row. insert_by_position (snd dnsSchema) (dns_insert r) = Some row \<and>
     well_typed (snd dnsSchema) row \<and> scan_struct DnsProbe_fields row =
       Some [String_field (saddr r), String_field (daddr r), Int_field 0, String_field (domain r), Time_field (dns_tstamp r)]"
  by (simp_all add: insert_by_position_def insert_by_name_def cfgSchema_def dnsSchema_def policy_insert_def glob_insert_def
      dns_insert_def well_typed_def scan_struct_def Policy_fields_def GlobGroup_fields_def DnsProbe_fields_def
      Policy_struct_def GlobGroup_struct_def zero_value_def)

text \<open>C25: After \<open>Connect\<close> on new databases, or on those it made, the rows that the \<open>INSERT\<close> statements put
  into the columns of \<open>policy\<close>, \<open>glob_group\<close> and \<open>dns\<close> have the declared types, and \<open>SELECT *\<close> reads
  them back into the structs as the values that were written, with zero for the field \<open>Dport\<close>, which
  has no column.\<close>

theorem rows_scan_back:
  assumes "Connect dns_open cfg_open exec prom_ok (dns0, cfg0) = (Connected, dnsDb, cfgDb)"
    and "agrees [dnsSchema] dns0" and "agrees cfgSchema cfg0"
  shows "\<exists>dp dg dd rp rg rd. cfgDb ''policy'' = Some dp \<and> cfgDb ''glob_group'' = Some dg \<and> dnsDb ''dns'' = Some dd \<and>
    insert_by_position dp (policy_insert p) = Some rp \<and> well_typed dp rp \<and>
    scan_struct Policy_fields rp = Some (Policy_struct p) \<and>
    insert_by_name dg (glob_insert g) = Some rg \<and> well_typed dg rg \<and>
    scan_struct GlobGroup_fields rg = Some (GlobGroup_struct g) \<and>
    insert_by_position dd (dns_insert r) = Some rd \<and> well_typed dd rd \<and>
    scan_struct DnsProbe_fields rd =
      Some [String_field (saddr r), String_field (daddr r), Int_field 0, String_field (domain r), Time_field (dns_tstamp r)]"
proof -
  have "cfgDb ''policy'' = Some (snd (cfgSchema ! 2))" "cfgDb ''glob_group'' = Some (snd (cfgSchema ! 0))"
    "dnsDb ''dns'' = Some (snd dnsSchema)"
    using connected_tables [OF assms] by (simp_all add: cfgSchema_def dnsSchema_def)
  with rows_scan(1) [of p] rows_scan(2) [of g] rows_scan(3) [of r] show ?thesis by metis
qed

theorem rows_scan_back_witness:
  "\<exists>dnsDb cfgDb dp rp. Connect True True (\<lambda>_. True) True (Map.empty, Map.empty) = (Connected, dnsDb, cfgDb) \<and>
     cfgDb ''policy'' = Some dp \<and> insert_by_position dp (policy_insert (policy_row (''10.0.0.1'', ''video'') 20 5)) = Some rp \<and>
     scan_struct Policy_fields rp = Some (Policy_struct (policy_row (''10.0.0.1'', ''video'') 20 5))"
proof -
  obtain dnsDb cfgDb where *: "Connect True True (\<lambda>_. True) True (Map.empty, Map.empty) = (Connected, dnsDb, cfgDb)"
    by (simp add: Connect_def cfgSchema_def Let_def)
  have "agrees [dnsSchema] Map.empty" "agrees cfgSchema Map.empty" by (simp_all add: agrees_def case_prod_beta)
  from rows_scan_back [OF * this, where p = "policy_row (''10.0.0.1'', ''video'') 20 5"] * show ?thesis by blast
qed

text \<open>Connecting again changes no table.\<close>

lemma must_exec_all_present:
  "must_exec_all exec n us db = (db', True) \<Longrightarrow> \<forall>t \<in> set us. db' (fst t) \<noteq> None"
proof (induction exec n us db rule: must_exec_all.induct)
  case (2 exec n t us db)
  then have run: "must_exec_all exec (Suc n) us (create_if_missing db t) = (db', True)" and "exec n"
    by (auto split: if_splits)
  obtain d where "create_if_missing db t (fst t) = Some d"
    by (cases "db (fst t)") (auto simp: create_if_missing_def)
  from must_exec_keeps [OF run this] 2 run \<open>exec n\<close> show ?case by auto
qed simp

lemma must_exec_present:
  "\<forall>t \<in> set us. db (fst t) \<noteq> None \<Longrightarrow> must_exec_all (\<lambda>_. True) n us db = (db, True)"
  by (induction us arbitrary: n) (auto simp: create_if_missing_def)

lemma connect_again:
  assumes "Connect dns_open cfg_open exec prom_ok dbs = (Connected, dbs')"
  shows "Connect True True (\<lambda>_. True) True dbs' = (Connected, dbs')"
proof -
  obtain dns0 cfg0 dnsDb cfgDb where dbs: "dbs = (dns0, cfg0)" "dbs' = (dnsDb, cfgDb)" by fastforce
  have "must_exec_all exec 0 [dnsSchema] dns0 = (dnsDb, True)" "must_exec_all exec 1 cfgSchema cfg0 = (cfgDb, True)"
    using assms by (auto simp: dbs Connect_def Let_def split: if_splits prod.splits)
  then show ?thesis
    using must_exec_present [of "[dnsSchema]" dnsDb 0] must_exec_present [of cfgSchema cfgDb 1]
    by (simp add: dbs Connect_def must_exec_all_present del: must_exec_all.simps)
qed

end
