(* ===== verification/Web.thy ===== *)
theory Web
  imports Bandwidth
begin

text \<open>
  The web pages: the handlers of \<open>handlers/handlers.go\<close> and the routes that \<open>main\<close> in
  \<open>cmd/nethadone.go\<close> registers. A response is the template or redirect the handler asks the web
  framework for, with the data it passes, which theory \<open>Pages\<close> renders; the list of interfaces and
  the text of the metrics are those of the libraries.
\<close>

section \<open>Requests and responses\<close>

datatype http_method = GET | HEAD | POST

text \<open>The fields of a submitted form; \<open>FormValue\<close> gives the empty string for one that is missing.\<close>

record http_request =
  req_method :: http_method
  req_path :: string
  req_form :: "string \<Rightarrow> string option"

definition FormValue :: "http_request \<Rightarrow> string \<Rightarrow> string" where
  "FormValue c key = (case req_form c key of None \<Rightarrow> [] | Some v \<Rightarrow> v)"

datatype page_data =
    No_data
  | Interfaces_data "(int \<times> string) list" "(string \<times> string) list"
  | Policies_data "policy list option"
  | Globs_data "glob_group list"
  | Bandwidth_data "bandwidth list"
  | Devices_data "(string \<times> string) list"

datatype http_response =
    Render string page_data
  | Redirect string
  | SendFile string
  | WriteMetrics
  | NoRoute
  | ExitProcess

text \<open>What the handlers read and what the libraries answer; of an interface its index and name, of a link
  its type and name.\<close>

record web_env =
  list_ok :: bool
  netlink_ok :: bool
  links_ok :: bool
  ifaces :: "(int \<times> string) list"
  links :: "(string \<times> string) list"
  select_ok :: bool
  insert_ok :: bool
  monitor_loaded :: bool
  newest_choice :: "dns_row list \<Rightarrow> dns_row"
  map_entries :: "((u64 \<times> u64) \<times> bool \<times> bool) list"

section \<open>Handlers\<close>

definition Index :: http_response where
  "Index = Render ''index'' No_data"

definition Interfaces :: "web_env \<Rightarrow> http_response" where
  "Interfaces w =
     (if \<not> list_ok w then ExitProcess
      else if \<not> netlink_ok w then ExitProcess
      else if \<not> links_ok w then ExitProcess
      else Render ''interfaces'' (Interfaces_data (ifaces w) (links w)))"

definition Policies :: "web_env \<Rightarrow> policy list \<Rightarrow> http_response" where
  "Policies w t = Render ''policies'' (Policies_data (GetAllPolicies (select_ok w) t))"

definition Globs :: "web_env \<Rightarrow> glob_group list \<Rightarrow> http_response" where
  "Globs w globs = Render ''globs'' (Globs_data (GetGlobs (select_ok w) globs))"

definition GlobAdd :: "web_env \<Rightarrow> http_request \<Rightarrow> glob_group list \<Rightarrow> glob_group list \<times> http_response" where
  "GlobAdd w c globs =
     (let g = \<lparr>Name = FormValue c ''name'', Description = FormValue c ''description'',
               Glob = FormValue c ''glob'', Device = FormValue c ''device''\<rparr>;
          (globs', err) = AddGlob (insert_ok w) g globs
      in (globs', Redirect ''/globs''))"

definition Bandwidth_page :: "web_env \<Rightarrow> glob_group list \<Rightarrow> dns_row list \<Rightarrow> http_response" where
  "Bandwidth_page w globs dns =
     Render ''bandwidth'' (Bandwidth_data (getBandwidthList (monitor_loaded w) False (newest_choice w) globs dns (map_entries w)))"

definition Devices :: http_response where
  "Devices = Render ''devices'' (Devices_data [(''Alias'', ''laptop''), (''IPAddr'', ''192.168.0.2'')])"

definition MetricsHandleFunc :: http_response where
  "MetricsHandleFunc = WriteMetrics"

text \<open>The routes; how the framework normalises a path is not modelled. A route registered for GET also
  serves HEAD requests: the handler runs the same, and the body is not sent.\<close>

definition is_get :: "http_request \<Rightarrow> bool" where
  [simp]: "is_get c \<longleftrightarrow> req_method c = GET \<or> req_method c = HEAD"

definition serve ::
  "web_env \<Rightarrow> http_request \<Rightarrow> policy list \<Rightarrow> dns_row list \<Rightarrow> glob_group list \<Rightarrow> glob_group list \<times> http_response" where
  "serve w c t dns globs =
     (if is_get c \<and> req_path c = ''/'' then (globs, Index)
      else if is_get c \<and> req_path c = ''/interfaces'' then (globs, Interfaces w)
      else if is_get c \<and> req_path c = ''/devices'' then (globs, Devices)
      else if is_get c \<and> req_path c = ''/policies'' then (globs, Policies w t)
      else if is_get c \<and> req_path c = ''/bandwidth'' then (globs, Bandwidth_page w globs dns)
      else if is_get c \<and> req_path c = ''/globs'' then (globs, Globs w globs)
      else if req_method c = POST \<and> req_path c = ''/globs/add'' then GlobAdd w c globs
      else if is_get c \<and> req_path c = ''/metrics'' then (globs, MetricsHandleFunc)
      else if is_get c \<and> req_path c = ''/favicon.ico'' then (globs, SendFile ''static/laptop.svg'')
      else (globs, NoRoute))"

section \<open>What requests can do\<close>

lemma AddGlob_appends:
  "fst (AddGlob ok g t) = t @ (if ok \<and> Name g \<notin> Name ` set t then [g] else [])"
  by (simp add: AddGlob_def)

lemma GlobAdd_eq:
  "GlobAdd w c globs = (fst (AddGlob (insert_ok w) \<lparr>Name = FormValue c ''name'', Description = FormValue c ''description'',
      Glob = FormValue c ''glob'', Device = FormValue c ''device''\<rparr> globs), Redirect ''/globs'')"
  by (simp add: GlobAdd_def case_prod_beta)

text \<open>C27: A request changes nothing but the glob groups, and these only by a POST to \<open>/globs/add\<close>, which adds
  at most one group, of the name submitted, at the end and only if the name is new. A request ends
  the process exactly when it asks for the interfaces and the system cannot list them.\<close>

theorem requests_only_add_groups:
  "\<exists>new. fst (serve w c t dns globs) = globs @ new \<and>
     (new = [] \<or> req_method c = POST \<and> req_path c = ''/globs/add'' \<and>
        (\<exists>g. new = [g] \<and> Name g = FormValue c ''name'' \<and> Name g \<notin> Name ` set globs)) \<and>
     (snd (serve w c t dns globs) = ExitProcess \<longleftrightarrow>
        is_get c \<and> req_path c = ''/interfaces'' \<and> \<not> (list_ok w \<and> netlink_ok w \<and> links_ok w))"
proof (cases "req_method c = POST \<and> req_path c = ''/globs/add''")
  case True
  then show ?thesis by (simp add: serve_def GlobAdd_eq AddGlob_appends)
next
  case False
  then have "fst (serve w c t dns globs) = globs" and "snd (serve w c t dns globs) = ExitProcess \<longleftrightarrow>
      is_get c \<and> req_path c = ''/interfaces'' \<and> \<not> (list_ok w \<and> netlink_ok w \<and> links_ok w)"
    by (auto simp: serve_def is_get_def Index_def Interfaces_def Devices_def Policies_def Bandwidth_page_def Globs_def
        MetricsHandleFunc_def split: if_splits)
  then show ?thesis by (intro exI [of _ "[]"]) simp
qed

text \<open>A group whose name is taken is not added, with the same response.\<close>

lemma taken_name_ignored:
  "FormValue c ''name'' \<in> Name ` set globs \<Longrightarrow> GlobAdd w c globs = (globs, Redirect ''/globs'')"
  by (simp add: GlobAdd_eq AddGlob_appends)

section \<open>The form\<close>

text \<open>The controls of the form of \<open>views/globs.tpl\<close>, with their \<open>name\<close> attributes; a browser sends the
  values of the controls that have one.\<close>

definition glob_form :: "(string \<times> string option) list" where
  "glob_form = [(''name'', Some ''name''), (''description'', Some ''description''), (''device'', None),
     (''glob'', Some ''glob'')]"

definition submit :: "(string \<times> string option) list \<Rightarrow> (string \<Rightarrow> string) \<Rightarrow> string \<Rightarrow> string option" where
  "submit controls entered = map_of (List.map_filter (\<lambda>(i, n). map_option (\<lambda>n. (n, entered i)) n) controls)"

lemma form_never_sends_device:
  "req_form c = submit glob_form entered \<Longrightarrow>
   \<exists>g. fst (GlobAdd w c globs) = globs @ g \<and> (\<forall>x \<in> set g. Device x = [] \<and> Glob x = entered ''glob'')"
  by (auto simp: GlobAdd_eq AddGlob_appends FormValue_def submit_def glob_form_def List.map_filter_simps)

text \<open>Nothing checks the pattern: a group with the empty pattern takes the addresses without a name.\<close>

lemma empty_pattern_takes_unnamed:
  assumes "Glob g = []" and "\<forall>r \<in> set dns. daddr r \<noteq> ip"
  shows "getMatchingGlobGroup True (GetDomainForIP ok pick ip dns) (g # globs) = Some g"
proof -
  have "filter (\<lambda>r. daddr r = ip) dns = []" using assms(2) by (simp add: filter_empty_conv)
  moreover have "filepath_Match [] []" by code_simp
  ultimately show ?thesis
    by (simp add: GetDomainForIP_def getMatchingGlobGroup_def GetGlobs_def assms(1))
qed

end
