(* ===== verification/MainProgram.thy ===== *)
theory MainProgram
  imports Daemon Schema Web
begin

text \<open>
  \<open>main\<close> of \<open>cmd/nethadone.go\<close>: the configuration, the databases, the programs, and then the
  goroutines and the web server, in this order. Whatever fails ends the process at that point; what
  was done to the databases and to the kernel before stays.
\<close>

text \<open>What the start meets: the file and the flags, the opening of the databases, the statements, the
  client of Prometheus, and the libraries that load the programs.\<close>

record main_env =
  config_file :: "string option"
  wan_flag :: string
  lan_flag :: string
  dns_open :: bool
  cfg_open :: bool
  exec_table :: "nat \<Rightarrow> bool"
  prom_client :: bool
  init_env :: start_env

datatype main_end =
    ConfigFails
  | ConnectFails connect_end
  | InitializeFails
  | InitializeUnspecified
  | Serving

definition main_start ::
  "bool \<Rightarrow> 'k tc_ops \<Rightarrow> (string \<Rightarrow> config \<Rightarrow> config option) \<Rightarrow> main_env \<Rightarrow> 'k BpfContext \<times> sql_db \<times> sql_db \<Rightarrow>
   main_end \<times> 'k BpfContext \<times> sql_db \<times> sql_db" where
  "main_start fused ops decode w st =
     (let (d, dbs) = st
      in case main_config decode (config_file w) (wan_flag w) (lan_flag w) of
           None \<Rightarrow> (ConfigFails, d, dbs)
         | Some cfg \<Rightarrow>
             (let (e, dbs) = Connect (dns_open w) (cfg_open w) (exec_table w) (prom_client w) dbs
              in if e \<noteq> Connected then (ConnectFails e, d, dbs)
                 else case Initialize fused ops cfg (init_env w) d of
                     None \<Rightarrow> (InitializeUnspecified, d, dbs)
                   | Some (Fatal d) \<Rightarrow> (InitializeFails, d, dbs)
                   | Some (Running d) \<Rightarrow> (Serving, d, dbs)))"

text \<open>The kernel is touched only when the configuration was read and the databases are there.\<close>

lemma databases_before_kernel:
  assumes "main_start fused ops decode w (d, dbs) = (e, d', dbs')" and "d' \<noteq> d"
  shows "\<exists>cfg. main_config decode (config_file w) (wan_flag w) (lan_flag w) = Some cfg \<and>
    Connect (dns_open w) (cfg_open w) (exec_table w) (prom_client w) dbs = (Connected, dbs')"
  using assms
  by (auto simp: main_start_def split: option.splits outcome.splits prod.splits if_splits)

text \<open>A start that reaches the web server has run \<open>Initialize\<close> with the configuration of the flags, so
  the lemmas on the start of the process apply to it.\<close>

lemma serving_is_started:
  assumes "main_start fused ops decode w (d, dbs) = (Serving, d', dbs')"
  shows "\<exists>cfg. main_config decode (config_file w) (wan_flag w) (lan_flag w) = Some cfg \<and>
    Initialize fused ops cfg (init_env w) d = Some (Running d')"
  using assms
  by (auto simp: main_start_def split: option.splits outcome.splits prod.splits if_splits)

text \<open>A control plane whose ticker has no positive interval never changes a policy.\<close>

lemma no_interval_no_policies:
  assumes "control_reach fused ops cfg glob unpack c0 c" and "PolicyCheckInterval cfg \<le> 0"
  shows "policy_table c = policy_table c0"
  using assms(1)
proof induction
  case (reach_event c ev)
  then show ?case using assms(2) by (cases ev) auto
qed simp

text \<open>The web server adds glob groups only, as the events of the control plane do.\<close>

lemma web_request_is_event:
  "\<exists>evs. (\<forall>ev \<in> set evs. \<exists>ok g. ev = GlobAdded ok g) \<and>
     fst (serve w r t dns (glob_table c)) =
       glob_table (foldl (\<lambda>c ev. happen fused ops cfg glob unpack ev c) c evs)"
proof (cases "req_method r = POST \<and> req_path r = ''/globs/add''")
  case True
  then show ?thesis
    by (intro exI [of _ "[GlobAdded (insert_ok w) \<lparr>Name = FormValue r ''name'', Description = FormValue r ''description'',
      Glob = FormValue r ''glob'', Device = FormValue r ''device''\<rparr>]"]) (simp add: serve_def GlobAdd_eq)
next
  case False
  then have "fst (serve w r t dns (glob_table c)) = glob_table c" by (auto simp: serve_def)
  then show ?thesis by (intro exI [of _ "[]"]) simp
qed

end
