(* ===== verification/Interleaving.thy ===== *)
theory Interleaving
  imports EndToEnd
begin

text \<open>
  A tick of the policy loop among the other goroutines, statement by statement. The goroutines are
  the tick of \<open>pollPolicyCheck\<close> (\<open>policy/simpleloadavg.go\<close>), the readers of DNS events
  (\<open>pollDnsResponses\<close>, started once per direction) and the requests that add glob groups; each
  executes one SQL statement at a time, as every table has one connection, and between any two
  statements of one the others may execute theirs, while the clock of the database goes on.
\<close>

section \<open>The goroutines\<close>

text \<open>Where a tick stands. \<open>Increase_row\<close> and \<open>Decrease_row\<close> come after \<open>GetPolicy\<close> and before the
  statement that changes the row; \<open>Matching\<close> lies between the two queries of \<open>GetIpPolicies\<close>;
  \<open>Installing\<close> has the argument of \<open>handlers.ApplyPolicies\<close>, which uses no table.\<close>

datatype tick_pc =
    Increasing bool "(pkey \<times> visit_env) list"
  | Increase_row bool pkey visit_env "policy option" "(pkey \<times> visit_env) list"
  | Decreasing bool "(pkey \<times> visit_env) list"
  | Decrease_row bool pkey visit_env "policy option" "(pkey \<times> visit_env) list"
  | Apply_start
  | Applying "(policy \<times> bool \<times> bool) list" "ip_policy list"
  | Matching policy glob_group bool "(policy \<times> bool \<times> bool) list" "ip_policy list"
  | Installing "ip_policy list"
  | Tick_done
  | Tick_panic

text \<open>A reader waits for an event or has answers of a message left to store.\<close>

datatype reader_pc = Reading | Storing "(dns_rr \<times> bool) list"

record threads =
  th_tick :: tick_pc
  th_readers :: "reader_pc list"
  th_policies :: "policy list"
  th_globs :: "glob_group list"
  th_dns :: "dns_row list"
  th_clock :: int

text \<open>The enumerations of a tick, and whether its reads succeed when the policies are applied.\<close>

record tick_plan =
  tp_incs :: "(pkey \<times> visit_env) list"
  tp_decs :: "(pkey \<times> visit_env) list"
  tp_all_ok :: bool
  tp_answers :: "(bool \<times> bool) list"

section \<open>The statements of a tick\<close>

text \<open>The iterations of both loops after \<open>GetPolicy\<close> has given the row \<open>r\<close>.\<close>

definition increase_write ::
  "config \<Rightarrow> bool \<times> policy list \<Rightarrow> pkey \<times> visit_env \<Rightarrow> policy option \<Rightarrow> bool \<times> policy list" where
  "increase_write cfg st match r =
     (let (changed, t) = st; ((src_ip, glob), e) = match
      in case r of
           None \<Rightarrow>
             (let (t', err) = UpdatePolicy (exec_ok e) (sql_now e) src_ip glob 10 t
              in if err then (changed, t') else (True, t'))
         | Some p \<Rightarrow>
             if too_soon cfg e p then (changed, t)
             else if Class p > NumQdiscClasses cfg * 10 then (changed, t)
             else (True, fst (UpdatePolicy (exec_ok e) (sql_now e) src_ip glob (Class p + 10) t)))"

definition decrease_write ::
  "config \<Rightarrow> bool \<times> policy list \<Rightarrow> pkey \<times> visit_env \<Rightarrow> policy option \<Rightarrow> bool \<times> policy list" where
  "decrease_write cfg st match r =
     (let (changed, t) = st; ((src_ip, glob), e) = match
      in case r of
           None \<Rightarrow> (changed, t)
         | Some p \<Rightarrow>
             if too_soon cfg e p then (changed, t)
             else if Class p \<le> 10 then (True, fst (DeletePolicy (exec_ok e) src_ip glob t))
             else (True, fst (UpdatePolicy (exec_ok e) (sql_now e) src_ip glob (Class p - 10) t)))"

fun tick_step ::
  "config \<Rightarrow> (string \<Rightarrow> string \<Rightarrow> bool) \<Rightarrow> tick_plan \<Rightarrow> tick_pc \<Rightarrow> threads \<Rightarrow> threads" where
  "tick_step cfg glob tp (Increasing changed []) s =
     s\<lparr>th_tick := if changed then Apply_start else Decreasing False (tp_decs tp)\<rparr>"
| "tick_step cfg glob tp (Increasing changed ((k, e) # ms)) s =
     s\<lparr>th_tick := Increase_row changed k e (GetPolicy (get_ok e) (fst k) (snd k) (th_policies s)) ms\<rparr>"
| "tick_step cfg glob tp (Increase_row changed k e r ms) s =
     (case increase_write cfg (changed, th_policies s) (k, e) r of (changed', t) \<Rightarrow>
        s\<lparr>th_tick := Increasing changed' ms, th_policies := t\<rparr>)"
| "tick_step cfg glob tp (Decreasing changed []) s = s\<lparr>th_tick := if changed then Apply_start else Tick_done\<rparr>"
| "tick_step cfg glob tp (Decreasing changed ((k, e) # ms)) s =
     s\<lparr>th_tick := Decrease_row changed k e (GetPolicy (get_ok e) (fst k) (snd k) (th_policies s)) ms\<rparr>"
| "tick_step cfg glob tp (Decrease_row changed k e r ms) s =
     (case decrease_write cfg (changed, th_policies s) (k, e) r of (changed', t) \<Rightarrow>
        s\<lparr>th_tick := Decreasing changed' ms, th_policies := t\<rparr>)"
| "tick_step cfg glob tp Apply_start s =
     s\<lparr>th_tick := (case GetAllPolicies (tp_all_ok tp) (th_policies s) of
        None \<Rightarrow> Tick_panic | Some policies \<Rightarrow> Applying (zip policies (tp_answers tp)) [])\<rparr>"
| "tick_step cfg glob tp (Applying [] ips) s = s\<lparr>th_tick := Installing ips\<rparr>"
| "tick_step cfg glob tp (Applying ((p, glob_ok, ips_ok) # ps) ips) s =
     s\<lparr>th_tick := (case GetGlob glob_ok (GlobGroup p) (th_globs s) of
        None \<Rightarrow> Tick_panic | Some gg \<Rightarrow> Matching p gg ips_ok ps ips)\<rparr>"
| "tick_step cfg glob tp (Matching p gg ips_ok ps ips) s =
     s\<lparr>th_tick := (case GetIPsMatchingGlob ips_ok glob (th_clock s) gg (th_dns s) of
        None \<Rightarrow> Tick_panic
      | Some ipstr \<Rightarrow> Applying ps (ips @ map (\<lambda>ip. \<lparr>SrcIpAddr = replace_all CHR ''.'' CHR '','' (SrcIp p),
                                DestIpAddr = replace_all CHR ''.'' CHR '','' ip,
                                ClassId = Class p\<rparr>) ipstr))\<rparr>"
| "tick_step cfg glob tp pc s = s"

fun tick_over :: "tick_pc \<Rightarrow> bool" where
  "tick_over (Installing ips) = True"
| "tick_over Tick_done = True"
| "tick_over Tick_panic = True"
| "tick_over pc = False"

section \<open>The steps of all\<close>

datatype thread_step =
    Tick_step
  | Read_step nat "u8 list" "bool list"
  | Store_step nat dns_rr bool int
  | Next_step nat
  | Web_step bool glob_group
  | Clock_step int

inductive thread_moves ::
  "config \<Rightarrow> (string \<Rightarrow> string \<Rightarrow> bool) \<Rightarrow> (u8 list \<Rightarrow> dns_rr list \<times> bool) \<Rightarrow> tick_plan \<Rightarrow>
   threads \<Rightarrow> thread_step \<Rightarrow> threads \<Rightarrow> bool" for cfg glob unpack tp where
  move_tick: "\<not> tick_over (th_tick s) \<Longrightarrow> thread_moves cfg glob unpack tp s Tick_step (tick_step cfg glob tp (th_tick s) s)"
| move_read: "i < length (th_readers s) \<Longrightarrow> th_readers s ! i = Reading \<Longrightarrow>
    length oks = length (fst (unpack sample)) \<Longrightarrow>
    thread_moves cfg glob unpack tp s (Read_step i sample oks)
      (s\<lparr>th_readers := (th_readers s)[i := Storing (zip (fst (unpack sample)) oks)]\<rparr>)"
| move_store: "i < length (th_readers s) \<Longrightarrow> th_readers s ! i = Storing ((rr, ok) # xs) \<Longrightarrow>
    thread_moves cfg glob unpack tp s (Store_step i rr ok (th_clock s))
      (s\<lparr>th_readers := (th_readers s)[i := Storing xs], th_dns := store_answer (th_dns s) (rr, ok, th_clock s)\<rparr>)"
| move_next: "i < length (th_readers s) \<Longrightarrow> th_readers s ! i = Storing [] \<Longrightarrow>
    thread_moves cfg glob unpack tp s (Next_step i) (s\<lparr>th_readers := (th_readers s)[i := Reading]\<rparr>)"
| move_web: "thread_moves cfg glob unpack tp s (Web_step ok g) (s\<lparr>th_globs := fst (AddGlob ok g (th_globs s))\<rparr>)"
| move_clock: "th_clock s \<le> now \<Longrightarrow> thread_moves cfg glob unpack tp s (Clock_step now) (s\<lparr>th_clock := now\<rparr>)"

inductive_cases thread_movesE: "thread_moves cfg glob unpack tp s l s'"

inductive thread_run ::
  "config \<Rightarrow> (string \<Rightarrow> string \<Rightarrow> bool) \<Rightarrow> (u8 list \<Rightarrow> dns_rr list \<times> bool) \<Rightarrow> tick_plan \<Rightarrow>
   threads \<Rightarrow> thread_step list \<Rightarrow> threads \<Rightarrow> bool" for cfg glob unpack tp s0 where
  run_start: "thread_run cfg glob unpack tp s0 [] s0"
| run_move: "thread_run cfg glob unpack tp s0 ls s \<Longrightarrow> thread_moves cfg glob unpack tp s l s' \<Longrightarrow>
    thread_run cfg glob unpack tp s0 (ls @ [l]) s'"

text \<open>The same moves as a function, since a label determines what happens.\<close>

fun try_move ::
  "config \<Rightarrow> (string \<Rightarrow> string \<Rightarrow> bool) \<Rightarrow> (u8 list \<Rightarrow> dns_rr list \<times> bool) \<Rightarrow> tick_plan \<Rightarrow>
   threads \<Rightarrow> thread_step \<Rightarrow> threads option" where
  "try_move cfg glob unpack tp s Tick_step =
     (if tick_over (th_tick s) then None else Some (tick_step cfg glob tp (th_tick s) s))"
| "try_move cfg glob unpack tp s (Read_step i sample oks) =
     (if i < length (th_readers s) \<and> th_readers s ! i = Reading \<and> length oks = length (fst (unpack sample))
      then Some (s\<lparr>th_readers := (th_readers s)[i := Storing (zip (fst (unpack sample)) oks)]\<rparr>) else None)"
| "try_move cfg glob unpack tp s (Store_step i rr ok now) =
     (if i < length (th_readers s) \<and> now = th_clock s
      then (case th_readers s ! i of
          Storing (x # xs) \<Rightarrow>
            if x = (rr, ok)
            then Some (s\<lparr>th_readers := (th_readers s)[i := Storing xs], th_dns := store_answer (th_dns s) (rr, ok, now)\<rparr>)
            else None
        | _ \<Rightarrow> None)
      else None)"
| "try_move cfg glob unpack tp s (Next_step i) =
     (if i < length (th_readers s) \<and> th_readers s ! i = Storing []
      then Some (s\<lparr>th_readers := (th_readers s)[i := Reading]\<rparr>) else None)"
| "try_move cfg glob unpack tp s (Web_step ok g) = Some (s\<lparr>th_globs := fst (AddGlob ok g (th_globs s))\<rparr>)"
| "try_move cfg glob unpack tp s (Clock_step now) = (if th_clock s \<le> now then Some (s\<lparr>th_clock := now\<rparr>) else None)"

lemma try_move_moves: "try_move cfg glob unpack tp s l = Some s' \<longleftrightarrow> thread_moves cfg glob unpack tp s l s'"
proof
  show "try_move cfg glob unpack tp s l = Some s' \<Longrightarrow> thread_moves cfg glob unpack tp s l s'"
    by (cases l) (auto split: if_splits reader_pc.splits list.splits intro: thread_moves.intros)
  show "thread_moves cfg glob unpack tp s l s' \<Longrightarrow> try_move cfg glob unpack tp s l = Some s'"
    by (induction rule: thread_moves.induct) simp_all
qed

fun try_run ::
  "config \<Rightarrow> (string \<Rightarrow> string \<Rightarrow> bool) \<Rightarrow> (u8 list \<Rightarrow> dns_rr list \<times> bool) \<Rightarrow> tick_plan \<Rightarrow>
   threads \<Rightarrow> thread_step list \<Rightarrow> threads option" where
  "try_run cfg glob unpack tp s [] = Some s"
| "try_run cfg glob unpack tp s (l # ls) =
     Option.bind (try_move cfg glob unpack tp s l) (\<lambda>s'. try_run cfg glob unpack tp s' ls)"

lemma try_run_snoc:
  "try_run cfg glob unpack tp s (ls @ [l]) =
   Option.bind (try_run cfg glob unpack tp s ls) (\<lambda>s'. try_move cfg glob unpack tp s' l)"
  by (induction ls arbitrary: s) (simp_all add: Option.bind_assoc)

lemma try_run_runs: "try_run cfg glob unpack tp s0 ls = Some s \<Longrightarrow> thread_run cfg glob unpack tp s0 ls s"
proof (induction ls arbitrary: s rule: rev_induct)
  case Nil
  then show ?case by (simp add: run_start)
next
  case (snoc l ls)
  then obtain s' where "try_run cfg glob unpack tp s0 ls = Some s'" "try_move cfg glob unpack tp s' l = Some s"
    by (auto simp: try_run_snoc bind_eq_Some_conv)
  then show ?case using snoc.IH try_move_moves run_move by blast
qed

section \<open>The policy table belongs to the tick\<close>

lemma increase_one_write:
  "increase_one cfg (changed, t) (k, e) =
   increase_write cfg (changed, t) (k, e) (GetPolicy (get_ok e) (fst k) (snd k) t)"
  by (cases k) (simp add: increase_one_def increase_write_def)

lemma decrease_one_write:
  "decrease_one cfg (changed, t) (k, e) =
   decrease_write cfg (changed, t) (k, e) (GetPolicy (get_ok e) (fst k) (snd k) t)"
  by (cases k) (simp add: decrease_one_def decrease_write_def)

text \<open>What a tick that stands at a place will make of the policy table.\<close>

fun remaining :: "config \<Rightarrow> tick_plan \<Rightarrow> tick_pc \<Rightarrow> policy list \<Rightarrow> bool \<times> policy list" where
  "remaining cfg tp (Increasing changed ms) t =
     (case foldl (increase_one cfg) (changed, t) ms of (changed', t') \<Rightarrow>
        if changed' then (changed', t') else decrease_loop cfg (tp_decs tp) t')"
| "remaining cfg tp (Increase_row changed k e r ms) t =
     (case foldl (increase_one cfg) (increase_write cfg (changed, t) (k, e) r) ms of (changed', t') \<Rightarrow>
        if changed' then (changed', t') else decrease_loop cfg (tp_decs tp) t')"
| "remaining cfg tp (Decreasing changed ms) t = foldl (decrease_one cfg) (changed, t) ms"
| "remaining cfg tp (Decrease_row changed k e r ms) t =
     foldl (decrease_one cfg) (decrease_write cfg (changed, t) (k, e) r) ms"
| "remaining cfg tp Tick_done t = (False, t)"
| "remaining cfg tp pc t = (True, t)"

lemma remaining_tick:
  "remaining cfg tp (th_tick (tick_step cfg glob tp pc s)) (th_policies (tick_step cfg glob tp pc s)) =
   remaining cfg tp pc (th_policies s)"
  if "th_tick s = pc"
  using that
  by (cases "(cfg, glob, tp, pc, s)" rule: tick_step.cases)
    (auto simp: increase_one_write decrease_one_write decrease_loop_def GetAllPolicies_def
      split: prod.split option.split)

lemma remaining_moves:
  "thread_moves cfg glob unpack tp s l s' \<Longrightarrow>
   remaining cfg tp (th_tick s') (th_policies s') = remaining cfg tp (th_tick s) (th_policies s)"
  by (induction rule: thread_moves.induct) (simp_all add: remaining_tick)

lemma remaining_run:
  "thread_run cfg glob unpack tp s0 ls s \<Longrightarrow>
   remaining cfg tp (th_tick s) (th_policies s) = remaining cfg tp (th_tick s0) (th_policies s0)"
  by (induction rule: thread_run.induct) (simp_all add: remaining_moves)

lemma remaining_start:
  "remaining cfg tp (Increasing False (tp_incs tp)) t = check_policy cfg (tp_incs tp) (tp_decs tp) t"
  by (simp add: check_policy_def increase_loop_def)

section \<open>What the others do\<close>

text \<open>The tables of DNS rows and glob groups only grow: rows stay, their times do not go back.\<close>

definition grown :: "threads \<Rightarrow> threads \<Rightarrow> bool" where
  "grown s s' \<longleftrightarrow> th_clock s \<le> th_clock s' \<and> (\<exists>new. th_globs s' = th_globs s @ new) \<and>
     (\<forall>k r. table_map dns_key (th_dns s) k = Some r \<longrightarrow>
        (\<exists>r'. table_map dns_key (th_dns s') k = Some r' \<and> dns_tstamp r \<le> dns_tstamp r'))"

text \<open>What holds of all states: times lie in the past, and readers hold A records of four octets.\<close>

fun reader_ok :: "reader_pc \<Rightarrow> bool" where
  "reader_ok Reading = True"
| "reader_ok (Storing xs) = (\<forall>x \<in> set xs. valid_rr (fst x))"

definition threads_ok :: "threads \<Rightarrow> bool" where
  "threads_ok s \<longleftrightarrow> dns_ok (th_dns s) \<and> (\<forall>r \<in> set (th_dns s). dns_tstamp r \<le> th_clock s) \<and>
     (\<forall>r \<in> set (th_readers s). reader_ok r)"

lemma grown_refl: "grown s s"
  by (auto simp: grown_def)

lemma grown_trans: "grown s s' \<Longrightarrow> grown s' s'' \<Longrightarrow> grown s s''"
  unfolding grown_def by (force intro: order_trans)

lemma tick_step_others [simp]:
  "th_globs (tick_step cfg glob tp pc s) = th_globs s" "th_dns (tick_step cfg glob tp pc s) = th_dns s"
  "th_clock (tick_step cfg glob tp pc s) = th_clock s" "th_readers (tick_step cfg glob tp pc s) = th_readers s"
  by (cases "(cfg, glob, tp, pc, s)" rule: tick_step.cases; simp split: prod.split)+

lemma grown_store:
  assumes "\<forall>r \<in> set t. dns_tstamp r \<le> now" and "table_map dns_key t k = Some r"
  shows "\<exists>r'. table_map dns_key (store_answer t (rr, ok, now)) k = Some r' \<and> dns_tstamp r \<le> dns_tstamp r'"
  using assms table_map_key [OF assms(2)] by (auto simp: dns_key_store_answer split: dns_rr.split)

lemma moves_grown: "thread_moves cfg glob unpack tp s l s' \<Longrightarrow> threads_ok s \<Longrightarrow> grown s s'"
  by (induction rule: thread_moves.induct)
    (auto simp: grown_def threads_ok_def grown_store AddGlob_def)

lemma moves_ok:
  assumes "thread_moves cfg glob unpack tp s l s'" and "threads_ok s"
    and "\<forall>sample. \<forall>rr \<in> set (fst (unpack sample)). valid_rr rr"
  shows "threads_ok s'"
  using assms(1,2)
proof (induction rule: thread_moves.induct)
  case (move_read i s oks sample)
  have "valid_rr (fst x)" if "x \<in> set (zip (fst (unpack sample)) oks)" for x
    using that assms(3) by (metis prod.collapse set_zip_leftD)
  with move_read show ?case
    by (auto simp: threads_ok_def simp del: split_paired_All dest!: subsetD [OF set_update_subset_insert])
next
  case (move_store i s rr ok xs)
  have "reader_ok (Storing ((rr, ok) # xs))"
    using move_store by (metis nth_mem threads_ok_def)
  then have "valid_rr rr" "reader_ok (Storing xs)" by simp_all
  moreover have "dns_tstamp r \<le> th_clock s" if "r \<in> set (store_answer (th_dns s) (rr, ok, th_clock s))" for r
    using dns_rows_store_answer [OF that] move_store.prems by (auto simp: threads_ok_def)
  ultimately show ?case
    using move_store.prems dns_ok_store_answer [of "th_dns s" "(rr, ok, th_clock s)"]
    by (auto simp: threads_ok_def dest!: subsetD [OF set_update_subset_insert])
next
  case (move_next i s)
  then show ?case by (auto simp: threads_ok_def dest!: subsetD [OF set_update_subset_insert])
next
  case (move_clock s now)
  then show ?case by (force simp: threads_ok_def)
qed (auto simp: threads_ok_def)

lemma run_facts:
  assumes "thread_run cfg glob unpack tp s0 ls s" and "threads_ok s0"
    and "\<forall>sample. \<forall>rr \<in> set (fst (unpack sample)). valid_rr rr"
  shows "threads_ok s \<and> grown s0 s"
  using assms(1)
proof induction
  case run_start
  with assms(2) show ?case by (simp add: grown_refl)
next
  case (run_move ls s l s')
  then show ?case using moves_ok [OF _ _ assms(3)] moves_grown grown_trans by blast
qed

section \<open>What a tick applies\<close>

text \<open>The IP policies of a policy, with the tables and the time at which its two queries were answered.\<close>

definition made_at :: "(string \<Rightarrow> string \<Rightarrow> bool) \<Rightarrow> policy \<times> threads \<Rightarrow> ip_policy list" where
  "made_at glob x = (case x of (p, v) \<Rightarrow>
     ip_policies_of glob (th_globs v) (th_dns v) (p, True, True, th_clock v))"

definition seen_between :: "threads \<Rightarrow> threads \<Rightarrow> policy \<times> threads \<Rightarrow> bool" where
  "seen_between s0 s x \<longleftrightarrow> threads_ok (snd x) \<and> grown s0 (snd x) \<and> grown (snd x) s \<and>
     GlobGroup (fst x) \<in> Name ` set (th_globs (snd x))"

definition made_of :: "(string \<Rightarrow> string \<Rightarrow> bool) \<Rightarrow> threads \<Rightarrow> threads \<Rightarrow> policy list \<Rightarrow> ip_policy list \<Rightarrow> bool" where
  "made_of glob s0 s ps ips \<longleftrightarrow>
     (\<exists>xs. map fst xs = ps \<and> ips = concat (map (made_at glob) xs) \<and> (\<forall>x \<in> set xs. seen_between s0 s x))"

lemma made_of_later: "made_of glob s0 s ps ips \<Longrightarrow> grown s s' \<Longrightarrow> made_of glob s0 s' ps ips"
  unfolding made_of_def seen_between_def using grown_trans by blast

lemma made_of_snoc:
  assumes "made_of glob s0 s ps ips" and "seen_between s0 s (p, s)"
  shows "made_of glob s0 s (ps @ [p]) (ips @ made_at glob (p, s))"
proof -
  obtain xs where "map fst xs = ps" "ips = concat (map (made_at glob) xs)" "\<forall>x \<in> set xs. seen_between s0 s x"
    using assms(1) by (auto simp: made_of_def)
  with assms(2) show ?thesis by (auto simp: made_of_def intro!: exI [of _ "xs @ [(p, s)]"])
qed

text \<open>The place of a tick: the policies it has done and those to come are those of the table.\<close>

fun place_ok :: "(string \<Rightarrow> string \<Rightarrow> bool) \<Rightarrow> threads \<Rightarrow> threads \<Rightarrow> tick_pc \<Rightarrow> bool" where
  "place_ok glob s0 s (Applying todo ips) \<longleftrightarrow>
     (\<exists>ps. ps @ map fst todo = th_policies s \<and> made_of glob s0 s ps ips)"
| "place_ok glob s0 s (Matching p gg ips_ok todo ips) \<longleftrightarrow>
     (\<exists>ps. ps @ p # map fst todo = th_policies s \<and> made_of glob s0 s ps ips \<and>
        GetGlob True (GlobGroup p) (th_globs s) = Some gg)"
| "place_ok glob s0 s (Installing ips) \<longleftrightarrow> made_of glob s0 s (th_policies s) ips"
| "place_ok glob s0 s pc \<longleftrightarrow> True"

lemma GetGlob_grown:
  "GetGlob True n globs = Some gg \<Longrightarrow> GetGlob True n (globs @ new) = Some gg"
  by (simp add: GetGlob_def) (induction globs, auto)

lemma place_ok_others:
  assumes "place_ok glob s0 s (th_tick s)" and "grown s s'" and "th_tick s' = th_tick s" and "th_policies s' = th_policies s"
  shows "place_ok glob s0 s' (th_tick s')"
proof (cases "th_tick s")
  case (Matching p gg ips_ok todo ips)
  moreover obtain new where "th_globs s' = th_globs s @ new" using assms(2) by (auto simp: grown_def)
  ultimately show ?thesis using assms made_of_later [OF _ assms(2)] GetGlob_grown by fastforce
qed (use assms made_of_later [OF _ assms(2)] in auto)

lemma seen_now:
  "threads_ok s \<Longrightarrow> grown s0 s \<Longrightarrow> GetGlob True (GlobGroup p) (th_globs s) = Some gg \<Longrightarrow> seen_between s0 s (p, s)"
  using GetGlob_None [of "GlobGroup p" "th_globs s"] by (auto simp: seen_between_def grown_refl)

lemma made_at_eq:
  "GetGlob True (GlobGroup p) (th_globs s) = Some gg \<Longrightarrow>
   GetIPsMatchingGlob True glob (th_clock s) gg (th_dns s) = Some ipstr \<Longrightarrow>
   made_at glob (p, s) = map (\<lambda>ip. \<lparr>SrcIpAddr = replace_all CHR ''.'' CHR '','' (SrcIp p),
     DestIpAddr = replace_all CHR ''.'' CHR '','' ip, ClassId = Class p\<rparr>) ipstr"
  by (simp add: made_at_def ip_policies_of_def GetIpPolicies_def)

lemma GetGlob_ok: "GetGlob ok n globs = Some gg \<Longrightarrow> GetGlob True n globs = Some gg"
  by (cases ok) (simp_all add: GetGlob_def)

lemma GetIPs_ok:
  "GetIPsMatchingGlob ok glob now gg dns = Some ips \<Longrightarrow> GetIPsMatchingGlob True glob now gg dns = Some ips"
  by (cases ok) (simp_all add: GetIPsMatchingGlob_def)

lemma grown_tick: "grown s (s\<lparr>th_tick := pc\<rparr>)"
  by (auto simp: grown_def)

lemma made_of_tick: "made_of glob s0 s ps ips \<Longrightarrow> made_of glob s0 (s\<lparr>th_tick := pc\<rparr>) ps ips"
  by (rule made_of_later [OF _ grown_tick])

lemma place_ok_tick:
  assumes "threads_ok s" and "grown s0 s" and "place_ok glob s0 s (th_tick s)"
    and "th_tick s = Apply_start \<Longrightarrow> length (tp_answers tp) = length (th_policies s)"
  shows "place_ok glob s0 (tick_step cfg glob tp (th_tick s) s) (th_tick (tick_step cfg glob tp (th_tick s) s))"
proof (cases "th_tick s")
  case (Increasing changed ms)
  then show ?thesis by (cases ms) auto
next
  case (Decreasing changed ms)
  then show ?thesis by (cases ms) auto
next
  case Apply_start
  from assms(4) [OF this] have "made_of glob s0 s [] [] \<and> map fst (zip (th_policies s) (tp_answers tp)) = th_policies s"
    by (simp add: made_of_def)
  with Apply_start show ?thesis by (auto simp: GetAllPolicies_def intro!: exI [of _ "[]"] made_of_tick)
next
  case (Applying todo ips)
  show ?thesis
  proof (cases todo)
    case Nil
    with Applying assms(3) show ?thesis by (auto intro: made_of_tick)
  next
    case (Cons x todo')
    obtain p glob_ok ips_ok where x: "x = (p, glob_ok, ips_ok)" by (cases x)
    from assms(3) Applying Cons obtain ps where ps: "ps @ p # map fst todo' = th_policies s" "made_of glob s0 s ps ips"
      by (auto simp: x)
    show ?thesis
    proof (cases "GetGlob glob_ok (GlobGroup p) (th_globs s)")
      case (Some gg)
      with Applying Cons ps GetGlob_ok [OF Some] show ?thesis by (auto simp: x intro!: exI [of _ ps] made_of_tick)
    qed (use Applying Cons in \<open>simp add: x\<close>)
  qed
next
  case (Matching p gg ips_ok todo ips)
  with assms(3) obtain ps where ps: "ps @ p # map fst todo = th_policies s" "made_of glob s0 s ps ips"
      "GetGlob True (GlobGroup p) (th_globs s) = Some gg" by auto
  show ?thesis
  proof (cases "GetIPsMatchingGlob ips_ok glob (th_clock s) gg (th_dns s)")
    case (Some ipstr)
    have "made_of glob s0 s (ps @ [p]) (ips @ made_at glob (p, s))"
      by (rule made_of_snoc [OF ps(2) seen_now [OF assms(1,2) ps(3)]])
    moreover have "(ps @ [p]) @ map fst todo = th_policies s" using ps(1) by simp
    ultimately show ?thesis
      using Matching Some made_at_eq [OF ps(3) GetIPs_ok [OF Some]]
      by (auto intro!: exI [of _ "ps @ [p]"] made_of_tick)
  qed (use Matching in simp)
qed (use assms(3) in \<open>simp_all split: prod.split\<close>)

text \<open>A tick panics only when a read fails or a group is missing.\<close>

definition no_panic :: "tick_plan \<Rightarrow> threads \<Rightarrow> bool" where
  "no_panic tp s \<longleftrightarrow>
     (case th_tick s of
        Applying todo ips \<Rightarrow> \<forall>x \<in> set todo. snd x = (True, True) \<and> GlobGroup (fst x) \<in> Name ` set (th_globs s)
      | Matching p gg ips_ok todo ips \<Rightarrow>
          ips_ok \<and> (\<forall>x \<in> set todo. snd x = (True, True) \<and> GlobGroup (fst x) \<in> Name ` set (th_globs s))
      | Tick_panic \<Rightarrow> False
      | _ \<Rightarrow> True)"

lemma no_panic_tick:
  assumes "no_panic tp s" and "tp_all_ok tp" and "\<forall>a \<in> set (tp_answers tp). a = (True, True)"
    and "th_tick s = Apply_start \<Longrightarrow> \<forall>p \<in> set (th_policies s). GlobGroup p \<in> Name ` set (th_globs s)"
  shows "no_panic tp (tick_step cfg glob tp (th_tick s) s)"
proof (cases "th_tick s")
  case (Increasing changed ms)
  then show ?thesis by (cases ms) (auto simp: no_panic_def)
next
  case (Decreasing changed ms)
  then show ?thesis by (cases ms) (auto simp: no_panic_def)
next
  case Apply_start
  from assms(4) [OF this] assms(3) have "\<forall>x \<in> set (zip (th_policies s) (tp_answers tp)).
      snd x = (True, True) \<and> GlobGroup (fst x) \<in> Name ` set (th_globs s)"
    by (auto elim!: in_set_zipE)
  with Apply_start assms(2) show ?thesis by (simp add: no_panic_def GetAllPolicies_def)
next
  case (Applying todo ips)
  show ?thesis
  proof (cases todo)
    case (Cons x todo')
    obtain p glob_ok ips_ok where x: "x = (p, glob_ok, ips_ok)" by (cases x)
    with assms(1) Applying Cons obtain gg where "GetGlob glob_ok (GlobGroup p) (th_globs s) = Some gg"
      using GetGlob_None [of "GlobGroup p" "th_globs s"] by (auto simp: no_panic_def)
    with assms(1) Applying Cons show ?thesis by (simp add: no_panic_def x)
  qed (use Applying in \<open>simp add: no_panic_def\<close>)
next
  case (Matching p gg ips_ok todo ips)
  with assms(1) show ?thesis by (simp add: no_panic_def GetIPsMatchingGlob_def)
qed (use assms(1) in \<open>simp_all add: no_panic_def split: prod.split\<close>)

lemma no_panic_moves:
  assumes "thread_moves cfg glob unpack tp s l s'" and "no_panic tp s" and "tp_all_ok tp"
    and "\<forall>a \<in> set (tp_answers tp). a = (True, True)"
    and "th_tick s = Apply_start \<Longrightarrow> \<forall>p \<in> set (th_policies s). GlobGroup p \<in> Name ` set (th_globs s)"
  shows "no_panic tp s'"
  using assms
proof (induction rule: thread_moves.induct)
  case (move_tick s)
  then show ?case using no_panic_tick by blast
next
  case (move_web s ok g)
  then show ?case by (auto simp: no_panic_def AddGlob_def split: tick_pc.splits)
qed (simp_all add: no_panic_def split: tick_pc.splits)

lemma other_moves:
  "thread_moves cfg glob unpack tp s l s' \<Longrightarrow> l \<noteq> Tick_step \<Longrightarrow> th_tick s' = th_tick s \<and> th_policies s' = th_policies s"
  by (induction rule: thread_moves.induct) simp_all

lemma tick_moves:
  "thread_moves cfg glob unpack tp s Tick_step s' \<Longrightarrow> s' = tick_step cfg glob tp (th_tick s) s \<and> \<not> tick_over (th_tick s)"
  by (auto elim: thread_movesE)

text \<open>A tick from its start: the table it has when it applies the policies is that of \<open>check_policy\<close>.\<close>

lemma tick_run:
  assumes "thread_run cfg glob unpack tp s0 ls s" and "th_tick s0 = Increasing False (tp_incs tp)"
    and "threads_ok s0" and "\<forall>sample. \<forall>rr \<in> set (fst (unpack sample)). valid_rr rr"
    and "check_policy cfg (tp_incs tp) (tp_decs tp) (th_policies s0) = (changed, t)"
    and "length (tp_answers tp) = length t"
  shows "remaining cfg tp (th_tick s) (th_policies s) = (changed, t) \<and> threads_ok s \<and> grown s0 s \<and>
    place_ok glob s0 s (th_tick s)"
  using assms(1)
proof induction
  case run_start
  show ?case using assms(2,3,5) by (simp add: remaining_start grown_refl del: remaining.simps(1))
next
  case (run_move ls s l s')
  have run: "thread_run cfg glob unpack tp s0 (ls @ [l]) s'" using run_move.hyps by (rule thread_run.run_move)
  have "place_ok glob s0 s' (th_tick s')"
  proof (cases "l = Tick_step")
    case True
    have "length (tp_answers tp) = length (th_policies s)" if "th_tick s = Apply_start"
      using run_move.IH that assms(6) by simp
    moreover have "s' = tick_step cfg glob tp (th_tick s) s" using tick_moves run_move.hyps(2) True by blast
    ultimately show ?thesis using place_ok_tick run_move.IH by blast
  next
    case False
    have "grown s s'" using moves_grown [OF run_move.hyps(2)] run_move.IH by blast
    then show ?thesis
      using place_ok_others [of glob s0 s s'] other_moves [OF run_move.hyps(2) False] run_move.IH by blast
  qed
  then show ?case
    using run_facts [OF run assms(3,4)] remaining_moves [OF run_move.hyps(2)] run_move.IH by metis
qed

lemma tick_run_no_panic:
  assumes "thread_run cfg glob unpack tp s0 ls s" and "th_tick s0 = Increasing False (tp_incs tp)"
    and "threads_ok s0" and "\<forall>sample. \<forall>rr \<in> set (fst (unpack sample)). valid_rr rr"
    and "check_policy cfg (tp_incs tp) (tp_decs tp) (th_policies s0) = (changed, t)"
    and "length (tp_answers tp) = length t" and "tp_all_ok tp" and "\<forall>a \<in> set (tp_answers tp). a = (True, True)"
    and "\<forall>p \<in> set t. GlobGroup p \<in> Name ` set (th_globs s0)"
  shows "no_panic tp s"
  using assms(1)
proof induction
  case run_start
  show ?case by (simp add: no_panic_def assms(2))
next
  case (run_move ls s l s')
  have "\<forall>p \<in> set (th_policies s). GlobGroup p \<in> Name ` set (th_globs s)" if "th_tick s = Apply_start"
  proof -
    have "th_policies s = t" "grown s0 s" using tick_run [OF run_move.hyps(1) assms(2-6)] that by simp_all
    then show ?thesis using assms(9) by (auto simp: grown_def)
  qed
  then show ?case by (rule no_panic_moves [OF run_move.hyps(2) run_move.IH assms(7,8)])
qed

section \<open>The class of a packet\<close>

lemma group_grown:
  assumes "grown s v" and "n \<in> Name ` set (th_globs s)"
  shows "GetGlob True n (th_globs v) = GetGlob True n (th_globs s)"
proof -
  obtain new gg where "th_globs v = th_globs s @ new" "GetGlob True n (th_globs s) = Some gg"
    using assms GetGlob_None [of n "th_globs s"] by (auto simp: grown_def)
  then show ?thesis using GetGlob_grown by simp
qed

lemma row_grown:
  assumes "grown s v" and "dns_ok (th_dns s)" and "r \<in> set (th_dns s)"
  shows "\<exists>r' \<in> set (th_dns v). daddr r' = daddr r \<and> domain r' = domain r \<and> dns_tstamp r \<le> dns_tstamp r'"
proof -
  have "table_map dns_key (th_dns s) (dns_key r) = Some r"
    using assms(2,3) by (simp add: dns_ok_def table_map_mem)
  then obtain r' where r': "table_map dns_key (th_dns v) (dns_key r) = Some r'" "dns_tstamp r \<le> dns_tstamp r'"
    using assms(1) unfolding grown_def by blast
  then show ?thesis using table_map_key [OF r'(1)] by (auto simp: dns_key_def)
qed

text \<open>A pair that a policy governs in the tables of the start at the time of the end is governed when the
  tables are read, and one governed then is governed in the tables of the end at some time in
  between.\<close>

lemma governs_later:
  assumes "grown s v" and "threads_ok s" and "threads_ok v" and "GlobGroup p \<in> Name ` set (th_globs s)"
    and "th_clock v \<le> now" and "governs glob now (th_globs s) (th_dns s) client remote p"
  shows "governs glob (th_clock v) (th_globs v) (th_dns v) client remote p"
proof -
  let ?gg = "the (GetGlob True (GlobGroup p) (th_globs s))"
  from assms(6) obtain r where r: "SrcIp p = ip_string client" "r \<in> set (th_dns s)" "daddr r = ip_string remote"
      "recent_row now r" "glob (Glob ?gg) (domain r)" by (auto simp: governs_def)
  from row_grown [OF assms(1) _ r(2)] assms(2) obtain r' where r': "r' \<in> set (th_dns v)" "daddr r' = daddr r"
      "domain r' = domain r" "dns_tstamp r \<le> dns_tstamp r'" by (auto simp: threads_ok_def)
  have "dns_tstamp r' \<le> th_clock v" using assms(3) r'(1) by (simp add: threads_ok_def)
  then have "day_of (dns_tstamp r') \<le> day_of (th_clock v)" "day_of (th_clock v) \<le> day_of now"
      "day_of (dns_tstamp r) \<le> day_of (dns_tstamp r')"
    using assms(5) r'(4) by (simp_all add: day_of_def zdiv_mono1)
  then have "recent_row (th_clock v) r'" using r(4) by (auto simp: recent_row_def)
  then show ?thesis
    using r r' group_grown [OF assms(1,4)] by (auto simp: governs_def intro!: bexI [of _ r'])
qed

lemma governs_until:
  assumes "grown v s" and "threads_ok v" and "threads_ok s" and "GlobGroup p \<in> Name ` set (th_globs v)"
    and "governs glob (th_clock v) (th_globs v) (th_dns v) client remote p"
  shows "\<exists>now \<in> {th_clock v..th_clock s}. governs glob now (th_globs s) (th_dns s) client remote p"
proof -
  let ?gg = "the (GetGlob True (GlobGroup p) (th_globs v))"
  from assms(5) obtain r where r: "SrcIp p = ip_string client" "r \<in> set (th_dns v)" "daddr r = ip_string remote"
      "recent_row (th_clock v) r" "glob (Glob ?gg) (domain r)" by (auto simp: governs_def)
  from row_grown [OF assms(1) _ r(2)] assms(2) obtain r' where r': "r' \<in> set (th_dns s)" "daddr r' = daddr r"
      "domain r' = domain r" "dns_tstamp r \<le> dns_tstamp r'" by (auto simp: threads_ok_def)
  define now where "now = max (th_clock v) (dns_tstamp r')"
  have "dns_tstamp r' \<le> th_clock s" "th_clock v \<le> th_clock s"
    using assms(1,3) r'(1) by (simp_all add: threads_ok_def grown_def)
  then have range: "now \<in> {th_clock v..th_clock s}" by (simp add: now_def)
  have "recent_row now r'"
  proof (cases "dns_tstamp r' \<le> th_clock v")
    case True
    then have "day_of (dns_tstamp r') \<le> day_of (th_clock v)" "day_of (dns_tstamp r) \<le> day_of (dns_tstamp r')"
      using r'(4) by (simp_all add: day_of_def zdiv_mono1)
    with True r(4) show ?thesis by (simp add: now_def recent_row_def max_def)
  qed (simp add: now_def recent_row_def max_def)
  then have "governs glob now (th_globs s) (th_dns s) client remote p"
    using r r' group_grown [OF assms(1,4)] by (auto simp: governs_def intro!: bexI [of _ r'])
  with range show ?thesis by blast
qed

text \<open>The rules made of a table whose policies were answered at different moments.\<close>

lemma made_rules:
  assumes "made_of glob s0 s t ips" and "table_ok cfg t" and "NumQdiscClasses cfg \<le> 8" and "addresses_ok t"
    and "is_ipv4_frame LittleEndian skb"
  shows "\<exists>rules xs. compile_rules ips = Some rules \<and> map fst xs = t \<and> (\<forall>x \<in> set xs. seen_between s0 s x) \<and>
    map rule_class (filter (rule_applies LittleEndian skb) rules) =
      map (\<lambda>x. word_of_int (16 * (Class (fst x) div 10)))
        (filter (\<lambda>(p, v). governs glob (th_clock v) (th_globs v) (th_dns v) (dst_bytes skb) (src_bytes skb) p) xs)"
proof -
  let ?gov = "\<lambda>(p, v). governs glob (th_clock v) (th_globs v) (th_dns v) (dst_bytes skb) (src_bytes skb) p"
  from assms(1) obtain xs where xs: "map fst xs = t" "ips = concat (map (made_at glob) xs)"
      "\<forall>x \<in> set xs. seen_between s0 s x" by (auto simp: made_of_def)
  have "\<exists>rules. compile_rules (made_at glob x) = Some rules \<and>
      map rule_class (filter (rule_applies LittleEndian skb) rules) =
        (if ?gov x then [word_of_int (16 * (Class (fst x) div 10))] else [])" if x: "x \<in> set xs" for x
  proof -
    obtain p v where pv: "x = (p, v)" by (cases x)
    have p: "p \<in> set t" using x xs(1) pv by force
    then obtain client where client: "length client = 4" "SrcIp p = ip_string client"
      using assms(4) by (auto simp: addresses_ok_def)
    have "class_ok cfg (Class p)" using p assms(2) by (simp add: table_ok_def)
    moreover from this assms(3) have "Class p < 100" by (auto simp: class_ok_def)
    moreover have "dns_ok (th_dns v)" "GlobGroup p \<in> Name ` set (th_globs v)"
      using xs(3) x by (auto simp: pv seen_between_def threads_ok_def)
    ultimately show ?thesis
      using rules_of_policy [of "th_dns v" p "th_globs v" client cfg skb glob "th_clock v"] client assms(5)
      by (auto simp: pv made_at_def)
  qed
  then have "\<forall>x \<in> set xs. \<exists>rules. compile_rules (made_at glob x) = Some rules \<and>
      map rule_class (filter (rule_applies LittleEndian skb) rules) =
        (if ?gov x then [word_of_int (16 * (Class (fst x) div 10))] else [])" by blast
  from compile_rules_concat [OF this] xs show ?thesis by (auto simp: concat_singletons)
qed

lemma filter_keyed:
  assumes "distinct (map fst xs)"
  shows "filter P xs = filter (\<lambda>x. \<exists>v. (fst x, v) \<in> set xs \<and> P (fst x, v)) xs"
proof (rule filter_cong [OF refl])
  fix x
  assume x: "x \<in> set xs"
  have "v = snd x" if "(fst x, v) \<in> set xs" for v
    using eq_key_imp_eq_value [OF assms that] x by simp
  with x show "P x \<longleftrightarrow> (\<exists>v. (fst x, v) \<in> set xs \<and> P (fst x, v))" by (metis prod.collapse)
qed

lemma chosen_class:
  assumes "table_ok cfg t" and "map rule_class (filter (rule_applies LittleEndian skb) rules) =
    map (\<lambda>p. word_of_int (16 * (Class p div 10))) (filter chosen t)"
  shows "final_class LittleEndian rules skb =
    (case rev (filter chosen t) of [] \<Rightarrow> skb_tc_classid skb | p # _ \<Rightarrow> word_of_int (16 * level t (policy_key p)))"
proof (cases "rev (filter chosen t)")
  case (Cons p ps)
  then have "p \<in> set t" by (metis filter_is_subset list.set_intros(1) set_rev subsetD)
  then have "level t (policy_key p) = Class p div 10"
    using table_map_mem [OF table_ok_keys [OF assms(1)]] by (simp add: level_def row_level_def)
  with Cons show ?thesis by (simp add: final_class_classes assms(2) rev_map)
qed (simp add: final_class_classes assms(2) rev_map)

text \<open>C15: Whatever the other goroutines do between the statements of a tick - store DNS answers, add glob
  groups, let time pass - the tick makes the policy table it would make alone, and the program it
  then has compiled assigns a packet the class of the last of some chosen policies of that table:
  every policy is chosen that governs the packet's addresses in the tables at the start of the tick
  by the time of its end, and no policy is chosen that does not govern them in the tables at the end
  at some time in between. The tick never panics when the database answers and the groups of its
  policies were there at the start.\<close>

theorem tick_among_goroutines:
  assumes "thread_run cfg glob unpack tp s0 ls s" and "th_tick s0 = Increasing False (tp_incs tp)"
    and "threads_ok s0" and "\<forall>sample. \<forall>rr \<in> set (fst (unpack sample)). valid_rr rr"
    and "check_policy cfg (tp_incs tp) (tp_decs tp) (th_policies s0) = (changed, t)"
    and "length (tp_answers tp) = length t" and "tp_all_ok tp" and "\<forall>a \<in> set (tp_answers tp). a = (True, True)"
    and "\<forall>p \<in> set t. GlobGroup p \<in> Name ` set (th_globs s0)"
    and "table_ok cfg t" and "NumQdiscClasses cfg \<le> 8" and "addresses_ok t"
    and "is_ipv4_frame LittleEndian skb" and "tick_over (th_tick s)"
  shows "th_policies s = t \<and>
    (if changed then
       \<exists>ips rules chosen. th_tick s = Installing ips \<and> compile_rules ips = Some rules \<and>
         final_class LittleEndian rules skb =
           (case rev (filter chosen t) of
              [] \<Rightarrow> skb_tc_classid skb
            | p # _ \<Rightarrow> word_of_int (16 * level t (policy_key p))) \<and>
         (\<forall>p \<in> set t. governs glob (th_clock s) (th_globs s0) (th_dns s0) (dst_bytes skb) (src_bytes skb) p \<longrightarrow>
            chosen p) \<and>
         (\<forall>p \<in> set t. chosen p \<longrightarrow> (\<exists>now \<in> {th_clock s0..th_clock s}.
            governs glob now (th_globs s) (th_dns s) (dst_bytes skb) (src_bytes skb) p))
     else th_tick s = Tick_done)"
proof -
  have run: "remaining cfg tp (th_tick s) (th_policies s) = (changed, t)" "threads_ok s" "grown s0 s"
      "place_ok glob s0 s (th_tick s)"
    using tick_run [OF assms(1-6)] by simp_all
  have "no_panic tp s" by (rule tick_run_no_panic [OF assms(1-9)])
  with assms(14) consider (install) ips where "th_tick s = Installing ips" | (idle) "th_tick s = Tick_done"
    by (cases "th_tick s") (auto simp: no_panic_def)
  then show ?thesis
  proof cases
    case idle
    with run(1) show ?thesis by simp
  next
    case install
    then have s: "changed" "th_policies s = t" "made_of glob s0 s t ips" using run(1,4) by auto
    let ?gov = "\<lambda>(p, v). governs glob (th_clock v) (th_globs v) (th_dns v) (dst_bytes skb) (src_bytes skb) p"
    obtain rules xs where rules: "compile_rules ips = Some rules" "map fst xs = t" "\<forall>x \<in> set xs. seen_between s0 s x"
        "map rule_class (filter (rule_applies LittleEndian skb) rules) =
          map (\<lambda>x. word_of_int (16 * (Class (fst x) div 10))) (filter ?gov xs)"
      using made_rules [OF s(3) assms(10-13)] by blast
    define chosen where "chosen p \<longleftrightarrow> (\<exists>v. (p, v) \<in> set xs \<and> ?gov (p, v))" for p
    have dist: "distinct (map fst xs)"
      using table_ok_keys [OF assms(10)] rules(2) by (simp add: keys_ok_def distinct_map)
    have "filter ?gov xs = filter (\<lambda>x. chosen (fst x)) xs"
      unfolding chosen_def by (rule filter_keyed [OF dist])
    then have "map (\<lambda>x. word_of_int (16 * (Class (fst x) div 10)) :: u32) (filter ?gov xs) =
        map (\<lambda>p. word_of_int (16 * (Class p div 10))) (filter chosen t)"
      by (simp add: rules(2) [symmetric] filter_map comp_def)
    then have cls: "final_class LittleEndian rules skb =
        (case rev (filter chosen t) of [] \<Rightarrow> skb_tc_classid skb | p # _ \<Rightarrow> word_of_int (16 * level t (policy_key p)))"
      using chosen_class [OF assms(10)] rules(4) by simp
    have "chosen p" if p: "p \<in> set t"
        "governs glob (th_clock s) (th_globs s0) (th_dns s0) (dst_bytes skb) (src_bytes skb) p" for p
    proof -
      from p(1) rules(2) obtain v where v: "(p, v) \<in> set xs" by force
      with rules(3) have "seen_between s0 s (p, v)" by blast
      then show ?thesis
        using governs_later [OF _ assms(3) _ _ _ p(2), of v] p(1) assms(9) v
        by (auto simp: chosen_def seen_between_def grown_def)
    qed
    moreover have "\<exists>now \<in> {th_clock s0..th_clock s}.
        governs glob now (th_globs s) (th_dns s) (dst_bytes skb) (src_bytes skb) p" if "chosen p" for p
    proof -
      from that obtain v where v: "(p, v) \<in> set xs" "?gov (p, v)" by (auto simp: chosen_def)
      with rules(3) have seen: "seen_between s0 s (p, v)" by blast
      then have v': "grown v s" "threads_ok v" "GlobGroup p \<in> Name ` set (th_globs v)"
        by (simp_all add: seen_between_def)
      obtain now where "now \<in> {th_clock v..th_clock s}"
          "governs glob now (th_globs s) (th_dns s) (dst_bytes skb) (src_bytes skb) p"
        using governs_until [OF v'(1,2) run(2) v'(3), of glob "dst_bytes skb" "src_bytes skb"] v(2) by auto
      moreover have "th_clock s0 \<le> th_clock v" using seen by (simp add: seen_between_def grown_def)
      ultimately show ?thesis by (auto intro!: bexI [of _ now])
    qed
    ultimately have "\<exists>ips rules chosen. th_tick s = Installing ips \<and> compile_rules ips = Some rules \<and>
        final_class LittleEndian rules skb =
          (case rev (filter chosen t) of [] \<Rightarrow> skb_tc_classid skb | p # _ \<Rightarrow> word_of_int (16 * level t (policy_key p))) \<and>
        (\<forall>p \<in> set t. governs glob (th_clock s) (th_globs s0) (th_dns s0) (dst_bytes skb) (src_bytes skb) p \<longrightarrow> chosen p) \<and>
        (\<forall>p \<in> set t. chosen p \<longrightarrow> (\<exists>now \<in> {th_clock s0..th_clock s}.
           governs glob now (th_globs s) (th_dns s) (dst_bytes skb) (src_bytes skb) p))"
      using install rules(1) cls by blast
    with s(1,2) show ?thesis by (simp only: if_True simp_thms)
  qed
qed

text \<open>The demonstration: between the statements of a tick that raises a pair from level 1 to level 2, a
  reader stores an answer, a group is added and a second passes.\<close>

definition demo_unpack :: "u8 list \<Rightarrow> dns_rr list \<times> bool" where
  "demo_unpack sample = ([RR_A ''w.example.'' [142, 251, 33, 175]], False)"

definition demo_plan :: tick_plan where
  "demo_plan = \<lparr>tp_incs = [(demo_pair, demo_env)], tp_decs = [], tp_all_ok = True, tp_answers = [(True, True)]\<rparr>"

definition demo_threads :: threads where
  "demo_threads = \<lparr>th_tick = Increasing False (tp_incs demo_plan), th_readers = [Reading, Reading],
     th_policies = demo_table 10, th_globs = [demo_group],
     th_dns = [dns_row_of ''v.example.'' [142, 251, 33, 174] 1000], th_clock = 1000\<rparr>"

definition demo_moves :: "thread_step list" where
  "demo_moves = [Tick_step, Read_step 1 [] [True], Tick_step, Clock_step 1001, Tick_step, Tick_step,
     Web_step True (demo_group\<lparr>Name := ''other''\<rparr>), Tick_step,
     Store_step 1 (RR_A ''w.example.'' [142, 251, 33, 175]) True 1001, Tick_step, Next_step 1, Tick_step]"

lemma demo_threads_run:
  "\<exists>s. thread_run demo_cfg (=) demo_unpack demo_plan demo_threads demo_moves s \<and> tick_over (th_tick s) \<and> th_clock s = 1001"
proof -
  have "case try_run demo_cfg (=) demo_unpack demo_plan demo_threads demo_moves of
      None \<Rightarrow> False | Some s \<Rightarrow> tick_over (th_tick s) \<and> th_clock s = 1001"
    by code_simp
  then show ?thesis by (auto intro: try_run_runs split: option.splits)
qed

theorem tick_among_goroutines_witness:
  "\<exists>s ips rules. thread_run demo_cfg (=) demo_unpack demo_plan demo_threads demo_moves s \<and>
     th_policies s = demo_table 20 \<and> th_tick s = Installing ips \<and> compile_rules ips = Some rules \<and>
     final_class LittleEndian rules demo_skb = 32"
proof -
  obtain s where s: "thread_run demo_cfg (=) demo_unpack demo_plan demo_threads demo_moves s" "tick_over (th_tick s)"
      "th_clock s = 1001" using demo_threads_run by blast
  let ?client = "[192, 168, 0, 14] :: u8 list" and ?remote = "[142, 251, 33, 174] :: u8 list"
  have client: "ip_string ?client = ''192.168.0.14''" by code_simp
  have addr: "SrcIp (policy_row demo_pair 20 1700000000) = ip_string ?client"
    unfolding client by (simp add: policy_row_def demo_pair_def)
  have frame: "is_ipv4_frame LittleEndian demo_skb" "dst_bytes demo_skb = ?client" "src_bytes demo_skb = ?remote"
    by (simp_all add: demo_skb_def mk_frame_parts)
  have gov: "governs (=) 1001 (th_globs demo_threads) (th_dns demo_threads) ?client ?remote
      (policy_row demo_pair 20 1700000000)"
    using addr by (simp add: governs_def demo_threads_def recent_row_def day_of_def GetGlob_def demo_group_def policy_row_def
        demo_pair_def del: ip_string.simps)
  have "dns_ok (th_dns demo_threads)"
    by (auto intro!: exI [of _ ?remote] simp: demo_threads_def dns_ok_def keys_ok_def simp del: ip_string.simps)
  then have ok: "threads_ok demo_threads" by (simp add: threads_ok_def demo_threads_def)
  have check: "check_policy demo_cfg (tp_incs demo_plan) (tp_decs demo_plan) (th_policies demo_threads) = (True, demo_table 20)"
    by code_simp
  have groups: "\<forall>p \<in> set (demo_table 20). GlobGroup p \<in> Name ` set (th_globs demo_threads)"
    by (simp add: demo_table_def policy_row_def demo_pair_def demo_threads_def demo_group_def)
  have table: "table_ok demo_cfg (demo_table 20)" by code_simp
  have addrs: "addresses_ok (demo_table 20)"
    using addr unfolding addresses_ok_def demo_table_def by (auto intro!: exI [of _ ?client] simp del: ip_string.simps)
  have "th_policies s = demo_table 20 \<and> (if True then
      \<exists>ips rules chosen. th_tick s = Installing ips \<and> compile_rules ips = Some rules \<and>
         final_class LittleEndian rules demo_skb =
           (case rev (filter chosen (demo_table 20)) of
              [] \<Rightarrow> skb_tc_classid demo_skb
            | p # _ \<Rightarrow> word_of_int (16 * level (demo_table 20) (policy_key p))) \<and>
         (\<forall>p \<in> set (demo_table 20). governs (=) (th_clock s) (th_globs demo_threads) (th_dns demo_threads)
            (dst_bytes demo_skb) (src_bytes demo_skb) p \<longrightarrow> chosen p) \<and>
         (\<forall>p \<in> set (demo_table 20). chosen p \<longrightarrow> (\<exists>now \<in> {th_clock demo_threads..th_clock s}.
            governs (=) now (th_globs s) (th_dns s) (dst_bytes demo_skb) (src_bytes demo_skb) p))
     else th_tick s = Tick_done)"
    by (rule tick_among_goroutines [OF s(1) _ ok _ check _ _ _ groups table _ addrs frame(1) s(2)])
      (simp_all add: demo_threads_def demo_unpack_def valid_rr_def demo_plan_def demo_table_def demo_cfg_def baseConfig_def)
  then obtain ips rules chosen where fin: "th_policies s = demo_table 20" "th_tick s = Installing ips"
      "compile_rules ips = Some rules" "final_class LittleEndian rules demo_skb =
         (case rev (filter chosen (demo_table 20)) of [] \<Rightarrow> skb_tc_classid demo_skb
          | p # _ \<Rightarrow> word_of_int (16 * level (demo_table 20) (policy_key p)))"
      "chosen (policy_row demo_pair 20 1700000000)"
    using gov s(3) frame by (auto simp: demo_table_def simp del: ip_string.simps)
  have "level (demo_table 20) demo_pair = 2" by code_simp
  moreover have "filter chosen (demo_table 20) = [policy_row demo_pair 20 1700000000]"
    using fin(5) by (simp add: demo_table_def)
  ultimately have "final_class LittleEndian rules demo_skb = 32" using fin(4) by simp
  with s(1) fin(1-3) show ?thesis by blast
qed

section \<open>A tick ends\<close>

text \<open>How many steps a tick has before it at most.\<close>

fun work_left :: "tick_plan \<Rightarrow> tick_pc \<Rightarrow> nat" where
  "work_left tp (Increasing changed ms) = 2 * length ms + 2 * length (tp_decs tp) + 2 * length (tp_answers tp) + 4"
| "work_left tp (Increase_row changed k e r ms) = 2 * length ms + 2 * length (tp_decs tp) + 2 * length (tp_answers tp) + 5"
| "work_left tp (Decreasing changed ms) = 2 * length ms + 2 * length (tp_answers tp) + 3"
| "work_left tp (Decrease_row changed k e r ms) = 2 * length ms + 2 * length (tp_answers tp) + 4"
| "work_left tp Apply_start = 2 * length (tp_answers tp) + 2"
| "work_left tp (Applying todo ips) = 2 * length todo + 1"
| "work_left tp (Matching p gg ips_ok todo ips) = 2 * length todo + 2"
| "work_left tp pc = 0"

lemma work_decreases:
  "\<not> tick_over pc \<Longrightarrow> work_left tp (th_tick (tick_step cfg glob tp pc s)) < work_left tp pc"
  by (cases "(cfg, glob, tp, pc, s)" rule: tick_step.cases) (auto split: prod.split option.split)

lemma work_bound:
  "thread_run cfg glob unpack tp s0 ls s \<Longrightarrow>
   length (filter (\<lambda>l. l = Tick_step) ls) + work_left tp (th_tick s) \<le> work_left tp (th_tick s0)"
proof (induction rule: thread_run.induct)
  case (run_move ls s l s')
  show ?case
  proof (cases "l = Tick_step")
    case True
    then have "s' = tick_step cfg glob tp (th_tick s) s" "\<not> tick_over (th_tick s)"
      using run_move.hyps(2) tick_moves by blast+
    with work_decreases [of "th_tick s" tp cfg glob s] run_move.IH True show ?thesis by simp
  next
    case False
    with other_moves [OF run_move.hyps(2)] run_move.IH show ?thesis by simp
  qed
qed simp

lemma work_left_over: "tick_over pc \<longleftrightarrow> work_left tp pc = 0"
  by (cases pc) simp_all

text \<open>However the others are scheduled, a tick that gets as many steps has ended.\<close>

lemma tick_ends:
  assumes "thread_run cfg glob unpack tp s0 ls s"
    and "work_left tp (th_tick s0) \<le> length (filter (\<lambda>l. l = Tick_step) ls)"
  shows "tick_over (th_tick s)"
proof -
  have "work_left tp (th_tick s) = 0" using work_bound [OF assms(1)] assms(2) by linarith
  then show ?thesis by (simp only: work_left_over [of _ tp])
qed

end
