(* ===== verification/DnsReaders.thy ===== *)
theory DnsReaders
  imports Interleaving
begin

text \<open>
  The readers of DNS events that run at the same time: \<open>attachDnsSniffer\<close> (\<open>handlers/bpf.go\<close>) starts
  \<open>pollDnsResponses\<close> once per direction, so two of them store the answers of their messages one
  statement at a time into one table, in any order, as theory \<open>Interleaving\<close> has it.
\<close>

section \<open>What is read is stored\<close>

definition stored :: "thread_step list \<Rightarrow> (dns_rr \<times> bool \<times> int) list" where
  "stored ls = List.map_filter (\<lambda>l. case l of Store_step i rr ok w \<Rightarrow> Some (rr, ok, w) | _ \<Rightarrow> None) ls"

lemma stored_snoc:
  "stored (ls @ [l]) = stored ls @ (case l of Store_step i rr ok w \<Rightarrow> [(rr, ok, w)] | _ \<Rightarrow> [])"
  by (simp add: stored_def List.map_filter_def split: thread_step.split)

text \<open>The answers a reader holds, and those of the messages that have been read.\<close>

fun held :: "reader_pc \<Rightarrow> (dns_rr \<times> bool) set" where
  "held Reading = {}"
| "held (Storing xs) = set xs"

fun read_answers :: "(u8 list \<Rightarrow> dns_rr list \<times> bool) \<Rightarrow> thread_step \<Rightarrow> (dns_rr \<times> bool) set" where
  "read_answers unpack (Read_step i sample oks) = set (zip (fst (unpack sample)) oks)"
| "read_answers unpack l = {}"

lemma held_update:
  assumes "i < length rs"
  shows "\<Union> (held ` set (rs[i := r])) \<union> held (rs ! i) = \<Union> (held ` set rs) \<union> held r"
proof -
  have "insert (rs ! i) (set (rs[i := r])) = insert r (set rs)"
    using assms by (auto simp: set_conv_nth nth_list_update split: if_splits)
  then have "\<Union> (held ` insert (rs ! i) (set (rs[i := r]))) = \<Union> (held ` insert r (set rs))" by (rule arg_cong)
  then show ?thesis by auto
qed

definition written :: "thread_step list \<Rightarrow> (dns_rr \<times> bool) set" where
  "written ls = (\<lambda>(rr, ok, w). (rr, ok)) ` set (stored ls)"

definition holding :: "threads \<Rightarrow> (dns_rr \<times> bool) set" where
  "holding s = \<Union> (held ` set (th_readers s))"

definition messages :: "(u8 list \<Rightarrow> dns_rr list \<times> bool) \<Rightarrow> thread_step list \<Rightarrow> (dns_rr \<times> bool) set" where
  "messages unpack ls = \<Union> (read_answers unpack ` set ls)"

lemma written_snoc:
  "written (ls @ [l]) = written ls \<union> (case l of Store_step i rr ok w \<Rightarrow> {(rr, ok)} | _ \<Rightarrow> {})"
  by (auto simp: written_def stored_snoc split: thread_step.split)

lemma messages_snoc: "messages unpack (ls @ [l]) = messages unpack ls \<union> read_answers unpack l"
  by (auto simp: messages_def)

text \<open>Every answer of a message that was read has been stored or is still held.\<close>

lemma answers_kept:
  assumes "thread_moves cfg glob unpack tp s l s'" and "written ls \<union> holding s = messages unpack ls"
  shows "written (ls @ [l]) \<union> holding s' = messages unpack (ls @ [l])"
  using assms
proof (induction rule: thread_moves.induct)
  case (move_read i s oks sample)
  have "holding (s\<lparr>th_readers := (th_readers s)[i := Storing (zip (fst (unpack sample)) oks)]\<rparr>) =
      holding s \<union> set (zip (fst (unpack sample)) oks)"
    using held_update [OF move_read(1), of "Storing (zip (fst (unpack sample)) oks)"] move_read(2)
    by (simp add: holding_def)
  with move_read.prems show ?case by (simp add: written_snoc messages_snoc Un_assoc [symmetric])
next
  case (move_store i s rr ok xs)
  let ?s = "s\<lparr>th_readers := (th_readers s)[i := Storing xs], th_dns := store_answer (th_dns s) (rr, ok, th_clock s)\<rparr>"
  have "holding ?s \<union> insert (rr, ok) (set xs) = holding s \<union> set xs"
    using held_update [OF move_store(1), of "Storing xs"] move_store(2) by (simp add: holding_def)
  moreover have "set xs \<subseteq> holding ?s"
    using move_store(1) by (auto simp: holding_def intro!: bexI [of _ "Storing xs"] set_update_memI)
  moreover have "set xs \<subseteq> holding s"
    using nth_mem [OF move_store(1)] by (auto simp: holding_def move_store(2) intro!: bexI [of _ "th_readers s ! i"])
  ultimately have "insert (rr, ok) (holding ?s) = holding s" by blast
  with move_store.prems show ?case by (auto simp: written_snoc messages_snoc)
next
  case (move_next i s)
  have "holding (s\<lparr>th_readers := (th_readers s)[i := Reading]\<rparr>) = holding s"
    using held_update [OF move_next(1), of Reading] move_next(2) by (simp add: holding_def)
  with move_next.prems show ?case by (simp add: written_snoc messages_snoc)
qed (simp_all add: written_snoc messages_snoc holding_def)

lemma stored_run:
  assumes "thread_run cfg glob unpack tp s0 ls s" and "\<forall>r \<in> set (th_readers s0). r = Reading"
  shows "th_dns s = foldl store_answer (th_dns s0) (stored ls) \<and> th_clock s0 \<le> th_clock s \<and>
    (\<forall>x \<in> set (stored ls). th_clock s0 \<le> snd (snd x) \<and> snd (snd x) \<le> th_clock s) \<and>
    written ls \<union> holding s = messages unpack ls"
  using assms(1)
proof induction
  case run_start
  have "holding s0 = {}" using assms(2) by (force simp: holding_def)
  then show ?case by (simp add: stored_def written_def messages_def List.map_filter_def)
next
  case (run_move ls s l s')
  note IH = run_move.IH
  have "th_dns s' = foldl store_answer (th_dns s0) (stored (ls @ [l])) \<and> th_clock s \<le> th_clock s' \<and>
      (\<forall>x \<in> set (stored (ls @ [l])). x \<in> set (stored ls) \<or> snd (snd x) = th_clock s)"
    using run_move.hyps(2) IH by (induction rule: thread_moves.induct) (auto simp: stored_snoc)
  moreover have "written (ls @ [l]) \<union> holding s' = messages unpack (ls @ [l])"
    using answers_kept [OF run_move.hyps(2)] IH by blast
  ultimately show ?case using IH by fastforce
qed

text \<open>C18: However the two readers of DNS events interleave their statements, once they have stored what they
  read, the addresses of a glob group are those it had before and the addresses of all answers in
  the messages whose names match, at any time within five days of the start.\<close>

theorem concurrent_answers_found:
  assumes "thread_run cfg glob unpack tp s0 ls s" and "threads_ok s0" and "\<forall>r \<in> set (th_readers s0). r = Reading"
    and "\<forall>sample. \<forall>rr \<in> set (fst (unpack sample)). valid_rr rr" and "holding s = {}"
    and "\<forall>i sample oks. Read_step i sample oks \<in> set ls \<longrightarrow>
      oks = replicate (length (fst (unpack sample))) True"
    and "th_clock s \<le> now" and "now \<le> th_clock s0 + 5 * 86400"
  shows "set (the (GetIPsMatchingGlob True glob now g (th_dns s))) =
    \<Union> {answered (fst (unpack sample)) (glob (Glob g)) |i sample oks. Read_step i sample oks \<in> set ls} \<union>
    set (the (GetIPsMatchingGlob True glob now g (th_dns s0)))"
proof -
  note run = stored_run [OF assms(1,3)]
  have ok: "keys_ok dns_key (th_dns s0)" "keys_ok dns_key (th_dns s)"
    using assms(2) run_facts [OF assms(1,2,4)] by (simp_all add: threads_ok_def dns_ok_def)
  have "recent_row now (dns_row_of name a w)" if "(RR_A name a, True, w) \<in> set (stored ls)" for name a w
  proof -
    have "th_clock s0 \<le> w" "w \<le> th_clock s" using run that by fastforce+
    with assms(7,8) show ?thesis by (intro recent_row_from [of "th_clock s0"]) auto
  qed
  note keys = dns_key_store_answers [of "stored ls" "recent_row now", OF this]
  have "(RR_A name a, True) \<in> written ls \<longleftrightarrow> (\<exists>w. (RR_A name a, True, w) \<in> set (stored ls))" for name a
    by (force simp: written_def)
  moreover have "written ls = messages unpack ls" using run assms(5) by simp
  moreover have "(RR_A name a, True) \<in> messages unpack ls \<longleftrightarrow>
      (\<exists>i sample oks. Read_step i sample oks \<in> set ls \<and> RR_A name a \<in> set (fst (unpack sample)))" for name a
  proof
    assume "(RR_A name a, True) \<in> messages unpack ls"
    then obtain l where l: "l \<in> set ls" "(RR_A name a, True) \<in> read_answers unpack l" by (auto simp: messages_def)
    show "\<exists>i sample oks. Read_step i sample oks \<in> set ls \<and> RR_A name a \<in> set (fst (unpack sample))"
      by (cases l) (use l in \<open>force dest: set_zip_leftD\<close>)+
  next
    assume "\<exists>i sample oks. Read_step i sample oks \<in> set ls \<and> RR_A name a \<in> set (fst (unpack sample))"
    then obtain i sample oks where l: "Read_step i sample oks \<in> set ls" "RR_A name a \<in> set (fst (unpack sample))" by blast
    have "oks = replicate (length (fst (unpack sample))) True" using assms(6) l(1) by blast
    with l(2) have "(RR_A name a, True) \<in> set (zip (fst (unpack sample)) oks)" by (simp add: zip_replicate2)
    with l(1) show "(RR_A name a, True) \<in> messages unpack ls" by (force simp: messages_def)
  qed
  ultimately have writes: "writes_key (stored ls) k \<longleftrightarrow> (\<exists>i sample oks name a. Read_step i sample oks \<in> set ls \<and>
      RR_A name a \<in> set (fst (unpack sample)) \<and> k = (''0.0.0.0'', ip_string a, name))" for k
    unfolding writes_key_def by metis
  have "set (the (GetIPsMatchingGlob True glob now g (th_dns s))) =
      {fst (snd k) |k. glob (Glob g) (snd (snd k)) \<and>
         (writes_key (stored ls) k \<or> (\<exists>r. table_map dns_key (th_dns s0) k = Some r \<and> recent_row now r))}"
    unfolding ips_keys [OF ok(2)] using run keys by simp
  also have "\<dots> = {fst (snd k) |k. glob (Glob g) (snd (snd k)) \<and> writes_key (stored ls) k} \<union>
      set (the (GetIPsMatchingGlob True glob now g (th_dns s0)))"
    unfolding ips_keys [OF ok(1)] by blast
  also have "{fst (snd k) |k. glob (Glob g) (snd (snd k)) \<and> writes_key (stored ls) k} =
      \<Union> {answered (fst (unpack sample)) (glob (Glob g)) |i sample oks. Read_step i sample oks \<in> set ls}"
  proof (intro set_eqI iffI)
    fix ip
    assume "ip \<in> {fst (snd k) |k. glob (Glob g) (snd (snd k)) \<and> writes_key (stored ls) k}"
    then obtain k where "ip = fst (snd k)" "glob (Glob g) (snd (snd k))" "writes_key (stored ls) k" by blast
    moreover from this(3) obtain i sample oks name a where "Read_step i sample oks \<in> set ls"
        "RR_A name a \<in> set (fst (unpack sample))" "k = (''0.0.0.0'', ip_string a, name)"
      unfolding writes by blast
    ultimately show "ip \<in> \<Union> {answered (fst (unpack sample)) (glob (Glob g)) |i sample oks. Read_step i sample oks \<in> set ls}"
      by (auto simp: answered_def)
  next
    fix ip
    assume "ip \<in> \<Union> {answered (fst (unpack sample)) (glob (Glob g)) |i sample oks. Read_step i sample oks \<in> set ls}"
    then obtain i sample oks name a where "Read_step i sample oks \<in> set ls" "RR_A name a \<in> set (fst (unpack sample))"
        "glob (Glob g) name" "ip = ip_string a"
      by (auto simp: answered_def)
    then show "ip \<in> {fst (snd k) |k. glob (Glob g) (snd (snd k)) \<and> writes_key (stored ls) k}"
      unfolding writes by (intro CollectI exI [of _ "(''0.0.0.0'', ip_string a, name)"]) auto
  qed
  finally show ?thesis .
qed

theorem concurrent_answers_found_witness:
  "\<exists>s. thread_run demo_cfg (=) demo_unpack demo_plan demo_threads demo_moves s \<and>
     set (the (GetIPsMatchingGlob True (=) 2000 (demo_group\<lparr>Glob := ''w.example.''\<rparr>) (th_dns s))) = {''142.251.33.175''}"
proof -
  let ?g = "demo_group\<lparr>Glob := ''w.example.''\<rparr>"
  have "case try_run demo_cfg (=) demo_unpack demo_plan demo_threads demo_moves of
      None \<Rightarrow> False | Some s \<Rightarrow> th_readers s = [Reading, Reading] \<and> th_clock s = 1001"
    by code_simp
  then obtain s where s: "thread_run demo_cfg (=) demo_unpack demo_plan demo_threads demo_moves s"
      "th_readers s = [Reading, Reading]" "th_clock s = 1001"
    by (auto intro: try_run_runs split: option.splits)
  have ip: "ip_string [142, 251, 33, 175] = ''142.251.33.175''" by code_simp
  have "dns_ok (th_dns demo_threads)"
    by (auto intro!: exI [of _ "[142, 251, 33, 174]"] simp: demo_threads_def dns_ok_def keys_ok_def simp del: ip_string.simps)
  then have ok: "threads_ok demo_threads" by (simp add: threads_ok_def demo_threads_def)
  have "set (the (GetIPsMatchingGlob True (=) 2000 ?g (th_dns s))) =
      \<Union> {answered (fst (demo_unpack sample)) ((=) (Glob ?g)) |i sample oks. Read_step i sample oks \<in> set demo_moves} \<union>
      set (the (GetIPsMatchingGlob True (=) 2000 ?g (th_dns demo_threads)))"
  proof (rule concurrent_answers_found [OF s(1) ok])
    show "holding s = {}" by (simp add: holding_def s(2))
    show "\<forall>i sample oks. Read_step i sample oks \<in> set demo_moves \<longrightarrow>
        oks = replicate (length (fst (demo_unpack sample))) True"
      by (simp add: demo_moves_def demo_unpack_def)
  qed (simp_all add: s(3) demo_threads_def demo_unpack_def valid_rr_def)
  moreover have "\<Union> {answered (fst (demo_unpack sample)) ((=) (Glob ?g)) |i sample oks. Read_step i sample oks \<in> set demo_moves} =
      {''142.251.33.175''}"
    by (auto simp: demo_moves_def demo_unpack_def answered_def ip simp del: ip_string.simps)
  moreover have "set (the (GetIPsMatchingGlob True (=) 2000 ?g (th_dns demo_threads))) = {}"
    by (simp add: GetIPsMatchingGlob_def demo_threads_def)
  ultimately show ?thesis using s(1) by auto
qed

end
