(* ===== verification/Collecting.thy ===== *)
theory Collecting
  imports Usage
begin

text \<open>
  A collection while packets arrive. The loop of \<open>getBandwidthList\<close> (\<open>handlers/handlers.go\<close>) reads the
  monitor's map entry by entry, and looks up the name and the group of each in the database, while
  the tc program goes on counting and other goroutines change the tables; theory \<open>Usage\<close> takes a
  collection as one event. Here it is the sequence of its iterations among packets. The iterator of
  the map is not part of the repository; of a map from which nothing is deleted it gives every key
  that was there at the beginning, no key twice, and possibly keys that have come since.
\<close>

section \<open>The loop among packets\<close>

text \<open>A move is a packet, or an iteration: its key, the tables its two reads see, and whether they succeed.\<close>

datatype collect_move = Arrives skb | Visits u64 "glob_group list" "dns_row list" bool bool

text \<open>The state: the monitor's map, the keys visited, and \<open>vals\<close>.\<close>

fun collect_step ::
  "endian \<Rightarrow> ('m \<Rightarrow> u64 \<Rightarrow> u64 option) \<Rightarrow> ('m \<Rightarrow> u64 \<Rightarrow> u64 \<Rightarrow> 'm) \<Rightarrow> bool \<Rightarrow> (dns_row list \<Rightarrow> dns_row) \<Rightarrow> collect_move \<Rightarrow>
   'm \<times> u64 list \<times> bandwidth list \<Rightarrow> ('m \<times> u64 list \<times> bandwidth list) option" where
  "collect_step e lookup update globsOnly pick (Arrives p) (m, keys, vals) =
     map_option (\<lambda>(_, m'). (m', keys, vals)) (traffic_mon e lookup update p m)"
| "collect_step e lookup update globsOnly pick (Visits key globs dns ips_ok globs_ok) (m, keys, vals) =
     (if key \<in> set keys then None
      else case lookup m key of
          None \<Rightarrow> None
        | Some val \<Rightarrow>
            Some (m, keys @ [key],
              case bandwidth_row globsOnly pick globs dns ((key, val), ips_ok, globs_ok) of
                None \<Rightarrow> vals | Some bl \<Rightarrow> vals @ [bl]))"

fun collect_run ::
  "endian \<Rightarrow> ('m \<Rightarrow> u64 \<Rightarrow> u64 option) \<Rightarrow> ('m \<Rightarrow> u64 \<Rightarrow> u64 \<Rightarrow> 'm) \<Rightarrow> bool \<Rightarrow> (dns_row list \<Rightarrow> dns_row) \<Rightarrow> collect_move list \<Rightarrow>
   'm \<times> u64 list \<times> bandwidth list \<Rightarrow> ('m \<times> u64 list \<times> bandwidth list) option" where
  "collect_run e lookup update globsOnly pick [] s = Some s"
| "collect_run e lookup update globsOnly pick (mv # mvs) s =
     Option.bind (collect_step e lookup update globsOnly pick mv s) (collect_run e lookup update globsOnly pick mvs)"



text \<open>Without packets in between, and on tables that stay, the loop gives the list that
  \<open>getBandwidthList\<close> is in theory \<open>Bandwidth\<close>.\<close>

lemma still_collection:
  assumes "collect_run e lookup update globsOnly pick (map (\<lambda>(key, a, b). Visits key globs dns a b) xs) (m, keys, vals) =
    Some (m', keys', vals')"
  shows "m' = m \<and> keys' = keys @ map fst xs \<and>
    vals' = vals @ getBandwidthList True globsOnly pick globs dns (map (\<lambda>(key, oks). ((key, the (lookup m key)), oks)) xs)"
  using assms
proof (induction xs arbitrary: keys vals)
  case (Cons x xs)
  obtain key a b where x: "x = (key, a, b)" by (cases x)
  obtain val where val: "key \<notin> set keys" "lookup m key = Some val"
    using Cons.prems by (auto simp: x split: if_splits option.splits)
  let ?vals = "case bandwidth_row globsOnly pick globs dns ((key, val), a, b) of None \<Rightarrow> vals | Some bl \<Rightarrow> vals @ [bl]"
  have "collect_run e lookup update globsOnly pick (map (\<lambda>(key, a, b). Visits key globs dns a b) xs) (m, keys @ [key], ?vals) =
      Some (m', keys', vals')"
    using Cons.prems val by (simp add: x)
  from Cons.IH [OF this] show ?case
    by (simp add: x val(2) getBandwidthList_def split: option.split)
qed (simp add: getBandwidthList_def)

section \<open>What the loop reads\<close>










section \<open>The counters lie between beginning and end\<close>




end
