(* ===== verification/Html.thy ===== *)
theory Html
  imports Store
begin

text \<open>
  Templates as the pages of \<open>views/\<close> use them: Go's \<open>text/template\<close> with the escaping that
  \<open>html/template\<close> puts into every action that stands in the text of an element, where all actions
  of these templates stand; \<open>fmt\<close> and \<open>time.Time.String\<close> for what is printed. A template writes its
  output before it fails, so the result is what was written and whether the end was reached. The
  last part reads a page as a browser does: its tags, and the text inside the elements of a name.
\<close>

section \<open>Escaping\<close>

definition html_replacement :: "char \<Rightarrow> string" where
  "html_replacement c =
     (if c = CHR ''&'' then ''&amp;''
      else if c = CHR ''<'' then ''&lt;''
      else if c = CHR ''>'' then ''&gt;''
      else if c = CHR 0x22 then ''&#34;''
      else if c = CHR 0x27 then ''&#39;''
      else if c = CHR ''+'' then ''&#43;''
      else if c = CHR 0x00 then [CHR 0xEF, CHR 0xBF, CHR 0xBD]
      else [c])"

definition htmlescaper :: "string \<Rightarrow> string" where
  "htmlescaper s = concat (map html_replacement s)"

text \<open>The character references the escaper writes, and how a browser reads them back.\<close>

definition references :: "(string \<times> char) list" where
  "references = [(''amp;'', CHR ''&''), (''lt;'', CHR ''<''), (''gt;'', CHR ''>''), (''#34;'', CHR 0x22),
     (''#39;'', CHR 0x27), (''#43;'', CHR ''+'')]"

fun html_unescape :: "string \<Rightarrow> string" where
  "html_unescape [] = []"
| "html_unescape (c # cs) =
     (case (if c = CHR ''&'' then find (\<lambda>(r, _). take (length r) cs = r) references else None) of
        Some (r, x) \<Rightarrow> x # html_unescape (drop (length r) cs)
      | None \<Rightarrow> c # html_unescape cs)"

lemma htmlescaper_simps [simp]:
  "htmlescaper [] = []"
  "htmlescaper (c # s) = html_replacement c @ htmlescaper s"
  by (simp_all add: htmlescaper_def)

lemma unescape_replacement:
  "CHR 0x00 \<noteq> c \<Longrightarrow> html_unescape (html_replacement c @ s) = c # html_unescape s"
  by (simp add: html_replacement_def references_def)

lemma unescape_escaped: "CHR 0x00 \<notin> set s \<Longrightarrow> html_unescape (htmlescaper s) = s"
  by (induction s) (simp_all add: unescape_replacement)

lemma replacement_plain: "x \<in> set (html_replacement c) \<Longrightarrow> x \<noteq> CHR ''<'' \<and> x \<noteq> CHR ''>''"
  by (auto simp: html_replacement_def split: if_splits)

lemma escaped_plain [simp]: "CHR ''<'' \<notin> set (htmlescaper s)" "CHR ''>'' \<notin> set (htmlescaper s)"
  by (induction s) (auto dest: replacement_plain)

section \<open>Printing\<close>

text \<open>The date of a day counted from 1970-01-01, in the proleptic Gregorian calendar of \<open>time\<close>; years
  are counted from March, in eras of 400 years.\<close>

definition civil :: "int \<Rightarrow> int \<times> int \<times> int" where
  "civil days =
     (let z = days + 719468;
          era = z div 146097;
          doe = z mod 146097;
          yoe = (doe - doe div 1460 + doe div 36524 - doe div 146096) div 365;
          doy = doe - (365 * yoe + yoe div 4 - yoe div 100);
          mp = (5 * doy + 2) div 153;
          d = doy - (153 * mp + 2) div 5 + 1;
          m = (if mp < 10 then mp + 3 else mp - 9)
      in (yoe + era * 400 + (if m \<le> 2 then 1 else 0), m, d))"

definition pad2 :: "int \<Rightarrow> string" where
  "pad2 i = (if i < 10 then CHR ''0'' # go_itoa i else go_itoa i)"

definition pad4 :: "int \<Rightarrow> string" where
  "pad4 i = replicate (4 - length (go_itoa i)) CHR ''0'' @ go_itoa i"

text \<open>\<open>Time.String\<close> of a time in UTC with whole seconds, which is what SQLite's \<open>datetime()\<close> stores.\<close>

definition time_String :: "int \<Rightarrow> string" where
  "time_String secs =
     (let (y, m, d) = civil (secs div 86400); s = secs mod 86400
      in pad4 y @ ''-'' @ pad2 m @ ''-'' @ pad2 d @ '' '' @ pad2 (s div 3600) @ '':'' @
         pad2 (s div 60 mod 60) @ '':'' @ pad2 (s mod 60) @ '' +0000 UTC'')"

lemma civil_examples:
  "civil 0 = (1970, 1, 1)" "civil 19782 = (2024, 2, 29)"
  by code_simp+

lemma time_String_epoch: "time_String 0 = ''1970-01-01 00:00:00 +0000 UTC''"
  by code_simp

text \<open>The values that handlers pass to templates. A map lists its entries in the order of its keys, in
  which templates and \<open>fmt\<close> visit them; \<open>V_none\<close> is a key that is not there.\<close>

datatype tmpl_value =
    V_none
  | V_string string
  | V_int int
  | V_time int
  | V_ip "u8 list"
  | V_nil_pointer
  | V_slice "tmpl_value list"
  | V_map "(string \<times> tmpl_value) list"
  | V_struct "(string \<times> tmpl_value) list"

fun joined :: "string list \<Rightarrow> string" where
  "joined [] = []"
| "joined [s] = s"
| "joined (s # t # ss) = s @ '' '' @ joined (t # ss)"

fun fmt_Sprint :: "tmpl_value \<Rightarrow> string" where
  "fmt_Sprint V_none = []"
| "fmt_Sprint (V_string s) = s"
| "fmt_Sprint (V_int i) = go_itoa i"
| "fmt_Sprint (V_time t) = time_String t"
| "fmt_Sprint (V_ip a) = ip_string a"
| "fmt_Sprint V_nil_pointer = ''<nil>''"
| "fmt_Sprint (V_slice vs) = ''['' @ joined (map fmt_Sprint vs) @ '']''"
| "fmt_Sprint (V_map kvs) = ''map['' @ joined (map (\<lambda>(k, v). k @ '':'' @ fmt_Sprint v) kvs) @ '']''"
| "fmt_Sprint (V_struct kvs) = ''{'' @ joined (map (\<lambda>(k, v). fmt_Sprint v) kvs) @ ''}''"

section \<open>Executing a template\<close>

text \<open>The text of a file from its lines.\<close>

fun lines :: "string list \<Rightarrow> string" where
  "lines [] = []"
| "lines [l] = l"
| "lines (l # m # ls) = l @ CHR 0x0A # lines (m # ls)"

text \<open>\<open>Print fs\<close> is the action with the fields \<open>fs\<close> of dot, as in \<open>.Attrs.Name\<close>; with no field it is
  dot. \<open>Embed\<close> is the function by which a layout writes the page.\<close>

datatype tmpl_node =
    Text string
  | Print "string list"
  | Range "string list" "tmpl_node list"
  | Embed

fun field :: "string \<Rightarrow> tmpl_value \<Rightarrow> tmpl_value option" where
  "field f (V_map kvs) = Some (case map_of kvs f of None \<Rightarrow> V_none | Some v \<Rightarrow> v)"
| "field f (V_struct kvs) = map_of kvs f"
| "field f V_none = Some V_none"
| "field f _ = None"

fun fields :: "string list \<Rightarrow> tmpl_value \<Rightarrow> tmpl_value option" where
  "fields [] v = Some v"
| "fields (f # fs) v = Option.bind (field f v) (fields fs)"

fun range_over :: "tmpl_value \<Rightarrow> tmpl_value list option" where
  "range_over (V_slice vs) = Some vs"
| "range_over (V_map kvs) = Some (map snd kvs)"
| "range_over V_none = Some []"
| "range_over _ = None"

fun in_turn :: "(string \<times> bool) list \<Rightarrow> string \<times> bool" where
  "in_turn [] = ([], True)"
| "in_turn ((out, ok) # rs) = (if ok then (case in_turn rs of (out', ok') \<Rightarrow> (out @ out', ok')) else (out, False))"

fun exec :: "string \<times> bool \<Rightarrow> tmpl_node \<Rightarrow> tmpl_value \<Rightarrow> string \<times> bool"
  and exec_list :: "string \<times> bool \<Rightarrow> tmpl_node list \<Rightarrow> tmpl_value \<Rightarrow> (string \<times> bool) list" where
  "exec emb (Text s) dot = (s, True)"
| "exec emb (Print fs) dot =
     (case fields fs dot of None \<Rightarrow> ([], False) | Some v \<Rightarrow> (htmlescaper (fmt_Sprint v), True))"
| "exec emb (Range fs body) dot =
     (case Option.bind (fields fs dot) range_over of
        None \<Rightarrow> ([], False)
      | Some vs \<Rightarrow> in_turn (concat (map (exec_list emb body) vs)))"
| "exec emb Embed dot = emb"
| "exec_list emb [] dot = []"
| "exec_list emb (n # ns) dot = exec emb n dot # exec_list emb ns dot"

definition execute :: "string \<times> bool \<Rightarrow> tmpl_node list \<Rightarrow> tmpl_value \<Rightarrow> string \<times> bool" where
  "execute emb t dot = in_turn (exec_list emb t dot)"

lemma in_turn_append:
  "in_turn (xs @ ys) = (case in_turn xs of (out, ok) \<Rightarrow>
     if ok then (case in_turn ys of (out', ok') \<Rightarrow> (out @ out', ok')) else (out, False))"
  by (induction xs rule: in_turn.induct) (auto split: prod.splits)

lemma in_turn_Cons [simp]:
  "in_turn (r # rs) = (if snd r then (fst r @ fst (in_turn rs), snd (in_turn rs)) else (fst r, False))"
  by (cases r) (simp split: prod.split)

lemma in_turn_all: "\<forall>r \<in> set rs. snd r \<Longrightarrow> in_turn rs = (concat (map fst rs), True)"
  by (induction rs rule: in_turn.induct) auto

section \<open>Reading a page\<close>

text \<open>The tags of a text and the characters between them.\<close>

datatype markup = Tag string | Chr char

fun scan :: "string option \<Rightarrow> string \<Rightarrow> markup list" where
  "scan tag [] = []"
| "scan None (c # cs) = (if c = CHR ''<'' then scan (Some []) cs else Chr c # scan None cs)"
| "scan (Some t) (c # cs) = (if c = CHR ''>'' then Tag (rev t) # scan None cs else scan (Some (c # t)) cs)"

fun scan_end :: "string option \<Rightarrow> string \<Rightarrow> string option" where
  "scan_end tag [] = tag"
| "scan_end None (c # cs) = scan_end (if c = CHR ''<'' then Some [] else None) cs"
| "scan_end (Some t) (c # cs) = scan_end (if c = CHR ''>'' then None else Some (c # t)) cs"

abbreviation balanced :: "string \<Rightarrow> bool" where
  "balanced s \<equiv> scan_end None s = None"

fun tags_of :: "markup list \<Rightarrow> string list" where
  "tags_of [] = []"
| "tags_of (Tag t # es) = t # tags_of es"
| "tags_of (Chr c # es) = tags_of es"

definition page_tags :: "string \<Rightarrow> string list" where
  "page_tags s = tags_of (scan None s)"

text \<open>What stands in the elements of a name, read back; an element inside one is skipped.\<close>

definition opens :: "string \<Rightarrow> string \<Rightarrow> bool" where
  "opens name t \<longleftrightarrow> t = name \<or> take (Suc (length name)) t = name @ '' ''"

fun elements_of :: "string \<Rightarrow> string option \<Rightarrow> markup list \<Rightarrow> string list" where
  "elements_of name cell [] = []"
| "elements_of name None (Tag t # es) = elements_of name (if opens name t then Some [] else None) es"
| "elements_of name None (Chr c # es) = elements_of name None es"
| "elements_of name (Some x) (Tag t # es) =
     (if t = CHR ''/'' # name then html_unescape (rev x) # elements_of name None es
      else elements_of name (Some x) es)"
| "elements_of name (Some x) (Chr c # es) = elements_of name (Some (c # x)) es"

definition page_elements :: "string \<Rightarrow> string \<Rightarrow> string list" where
  "page_elements name s = elements_of name None (scan None s)"

lemma scan_append: "scan tag (a @ b) = scan tag a @ scan (scan_end tag a) b"
  by (induction tag a rule: scan.induct) auto

lemma scan_end_append: "scan_end tag (a @ b) = scan_end (scan_end tag a) b"
  by (induction tag a rule: scan.induct) auto

lemma tags_of_append [simp]: "tags_of (a @ b) = tags_of a @ tags_of b"
  by (induction a rule: tags_of.induct) auto

lemma scan_plain: "CHR ''<'' \<notin> set s \<Longrightarrow> scan None s = map Chr s \<and> scan_end None s = None"
  by (induction s) auto

lemma scan_escaped [simp]:
  "scan None (htmlescaper s) = map Chr (htmlescaper s)" "balanced (htmlescaper s)"
  by (simp_all add: scan_plain)

lemma tags_of_chars [simp]: "tags_of (map Chr s) = []"
  by (induction s) auto

lemma elements_of_chars [simp]:
  "elements_of name (Some x) (map Chr s @ es) = elements_of name (Some (rev s @ x)) es"
  "elements_of name None (map Chr s @ es) = elements_of name None es"
  by (induction s arbitrary: x) auto

lemma balanced_append: "balanced a \<Longrightarrow> balanced b \<Longrightarrow> balanced (a @ b)"
  by (simp add: scan_end_append)

lemma page_tags_append: "balanced a \<Longrightarrow> page_tags (a @ b) = page_tags a @ page_tags b"
  by (simp add: page_tags_def scan_append)

text \<open>A piece of a page that neither a tag nor an element of the name crosses.\<close>

fun elements_end :: "string \<Rightarrow> string option \<Rightarrow> markup list \<Rightarrow> string option" where
  "elements_end name cell [] = cell"
| "elements_end name None (Tag t # es) = elements_end name (if opens name t then Some [] else None) es"
| "elements_end name None (Chr c # es) = elements_end name None es"
| "elements_end name (Some x) (Tag t # es) = elements_end name (if t = CHR ''/'' # name then None else Some x) es"
| "elements_end name (Some x) (Chr c # es) = elements_end name (Some (c # x)) es"

lemma elements_of_append:
  "elements_of name cell (a @ b) = elements_of name cell a @ elements_of name (elements_end name cell a) b"
  by (induction name cell a rule: elements_of.induct) auto

lemma elements_end_append:
  "elements_end name cell (a @ b) = elements_end name (elements_end name cell a) b"
  by (induction name cell a rule: elements_end.induct) auto

lemma elements_end_chars [simp]:
  "elements_end name (Some x) (map Chr s @ es) = elements_end name (Some (rev s @ x)) es"
  "elements_end name None (map Chr s @ es) = elements_end name None es"
  by (induction s arbitrary: x) auto

lemma elements_chars_end [simp]:
  "elements_of name (Some x) (map Chr s) = []" "elements_end name (Some x) (map Chr s) = Some (rev s @ x)"
  using elements_of_chars(1) [of name x s "[]"] elements_end_chars(1) [of name x s "[]"] by simp_all

definition piece :: "string \<Rightarrow> string \<Rightarrow> bool" where
  "piece name s \<longleftrightarrow> balanced s \<and> elements_end name None (scan None s) = None"

lemma piece_Nil [simp]: "piece name []" "page_elements name [] = []" "page_tags [] = []"
  by (simp_all add: piece_def page_elements_def page_tags_def)

lemma piece_append:
  assumes "piece name a"
  shows "piece name (a @ b) = piece name b"
    and "page_elements name (a @ b) = page_elements name a @ page_elements name b"
    and "page_tags (a @ b) = page_tags a @ page_tags b"
  using assms by (simp_all add: piece_def page_elements_def page_tags_def scan_end_append scan_append
      elements_end_append elements_of_append)

lemma pieces_concat:
  assumes "\<forall>s \<in> set ss. piece name s"
  shows "piece name (concat ss)" and "page_elements name (concat ss) = concat (map (page_elements name) ss)"
    and "page_tags (concat ss) = concat (map page_tags ss)"
  using assms by (induction ss) (simp_all add: piece_append [of name])

section \<open>Reading a template\<close>

text \<open>Text in which no element of the name begins, with the tag it ends in, line by line.\<close>

fun quiet :: "string \<Rightarrow> string option \<Rightarrow> string \<Rightarrow> string option option" where
  "quiet name tag [] = Some tag"
| "quiet name None (c # cs) = quiet name (if c = CHR ''<'' then Some [] else None) cs"
| "quiet name (Some t) (c # cs) =
     (if c = CHR ''>'' then (if opens name (rev t) then None else quiet name None cs)
      else quiet name (Some (c # t)) cs)"

fun quiet_lines :: "string \<Rightarrow> string option \<Rightarrow> string list \<Rightarrow> string option option" where
  "quiet_lines name tag [] = Some tag"
| "quiet_lines name tag [l] = quiet name tag l"
| "quiet_lines name tag (l # m # ls) =
     (case quiet name tag l of None \<Rightarrow> None
      | Some tag' \<Rightarrow> quiet_lines name (map_option (\<lambda>t. CHR 0x0A # t) tag') (m # ls))"

lemma quiet_append:
  "quiet name tag (a @ b) = (case quiet name tag a of None \<Rightarrow> None | Some tag' \<Rightarrow> quiet name tag' b)"
  by (induction name tag a rule: quiet.induct) auto

lemma quiet_newline: "quiet name tag (CHR 0x0A # s) = quiet name (map_option (\<lambda>t. CHR 0x0A # t) tag) s"
  by (cases tag) auto

lemma quiet_lines_eq: "quiet_lines name tag ls = quiet name tag (lines ls)"
  by (induction name tag ls rule: quiet_lines.induct) (simp_all add: quiet_append quiet_newline split: option.split)

lemma quiet_reads:
  "quiet name tag s = Some tag' \<Longrightarrow> scan_end tag s = tag' \<and> elements_of name None (scan tag s) = [] \<and>
     elements_end name None (scan tag s) = None"
  by (induction name tag s rule: quiet.induct) (auto split: if_splits)

lemma quiet_text:
  assumes "quiet_lines name None ls = Some None"
  shows "piece name (lines ls)" and "page_elements name (lines ls) = []"
  using quiet_reads [of name None "lines ls" None] assms
  by (simp_all add: quiet_lines_eq piece_def page_elements_def)

text \<open>The text before the first action of a row, between two, and behind the last, when every action
  fills an element of the name.\<close>

definition opens_cell :: "string \<Rightarrow> string \<Rightarrow> bool" where
  "opens_cell name s \<longleftrightarrow> balanced s \<and> elements_of name None (scan None s) = [] \<and>
     elements_end name None (scan None s) = Some []"

definition closes_cell :: "string \<Rightarrow> string option \<Rightarrow> string \<Rightarrow> bool" where
  "closes_cell name next s \<longleftrightarrow> balanced s \<and>
     (case scan None s of
        Tag t # es \<Rightarrow> t = CHR ''/'' # name \<and> elements_of name None es = [] \<and> elements_end name None es = next
      | _ \<Rightarrow> False)"

fun cells_after :: "string \<Rightarrow> tmpl_node list \<Rightarrow> string list list option" where
  "cells_after name [Print fs, Text s] = (if closes_cell name None s then Some [fs] else None)"
| "cells_after name (Print fs # Text s # ns) =
     (if closes_cell name (Some []) s then map_option (\<lambda>fss. fs # fss) (cells_after name ns) else None)"
| "cells_after name ns = None"

fun row_cells :: "string \<Rightarrow> tmpl_node list \<Rightarrow> string list list option" where
  "row_cells name (Text s # ns) = (if opens_cell name s then cells_after name ns else None)"
| "row_cells name ns = None"

text \<open>The tags of the texts of a row.\<close>

fun text_tags :: "tmpl_node list \<Rightarrow> string list" where
  "text_tags [] = []"
| "text_tags (Text s # ns) = page_tags s @ text_tags ns"
| "text_tags (n # ns) = text_tags ns"

lemma execute_Nil [simp]: "execute emb [] v = ([], True)"
  by (simp add: execute_def)

lemma execute_Cons:
  "execute emb (n # ns) v = (if snd (exec emb n v) then (fst (exec emb n v) @ fst (execute emb ns v), snd (execute emb ns v))
     else (fst (exec emb n v), False))"
  by (simp add: execute_def)

lemma cells_after_read:
  assumes "cells_after name ns = Some fss" and "map (\<lambda>fs. fields fs v) fss = map Some vs"
  shows "\<exists>out. execute emb ns v = (out, True) \<and> balanced out \<and>
    elements_of name (Some []) (scan None out) = map (html_unescape \<circ> htmlescaper \<circ> fmt_Sprint) vs \<and>
    elements_end name (Some []) (scan None out) = None \<and> page_tags out = text_tags ns"
  using assms
proof (induction name ns arbitrary: fss vs rule: cells_after.induct)
  case (1 name fs s)
  then obtain x where x: "fields fs v = Some x" "vs = [x]" "closes_cell name None s" by (auto split: if_splits)
  then show ?case
    by (auto simp: execute_Cons closes_cell_def page_tags_def scan_append scan_end_append split: list.splits markup.splits)
next
  case (2 name fs s n ns)
  then obtain x xs fss' where x: "fields fs v = Some x" "vs = x # xs" "closes_cell name (Some []) s"
      "cells_after name (n # ns) = Some fss'" "map (\<lambda>fs. fields fs v) fss' = map Some xs"
    by (auto split: if_splits)
  with 2 obtain out where "execute emb (n # ns) v = (out, True)" "balanced out"
      "elements_of name (Some []) (scan None out) = map (html_unescape \<circ> htmlescaper \<circ> fmt_Sprint) xs"
      "elements_end name (Some []) (scan None out) = None" "page_tags out = text_tags (n # ns)"
    by blast
  with x show ?case
    by (auto simp: execute_Cons [of emb "Print fs"] execute_Cons [of emb "Text s"] closes_cell_def page_tags_def
        scan_append scan_end_append elements_of_append elements_end_append split: list.splits markup.splits)
qed simp_all

lemma row_cells_read:
  assumes "row_cells name row = Some fss" and "map (\<lambda>fs. fields fs v) fss = map Some vs"
  shows "\<exists>out. execute emb row v = (out, True) \<and> piece name out \<and>
    page_elements name out = map (html_unescape \<circ> htmlescaper \<circ> fmt_Sprint) vs \<and> page_tags out = text_tags row"
proof -
  obtain s ns where row: "row = Text s # ns" "opens_cell name s" "cells_after name ns = Some fss"
    using assms(1) by (cases "(name, row)" rule: row_cells.cases) (auto split: if_splits)
  from cells_after_read [OF row(3) assms(2)] obtain out where "execute emb ns v = (out, True)" "balanced out"
      "elements_of name (Some []) (scan None out) = map (html_unescape \<circ> htmlescaper \<circ> fmt_Sprint) vs"
      "elements_end name (Some []) (scan None out) = None" "page_tags out = text_tags ns"
    by blast
  with row show ?thesis
    by (auto simp: execute_Cons [of emb "Text s"] opens_cell_def piece_def page_elements_def page_tags_def
        scan_append scan_end_append elements_of_append elements_end_append)
qed

text \<open>A template that ranges over a list between two texts.\<close>

lemma execute_table:
  assumes "Option.bind (fields fs dot) range_over = Some vs" and "\<forall>v \<in> set vs. execute emb row v = (text v, True)"
  shows "execute emb [Text h, Range fs row, Text t] dot = (h @ concat (map text vs) @ t, True)"
proof -
  have "in_turn (concat (map (exec_list emb row) vs)) = (concat (map text vs), True)"
    using assms(2) by (induction vs) (auto simp: in_turn_append execute_def)
  with assms(1) show ?thesis by (simp add: execute_def)
qed

end
