(* ===== verification/Pages.thy ===== *)
theory Pages
  imports Web Html
begin

text \<open>
  The pages themselves: the templates of \<open>views/\<close>, their text as it stands in the files, split at the
  actions; what the handlers pass to them; and what a browser reads in the result.
\<close>

section \<open>The templates\<close>

definition index_tpl :: "tmpl_node list" where
  \<open>index_tpl =
    [Text (lines
       ['''',
        ''<div class="p-3 row">'',
        '''',
        ''    <h3>Welcome! Select an option on the left</h3>'',
        '''',
        ''</div>''])]\<close>

definition interfaces_row :: "tmpl_node list" where
  \<open>interfaces_row =
    [Text (lines
       ['''',
        ''        <li class="list-group-item">Idx: '']),
     Print [''Index''],
     Text '', Name: '',
     Print [''Name''],
     Text (lines
       [''</li>'',
        ''    ''])]\<close>

definition links_row :: "tmpl_node list" where
  \<open>links_row =
    [Text (lines
       ['''',
        ''        <li class="list-group-item">Link: '']),
     Print [''Type''],
     Text '' '',
     Print [''Attrs'', ''Name''],
     Text (lines
       ['' </li>'',
        ''    ''])]\<close>

definition interfaces_tpl :: "tmpl_node list" where
  \<open>interfaces_tpl =
    [Text (lines
       ['''',
        ''<div class="p-3 row">'',
        '''',
        ''    <h3>Here is a list of your interfaces</h3>'',
        ''    <ul class="list-group">'',
        ''    '']),
     Range [''Interfaces''] interfaces_row,
     Text (lines
       ['''',
        ''    '']),
     Range [''LinkList''] links_row,
     Text (lines
       ['''',
        ''    </ul>'',
        '''',
        ''</div>''])]\<close>

definition devices_row :: "tmpl_node list" where
  \<open>devices_row =
    [Text (lines
       ['''',
        ''        <li class="list-group-item">'']),
     Print [],
     Text (lines
       [''</li>'',
        ''    ''])]\<close>

definition devices_tpl :: "tmpl_node list" where
  \<open>devices_tpl =
    [Text (lines
       ['''',
        ''<div class="p-3 row">'',
        '''',
        ''    <h3>Stub device list (TODO)</h3>'',
        ''    <ul class="list-group">'',
        ''    '']),
     Range [''Devices''] devices_row,
     Text (lines
       ['''',
        ''    </ul>'',
        '''',
        ''</div>''])]\<close>

definition policies_row :: "tmpl_node list" where
  \<open>policies_row =
    [Text (lines
       ['''',
        ''            <tr>'',
        ''                <th scope="row"></th>'',
        ''                <td>'']),
     Print [''SrcIp''],
     Text (lines
       [''</td>'',
        ''                <td>'']),
     Print [''GlobGroup''],
     Text (lines
       [''</td>'',
        ''                <td>'']),
     Print [''Class''],
     Text (lines
       [''</td>'',
        ''                <td>'']),
     Print [''Tstamp''],
     Text (lines
       [''</td>'',
        ''            </tr>'',
        ''            ''])]\<close>

definition policies_tpl :: "tmpl_node list" where
  \<open>policies_tpl =
    [Text (lines
       [''<div class="p-3 row">'',
        '''',
        ''    <h3>Active Throttling Policies</h3>'',
        '''',
        ''    <table class="table" id="glob-usage">'',
        ''        <thead>'',
        ''            <tr>'',
        ''                <th scope="col">#</th>'',
        ''                <th scope="col">SrcIp</th>'',
        ''                <th scope="col">Glob Group</th>'',
        ''                <th scope="col">Bandwidth Class</th>'',
        ''                <th scope="col">Time applied</th>'',
        ''            </tr>'',
        ''        </thead>'',
        ''        <tbody>'',
        ''            '']),
     Range [''Policies''] policies_row,
     Text (lines
       ['''',
        '''',
        ''        </tbody>'',
        ''    </table>'',
        '''',
        ''</div>''])]\<close>

definition globs_row :: "tmpl_node list" where
  \<open>globs_row =
    [Text (lines
       ['''',
        ''            <tr>'',
        ''                <th scope="row"></th>'',
        ''                <td>'']),
     Print [''Name''],
     Text (lines
       [''</td>'',
        ''                <td>'']),
     Print [''Description''],
     Text (lines
       [''</td>'',
        ''                <td>'']),
     Print [''Device''],
     Text (lines
       [''</td>'',
        ''                <td>'']),
     Print [''Glob''],
     Text (lines
       [''</td>'',
        ''            </tr>'',
        ''            ''])]\<close>

definition globs_tpl :: "tmpl_node list" where
  \<open>globs_tpl =
    [Text (lines
       [''<div class="p-3 row">'',
        '''',
        ''    <h3>Glob Groups</h3>'',
        ''<div class="card">'',
        ''  <div class="card-body">'',
        ''    Globs are like simplified wildcards, that can be used to match a variety of urls.'',
        ''  </div>'',
        ''</div>'',
        ''    <table class="table" id="globs">'',
        ''        <thead>'',
        ''            <tr>'',
        ''                <th scope="col">#</th>'',
        ''                <th scope="col">Name</th>'',
        ''                <th scope="col">Description</th>'',
        ''                <th scope="col">Device</th>'',
        ''                <th scope="col">Glob</th>'',
        ''            </tr>'',
        ''        </thead>'',
        ''        <tbody>'',
        ''            '']),
     Range [''Globs''] globs_row,
     Text (lines
       ['''',
        ''        </tbody>'',
        ''    </table>'',
        ''            '',
        ''            <h4>Add new glob</h4>'',
        '''',
        ''    <form action="/globs/add" method="POST" class="p-3">'',
        ''        <div class="row">'',
        '''',
        ''            <div class="col">'',
        '''',
        ''                <div class="form-floating mb-3">'',
        ''                    <input type="text" class="form-control" placeholder="" id="name" name="name" />'',
        ''                    <label for="name" class="form-label">Name</label>'',
        ''                </div>'',
        ''            </div>'',
        ''            <div class="col">'',
        ''                <div class="form-floating mb-3">'',
        ''                    <input type="text" class="form-control" placeholder="" id="description" name="description" />'',
        ''                    <label for="description" class="form-label">Description</label>'',
        ''                </div>'',
        ''            </div>'',
        '''',
        ''            <div class="col">'',
        ''                <div class="form-floating mb-3">'',
        ''                    <select class="form-select" id="device">'',
        ''                        <option selected>Device</option>'',
        ''                        <option value="1">Laptop</option>'',
        ''                        <option value="2">Phone 1</option>'',
        ''                        <option value="3">Phone 2</option>'',
        ''                    </select>'',
        ''                    <label for="device" class="form-label">Device</label>'',
        ''                </div>'',
        ''            </div>'',
        '''',
        ''            <div class="col">'',
        ''                <div class="form-floating mb-3">'',
        ''                    <input type="text" class="form-control" placeholder="*.instagram.com" id="glob" name="glob" />'',
        ''                    <label for="glob" class="form-label">Glob</label>'',
        ''                </div>'',
        ''            </div>'',
        '''',
        ''        </div>'',
        '''',
        ''        <div class="input-group mb-3">'',
        ''            <button class="btn btn-primary" type="submit" id="add_user"> Add Glob'',
        ''            </button>'',
        ''        </div>'',
        ''    </form>'',
        ''</div>''])]\<close>

definition bandwidth_row_tpl :: "tmpl_node list" where
  \<open>bandwidth_row_tpl =
    [Text (lines
       ['''',
        ''            <tr>'',
        ''                <th scope="row"></th>'',
        ''                <td>'']),
     Print [''SrcIpAddr''],
     Text (lines
       [''</td>'',
        ''                <td>'']),
     Print [''DestIpAddr''],
     Text (lines
       [''</td>'',
        ''                <td>'']),
     Print [''ProbDomain''],
     Text (lines
       [''</td>'',
        ''                <td>'']),
     Print [''GlobName''],
     Text (lines
       [''</td>'',
        ''                <td>'']),
     Print [''Bytes''],
     Text (lines
       [''</td>'',
        ''            </tr>'',
        ''            ''])]\<close>

definition bandwidth_tpl :: "tmpl_node list" where
  \<open>bandwidth_tpl =
    [Text (lines
       [''<link rel="stylesheet" type="text/css" href="https://cdnjs.cloudflare.com/ajax/libs/twitter-bootstrap/5.3.0/css/bootstrap.min.css">'',
        ''<link rel="stylesheet" type="text/css" href="https://cdn.datatables.net/2.0.5/css/dataTables.bootstrap5.css">'',
        ''<script type="text/javascript" language="javascript" src="https://code.jquery.com/jquery-3.7.1.js"></script>'',
        ''<script type="text/javascript" language="javascript" src="https://cdn.datatables.net/2.0.5/js/dataTables.js"></script>'',
        ''<script type="text/javascript" language="javascript" src="https://cdn.datatables.net/2.0.5/js/dataTables.bootstrap5.js"></script> '',
        '''',
        ''<script type="text/javascript">'',
        ''    $(document).ready(function() {'',
        ''        new DataTable('#bandwidth-usage');'',
        ''    });'',
        ''</script>'',
        '''',
        ''<div class="p-3 row">'',
        '''',
        ''    <h3>Data Usage</h3>'',
        '''',
        ''    <table class="table" id="bandwidth-usage">'',
        ''        <thead>'',
        ''            <tr>'',
        ''                <th scope="col">#</th>'',
        ''                <th scope="col">SrcIp</th>'',
        ''                <th scope="col">DestIp</th>'',
        ''                <th scope="col">Likely Domain</th>'',
        ''                <th scope="col">Glob Group</th>'',
        ''                <th scope="col">Bytes</th>'',
        ''            </tr>'',
        ''        </thead>'',
        ''        <tbody>'',
        ''            '']),
     Range [''BandwidthList''] bandwidth_row_tpl,
     Text (lines
       ['''',
        '''',
        ''        </tbody>'',
        ''    </table>'',
        '''',
        ''</div>''])]\<close>

definition base_tpl :: "tmpl_node list" where
  \<open>base_tpl =
    [Text (lines
       [''<!doctype html>'',
        ''<html lang="en">'',
        '''',
        ''<head>'',
        ''    <meta charset="utf-8">'',
        ''    <meta name="viewport" content="width=device-width, initial-scale=1">'',
        ''    <title>Nethadone</title>'',
        ''    <link href="https://cdn.jsdelivr.net/npm/bootstrap@5.2.3/dist/css/bootstrap.min.css" rel="stylesheet"'',
        ''        integrity="sha384-rbsA2VBKQhggwzxH7pPCaAqO46MgnOM80zW1RWuH61DGLwZJEdK2Kadq2F9CUG65" crossorigin="anonymous">'',
        ''    <script src="https://cdn.jsdelivr.net/npm/bootstrap@5.2.3/dist/js/bootstrap.bundle.min.js"'',
        ''        integrity="sha384-kenU1KFdBIe4zVF0s0G1M5b4hcpxyD9F7jL+jjXkk+Q2h455rYXK/7HAuoJl+0I4"'',
        ''        crossorigin="anonymous"></script>'',
        ''    <link rel="stylesheet" href="https://cdn.jsdelivr.net/npm/bootstrap-icons@1.11.3/font/bootstrap-icons.min.css">'',
        ''    <style>'',
        ''        .bd-placeholder-img {'',
        ''            font-size: 1.125rem;'',
        ''            text-anchor: middle;'',
        ''            -webkit-user-select: none;'',
        ''            -moz-user-select: none;'',
        ''            user-select: none;'',
        ''        }'',
        '''',
        ''        @media (min-width: 768px) {'',
        ''            .bd-placeholder-img-lg {'',
        ''                font-size: 3.5rem;'',
        ''            }'',
        ''        }'',
        '''',
        ''        .b-example-divider {'',
        ''            height: 3rem;'',
        ''            background-color: rgba(0, 0, 0, .1);'',
        ''            border: solid rgba(0, 0, 0, .15);'',
        ''            border-width: 1px 0;'',
        ''            box-shadow: inset 0 .5em 1.5em rgba(0, 0, 0, .1), inset 0 .125em .5em rgba(0, 0, 0, .15);'',
        ''        }'',
        '''',
        ''        .b-example-vr {'',
        ''            flex-shrink: 0;'',
        ''            width: 1.5rem;'',
        ''            height: 100vh;'',
        ''        }'',
        '''',
        ''        .bi {'',
        ''            vertical-align: -.125em;'',
        ''            fill: currentColor;'',
        ''        }'',
        '''',
        ''        .nav-scroller {'',
        ''            position: relative;'',
        ''            z-index: 2;'',
        ''            height: 2.75rem;'',
        ''            overflow-y: hidden;'',
        ''        }'',
        '''',
        ''        .nav-scroller .nav {'',
        ''            display: flex;'',
        ''            flex-wrap: nowrap;'',
        ''            padding-bottom: 1rem;'',
        ''            margin-top: -1px;'',
        ''            overflow-x: auto;'',
        ''            text-align: center;'',
        ''            white-space: nowrap;'',
        ''            -webkit-overflow-scrolling: touch;'',
        ''        }'',
        ''    </style>'',
        ''</head>'',
        '''',
        ''<body>'',
        ''    <main class="d-flex flex-nowrap">'',
        ''        <div class="d-flex flex-column flex-shrink-0 p-3 text-bg-dark" style="width: 280px;">'',
        ''            <a href="/" class="d-flex align-items-center mb-3 mb-md-0 me-md-auto text-white text-decoration-none">'',
        ''                       <h4> <i class="bi bi-capsule me-2" width="40" height="32"></i> </h4> &nbsp;'',
        ''                <span class="fs-4">Nethadone</span>'',
        ''            </a>'',
        ''            <hr>'',
        ''            <ul class="nav nav-pills flex-column mb-auto">'',
        ''                <li>'',
        ''                    <a href="/interfaces" class="nav-link text-white">'',
        ''                        <i class="bi bi-pci-card-network me-2"></i> '',
        ''                        Interfaces'',
        ''                    </a>'',
        ''                </li>'',
        ''                <li>'',
        ''                    <a href="/policies" class="nav-link text-white">'',
        ''                        <i class="bi bi-journal-code me-2"></i> '',
        ''                        Policies'',
        ''                    </a>'',
        ''                </li>'',
        ''                <li>'',
        ''                    <a href="/devices" class="nav-link text-white">'',
        ''                        <i class="bi bi-hdd-network me-2"></i>'',
        ''                        Devices'',
        ''                    </a>'',
        ''                </li>'',
        ''                <li>'',
        ''                    <a href="/globs" class="nav-link text-white">'',
        ''                        <i class="bi bi-bullseye me-2"></i>'',
        ''                        Globs'',
        ''                    </a>'',
        ''                </li>'',
        ''                <li>'',
        ''                    <a href="/bandwidth" class="nav-link text-white">'',
        ''                        <i class="bi bi-laptop me-2"></i>'',
        ''                        Bandwidth'',
        ''                    </a>'',
        ''                </li>'',
        ''            </ul>'',
        ''            <hr>'',
        ''        </div>'',
        '''',
        ''        <div class="b-example-divider b-example-vr"></div>'',
        '''',
        ''        <div class="container">'',
        ''            <header class="p-3 text-bg-dark">'',
        ''                <div class="container">'',
        ''                    <div class="d-flex flex-wrap align-items-center justify-content-center justify-content-lg-start">'',
        ''                        <a href="/" class="d-flex align-items-center mb-2 mb-lg-0 text-white text-decoration-none">'',
        ''                            <i class="bi bi-laptop" width="40" height="32"></i>'',
        ''                        </a>'',
        '''',
        ''                    </div>'',
        ''                </div>'',
        ''            </header>'',
        '''',
        ''            '']),
     Embed,
     Text (lines
       ['''',
        '''',
        ''    </main>'',
        '''',
        ''</body>'',
        '''',
        ''</html>''])]\<close>

section \<open>The data of a page\<close>

definition policy_value :: "policy \<Rightarrow> tmpl_value" where
  "policy_value p = V_struct [(''SrcIp'', V_string (SrcIp p)), (''GlobGroup'', V_string (GlobGroup p)),
     (''Class'', V_int (Class p)), (''Tstamp'', V_time (Tstamp p))]"

definition glob_value :: "glob_group \<Rightarrow> tmpl_value" where
  "glob_value g = V_struct [(''Name'', V_string (Name g)), (''Description'', V_string (Description g)),
     (''Glob'', V_string (Glob g)), (''Device'', V_string (Device g))]"

definition bandwidth_value :: "bandwidth \<Rightarrow> tmpl_value" where
  "bandwidth_value b = V_struct [(''SrcIpAddr'', V_ip (bw_SrcIpAddr b)), (''DestIpAddr'', V_ip (bw_DestIpAddr b)),
     (''Bytes'', V_int (uint (bw_Bytes b))), (''ProbDomain'', V_string (bw_ProbDomain b)),
     (''GlobName'', V_string (bw_GlobName b))]"

definition interface_value :: "int \<times> string \<Rightarrow> tmpl_value" where
  "interface_value i = V_struct [(''Index'', V_int (fst i)), (''Name'', V_string (snd i))]"

definition link_value :: "string \<times> string \<Rightarrow> tmpl_value" where
  "link_value l = V_struct [(''Type'', V_string (fst l)), (''Attrs'', V_struct [(''Name'', V_string (snd l))])]"

text \<open>The map a handler passes to \<open>Render\<close>; \<open>GetAllPolicies\<close> gives a pointer, nil when the read failed.\<close>

fun bind_data :: "page_data \<Rightarrow> tmpl_value" where
  "bind_data No_data = V_map [(''Title'', V_string ''Hello, embedded template world!'')]"
| "bind_data (Interfaces_data is ls) = V_map [(''Interfaces'', V_slice (map interface_value is)),
     (''LinkList'', V_slice (map link_value ls)), (''Title'', V_string ''Interfaces'')]"
| "bind_data (Policies_data t) = V_map [(''Policies'',
     case t of None \<Rightarrow> V_nil_pointer | Some ps \<Rightarrow> V_slice (map policy_value ps))]"
| "bind_data (Globs_data gs) = V_map [(''Globs'', V_slice (map glob_value gs))]"
| "bind_data (Bandwidth_data bl) = V_map [(''BandwidthList'', V_slice (map bandwidth_value bl))]"
| "bind_data (Devices_data kvs) = V_map [(''Devices'', V_map (map (\<lambda>(k, v). (k, V_string v)) kvs)),
     (''Title'', V_string ''Interfaces'')]"

definition view :: "string \<Rightarrow> tmpl_node list option" where
  "view = map_of [(''index'', index_tpl), (''interfaces'', interfaces_tpl), (''devices'', devices_tpl),
     (''policies'', policies_tpl), (''globs'', globs_tpl), (''bandwidth'', bandwidth_tpl)]"

text \<open>\<open>c.Render(name, data, "layouts/base")\<close>. What the template engine does when the page inside the layout
  fails is \<open>on_error\<close>, applied to what the page has written: it may end the response there or write
  a message and go on with the layout.\<close>

definition render_page :: "(string \<Rightarrow> string \<times> bool) \<Rightarrow> string \<Rightarrow> page_data \<Rightarrow> (string \<times> bool) option" where
  "render_page on_error name data =
     map_option (\<lambda>t. execute (case execute ([], True) t (bind_data data) of
         (out, ok) \<Rightarrow> if ok then (out, True) else on_error out) base_tpl (bind_data data)) (view name)"

definition response_html :: "(string \<Rightarrow> string \<times> bool) \<Rightarrow> http_response \<Rightarrow> (string \<times> bool) option" where
  "response_html on_error r = (case r of Render name data \<Rightarrow> render_page on_error name data | _ \<Rightarrow> None)"

section \<open>The texts of the templates\<close>

text \<open>A text without cells that no tag crosses.\<close>

definition plain_text :: "string \<Rightarrow> bool" where
  "plain_text s \<longleftrightarrow> piece ''td'' s \<and> page_elements ''td'' s = []"

lemma plain_lines: "quiet_lines ''td'' None ls = Some None \<Longrightarrow> plain_text (lines ls)"
  by (simp add: plain_text_def quiet_text)

lemma base_text: "\<exists>h t. base_tpl = [Text h, Embed, Text t] \<and> plain_text h \<and> plain_text t"
  unfolding base_tpl_def by (intro exI conjI, rule refl; rule plain_lines, code_simp)

definition plain_table :: "tmpl_node list \<Rightarrow> string \<Rightarrow> tmpl_node list \<Rightarrow> bool" where
  "plain_table t f row \<longleftrightarrow> (\<exists>head tail. t = [Text head, Range [f] row, Text tail] \<and> plain_text head \<and> plain_text tail)"

lemma plain_tables:
  "plain_table policies_tpl ''Policies'' policies_row"
  "plain_table globs_tpl ''Globs'' globs_row"
  "plain_table bandwidth_tpl ''BandwidthList'' bandwidth_row_tpl"
  "plain_table devices_tpl ''Devices'' devices_row"
  unfolding plain_table_def policies_tpl_def globs_tpl_def bandwidth_tpl_def devices_tpl_def
  by (intro exI conjI, rule refl; rule plain_lines, code_simp)+

lemma rows_cells:
  "row_cells ''td'' policies_row = Some [[''SrcIp''], [''GlobGroup''], [''Class''], [''Tstamp'']]"
  "row_cells ''td'' globs_row = Some [[''Name''], [''Description''], [''Device''], [''Glob'']]"
  "row_cells ''td'' bandwidth_row_tpl =
     Some [[''SrcIpAddr''], [''DestIpAddr''], [''ProbDomain''], [''GlobName''], [''Bytes'']]"
  "row_cells ''li'' devices_row = Some [[]]"
  by code_simp+

section \<open>What a browser reads\<close>

text \<open>A page around a piece.\<close>

lemma render_framed:
  assumes "view name = Some t" and "execute ([], True) t (bind_data data) = (out, True)" and "piece ''td'' out"
  shows "\<exists>html. render_page on_error name data = Some (html, True) \<and>
    page_elements ''td'' html = page_elements ''td'' out"
proof -
  from base_text obtain h l where base: "base_tpl = [Text h, Embed, Text l]" "plain_text h" "plain_text l" by blast
  show ?thesis
    using assms base(2,3)
    by (simp add: render_page_def base(1) execute_def piece_append plain_text_def)
qed

lemma row_of_cells:
  assumes "row_cells name row = Some fss" and "map (\<lambda>fs. fields fs v) fss = map Some vs"
  shows "execute emb row v = (fst (execute emb row v), True)" and "piece name (fst (execute emb row v))"
    and "page_elements name (fst (execute emb row v)) = map (html_unescape \<circ> htmlescaper \<circ> fmt_Sprint) vs"
  using row_cells_read [OF assms(1,2), of emb] by auto

lemma table_page:
  assumes "plain_table t f row" and "row_cells name row = Some fss" and "name = ''td''"
    and "Option.bind (field f v) range_over = Some (map val xs)"
    and "\<forall>x \<in> set xs. map (\<lambda>fs. fields fs (val x)) fss = map Some (vals x)"
  shows "\<exists>out. execute emb t v = (out, True) \<and> piece name out \<and>
    page_elements name out = concat (map (\<lambda>x. map (html_unescape \<circ> htmlescaper \<circ> fmt_Sprint) (vals x)) xs)"
proof -
  from assms(1) obtain h l where t: "t = [Text h, Range [f] row, Text l]" "plain_text h" "plain_text l"
    by (auto simp: plain_table_def)
  define written where "written x = fst (execute emb row x)" for x
  have rows: "execute emb row (val x) = (written (val x), True)" "piece name (written (val x))"
      "page_elements name (written (val x)) = map (html_unescape \<circ> htmlescaper \<circ> fmt_Sprint) (vals x)"
    if "x \<in> set xs" for x
    using row_of_cells [OF assms(2), of "val x" "vals x" emb] assms(5) that by (simp_all add: written_def)
  have "execute emb t v = (h @ concat (map written (map val xs)) @ l, True)"
    unfolding t(1)
  proof (rule execute_table)
    show "Option.bind (fields [f] v) range_over = Some (map val xs)" using assms(4) by (cases "field f v") simp_all
    show "\<forall>y \<in> set (map val xs). execute emb row y = (written y, True)" using rows(1) by auto
  qed
  moreover have "piece name (concat (map written (map val xs)))"
      "page_elements name (concat (map written (map val xs))) =
         concat (map (\<lambda>x. map (html_unescape \<circ> htmlescaper \<circ> fmt_Sprint) (vals x)) xs)"
  proof -
    have all: "\<forall>s \<in> set (map written (map val xs)). piece name s" using rows(2) by auto
    show "piece name (concat (map written (map val xs)))" by (rule pieces_concat(1) [OF all])
    show "page_elements name (concat (map written (map val xs))) =
         concat (map (\<lambda>x. map (html_unescape \<circ> htmlescaper \<circ> fmt_Sprint) (vals x)) xs)"
      unfolding pieces_concat(2) [OF all] using rows(3) by (auto intro!: arg_cong [of _ _ concat])
  qed
  ultimately show ?thesis
    using t assms(3) by (simp add: plain_text_def piece_append)
qed

text \<open>Numbers, times and addresses are printed without a zero byte.\<close>

abbreviation clean :: "string \<Rightarrow> bool" where
  "clean s \<equiv> CHR 0x00 \<notin> set s"

lemma clean_dec: "clean (dec_of_nat n)"
proof
  assume "CHR 0x00 \<in> set (dec_of_nat n)"
  then obtain d where "d < 10" "CHR 0x00 = digit_char d" using set_dec_of_nat by blast
  then have "of_char (CHR 0x00) = 48 + d" by (simp add: of_char_digit)
  then show False by simp
qed

lemma clean_printed [simp]: "clean (go_itoa i)" "clean (time_String t)" "clean (ip_string a)"
proof -
  show itoa: "clean (go_itoa i)" for i by (simp add: go_itoa_def clean_dec)
  have "clean (pad2 i)" "clean (pad4 i)" for i using itoa [of i] by (simp_all add: pad2_def pad4_def)
  then show "clean (time_String t)" by (simp add: time_String_def Let_def split: prod.split)
  show "clean (ip_string a)" by (induction a rule: ip_string.induct) (simp_all add: clean_dec)
qed

definition get :: "string \<Rightarrow> http_request" where
  "get path = \<lparr>req_method = GET, req_path = path, req_form = (\<lambda>_. None)\<rparr>"

lemma read_back:
  assumes "view name = Some t" and "plain_table t f row" and "row_cells ''td'' row = Some fss"
    and "Option.bind (field f (bind_data data)) range_over = Some (map val xs)"
    and "\<forall>x \<in> set xs. map (\<lambda>fs. fields fs (val x)) fss = map Some (vals x) \<and> (\<forall>v \<in> set (vals x). clean (fmt_Sprint v))"
  shows "\<exists>html. render_page on_error name data = Some (html, True) \<and>
    page_elements ''td'' html = concat (map (\<lambda>x. map fmt_Sprint (vals x)) xs)"
proof -
  have vals: "\<forall>x \<in> set xs. map (\<lambda>fs. fields fs (val x)) fss = map Some (vals x)" using assms(5) by blast
  have "concat (map (\<lambda>x. map (html_unescape \<circ> htmlescaper \<circ> fmt_Sprint) (vals x)) xs) =
      concat (map (\<lambda>x. map fmt_Sprint (vals x)) xs)"
    using assms(5) by (auto simp: unescape_escaped intro!: arg_cong [of _ _ concat])
  moreover from table_page [OF assms(2,3) refl assms(4) vals, of "([], True)"] obtain out where
      "execute ([], True) t (bind_data data) = (out, True)" "piece ''td'' out"
      "page_elements ''td'' out = concat (map (\<lambda>x. map (html_unescape \<circ> htmlescaper \<circ> fmt_Sprint) (vals x)) xs)"
    by blast
  ultimately show ?thesis using render_framed [OF assms(1), of data out on_error] by auto
qed

text \<open>C28: The pages show the tables as they are: a browser reads in the cells of the page of policies, of glob
  groups and of the bandwidth list exactly the fields of the rows, row by row, whatever characters a
  name, a description or a pattern contains, a zero byte excepted.\<close>

theorem pages_show_tables:
  assumes "select_ok w"
    and "\<forall>p \<in> set t. clean (SrcIp p) \<and> clean (GlobGroup p)"
    and "\<forall>g \<in> set globs. clean (Name g) \<and> clean (Description g) \<and> clean (Device g) \<and> clean (Glob g)"
    and "bl = getBandwidthList (monitor_loaded w) False (newest_choice w) globs dns (map_entries w)"
    and "\<forall>b \<in> set bl. clean (bw_ProbDomain b) \<and> clean (bw_GlobName b)"
  shows "(\<exists>html. response_html on_error (snd (serve w (get ''/policies'') t dns globs)) = Some (html, True) \<and>
      page_elements ''td'' html =
        concat (map (\<lambda>p. [SrcIp p, GlobGroup p, go_itoa (Class p), time_String (Tstamp p)]) t)) \<and>
    (\<exists>html. response_html on_error (snd (serve w (get ''/globs'') t dns globs)) = Some (html, True) \<and>
      page_elements ''td'' html = concat (map (\<lambda>g. [Name g, Description g, Device g, Glob g]) globs)) \<and>
    (\<exists>html. response_html on_error (snd (serve w (get ''/bandwidth'') t dns globs)) = Some (html, True) \<and>
      page_elements ''td'' html =
        concat (map (\<lambda>b. [ip_string (bw_SrcIpAddr b), ip_string (bw_DestIpAddr b), bw_ProbDomain b, bw_GlobName b,
          go_itoa (uint (bw_Bytes b))]) bl))"
proof (intro conjI)
  let ?page = "\<lambda>path. response_html on_error (snd (serve w (get path) t dns globs))"
  have "?page ''/policies'' = render_page on_error ''policies'' (Policies_data (Some t))"
    using assms(1) by (simp add: response_html_def serve_def get_def Policies_def GetAllPolicies_def)
  then show "\<exists>html. ?page ''/policies'' = Some (html, True) \<and> page_elements ''td'' html =
      concat (map (\<lambda>p. [SrcIp p, GlobGroup p, go_itoa (Class p), time_String (Tstamp p)]) t)"
    using read_back [of "''policies''" _ _ _ _ "Policies_data (Some t)" policy_value t
        "\<lambda>p. [V_string (SrcIp p), V_string (GlobGroup p), V_int (Class p), V_time (Tstamp p)]" on_error,
        OF _ plain_tables(1) rows_cells(1)] assms(2)
    by (simp add: view_def policy_value_def)
  have "?page ''/globs'' = render_page on_error ''globs'' (Globs_data globs)"
    using assms(1) by (simp add: response_html_def serve_def get_def Globs_def GetGlobs_def)
  then show "\<exists>html. ?page ''/globs'' = Some (html, True) \<and> page_elements ''td'' html =
      concat (map (\<lambda>g. [Name g, Description g, Device g, Glob g]) globs)"
    using read_back [of "''globs''" _ _ _ _ "Globs_data globs" glob_value globs
        "\<lambda>g. [V_string (Name g), V_string (Description g), V_string (Device g), V_string (Glob g)]" on_error,
        OF _ plain_tables(2) rows_cells(2)] assms(3)
    by (simp add: view_def glob_value_def)
  have "?page ''/bandwidth'' = render_page on_error ''bandwidth'' (Bandwidth_data bl)"
    by (simp add: response_html_def serve_def get_def Bandwidth_page_def assms(4))
  then show "\<exists>html. ?page ''/bandwidth'' = Some (html, True) \<and> page_elements ''td'' html =
      concat (map (\<lambda>b. [ip_string (bw_SrcIpAddr b), ip_string (bw_DestIpAddr b), bw_ProbDomain b, bw_GlobName b,
        go_itoa (uint (bw_Bytes b))]) bl)"
    using read_back [of "''bandwidth''" _ _ _ _ "Bandwidth_data bl" bandwidth_value bl
        "\<lambda>b. [V_ip (bw_SrcIpAddr b), V_ip (bw_DestIpAddr b), V_string (bw_ProbDomain b), V_string (bw_GlobName b),
          V_int (uint (bw_Bytes b))]" on_error,
        OF _ plain_tables(3) rows_cells(3)] assms(5)
    by (simp add: view_def bandwidth_value_def)
qed

section \<open>The markup\<close>

fun printed :: "tmpl_node list \<Rightarrow> string list list option" where
  "printed [] = Some []"
| "printed (Text s # ns) = (if balanced s then printed ns else None)"
| "printed (Print fs # ns) = map_option (\<lambda>fss. fs # fss) (printed ns)"
| "printed ns = None"

lemma printed_tags:
  "printed row = Some fss \<Longrightarrow> \<forall>fs \<in> set fss. fields fs v \<noteq> None \<Longrightarrow>
   \<exists>out. execute emb row v = (out, True) \<and> balanced out \<and> page_tags out = text_tags row"
proof (induction row arbitrary: fss rule: printed.induct)
  case (2 s ns)
  then show ?case by (fastforce simp: execute_Cons balanced_append page_tags_append split: if_splits)
next
  case (3 fs ns)
  then show ?case by (fastforce simp: execute_Cons balanced_append page_tags_append page_tags_def scan_append scan_end_append)
qed (simp_all add: page_tags_def)

lemma range_tags:
  assumes "printed row = Some fss" and "Option.bind (field f v) range_over = Some vs"
    and "\<forall>x \<in> set vs. \<forall>fs \<in> set fss. fields fs x \<noteq> None"
  shows "\<exists>out. exec emb (Range [f] row) v = (out, True) \<and> balanced out \<and>
    page_tags out = concat (replicate (length vs) (text_tags row))"
proof -
  have "\<exists>out. in_turn (concat (map (exec_list emb row) vs)) = (out, True) \<and> balanced out \<and>
      page_tags out = concat (replicate (length vs) (text_tags row))"
    using assms(3)
  proof (induction vs)
    case (Cons x vs)
    then obtain out where "in_turn (concat (map (exec_list emb row) vs)) = (out, True)" "balanced out"
        "page_tags out = concat (replicate (length vs) (text_tags row))" by auto
    moreover obtain out' where "execute emb row x = (out', True)" "balanced out'" "page_tags out' = text_tags row"
      using printed_tags [OF assms(1), of x emb] Cons.prems by fastforce
    ultimately show ?case
      by (simp add: in_turn_append execute_def balanced_append page_tags_append)
  qed (simp add: page_tags_def)
  with assms(2) show ?thesis by (cases "field f v") simp_all
qed

lemma rows_printed:
  "printed interfaces_row = Some [[''Index''], [''Name'']]"
  "printed links_row = Some [[''Type''], [''Attrs'', ''Name'']]"
  "printed devices_row = Some [[]]"
  "printed policies_row = Some [[''SrcIp''], [''GlobGroup''], [''Class''], [''Tstamp'']]"
  "printed globs_row = Some [[''Name''], [''Description''], [''Device''], [''Glob'']]"
  "printed bandwidth_row_tpl =
     Some [[''SrcIpAddr''], [''DestIpAddr''], [''ProbDomain''], [''GlobName''], [''Bytes'']]"
  by code_simp+

lemma list_texts:
  "\<exists>h m l. interfaces_tpl = [Text h, Range [''Interfaces''] interfaces_row, Text m,
     Range [''LinkList''] links_row, Text l] \<and> plain_text h \<and> plain_text m \<and> plain_text l"
  "\<exists>h. index_tpl = [Text h] \<and> plain_text h"
  unfolding interfaces_tpl_def index_tpl_def
  by (intro exI conjI, rule refl; rule plain_lines, code_simp)+

text \<open>The tags that the texts of a template give, with the number of rows of each range.\<close>

fun node_tags :: "tmpl_node list \<Rightarrow> nat list \<Rightarrow> string list" where
  "node_tags (Text s # t) ns = page_tags s @ node_tags t ns"
| "node_tags (Range f row # t) (n # ns) = concat (replicate n (text_tags row)) @ node_tags t ns"
| "node_tags t ns = []"

definition framed :: "string list \<Rightarrow> string list" where
  "framed ts = text_tags (take 1 base_tpl) @ ts @ text_tags (drop 2 base_tpl)"

fun page_rows :: "page_data \<Rightarrow> nat list" where
  "page_rows No_data = []"
| "page_rows (Interfaces_data is ls) = [length is, length ls]"
| "page_rows (Policies_data t) = [case t of None \<Rightarrow> 0 | Some ps \<Rightarrow> length ps]"
| "page_rows (Globs_data gs) = [length gs]"
| "page_rows (Bandwidth_data bl) = [length bl]"
| "page_rows (Devices_data kvs) = [length kvs]"

lemma framed_tags:
  assumes "view name = Some t" and "execute ([], True) t (bind_data data) = (out, True)" and "balanced out"
  shows "\<exists>html. render_page on_error name data = Some (html, True) \<and> page_tags html = framed (page_tags out)"
proof -
  from base_text obtain h l where base: "base_tpl = [Text h, Embed, Text l]" "balanced h" "balanced l"
    by (auto simp: plain_text_def piece_def)
  show ?thesis
    using assms base(2,3) by (simp add: render_page_def framed_def base(1) execute_def page_tags_append)
qed

lemma table_tags:
  assumes "plain_table t f row" and "printed row = Some fss" and "Option.bind (field f v) range_over = Some vs"
    and "\<forall>x \<in> set vs. \<forall>fs \<in> set fss. fields fs x \<noteq> None"
  shows "\<exists>out. execute emb t v = (out, True) \<and> balanced out \<and> page_tags out = node_tags t [length vs]"
proof -
  from assms(1) obtain h l where t: "t = [Text h, Range [f] row, Text l]" "balanced h" "balanced l"
    by (auto simp: plain_table_def plain_text_def piece_def)
  from range_tags [OF assms(2-4)] obtain out where "exec emb (Range [f] row) v = (out, True)" "balanced out"
      "page_tags out = concat (replicate (length vs) (text_tags row))"
    by blast
  with t show ?thesis
    by (simp add: execute_Cons del: exec.simps(3)) (simp add: balanced_append page_tags_append)
qed

text \<open>Every page but that of a failed read of the policies.\<close>

lemma page_markup:
  assumes "view name = Some t"
    and "(name, data) \<in> {(''index'', No_data)} \<union> range (\<lambda>(is, ls). (''interfaces'', Interfaces_data is ls)) \<union>
      range (\<lambda>ps. (''policies'', Policies_data (Some ps))) \<union> range (\<lambda>gs. (''globs'', Globs_data gs)) \<union>
      range (\<lambda>bl. (''bandwidth'', Bandwidth_data bl)) \<union> range (\<lambda>kvs. (''devices'', Devices_data kvs))"
  shows "\<exists>out. execute ([], True) t (bind_data data) = (out, True) \<and> balanced out \<and>
    page_tags out = node_tags t (page_rows data)"
proof -
  consider (index) "name = ''index''" "data = No_data"
    | (interfaces) "is" ls where "name = ''interfaces''" "data = Interfaces_data is ls"
    | (policies) ps where "name = ''policies''" "data = Policies_data (Some ps)"
    | (globs) gs where "name = ''globs''" "data = Globs_data gs"
    | (bandwidth) bl where "name = ''bandwidth''" "data = Bandwidth_data bl"
    | (devices) kvs where "name = ''devices''" "data = Devices_data kvs"
    using assms(2) by auto
  then show ?thesis
  proof cases
    case policies
    then show ?thesis
      using assms(1) table_tags [OF plain_tables(1) rows_printed(4), of "bind_data data" "map policy_value ps"]
      by (simp add: view_def policy_value_def)
  next
    case globs
    then show ?thesis
      using assms(1) table_tags [OF plain_tables(2) rows_printed(5), of "bind_data data" "map glob_value gs"]
      by (simp add: view_def glob_value_def)
  next
    case bandwidth
    then show ?thesis
      using assms(1) table_tags [OF plain_tables(3) rows_printed(6), of "bind_data data" "map bandwidth_value bl"]
      by (simp add: view_def bandwidth_value_def)
  next
    case devices
    then show ?thesis
      using assms(1) table_tags [OF plain_tables(4) rows_printed(3), of "bind_data data" "map (V_string \<circ> snd) kvs"]
      by (simp add: view_def comp_def case_prod_beta)
  next
    case index
    from list_texts(2) obtain h where h: "index_tpl = [Text h]" "balanced h" by (auto simp: plain_text_def piece_def)
    have t: "t = [Text h]" using assms(1) index(1) h(1) by (simp add: view_def)
    show ?thesis unfolding t index(2) by (simp add: execute_Cons h(2))
  next
    case interfaces
    let ?v = "bind_data data"
    from list_texts(1) obtain h m l where t: "interfaces_tpl = [Text h, Range [''Interfaces''] interfaces_row, Text m,
        Range [''LinkList''] links_row, Text l]" "balanced h" "balanced m" "balanced l"
      by (auto simp: plain_text_def piece_def)
    from range_tags [OF rows_printed(1), of "''Interfaces''" ?v "map interface_value is" "([], True)"] obtain a where a:
        "exec ([], True) (Range [''Interfaces''] interfaces_row) ?v = (a, True)" "balanced a"
        "page_tags a = concat (replicate (length is) (text_tags interfaces_row))"
      using interfaces by (auto simp: interface_value_def)
    from range_tags [OF rows_printed(2), of "''LinkList''" ?v "map link_value ls" "([], True)"] obtain b where b:
        "exec ([], True) (Range [''LinkList''] links_row) ?v = (b, True)" "balanced b"
        "page_tags b = concat (replicate (length ls) (text_tags links_row))"
      using interfaces by (auto simp: link_value_def)
    have "execute ([], True) interfaces_tpl ?v = (h @ a @ m @ b @ l, True)"
      using a(1) b(1) unfolding t(1) by (simp add: execute_Cons del: exec.simps(3))
    moreover have "page_tags (h @ a @ m @ b @ l) = node_tags interfaces_tpl [length is, length ls]"
      unfolding t(1) using t(2-4) a(2,3) b(2,3) by (simp add: balanced_append page_tags_append)
    moreover have "t = interfaces_tpl" using assms(1) interfaces(1) by (simp add: view_def)
    ultimately show ?thesis
      using t(2-4) a(2) b(2) interfaces(2) by (simp add: balanced_append)
  qed
qed

text \<open>C29: Data never becomes markup: whatever the tables, the names of interfaces and the answers of DNS contain,
  two pages for the same request that show as many rows have the same tags, unless the policies could
  not be read.\<close>

theorem data_adds_no_markup:
  assumes "snd (serve w c t dns globs) = Render name data" and "data \<noteq> Policies_data None"
    and "snd (serve w' c t' dns' globs') = Render name' data'" and "data' \<noteq> Policies_data None"
    and "page_rows data = page_rows data'"
  shows "\<exists>html html'. response_html on_error (snd (serve w c t dns globs)) = Some (html, True) \<and>
    response_html on_error' (snd (serve w' c t' dns' globs')) = Some (html', True) \<and>
    page_tags html = page_tags html'"
proof -
  let ?pages = "{(''index'', No_data)} \<union> range (\<lambda>(is, ls). (''interfaces'', Interfaces_data is ls)) \<union>
      range (\<lambda>ps. (''policies'', Policies_data (Some ps))) \<union> range (\<lambda>gs. (''globs'', Globs_data gs)) \<union>
      range (\<lambda>bl. (''bandwidth'', Bandwidth_data bl)) \<union> range (\<lambda>kvs. (''devices'', Devices_data kvs))"
  have render: "\<exists>html. render_page on_error name data = Some (html, True) \<and>
      page_tags html = framed (node_tags (the (view name)) (page_rows data))"
    if "(name, data) \<in> ?pages" for name data on_error
  proof -
    from that obtain t where t: "view name = Some t" by (auto simp: view_def)
    from page_markup [OF t that] obtain out where out: "execute ([], True) t (bind_data data) = (out, True)"
        "balanced out" "page_tags out = node_tags t (page_rows data)" by blast
    show ?thesis using framed_tags [OF t out(1,2), of on_error] by (simp add: t out(3))
  qed
  have page: "(name, data) \<in> ?pages" if "snd (serve w c t dns globs) = Render name data" "data \<noteq> Policies_data None"
    for w t dns globs name data
    using that by (auto simp: serve_def Index_def Interfaces_def Devices_def Policies_def Globs_def Bandwidth_page_def
        GlobAdd_eq MetricsHandleFunc_def GetAllPolicies_def split: if_splits)
  have "name = name'"
    using assms(1,3) by (auto simp: serve_def Index_def Interfaces_def Devices_def Policies_def Globs_def Bandwidth_page_def
        GlobAdd_eq MetricsHandleFunc_def split: if_splits)
  with render [OF page [OF assms(1,2)], of on_error] render [OF page [OF assms(3,4)], of on_error'] assms(1,3,5)
  show ?thesis by (auto simp: response_html_def)
qed

text \<open>A name that is markup is shown as text, in a page with the tags of any other name.\<close>

definition demo_web :: web_env where
  "demo_web = \<lparr>list_ok = True, netlink_ok = True, links_ok = True, ifaces = [(2, ''lan0'')], links = [(''device'', ''lan0'')],
     select_ok = True, insert_ok = True, monitor_loaded = False, newest_choice = hd, map_entries = []\<rparr>"

definition script_group :: glob_group where
  "script_group = \<lparr>Name = ''<script>alert(1)</script>'', Description = ''a+b & c'', Glob = ''*.tube.com'', Device = []\<rparr>"

theorem pages_show_tables_witness:
  "\<exists>html. response_html (\<lambda>out. (out, False)) (snd (serve demo_web (get ''/globs'') [] [] [script_group])) = Some (html, True) \<and>
     page_elements ''td'' html = [''<script>alert(1)</script>'', ''a+b & c'', [], ''*.tube.com'']"
  using pages_show_tables [of demo_web "[]" "[script_group]" "[]" "[]" "\<lambda>out. (out, False)"]
  by (simp add: demo_web_def script_group_def getBandwidthList_def)

theorem data_adds_no_markup_witness:
  "\<exists>html html'. response_html (\<lambda>out. (out, False)) (snd (serve demo_web (get ''/globs'') [] [] [script_group])) = Some (html, True) \<and>
     response_html (\<lambda>out. (out, False)) (snd (serve demo_web (get ''/globs'') [] [] [script_group\<lparr>Name := ''video''\<rparr>])) =
       Some (html', True) \<and>
     page_tags html = page_tags html'"
proof (rule data_adds_no_markup)
  show "snd (serve demo_web (get ''/globs'') [] [] [script_group]) = Render ''globs'' (Globs_data [script_group])"
    and "snd (serve demo_web (get ''/globs'') [] [] [script_group\<lparr>Name := ''video''\<rparr>]) =
      Render ''globs'' (Globs_data [script_group\<lparr>Name := ''video''\<rparr>])"
    by (simp_all add: serve_def get_def Globs_def GetGlobs_def demo_web_def)
qed simp_all

text \<open>A failed read of the policies: the page stops at the range over a nil pointer, before its rows, where
  a failed read of the groups gives an empty table.\<close>

lemma failed_read_breaks_policies:
  assumes "\<not> select_ok w"
  shows "\<exists>out. execute ([], True) policies_tpl (bind_data (Policies_data (GetAllPolicies (select_ok w) t))) = (out, False) \<and>
      page_elements ''td'' out = []"
    and "\<exists>html. response_html on_error (snd (serve w (get ''/globs'') t dns globs)) = Some (html, True) \<and>
      page_elements ''td'' html = []"
proof -
  from plain_tables(1) obtain h l where t: "policies_tpl = [Text h, Range [''Policies''] policies_row, Text l]" "plain_text h"
    by (auto simp: plain_table_def)
  then show "\<exists>out. execute ([], True) policies_tpl (bind_data (Policies_data (GetAllPolicies (select_ok w) t))) = (out, False) \<and>
      page_elements ''td'' out = []"
    using assms by (simp add: execute_def GetAllPolicies_def plain_text_def t(1))
  show "\<exists>html. response_html on_error (snd (serve w (get ''/globs'') t dns globs)) = Some (html, True) \<and>
      page_elements ''td'' html = []"
    using read_back [of "''globs''" _ _ _ _ "Globs_data []" glob_value "[]"
        "\<lambda>g. [V_string (Name g), V_string (Description g), V_string (Device g), V_string (Glob g)]" on_error,
        OF _ plain_tables(2) rows_cells(2)] assms
    by (simp add: view_def serve_def get_def Globs_def GetGlobs_def response_html_def)
qed

text \<open>The group of a submitted form is in the last row of the page it is redirected to.\<close>

lemma submitted_group_is_shown:
  assumes "insert_ok w" and "select_ok w" and "req_method c = POST" and "req_path c = ''/globs/add''"
    and "FormValue c ''name'' \<notin> Name ` set globs"
    and "\<forall>g \<in> set globs. clean (Name g) \<and> clean (Description g) \<and> clean (Device g) \<and> clean (Glob g)"
    and "\<forall>f \<in> {''name'', ''description'', ''device'', ''glob''}. clean (FormValue c f)"
  shows "\<exists>globs' html. serve w c t dns globs = (globs', Redirect ''/globs'') \<and>
    response_html on_error (snd (serve w (get ''/globs'') t' dns' globs')) = Some (html, True) \<and>
    page_elements ''td'' html = concat (map (\<lambda>g. [Name g, Description g, Device g, Glob g]) globs) @
      map (FormValue c) [''name'', ''description'', ''device'', ''glob'']"
proof -
  let ?g = "\<lparr>Name = FormValue c ''name'', Description = FormValue c ''description'',
      Glob = FormValue c ''glob'', Device = FormValue c ''device''\<rparr>"
  have "serve w c t dns globs = (globs @ [?g], Redirect ''/globs'')"
    using assms(1,3-5) by (simp add: serve_def GlobAdd_eq AddGlob_appends)
  moreover have "\<exists>html. response_html on_error (snd (serve w (get ''/globs'') t' dns' (globs @ [?g]))) = Some (html, True) \<and>
      page_elements ''td'' html = concat (map (\<lambda>g. [Name g, Description g, Device g, Glob g]) (globs @ [?g]))"
    using read_back [of "''globs''" _ _ _ _ "Globs_data (globs @ [?g])" glob_value "globs @ [?g]"
        "\<lambda>g. [V_string (Name g), V_string (Description g), V_string (Device g), V_string (Glob g)]" on_error,
        OF _ plain_tables(2) rows_cells(2)] assms(2,6,7)
    by (simp add: view_def glob_value_def serve_def get_def Globs_def GetGlobs_def response_html_def)
  ultimately show ?thesis by auto
qed

end
