(* ===== verification/Loaders.thy ===== *)
theory Loaders
  imports MapDecls Attach
begin

text \<open>
  The loaders that bpf2go generated (\<open>handlers/dnspkt_bpfel.go\<close>, \<open>handlers/trafficmon_bpfel.go\<close> and their
  \<open>bpfeb\<close> twins), and \<open>throttleObjects\<close> of \<open>handlers/bpf.go\<close>: which names of the compiled object each
  field takes, and how the objects are closed. The library call \<open>LoadAndAssign\<close> is the contract
  \<open>collection_loader\<close>. The names and map declarations of the objects are those of the C sources;
  the embedded bytes are not decoded.
\<close>

section \<open>Objects and fields\<close>

datatype field_kind = Program_field | Map_field

type_synonym tag = "field_kind \<times> string"

text \<open>A compiled object: its programs and its maps.\<close>

record collection =
  programs :: "string list"
  maps :: "(string \<times> map_decl) list"

definition trafficmon_collection :: collection where
  "trafficmon_collection = \<lparr>programs = [''traffic_mon''], maps = [(''src_dest_bytes'', src_dest_bytes)]\<rparr>"

definition dnspkt_collection :: collection where
  "dnspkt_collection = \<lparr>programs = [''udp_dns_sniff''], maps = [(''tmp_map'', tmp_map), (''dns_arr'', dns_arr)]\<rparr>"

definition throttle_collection :: collection where
  "throttle_collection = \<lparr>programs = [''throttle''], maps = [(''throttle_stats'', throttle_stats)]\<rparr>"

fun in_collection :: "collection \<Rightarrow> tag \<Rightarrow> bool" where
  "in_collection spec (Program_field, name) \<longleftrightarrow> name \<in> set (programs spec)"
| "in_collection spec (Map_field, name) \<longleftrightarrow> name \<in> fst ` set (maps spec)"

text \<open>The fields of the structs, in their order, with their tags.\<close>

definition trafficmonPrograms :: "(string \<times> tag) list" where
  "trafficmonPrograms = [(''TrafficMon'', Program_field, ''traffic_mon'')]"

definition trafficmonMaps :: "(string \<times> tag) list" where
  "trafficmonMaps = [(''SrcDestBytes'', Map_field, ''src_dest_bytes'')]"

definition trafficmonObjects :: "(string \<times> tag) list" where
  "trafficmonObjects = trafficmonPrograms @ trafficmonMaps"

definition dnspktPrograms :: "(string \<times> tag) list" where
  "dnspktPrograms = [(''UdpDnsSniff'', Program_field, ''udp_dns_sniff'')]"

definition dnspktMaps :: "(string \<times> tag) list" where
  "dnspktMaps = [(''DnsArr'', Map_field, ''dns_arr''), (''TmpMap'', Map_field, ''tmp_map'')]"

definition dnspktObjects :: "(string \<times> tag) list" where
  "dnspktObjects = dnspktPrograms @ dnspktMaps"

definition throttleObjects_fields :: "(string \<times> tag) list" where
  "throttleObjects_fields = [(''Map'', Map_field, ''throttle_stats''), (''Prog'', Program_field, ''throttle'')]"

section \<open>Loading\<close>

text \<open>\<open>LoadAndAssign\<close> for a struct with these tags: \<open>answer\<close> is what loading the program or map of a tag
  gives, \<open>None\<close> when it is refused. A tag that the object does not have, or that two fields have, is
  an error, and so is a refusal.\<close>

locale collection_loader =
  fixes LoadAndAssign :: "collection \<Rightarrow> tag list \<Rightarrow> (tag \<Rightarrow> 'fd option) \<Rightarrow> 'fd list option"
  assumes assigned: "distinct tags \<Longrightarrow> \<forall>t \<in> set tags. in_collection spec t \<and> answer t = Some (fd t) \<Longrightarrow>
      LoadAndAssign spec tags answer = Some (map fd tags)"
    and not_found: "t \<in> set tags \<Longrightarrow> \<not> in_collection spec t \<Longrightarrow> LoadAndAssign spec tags answer = None"
    and twice: "\<not> distinct tags \<Longrightarrow> LoadAndAssign spec tags answer = None"
    and refused: "t \<in> set tags \<Longrightarrow> answer t = None \<Longrightarrow> LoadAndAssign spec tags answer = None"
begin

text \<open>An object that has the tags of the fields is loaded exactly when the kernel takes all of them.\<close>

lemma loaded_iff_accepted:
  assumes "distinct tags" and "\<forall>t \<in> set tags. in_collection spec t"
  shows "LoadAndAssign spec tags answer =
    (if \<forall>t \<in> set tags. answer t \<noteq> None then Some (map (the \<circ> answer) tags) else None)"
proof (cases "\<forall>t \<in> set tags. answer t \<noteq> None")
  case True
  then show ?thesis using assigned [OF assms(1), of spec answer "the \<circ> answer"] assms(2) by force
next
  case False
  then show ?thesis using refused by auto
qed

end

text \<open>\<open>loadTrafficmonObjects\<close> and \<open>loadDnspktObjects\<close>: the embedded bytes are parsed first.\<close>

definition loadTrafficmonObjects ::
  "(collection \<Rightarrow> tag list \<Rightarrow> (tag \<Rightarrow> 'fd option) \<Rightarrow> 'fd list option) \<Rightarrow> collection option \<Rightarrow> (tag \<Rightarrow> 'fd option) \<Rightarrow>
   'fd list option" where
  "loadTrafficmonObjects LoadAndAssign loadTrafficmon answer =
     (case loadTrafficmon of None \<Rightarrow> None
      | Some spec \<Rightarrow> LoadAndAssign spec (map snd trafficmonObjects) answer)"

definition loadDnspktObjects ::
  "(collection \<Rightarrow> tag list \<Rightarrow> (tag \<Rightarrow> 'fd option) \<Rightarrow> 'fd list option) \<Rightarrow> collection option \<Rightarrow> (tag \<Rightarrow> 'fd option) \<Rightarrow>
   'fd list option" where
  "loadDnspktObjects LoadAndAssign loadDnspkt answer =
     (case loadDnspkt of None \<Rightarrow> None
      | Some spec \<Rightarrow> LoadAndAssign spec (map snd dnspktObjects) answer)"

text \<open>The part of \<open>reattachThrottler\<close> that reads and loads the compiled file.\<close>

definition load_throttler ::
  "(collection \<Rightarrow> tag list \<Rightarrow> (tag \<Rightarrow> 'fd option) \<Rightarrow> 'fd list option) \<Rightarrow> collection option \<Rightarrow> (tag \<Rightarrow> 'fd option) \<Rightarrow>
   'fd list option" where
  "load_throttler LoadAndAssign LoadCollectionSpec answer =
     (case LoadCollectionSpec of None \<Rightarrow> None
      | Some spec \<Rightarrow> LoadAndAssign spec (map snd throttleObjects_fields) answer)"

lemmas object_defs =
  trafficmonObjects_def trafficmonPrograms_def trafficmonMaps_def dnspktObjects_def dnspktPrograms_def dnspktMaps_def
  throttleObjects_fields_def trafficmon_collection_def dnspkt_collection_def throttle_collection_def

text \<open>Every tag names something of its object: whether a start gets past loading is up to the kernel
  alone, and then each field holds the program or map of that name. The maps that the daemon reads,
  \<open>SrcDestBytes\<close> and \<open>DnsArr\<close>, are those the programs declare, with their sizes.\<close>

theorem loaders_fit_objects:
  assumes "collection_loader LoadAndAssign"
  shows "loadTrafficmonObjects LoadAndAssign (Some trafficmon_collection) answer =
      (if \<forall>t \<in> set (map snd trafficmonObjects). answer t \<noteq> None
       then Some (map (the \<circ> answer \<circ> snd) trafficmonObjects) else None)"
    and "loadDnspktObjects LoadAndAssign (Some dnspkt_collection) answer =
      (if \<forall>t \<in> set (map snd dnspktObjects). answer t \<noteq> None
       then Some (map (the \<circ> answer \<circ> snd) dnspktObjects) else None)"
    and "load_throttler LoadAndAssign (Some throttle_collection) answer =
      (if \<forall>t \<in> set (map snd throttleObjects_fields). answer t \<noteq> None
       then Some (map (the \<circ> answer \<circ> snd) throttleObjects_fields) else None)"
proof -
  note load = collection_loader.loaded_iff_accepted [OF assms]
  have "distinct (map snd trafficmonObjects)" "\<forall>t \<in> set (map snd trafficmonObjects). in_collection trafficmon_collection t"
    "distinct (map snd dnspktObjects)" "\<forall>t \<in> set (map snd dnspktObjects). in_collection dnspkt_collection t"
    "distinct (map snd throttleObjects_fields)"
    "\<forall>t \<in> set (map snd throttleObjects_fields). in_collection throttle_collection t"
    by (simp_all add: object_defs)
  note tags = this
  show "loadTrafficmonObjects LoadAndAssign (Some trafficmon_collection) answer =
      (if \<forall>t \<in> set (map snd trafficmonObjects). answer t \<noteq> None
       then Some (map (the \<circ> answer \<circ> snd) trafficmonObjects) else None)"
    by (simp only: loadTrafficmonObjects_def option.case load [OF tags(1,2)] map_map)
  show "loadDnspktObjects LoadAndAssign (Some dnspkt_collection) answer =
      (if \<forall>t \<in> set (map snd dnspktObjects). answer t \<noteq> None
       then Some (map (the \<circ> answer \<circ> snd) dnspktObjects) else None)"
    by (simp only: loadDnspktObjects_def option.case load [OF tags(3,4)] map_map)
  show "load_throttler LoadAndAssign (Some throttle_collection) answer =
      (if \<forall>t \<in> set (map snd throttleObjects_fields). answer t \<noteq> None
       then Some (map (the \<circ> answer \<circ> snd) throttleObjects_fields) else None)"
    by (simp only: load_throttler_def option.case load [OF tags(5,6)] map_map)
qed

text \<open>A loader that does what the contract says.\<close>

definition assign_fields :: "collection \<Rightarrow> tag list \<Rightarrow> (tag \<Rightarrow> 'fd option) \<Rightarrow> 'fd list option" where
  "assign_fields spec tags answer =
     (if distinct tags \<and> list_all (in_collection spec) tags then those (map answer tags) else None)"

lemma those_map_Some: "\<forall>x \<in> set xs. f x = Some (g x) \<Longrightarrow> those (map f xs) = Some (map g xs)"
  by (induction xs) auto

lemma those_map_None: "x \<in> set xs \<Longrightarrow> f x = None \<Longrightarrow> those (map f xs) = None"
  by (induction xs) (auto split: option.split)

interpretation ref_loader: collection_loader assign_fields
  by unfold_locales (auto simp: assign_fields_def list_all_iff intro: those_map_Some those_map_None)

text \<open>How loading enters a start and a replacement of the throttler.\<close>

definition loading_start :: "(tag \<Rightarrow> 'fd option) \<Rightarrow> apply_env \<Rightarrow> start_env" where
  "loading_start answer env =
     \<lparr>dnspkt_ok = loadDnspktObjects assign_fields (Some dnspkt_collection) answer \<noteq> None,
      trafficmon_ok = loadTrafficmonObjects assign_fields (Some trafficmon_collection) answer \<noteq> None,
      apply_env = env\<lparr>assign_ok := load_throttler assign_fields (Some throttle_collection) answer \<noteq> None\<rparr>\<rparr>"

lemma loading_start_accepted:
  "\<forall>t. answer t \<noteq> None \<Longrightarrow> dnspkt_ok (loading_start answer env) \<and> trafficmon_ok (loading_start answer env) \<and>
    assign_ok (apply_env (loading_start answer env))"
  by (simp add: loading_start_def loaders_fit_objects [OF ref_loader.collection_loader_axioms] del: split_paired_All not_None_eq)

section \<open>Closing\<close>

text \<open>\<open>_TrafficmonClose\<close> and \<open>_DnspktClose\<close>: the first error ends the loop. A closer changes the state of
  the descriptors and says whether it succeeded.\<close>

fun bpf_close :: "('s \<Rightarrow> 's \<times> bool) list \<Rightarrow> 's \<Rightarrow> 's \<times> bool" where
  "bpf_close [] s = (s, True)"
| "bpf_close (closer # closers) s =
     (let (s, ok) = closer s in if ok then bpf_close closers s else (s, False))"

definition trafficmonObjects_Close :: "(string \<Rightarrow> 's \<Rightarrow> 's \<times> bool) \<Rightarrow> 's \<Rightarrow> 's \<times> bool" where
  "trafficmonObjects_Close close =
     bpf_close [bpf_close (map (close \<circ> fst) trafficmonPrograms), bpf_close (map (close \<circ> fst) trafficmonMaps)]"

definition dnspktObjects_Close :: "(string \<Rightarrow> 's \<Rightarrow> 's \<times> bool) \<Rightarrow> 's \<Rightarrow> 's \<times> bool" where
  "dnspktObjects_Close close =
     bpf_close [bpf_close (map (close \<circ> fst) dnspktPrograms), bpf_close (map (close \<circ> fst) dnspktMaps)]"

text \<open>\<open>Close\<close> of \<open>throttleObjects\<close>, which leaves the map to its caller.\<close>

definition throttleObjects_Close :: "(string \<Rightarrow> 's \<Rightarrow> 's \<times> bool) \<Rightarrow> 's \<Rightarrow> 's \<times> bool" where
  "throttleObjects_Close close s = (let (s, ok) = close ''Prog'' s in if ok then (s, True) else (s, False))"

lemma bpf_close_append:
  "bpf_close (xs @ ys) s = (let (s, ok) = bpf_close xs s in if ok then bpf_close ys s else (s, False))"
  by (induction xs arbitrary: s) (auto split: prod.split)

lemma bpf_close_nested: "bpf_close [bpf_close xs, bpf_close ys] = bpf_close (xs @ ys)"
  by (auto simp: fun_eq_iff bpf_close_append Let_def split: prod.split)

text \<open>With closers that take a field out of the set of open ones, closing leaves nothing open exactly
  when no closer fails; a failure leaves its field and all later ones open.\<close>

definition close_field :: "(string \<Rightarrow> bool) \<Rightarrow> string \<Rightarrow> string set \<Rightarrow> string set \<times> bool" where
  "close_field ok name s = (if ok name then (s - {name}, True) else (s, False))"

lemma bpf_close_fields:
  "bpf_close (map (close_field ok) names) s = (s - set (takeWhile ok names), list_all ok names)"
  by (induction names arbitrary: s) (auto simp: close_field_def)

lemma failed_close_leaks:
  "trafficmonObjects_Close (close_field ok) {''TrafficMon'', ''SrcDestBytes''} =
     (if \<not> ok ''TrafficMon'' then ({''TrafficMon'', ''SrcDestBytes''}, False)
      else if \<not> ok ''SrcDestBytes'' then ({''SrcDestBytes''}, False) else ({}, True))"
  by (auto simp: trafficmonObjects_Close_def trafficmonPrograms_def trafficmonMaps_def close_field_def)

lemma dnspkt_close_fields:
  "dnspktObjects_Close (close_field ok) s =
     (s - set (takeWhile ok [''UdpDnsSniff'', ''DnsArr'', ''TmpMap'']), list_all ok [''UdpDnsSniff'', ''DnsArr'', ''TmpMap''])"
  using bpf_close_fields [of ok "[''UdpDnsSniff'', ''DnsArr'', ''TmpMap'']" s]
  by (simp add: dnspktObjects_Close_def bpf_close_nested dnspktPrograms_def dnspktMaps_def)

section \<open>Architectures\<close>

text \<open>The build constraints: each architecture gets one object, of one byte order.\<close>

definition bpfel_archs :: "string list" where
  "bpfel_archs = [''386'', ''amd64'', ''arm'', ''arm64'', ''loong64'', ''mips64le'', ''mipsle'', ''ppc64le'', ''riscv64'']"

definition bpfeb_archs :: "string list" where
  "bpfeb_archs = [''mips'', ''mips64'', ''ppc64'', ''s390x'']"

definition object_endian :: "string \<Rightarrow> endian option" where
  "object_endian arch =
     (if arch \<in> set bpfel_archs then Some LittleEndian else if arch \<in> set bpfeb_archs then Some BigEndian else None)"

lemma one_object_per_arch: "distinct (bpfel_archs @ bpfeb_archs)"
  by code_simp

text \<open>\<open>dnspktPayloadT\<close>, the Go image of \<open>struct payload_t\<close>: the same offsets and the same size.\<close>

definition dnspktPayloadT :: "(string \<times> nat \<times> nat) list" where
  "dnspktPayloadT = [(''Len'', 4, 1), (''Data'', 1, 508)]"

lemma payload_image: "sum_list (map (\<lambda>(name, size, n). size * n) dnspktPayloadT) = value_size tmp_map"
  by code_simp

end
