(* ===== verification/DnsProbe.thy ===== *)
theory DnsProbe
  imports BpfMaps Schema
begin

text \<open>
  The former DNS probe \<open>ebpf/dnsprobe.py\<close>, which the sniffer has replaced: programs on kernel
  functions, kept as text in the Python file, that report TCP connects and copy DNS answers to user
  space, and the Python code that fills the \<open>dns\<close> table from the reports. The daemon does not start
  it, but opens a database that it may have made. Kernel memory, times and the helpers are arguments.
\<close>

section \<open>Connects\<close>

datatype ip_version = V4 | V6

text \<open>What the command line puts into the text of the programs. Ports are numbers as given; the code
  compares in network order.\<close>

record probe_args =
  arg_pid :: "u32 option"
  arg_uid :: "u32 option"
  arg_ports :: "u16 list option"
  arg_family :: "ip_version option"
  arg_count :: bool

text \<open>The task that runs the probed function, with whether the container filter leaves it out.\<close>

record task =
  pid_tgid :: u64
  uid_gid :: u64
  comm :: string
  other_container :: bool

definition tid_of :: "task \<Rightarrow> u32" where
  "tid_of tk = ucast (pid_tgid tk)"

definition pid_of :: "task \<Rightarrow> u32" where
  "pid_of tk = ucast (drop_bit 32 (pid_tgid tk))"

text \<open>The fields of \<open>struct sock\<close> the programs read.\<close>

record sock_view =
  skc_num :: u16
  skc_dport :: u16
  skc_rcv_saddr :: u32
  skc_daddr :: u32
  skc_v6_rcv_saddr :: "u8 list"
  skc_v6_daddr :: "u8 list"

text \<open>\<open>struct ipv4_data_t\<close> and \<open>struct ipv6_data_t\<close>, the keys \<open>struct ipv4_flow_key_t\<close> and
  \<open>struct ipv6_flow_key_t\<close> of the counting maps, and what the programs do with them.\<close>

record 'a conn_data =
  cd_ts_us :: u64
  cd_pid :: u32
  cd_uid :: u32
  cd_saddr :: 'a
  cd_daddr :: 'a
  cd_ip :: u64
  cd_lport :: u16
  cd_dport :: u16
  cd_task :: string

record 'a flow_key_t =
  fk_saddr :: 'a
  fk_daddr :: 'a
  fk_dport :: u16

datatype probe_output =
    Ipv4_event "u32 conn_data"
  | Ipv6_event "u8 list conn_data"
  | Ipv4_count "u32 flow_key_t"
  | Ipv6_count "u8 list flow_key_t"

definition trace_connect_entry ::
  "probe_args \<Rightarrow> ('m \<Rightarrow> u32 \<Rightarrow> u64 \<Rightarrow> 'm) \<Rightarrow> task \<Rightarrow> u64 \<Rightarrow> 'm \<Rightarrow> 'm" where
  "trace_connect_entry args update tk sk m =
     (if other_container tk then m
      else if (case arg_pid args of None \<Rightarrow> False | Some p \<Rightarrow> pid_of tk \<noteq> p) then m
      else if (case arg_uid args of None \<Rightarrow> False | Some u \<Rightarrow> ucast (uid_gid tk) \<noteq> u) then m
      else update m (tid_of tk) sk)"

text \<open>\<open>IPV4_CODE\<close> and \<open>IPV6_CODE\<close>, from \<open>struct_init\<close>.\<close>

definition connect_output ::
  "probe_args \<Rightarrow> endian \<Rightarrow> task \<Rightarrow> u64 \<Rightarrow> ip_version \<Rightarrow> sock_view \<Rightarrow> probe_output" where
  "connect_output args e tk now_ns ipver s =
     (case ipver of
        V4 \<Rightarrow>
          if arg_count args
          then Ipv4_count \<lparr>fk_saddr = skc_rcv_saddr s, fk_daddr = skc_daddr s, fk_dport = bpf_ntohs e (skc_dport s)\<rparr>
          else Ipv4_event \<lparr>cd_ts_us = now_ns div 1000, cd_pid = pid_of tk, cd_uid = ucast (uid_gid tk),
                 cd_saddr = skc_rcv_saddr s, cd_daddr = skc_daddr s, cd_ip = 4, cd_lport = skc_num s,
                 cd_dport = bpf_ntohs e (skc_dport s), cd_task = comm tk\<rparr>
      | V6 \<Rightarrow>
          if arg_count args
          then Ipv6_count \<lparr>fk_saddr = skc_v6_rcv_saddr s, fk_daddr = skc_v6_daddr s, fk_dport = bpf_ntohs e (skc_dport s)\<rparr>
          else Ipv6_event \<lparr>cd_ts_us = now_ns div 1000, cd_pid = pid_of tk, cd_uid = ucast (uid_gid tk),
                 cd_saddr = skc_v6_rcv_saddr s, cd_daddr = skc_v6_daddr s, cd_ip = 6, cd_lport = skc_num s,
                 cd_dport = bpf_ntohs e (skc_dport s), cd_task = comm tk\<rparr>)"

text \<open>\<open>trace_connect_return\<close>: \<open>mem\<close> is what the socket at an address holds, \<open>ret\<close> the value the probed
  function returned. The filter of ports deletes the entry, that of the family does not.\<close>

definition trace_connect_return ::
  "probe_args \<Rightarrow> endian \<Rightarrow> ('m \<Rightarrow> u32 \<Rightarrow> u64 option) \<Rightarrow> ('m \<Rightarrow> u32 \<Rightarrow> 'm) \<Rightarrow> task \<Rightarrow> u64 \<Rightarrow> (u64 \<Rightarrow> sock_view) \<Rightarrow>
   u32 \<Rightarrow> ip_version \<Rightarrow> 'm \<Rightarrow> 'm \<times> probe_output list" where
  "trace_connect_return args e lookup delete tk now_ns mem ret ipver m =
     (case lookup m (tid_of tk) of
        None \<Rightarrow> (m, [])
      | Some skp \<Rightarrow>
          if ret \<noteq> 0 then (delete m (tid_of tk), [])
          else
            let s = mem skp; dport = skc_dport s
            in if (case arg_ports args of None \<Rightarrow> False | Some ps \<Rightarrow> \<forall>p \<in> set ps. dport \<noteq> bpf_ntohs e p)
               then (delete m (tid_of tk), [])
               else if (case arg_family args of None \<Rightarrow> False | Some f \<Rightarrow> ipver \<noteq> f) then (m, [])
               else (delete m (tid_of tk), [connect_output args e tk now_ns ipver s]))"

text \<open>The calls of the probed functions on all processors, in the order the kernel runs the programs.\<close>

datatype connect_call =
    Entry task u64
  | Return task u64 "u64 \<Rightarrow> sock_view" u32 ip_version

fun caller :: "connect_call \<Rightarrow> u32" where
  "caller (Entry tk sk) = tid_of tk"
| "caller (Return tk now_ns mem ret ipver) = tid_of tk"

fun connect_step ::
  "probe_args \<Rightarrow> endian \<Rightarrow> ('m \<Rightarrow> u32 \<Rightarrow> u64 option) \<Rightarrow> ('m \<Rightarrow> u32 \<Rightarrow> u64 \<Rightarrow> 'm) \<Rightarrow> ('m \<Rightarrow> u32 \<Rightarrow> 'm) \<Rightarrow>
   connect_call \<Rightarrow> 'm \<Rightarrow> 'm \<times> probe_output list" where
  "connect_step args e lookup update delete (Entry tk sk) m = (trace_connect_entry args update tk sk m, [])"
| "connect_step args e lookup update delete (Return tk now_ns mem ret ipver) m =
     trace_connect_return args e lookup delete tk now_ns mem ret ipver m"

fun connect_run ::
  "probe_args \<Rightarrow> endian \<Rightarrow> ('m \<Rightarrow> u32 \<Rightarrow> u64 option) \<Rightarrow> ('m \<Rightarrow> u32 \<Rightarrow> u64 \<Rightarrow> 'm) \<Rightarrow> ('m \<Rightarrow> u32 \<Rightarrow> 'm) \<Rightarrow>
   connect_call list \<Rightarrow> 'm \<Rightarrow> 'm \<times> (u32 \<times> probe_output) list" where
  "connect_run args e lookup update delete [] m = (m, [])"
| "connect_run args e lookup update delete (c # cs) m =
     (let (m', out) = connect_step args e lookup update delete c m;
          (m'', outs) = connect_run args e lookup update delete cs m'
      in (m'', map (Pair (caller c)) out @ outs))"

text \<open>\<open>BPF_HASH\<close> without a size.\<close>

definition currsock_entries :: nat where
  "currsock_entries = 10240"

section \<open>Threads do not disturb each other\<close>

text \<open>The same programs with a map of one cell, for the calls of a single thread.\<close>

definition alone ::
  "probe_args \<Rightarrow> endian \<Rightarrow> connect_call list \<Rightarrow> u64 option \<Rightarrow> u64 option \<times> (u32 \<times> probe_output) list" where
  "alone args e = connect_run args e (\<lambda>m _. m) (\<lambda>_ _ v. Some v) (\<lambda>_ _. None)"

context bpf_deletable
begin

lemma update_room_upd:
  "ok m \<Longrightarrow> lookup m k \<noteq> None \<or> card (dom (lookup m)) < max_entries \<Longrightarrow> lookup (update m k v) = (lookup m)(k \<mapsto> v)"
  using update_present update_room by blast

end

abbreviation cell_step :: "probe_args \<Rightarrow> endian \<Rightarrow> connect_call \<Rightarrow> u64 option \<Rightarrow> u64 option \<times> probe_output list" where
  "cell_step args e \<equiv> connect_step args e (\<lambda>m _. m) (\<lambda>_ _ v. Some v) (\<lambda>_ _. None)"

lemma connect_step_map:
  assumes "bpf_deletable lookup update ok n delete" and "ok m"
    and "lookup m (caller c) \<noteq> None \<or> card (dom (lookup m)) < n"
  shows "lookup (fst (connect_step args e lookup update delete c m)) =
      (lookup m)(caller c := fst (cell_step args e c (lookup m (caller c))))"
    and "snd (connect_step args e lookup update delete c m) = snd (cell_step args e c (lookup m (caller c)))"
    and "ok (fst (connect_step args e lookup update delete c m))"
proof -
  have upd: "lookup (update m (caller c) v) = (lookup m)(caller c \<mapsto> v)" for v
    by (rule bpf_deletable.update_room_upd [OF assms(1-3)])
  have del: "lookup (delete m k) = (lookup m)(k := None)" for k
    by (rule bpf_deletable.lookup_delete [OF assms(1,2)])
  have ok: "ok (update m k v)" "ok (delete m k)" for k v
    using bpf_deletable.ok_delete [OF assms(1,2)] bpf_map.ok_update [OF bpf_hash.axioms(1)
      [OF bpf_deletable.axioms(1) [OF assms(1)]] assms(2)] by simp_all
  show "lookup (fst (connect_step args e lookup update delete c m)) =
      (lookup m)(caller c := fst (cell_step args e c (lookup m (caller c))))"
    using upd by (cases c) (auto simp: trace_connect_entry_def trace_connect_return_def del Let_def split: option.split)
  show "snd (connect_step args e lookup update delete c m) = snd (cell_step args e c (lookup m (caller c)))"
    by (cases c) (auto simp: trace_connect_return_def Let_def split: option.split)
  show "ok (fst (connect_step args e lookup update delete c m))"
    by (cases c) (auto simp: trace_connect_entry_def trace_connect_return_def Let_def ok assms(2) split: option.split)
qed

lemma connect_run_alone:
  assumes "bpf_deletable lookup update ok n delete" and "ok m"
    and "card (dom (lookup m) \<union> caller ` set cs) \<le> n"
  shows "lookup (fst (connect_run args e lookup update delete cs m)) k =
      fst (alone args e (filter (\<lambda>c. caller c = k) cs) (lookup m k)) \<and>
    filter (\<lambda>x. fst x = k) (snd (connect_run args e lookup update delete cs m)) =
      snd (alone args e (filter (\<lambda>c. caller c = k) cs) (lookup m k))"
  using assms(2,3)
proof (induction cs arbitrary: m)
  case Nil
  then show ?case by (simp add: alone_def)
next
  case (Cons c cs)
  have fin: "finite (dom (lookup m))"
    using bpf_hash.finite_keys [OF bpf_deletable.axioms(1) [OF assms(1)] Cons.prems(1)] .
  have room: "lookup m (caller c) \<noteq> None \<or> card (dom (lookup m)) < n"
  proof (cases "lookup m (caller c)")
    case None
    then have "dom (lookup m) \<subset> dom (lookup m) \<union> caller ` set (c # cs)" by auto
    with fin have "card (dom (lookup m)) < card (dom (lookup m) \<union> caller ` set (c # cs))"
      by (intro psubset_card_mono) auto
    with Cons.prems(2) show ?thesis by simp
  qed simp
  obtain m' out where step: "connect_step args e lookup update delete c m = (m', out)" by fastforce
  note map = connect_step_map [OF assms(1) Cons.prems(1) room, of args e, unfolded step fst_conv snd_conv]
  have "dom (lookup m') \<union> caller ` set cs \<subseteq> dom (lookup m) \<union> caller ` set (c # cs)"
    by (auto simp: map(1) split: if_splits)
  with fin Cons.prems(2) have "card (dom (lookup m') \<union> caller ` set cs) \<le> n"
    by (meson List.finite_set card_mono finite_UnI finite_imageI le_trans)
  note IH = Cons.IH [OF map(3) this]
  obtain m'' outs where run: "connect_run args e lookup update delete cs m' = (m'', outs)" by fastforce
  show ?case
  proof (cases "caller c = k")
    case True
    obtain x out' where "cell_step args e c (lookup m k) = (x, out')" by fastforce
    with True map IH show ?thesis
      by (simp add: step run alone_def case_prod_beta filter_map comp_def)
  next
    case False
    with map IH show ?thesis by (simp add: step run filter_map comp_def)
  qed
qed

text \<open>C39: As long as no more threads connect than the map has entries, what the probe reports of a
  thread, and what it keeps for it, is what it would report and keep of that thread alone: no thread
  is given the socket of another, however their calls interleave.\<close>

theorem threads_do_not_disturb:
  assumes "bpf_deletable lookup update ok currsock_entries delete" and "ok m" and "lookup m = (\<lambda>_. None)"
    and "card (caller ` set cs) \<le> currsock_entries"
  shows "filter (\<lambda>x. fst x = k) (snd (connect_run args e lookup update delete cs m)) =
      snd (alone args e (filter (\<lambda>c. caller c = k) cs) None) \<and>
    lookup (fst (connect_run args e lookup update delete cs m)) k =
      fst (alone args e (filter (\<lambda>c. caller c = k) cs) None)"
  using connect_run_alone [OF assms(1,2), of cs args e k] assms(3,4) by simp

text \<open>Two threads whose calls overlap: the one with identifier 7 connects to port 443.\<close>

definition demo_task :: "u64 \<Rightarrow> task" where
  "demo_task tid = \<lparr>pid_tgid = tid, uid_gid = 0, comm = ''curl'', other_container = False\<rparr>"

definition demo_sock :: "u64 \<Rightarrow> sock_view" where
  "demo_sock sk = \<lparr>skc_num = 40000, skc_dport = (if sk = 1 then 0xBB01 else 0x5000), skc_rcv_saddr = 0x0100007F,
     skc_daddr = 0x0100A8C0, skc_v6_rcv_saddr = [], skc_v6_daddr = []\<rparr>"

definition demo_calls :: "connect_call list" where
  "demo_calls = [Entry (demo_task 7) 1, Entry (demo_task 8) 2, Return (demo_task 8) 2000 demo_sock 0 V4,
     Return (demo_task 7) 3000 demo_sock 0 V4]"

definition all_connects :: probe_args where
  "all_connects = \<lparr>arg_pid = None, arg_uid = None, arg_ports = None, arg_family = None, arg_count = False\<rparr>"

theorem threads_do_not_disturb_witness:
  "filter (\<lambda>x. fst x = 7) (snd (connect_run all_connects LittleEndian map_of (hash_update currsock_entries)
       (\<lambda>m k. AList.delete k m) demo_calls [])) =
     [(7, Ipv4_event \<lparr>cd_ts_us = 3, cd_pid = 0, cd_uid = 0, cd_saddr = 0x0100007F, cd_daddr = 0x0100A8C0, cd_ip = 4,
        cd_lport = 40000, cd_dport = 443, cd_task = ''curl''\<rparr>)]"
proof -
  have "snd (alone all_connects LittleEndian (filter (\<lambda>c. caller c = 7) demo_calls) None) =
      [(7, Ipv4_event \<lparr>cd_ts_us = 3, cd_pid = 0, cd_uid = 0, cd_saddr = 0x0100007F, cd_daddr = 0x0100A8C0, cd_ip = 4,
         cd_lport = 40000, cd_dport = 443, cd_task = ''curl''\<rparr>)]"
    by code_simp
  moreover have "card (caller ` set demo_calls) \<le> currsock_entries"
    by (simp add: demo_calls_def currsock_entries_def card_insert_if)
  ultimately show ?thesis
    using threads_do_not_disturb [OF hash_is_bpf_deletable, of "[]" demo_calls 7 all_connects LittleEndian]
    by (simp add: hash_ok_def fun_eq_iff)
qed

section \<open>Entries that stay\<close>

text \<open>A thread whose connect returns has no entry left, unless the family is filtered: then the entry of a
  connect of the other family stays until the thread connects again.\<close>

lemma entry_removed:
  "arg_family args = None \<Longrightarrow> fst (cell_step args e (Return tk now_ns mem ret ipver) x) = None"
  by (auto simp: trace_connect_return_def Let_def split: option.split)

lemma filtered_family_stays:
  "arg_family args = Some f \<Longrightarrow> ipver \<noteq> f \<Longrightarrow> arg_ports args = None \<Longrightarrow>
   cell_step args e (Return tk now_ns mem 0 ipver) x = (x, [])"
  by (simp add: trace_connect_return_def Let_def split: option.split)

text \<open>So threads that connect over the other family fill the map, and then no new thread is traced.\<close>

definition other_connect :: "task \<Rightarrow> u64 \<Rightarrow> (u64 \<Rightarrow> sock_view) \<Rightarrow> connect_call list" where
  "other_connect tk sk mem = [Entry tk sk, Return tk 0 mem 0 V6]"

definition only_v4 :: probe_args where
  "only_v4 = \<lparr>arg_pid = None, arg_uid = None, arg_ports = None, arg_family = Some V4, arg_count = False\<rparr>"

lemma other_connect_fills:
  assumes "bpf_deletable lookup update ok n delete" and "ok m" and "distinct (map tid_of tks)"
    and "\<forall>tk \<in> set tks. \<not> other_container tk \<and> lookup m (tid_of tk) = None"
    and "card (dom (lookup m)) + length tks \<le> n"
  shows "ok (fst (connect_run only_v4 e lookup update delete (concat (map (\<lambda>tk. other_connect tk sk mem) tks)) m)) \<and>
    lookup (fst (connect_run only_v4 e lookup update delete (concat (map (\<lambda>tk. other_connect tk sk mem) tks)) m)) =
      (\<lambda>k. if k \<in> tid_of ` set tks then Some sk else lookup m k)"
  using assms(2-5)
proof (induction tks arbitrary: m)
  case Nil
  then show ?case by simp
next
  case (Cons tk tks)
  let ?m = "update m (tid_of tk) sk"
  have room: "lookup ?m = (lookup m)(tid_of tk \<mapsto> sk)"
    using Cons.prems by (intro bpf_deletable.update_room_upd [OF assms(1)]) auto
  have ok: "ok ?m"
    using bpf_map.ok_update [OF bpf_hash.axioms(1) [OF bpf_deletable.axioms(1) [OF assms(1)]] Cons.prems(1)] .
  have fin: "finite (dom (lookup m))"
    using bpf_hash.finite_keys [OF bpf_deletable.axioms(1) [OF assms(1)] Cons.prems(1)] .
  have run: "connect_run only_v4 e lookup update delete (concat (map (\<lambda>tk. other_connect tk sk mem) (tk # tks))) m =
      connect_run only_v4 e lookup update delete (concat (map (\<lambda>tk. other_connect tk sk mem) tks)) ?m"
    using Cons.prems(3) room
    by (simp add: other_connect_def only_v4_def trace_connect_entry_def trace_connect_return_def Let_def case_prod_beta)
  have "card (dom (lookup ?m)) = Suc (card (dom (lookup m)))"
    using Cons.prems(3) fin by (auto simp: room domIff)
  then have "card (dom (lookup ?m)) + length tks \<le> n" using Cons.prems(4) by simp
  moreover have "tid_of x \<noteq> tid_of tk" if "x \<in> set tks" for x
    using Cons.prems(2) that by (metis distinct.simps(2) image_eqI image_set list.simps(9))
  then have "\<forall>x \<in> set tks. \<not> other_container x \<and> lookup ?m (tid_of x) = None"
    using Cons.prems(3) by (simp add: room)
  ultimately have "ok (fst (connect_run only_v4 e lookup update delete (concat (map (\<lambda>tk. other_connect tk sk mem) tks)) ?m)) \<and>
      lookup (fst (connect_run only_v4 e lookup update delete (concat (map (\<lambda>tk. other_connect tk sk mem) tks)) ?m)) =
      (\<lambda>k. if k \<in> tid_of ` set tks then Some sk else lookup ?m k)"
    using Cons.IH [OF ok] Cons.prems(2) by simp
  then show ?case unfolding run by (auto simp: room fun_eq_iff)
qed

lemma full_map_ignores_threads:
  assumes "bpf_deletable lookup update ok n delete" and "ok m" and "lookup m = (\<lambda>_. None)"
    and "distinct (map tid_of tks)" and "\<forall>tk \<in> set tks. \<not> other_container tk" and "length tks = n"
    and "tid_of tk \<notin> tid_of ` set tks"
    and "m' = fst (connect_run only_v4 e lookup update delete (concat (map (\<lambda>tk. other_connect tk sk mem) tks)) m)"
  shows "snd (connect_run only_v4 e lookup update delete [Entry tk sk', Return tk now_ns mem' 0 V4] m') = []"
proof -
  have m': "ok m'" "lookup m' = (\<lambda>k. if k \<in> tid_of ` set tks then Some sk else None)"
    using other_connect_fills [OF assms(1,2,4), of e sk mem] assms(3,5,6,8) by (simp_all add: fun_eq_iff)
  then have none: "lookup m' (tid_of tk) = None" using assms(7) by simp
  have "dom (lookup m') = tid_of ` set tks" by (auto simp: m'(2) split: if_splits)
  then have "card (dom (lookup m')) = n"
    using distinct_card [OF assms(4)] assms(6) by simp
  then have "lookup (update m' (tid_of tk) sk') = lookup m'"
    using bpf_hash.update_full [OF bpf_deletable.axioms(1) [OF assms(1)] m'(1) none] by simp
  with none show ?thesis
    by (simp add: only_v4_def trace_connect_entry_def trace_connect_return_def)
qed

section \<open>DNS answers of this machine\<close>

definition MAX_PKT :: nat where
  "MAX_PKT = 512"

text \<open>What the programs read of \<open>struct msghdr\<close> and its iterator.\<close>

record msghdr_view =
  iter_type :: nat
  iov_len :: u64
  iov_base :: u64

definition ITER_IOVEC :: nat where
  "ITER_IOVEC = 0"

text \<open>\<open>is->inet_dport == 13568\<close>, as loaded.\<close>

definition trace_udp_recvmsg :: "('m \<Rightarrow> u64 \<Rightarrow> u64 \<Rightarrow> 'm) \<Rightarrow> task \<Rightarrow> u16 \<Rightarrow> u64 \<Rightarrow> 'm \<Rightarrow> 'm" where
  "trace_udp_recvmsg update tk inet_dport msghdr m =
     (if inet_dport = 13568 then update m (pid_tgid tk) msghdr else m)"

text \<open>\<open>trace_udp_ret_recvmsg\<close>: the map, the buffer of this processor, and the event.\<close>

definition trace_udp_ret_recvmsg ::
  "(u64 \<Rightarrow> nat \<Rightarrow> u8 list \<Rightarrow> u8 list) \<Rightarrow> (u64 \<Rightarrow> msghdr_view) \<Rightarrow> ('m \<Rightarrow> u64 \<Rightarrow> u64 option) \<Rightarrow> ('m \<Rightarrow> u64 \<Rightarrow> 'm) \<Rightarrow>
   task \<Rightarrow> u32 \<Rightarrow> 'm \<Rightarrow> u8 list option \<Rightarrow> 'm \<times> u8 list option \<times> u8 list list" where
  "trace_udp_ret_recvmsg probe_read msghdrs lookup delete tk rc m data =
     (case lookup m (pid_tgid tk) of
        None \<Rightarrow> (m, data, [])
      | Some msghdr \<Rightarrow>
          let msg = msghdrs msghdr; deleted = delete m (pid_tgid tk)
          in if iter_type msg \<noteq> ITER_IOVEC then (deleted, data, [])
             else if sint rc < 0 then (deleted, data, [])
             else if iov_len msg < ucast rc then (deleted, data, [])
             else
               let buflen = (if MAX_PKT < unat rc then MAX_PKT else unat rc)
               in case data of
                    None \<Rightarrow> (m, data, [])
                  | Some pkt \<Rightarrow>
                      let pkt' = probe_read (iov_base msg) buflen pkt
                      in (deleted, Some pkt', [take buflen pkt']))"

text \<open>\<open>trace_udpv6_recvmsg\<close>: the source port as loaded, and the address of the packet data.\<close>

definition trace_udpv6_recvmsg ::
  "(u64 \<Rightarrow> nat \<Rightarrow> u8 list \<Rightarrow> u8 list) \<Rightarrow> u16 \<Rightarrow> u64 \<Rightarrow> u8 list option \<Rightarrow> u8 list option \<times> u8 list list" where
  "trace_udpv6_recvmsg probe_read source skb_data data =
     (if source \<noteq> 0x3500 then (data, [])
      else case data of
          None \<Rightarrow> (data, [])
        | Some pkt \<Rightarrow> let pkt' = probe_read (skb_data + 8) MAX_PKT pkt in (Some pkt', [pkt']))"

text \<open>A copy from memory into the front of the buffer.\<close>

definition reads_from :: "(u64 \<Rightarrow> u8) \<Rightarrow> (u64 \<Rightarrow> nat \<Rightarrow> u8 list \<Rightarrow> u8 list) \<Rightarrow> bool" where
  "reads_from mem probe_read \<longleftrightarrow>
     (\<forall>src n buf. n \<le> length buf \<longrightarrow>
        probe_read src n buf = map (\<lambda>i. mem (src + of_nat i)) [0..<n] @ drop n buf)"

text \<open>An event of \<open>recvmsg\<close> holds what the call received and nothing else; an IPv6 event always has 512
  bytes, those behind the packet included.\<close>

lemma recvmsg_event_exact:
  assumes "reads_from mem probe_read" and "length pkt = MAX_PKT"
    and "trace_udp_ret_recvmsg probe_read msghdrs lookup delete tk rc m (Some pkt) = (m', data', [ev])"
    and "lookup m (pid_tgid tk) = Some msghdr"
  shows "ev = map (\<lambda>i. mem (iov_base (msghdrs msghdr) + of_nat i)) [0..<min (unat rc) MAX_PKT]"
  using assms
  by (auto simp: trace_udp_ret_recvmsg_def reads_from_def Let_def min_def split: if_splits)

lemma udpv6_event_fixed:
  assumes "reads_from mem probe_read" and "length pkt = MAX_PKT"
  shows "snd (trace_udpv6_recvmsg probe_read 0x3500 skb_data (Some pkt)) =
    [map (\<lambda>i. mem (skb_data + 8 + of_nat i)) [0..<MAX_PKT]]"
  using assms by (simp add: trace_udpv6_recvmsg_def reads_from_def Let_def)

section \<open>Names\<close>

text \<open>What the code reads of a decoded message: the flags, the number of questions and answers, the name
  of the question with its final dot, and the records with their type and text.\<close>

record dns_message =
  dm_qr :: nat
  dm_q :: nat
  dm_a :: nat
  dm_aa :: nat
  dm_qname :: string
  dm_rr :: "(nat \<times> string) list"

text \<open>\<open>save_dns\<close>: the entries it writes to the cache of names.\<close>

definition save_dns :: "dns_message \<Rightarrow> (string \<times> string) list" where
  "save_dns pkt =
     (if dm_qr pkt \<noteq> 1 then []
      else if dm_q pkt \<noteq> 1 then []
      else if dm_a pkt = 0 \<and> dm_aa pkt = 0 then []
      else map (\<lambda>(rtype, rdata). (rdata, butlast (dm_qname pkt)))
             (filter (\<lambda>(rtype, rdata). rtype = 1 \<or> rtype = 28) (dm_rr pkt)))"

text \<open>Unlike the daemon, the probe records the name that was asked for at every address, also when the
  answer belongs to an alias of it.\<close>

lemma save_dns_names:
  "(addr, name) \<in> set (save_dns pkt) \<Longrightarrow> name = butlast (dm_qname pkt) \<and> (\<exists>ty. (ty, addr) \<in> set (dm_rr pkt) \<and> ty \<in> {1, 28})"
  by (auto simp: save_dns_def split: if_splits)

text \<open>\<open>print_dns\<close>: the text for a remote address, given what the cache holds for it, with a warning when
  the answer is older than \<open>DELAY_DNS\<close>. Times are in microseconds; a difference of times in Python has
  days, seconds and microseconds, and the code takes the latter two. The text of \<open>%.3f\<close> is an argument.\<close>

definition DELAY_DNS :: int where
  "DELAY_DNS = 100"

definition print_dns :: "(int \<Rightarrow> string) \<Rightarrow> int \<Rightarrow> (string \<times> int) option \<Rightarrow> string \<Rightarrow> string" where
  "print_dns show_ms now cached dest_ip =
     (let diff = (case cached of None \<Rightarrow> 0 | Some (dnsname, tstamp) \<Rightarrow> (now - tstamp) mod (86400 * 1000000));
          retval = (case cached of
              Some (dnsname, tstamp) \<Rightarrow> dnsname
            | None \<Rightarrow> if dest_ip = ''127.0.0.1'' \<or> dest_ip = ''::1'' then ''localhost'' else ''No DNS Query'')
      in if diff > DELAY_DNS * 1000 then retval @ '' ('' @ show_ms diff @ ''ms)'' else retval)"

text \<open>The row that \<open>print_ipv4_event\<close> inserts into \<open>dns\<close>, by position.\<close>

definition ipv4_row :: "(int \<Rightarrow> string) \<Rightarrow> (u32 \<Rightarrow> string) \<Rightarrow> (string \<Rightarrow> (string \<times> int) option) \<Rightarrow> int \<Rightarrow> u32 conn_data \<Rightarrow>
    string \<times> string \<times> u16 \<times> string" where
  "ipv4_row show_ms inet_ntop dns_cache now event =
     (let src_ip = inet_ntop (cd_saddr event); dest_ip = inet_ntop (cd_daddr event)
      in (src_ip, dest_ip, cd_dport event, print_dns show_ms now (dns_cache dest_ip) dest_ip))"

text \<open>The domain in that row is what is printed, so an answer older than a tenth of a second puts the
  delay into the name, and an address without one is recorded under a sentence.\<close>

lemma late_answer_renames:
  assumes "dns_cache (inet_ntop (cd_daddr event)) = Some (dnsname, tstamp)"
    and "DELAY_DNS * 1000 < now - tstamp" and "now - tstamp < 86400 * 1000000"
  shows "snd (snd (snd (ipv4_row show_ms inet_ntop dns_cache now event))) = dnsname @ '' ('' @ show_ms (now - tstamp) @ ''ms)''"
  using assms by (simp add: ipv4_row_def print_dns_def DELAY_DNS_def)

section \<open>The table of the probe\<close>

text \<open>The probe declares \<open>dns\<close> with another column and no key.\<close>

definition probe_schema :: "string \<times> table_decl" where
  "probe_schema = (''dns'', \<lparr>columns = [(''saddr'', Sql_text), (''daddr'', Sql_text), (''dport'', Sql_int),
     (''domain'', Sql_text), (''tstamp'', Sql_timestamp)], primary_key = []\<rparr>)"

text \<open>\<open>Connect\<close> keeps such a table, and the statement of \<open>AddDns\<close>, which gives four values by position,
  never fits it: on a database of the probe the daemon stores no answer.\<close>

lemma probe_table_refuses_answers:
  assumes "Connect dns_open cfg_open exec prom_ok (dns0, cfg0) = (Connected, dnsDb, cfgDb)"
    and "dns0 = (\<lambda>_. None)(fst probe_schema \<mapsto> snd probe_schema)"
  shows "dnsDb ''dns'' = Some (snd probe_schema) \<and> insert_by_position (snd probe_schema) (dns_insert r) = None"
  using assms by (auto simp: Connect_def Let_def dnsSchema_def create_if_missing_def probe_schema_def
      insert_by_position_def dns_insert_def split: if_splits prod.splits)

end
