(* ===== verification/Vm_Task.thy ===== *)
theory Vm_Task
  imports Vm_Perf
begin

text \<open>
  What the former probe reads of a task and of a message: registers, iterators and message
  headers; and behind them tasks, their address spaces, credentials, signals, files and
  namespaces. Translated declaration by declaration from \<open>ebpf/vmlinux.h\<close>, in the
  order the types depend on each other; each type is followed by its size and alignment,
  computed by the layout.
\<close>

definition struct_iovec :: cty where
  "struct_iovec = Struct [Fld ''iov_base'' CPtr, Fld ''iov_len'' td___kernel_size_t]"

lemma layout_struct_iovec [layout]:
  "sizeof struct_iovec = 16" "alignof struct_iovec = 8" "wf_cty struct_iovec" "is_struct struct_iovec"
  by (simp_all add: struct_iovec_def layout)

definition td___kernel_loff_t :: cty where
  "td___kernel_loff_t = C_longlong"

lemma layout_td___kernel_loff_t [layout]:
  "sizeof td___kernel_loff_t = 8" "alignof td___kernel_loff_t = 8" "wf_cty td___kernel_loff_t"
  by (simp_all add: td___kernel_loff_t_def layout)

definition td_loff_t :: cty where
  "td_loff_t = td___kernel_loff_t"

lemma layout_td_loff_t [layout]:
  "sizeof td_loff_t = 8" "alignof td_loff_t = 8" "wf_cty td_loff_t"
  by (simp_all add: td_loff_t_def layout)

definition struct_iov_iter :: cty where
  "struct_iov_iter = Struct [Fld ''iter_type'' td_u8, Fld ''copy_mc'' td_bool,
     Fld ''nofault'' td_bool, Fld ''data_source'' td_bool, Fld ''user_backed'' td_bool,
     Fld '''' (Union [Fld ''iov_offset'' td_size_t, Fld ''last_offset'' C_int]),
     Fld '''' (Union [Fld ''__ubuf_iovec'' struct_iovec,
     Fld '''' (Struct [Fld '''' (Union [Fld ''__iov'' CPtr, Fld ''kvec'' CPtr, Fld ''bvec'' CPtr,
     Fld ''xarray'' CPtr, Fld ''ubuf'' CPtr]), Fld ''count'' td_size_t])]),
     Fld '''' (Union [Fld ''nr_segs'' C_ulong, Fld ''xarray_start'' td_loff_t])]"

lemma layout_struct_iov_iter [layout]:
  "sizeof struct_iov_iter = 40" "alignof struct_iov_iter = 8" "wf_cty struct_iov_iter" "is_struct struct_iov_iter"
  by (simp_all add: struct_iov_iter_def layout)

definition struct_msghdr :: cty where
  "struct_msghdr = Struct [Fld ''msg_name'' CPtr, Fld ''msg_namelen'' C_int,
     Fld ''msg_inq'' C_int, Fld ''msg_iter'' struct_iov_iter,
     Fld '''' (Union [Fld ''msg_control'' CPtr, Fld ''msg_control_user'' CPtr]),
     Bits ''msg_control_is_user'' td_bool 1, Bits ''msg_get_inq'' td_bool 1,
     Fld ''msg_flags'' C_uint, Fld ''msg_controllen'' td___kernel_size_t, Fld ''msg_iocb'' CPtr,
     Fld ''msg_ubuf'' CPtr, Fld ''sg_from_iter'' CPtr]"

lemma layout_struct_msghdr [layout]:
  "sizeof struct_msghdr = 104" "alignof struct_msghdr = 8" "wf_cty struct_msghdr" "is_struct struct_msghdr"
  by (simp_all add: struct_msghdr_def layout)

definition struct_user_msghdr :: cty where
  "struct_user_msghdr = Struct [Fld ''msg_name'' CPtr, Fld ''msg_namelen'' C_int,
     Fld ''msg_iov'' CPtr, Fld ''msg_iovlen'' td___kernel_size_t, Fld ''msg_control'' CPtr,
     Fld ''msg_controllen'' td___kernel_size_t, Fld ''msg_flags'' C_uint]"

lemma layout_struct_user_msghdr [layout]:
  "sizeof struct_user_msghdr = 56" "alignof struct_user_msghdr = 8" "wf_cty struct_user_msghdr" "is_struct struct_user_msghdr"
  by (simp_all add: struct_user_msghdr_def layout)

definition td_s32 :: cty where
  "td_s32 = td___s32"

lemma layout_td_s32 [layout]:
  "sizeof td_s32 = 4" "alignof td_s32 = 4" "wf_cty td_s32"
  by (simp_all add: td_s32_def layout)

definition struct_pt_regs :: cty where
  "struct_pt_regs = Struct [Fld '''' (Union [Fld ''user_regs'' struct_user_pt_regs,
     Fld '''' (Struct [Fld ''regs'' (CArr td_u64 31), Fld ''sp'' td_u64, Fld ''pc'' td_u64,
     Fld ''pstate'' td_u64])]), Fld ''orig_x0'' td_u64, Fld ''syscallno'' td_s32,
     Fld ''unused2'' td_u32, Fld ''sdei_ttbr1'' td_u64, Fld ''pmr_save'' td_u64,
     Fld ''stackframe'' (CArr td_u64 2), Fld ''lockdep_hardirqs'' td_u64,
     Fld ''exit_rcu'' td_u64]"

lemma layout_struct_pt_regs [layout]:
  "sizeof struct_pt_regs = 336" "alignof struct_pt_regs = 8" "wf_cty struct_pt_regs" "is_struct struct_pt_regs"
  by (simp_all add: struct_pt_regs_def layout)

definition td___kernel_gid32_t :: cty where
  "td___kernel_gid32_t = C_uint"

lemma layout_td___kernel_gid32_t [layout]:
  "sizeof td___kernel_gid32_t = 4" "alignof td___kernel_gid32_t = 4" "wf_cty td___kernel_gid32_t"
  by (simp_all add: td___kernel_gid32_t_def layout)

definition td_gid_t :: cty where
  "td_gid_t = td___kernel_gid32_t"

lemma layout_td_gid_t [layout]:
  "sizeof td_gid_t = 4" "alignof td_gid_t = 4" "wf_cty td_gid_t"
  by (simp_all add: td_gid_t_def layout)

definition td_kgid_t :: cty where
  "td_kgid_t = Struct [Fld ''val'' td_gid_t]"

lemma layout_td_kgid_t [layout]:
  "sizeof td_kgid_t = 4" "alignof td_kgid_t = 4" "wf_cty td_kgid_t"
  by (simp_all add: td_kgid_t_def layout)

definition td_kernel_cap_t :: cty where
  "td_kernel_cap_t = Struct [Fld ''val'' td_u64]"

lemma layout_td_kernel_cap_t [layout]:
  "sizeof td_kernel_cap_t = 8" "alignof td_kernel_cap_t = 8" "wf_cty td_kernel_cap_t"
  by (simp_all add: td_kernel_cap_t_def layout)

definition struct_cred :: cty where
  "struct_cred = Struct [Fld ''usage'' td_atomic_t, Fld ''uid'' td_kuid_t, Fld ''gid'' td_kgid_t,
     Fld ''suid'' td_kuid_t, Fld ''sgid'' td_kgid_t, Fld ''euid'' td_kuid_t,
     Fld ''egid'' td_kgid_t, Fld ''fsuid'' td_kuid_t, Fld ''fsgid'' td_kgid_t,
     Fld ''securebits'' C_uint, Fld ''cap_inheritable'' td_kernel_cap_t,
     Fld ''cap_permitted'' td_kernel_cap_t, Fld ''cap_effective'' td_kernel_cap_t,
     Fld ''cap_bset'' td_kernel_cap_t, Fld ''cap_ambient'' td_kernel_cap_t,
     Fld ''jit_keyring'' C_uchar, Fld ''session_keyring'' CPtr, Fld ''process_keyring'' CPtr,
     Fld ''thread_keyring'' CPtr, Fld ''request_key_auth'' CPtr, Fld ''security'' CPtr,
     Fld ''user'' CPtr, Fld ''user_ns'' CPtr, Fld ''ucounts'' CPtr, Fld ''group_info'' CPtr,
     Fld '''' (Union [Fld ''non_rcu'' C_int, Fld ''rcu'' struct_callback_head])]"

lemma layout_struct_cred [layout]:
  "sizeof struct_cred = 176" "alignof struct_cred = 8" "wf_cty struct_cred" "is_struct struct_cred"
  by (simp_all add: struct_cred_def layout)

definition struct_nsproxy :: cty where
  "struct_nsproxy = Struct [Fld ''count'' td_atomic_t, Fld ''uts_ns'' CPtr, Fld ''ipc_ns'' CPtr,
     Fld ''mnt_ns'' CPtr, Fld ''pid_ns_for_children'' CPtr, Fld ''net_ns'' CPtr,
     Fld ''time_ns'' CPtr, Fld ''time_ns_for_children'' CPtr, Fld ''cgroup_ns'' CPtr]"

lemma layout_struct_nsproxy [layout]:
  "sizeof struct_nsproxy = 72" "alignof struct_nsproxy = 8" "wf_cty struct_nsproxy" "is_struct struct_nsproxy"
  by (simp_all add: struct_nsproxy_def layout)

definition td_sigset_t :: cty where
  "td_sigset_t = Struct [Fld ''sig'' (CArr C_ulong 1)]"

lemma layout_td_sigset_t [layout]:
  "sizeof td_sigset_t = 8" "alignof td_sigset_t = 8" "wf_cty td_sigset_t"
  by (simp_all add: td_sigset_t_def layout)

definition struct_sigpending :: cty where
  "struct_sigpending = Struct [Fld ''list'' struct_list_head, Fld ''signal'' td_sigset_t]"

lemma layout_struct_sigpending [layout]:
  "sizeof struct_sigpending = 24" "alignof struct_sigpending = 8" "wf_cty struct_sigpending" "is_struct struct_sigpending"
  by (simp_all add: struct_sigpending_def layout)

definition struct_cpu_itimer :: cty where
  "struct_cpu_itimer = Struct [Fld ''expires'' td_u64, Fld ''incr'' td_u64]"

lemma layout_struct_cpu_itimer [layout]:
  "sizeof struct_cpu_itimer = 16" "alignof struct_cpu_itimer = 8" "wf_cty struct_cpu_itimer" "is_struct struct_cpu_itimer"
  by (simp_all add: struct_cpu_itimer_def layout)

definition struct_task_cputime_atomic :: cty where
  "struct_task_cputime_atomic = Struct [Fld ''utime'' td_atomic64_t, Fld ''stime'' td_atomic64_t,
     Fld ''sum_exec_runtime'' td_atomic64_t]"

lemma layout_struct_task_cputime_atomic [layout]:
  "sizeof struct_task_cputime_atomic = 24" "alignof struct_task_cputime_atomic = 8" "wf_cty struct_task_cputime_atomic" "is_struct struct_task_cputime_atomic"
  by (simp_all add: struct_task_cputime_atomic_def layout)

definition struct_thread_group_cputimer :: cty where
  "struct_thread_group_cputimer = Struct [Fld ''cputime_atomic'' struct_task_cputime_atomic]"

lemma layout_struct_thread_group_cputimer [layout]:
  "sizeof struct_thread_group_cputimer = 24" "alignof struct_thread_group_cputimer = 8" "wf_cty struct_thread_group_cputimer" "is_struct struct_thread_group_cputimer"
  by (simp_all add: struct_thread_group_cputimer_def layout)

definition struct_rb_root_cached :: cty where
  "struct_rb_root_cached = Struct [Fld ''rb_root'' struct_rb_root, Fld ''rb_leftmost'' CPtr]"

lemma layout_struct_rb_root_cached [layout]:
  "sizeof struct_rb_root_cached = 16" "alignof struct_rb_root_cached = 8" "wf_cty struct_rb_root_cached" "is_struct struct_rb_root_cached"
  by (simp_all add: struct_rb_root_cached_def layout)

definition struct_timerqueue_head :: cty where
  "struct_timerqueue_head = Struct [Fld ''rb_root'' struct_rb_root_cached]"

lemma layout_struct_timerqueue_head [layout]:
  "sizeof struct_timerqueue_head = 16" "alignof struct_timerqueue_head = 8" "wf_cty struct_timerqueue_head" "is_struct struct_timerqueue_head"
  by (simp_all add: struct_timerqueue_head_def layout)

definition struct_posix_cputimer_base :: cty where
  "struct_posix_cputimer_base = Struct [Fld ''nextevt'' td_u64,
     Fld ''tqhead'' struct_timerqueue_head]"

lemma layout_struct_posix_cputimer_base [layout]:
  "sizeof struct_posix_cputimer_base = 24" "alignof struct_posix_cputimer_base = 8" "wf_cty struct_posix_cputimer_base" "is_struct struct_posix_cputimer_base"
  by (simp_all add: struct_posix_cputimer_base_def layout)

definition struct_posix_cputimers :: cty where
  "struct_posix_cputimers = Struct [Fld ''bases'' (CArr struct_posix_cputimer_base 3),
     Fld ''timers_active'' C_uint, Fld ''expiry_active'' C_uint]"

lemma layout_struct_posix_cputimers [layout]:
  "sizeof struct_posix_cputimers = 80" "alignof struct_posix_cputimers = 8" "wf_cty struct_posix_cputimers" "is_struct struct_posix_cputimers"
  by (simp_all add: struct_posix_cputimers_def layout)

definition struct_seqcount :: cty where
  "struct_seqcount = Struct [Fld ''sequence'' C_uint]"

lemma layout_struct_seqcount [layout]:
  "sizeof struct_seqcount = 4" "alignof struct_seqcount = 4" "wf_cty struct_seqcount" "is_struct struct_seqcount"
  by (simp_all add: struct_seqcount_def layout)

definition td_seqcount_t :: cty where
  "td_seqcount_t = struct_seqcount"

lemma layout_td_seqcount_t [layout]:
  "sizeof td_seqcount_t = 4" "alignof td_seqcount_t = 4" "wf_cty td_seqcount_t"
  by (simp_all add: td_seqcount_t_def layout)

definition struct_seqcount_spinlock :: cty where
  "struct_seqcount_spinlock = Struct [Fld ''seqcount'' td_seqcount_t]"

lemma layout_struct_seqcount_spinlock [layout]:
  "sizeof struct_seqcount_spinlock = 4" "alignof struct_seqcount_spinlock = 4" "wf_cty struct_seqcount_spinlock" "is_struct struct_seqcount_spinlock"
  by (simp_all add: struct_seqcount_spinlock_def layout)

definition td_seqcount_spinlock_t :: cty where
  "td_seqcount_spinlock_t = struct_seqcount_spinlock"

lemma layout_td_seqcount_spinlock_t [layout]:
  "sizeof td_seqcount_spinlock_t = 4" "alignof td_seqcount_spinlock_t = 4" "wf_cty td_seqcount_spinlock_t"
  by (simp_all add: td_seqcount_spinlock_t_def layout)

definition td_seqlock_t :: cty where
  "td_seqlock_t = Struct [Fld ''seqcount'' td_seqcount_spinlock_t, Fld ''lock'' td_spinlock_t]"

lemma layout_td_seqlock_t [layout]:
  "sizeof td_seqlock_t = 8" "alignof td_seqlock_t = 4" "wf_cty td_seqlock_t"
  by (simp_all add: td_seqlock_t_def layout)

definition struct_prev_cputime :: cty where
  "struct_prev_cputime = Struct [Fld ''utime'' td_u64, Fld ''stime'' td_u64,
     Fld ''lock'' td_raw_spinlock_t]"

lemma layout_struct_prev_cputime [layout]:
  "sizeof struct_prev_cputime = 24" "alignof struct_prev_cputime = 8" "wf_cty struct_prev_cputime" "is_struct struct_prev_cputime"
  by (simp_all add: struct_prev_cputime_def layout)

definition struct_task_io_accounting :: cty where
  "struct_task_io_accounting = Struct [Fld ''rchar'' td_u64, Fld ''wchar'' td_u64,
     Fld ''syscr'' td_u64, Fld ''syscw'' td_u64, Fld ''read_bytes'' td_u64,
     Fld ''write_bytes'' td_u64, Fld ''cancelled_write_bytes'' td_u64]"

lemma layout_struct_task_io_accounting [layout]:
  "sizeof struct_task_io_accounting = 56" "alignof struct_task_io_accounting = 8" "wf_cty struct_task_io_accounting" "is_struct struct_task_io_accounting"
  by (simp_all add: struct_task_io_accounting_def layout)

definition struct_rlimit :: cty where
  "struct_rlimit = Struct [Fld ''rlim_cur'' td___kernel_ulong_t,
     Fld ''rlim_max'' td___kernel_ulong_t]"

lemma layout_struct_rlimit [layout]:
  "sizeof struct_rlimit = 16" "alignof struct_rlimit = 8" "wf_cty struct_rlimit" "is_struct struct_rlimit"
  by (simp_all add: struct_rlimit_def layout)

definition struct_pacct_struct :: cty where
  "struct_pacct_struct = Struct [Fld ''ac_flag'' C_int, Fld ''ac_exitcode'' C_long,
     Fld ''ac_mem'' C_ulong, Fld ''ac_utime'' td_u64, Fld ''ac_stime'' td_u64,
     Fld ''ac_minflt'' C_ulong, Fld ''ac_majflt'' C_ulong]"

lemma layout_struct_pacct_struct [layout]:
  "sizeof struct_pacct_struct = 56" "alignof struct_pacct_struct = 8" "wf_cty struct_pacct_struct" "is_struct struct_pacct_struct"
  by (simp_all add: struct_pacct_struct_def layout)

definition struct_signal_struct :: cty where
  "struct_signal_struct = Struct [Fld ''sigcnt'' td_refcount_t, Fld ''live'' td_atomic_t,
     Fld ''nr_threads'' C_int, Fld ''quick_threads'' C_int, Fld ''thread_head'' struct_list_head,
     Fld ''wait_chldexit'' td_wait_queue_head_t, Fld ''curr_target'' CPtr,
     Fld ''shared_pending'' struct_sigpending, Fld ''multiprocess'' struct_hlist_head,
     Fld ''group_exit_code'' C_int, Fld ''notify_count'' C_int, Fld ''group_exec_task'' CPtr,
     Fld ''group_stop_count'' C_int, Fld ''flags'' C_uint, Fld ''core_state'' CPtr,
     Bits ''is_child_subreaper'' C_uint 1, Bits ''has_child_subreaper'' C_uint 1,
     Fld ''next_posix_timer_id'' C_uint, Fld ''posix_timers'' struct_list_head,
     Fld ''real_timer'' struct_hrtimer, Fld ''it_real_incr'' td_ktime_t,
     Fld ''it'' (CArr struct_cpu_itimer 2), Fld ''cputimer'' struct_thread_group_cputimer,
     Fld ''posix_cputimers'' struct_posix_cputimers, Fld ''pids'' (CArr CPtr 4),
     Fld ''tty_old_pgrp'' CPtr, Fld ''leader'' C_int, Fld ''tty'' CPtr, Fld ''autogroup'' CPtr,
     Fld ''stats_lock'' td_seqlock_t, Fld ''utime'' td_u64, Fld ''stime'' td_u64,
     Fld ''cutime'' td_u64, Fld ''cstime'' td_u64, Fld ''gtime'' td_u64, Fld ''cgtime'' td_u64,
     Fld ''prev_cputime'' struct_prev_cputime, Fld ''nvcsw'' C_ulong, Fld ''nivcsw'' C_ulong,
     Fld ''cnvcsw'' C_ulong, Fld ''cnivcsw'' C_ulong, Fld ''min_flt'' C_ulong,
     Fld ''maj_flt'' C_ulong, Fld ''cmin_flt'' C_ulong, Fld ''cmaj_flt'' C_ulong,
     Fld ''inblock'' C_ulong, Fld ''oublock'' C_ulong, Fld ''cinblock'' C_ulong,
     Fld ''coublock'' C_ulong, Fld ''maxrss'' C_ulong, Fld ''cmaxrss'' C_ulong,
     Fld ''ioac'' struct_task_io_accounting, Fld ''sum_sched_runtime'' C_ulonglong,
     Fld ''rlim'' (CArr struct_rlimit 16), Fld ''pacct'' struct_pacct_struct, Fld ''stats'' CPtr,
     Fld ''audit_tty'' C_uint, Fld ''tty_audit_buf'' CPtr, Fld ''oom_flag_origin'' td_bool,
     Fld ''oom_score_adj'' C_short, Fld ''oom_score_adj_min'' C_short, Fld ''oom_mm'' CPtr,
     Fld ''cred_guard_mutex'' struct_mutex, Fld ''exec_update_lock'' struct_rw_semaphore]"

lemma layout_struct_signal_struct [layout]:
  "sizeof struct_signal_struct = 1104" "alignof struct_signal_struct = 8" "wf_cty struct_signal_struct" "is_struct struct_signal_struct"
  by (simp_all add: struct_signal_struct_def layout)

definition td___sighandler_t :: cty where
  "td___sighandler_t = CPtr"

lemma layout_td___sighandler_t [layout]:
  "sizeof td___sighandler_t = 8" "alignof td___sighandler_t = 8" "wf_cty td___sighandler_t"
  by (simp_all add: td___sighandler_t_def layout)

definition td___sigrestore_t :: cty where
  "td___sigrestore_t = CPtr"

lemma layout_td___sigrestore_t [layout]:
  "sizeof td___sigrestore_t = 8" "alignof td___sigrestore_t = 8" "wf_cty td___sigrestore_t"
  by (simp_all add: td___sigrestore_t_def layout)

definition struct_sigaction :: cty where
  "struct_sigaction = Struct [Fld ''sa_handler'' td___sighandler_t, Fld ''sa_flags'' C_ulong,
     Fld ''sa_restorer'' td___sigrestore_t, Fld ''sa_mask'' td_sigset_t]"

lemma layout_struct_sigaction [layout]:
  "sizeof struct_sigaction = 32" "alignof struct_sigaction = 8" "wf_cty struct_sigaction" "is_struct struct_sigaction"
  by (simp_all add: struct_sigaction_def layout)

definition struct_k_sigaction :: cty where
  "struct_k_sigaction = Struct [Fld ''sa'' struct_sigaction]"

lemma layout_struct_k_sigaction [layout]:
  "sizeof struct_k_sigaction = 32" "alignof struct_k_sigaction = 8" "wf_cty struct_k_sigaction" "is_struct struct_k_sigaction"
  by (simp_all add: struct_k_sigaction_def layout)

definition struct_sighand_struct :: cty where
  "struct_sighand_struct = Struct [Fld ''siglock'' td_spinlock_t, Fld ''count'' td_refcount_t,
     Fld ''signalfd_wqh'' td_wait_queue_head_t, Fld ''action'' (CArr struct_k_sigaction 64)]"

lemma layout_struct_sighand_struct [layout]:
  "sizeof struct_sighand_struct = 2080" "alignof struct_sighand_struct = 8" "wf_cty struct_sighand_struct" "is_struct struct_sighand_struct"
  by (simp_all add: struct_sighand_struct_def layout)

definition struct_fdtable :: cty where
  "struct_fdtable = Struct [Fld ''max_fds'' C_uint, Fld ''fd'' CPtr, Fld ''close_on_exec'' CPtr,
     Fld ''open_fds'' CPtr, Fld ''full_fds_bits'' CPtr, Fld ''rcu'' struct_callback_head]"

lemma layout_struct_fdtable [layout]:
  "sizeof struct_fdtable = 56" "alignof struct_fdtable = 8" "wf_cty struct_fdtable" "is_struct struct_fdtable"
  by (simp_all add: struct_fdtable_def layout)

definition struct_files_struct :: cty where
  "struct_files_struct = Struct [Fld ''count'' td_atomic_t, Fld ''resize_in_progress'' td_bool,
     Fld ''resize_wait'' td_wait_queue_head_t, Fld ''fdt'' CPtr, Fld ''fdtab'' struct_fdtable,
     Bits '''' C_long 64, Bits '''' C_long 64, Bits '''' C_long 64, Bits '''' C_long 64,
     Fld ''file_lock'' td_spinlock_t, Fld ''next_fd'' C_uint,
     Fld ''close_on_exec_init'' (CArr C_ulong 1), Fld ''open_fds_init'' (CArr C_ulong 1),
     Fld ''full_fds_bits_init'' (CArr C_ulong 1), Fld ''fd_array'' (CArr CPtr 64),
     Bits '''' C_long 64, Bits '''' C_long 64, Bits '''' C_long 64, Bits '''' C_long 64]"

lemma layout_struct_files_struct [layout]:
  "sizeof struct_files_struct = 704" "alignof struct_files_struct = 8" "wf_cty struct_files_struct" "is_struct struct_files_struct"
  by (simp_all add: struct_files_struct_def layout)

definition struct_path :: cty where
  "struct_path = Struct [Fld ''mnt'' CPtr, Fld ''dentry'' CPtr]"

lemma layout_struct_path [layout]:
  "sizeof struct_path = 16" "alignof struct_path = 8" "wf_cty struct_path" "is_struct struct_path"
  by (simp_all add: struct_path_def layout)

definition struct_fs_struct :: cty where
  "struct_fs_struct = Struct [Fld ''users'' C_int, Fld ''lock'' td_spinlock_t,
     Fld ''seq'' td_seqcount_spinlock_t, Fld ''umask'' C_int, Fld ''in_exec'' C_int,
     Fld ''root'' struct_path, Fld ''pwd'' struct_path]"

lemma layout_struct_fs_struct [layout]:
  "sizeof struct_fs_struct = 56" "alignof struct_fs_struct = 8" "wf_cty struct_fs_struct" "is_struct struct_fs_struct"
  by (simp_all add: struct_fs_struct_def layout)

definition td_lockdep_map_p :: cty where
  "td_lockdep_map_p = Struct []"

lemma layout_td_lockdep_map_p [layout]:
  "sizeof td_lockdep_map_p = 0" "alignof td_lockdep_map_p = 1" "wf_cty td_lockdep_map_p"
  by (simp_all add: td_lockdep_map_p_def layout)

definition struct_maple_tree :: cty where
  "struct_maple_tree = Struct [Fld '''' (Union [Fld ''ma_lock'' td_spinlock_t,
     Fld ''ma_external_lock'' td_lockdep_map_p]), Fld ''ma_root'' CPtr, Fld ''ma_flags'' C_uint]"

lemma layout_struct_maple_tree [layout]:
  "sizeof struct_maple_tree = 24" "alignof struct_maple_tree = 8" "wf_cty struct_maple_tree" "is_struct struct_maple_tree"
  by (simp_all add: struct_maple_tree_def layout)

definition td_mm_context_t :: cty where
  "td_mm_context_t = Struct [Fld ''id'' td_atomic64_t, Fld ''sigpage'' CPtr,
     Fld ''pinned'' td_refcount_t, Fld ''vdso'' CPtr, Fld ''flags'' C_ulong]"

lemma layout_td_mm_context_t [layout]:
  "sizeof td_mm_context_t = 40" "alignof td_mm_context_t = 8" "wf_cty td_mm_context_t"
  by (simp_all add: td_mm_context_t_def layout)

definition struct_uprobes_state :: cty where
  "struct_uprobes_state = Struct [Fld ''xol_area'' CPtr]"

lemma layout_struct_uprobes_state [layout]:
  "sizeof struct_uprobes_state = 8" "alignof struct_uprobes_state = 8" "wf_cty struct_uprobes_state" "is_struct struct_uprobes_state"
  by (simp_all add: struct_uprobes_state_def layout)

definition struct_mm_struct :: cty where
  "struct_mm_struct = Struct [Fld '''' (Struct [Fld '''' (Struct [Fld ''mm_count'' td_atomic_t,
     Bits '''' C_long 64, Bits '''' C_long 64, Bits '''' C_long 64, Bits '''' C_long 64,
     Bits '''' C_long 64, Bits '''' C_long 64, Bits '''' C_long 64]),
     Fld ''mm_mt'' struct_maple_tree, Fld ''get_unmapped_area'' CPtr, Fld ''mmap_base'' C_ulong,
     Fld ''mmap_legacy_base'' C_ulong, Fld ''task_size'' C_ulong, Fld ''pgd'' CPtr,
     Fld ''membarrier_state'' td_atomic_t, Fld ''mm_users'' td_atomic_t, Fld ''pcpu_cid'' CPtr,
     Fld ''mm_cid_next_scan'' C_ulong, Fld ''pgtables_bytes'' td_atomic_long_t,
     Fld ''map_count'' C_int, Fld ''page_table_lock'' td_spinlock_t,
     Fld ''mmap_lock'' struct_rw_semaphore, Fld ''mmlist'' struct_list_head,
     Fld ''mm_lock_seq'' C_int, Fld ''hiwater_rss'' C_ulong, Fld ''hiwater_vm'' C_ulong,
     Fld ''total_vm'' C_ulong, Fld ''locked_vm'' C_ulong, Fld ''pinned_vm'' td_atomic64_t,
     Fld ''data_vm'' C_ulong, Fld ''exec_vm'' C_ulong, Fld ''stack_vm'' C_ulong,
     Fld ''def_flags'' C_ulong, Fld ''write_protect_seq'' td_seqcount_t,
     Fld ''arg_lock'' td_spinlock_t, Fld ''start_code'' C_ulong, Fld ''end_code'' C_ulong,
     Fld ''start_data'' C_ulong, Fld ''end_data'' C_ulong, Fld ''start_brk'' C_ulong,
     Fld ''brk'' C_ulong, Fld ''start_stack'' C_ulong, Fld ''arg_start'' C_ulong,
     Fld ''arg_end'' C_ulong, Fld ''env_start'' C_ulong, Fld ''env_end'' C_ulong,
     Fld ''saved_auxv'' (CArr C_ulong 50), Fld ''rss_stat'' (CArr struct_percpu_counter 4),
     Fld ''binfmt'' CPtr, Fld ''context'' td_mm_context_t, Fld ''flags'' C_ulong,
     Fld ''ioctx_lock'' td_spinlock_t, Fld ''ioctx_table'' CPtr, Fld ''owner'' CPtr,
     Fld ''user_ns'' CPtr, Fld ''exe_file'' CPtr, Fld ''notifier_subscriptions'' CPtr,
     Fld ''numa_next_scan'' C_ulong, Fld ''numa_scan_offset'' C_ulong,
     Fld ''numa_scan_seq'' C_int, Fld ''tlb_flush_pending'' td_atomic_t,
     Fld ''uprobes_state'' struct_uprobes_state, Fld ''hugetlb_usage'' td_atomic_long_t,
     Fld ''async_put_work'' struct_work_struct, Fld ''pasid'' td_u32,
     Fld ''ksm_merging_pages'' C_ulong, Fld ''ksm_rmap_items'' C_ulong,
     Fld ''lru_gen'' (Struct [Fld ''list'' struct_list_head, Fld ''bitmap'' C_ulong,
     Fld ''memcg'' CPtr]), Bits '''' C_long 64, Bits '''' C_long 64, Bits '''' C_long 64]),
     Fld ''cpu_bitmap'' (CArr C_ulong 0)]"

lemma layout_struct_mm_struct [layout]:
  "sizeof struct_mm_struct = 1216" "alignof struct_mm_struct = 8" "wf_cty struct_mm_struct" "is_struct struct_mm_struct"
  by (simp_all add: struct_mm_struct_def layout)

definition td_pteval_t :: cty where
  "td_pteval_t = td_u64"

lemma layout_td_pteval_t [layout]:
  "sizeof td_pteval_t = 8" "alignof td_pteval_t = 8" "wf_cty td_pteval_t"
  by (simp_all add: td_pteval_t_def layout)

definition td_pgprot_t :: cty where
  "td_pgprot_t = Struct [Fld ''pgprot'' td_pteval_t]"

lemma layout_td_pgprot_t [layout]:
  "sizeof td_pgprot_t = 8" "alignof td_pgprot_t = 8" "wf_cty td_pgprot_t"
  by (simp_all add: td_pgprot_t_def layout)

definition td_vm_flags_t :: cty where
  "td_vm_flags_t = C_ulong"

lemma layout_td_vm_flags_t [layout]:
  "sizeof td_vm_flags_t = 8" "alignof td_vm_flags_t = 8" "wf_cty td_vm_flags_t"
  by (simp_all add: td_vm_flags_t_def layout)

definition struct_vm_userfaultfd_ctx :: cty where
  "struct_vm_userfaultfd_ctx = Struct [Fld ''ctx'' CPtr]"

lemma layout_struct_vm_userfaultfd_ctx [layout]:
  "sizeof struct_vm_userfaultfd_ctx = 8" "alignof struct_vm_userfaultfd_ctx = 8" "wf_cty struct_vm_userfaultfd_ctx" "is_struct struct_vm_userfaultfd_ctx"
  by (simp_all add: struct_vm_userfaultfd_ctx_def layout)

definition struct_vm_area_struct :: cty where
  "struct_vm_area_struct = Struct [Fld '''' (Union [Fld '''' (Struct [Fld ''vm_start'' C_ulong,
     Fld ''vm_end'' C_ulong]), Fld ''vm_rcu'' struct_callback_head]), Fld ''vm_mm'' CPtr,
     Fld ''vm_page_prot'' td_pgprot_t, Fld '''' (Union [Fld ''vm_flags'' td_vm_flags_t,
     Fld ''__vm_flags'' td_vm_flags_t]), Fld ''vm_lock_seq'' C_int, Fld ''vm_lock'' CPtr,
     Fld ''detached'' td_bool, Fld ''shared'' (Struct [Fld ''rb'' struct_rb_node,
     Fld ''rb_subtree_last'' C_ulong]), Fld ''anon_vma_chain'' struct_list_head,
     Fld ''anon_vma'' CPtr, Fld ''vm_ops'' CPtr, Fld ''vm_pgoff'' C_ulong, Fld ''vm_file'' CPtr,
     Fld ''vm_private_data'' CPtr, Fld ''anon_name'' CPtr,
     Fld ''swap_readahead_info'' td_atomic_long_t, Fld ''vm_policy'' CPtr,
     Fld ''numab_state'' CPtr, Fld ''vm_userfaultfd_ctx'' struct_vm_userfaultfd_ctx]"

lemma layout_struct_vm_area_struct [layout]:
  "sizeof struct_vm_area_struct = 192" "alignof struct_vm_area_struct = 8" "wf_cty struct_vm_area_struct" "is_struct struct_vm_area_struct"
  by (simp_all add: struct_vm_area_struct_def layout)

definition struct_thread_info :: cty where
  "struct_thread_info = Struct [Fld ''flags'' C_ulong, Fld ''ttbr0'' td_u64,
     Fld '''' (Union [Fld ''preempt_count'' td_u64, Fld ''preempt'' (Struct [Fld ''count'' td_u32,
     Fld ''need_resched'' td_u32])]), Fld ''cpu'' td_u32]"

lemma layout_struct_thread_info [layout]:
  "sizeof struct_thread_info = 32" "alignof struct_thread_info = 8" "wf_cty struct_thread_info" "is_struct struct_thread_info"
  by (simp_all add: struct_thread_info_def layout)

definition struct_load_weight :: cty where
  "struct_load_weight = Struct [Fld ''weight'' C_ulong, Fld ''inv_weight'' td_u32]"

lemma layout_struct_load_weight [layout]:
  "sizeof struct_load_weight = 16" "alignof struct_load_weight = 8" "wf_cty struct_load_weight" "is_struct struct_load_weight"
  by (simp_all add: struct_load_weight_def layout)

definition struct_util_est :: cty where
  "struct_util_est = Struct [Fld ''enqueued'' C_uint, Fld ''ewma'' C_uint]"

lemma layout_struct_util_est [layout]:
  "sizeof struct_util_est = 8" "alignof struct_util_est = 4" "wf_cty struct_util_est" "is_struct struct_util_est"
  by (simp_all add: struct_util_est_def layout)

definition struct_sched_avg :: cty where
  "struct_sched_avg = Struct [Fld ''last_update_time'' td_u64, Fld ''load_sum'' td_u64,
     Fld ''runnable_sum'' td_u64, Fld ''util_sum'' td_u32, Fld ''period_contrib'' td_u32,
     Fld ''load_avg'' C_ulong, Fld ''runnable_avg'' C_ulong, Fld ''util_avg'' C_ulong,
     Fld ''util_est'' struct_util_est]"

lemma layout_struct_sched_avg [layout]:
  "sizeof struct_sched_avg = 64" "alignof struct_sched_avg = 8" "wf_cty struct_sched_avg" "is_struct struct_sched_avg"
  by (simp_all add: struct_sched_avg_def layout)

definition struct_sched_entity :: cty where
  "struct_sched_entity = Struct [Fld ''load'' struct_load_weight, Fld ''run_node'' struct_rb_node,
     Fld ''group_node'' struct_list_head, Fld ''on_rq'' C_uint, Fld ''exec_start'' td_u64,
     Fld ''sum_exec_runtime'' td_u64, Fld ''vruntime'' td_u64,
     Fld ''prev_sum_exec_runtime'' td_u64, Fld ''nr_migrations'' td_u64, Fld ''depth'' C_int,
     Fld ''parent'' CPtr, Fld ''cfs_rq'' CPtr, Fld ''my_q'' CPtr, Fld ''runnable_weight'' C_ulong,
     Bits '''' C_long 64, Bits '''' C_long 64, Bits '''' C_long 64, Bits '''' C_long 64,
     Bits '''' C_long 64, Bits '''' C_long 64, Fld ''avg'' struct_sched_avg]"

lemma layout_struct_sched_entity [layout]:
  "sizeof struct_sched_entity = 256" "alignof struct_sched_entity = 8" "wf_cty struct_sched_entity" "is_struct struct_sched_entity"
  by (simp_all add: struct_sched_entity_def layout)

definition struct_sched_rt_entity :: cty where
  "struct_sched_rt_entity = Struct [Fld ''run_list'' struct_list_head, Fld ''timeout'' C_ulong,
     Fld ''watchdog_stamp'' C_ulong, Fld ''time_slice'' C_uint, Fld ''on_rq'' C_ushort,
     Fld ''on_list'' C_ushort, Fld ''back'' CPtr]"

lemma layout_struct_sched_rt_entity [layout]:
  "sizeof struct_sched_rt_entity = 48" "alignof struct_sched_rt_entity = 8" "wf_cty struct_sched_rt_entity" "is_struct struct_sched_rt_entity"
  by (simp_all add: struct_sched_rt_entity_def layout)

definition struct_sched_dl_entity :: cty where
  "struct_sched_dl_entity = Struct [Fld ''rb_node'' struct_rb_node, Fld ''dl_runtime'' td_u64,
     Fld ''dl_deadline'' td_u64, Fld ''dl_period'' td_u64, Fld ''dl_bw'' td_u64,
     Fld ''dl_density'' td_u64, Fld ''runtime'' td_s64, Fld ''deadline'' td_u64,
     Fld ''flags'' C_uint, Bits ''dl_throttled'' C_uint 1, Bits ''dl_yielded'' C_uint 1,
     Bits ''dl_non_contending'' C_uint 1, Bits ''dl_overrun'' C_uint 1,
     Fld ''dl_timer'' struct_hrtimer, Fld ''inactive_timer'' struct_hrtimer, Fld ''pi_se'' CPtr]"

lemma layout_struct_sched_dl_entity [layout]:
  "sizeof struct_sched_dl_entity = 224" "alignof struct_sched_dl_entity = 8" "wf_cty struct_sched_dl_entity" "is_struct struct_sched_dl_entity"
  by (simp_all add: struct_sched_dl_entity_def layout)

definition struct_uclamp_se :: cty where
  "struct_uclamp_se = Struct [Bits ''value'' C_uint 11, Bits ''bucket_id'' C_uint 3,
     Bits ''active'' C_uint 1, Bits ''user_defined'' C_uint 1]"

lemma layout_struct_uclamp_se [layout]:
  "sizeof struct_uclamp_se = 4" "alignof struct_uclamp_se = 4" "wf_cty struct_uclamp_se" "is_struct struct_uclamp_se"
  by (simp_all add: struct_uclamp_se_def layout)

definition struct_sched_statistics :: cty where
  "struct_sched_statistics = Struct [Fld ''wait_start'' td_u64, Fld ''wait_max'' td_u64,
     Fld ''wait_count'' td_u64, Fld ''wait_sum'' td_u64, Fld ''iowait_count'' td_u64,
     Fld ''iowait_sum'' td_u64, Fld ''sleep_start'' td_u64, Fld ''sleep_max'' td_u64,
     Fld ''sum_sleep_runtime'' td_s64, Fld ''block_start'' td_u64, Fld ''block_max'' td_u64,
     Fld ''sum_block_runtime'' td_s64, Fld ''exec_max'' td_u64, Fld ''slice_max'' td_u64,
     Fld ''nr_migrations_cold'' td_u64, Fld ''nr_failed_migrations_affine'' td_u64,
     Fld ''nr_failed_migrations_running'' td_u64, Fld ''nr_failed_migrations_hot'' td_u64,
     Fld ''nr_forced_migrations'' td_u64, Fld ''nr_wakeups'' td_u64,
     Fld ''nr_wakeups_sync'' td_u64, Fld ''nr_wakeups_migrate'' td_u64,
     Fld ''nr_wakeups_local'' td_u64, Fld ''nr_wakeups_remote'' td_u64,
     Fld ''nr_wakeups_affine'' td_u64, Fld ''nr_wakeups_affine_attempts'' td_u64,
     Fld ''nr_wakeups_passive'' td_u64, Fld ''nr_wakeups_idle'' td_u64,
     Fld ''core_forceidle_sum'' td_u64, Bits '''' C_long 64, Bits '''' C_long 64,
     Bits '''' C_long 64]"

lemma layout_struct_sched_statistics [layout]:
  "sizeof struct_sched_statistics = 256" "alignof struct_sched_statistics = 8" "wf_cty struct_sched_statistics" "is_struct struct_sched_statistics"
  by (simp_all add: struct_sched_statistics_def layout)

definition struct_cpumask :: cty where
  "struct_cpumask = Struct [Fld ''bits'' (CArr C_ulong 4)]"

lemma layout_struct_cpumask [layout]:
  "sizeof struct_cpumask = 32" "alignof struct_cpumask = 8" "wf_cty struct_cpumask" "is_struct struct_cpumask"
  by (simp_all add: struct_cpumask_def layout)

definition td_cpumask_t :: cty where
  "td_cpumask_t = struct_cpumask"

lemma layout_td_cpumask_t [layout]:
  "sizeof td_cpumask_t = 32" "alignof td_cpumask_t = 8" "wf_cty td_cpumask_t"
  by (simp_all add: td_cpumask_t_def layout)

definition union_rcu_special :: cty where
  "union_rcu_special = Union [Fld ''b'' (Struct [Fld ''blocked'' td_u8, Fld ''need_qs'' td_u8,
     Fld ''exp_hint'' td_u8, Fld ''need_mb'' td_u8]), Fld ''s'' td_u32]"

lemma layout_union_rcu_special [layout]:
  "sizeof union_rcu_special = 4" "alignof union_rcu_special = 4" "wf_cty union_rcu_special"
  by (simp_all add: union_rcu_special_def layout)

definition struct_sched_info :: cty where
  "struct_sched_info = Struct [Fld ''pcount'' C_ulong, Fld ''run_delay'' C_ulonglong,
     Fld ''last_arrival'' C_ulonglong, Fld ''last_queued'' C_ulonglong]"

lemma layout_struct_sched_info [layout]:
  "sizeof struct_sched_info = 32" "alignof struct_sched_info = 8" "wf_cty struct_sched_info" "is_struct struct_sched_info"
  by (simp_all add: struct_sched_info_def layout)

definition struct_plist_node :: cty where
  "struct_plist_node = Struct [Fld ''prio'' C_int, Fld ''prio_list'' struct_list_head,
     Fld ''node_list'' struct_list_head]"

lemma layout_struct_plist_node [layout]:
  "sizeof struct_plist_node = 40" "alignof struct_plist_node = 8" "wf_cty struct_plist_node" "is_struct struct_plist_node"
  by (simp_all add: struct_plist_node_def layout)

definition td___kernel_clockid_t :: cty where
  "td___kernel_clockid_t = C_int"

lemma layout_td___kernel_clockid_t [layout]:
  "sizeof td___kernel_clockid_t = 4" "alignof td___kernel_clockid_t = 4" "wf_cty td___kernel_clockid_t"
  by (simp_all add: td___kernel_clockid_t_def layout)

definition td_clockid_t :: cty where
  "td_clockid_t = td___kernel_clockid_t"

lemma layout_td_clockid_t [layout]:
  "sizeof td_clockid_t = 4" "alignof td_clockid_t = 4" "wf_cty td_clockid_t"
  by (simp_all add: td_clockid_t_def layout)

definition struct_restart_block :: cty where
  "struct_restart_block = Struct [Fld ''arch_data'' C_ulong, Fld ''fn'' CPtr,
     Fld '''' (Union [Fld ''futex'' (Struct [Fld ''uaddr'' CPtr, Fld ''val'' td_u32,
     Fld ''flags'' td_u32, Fld ''bitset'' td_u32, Fld ''time'' td_u64, Fld ''uaddr2'' CPtr]),
     Fld ''nanosleep'' (Struct [Fld ''clockid'' td_clockid_t, Fld ''type'' Enum,
     Fld '''' (Union [Fld ''rmtp'' CPtr, Fld ''compat_rmtp'' CPtr]), Fld ''expires'' td_u64]),
     Fld ''poll'' (Struct [Fld ''ufds'' CPtr, Fld ''nfds'' C_int, Fld ''has_timeout'' C_int,
     Fld ''tv_sec'' C_ulong, Fld ''tv_nsec'' C_ulong])])]"

lemma layout_struct_restart_block [layout]:
  "sizeof struct_restart_block = 56" "alignof struct_restart_block = 8" "wf_cty struct_restart_block" "is_struct struct_restart_block"
  by (simp_all add: struct_restart_block_def layout)

definition td___kernel_pid_t :: cty where
  "td___kernel_pid_t = C_int"

lemma layout_td___kernel_pid_t [layout]:
  "sizeof td___kernel_pid_t = 4" "alignof td___kernel_pid_t = 4" "wf_cty td___kernel_pid_t"
  by (simp_all add: td___kernel_pid_t_def layout)

definition td_pid_t :: cty where
  "td_pid_t = td___kernel_pid_t"

lemma layout_td_pid_t [layout]:
  "sizeof td_pid_t = 4" "alignof td_pid_t = 4" "wf_cty td_pid_t"
  by (simp_all add: td_pid_t_def layout)

definition struct_posix_cputimers_work :: cty where
  "struct_posix_cputimers_work = Struct [Fld ''work'' struct_callback_head,
     Fld ''mutex'' struct_mutex, Fld ''scheduled'' C_uint]"

lemma layout_struct_posix_cputimers_work [layout]:
  "sizeof struct_posix_cputimers_work = 56" "alignof struct_posix_cputimers_work = 8" "wf_cty struct_posix_cputimers_work" "is_struct struct_posix_cputimers_work"
  by (simp_all add: struct_posix_cputimers_work_def layout)

definition struct_sysv_sem :: cty where
  "struct_sysv_sem = Struct [Fld ''undo_list'' CPtr]"

lemma layout_struct_sysv_sem [layout]:
  "sizeof struct_sysv_sem = 8" "alignof struct_sysv_sem = 8" "wf_cty struct_sysv_sem" "is_struct struct_sysv_sem"
  by (simp_all add: struct_sysv_sem_def layout)

definition struct_sysv_shm :: cty where
  "struct_sysv_shm = Struct [Fld ''shm_clist'' struct_list_head]"

lemma layout_struct_sysv_shm [layout]:
  "sizeof struct_sysv_shm = 16" "alignof struct_sysv_shm = 8" "wf_cty struct_sysv_shm" "is_struct struct_sysv_shm"
  by (simp_all add: struct_sysv_shm_def layout)

definition struct_seccomp :: cty where
  "struct_seccomp = Struct [Fld ''mode'' C_int, Fld ''filter_count'' td_atomic_t,
     Fld ''filter'' CPtr]"

lemma layout_struct_seccomp [layout]:
  "sizeof struct_seccomp = 16" "alignof struct_seccomp = 8" "wf_cty struct_seccomp" "is_struct struct_seccomp"
  by (simp_all add: struct_seccomp_def layout)

definition struct_syscall_user_dispatch :: cty where
  "struct_syscall_user_dispatch = Struct []"

lemma layout_struct_syscall_user_dispatch [layout]:
  "sizeof struct_syscall_user_dispatch = 0" "alignof struct_syscall_user_dispatch = 1" "wf_cty struct_syscall_user_dispatch" "is_struct struct_syscall_user_dispatch"
  by (simp_all add: struct_syscall_user_dispatch_def layout)

definition struct_wake_q_node :: cty where
  "struct_wake_q_node = Struct [Fld ''next'' CPtr]"

lemma layout_struct_wake_q_node [layout]:
  "sizeof struct_wake_q_node = 8" "alignof struct_wake_q_node = 8" "wf_cty struct_wake_q_node" "is_struct struct_wake_q_node"
  by (simp_all add: struct_wake_q_node_def layout)

definition td_nodemask_t :: cty where
  "td_nodemask_t = Struct [Fld ''bits'' (CArr C_ulong 1)]"

lemma layout_td_nodemask_t [layout]:
  "sizeof td_nodemask_t = 8" "alignof td_nodemask_t = 8" "wf_cty td_nodemask_t"
  by (simp_all add: td_nodemask_t_def layout)

definition struct_tlbflush_unmap_batch :: cty where
  "struct_tlbflush_unmap_batch = Struct []"

lemma layout_struct_tlbflush_unmap_batch [layout]:
  "sizeof struct_tlbflush_unmap_batch = 0" "alignof struct_tlbflush_unmap_batch = 1" "wf_cty struct_tlbflush_unmap_batch" "is_struct struct_tlbflush_unmap_batch"
  by (simp_all add: struct_tlbflush_unmap_batch_def layout)

definition struct_kmap_ctrl :: cty where
  "struct_kmap_ctrl = Struct []"

lemma layout_struct_kmap_ctrl [layout]:
  "sizeof struct_kmap_ctrl = 0" "alignof struct_kmap_ctrl = 1" "wf_cty struct_kmap_ctrl" "is_struct struct_kmap_ctrl"
  by (simp_all add: struct_kmap_ctrl_def layout)

definition struct_llist_head :: cty where
  "struct_llist_head = Struct [Fld ''first'' CPtr]"

lemma layout_struct_llist_head [layout]:
  "sizeof struct_llist_head = 8" "alignof struct_llist_head = 8" "wf_cty struct_llist_head" "is_struct struct_llist_head"
  by (simp_all add: struct_llist_head_def layout)

definition struct_da_monitor :: cty where
  "struct_da_monitor = Struct [Fld ''monitoring'' td_bool, Fld ''curr_state'' C_uint]"

lemma layout_struct_da_monitor [layout]:
  "sizeof struct_da_monitor = 8" "alignof struct_da_monitor = 4" "wf_cty struct_da_monitor" "is_struct struct_da_monitor"
  by (simp_all add: struct_da_monitor_def layout)

definition union_rv_task_monitor :: cty where
  "union_rv_task_monitor = Union [Fld ''da_mon'' struct_da_monitor]"

lemma layout_union_rv_task_monitor [layout]:
  "sizeof union_rv_task_monitor = 8" "alignof union_rv_task_monitor = 4" "wf_cty union_rv_task_monitor"
  by (simp_all add: union_rv_task_monitor_def layout)

definition struct_cpu_context :: cty where
  "struct_cpu_context = Struct [Fld ''x19'' C_ulong, Fld ''x20'' C_ulong, Fld ''x21'' C_ulong,
     Fld ''x22'' C_ulong, Fld ''x23'' C_ulong, Fld ''x24'' C_ulong, Fld ''x25'' C_ulong,
     Fld ''x26'' C_ulong, Fld ''x27'' C_ulong, Fld ''x28'' C_ulong, Fld ''fp'' C_ulong,
     Fld ''sp'' C_ulong, Fld ''pc'' C_ulong]"

lemma layout_struct_cpu_context [layout]:
  "sizeof struct_cpu_context = 104" "alignof struct_cpu_context = 8" "wf_cty struct_cpu_context" "is_struct struct_cpu_context"
  by (simp_all add: struct_cpu_context_def layout)

definition struct_user_fpsimd_state :: cty where
  "struct_user_fpsimd_state = Struct [Fld ''vregs'' (CArr C_uint128 32), Fld ''fpsr'' td___u32,
     Fld ''fpcr'' td___u32, Fld ''__reserved'' (CArr td___u32 2)]"

lemma layout_struct_user_fpsimd_state [layout]:
  "sizeof struct_user_fpsimd_state = 528" "alignof struct_user_fpsimd_state = 16" "wf_cty struct_user_fpsimd_state" "is_struct struct_user_fpsimd_state"
  by (simp_all add: struct_user_fpsimd_state_def layout)

definition struct_debug_info :: cty where
  "struct_debug_info = Struct [Fld ''suspended_step'' C_int, Fld ''bps_disabled'' C_int,
     Fld ''wps_disabled'' C_int, Fld ''hbp_break'' (CArr CPtr 16),
     Fld ''hbp_watch'' (CArr CPtr 16)]"

lemma layout_struct_debug_info [layout]:
  "sizeof struct_debug_info = 272" "alignof struct_debug_info = 8" "wf_cty struct_debug_info" "is_struct struct_debug_info"
  by (simp_all add: struct_debug_info_def layout)

definition struct_ptrauth_key :: cty where
  "struct_ptrauth_key = Struct [Fld ''lo'' C_ulong, Fld ''hi'' C_ulong]"

lemma layout_struct_ptrauth_key [layout]:
  "sizeof struct_ptrauth_key = 16" "alignof struct_ptrauth_key = 8" "wf_cty struct_ptrauth_key" "is_struct struct_ptrauth_key"
  by (simp_all add: struct_ptrauth_key_def layout)

definition struct_ptrauth_keys_user :: cty where
  "struct_ptrauth_keys_user = Struct [Fld ''apia'' struct_ptrauth_key,
     Fld ''apib'' struct_ptrauth_key, Fld ''apda'' struct_ptrauth_key,
     Fld ''apdb'' struct_ptrauth_key, Fld ''apga'' struct_ptrauth_key]"

lemma layout_struct_ptrauth_keys_user [layout]:
  "sizeof struct_ptrauth_keys_user = 80" "alignof struct_ptrauth_keys_user = 8" "wf_cty struct_ptrauth_keys_user" "is_struct struct_ptrauth_keys_user"
  by (simp_all add: struct_ptrauth_keys_user_def layout)

definition struct_ptrauth_keys_kernel :: cty where
  "struct_ptrauth_keys_kernel = Struct [Fld ''apia'' struct_ptrauth_key]"

lemma layout_struct_ptrauth_keys_kernel [layout]:
  "sizeof struct_ptrauth_keys_kernel = 16" "alignof struct_ptrauth_keys_kernel = 8" "wf_cty struct_ptrauth_keys_kernel" "is_struct struct_ptrauth_keys_kernel"
  by (simp_all add: struct_ptrauth_keys_kernel_def layout)

definition struct_thread_struct :: cty where
  "struct_thread_struct = Struct [Fld ''cpu_context'' struct_cpu_context, Bits '''' C_long 64,
     Fld ''uw'' (Struct [Fld ''tp_value'' C_ulong, Fld ''tp2_value'' C_ulong,
     Fld ''fpsimd_state'' struct_user_fpsimd_state]), Fld ''fp_type'' Enum,
     Fld ''fpsimd_cpu'' C_uint, Fld ''sve_state'' CPtr, Fld ''sme_state'' CPtr,
     Fld ''vl'' (CArr C_uint 2), Fld ''vl_onexec'' (CArr C_uint 2), Fld ''fault_address'' C_ulong,
     Fld ''fault_code'' C_ulong, Fld ''debug'' struct_debug_info,
     Fld ''keys_user'' struct_ptrauth_keys_user, Fld ''keys_kernel'' struct_ptrauth_keys_kernel,
     Fld ''mte_ctrl'' td_u64, Fld ''sctlr_user'' td_u64, Fld ''svcr'' td_u64,
     Fld ''tpidr2_el0'' td_u64, Bits '''' C_long 64]"

lemma layout_struct_thread_struct [layout]:
  "sizeof struct_thread_struct = 1120" "alignof struct_thread_struct = 16" "wf_cty struct_thread_struct" "is_struct struct_thread_struct"
  by (simp_all add: struct_thread_struct_def layout)

definition struct_task_struct :: cty where
  "struct_task_struct = Struct [Fld ''thread_info'' struct_thread_info, Fld ''__state'' C_uint,
     Fld ''stack'' CPtr, Fld ''usage'' td_refcount_t, Fld ''flags'' C_uint, Fld ''ptrace'' C_uint,
     Fld ''on_cpu'' C_int, Fld ''wake_entry'' struct___call_single_node,
     Fld ''wakee_flips'' C_uint, Fld ''wakee_flip_decay_ts'' C_ulong, Fld ''last_wakee'' CPtr,
     Fld ''recent_used_cpu'' C_int, Fld ''wake_cpu'' C_int, Fld ''on_rq'' C_int,
     Fld ''prio'' C_int, Fld ''static_prio'' C_int, Fld ''normal_prio'' C_int,
     Fld ''rt_priority'' C_uint, Bits '''' C_long 64, Bits '''' C_long 64, Bits '''' C_long 64,
     Bits '''' C_long 64, Bits '''' C_long 64, Bits '''' C_long 64, Bits '''' C_long 64,
     Fld ''se'' struct_sched_entity, Fld ''rt'' struct_sched_rt_entity,
     Fld ''dl'' struct_sched_dl_entity, Fld ''sched_class'' CPtr,
     Fld ''core_node'' struct_rb_node, Fld ''core_cookie'' C_ulong,
     Fld ''core_occupation'' C_uint, Fld ''sched_task_group'' CPtr,
     Fld ''uclamp_req'' (CArr struct_uclamp_se 2), Fld ''uclamp'' (CArr struct_uclamp_se 2),
     Bits '''' C_long 64, Bits '''' C_long 64, Bits '''' C_long 64, Bits '''' C_long 64,
     Bits '''' C_long 64, Fld ''stats'' struct_sched_statistics,
     Fld ''preempt_notifiers'' struct_hlist_head, Fld ''btrace_seq'' C_uint,
     Fld ''policy'' C_uint, Fld ''nr_cpus_allowed'' C_int, Fld ''cpus_ptr'' CPtr,
     Fld ''user_cpus_ptr'' CPtr, Fld ''cpus_mask'' td_cpumask_t, Fld ''migration_pending'' CPtr,
     Fld ''migration_disabled'' C_ushort, Fld ''migration_flags'' C_ushort,
     Fld ''trc_reader_nesting'' C_int, Fld ''trc_ipi_to_cpu'' C_int,
     Fld ''trc_reader_special'' union_rcu_special, Fld ''trc_holdout_list'' struct_list_head,
     Fld ''trc_blkd_node'' struct_list_head, Fld ''trc_blkd_cpu'' C_int,
     Fld ''sched_info'' struct_sched_info, Fld ''tasks'' struct_list_head,
     Fld ''pushable_tasks'' struct_plist_node, Fld ''pushable_dl_tasks'' struct_rb_node,
     Fld ''mm'' CPtr, Fld ''active_mm'' CPtr, Fld ''exit_state'' C_int, Fld ''exit_code'' C_int,
     Fld ''exit_signal'' C_int, Fld ''pdeath_signal'' C_int, Fld ''jobctl'' C_ulong,
     Fld ''personality'' C_uint, Bits ''sched_reset_on_fork'' C_uint 1,
     Bits ''sched_contributes_to_load'' C_uint 1, Bits ''sched_migrated'' C_uint 1,
     Bits '''' C_long 29, Bits ''sched_remote_wakeup'' C_uint 1, Bits ''in_execve'' C_uint 1,
     Bits ''in_iowait'' C_uint 1, Bits ''in_user_fault'' C_uint 1, Bits ''in_lru_fault'' C_uint 1,
     Bits ''no_cgroup_migration'' C_uint 1, Bits ''frozen'' C_uint 1,
     Bits ''use_memdelay'' C_uint 1, Bits ''in_memstall'' C_uint 1, Bits ''in_eventfd'' C_uint 1,
     Bits ''pasid_activated'' C_uint 1, Bits ''in_thrashing'' C_uint 1,
     Fld ''atomic_flags'' C_ulong, Fld ''restart_block'' struct_restart_block,
     Fld ''pid'' td_pid_t, Fld ''tgid'' td_pid_t, Fld ''stack_canary'' C_ulong,
     Fld ''real_parent'' CPtr, Fld ''parent'' CPtr, Fld ''children'' struct_list_head,
     Fld ''sibling'' struct_list_head, Fld ''group_leader'' CPtr,
     Fld ''ptraced'' struct_list_head, Fld ''ptrace_entry'' struct_list_head,
     Fld ''thread_pid'' CPtr, Fld ''pid_links'' (CArr struct_hlist_node 4),
     Fld ''thread_group'' struct_list_head, Fld ''thread_node'' struct_list_head,
     Fld ''vfork_done'' CPtr, Fld ''set_child_tid'' CPtr, Fld ''clear_child_tid'' CPtr,
     Fld ''worker_private'' CPtr, Fld ''utime'' td_u64, Fld ''stime'' td_u64,
     Fld ''gtime'' td_u64, Fld ''prev_cputime'' struct_prev_cputime, Fld ''nvcsw'' C_ulong,
     Fld ''nivcsw'' C_ulong, Fld ''start_time'' td_u64, Fld ''start_boottime'' td_u64,
     Fld ''min_flt'' C_ulong, Fld ''maj_flt'' C_ulong,
     Fld ''posix_cputimers'' struct_posix_cputimers,
     Fld ''posix_cputimers_work'' struct_posix_cputimers_work, Fld ''ptracer_cred'' CPtr,
     Fld ''real_cred'' CPtr, Fld ''cred'' CPtr, Fld ''cached_requested_key'' CPtr,
     Fld ''comm'' (CArr C_char 16), Fld ''nameidata'' CPtr, Fld ''sysvsem'' struct_sysv_sem,
     Fld ''sysvshm'' struct_sysv_shm, Fld ''last_switch_count'' C_ulong,
     Fld ''last_switch_time'' C_ulong, Fld ''fs'' CPtr, Fld ''files'' CPtr, Fld ''io_uring'' CPtr,
     Fld ''nsproxy'' CPtr, Fld ''signal'' CPtr, Fld ''sighand'' CPtr, Fld ''blocked'' td_sigset_t,
     Fld ''real_blocked'' td_sigset_t, Fld ''saved_sigmask'' td_sigset_t,
     Fld ''pending'' struct_sigpending, Fld ''sas_ss_sp'' C_ulong, Fld ''sas_ss_size'' td_size_t,
     Fld ''sas_ss_flags'' C_uint, Fld ''task_works'' CPtr, Fld ''audit_context'' CPtr,
     Fld ''loginuid'' td_kuid_t, Fld ''sessionid'' C_uint, Fld ''seccomp'' struct_seccomp,
     Fld ''syscall_dispatch'' struct_syscall_user_dispatch, Fld ''parent_exec_id'' td_u64,
     Fld ''self_exec_id'' td_u64, Fld ''alloc_lock'' td_spinlock_t,
     Fld ''pi_lock'' td_raw_spinlock_t, Fld ''wake_q'' struct_wake_q_node,
     Fld ''pi_waiters'' struct_rb_root_cached, Fld ''pi_top_task'' CPtr,
     Fld ''pi_blocked_on'' CPtr, Fld ''in_ubsan'' C_uint, Fld ''journal_info'' CPtr,
     Fld ''bio_list'' CPtr, Fld ''plug'' CPtr, Fld ''reclaim_state'' CPtr,
     Fld ''io_context'' CPtr, Fld ''capture_control'' CPtr, Fld ''ptrace_message'' C_ulong,
     Fld ''last_siginfo'' CPtr, Fld ''ioac'' struct_task_io_accounting, Fld ''psi_flags'' C_uint,
     Fld ''acct_rss_mem1'' td_u64, Fld ''acct_vm_mem1'' td_u64, Fld ''acct_timexpd'' td_u64,
     Fld ''mems_allowed'' td_nodemask_t, Fld ''mems_allowed_seq'' td_seqcount_spinlock_t,
     Fld ''cpuset_mem_spread_rotor'' C_int, Fld ''cpuset_slab_spread_rotor'' C_int,
     Fld ''cgroups'' CPtr, Fld ''cg_list'' struct_list_head, Fld ''robust_list'' CPtr,
     Fld ''compat_robust_list'' CPtr, Fld ''pi_state_list'' struct_list_head,
     Fld ''pi_state_cache'' CPtr, Fld ''futex_exit_mutex'' struct_mutex,
     Fld ''futex_state'' C_uint, Fld ''perf_event_ctxp'' CPtr,
     Fld ''perf_event_mutex'' struct_mutex, Fld ''perf_event_list'' struct_list_head,
     Fld ''mempolicy'' CPtr, Fld ''il_prev'' C_short, Fld ''pref_node_fork'' C_short,
     Fld ''numa_scan_seq'' C_int, Fld ''numa_scan_period'' C_uint,
     Fld ''numa_scan_period_max'' C_uint, Fld ''numa_preferred_nid'' C_int,
     Fld ''numa_migrate_retry'' C_ulong, Fld ''node_stamp'' td_u64,
     Fld ''last_task_numa_placement'' td_u64, Fld ''last_sum_exec_runtime'' td_u64,
     Fld ''numa_work'' struct_callback_head, Fld ''numa_group'' CPtr, Fld ''numa_faults'' CPtr,
     Fld ''total_numa_faults'' C_ulong, Fld ''numa_faults_locality'' (CArr C_ulong 3),
     Fld ''numa_pages_migrated'' C_ulong, Fld ''rseq'' CPtr, Fld ''rseq_len'' td_u32,
     Fld ''rseq_sig'' td_u32, Fld ''rseq_event_mask'' C_ulong, Fld ''mm_cid'' C_int,
     Fld ''last_mm_cid'' C_int, Fld ''migrate_from_cpu'' C_int, Fld ''mm_cid_active'' C_int,
     Fld ''cid_work'' struct_callback_head, Fld ''tlb_ubc'' struct_tlbflush_unmap_batch,
     Fld ''splice_pipe'' CPtr, Fld ''task_frag'' struct_page_frag, Fld ''delays'' CPtr,
     Fld ''nr_dirtied'' C_int, Fld ''nr_dirtied_pause'' C_int, Fld ''dirty_paused_when'' C_ulong,
     Fld ''timer_slack_ns'' td_u64, Fld ''default_timer_slack_ns'' td_u64,
     Fld ''curr_ret_stack'' C_int, Fld ''curr_ret_depth'' C_int, Fld ''ret_stack'' CPtr,
     Fld ''ftrace_timestamp'' C_ulonglong, Fld ''trace_overrun'' td_atomic_t,
     Fld ''tracing_graph_pause'' td_atomic_t, Fld ''trace_recursion'' C_ulong,
     Fld ''memcg_in_oom'' CPtr, Fld ''memcg_oom_gfp_mask'' td_gfp_t,
     Fld ''memcg_oom_order'' C_int, Fld ''memcg_nr_pages_over_high'' C_uint,
     Fld ''active_memcg'' CPtr, Fld ''throttle_disk'' CPtr, Fld ''utask'' CPtr,
     Fld ''sequential_io'' C_uint, Fld ''sequential_io_avg'' C_uint,
     Fld ''kmap_ctrl'' struct_kmap_ctrl, Fld ''rcu'' struct_callback_head,
     Fld ''rcu_users'' td_refcount_t, Fld ''pagefault_disabled'' C_int,
     Fld ''oom_reaper_list'' CPtr, Fld ''oom_reaper_timer'' struct_timer_list,
     Fld ''stack_vm_area'' CPtr, Fld ''stack_refcount'' td_refcount_t, Fld ''security'' CPtr,
     Fld ''bpf_storage'' CPtr, Fld ''bpf_ctx'' CPtr,
     Fld ''kretprobe_instances'' struct_llist_head, Fld ''rv'' (CArr union_rv_task_monitor 1),
     Fld ''user_event_mm'' CPtr, Bits '''' C_long 64, Fld ''thread'' struct_thread_struct,
     Bits '''' C_long 64, Bits '''' C_long 64]"

lemma layout_struct_task_struct [layout]:
  "sizeof struct_task_struct = 4224" "alignof struct_task_struct = 16" "wf_cty struct_task_struct" "is_struct struct_task_struct"
  by (simp_all add: struct_task_struct_def layout)

definition struct_upid :: cty where
  "struct_upid = Struct [Fld ''nr'' C_int, Fld ''ns'' CPtr]"

lemma layout_struct_upid [layout]:
  "sizeof struct_upid = 16" "alignof struct_upid = 8" "wf_cty struct_upid" "is_struct struct_upid"
  by (simp_all add: struct_upid_def layout)

definition struct_pid :: cty where
  "struct_pid = Struct [Fld ''count'' td_refcount_t, Fld ''level'' C_uint,
     Fld ''lock'' td_spinlock_t, Fld ''tasks'' (CArr struct_hlist_head 4),
     Fld ''inodes'' struct_hlist_head, Fld ''wait_pidfd'' td_wait_queue_head_t,
     Fld ''rcu'' struct_callback_head, Fld ''numbers'' (CArr struct_upid 0)]"

lemma layout_struct_pid [layout]:
  "sizeof struct_pid = 96" "alignof struct_pid = 8" "wf_cty struct_pid" "is_struct struct_pid"
  by (simp_all add: struct_pid_def layout)

definition struct_xarray :: cty where
  "struct_xarray = Struct [Fld ''xa_lock'' td_spinlock_t, Fld ''xa_flags'' td_gfp_t,
     Fld ''xa_head'' CPtr]"

lemma layout_struct_xarray [layout]:
  "sizeof struct_xarray = 16" "alignof struct_xarray = 8" "wf_cty struct_xarray" "is_struct struct_xarray"
  by (simp_all add: struct_xarray_def layout)

definition struct_idr :: cty where
  "struct_idr = Struct [Fld ''idr_rt'' struct_xarray, Fld ''idr_base'' C_uint,
     Fld ''idr_next'' C_uint]"

lemma layout_struct_idr [layout]:
  "sizeof struct_idr = 24" "alignof struct_idr = 8" "wf_cty struct_idr" "is_struct struct_idr"
  by (simp_all add: struct_idr_def layout)

definition struct_ns_common :: cty where
  "struct_ns_common = Struct [Fld ''stashed'' td_atomic_long_t, Fld ''ops'' CPtr,
     Fld ''inum'' C_uint, Fld ''count'' td_refcount_t]"

lemma layout_struct_ns_common [layout]:
  "sizeof struct_ns_common = 24" "alignof struct_ns_common = 8" "wf_cty struct_ns_common" "is_struct struct_ns_common"
  by (simp_all add: struct_ns_common_def layout)

definition struct_pid_namespace :: cty where
  "struct_pid_namespace = Struct [Fld ''idr'' struct_idr, Fld ''rcu'' struct_callback_head,
     Fld ''pid_allocated'' C_uint, Fld ''child_reaper'' CPtr, Fld ''pid_cachep'' CPtr,
     Fld ''level'' C_uint, Fld ''parent'' CPtr, Fld ''bacct'' CPtr, Fld ''user_ns'' CPtr,
     Fld ''ucounts'' CPtr, Fld ''reboot'' C_int, Fld ''ns'' struct_ns_common,
     Fld ''memfd_noexec_scope'' C_int]"

lemma layout_struct_pid_namespace [layout]:
  "sizeof struct_pid_namespace = 144" "alignof struct_pid_namespace = 8" "wf_cty struct_pid_namespace" "is_struct struct_pid_namespace"
  by (simp_all add: struct_pid_namespace_def layout)

definition struct_uid_gid_extent :: cty where
  "struct_uid_gid_extent = Struct [Fld ''first'' td_u32, Fld ''lower_first'' td_u32,
     Fld ''count'' td_u32]"

lemma layout_struct_uid_gid_extent [layout]:
  "sizeof struct_uid_gid_extent = 12" "alignof struct_uid_gid_extent = 4" "wf_cty struct_uid_gid_extent" "is_struct struct_uid_gid_extent"
  by (simp_all add: struct_uid_gid_extent_def layout)

definition struct_uid_gid_map :: cty where
  "struct_uid_gid_map = Struct [Fld ''nr_extents'' td_u32,
     Fld '''' (Union [Fld ''extent'' (CArr struct_uid_gid_extent 5),
     Fld '''' (Struct [Fld ''forward'' CPtr, Fld ''reverse'' CPtr])])]"

lemma layout_struct_uid_gid_map [layout]:
  "sizeof struct_uid_gid_map = 72" "alignof struct_uid_gid_map = 8" "wf_cty struct_uid_gid_map" "is_struct struct_uid_gid_map"
  by (simp_all add: struct_uid_gid_map_def layout)

definition struct_ctl_table_header :: cty where
  "struct_ctl_table_header = Struct [Fld '''' (Union [Fld '''' (Struct [Fld ''ctl_table'' CPtr,
     Fld ''used'' C_int, Fld ''count'' C_int, Fld ''nreg'' C_int]),
     Fld ''rcu'' struct_callback_head]), Fld ''unregistering'' CPtr, Fld ''ctl_table_arg'' CPtr,
     Fld ''root'' CPtr, Fld ''set'' CPtr, Fld ''parent'' CPtr, Fld ''node'' CPtr,
     Fld ''inodes'' struct_hlist_head]"

lemma layout_struct_ctl_table_header [layout]:
  "sizeof struct_ctl_table_header = 80" "alignof struct_ctl_table_header = 8" "wf_cty struct_ctl_table_header" "is_struct struct_ctl_table_header"
  by (simp_all add: struct_ctl_table_header_def layout)

definition struct_ctl_dir :: cty where
  "struct_ctl_dir = Struct [Fld ''header'' struct_ctl_table_header, Fld ''root'' struct_rb_root]"

lemma layout_struct_ctl_dir [layout]:
  "sizeof struct_ctl_dir = 88" "alignof struct_ctl_dir = 8" "wf_cty struct_ctl_dir" "is_struct struct_ctl_dir"
  by (simp_all add: struct_ctl_dir_def layout)

definition struct_ctl_table_set :: cty where
  "struct_ctl_table_set = Struct [Fld ''is_seen'' CPtr, Fld ''dir'' struct_ctl_dir]"

lemma layout_struct_ctl_table_set [layout]:
  "sizeof struct_ctl_table_set = 96" "alignof struct_ctl_table_set = 8" "wf_cty struct_ctl_table_set" "is_struct struct_ctl_table_set"
  by (simp_all add: struct_ctl_table_set_def layout)

definition struct_user_namespace :: cty where
  "struct_user_namespace = Struct [Fld ''uid_map'' struct_uid_gid_map,
     Fld ''gid_map'' struct_uid_gid_map, Fld ''projid_map'' struct_uid_gid_map,
     Fld ''parent'' CPtr, Fld ''level'' C_int, Fld ''owner'' td_kuid_t, Fld ''group'' td_kgid_t,
     Fld ''ns'' struct_ns_common, Fld ''flags'' C_ulong, Fld ''parent_could_setfcap'' td_bool,
     Fld ''keyring_name_list'' struct_list_head, Fld ''user_keyring_register'' CPtr,
     Fld ''keyring_sem'' struct_rw_semaphore, Fld ''persistent_keyring_register'' CPtr,
     Fld ''work'' struct_work_struct, Fld ''set'' struct_ctl_table_set, Fld ''sysctls'' CPtr,
     Fld ''ucounts'' CPtr, Fld ''ucount_max'' (CArr C_long 12),
     Fld ''rlimit_max'' (CArr C_long 4)]"

lemma layout_struct_user_namespace [layout]:
  "sizeof struct_user_namespace = 624" "alignof struct_user_namespace = 8" "wf_cty struct_user_namespace" "is_struct struct_user_namespace"
  by (simp_all add: struct_user_namespace_def layout)

definition struct_css_set :: cty where
  "struct_css_set = Struct [Fld ''subsys'' (CArr CPtr 14), Fld ''refcount'' td_refcount_t,
     Fld ''dom_cset'' CPtr, Fld ''dfl_cgrp'' CPtr, Fld ''nr_tasks'' C_int,
     Fld ''tasks'' struct_list_head, Fld ''mg_tasks'' struct_list_head,
     Fld ''dying_tasks'' struct_list_head, Fld ''task_iters'' struct_list_head,
     Fld ''e_cset_node'' (CArr struct_list_head 14), Fld ''threaded_csets'' struct_list_head,
     Fld ''threaded_csets_node'' struct_list_head, Fld ''hlist'' struct_hlist_node,
     Fld ''cgrp_links'' struct_list_head, Fld ''mg_src_preload_node'' struct_list_head,
     Fld ''mg_dst_preload_node'' struct_list_head, Fld ''mg_node'' struct_list_head,
     Fld ''mg_src_cgrp'' CPtr, Fld ''mg_dst_cgrp'' CPtr, Fld ''mg_dst_cset'' CPtr,
     Fld ''dead'' td_bool, Fld ''callback_head'' struct_callback_head]"

lemma layout_struct_css_set [layout]:
  "sizeof struct_css_set = 592" "alignof struct_css_set = 8" "wf_cty struct_css_set" "is_struct struct_css_set"
  by (simp_all add: struct_css_set_def layout)

definition struct_percpu_ref :: cty where
  "struct_percpu_ref = Struct [Fld ''percpu_count_ptr'' C_ulong, Fld ''data'' CPtr]"

lemma layout_struct_percpu_ref [layout]:
  "sizeof struct_percpu_ref = 16" "alignof struct_percpu_ref = 8" "wf_cty struct_percpu_ref" "is_struct struct_percpu_ref"
  by (simp_all add: struct_percpu_ref_def layout)

definition struct_rcu_work :: cty where
  "struct_rcu_work = Struct [Fld ''work'' struct_work_struct, Fld ''rcu'' struct_callback_head,
     Fld ''wq'' CPtr]"

lemma layout_struct_rcu_work [layout]:
  "sizeof struct_rcu_work = 56" "alignof struct_rcu_work = 8" "wf_cty struct_rcu_work" "is_struct struct_rcu_work"
  by (simp_all add: struct_rcu_work_def layout)

definition struct_cgroup_subsys_state :: cty where
  "struct_cgroup_subsys_state = Struct [Fld ''cgroup'' CPtr, Fld ''ss'' CPtr,
     Fld ''refcnt'' struct_percpu_ref, Fld ''sibling'' struct_list_head,
     Fld ''children'' struct_list_head, Fld ''rstat_css_node'' struct_list_head, Fld ''id'' C_int,
     Fld ''flags'' C_uint, Fld ''serial_nr'' td_u64, Fld ''online_cnt'' td_atomic_t,
     Fld ''destroy_work'' struct_work_struct, Fld ''destroy_rwork'' struct_rcu_work,
     Fld ''parent'' CPtr]"

lemma layout_struct_cgroup_subsys_state [layout]:
  "sizeof struct_cgroup_subsys_state = 200" "alignof struct_cgroup_subsys_state = 8" "wf_cty struct_cgroup_subsys_state" "is_struct struct_cgroup_subsys_state"
  by (simp_all add: struct_cgroup_subsys_state_def layout)

definition struct_cgroup_file :: cty where
  "struct_cgroup_file = Struct [Fld ''kn'' CPtr, Fld ''notified_at'' C_ulong,
     Fld ''notify_timer'' struct_timer_list]"

lemma layout_struct_cgroup_file [layout]:
  "sizeof struct_cgroup_file = 56" "alignof struct_cgroup_file = 8" "wf_cty struct_cgroup_file" "is_struct struct_cgroup_file"
  by (simp_all add: struct_cgroup_file_def layout)

definition struct_task_cputime :: cty where
  "struct_task_cputime = Struct [Fld ''stime'' td_u64, Fld ''utime'' td_u64,
     Fld ''sum_exec_runtime'' C_ulonglong]"

lemma layout_struct_task_cputime [layout]:
  "sizeof struct_task_cputime = 24" "alignof struct_task_cputime = 8" "wf_cty struct_task_cputime" "is_struct struct_task_cputime"
  by (simp_all add: struct_task_cputime_def layout)

definition struct_cgroup_base_stat :: cty where
  "struct_cgroup_base_stat = Struct [Fld ''cputime'' struct_task_cputime,
     Fld ''forceidle_sum'' td_u64]"

lemma layout_struct_cgroup_base_stat [layout]:
  "sizeof struct_cgroup_base_stat = 32" "alignof struct_cgroup_base_stat = 8" "wf_cty struct_cgroup_base_stat" "is_struct struct_cgroup_base_stat"
  by (simp_all add: struct_cgroup_base_stat_def layout)

definition struct_cgroup_bpf :: cty where
  "struct_cgroup_bpf = Struct [Fld ''effective'' (CArr CPtr 33),
     Fld ''progs'' (CArr struct_hlist_head 33), Fld ''flags'' (CArr td_u8 33),
     Fld ''storages'' struct_list_head, Fld ''inactive'' CPtr, Fld ''refcnt'' struct_percpu_ref,
     Fld ''release_work'' struct_work_struct]"

lemma layout_struct_cgroup_bpf [layout]:
  "sizeof struct_cgroup_bpf = 640" "alignof struct_cgroup_bpf = 8" "wf_cty struct_cgroup_bpf" "is_struct struct_cgroup_bpf"
  by (simp_all add: struct_cgroup_bpf_def layout)

definition struct_cgroup_freezer_state :: cty where
  "struct_cgroup_freezer_state = Struct [Fld ''freeze'' td_bool, Fld ''e_freeze'' C_int,
     Fld ''nr_frozen_descendants'' C_int, Fld ''nr_frozen_tasks'' C_int]"

lemma layout_struct_cgroup_freezer_state [layout]:
  "sizeof struct_cgroup_freezer_state = 16" "alignof struct_cgroup_freezer_state = 4" "wf_cty struct_cgroup_freezer_state" "is_struct struct_cgroup_freezer_state"
  by (simp_all add: struct_cgroup_freezer_state_def layout)

definition struct_cgroup :: cty where
  "struct_cgroup = Struct [Fld ''self'' struct_cgroup_subsys_state, Fld ''flags'' C_ulong,
     Fld ''level'' C_int, Fld ''max_depth'' C_int, Fld ''nr_descendants'' C_int,
     Fld ''nr_dying_descendants'' C_int, Fld ''max_descendants'' C_int,
     Fld ''nr_populated_csets'' C_int, Fld ''nr_populated_domain_children'' C_int,
     Fld ''nr_populated_threaded_children'' C_int, Fld ''nr_threaded_children'' C_int,
     Fld ''kn'' CPtr, Fld ''procs_file'' struct_cgroup_file,
     Fld ''events_file'' struct_cgroup_file, Fld ''psi_files'' (CArr struct_cgroup_file 3),
     Fld ''subtree_control'' td_u16, Fld ''subtree_ss_mask'' td_u16,
     Fld ''old_subtree_control'' td_u16, Fld ''old_subtree_ss_mask'' td_u16,
     Fld ''subsys'' (CArr CPtr 14), Fld ''root'' CPtr, Fld ''cset_links'' struct_list_head,
     Fld ''e_csets'' (CArr struct_list_head 14), Fld ''dom_cgrp'' CPtr, Fld ''old_dom_cgrp'' CPtr,
     Fld ''rstat_cpu'' CPtr, Fld ''rstat_css_list'' struct_list_head,
     Fld ''last_bstat'' struct_cgroup_base_stat, Fld ''bstat'' struct_cgroup_base_stat,
     Fld ''prev_cputime'' struct_prev_cputime, Fld ''pidlists'' struct_list_head,
     Fld ''pidlist_mutex'' struct_mutex, Fld ''offline_waitq'' td_wait_queue_head_t,
     Fld ''release_agent_work'' struct_work_struct, Fld ''psi'' CPtr,
     Fld ''bpf'' struct_cgroup_bpf, Fld ''congestion_count'' td_atomic_t,
     Fld ''freezer'' struct_cgroup_freezer_state, Fld ''bpf_cgrp_storage'' CPtr,
     Fld ''ancestors'' (CArr CPtr 0)]"

lemma layout_struct_cgroup [layout]:
  "sizeof struct_cgroup = 1816" "alignof struct_cgroup = 8" "wf_cty struct_cgroup" "is_struct struct_cgroup"
  by (simp_all add: struct_cgroup_def layout)

definition enum_iter_type :: "(string \<times> int) list" where
  "enum_iter_type = [(''ITER_IOVEC'', 0), (''ITER_KVEC'', 1), (''ITER_BVEC'', 2),
     (''ITER_XARRAY'', 3), (''ITER_DISCARD'', 4), (''ITER_UBUF'', 5)]"

definition enum_timespec_type :: "(string \<times> int) list" where
  "enum_timespec_type = [(''TT_NONE'', 0), (''TT_NATIVE'', 1), (''TT_COMPAT'', 2)]"

definition enum_fp_type :: "(string \<times> int) list" where
  "enum_fp_type = [(''FP_STATE_CURRENT'', 0), (''FP_STATE_FPSIMD'', 1), (''FP_STATE_SVE'', 2)]"

end
