(* ===== verification/Vm_Inet.thy ===== *)
theory Vm_Inet
  imports Vm_Task
begin

text \<open>
  The network namespace and the objects of the IPv4 and IPv6 stacks on the path of a packet:
  neighbours, routes, connection and UDP sockets, tracked connections, receive rings and XDP
  frames. Translated declaration by declaration from \<open>ebpf/vmlinux.h\<close>, in the order
  the types depend on each other; each type is followed by its size and alignment, computed by
  the layout.
\<close>

definition struct_raw_notifier_head :: cty where
  "struct_raw_notifier_head = Struct [Fld ''head'' CPtr]"

lemma layout_struct_raw_notifier_head [layout]:
  "sizeof struct_raw_notifier_head = 8" "alignof struct_raw_notifier_head = 8" "wf_cty struct_raw_notifier_head" "is_struct struct_raw_notifier_head"
  by (simp_all add: struct_raw_notifier_head_def layout)

definition struct_netns_core :: cty where
  "struct_netns_core = Struct [Fld ''sysctl_hdr'' CPtr, Fld ''sysctl_somaxconn'' C_int,
     Fld ''sysctl_txrehash'' td_u8, Fld ''prot_inuse'' CPtr, Fld ''rps_default_mask'' CPtr]"

lemma layout_struct_netns_core [layout]:
  "sizeof struct_netns_core = 32" "alignof struct_netns_core = 8" "wf_cty struct_netns_core" "is_struct struct_netns_core"
  by (simp_all add: struct_netns_core_def layout)

definition struct_netns_mib :: cty where
  "struct_netns_mib = Struct [Fld ''ip_statistics'' CPtr, Fld ''ipv6_statistics'' CPtr,
     Fld ''tcp_statistics'' CPtr, Fld ''net_statistics'' CPtr, Fld ''udp_statistics'' CPtr,
     Fld ''udp_stats_in6'' CPtr, Fld ''xfrm_statistics'' CPtr, Fld ''tls_statistics'' CPtr,
     Fld ''mptcp_statistics'' CPtr, Fld ''udplite_statistics'' CPtr,
     Fld ''udplite_stats_in6'' CPtr, Fld ''icmp_statistics'' CPtr,
     Fld ''icmpmsg_statistics'' CPtr, Fld ''icmpv6_statistics'' CPtr,
     Fld ''icmpv6msg_statistics'' CPtr, Fld ''proc_net_devsnmp6'' CPtr]"

lemma layout_struct_netns_mib [layout]:
  "sizeof struct_netns_mib = 128" "alignof struct_netns_mib = 8" "wf_cty struct_netns_mib" "is_struct struct_netns_mib"
  by (simp_all add: struct_netns_mib_def layout)

definition struct_netns_packet :: cty where
  "struct_netns_packet = Struct [Fld ''sklist_lock'' struct_mutex,
     Fld ''sklist'' struct_hlist_head]"

lemma layout_struct_netns_packet [layout]:
  "sizeof struct_netns_packet = 40" "alignof struct_netns_packet = 8" "wf_cty struct_netns_packet" "is_struct struct_netns_packet"
  by (simp_all add: struct_netns_packet_def layout)

definition struct_unix_table :: cty where
  "struct_unix_table = Struct [Fld ''locks'' CPtr, Fld ''buckets'' CPtr]"

lemma layout_struct_unix_table [layout]:
  "sizeof struct_unix_table = 16" "alignof struct_unix_table = 8" "wf_cty struct_unix_table" "is_struct struct_unix_table"
  by (simp_all add: struct_unix_table_def layout)

definition struct_netns_unix :: cty where
  "struct_netns_unix = Struct [Fld ''table'' struct_unix_table,
     Fld ''sysctl_max_dgram_qlen'' C_int, Fld ''ctl'' CPtr]"

lemma layout_struct_netns_unix [layout]:
  "sizeof struct_netns_unix = 32" "alignof struct_netns_unix = 8" "wf_cty struct_netns_unix" "is_struct struct_netns_unix"
  by (simp_all add: struct_netns_unix_def layout)

definition struct_blocking_notifier_head :: cty where
  "struct_blocking_notifier_head = Struct [Fld ''rwsem'' struct_rw_semaphore, Fld ''head'' CPtr]"

lemma layout_struct_blocking_notifier_head [layout]:
  "sizeof struct_blocking_notifier_head = 48" "alignof struct_blocking_notifier_head = 8" "wf_cty struct_blocking_notifier_head" "is_struct struct_blocking_notifier_head"
  by (simp_all add: struct_blocking_notifier_head_def layout)

definition struct_netns_nexthop :: cty where
  "struct_netns_nexthop = Struct [Fld ''rb_root'' struct_rb_root, Fld ''devhash'' CPtr,
     Fld ''seq'' C_uint, Fld ''last_id_allocated'' td_u32,
     Fld ''notifier_chain'' struct_blocking_notifier_head]"

lemma layout_struct_netns_nexthop [layout]:
  "sizeof struct_netns_nexthop = 72" "alignof struct_netns_nexthop = 8" "wf_cty struct_netns_nexthop" "is_struct struct_netns_nexthop"
  by (simp_all add: struct_netns_nexthop_def layout)

definition struct_inet_timewait_death_row :: cty where
  "struct_inet_timewait_death_row = Struct [Fld ''tw_refcount'' td_refcount_t,
     Bits '''' C_long 64, Bits '''' C_long 64, Bits '''' C_long 64, Bits '''' C_long 64,
     Bits '''' C_long 64, Bits '''' C_long 64, Bits '''' C_long 64, Fld ''hashinfo'' CPtr,
     Fld ''sysctl_max_tw_buckets'' C_int, Bits '''' C_long 64, Bits '''' C_long 64,
     Bits '''' C_long 64, Bits '''' C_long 64, Bits '''' C_long 64, Bits '''' C_long 64]"

lemma layout_struct_inet_timewait_death_row [layout]:
  "sizeof struct_inet_timewait_death_row = 128" "alignof struct_inet_timewait_death_row = 8" "wf_cty struct_inet_timewait_death_row" "is_struct struct_inet_timewait_death_row"
  by (simp_all add: struct_inet_timewait_death_row_def layout)

definition struct_local_ports :: cty where
  "struct_local_ports = Struct [Fld ''lock'' td_seqlock_t, Fld ''range'' (CArr C_int 2),
     Fld ''warned'' td_bool]"

lemma layout_struct_local_ports [layout]:
  "sizeof struct_local_ports = 20" "alignof struct_local_ports = 4" "wf_cty struct_local_ports" "is_struct struct_local_ports"
  by (simp_all add: struct_local_ports_def layout)

definition struct_ping_group_range :: cty where
  "struct_ping_group_range = Struct [Fld ''lock'' td_seqlock_t, Fld ''range'' (CArr td_kgid_t 2)]"

lemma layout_struct_ping_group_range [layout]:
  "sizeof struct_ping_group_range = 16" "alignof struct_ping_group_range = 4" "wf_cty struct_ping_group_range" "is_struct struct_ping_group_range"
  by (simp_all add: struct_ping_group_range_def layout)

definition td_siphash_key_t :: cty where
  "td_siphash_key_t = Struct [Fld ''key'' (CArr td_u64 2)]"

lemma layout_td_siphash_key_t [layout]:
  "sizeof td_siphash_key_t = 16" "alignof td_siphash_key_t = 8" "wf_cty td_siphash_key_t"
  by (simp_all add: td_siphash_key_t_def layout)

definition struct_netns_ipv4 :: cty where
  "struct_netns_ipv4 = Struct [Fld ''tcp_death_row'' struct_inet_timewait_death_row,
     Fld ''udp_table'' CPtr, Fld ''forw_hdr'' CPtr, Fld ''frags_hdr'' CPtr, Fld ''ipv4_hdr'' CPtr,
     Fld ''route_hdr'' CPtr, Fld ''xfrm4_hdr'' CPtr, Fld ''devconf_all'' CPtr,
     Fld ''devconf_dflt'' CPtr, Fld ''ra_chain'' CPtr, Fld ''ra_mutex'' struct_mutex,
     Fld ''rules_ops'' CPtr, Fld ''fib_main'' CPtr, Fld ''fib_default'' CPtr,
     Fld ''fib_rules_require_fldissect'' C_uint, Fld ''fib_has_custom_rules'' td_bool,
     Fld ''fib_has_custom_local_routes'' td_bool, Fld ''fib_offload_disabled'' td_bool,
     Fld ''sysctl_tcp_shrink_window'' td_u8, Fld ''fib_num_tclassid_users'' td_atomic_t,
     Fld ''fib_table_hash'' CPtr, Fld ''fibnl'' CPtr, Fld ''mc_autojoin_sk'' CPtr,
     Fld ''peers'' CPtr, Fld ''fqdir'' CPtr, Fld ''sysctl_icmp_echo_ignore_all'' td_u8,
     Fld ''sysctl_icmp_echo_enable_probe'' td_u8,
     Fld ''sysctl_icmp_echo_ignore_broadcasts'' td_u8,
     Fld ''sysctl_icmp_ignore_bogus_error_responses'' td_u8,
     Fld ''sysctl_icmp_errors_use_inbound_ifaddr'' td_u8, Fld ''sysctl_icmp_ratelimit'' C_int,
     Fld ''sysctl_icmp_ratemask'' C_int, Fld ''ip_rt_min_pmtu'' td_u32,
     Fld ''ip_rt_mtu_expires'' C_int, Fld ''ip_rt_min_advmss'' C_int,
     Fld ''ip_local_ports'' struct_local_ports, Fld ''sysctl_tcp_ecn'' td_u8,
     Fld ''sysctl_tcp_ecn_fallback'' td_u8, Fld ''sysctl_ip_default_ttl'' td_u8,
     Fld ''sysctl_ip_no_pmtu_disc'' td_u8, Fld ''sysctl_ip_fwd_use_pmtu'' td_u8,
     Fld ''sysctl_ip_fwd_update_priority'' td_u8, Fld ''sysctl_ip_nonlocal_bind'' td_u8,
     Fld ''sysctl_ip_autobind_reuse'' td_u8, Fld ''sysctl_ip_dynaddr'' td_u8,
     Fld ''sysctl_ip_early_demux'' td_u8, Fld ''sysctl_raw_l3mdev_accept'' td_u8,
     Fld ''sysctl_tcp_early_demux'' td_u8, Fld ''sysctl_udp_early_demux'' td_u8,
     Fld ''sysctl_nexthop_compat_mode'' td_u8, Fld ''sysctl_fwmark_reflect'' td_u8,
     Fld ''sysctl_tcp_fwmark_accept'' td_u8, Fld ''sysctl_tcp_l3mdev_accept'' td_u8,
     Fld ''sysctl_tcp_mtu_probing'' td_u8, Fld ''sysctl_tcp_mtu_probe_floor'' C_int,
     Fld ''sysctl_tcp_base_mss'' C_int, Fld ''sysctl_tcp_min_snd_mss'' C_int,
     Fld ''sysctl_tcp_probe_threshold'' C_int, Fld ''sysctl_tcp_probe_interval'' td_u32,
     Fld ''sysctl_tcp_keepalive_time'' C_int, Fld ''sysctl_tcp_keepalive_intvl'' C_int,
     Fld ''sysctl_tcp_keepalive_probes'' td_u8, Fld ''sysctl_tcp_syn_retries'' td_u8,
     Fld ''sysctl_tcp_synack_retries'' td_u8, Fld ''sysctl_tcp_syncookies'' td_u8,
     Fld ''sysctl_tcp_migrate_req'' td_u8, Fld ''sysctl_tcp_comp_sack_nr'' td_u8,
     Fld ''sysctl_tcp_reordering'' C_int, Fld ''sysctl_tcp_retries1'' td_u8,
     Fld ''sysctl_tcp_retries2'' td_u8, Fld ''sysctl_tcp_orphan_retries'' td_u8,
     Fld ''sysctl_tcp_tw_reuse'' td_u8, Fld ''sysctl_tcp_fin_timeout'' C_int,
     Fld ''sysctl_tcp_notsent_lowat'' C_uint, Fld ''sysctl_tcp_sack'' td_u8,
     Fld ''sysctl_tcp_window_scaling'' td_u8, Fld ''sysctl_tcp_timestamps'' td_u8,
     Fld ''sysctl_tcp_early_retrans'' td_u8, Fld ''sysctl_tcp_recovery'' td_u8,
     Fld ''sysctl_tcp_thin_linear_timeouts'' td_u8,
     Fld ''sysctl_tcp_slow_start_after_idle'' td_u8, Fld ''sysctl_tcp_retrans_collapse'' td_u8,
     Fld ''sysctl_tcp_stdurg'' td_u8, Fld ''sysctl_tcp_rfc1337'' td_u8,
     Fld ''sysctl_tcp_abort_on_overflow'' td_u8, Fld ''sysctl_tcp_fack'' td_u8,
     Fld ''sysctl_tcp_max_reordering'' C_int, Fld ''sysctl_tcp_adv_win_scale'' C_int,
     Fld ''sysctl_tcp_dsack'' td_u8, Fld ''sysctl_tcp_app_win'' td_u8,
     Fld ''sysctl_tcp_frto'' td_u8, Fld ''sysctl_tcp_nometrics_save'' td_u8,
     Fld ''sysctl_tcp_no_ssthresh_metrics_save'' td_u8, Fld ''sysctl_tcp_moderate_rcvbuf'' td_u8,
     Fld ''sysctl_tcp_tso_win_divisor'' td_u8, Fld ''sysctl_tcp_workaround_signed_windows'' td_u8,
     Fld ''sysctl_tcp_limit_output_bytes'' C_int, Fld ''sysctl_tcp_challenge_ack_limit'' C_int,
     Fld ''sysctl_tcp_min_rtt_wlen'' C_int, Fld ''sysctl_tcp_min_tso_segs'' td_u8,
     Fld ''sysctl_tcp_tso_rtt_log'' td_u8, Fld ''sysctl_tcp_autocorking'' td_u8,
     Fld ''sysctl_tcp_reflect_tos'' td_u8, Fld ''sysctl_tcp_invalid_ratelimit'' C_int,
     Fld ''sysctl_tcp_pacing_ss_ratio'' C_int, Fld ''sysctl_tcp_pacing_ca_ratio'' C_int,
     Fld ''sysctl_tcp_wmem'' (CArr C_int 3), Fld ''sysctl_tcp_rmem'' (CArr C_int 3),
     Fld ''sysctl_tcp_child_ehash_entries'' C_uint, Fld ''sysctl_tcp_comp_sack_delay_ns'' C_ulong,
     Fld ''sysctl_tcp_comp_sack_slack_ns'' C_ulong, Fld ''sysctl_max_syn_backlog'' C_int,
     Fld ''sysctl_tcp_fastopen'' C_int, Fld ''tcp_congestion_control'' CPtr,
     Fld ''tcp_fastopen_ctx'' CPtr, Fld ''sysctl_tcp_fastopen_blackhole_timeout'' C_uint,
     Fld ''tfo_active_disable_times'' td_atomic_t, Fld ''tfo_active_disable_stamp'' C_ulong,
     Fld ''tcp_challenge_timestamp'' td_u32, Fld ''tcp_challenge_count'' td_u32,
     Fld ''sysctl_tcp_plb_enabled'' td_u8, Fld ''sysctl_tcp_plb_idle_rehash_rounds'' td_u8,
     Fld ''sysctl_tcp_plb_rehash_rounds'' td_u8, Fld ''sysctl_tcp_plb_suspend_rto_sec'' td_u8,
     Fld ''sysctl_tcp_plb_cong_thresh'' C_int, Fld ''sysctl_udp_wmem_min'' C_int,
     Fld ''sysctl_udp_rmem_min'' C_int, Fld ''sysctl_fib_notify_on_flag_change'' td_u8,
     Fld ''sysctl_tcp_syn_linear_timeouts'' td_u8, Fld ''sysctl_udp_l3mdev_accept'' td_u8,
     Fld ''sysctl_igmp_llm_reports'' td_u8, Fld ''sysctl_igmp_max_memberships'' C_int,
     Fld ''sysctl_igmp_max_msf'' C_int, Fld ''sysctl_igmp_qrv'' C_int,
     Fld ''ping_group_range'' struct_ping_group_range, Fld ''dev_addr_genid'' td_atomic_t,
     Fld ''sysctl_udp_child_hash_entries'' C_uint, Fld ''sysctl_local_reserved_ports'' CPtr,
     Fld ''sysctl_ip_prot_sock'' C_int, Fld ''mr_tables'' struct_list_head,
     Fld ''mr_rules_ops'' CPtr, Fld ''sysctl_fib_multipath_hash_fields'' td_u32,
     Fld ''sysctl_fib_multipath_use_neigh'' td_u8, Fld ''sysctl_fib_multipath_hash_policy'' td_u8,
     Fld ''notifier_ops'' CPtr, Fld ''fib_seq'' C_uint, Fld ''ipmr_notifier_ops'' CPtr,
     Fld ''ipmr_seq'' C_uint, Fld ''rt_genid'' td_atomic_t, Fld ''ip_id_key'' td_siphash_key_t,
     Bits '''' C_long 64, Bits '''' C_long 64, Bits '''' C_long 64, Bits '''' C_long 64]"

lemma layout_struct_netns_ipv4 [layout]:
  "sizeof struct_netns_ipv4 = 768" "alignof struct_netns_ipv4 = 8" "wf_cty struct_netns_ipv4" "is_struct struct_netns_ipv4"
  by (simp_all add: struct_netns_ipv4_def layout)

definition struct_dst_ops :: cty where
  "struct_dst_ops = Struct [Fld ''family'' C_ushort, Fld ''gc_thresh'' C_uint, Fld ''gc'' CPtr,
     Fld ''check'' CPtr, Fld ''default_advmss'' CPtr, Fld ''mtu'' CPtr, Fld ''cow_metrics'' CPtr,
     Fld ''destroy'' CPtr, Fld ''ifdown'' CPtr, Fld ''negative_advice'' CPtr,
     Fld ''link_failure'' CPtr, Fld ''update_pmtu'' CPtr, Fld ''redirect'' CPtr,
     Fld ''local_out'' CPtr, Fld ''neigh_lookup'' CPtr, Fld ''confirm_neigh'' CPtr,
     Fld ''kmem_cachep'' CPtr, Fld ''pcpuc_entries'' struct_percpu_counter, Bits '''' C_long 64,
     Bits '''' C_long 64, Bits '''' C_long 64]"

lemma layout_struct_dst_ops [layout]:
  "sizeof struct_dst_ops = 192" "alignof struct_dst_ops = 8" "wf_cty struct_dst_ops" "is_struct struct_dst_ops"
  by (simp_all add: struct_dst_ops_def layout)

definition struct_netns_sysctl_ipv6 :: cty where
  "struct_netns_sysctl_ipv6 = Struct [Fld ''hdr'' CPtr, Fld ''route_hdr'' CPtr,
     Fld ''icmp_hdr'' CPtr, Fld ''frags_hdr'' CPtr, Fld ''xfrm6_hdr'' CPtr,
     Fld ''flush_delay'' C_int, Fld ''ip6_rt_max_size'' C_int,
     Fld ''ip6_rt_gc_min_interval'' C_int, Fld ''ip6_rt_gc_timeout'' C_int,
     Fld ''ip6_rt_gc_interval'' C_int, Fld ''ip6_rt_gc_elasticity'' C_int,
     Fld ''ip6_rt_mtu_expires'' C_int, Fld ''ip6_rt_min_advmss'' C_int,
     Fld ''multipath_hash_fields'' td_u32, Fld ''multipath_hash_policy'' td_u8,
     Fld ''bindv6only'' td_u8, Fld ''flowlabel_consistency'' td_u8, Fld ''auto_flowlabels'' td_u8,
     Fld ''icmpv6_time'' C_int, Fld ''icmpv6_echo_ignore_all'' td_u8,
     Fld ''icmpv6_echo_ignore_multicast'' td_u8, Fld ''icmpv6_echo_ignore_anycast'' td_u8,
     Fld ''icmpv6_ratemask'' (CArr C_ulong 4), Fld ''icmpv6_ratemask_ptr'' CPtr,
     Fld ''anycast_src_echo_reply'' td_u8, Fld ''ip_nonlocal_bind'' td_u8,
     Fld ''fwmark_reflect'' td_u8, Fld ''flowlabel_state_ranges'' td_u8,
     Fld ''idgen_retries'' C_int, Fld ''idgen_delay'' C_int, Fld ''flowlabel_reflect'' C_int,
     Fld ''max_dst_opts_cnt'' C_int, Fld ''max_hbh_opts_cnt'' C_int,
     Fld ''max_dst_opts_len'' C_int, Fld ''max_hbh_opts_len'' C_int, Fld ''seg6_flowlabel'' C_int,
     Fld ''ioam6_id'' td_u32, Fld ''ioam6_id_wide'' td_u64, Fld ''skip_notify_on_dev_down'' td_u8,
     Fld ''fib_notify_on_flag_change'' td_u8, Fld ''icmpv6_error_anycast_as_unicast'' td_u8]"

lemma layout_struct_netns_sysctl_ipv6 [layout]:
  "sizeof struct_netns_sysctl_ipv6 = 184" "alignof struct_netns_sysctl_ipv6 = 8" "wf_cty struct_netns_sysctl_ipv6" "is_struct struct_netns_sysctl_ipv6"
  by (simp_all add: struct_netns_sysctl_ipv6_def layout)

definition struct_delayed_work :: cty where
  "struct_delayed_work = Struct [Fld ''work'' struct_work_struct, Fld ''timer'' struct_timer_list,
     Fld ''wq'' CPtr, Fld ''cpu'' C_int]"

lemma layout_struct_delayed_work [layout]:
  "sizeof struct_delayed_work = 88" "alignof struct_delayed_work = 8" "wf_cty struct_delayed_work" "is_struct struct_delayed_work"
  by (simp_all add: struct_delayed_work_def layout)

definition struct_netns_ipv6 :: cty where
  "struct_netns_ipv6 = Struct [Fld ''ip6_dst_ops'' struct_dst_ops,
     Fld ''sysctl'' struct_netns_sysctl_ipv6, Fld ''devconf_all'' CPtr, Fld ''devconf_dflt'' CPtr,
     Fld ''peers'' CPtr, Fld ''fqdir'' CPtr, Fld ''fib6_null_entry'' CPtr,
     Fld ''ip6_null_entry'' CPtr, Fld ''rt6_stats'' CPtr, Fld ''ip6_fib_timer'' struct_timer_list,
     Fld ''fib_table_hash'' CPtr, Fld ''fib6_main_tbl'' CPtr,
     Fld ''fib6_walkers'' struct_list_head, Fld ''fib6_walker_lock'' td_rwlock_t,
     Fld ''fib6_gc_lock'' td_spinlock_t, Fld ''ip6_rt_gc_expire'' td_atomic_t,
     Fld ''ip6_rt_last_gc'' C_ulong, Fld ''flowlabel_has_excl'' C_uchar,
     Fld ''fib6_has_custom_rules'' td_bool, Fld ''fib6_rules_require_fldissect'' C_uint,
     Fld ''fib6_routes_require_src'' C_uint, Fld ''ip6_prohibit_entry'' CPtr,
     Fld ''ip6_blk_hole_entry'' CPtr, Fld ''fib6_local_tbl'' CPtr, Fld ''fib6_rules_ops'' CPtr,
     Fld ''ndisc_sk'' CPtr, Fld ''tcp_sk'' CPtr, Fld ''igmp_sk'' CPtr,
     Fld ''mc_autojoin_sk'' CPtr, Fld ''inet6_addr_lst'' CPtr,
     Fld ''addrconf_hash_lock'' td_spinlock_t, Fld ''addr_chk_work'' struct_delayed_work,
     Fld ''mr6_tables'' struct_list_head, Fld ''mr6_rules_ops'' CPtr,
     Fld ''dev_addr_genid'' td_atomic_t, Fld ''fib6_sernum'' td_atomic_t, Fld ''seg6_data'' CPtr,
     Fld ''notifier_ops'' CPtr, Fld ''ip6mr_notifier_ops'' CPtr, Fld ''ipmr_seq'' C_uint,
     Fld ''ip6addrlbl_table'' (Struct [Fld ''head'' struct_hlist_head, Fld ''lock'' td_spinlock_t,
     Fld ''seq'' td_u32]), Fld ''ioam6_data'' CPtr, Bits '''' C_long 64, Bits '''' C_long 64,
     Bits '''' C_long 64, Bits '''' C_long 64]"

lemma layout_struct_netns_ipv6 [layout]:
  "sizeof struct_netns_ipv6 = 832" "alignof struct_netns_ipv6 = 8" "wf_cty struct_netns_ipv6" "is_struct struct_netns_ipv6"
  by (simp_all add: struct_netns_ipv6_def layout)

definition struct_netns_sysctl_lowpan :: cty where
  "struct_netns_sysctl_lowpan = Struct [Fld ''frags_hdr'' CPtr]"

lemma layout_struct_netns_sysctl_lowpan [layout]:
  "sizeof struct_netns_sysctl_lowpan = 8" "alignof struct_netns_sysctl_lowpan = 8" "wf_cty struct_netns_sysctl_lowpan" "is_struct struct_netns_sysctl_lowpan"
  by (simp_all add: struct_netns_sysctl_lowpan_def layout)

definition struct_netns_ieee802154_lowpan :: cty where
  "struct_netns_ieee802154_lowpan = Struct [Fld ''sysctl'' struct_netns_sysctl_lowpan,
     Fld ''fqdir'' CPtr]"

lemma layout_struct_netns_ieee802154_lowpan [layout]:
  "sizeof struct_netns_ieee802154_lowpan = 16" "alignof struct_netns_ieee802154_lowpan = 8" "wf_cty struct_netns_ieee802154_lowpan" "is_struct struct_netns_ieee802154_lowpan"
  by (simp_all add: struct_netns_ieee802154_lowpan_def layout)

definition struct_netns_sctp :: cty where
  "struct_netns_sctp = Struct [Fld ''sctp_statistics'' CPtr, Fld ''proc_net_sctp'' CPtr,
     Fld ''sysctl_header'' CPtr, Fld ''ctl_sock'' CPtr, Fld ''udp4_sock'' CPtr,
     Fld ''udp6_sock'' CPtr, Fld ''udp_port'' C_int, Fld ''encap_port'' C_int,
     Fld ''local_addr_list'' struct_list_head, Fld ''addr_waitq'' struct_list_head,
     Fld ''addr_wq_timer'' struct_timer_list, Fld ''auto_asconf_splist'' struct_list_head,
     Fld ''addr_wq_lock'' td_spinlock_t, Fld ''local_addr_lock'' td_spinlock_t,
     Fld ''rto_initial'' C_uint, Fld ''rto_min'' C_uint, Fld ''rto_max'' C_uint,
     Fld ''rto_alpha'' C_int, Fld ''rto_beta'' C_int, Fld ''max_burst'' C_int,
     Fld ''cookie_preserve_enable'' C_int, Fld ''sctp_hmac_alg'' CPtr,
     Fld ''valid_cookie_life'' C_uint, Fld ''sack_timeout'' C_uint, Fld ''hb_interval'' C_uint,
     Fld ''probe_interval'' C_uint, Fld ''max_retrans_association'' C_int,
     Fld ''max_retrans_path'' C_int, Fld ''max_retrans_init'' C_int, Fld ''pf_retrans'' C_int,
     Fld ''ps_retrans'' C_int, Fld ''pf_enable'' C_int, Fld ''pf_expose'' C_int,
     Fld ''sndbuf_policy'' C_int, Fld ''rcvbuf_policy'' C_int, Fld ''default_auto_asconf'' C_int,
     Fld ''addip_enable'' C_int, Fld ''addip_noauth'' C_int, Fld ''prsctp_enable'' C_int,
     Fld ''reconf_enable'' C_int, Fld ''auth_enable'' C_int, Fld ''intl_enable'' C_int,
     Fld ''ecn_enable'' C_int, Fld ''scope_policy'' C_int, Fld ''rwnd_upd_shift'' C_int,
     Fld ''max_autoclose'' C_ulong, Fld ''l3mdev_accept'' C_int]"

lemma layout_struct_netns_sctp [layout]:
  "sizeof struct_netns_sctp = 304" "alignof struct_netns_sctp = 8" "wf_cty struct_netns_sctp" "is_struct struct_netns_sctp"
  by (simp_all add: struct_netns_sctp_def layout)

definition struct_netns_nf :: cty where
  "struct_netns_nf = Struct [Fld ''proc_netfilter'' CPtr, Fld ''nf_loggers'' (CArr CPtr 11),
     Fld ''nf_log_dir_header'' CPtr, Fld ''hooks_ipv4'' (CArr CPtr 5),
     Fld ''hooks_ipv6'' (CArr CPtr 5), Fld ''hooks_arp'' (CArr CPtr 3),
     Fld ''hooks_bridge'' (CArr CPtr 5), Fld ''defrag_ipv4_users'' C_uint,
     Fld ''defrag_ipv6_users'' C_uint]"

lemma layout_struct_netns_nf [layout]:
  "sizeof struct_netns_nf = 256" "alignof struct_netns_nf = 8" "wf_cty struct_netns_nf" "is_struct struct_netns_nf"
  by (simp_all add: struct_netns_nf_def layout)

definition struct_nf_generic_net :: cty where
  "struct_nf_generic_net = Struct [Fld ''timeout'' C_uint]"

lemma layout_struct_nf_generic_net [layout]:
  "sizeof struct_nf_generic_net = 4" "alignof struct_nf_generic_net = 4" "wf_cty struct_nf_generic_net" "is_struct struct_nf_generic_net"
  by (simp_all add: struct_nf_generic_net_def layout)

definition struct_nf_tcp_net :: cty where
  "struct_nf_tcp_net = Struct [Fld ''timeouts'' (CArr C_uint 14), Fld ''tcp_loose'' td_u8,
     Fld ''tcp_be_liberal'' td_u8, Fld ''tcp_max_retrans'' td_u8,
     Fld ''tcp_ignore_invalid_rst'' td_u8, Fld ''offload_timeout'' C_uint]"

lemma layout_struct_nf_tcp_net [layout]:
  "sizeof struct_nf_tcp_net = 64" "alignof struct_nf_tcp_net = 4" "wf_cty struct_nf_tcp_net" "is_struct struct_nf_tcp_net"
  by (simp_all add: struct_nf_tcp_net_def layout)

definition struct_nf_udp_net :: cty where
  "struct_nf_udp_net = Struct [Fld ''timeouts'' (CArr C_uint 2), Fld ''offload_timeout'' C_uint]"

lemma layout_struct_nf_udp_net [layout]:
  "sizeof struct_nf_udp_net = 12" "alignof struct_nf_udp_net = 4" "wf_cty struct_nf_udp_net" "is_struct struct_nf_udp_net"
  by (simp_all add: struct_nf_udp_net_def layout)

definition struct_nf_icmp_net :: cty where
  "struct_nf_icmp_net = Struct [Fld ''timeout'' C_uint]"

lemma layout_struct_nf_icmp_net [layout]:
  "sizeof struct_nf_icmp_net = 4" "alignof struct_nf_icmp_net = 4" "wf_cty struct_nf_icmp_net" "is_struct struct_nf_icmp_net"
  by (simp_all add: struct_nf_icmp_net_def layout)

definition struct_nf_dccp_net :: cty where
  "struct_nf_dccp_net = Struct [Fld ''dccp_loose'' td_u8, Fld ''dccp_timeout'' (CArr C_uint 10)]"

lemma layout_struct_nf_dccp_net [layout]:
  "sizeof struct_nf_dccp_net = 44" "alignof struct_nf_dccp_net = 4" "wf_cty struct_nf_dccp_net" "is_struct struct_nf_dccp_net"
  by (simp_all add: struct_nf_dccp_net_def layout)

definition struct_nf_sctp_net :: cty where
  "struct_nf_sctp_net = Struct [Fld ''timeouts'' (CArr C_uint 10)]"

lemma layout_struct_nf_sctp_net [layout]:
  "sizeof struct_nf_sctp_net = 40" "alignof struct_nf_sctp_net = 4" "wf_cty struct_nf_sctp_net" "is_struct struct_nf_sctp_net"
  by (simp_all add: struct_nf_sctp_net_def layout)

definition struct_nf_gre_net :: cty where
  "struct_nf_gre_net = Struct [Fld ''keymap_list'' struct_list_head,
     Fld ''timeouts'' (CArr C_uint 2)]"

lemma layout_struct_nf_gre_net [layout]:
  "sizeof struct_nf_gre_net = 24" "alignof struct_nf_gre_net = 8" "wf_cty struct_nf_gre_net" "is_struct struct_nf_gre_net"
  by (simp_all add: struct_nf_gre_net_def layout)

definition struct_nf_ip_net :: cty where
  "struct_nf_ip_net = Struct [Fld ''generic'' struct_nf_generic_net,
     Fld ''tcp'' struct_nf_tcp_net, Fld ''udp'' struct_nf_udp_net,
     Fld ''icmp'' struct_nf_icmp_net, Fld ''icmpv6'' struct_nf_icmp_net,
     Fld ''dccp'' struct_nf_dccp_net, Fld ''sctp'' struct_nf_sctp_net,
     Fld ''gre'' struct_nf_gre_net]"

lemma layout_struct_nf_ip_net [layout]:
  "sizeof struct_nf_ip_net = 200" "alignof struct_nf_ip_net = 8" "wf_cty struct_nf_ip_net" "is_struct struct_nf_ip_net"
  by (simp_all add: struct_nf_ip_net_def layout)

definition struct_netns_ct :: cty where
  "struct_netns_ct = Struct [Fld ''ecache_dwork_pending'' td_bool,
     Fld ''sysctl_log_invalid'' td_u8, Fld ''sysctl_events'' td_u8, Fld ''sysctl_acct'' td_u8,
     Fld ''sysctl_tstamp'' td_u8, Fld ''sysctl_checksum'' td_u8, Fld ''stat'' CPtr,
     Fld ''nf_conntrack_event_cb'' CPtr, Fld ''nf_ct_proto'' struct_nf_ip_net,
     Fld ''labels_used'' C_uint]"

lemma layout_struct_netns_ct [layout]:
  "sizeof struct_netns_ct = 232" "alignof struct_netns_ct = 8" "wf_cty struct_netns_ct" "is_struct struct_netns_ct"
  by (simp_all add: struct_netns_ct_def layout)

definition struct_netns_nftables :: cty where
  "struct_netns_nftables = Struct [Fld ''gencursor'' td_u8]"

lemma layout_struct_netns_nftables [layout]:
  "sizeof struct_netns_nftables = 1" "alignof struct_netns_nftables = 1" "wf_cty struct_netns_nftables" "is_struct struct_netns_nftables"
  by (simp_all add: struct_netns_nftables_def layout)

definition struct_netns_ft :: cty where
  "struct_netns_ft = Struct [Fld ''stat'' CPtr]"

lemma layout_struct_netns_ft [layout]:
  "sizeof struct_netns_ft = 8" "alignof struct_netns_ft = 8" "wf_cty struct_netns_ft" "is_struct struct_netns_ft"
  by (simp_all add: struct_netns_ft_def layout)

definition struct_netns_bpf :: cty where
  "struct_netns_bpf = Struct [Fld ''run_array'' (CArr CPtr 2), Fld ''progs'' (CArr CPtr 2),
     Fld ''links'' (CArr struct_list_head 2)]"

lemma layout_struct_netns_bpf [layout]:
  "sizeof struct_netns_bpf = 64" "alignof struct_netns_bpf = 8" "wf_cty struct_netns_bpf" "is_struct struct_netns_bpf"
  by (simp_all add: struct_netns_bpf_def layout)

definition struct_xfrm_policy_hash :: cty where
  "struct_xfrm_policy_hash = Struct [Fld ''table'' CPtr, Fld ''hmask'' C_uint,
     Fld ''dbits4'' td_u8, Fld ''sbits4'' td_u8, Fld ''dbits6'' td_u8, Fld ''sbits6'' td_u8]"

lemma layout_struct_xfrm_policy_hash [layout]:
  "sizeof struct_xfrm_policy_hash = 16" "alignof struct_xfrm_policy_hash = 8" "wf_cty struct_xfrm_policy_hash" "is_struct struct_xfrm_policy_hash"
  by (simp_all add: struct_xfrm_policy_hash_def layout)

definition struct_xfrm_policy_hthresh :: cty where
  "struct_xfrm_policy_hthresh = Struct [Fld ''work'' struct_work_struct,
     Fld ''lock'' td_seqlock_t, Fld ''lbits4'' td_u8, Fld ''rbits4'' td_u8, Fld ''lbits6'' td_u8,
     Fld ''rbits6'' td_u8]"

lemma layout_struct_xfrm_policy_hthresh [layout]:
  "sizeof struct_xfrm_policy_hthresh = 48" "alignof struct_xfrm_policy_hthresh = 8" "wf_cty struct_xfrm_policy_hthresh" "is_struct struct_xfrm_policy_hthresh"
  by (simp_all add: struct_xfrm_policy_hthresh_def layout)

definition struct_netns_xfrm :: cty where
  "struct_netns_xfrm = Struct [Fld ''state_all'' struct_list_head, Fld ''state_bydst'' CPtr,
     Fld ''state_bysrc'' CPtr, Fld ''state_byspi'' CPtr, Fld ''state_byseq'' CPtr,
     Fld ''state_hmask'' C_uint, Fld ''state_num'' C_uint,
     Fld ''state_hash_work'' struct_work_struct, Fld ''policy_all'' struct_list_head,
     Fld ''policy_byidx'' CPtr, Fld ''policy_idx_hmask'' C_uint, Fld ''idx_generator'' C_uint,
     Fld ''policy_inexact'' (CArr struct_hlist_head 3),
     Fld ''policy_bydst'' (CArr struct_xfrm_policy_hash 3), Fld ''policy_count'' (CArr C_uint 6),
     Fld ''policy_hash_work'' struct_work_struct,
     Fld ''policy_hthresh'' struct_xfrm_policy_hthresh, Fld ''inexact_bins'' struct_list_head,
     Fld ''nlsk'' CPtr, Fld ''nlsk_stash'' CPtr, Fld ''sysctl_aevent_etime'' td_u32,
     Fld ''sysctl_aevent_rseqth'' td_u32, Fld ''sysctl_larval_drop'' C_int,
     Fld ''sysctl_acq_expires'' td_u32, Fld ''policy_default'' (CArr td_u8 3),
     Fld ''sysctl_hdr'' CPtr, Bits '''' C_long 64, Bits '''' C_long 64, Bits '''' C_long 64,
     Fld ''xfrm4_dst_ops'' struct_dst_ops, Fld ''xfrm6_dst_ops'' struct_dst_ops,
     Fld ''xfrm_state_lock'' td_spinlock_t,
     Fld ''xfrm_state_hash_generation'' td_seqcount_spinlock_t,
     Fld ''xfrm_policy_hash_generation'' td_seqcount_spinlock_t,
     Fld ''xfrm_policy_lock'' td_spinlock_t, Fld ''xfrm_cfg_mutex'' struct_mutex,
     Bits '''' C_long 64, Bits '''' C_long 64]"

lemma layout_struct_netns_xfrm [layout]:
  "sizeof struct_netns_xfrm = 832" "alignof struct_netns_xfrm = 8" "wf_cty struct_netns_xfrm" "is_struct struct_netns_xfrm"
  by (simp_all add: struct_netns_xfrm_def layout)

definition struct_netns_mpls :: cty where
  "struct_netns_mpls = Struct [Fld ''ip_ttl_propagate'' C_int, Fld ''default_ttl'' C_int,
     Fld ''platform_labels'' td_size_t, Fld ''platform_label'' CPtr, Fld ''ctl'' CPtr]"

lemma layout_struct_netns_mpls [layout]:
  "sizeof struct_netns_mpls = 32" "alignof struct_netns_mpls = 8" "wf_cty struct_netns_mpls" "is_struct struct_netns_mpls"
  by (simp_all add: struct_netns_mpls_def layout)

definition struct_netns_can :: cty where
  "struct_netns_can = Struct [Fld ''proc_dir'' CPtr, Fld ''pde_stats'' CPtr,
     Fld ''pde_reset_stats'' CPtr, Fld ''pde_rcvlist_all'' CPtr, Fld ''pde_rcvlist_fil'' CPtr,
     Fld ''pde_rcvlist_inv'' CPtr, Fld ''pde_rcvlist_sff'' CPtr, Fld ''pde_rcvlist_eff'' CPtr,
     Fld ''pde_rcvlist_err'' CPtr, Fld ''bcmproc_dir'' CPtr, Fld ''rx_alldev_list'' CPtr,
     Fld ''rcvlists_lock'' td_spinlock_t, Fld ''stattimer'' struct_timer_list,
     Fld ''pkg_stats'' CPtr, Fld ''rcv_lists_stats'' CPtr, Fld ''cgw_list'' struct_hlist_head]"

lemma layout_struct_netns_can [layout]:
  "sizeof struct_netns_can = 160" "alignof struct_netns_can = 8" "wf_cty struct_netns_can" "is_struct struct_netns_can"
  by (simp_all add: struct_netns_can_def layout)

definition struct_netns_xdp :: cty where
  "struct_netns_xdp = Struct [Fld ''lock'' struct_mutex, Fld ''list'' struct_hlist_head]"

lemma layout_struct_netns_xdp [layout]:
  "sizeof struct_netns_xdp = 40" "alignof struct_netns_xdp = 8" "wf_cty struct_netns_xdp" "is_struct struct_netns_xdp"
  by (simp_all add: struct_netns_xdp_def layout)

definition struct_netns_mctp :: cty where
  "struct_netns_mctp = Struct [Fld ''routes'' struct_list_head, Fld ''bind_lock'' struct_mutex,
     Fld ''binds'' struct_hlist_head, Fld ''keys_lock'' td_spinlock_t,
     Fld ''keys'' struct_hlist_head, Fld ''default_net'' C_uint, Fld ''neigh_lock'' struct_mutex,
     Fld ''neighbours'' struct_list_head]"

lemma layout_struct_netns_mctp [layout]:
  "sizeof struct_netns_mctp = 128" "alignof struct_netns_mctp = 8" "wf_cty struct_netns_mctp" "is_struct struct_netns_mctp"
  by (simp_all add: struct_netns_mctp_def layout)

definition struct_netns_smc :: cty where
  "struct_netns_smc = Struct [Fld ''smc_stats'' CPtr, Fld ''mutex_fback_rsn'' struct_mutex,
     Fld ''fback_rsn'' CPtr, Fld ''limit_smc_hs'' td_bool, Fld ''smc_hdr'' CPtr,
     Fld ''sysctl_autocorking_size'' C_uint, Fld ''sysctl_smcr_buf_type'' C_uint,
     Fld ''sysctl_smcr_testlink_time'' C_int, Fld ''sysctl_wmem'' C_int,
     Fld ''sysctl_rmem'' C_int]"

lemma layout_struct_netns_smc [layout]:
  "sizeof struct_netns_smc = 88" "alignof struct_netns_smc = 8" "wf_cty struct_netns_smc" "is_struct struct_netns_smc"
  by (simp_all add: struct_netns_smc_def layout)

definition struct_net :: cty where
  "struct_net = Struct [Fld ''passive'' td_refcount_t, Fld ''rules_mod_lock'' td_spinlock_t,
     Fld ''dev_unreg_count'' td_atomic_t, Fld ''dev_base_seq'' C_uint, Fld ''ifindex'' C_int,
     Fld ''nsid_lock'' td_spinlock_t, Fld ''fnhe_genid'' td_atomic_t,
     Fld ''list'' struct_list_head, Fld ''exit_list'' struct_list_head,
     Fld ''cleanup_list'' struct_llist_node, Fld ''key_domain'' CPtr, Fld ''user_ns'' CPtr,
     Fld ''ucounts'' CPtr, Fld ''netns_ids'' struct_idr, Fld ''ns'' struct_ns_common,
     Fld ''refcnt_tracker'' struct_ref_tracker_dir,
     Fld ''notrefcnt_tracker'' struct_ref_tracker_dir, Fld ''dev_base_head'' struct_list_head,
     Fld ''proc_net'' CPtr, Fld ''proc_net_stat'' CPtr, Fld ''sysctls'' struct_ctl_table_set,
     Fld ''rtnl'' CPtr, Fld ''genl_sock'' CPtr, Fld ''uevent_sock'' CPtr,
     Fld ''dev_name_head'' CPtr, Fld ''dev_index_head'' CPtr,
     Fld ''netdev_chain'' struct_raw_notifier_head, Fld ''hash_mix'' td_u32,
     Fld ''loopback_dev'' CPtr, Fld ''rules_ops'' struct_list_head,
     Fld ''core'' struct_netns_core, Fld ''mib'' struct_netns_mib,
     Fld ''packet'' struct_netns_packet, Fld ''unx'' struct_netns_unix,
     Fld ''nexthop'' struct_netns_nexthop, Bits '''' C_long 64, Bits '''' C_long 64,
     Bits '''' C_long 64, Bits '''' C_long 64, Bits '''' C_long 64, Bits '''' C_long 64,
     Fld ''ipv4'' struct_netns_ipv4, Fld ''ipv6'' struct_netns_ipv6,
     Fld ''ieee802154_lowpan'' struct_netns_ieee802154_lowpan, Fld ''sctp'' struct_netns_sctp,
     Fld ''nf'' struct_netns_nf, Fld ''ct'' struct_netns_ct, Fld ''nft'' struct_netns_nftables,
     Fld ''ft'' struct_netns_ft, Fld ''wext_nlevents'' struct_sk_buff_head, Fld ''gen'' CPtr,
     Fld ''bpf'' struct_netns_bpf, Bits '''' C_long 64, Bits '''' C_long 64, Bits '''' C_long 64,
     Bits '''' C_long 64, Bits '''' C_long 64, Fld ''xfrm'' struct_netns_xfrm,
     Fld ''net_cookie'' td_u64, Fld ''ipvs'' CPtr, Fld ''mpls'' struct_netns_mpls,
     Fld ''can'' struct_netns_can, Fld ''xdp'' struct_netns_xdp, Fld ''mctp'' struct_netns_mctp,
     Fld ''crypto_nlsk'' CPtr, Fld ''diag_nlsk'' CPtr, Fld ''smc'' struct_netns_smc,
     Bits '''' C_long 64, Bits '''' C_long 64, Bits '''' C_long 64, Bits '''' C_long 64]"

lemma layout_struct_net [layout]:
  "sizeof struct_net = 4608" "alignof struct_net = 8" "wf_cty struct_net" "is_struct struct_net"
  by (simp_all add: struct_net_def layout)

definition struct_hh_cache :: cty where
  "struct_hh_cache = Struct [Fld ''hh_len'' C_uint, Fld ''hh_lock'' td_seqlock_t,
     Fld ''hh_data'' (CArr C_ulong 16)]"

lemma layout_struct_hh_cache [layout]:
  "sizeof struct_hh_cache = 144" "alignof struct_hh_cache = 8" "wf_cty struct_hh_cache" "is_struct struct_hh_cache"
  by (simp_all add: struct_hh_cache_def layout)

definition struct_neighbour :: cty where
  "struct_neighbour = Struct [Fld ''next'' CPtr, Fld ''tbl'' CPtr, Fld ''parms'' CPtr,
     Fld ''confirmed'' C_ulong, Fld ''updated'' C_ulong, Fld ''lock'' td_rwlock_t,
     Fld ''refcnt'' td_refcount_t, Fld ''arp_queue_len_bytes'' C_uint,
     Fld ''arp_queue'' struct_sk_buff_head, Fld ''timer'' struct_timer_list, Fld ''used'' C_ulong,
     Fld ''probes'' td_atomic_t, Fld ''nud_state'' td_u8, Fld ''type'' td_u8, Fld ''dead'' td_u8,
     Fld ''protocol'' td_u8, Fld ''flags'' td_u32, Fld ''ha_lock'' td_seqlock_t,
     Bits '''' C_long 0, Fld ''ha'' (CArr C_uchar 32), Fld ''hh'' struct_hh_cache,
     Fld ''output'' CPtr, Fld ''ops'' CPtr, Fld ''gc_list'' struct_list_head,
     Fld ''managed_list'' struct_list_head, Fld ''rcu'' struct_callback_head, Fld ''dev'' CPtr,
     Fld ''dev_tracker'' td_netdevice_tracker, Fld ''primary_key'' (CArr td_u8 0)]"

lemma layout_struct_neighbour [layout]:
  "sizeof struct_neighbour = 400" "alignof struct_neighbour = 8" "wf_cty struct_neighbour" "is_struct struct_neighbour"
  by (simp_all add: struct_neighbour_def layout)

definition struct_fib_nh_common :: cty where
  "struct_fib_nh_common = Struct [Fld ''nhc_dev'' CPtr,
     Fld ''nhc_dev_tracker'' td_netdevice_tracker, Fld ''nhc_oif'' C_int,
     Fld ''nhc_scope'' C_uchar, Fld ''nhc_family'' td_u8, Fld ''nhc_gw_family'' td_u8,
     Fld ''nhc_flags'' C_uchar, Fld ''nhc_lwtstate'' CPtr,
     Fld ''nhc_gw'' (Union [Fld ''ipv4'' td___be32, Fld ''ipv6'' struct_in6_addr]),
     Fld ''nhc_weight'' C_int, Fld ''nhc_upper_bound'' td_atomic_t,
     Fld ''nhc_pcpu_rth_output'' CPtr, Fld ''nhc_rth_input'' CPtr, Fld ''nhc_exceptions'' CPtr]"

lemma layout_struct_fib_nh_common [layout]:
  "sizeof struct_fib_nh_common = 72" "alignof struct_fib_nh_common = 8" "wf_cty struct_fib_nh_common" "is_struct struct_fib_nh_common"
  by (simp_all add: struct_fib_nh_common_def layout)

definition struct_fib_nh :: cty where
  "struct_fib_nh = Struct [Fld ''nh_common'' struct_fib_nh_common,
     Fld ''nh_hash'' struct_hlist_node, Fld ''nh_parent'' CPtr, Fld ''nh_tclassid'' td___u32,
     Fld ''nh_saddr'' td___be32, Fld ''nh_saddr_genid'' C_int]"

lemma layout_struct_fib_nh [layout]:
  "sizeof struct_fib_nh = 112" "alignof struct_fib_nh = 8" "wf_cty struct_fib_nh" "is_struct struct_fib_nh"
  by (simp_all add: struct_fib_nh_def layout)

definition struct_fib_info :: cty where
  "struct_fib_info = Struct [Fld ''fib_hash'' struct_hlist_node,
     Fld ''fib_lhash'' struct_hlist_node, Fld ''nh_list'' struct_list_head, Fld ''fib_net'' CPtr,
     Fld ''fib_treeref'' td_refcount_t, Fld ''fib_clntref'' td_refcount_t,
     Fld ''fib_flags'' C_uint, Fld ''fib_dead'' C_uchar, Fld ''fib_protocol'' C_uchar,
     Fld ''fib_scope'' C_uchar, Fld ''fib_type'' C_uchar, Fld ''fib_prefsrc'' td___be32,
     Fld ''fib_tb_id'' td_u32, Fld ''fib_priority'' td_u32, Fld ''fib_metrics'' CPtr,
     Fld ''fib_nhs'' C_int, Fld ''fib_nh_is_v6'' td_bool, Fld ''nh_updated'' td_bool,
     Fld ''pfsrc_removed'' td_bool, Fld ''nh'' CPtr, Fld ''rcu'' struct_callback_head,
     Fld ''fib_nh'' (CArr struct_fib_nh 0)]"

lemma layout_struct_fib_info [layout]:
  "sizeof struct_fib_info = 128" "alignof struct_fib_info = 8" "wf_cty struct_fib_info" "is_struct struct_fib_info"
  by (simp_all add: struct_fib_info_def layout)

definition struct_rtable :: cty where
  "struct_rtable = Struct [Fld ''dst'' struct_dst_entry, Fld ''rt_genid'' C_int,
     Fld ''rt_flags'' C_uint, Fld ''rt_type'' td___u16, Fld ''rt_is_input'' td___u8,
     Fld ''rt_uses_gateway'' td___u8, Fld ''rt_iif'' C_int, Fld ''rt_gw_family'' td_u8,
     Fld '''' (Union [Fld ''rt_gw4'' td___be32, Fld ''rt_gw6'' struct_in6_addr]),
     Bits ''rt_mtu_locked'' td_u32 1, Bits ''rt_pmtu'' td_u32 31]"

lemma layout_struct_rtable [layout]:
  "sizeof struct_rtable = 176" "alignof struct_rtable = 8" "wf_cty struct_rtable" "is_struct struct_rtable"
  by (simp_all add: struct_rtable_def layout)

definition struct_request_sock :: cty where
  "struct_request_sock = Struct [Fld ''__req_common'' struct_sock_common, Fld ''dl_next'' CPtr,
     Fld ''mss'' td_u16, Fld ''num_retrans'' td_u8, Bits ''syncookie'' td_u8 1,
     Bits ''num_timeout'' td_u8 7, Fld ''ts_recent'' td_u32, Fld ''rsk_timer'' struct_timer_list,
     Fld ''rsk_ops'' CPtr, Fld ''sk'' CPtr, Fld ''saved_syn'' CPtr, Fld ''secid'' td_u32,
     Fld ''peer_secid'' td_u32, Fld ''timeout'' td_u32]"

lemma layout_struct_request_sock [layout]:
  "sizeof struct_request_sock = 232" "alignof struct_request_sock = 8" "wf_cty struct_request_sock" "is_struct struct_request_sock"
  by (simp_all add: struct_request_sock_def layout)

definition struct_fastopen_queue :: cty where
  "struct_fastopen_queue = Struct [Fld ''rskq_rst_head'' CPtr, Fld ''rskq_rst_tail'' CPtr,
     Fld ''lock'' td_spinlock_t, Fld ''qlen'' C_int, Fld ''max_qlen'' C_int, Fld ''ctx'' CPtr]"

lemma layout_struct_fastopen_queue [layout]:
  "sizeof struct_fastopen_queue = 40" "alignof struct_fastopen_queue = 8" "wf_cty struct_fastopen_queue" "is_struct struct_fastopen_queue"
  by (simp_all add: struct_fastopen_queue_def layout)

definition struct_request_sock_queue :: cty where
  "struct_request_sock_queue = Struct [Fld ''rskq_lock'' td_spinlock_t,
     Fld ''rskq_defer_accept'' td_u8, Fld ''synflood_warned'' td_u32, Fld ''qlen'' td_atomic_t,
     Fld ''young'' td_atomic_t, Fld ''rskq_accept_head'' CPtr, Fld ''rskq_accept_tail'' CPtr,
     Fld ''fastopenq'' struct_fastopen_queue]"

lemma layout_struct_request_sock_queue [layout]:
  "sizeof struct_request_sock_queue = 80" "alignof struct_request_sock_queue = 8" "wf_cty struct_request_sock_queue" "is_struct struct_request_sock_queue"
  by (simp_all add: struct_request_sock_queue_def layout)

definition struct_inet_connection_sock :: cty where
  "struct_inet_connection_sock = Struct [Fld ''icsk_inet'' struct_inet_sock,
     Fld ''icsk_accept_queue'' struct_request_sock_queue, Fld ''icsk_bind_hash'' CPtr,
     Fld ''icsk_bind2_hash'' CPtr, Fld ''icsk_timeout'' C_ulong,
     Fld ''icsk_retransmit_timer'' struct_timer_list, Fld ''icsk_delack_timer'' struct_timer_list,
     Fld ''icsk_rto'' td___u32, Fld ''icsk_rto_min'' td___u32, Fld ''icsk_delack_max'' td___u32,
     Fld ''icsk_pmtu_cookie'' td___u32, Fld ''icsk_ca_ops'' CPtr, Fld ''icsk_af_ops'' CPtr,
     Fld ''icsk_ulp_ops'' CPtr, Fld ''icsk_ulp_data'' CPtr, Fld ''icsk_clean_acked'' CPtr,
     Fld ''icsk_sync_mss'' CPtr, Bits ''icsk_ca_state'' td___u8 5,
     Bits ''icsk_ca_initialized'' td___u8 1, Bits ''icsk_ca_setsockopt'' td___u8 1,
     Bits ''icsk_ca_dst_locked'' td___u8 1, Fld ''icsk_retransmits'' td___u8,
     Fld ''icsk_pending'' td___u8, Fld ''icsk_backoff'' td___u8, Fld ''icsk_syn_retries'' td___u8,
     Fld ''icsk_probes_out'' td___u8, Fld ''icsk_ext_hdr_len'' td___u16,
     Fld ''icsk_ack'' (Struct [Fld ''pending'' td___u8, Fld ''quick'' td___u8,
     Fld ''pingpong'' td___u8, Fld ''retry'' td___u8, Fld ''ato'' td___u32,
     Fld ''timeout'' C_ulong, Fld ''lrcvtime'' td___u32, Fld ''last_seg_size'' td___u16,
     Fld ''rcv_mss'' td___u16]), Fld ''icsk_mtup'' (Struct [Fld ''search_high'' C_int,
     Fld ''search_low'' C_int, Bits ''probe_size'' td_u32 31, Bits ''enabled'' td_u32 1,
     Fld ''probe_timestamp'' td_u32]), Fld ''icsk_probes_tstamp'' td_u32,
     Fld ''icsk_user_timeout'' td_u32, Fld ''icsk_ca_priv'' (CArr td_u64 13)]"

lemma layout_struct_inet_connection_sock [layout]:
  "sizeof struct_inet_connection_sock = 1400" "alignof struct_inet_connection_sock = 8" "wf_cty struct_inet_connection_sock" "is_struct struct_inet_connection_sock"
  by (simp_all add: struct_inet_connection_sock_def layout)

definition struct_inet_request_sock :: cty where
  "struct_inet_request_sock = Struct [Fld ''req'' struct_request_sock,
     Bits ''snd_wscale'' td_u16 4, Bits ''rcv_wscale'' td_u16 4, Bits ''tstamp_ok'' td_u16 1,
     Bits ''sack_ok'' td_u16 1, Bits ''wscale_ok'' td_u16 1, Bits ''ecn_ok'' td_u16 1,
     Bits ''acked'' td_u16 1, Bits ''no_srccheck'' td_u16 1, Bits ''smc_ok'' td_u16 1,
     Fld ''ir_mark'' td_u32, Fld '''' (Union [Fld ''ireq_opt'' CPtr,
     Fld '''' (Struct [Fld ''ipv6_opt'' CPtr, Fld ''pktopts'' CPtr])])]"

lemma layout_struct_inet_request_sock [layout]:
  "sizeof struct_inet_request_sock = 256" "alignof struct_inet_request_sock = 8" "wf_cty struct_inet_request_sock" "is_struct struct_inet_request_sock"
  by (simp_all add: struct_inet_request_sock_def layout)

definition struct_tcp_request_sock :: cty where
  "struct_tcp_request_sock = Struct [Fld ''req'' struct_inet_request_sock,
     Fld ''af_specific'' CPtr, Fld ''snt_synack'' td_u64, Fld ''tfo_listener'' td_bool,
     Fld ''is_mptcp'' td_bool, Fld ''drop_req'' td_bool, Fld ''txhash'' td_u32,
     Fld ''rcv_isn'' td_u32, Fld ''snt_isn'' td_u32, Fld ''ts_off'' td_u32,
     Fld ''last_oow_ack_time'' td_u32, Fld ''rcv_nxt'' td_u32, Fld ''syn_tos'' td_u8]"

lemma layout_struct_tcp_request_sock [layout]:
  "sizeof struct_tcp_request_sock = 304" "alignof struct_tcp_request_sock = 8" "wf_cty struct_tcp_request_sock" "is_struct struct_tcp_request_sock"
  by (simp_all add: struct_tcp_request_sock_def layout)

definition struct_tcp_rack :: cty where
  "struct_tcp_rack = Struct [Fld ''mstamp'' td_u64, Fld ''rtt_us'' td_u32, Fld ''end_seq'' td_u32,
     Fld ''last_delivered'' td_u32, Fld ''reo_wnd_steps'' td_u8, Bits ''reo_wnd_persist'' td_u8 5,
     Bits ''dsack_seen'' td_u8 1, Bits ''advanced'' td_u8 1]"

lemma layout_struct_tcp_rack [layout]:
  "sizeof struct_tcp_rack = 24" "alignof struct_tcp_rack = 8" "wf_cty struct_tcp_rack" "is_struct struct_tcp_rack"
  by (simp_all add: struct_tcp_rack_def layout)

definition struct_minmax_sample :: cty where
  "struct_minmax_sample = Struct [Fld ''t'' td_u32, Fld ''v'' td_u32]"

lemma layout_struct_minmax_sample [layout]:
  "sizeof struct_minmax_sample = 8" "alignof struct_minmax_sample = 4" "wf_cty struct_minmax_sample" "is_struct struct_minmax_sample"
  by (simp_all add: struct_minmax_sample_def layout)

definition struct_minmax :: cty where
  "struct_minmax = Struct [Fld ''s'' (CArr struct_minmax_sample 3)]"

lemma layout_struct_minmax [layout]:
  "sizeof struct_minmax = 24" "alignof struct_minmax = 4" "wf_cty struct_minmax" "is_struct struct_minmax"
  by (simp_all add: struct_minmax_def layout)

definition struct_tcp_options_received :: cty where
  "struct_tcp_options_received = Struct [Fld ''ts_recent_stamp'' C_int, Fld ''ts_recent'' td_u32,
     Fld ''rcv_tsval'' td_u32, Fld ''rcv_tsecr'' td_u32, Bits ''saw_tstamp'' td_u16 1,
     Bits ''tstamp_ok'' td_u16 1, Bits ''dsack'' td_u16 1, Bits ''wscale_ok'' td_u16 1,
     Bits ''sack_ok'' td_u16 3, Bits ''smc_ok'' td_u16 1, Bits ''snd_wscale'' td_u16 4,
     Bits ''rcv_wscale'' td_u16 4, Bits ''saw_unknown'' td_u8 1, Bits ''unused'' td_u8 7,
     Fld ''num_sacks'' td_u8, Fld ''user_mss'' td_u16, Fld ''mss_clamp'' td_u16]"

lemma layout_struct_tcp_options_received [layout]:
  "sizeof struct_tcp_options_received = 24" "alignof struct_tcp_options_received = 4" "wf_cty struct_tcp_options_received" "is_struct struct_tcp_options_received"
  by (simp_all add: struct_tcp_options_received_def layout)

definition struct_tcp_sack_block :: cty where
  "struct_tcp_sack_block = Struct [Fld ''start_seq'' td_u32, Fld ''end_seq'' td_u32]"

lemma layout_struct_tcp_sack_block [layout]:
  "sizeof struct_tcp_sack_block = 8" "alignof struct_tcp_sack_block = 4" "wf_cty struct_tcp_sack_block" "is_struct struct_tcp_sack_block"
  by (simp_all add: struct_tcp_sack_block_def layout)

definition struct_tcp_sock :: cty where
  "struct_tcp_sock = Struct [Fld ''inet_conn'' struct_inet_connection_sock,
     Fld ''tcp_header_len'' td_u16, Fld ''gso_segs'' td_u16, Fld ''pred_flags'' td___be32,
     Fld ''bytes_received'' td_u64, Fld ''segs_in'' td_u32, Fld ''data_segs_in'' td_u32,
     Fld ''rcv_nxt'' td_u32, Fld ''copied_seq'' td_u32, Fld ''rcv_wup'' td_u32,
     Fld ''snd_nxt'' td_u32, Fld ''segs_out'' td_u32, Fld ''data_segs_out'' td_u32,
     Fld ''bytes_sent'' td_u64, Fld ''bytes_acked'' td_u64, Fld ''dsack_dups'' td_u32,
     Fld ''snd_una'' td_u32, Fld ''snd_sml'' td_u32, Fld ''rcv_tstamp'' td_u32,
     Fld ''lsndtime'' td_u32, Fld ''last_oow_ack_time'' td_u32,
     Fld ''compressed_ack_rcv_nxt'' td_u32, Fld ''tsoffset'' td_u32,
     Fld ''tsq_node'' struct_list_head, Fld ''tsorted_sent_queue'' struct_list_head,
     Fld ''snd_wl1'' td_u32, Fld ''snd_wnd'' td_u32, Fld ''max_window'' td_u32,
     Fld ''mss_cache'' td_u32, Fld ''window_clamp'' td_u32, Fld ''rcv_ssthresh'' td_u32,
     Fld ''rack'' struct_tcp_rack, Fld ''advmss'' td_u16, Fld ''compressed_ack'' td_u8,
     Bits ''dup_ack_counter'' td_u8 2, Bits ''tlp_retrans'' td_u8 1, Bits ''unused'' td_u8 5,
     Fld ''chrono_start'' td_u32, Fld ''chrono_stat'' (CArr td_u32 3),
     Bits ''chrono_type'' td_u8 2, Bits ''rate_app_limited'' td_u8 1,
     Bits ''fastopen_connect'' td_u8 1, Bits ''fastopen_no_cookie'' td_u8 1,
     Bits ''is_sack_reneg'' td_u8 1, Bits ''fastopen_client_fail'' td_u8 2,
     Bits ''nonagle'' td_u8 4, Bits ''thin_lto'' td_u8 1, Bits ''recvmsg_inq'' td_u8 1,
     Bits ''repair'' td_u8 1, Bits ''frto'' td_u8 1, Fld ''repair_queue'' td_u8,
     Bits ''save_syn'' td_u8 2, Bits ''syn_data'' td_u8 1, Bits ''syn_fastopen'' td_u8 1,
     Bits ''syn_fastopen_exp'' td_u8 1, Bits ''syn_fastopen_ch'' td_u8 1,
     Bits ''syn_data_acked'' td_u8 1, Bits ''is_cwnd_limited'' td_u8 1,
     Fld ''tlp_high_seq'' td_u32, Fld ''tcp_tx_delay'' td_u32, Fld ''tcp_wstamp_ns'' td_u64,
     Fld ''tcp_clock_cache'' td_u64, Fld ''tcp_mstamp'' td_u64, Fld ''srtt_us'' td_u32,
     Fld ''mdev_us'' td_u32, Fld ''mdev_max_us'' td_u32, Fld ''rttvar_us'' td_u32,
     Fld ''rtt_seq'' td_u32, Fld ''rtt_min'' struct_minmax, Fld ''packets_out'' td_u32,
     Fld ''retrans_out'' td_u32, Fld ''max_packets_out'' td_u32, Fld ''cwnd_usage_seq'' td_u32,
     Fld ''urg_data'' td_u16, Fld ''ecn_flags'' td_u8, Fld ''keepalive_probes'' td_u8,
     Fld ''reordering'' td_u32, Fld ''reord_seen'' td_u32, Fld ''snd_up'' td_u32,
     Fld ''rx_opt'' struct_tcp_options_received, Fld ''snd_ssthresh'' td_u32,
     Fld ''snd_cwnd'' td_u32, Fld ''snd_cwnd_cnt'' td_u32, Fld ''snd_cwnd_clamp'' td_u32,
     Fld ''snd_cwnd_used'' td_u32, Fld ''snd_cwnd_stamp'' td_u32, Fld ''prior_cwnd'' td_u32,
     Fld ''prr_delivered'' td_u32, Fld ''prr_out'' td_u32, Fld ''delivered'' td_u32,
     Fld ''delivered_ce'' td_u32, Fld ''lost'' td_u32, Fld ''app_limited'' td_u32,
     Fld ''first_tx_mstamp'' td_u64, Fld ''delivered_mstamp'' td_u64,
     Fld ''rate_delivered'' td_u32, Fld ''rate_interval_us'' td_u32, Fld ''rcv_wnd'' td_u32,
     Fld ''write_seq'' td_u32, Fld ''notsent_lowat'' td_u32, Fld ''pushed_seq'' td_u32,
     Fld ''lost_out'' td_u32, Fld ''sacked_out'' td_u32, Fld ''pacing_timer'' struct_hrtimer,
     Fld ''compressed_ack_timer'' struct_hrtimer, Fld ''lost_skb_hint'' CPtr,
     Fld ''retransmit_skb_hint'' CPtr, Fld ''out_of_order_queue'' struct_rb_root,
     Fld ''ooo_last_skb'' CPtr, Fld ''duplicate_sack'' (CArr struct_tcp_sack_block 1),
     Fld ''selective_acks'' (CArr struct_tcp_sack_block 4),
     Fld ''recv_sack_cache'' (CArr struct_tcp_sack_block 4), Fld ''highest_sack'' CPtr,
     Fld ''lost_cnt_hint'' C_int, Fld ''prior_ssthresh'' td_u32, Fld ''high_seq'' td_u32,
     Fld ''retrans_stamp'' td_u32, Fld ''undo_marker'' td_u32, Fld ''undo_retrans'' C_int,
     Fld ''bytes_retrans'' td_u64, Fld ''total_retrans'' td_u32, Fld ''urg_seq'' td_u32,
     Fld ''keepalive_time'' C_uint, Fld ''keepalive_intvl'' C_uint, Fld ''linger2'' C_int,
     Fld ''bpf_sock_ops_cb_flags'' td_u8, Bits ''bpf_chg_cc_inprogress'' td_u8 1,
     Fld ''timeout_rehash'' td_u16, Fld ''rcv_ooopack'' td_u32, Fld ''rcv_rtt_last_tsecr'' td_u32,
     Fld ''rcv_rtt_est'' (Struct [Fld ''rtt_us'' td_u32, Fld ''seq'' td_u32,
     Fld ''time'' td_u64]), Fld ''rcvq_space'' (Struct [Fld ''space'' td_u32, Fld ''seq'' td_u32,
     Fld ''time'' td_u64]), Fld ''mtu_probe'' (Struct [Fld ''probe_seq_start'' td_u32,
     Fld ''probe_seq_end'' td_u32]), Fld ''plb_rehash'' td_u32, Fld ''mtu_info'' td_u32,
     Fld ''is_mptcp'' td_bool, Fld ''smc_hs_congested'' CPtr, Fld ''syn_smc'' td_bool,
     Fld ''af_specific'' CPtr, Fld ''md5sig_info'' CPtr, Fld ''fastopen_req'' CPtr,
     Fld ''fastopen_rsk'' CPtr, Fld ''saved_syn'' CPtr]"

lemma layout_struct_tcp_sock [layout]:
  "sizeof struct_tcp_sock = 2248" "alignof struct_tcp_sock = 8" "wf_cty struct_tcp_sock" "is_struct struct_tcp_sock"
  by (simp_all add: struct_tcp_sock_def layout)

definition struct_udp_sock :: cty where
  "struct_udp_sock = Struct [Fld ''inet'' struct_inet_sock, Fld ''udp_flags'' C_ulong,
     Fld ''pending'' C_int, Fld ''encap_type'' td___u8, Fld ''len'' td___u16,
     Fld ''gso_size'' td___u16, Fld ''pcslen'' td___u16, Fld ''pcrlen'' td___u16,
     Fld ''encap_rcv'' CPtr, Fld ''encap_err_rcv'' CPtr, Fld ''encap_err_lookup'' CPtr,
     Fld ''encap_destroy'' CPtr, Fld ''gro_receive'' CPtr, Fld ''gro_complete'' CPtr,
     Bits '''' C_long 64, Bits '''' C_long 64, Bits '''' C_long 64,
     Fld ''reader_queue'' struct_sk_buff_head, Fld ''forward_deficit'' C_int,
     Fld ''forward_threshold'' C_int, Bits '''' C_long 64, Bits '''' C_long 64,
     Bits '''' C_long 64, Bits '''' C_long 64]"

lemma layout_struct_udp_sock [layout]:
  "sizeof struct_udp_sock = 1152" "alignof struct_udp_sock = 8" "wf_cty struct_udp_sock" "is_struct struct_udp_sock"
  by (simp_all add: struct_udp_sock_def layout)

definition struct_sk_filter :: cty where
  "struct_sk_filter = Struct [Fld ''refcnt'' td_refcount_t, Fld ''rcu'' struct_callback_head,
     Fld ''prog'' CPtr]"

lemma layout_struct_sk_filter [layout]:
  "sizeof struct_sk_filter = 32" "alignof struct_sk_filter = 8" "wf_cty struct_sk_filter" "is_struct struct_sk_filter"
  by (simp_all add: struct_sk_filter_def layout)

definition struct_gro_list :: cty where
  "struct_gro_list = Struct [Fld ''list'' struct_list_head, Fld ''count'' C_int]"

lemma layout_struct_gro_list [layout]:
  "sizeof struct_gro_list = 24" "alignof struct_gro_list = 8" "wf_cty struct_gro_list" "is_struct struct_gro_list"
  by (simp_all add: struct_gro_list_def layout)

definition struct_napi_struct :: cty where
  "struct_napi_struct = Struct [Fld ''poll_list'' struct_list_head, Fld ''state'' C_ulong,
     Fld ''weight'' C_int, Fld ''defer_hard_irqs_count'' C_int, Fld ''gro_bitmask'' C_ulong,
     Fld ''poll'' CPtr, Fld ''poll_owner'' C_int, Fld ''list_owner'' C_int, Fld ''dev'' CPtr,
     Fld ''gro_hash'' (CArr struct_gro_list 8), Fld ''skb'' CPtr,
     Fld ''rx_list'' struct_list_head, Fld ''rx_count'' C_int, Fld ''napi_id'' C_uint,
     Fld ''timer'' struct_hrtimer, Fld ''thread'' CPtr, Fld ''dev_list'' struct_list_head,
     Fld ''napi_hash_node'' struct_hlist_node]"

lemma layout_struct_napi_struct [layout]:
  "sizeof struct_napi_struct = 392" "alignof struct_napi_struct = 8" "wf_cty struct_napi_struct" "is_struct struct_napi_struct"
  by (simp_all add: struct_napi_struct_def layout)

definition struct_xdp_mem_info :: cty where
  "struct_xdp_mem_info = Struct [Fld ''type'' td_u32, Fld ''id'' td_u32]"

lemma layout_struct_xdp_mem_info [layout]:
  "sizeof struct_xdp_mem_info = 8" "alignof struct_xdp_mem_info = 4" "wf_cty struct_xdp_mem_info" "is_struct struct_xdp_mem_info"
  by (simp_all add: struct_xdp_mem_info_def layout)

definition struct_xdp_rxq_info :: cty where
  "struct_xdp_rxq_info = Struct [Fld ''dev'' CPtr, Fld ''queue_index'' td_u32,
     Fld ''reg_state'' td_u32, Fld ''mem'' struct_xdp_mem_info, Fld ''napi_id'' C_uint,
     Fld ''frag_size'' td_u32, Bits '''' C_long 64, Bits '''' C_long 64, Bits '''' C_long 64,
     Bits '''' C_long 64]"

lemma layout_struct_xdp_rxq_info [layout]:
  "sizeof struct_xdp_rxq_info = 64" "alignof struct_xdp_rxq_info = 8" "wf_cty struct_xdp_rxq_info" "is_struct struct_xdp_rxq_info"
  by (simp_all add: struct_xdp_rxq_info_def layout)

definition struct_xdp_frame :: cty where
  "struct_xdp_frame = Struct [Fld ''data'' CPtr, Fld ''len'' td_u16, Fld ''headroom'' td_u16,
     Fld ''metasize'' td_u32, Fld ''mem'' struct_xdp_mem_info, Fld ''dev_rx'' CPtr,
     Fld ''frame_sz'' td_u32, Fld ''flags'' td_u32]"

lemma layout_struct_xdp_frame [layout]:
  "sizeof struct_xdp_frame = 40" "alignof struct_xdp_frame = 8" "wf_cty struct_xdp_frame" "is_struct struct_xdp_frame"
  by (simp_all add: struct_xdp_frame_def layout)

definition struct_xdp_buff :: cty where
  "struct_xdp_buff = Struct [Fld ''data'' CPtr, Fld ''data_end'' CPtr, Fld ''data_meta'' CPtr,
     Fld ''data_hard_start'' CPtr, Fld ''rxq'' CPtr, Fld ''txq'' CPtr, Fld ''frame_sz'' td_u32,
     Fld ''flags'' td_u32]"

lemma layout_struct_xdp_buff [layout]:
  "sizeof struct_xdp_buff = 56" "alignof struct_xdp_buff = 8" "wf_cty struct_xdp_buff" "is_struct struct_xdp_buff"
  by (simp_all add: struct_xdp_buff_def layout)

definition struct_page_pool_params :: cty where
  "struct_page_pool_params = Struct [Fld ''flags'' C_uint, Fld ''order'' C_uint,
     Fld ''pool_size'' C_uint, Fld ''nid'' C_int, Fld ''dev'' CPtr, Fld ''napi'' CPtr,
     Fld ''dma_dir'' Enum, Fld ''max_len'' C_uint, Fld ''offset'' C_uint,
     Fld ''init_callback'' CPtr, Fld ''init_arg'' CPtr]"

lemma layout_struct_page_pool_params [layout]:
  "sizeof struct_page_pool_params = 64" "alignof struct_page_pool_params = 8" "wf_cty struct_page_pool_params" "is_struct struct_page_pool_params"
  by (simp_all add: struct_page_pool_params_def layout)

definition struct_page_pool_alloc_stats :: cty where
  "struct_page_pool_alloc_stats = Struct [Fld ''fast'' td_u64, Fld ''slow'' td_u64,
     Fld ''slow_high_order'' td_u64, Fld ''empty'' td_u64, Fld ''refill'' td_u64,
     Fld ''waive'' td_u64]"

lemma layout_struct_page_pool_alloc_stats [layout]:
  "sizeof struct_page_pool_alloc_stats = 48" "alignof struct_page_pool_alloc_stats = 8" "wf_cty struct_page_pool_alloc_stats" "is_struct struct_page_pool_alloc_stats"
  by (simp_all add: struct_page_pool_alloc_stats_def layout)

definition struct_pp_alloc_cache :: cty where
  "struct_pp_alloc_cache = Struct [Fld ''count'' td_u32, Fld ''cache'' (CArr CPtr 128)]"

lemma layout_struct_pp_alloc_cache [layout]:
  "sizeof struct_pp_alloc_cache = 1032" "alignof struct_pp_alloc_cache = 8" "wf_cty struct_pp_alloc_cache" "is_struct struct_pp_alloc_cache"
  by (simp_all add: struct_pp_alloc_cache_def layout)

definition struct_ptr_ring :: cty where
  "struct_ptr_ring = Struct [Fld ''producer'' C_int, Fld ''producer_lock'' td_spinlock_t,
     Bits '''' C_long 64, Bits '''' C_long 64, Bits '''' C_long 64, Bits '''' C_long 64,
     Bits '''' C_long 64, Bits '''' C_long 64, Bits '''' C_long 64, Fld ''consumer_head'' C_int,
     Fld ''consumer_tail'' C_int, Fld ''consumer_lock'' td_spinlock_t, Bits '''' C_long 64,
     Bits '''' C_long 64, Bits '''' C_long 64, Bits '''' C_long 64, Bits '''' C_long 64,
     Bits '''' C_long 64, Fld ''size'' C_int, Fld ''batch'' C_int, Fld ''queue'' CPtr,
     Bits '''' C_long 64, Bits '''' C_long 64, Bits '''' C_long 64, Bits '''' C_long 64,
     Bits '''' C_long 64, Bits '''' C_long 64]"

lemma layout_struct_ptr_ring [layout]:
  "sizeof struct_ptr_ring = 192" "alignof struct_ptr_ring = 8" "wf_cty struct_ptr_ring" "is_struct struct_ptr_ring"
  by (simp_all add: struct_ptr_ring_def layout)

definition struct_page_pool :: cty where
  "struct_page_pool = Struct [Fld ''p'' struct_page_pool_params,
     Fld ''release_dw'' struct_delayed_work, Fld ''disconnect'' CPtr, Fld ''defer_start'' C_ulong,
     Fld ''defer_warn'' C_ulong, Fld ''pages_state_hold_cnt'' td_u32, Fld ''frag_offset'' C_uint,
     Fld ''frag_page'' CPtr, Fld ''frag_users'' C_long,
     Fld ''alloc_stats'' struct_page_pool_alloc_stats, Fld ''xdp_mem_id'' td_u32,
     Fld ''alloc'' struct_pp_alloc_cache, Bits '''' C_long 64, Bits '''' C_long 64,
     Bits '''' C_long 64, Bits '''' C_long 64, Bits '''' C_long 64, Bits '''' C_long 64,
     Bits '''' C_long 64, Fld ''ring'' struct_ptr_ring, Fld ''recycle_stats'' CPtr,
     Fld ''pages_state_release_cnt'' td_atomic_t, Fld ''user_cnt'' td_refcount_t,
     Fld ''destroy_cnt'' td_u64, Bits '''' C_long 64, Bits '''' C_long 64, Bits '''' C_long 64,
     Bits '''' C_long 64, Bits '''' C_long 64]"

lemma layout_struct_page_pool [layout]:
  "sizeof struct_page_pool = 1600" "alignof struct_page_pool = 8" "wf_cty struct_page_pool" "is_struct struct_page_pool"
  by (simp_all add: struct_page_pool_def layout)

definition struct_nf_conntrack :: cty where
  "struct_nf_conntrack = Struct [Fld ''use'' td_refcount_t]"

lemma layout_struct_nf_conntrack [layout]:
  "sizeof struct_nf_conntrack = 4" "alignof struct_nf_conntrack = 4" "wf_cty struct_nf_conntrack" "is_struct struct_nf_conntrack"
  by (simp_all add: struct_nf_conntrack_def layout)

definition struct_nf_conntrack_zone :: cty where
  "struct_nf_conntrack_zone = Struct [Fld ''id'' td_u16, Fld ''flags'' td_u8, Fld ''dir'' td_u8]"

lemma layout_struct_nf_conntrack_zone [layout]:
  "sizeof struct_nf_conntrack_zone = 4" "alignof struct_nf_conntrack_zone = 2" "wf_cty struct_nf_conntrack_zone" "is_struct struct_nf_conntrack_zone"
  by (simp_all add: struct_nf_conntrack_zone_def layout)

definition union_nf_inet_addr :: cty where
  "union_nf_inet_addr = Union [Fld ''all'' (CArr td___u32 4), Fld ''ip'' td___be32,
     Fld ''ip6'' (CArr td___be32 4), Fld ''in'' struct_in_addr, Fld ''in6'' struct_in6_addr]"

lemma layout_union_nf_inet_addr [layout]:
  "sizeof union_nf_inet_addr = 16" "alignof union_nf_inet_addr = 4" "wf_cty union_nf_inet_addr"
  by (simp_all add: union_nf_inet_addr_def layout)

definition union_nf_conntrack_man_proto :: cty where
  "union_nf_conntrack_man_proto = Union [Fld ''all'' td___be16,
     Fld ''tcp'' (Struct [Fld ''port'' td___be16]), Fld ''udp'' (Struct [Fld ''port'' td___be16]),
     Fld ''icmp'' (Struct [Fld ''id'' td___be16]), Fld ''dccp'' (Struct [Fld ''port'' td___be16]),
     Fld ''sctp'' (Struct [Fld ''port'' td___be16]),
     Fld ''gre'' (Struct [Fld ''key'' td___be16])]"

lemma layout_union_nf_conntrack_man_proto [layout]:
  "sizeof union_nf_conntrack_man_proto = 2" "alignof union_nf_conntrack_man_proto = 2" "wf_cty union_nf_conntrack_man_proto"
  by (simp_all add: union_nf_conntrack_man_proto_def layout)

definition td_u_int16_t :: cty where
  "td_u_int16_t = td_u16"

lemma layout_td_u_int16_t [layout]:
  "sizeof td_u_int16_t = 2" "alignof td_u_int16_t = 2" "wf_cty td_u_int16_t"
  by (simp_all add: td_u_int16_t_def layout)

definition struct_nf_conntrack_man :: cty where
  "struct_nf_conntrack_man = Struct [Fld ''u3'' union_nf_inet_addr,
     Fld ''u'' union_nf_conntrack_man_proto, Fld ''l3num'' td_u_int16_t]"

lemma layout_struct_nf_conntrack_man [layout]:
  "sizeof struct_nf_conntrack_man = 20" "alignof struct_nf_conntrack_man = 4" "wf_cty struct_nf_conntrack_man" "is_struct struct_nf_conntrack_man"
  by (simp_all add: struct_nf_conntrack_man_def layout)

definition td_u_int8_t :: cty where
  "td_u_int8_t = td_u8"

lemma layout_td_u_int8_t [layout]:
  "sizeof td_u_int8_t = 1" "alignof td_u_int8_t = 1" "wf_cty td_u_int8_t"
  by (simp_all add: td_u_int8_t_def layout)

definition struct_nf_conntrack_tuple :: cty where
  "struct_nf_conntrack_tuple = Struct [Fld ''src'' struct_nf_conntrack_man,
     Fld ''dst'' (Struct [Fld ''u3'' union_nf_inet_addr, Fld ''u'' (Union [Fld ''all'' td___be16,
     Fld ''tcp'' (Struct [Fld ''port'' td___be16]), Fld ''udp'' (Struct [Fld ''port'' td___be16]),
     Fld ''icmp'' (Struct [Fld ''type'' td_u_int8_t, Fld ''code'' td_u_int8_t]),
     Fld ''dccp'' (Struct [Fld ''port'' td___be16]),
     Fld ''sctp'' (Struct [Fld ''port'' td___be16]),
     Fld ''gre'' (Struct [Fld ''key'' td___be16])]), Fld ''protonum'' td_u_int8_t,
     Fld ''__nfct_hash_offsetend'' (Struct []), Fld ''dir'' td_u_int8_t])]"

lemma layout_struct_nf_conntrack_tuple [layout]:
  "sizeof struct_nf_conntrack_tuple = 40" "alignof struct_nf_conntrack_tuple = 4" "wf_cty struct_nf_conntrack_tuple" "is_struct struct_nf_conntrack_tuple"
  by (simp_all add: struct_nf_conntrack_tuple_def layout)

definition struct_nf_conntrack_tuple_hash :: cty where
  "struct_nf_conntrack_tuple_hash = Struct [Fld ''hnnode'' struct_hlist_nulls_node,
     Fld ''tuple'' struct_nf_conntrack_tuple]"

lemma layout_struct_nf_conntrack_tuple_hash [layout]:
  "sizeof struct_nf_conntrack_tuple_hash = 56" "alignof struct_nf_conntrack_tuple_hash = 8" "wf_cty struct_nf_conntrack_tuple_hash" "is_struct struct_nf_conntrack_tuple_hash"
  by (simp_all add: struct_nf_conntrack_tuple_hash_def layout)

definition td_u_int32_t :: cty where
  "td_u_int32_t = td_u32"

lemma layout_td_u_int32_t [layout]:
  "sizeof td_u_int32_t = 4" "alignof td_u_int32_t = 4" "wf_cty td_u_int32_t"
  by (simp_all add: td_u_int32_t_def layout)

definition td_u_int64_t :: cty where
  "td_u_int64_t = td_u64"

lemma layout_td_u_int64_t [layout]:
  "sizeof td_u_int64_t = 8" "alignof td_u_int64_t = 8" "wf_cty td_u_int64_t"
  by (simp_all add: td_u_int64_t_def layout)

definition struct_nf_ct_dccp :: cty where
  "struct_nf_ct_dccp = Struct [Fld ''role'' (CArr td_u_int8_t 2), Fld ''state'' td_u_int8_t,
     Fld ''last_pkt'' td_u_int8_t, Fld ''last_dir'' td_u_int8_t,
     Fld ''handshake_seq'' td_u_int64_t]"

lemma layout_struct_nf_ct_dccp [layout]:
  "sizeof struct_nf_ct_dccp = 16" "alignof struct_nf_ct_dccp = 8" "wf_cty struct_nf_ct_dccp" "is_struct struct_nf_ct_dccp"
  by (simp_all add: struct_nf_ct_dccp_def layout)

definition struct_ip_ct_sctp :: cty where
  "struct_ip_ct_sctp = Struct [Fld ''state'' Enum, Fld ''vtag'' (CArr td___be32 2),
     Fld ''init'' (CArr td_u8 2), Fld ''last_dir'' td_u8, Fld ''flags'' td_u8]"

lemma layout_struct_ip_ct_sctp [layout]:
  "sizeof struct_ip_ct_sctp = 16" "alignof struct_ip_ct_sctp = 4" "wf_cty struct_ip_ct_sctp" "is_struct struct_ip_ct_sctp"
  by (simp_all add: struct_ip_ct_sctp_def layout)

definition struct_ip_ct_tcp_state :: cty where
  "struct_ip_ct_tcp_state = Struct [Fld ''td_end'' td_u_int32_t, Fld ''td_maxend'' td_u_int32_t,
     Fld ''td_maxwin'' td_u_int32_t, Fld ''td_maxack'' td_u_int32_t, Fld ''td_scale'' td_u_int8_t,
     Fld ''flags'' td_u_int8_t]"

lemma layout_struct_ip_ct_tcp_state [layout]:
  "sizeof struct_ip_ct_tcp_state = 20" "alignof struct_ip_ct_tcp_state = 4" "wf_cty struct_ip_ct_tcp_state" "is_struct struct_ip_ct_tcp_state"
  by (simp_all add: struct_ip_ct_tcp_state_def layout)

definition struct_ip_ct_tcp :: cty where
  "struct_ip_ct_tcp = Struct [Fld ''seen'' (CArr struct_ip_ct_tcp_state 2),
     Fld ''state'' td_u_int8_t, Fld ''last_dir'' td_u_int8_t, Fld ''retrans'' td_u_int8_t,
     Fld ''last_index'' td_u_int8_t, Fld ''last_seq'' td_u_int32_t, Fld ''last_ack'' td_u_int32_t,
     Fld ''last_end'' td_u_int32_t, Fld ''last_win'' td_u_int16_t,
     Fld ''last_wscale'' td_u_int8_t, Fld ''last_flags'' td_u_int8_t]"

lemma layout_struct_ip_ct_tcp [layout]:
  "sizeof struct_ip_ct_tcp = 60" "alignof struct_ip_ct_tcp = 4" "wf_cty struct_ip_ct_tcp" "is_struct struct_ip_ct_tcp"
  by (simp_all add: struct_ip_ct_tcp_def layout)

definition struct_nf_ct_udp :: cty where
  "struct_nf_ct_udp = Struct [Fld ''stream_ts'' C_ulong]"

lemma layout_struct_nf_ct_udp [layout]:
  "sizeof struct_nf_ct_udp = 8" "alignof struct_nf_ct_udp = 8" "wf_cty struct_nf_ct_udp" "is_struct struct_nf_ct_udp"
  by (simp_all add: struct_nf_ct_udp_def layout)

definition struct_nf_ct_gre :: cty where
  "struct_nf_ct_gre = Struct [Fld ''stream_timeout'' C_uint, Fld ''timeout'' C_uint]"

lemma layout_struct_nf_ct_gre [layout]:
  "sizeof struct_nf_ct_gre = 8" "alignof struct_nf_ct_gre = 4" "wf_cty struct_nf_ct_gre" "is_struct struct_nf_ct_gre"
  by (simp_all add: struct_nf_ct_gre_def layout)

definition union_nf_conntrack_proto :: cty where
  "union_nf_conntrack_proto = Union [Fld ''dccp'' struct_nf_ct_dccp,
     Fld ''sctp'' struct_ip_ct_sctp, Fld ''tcp'' struct_ip_ct_tcp, Fld ''udp'' struct_nf_ct_udp,
     Fld ''gre'' struct_nf_ct_gre, Fld ''tmpl_padto'' C_uint]"

lemma layout_union_nf_conntrack_proto [layout]:
  "sizeof union_nf_conntrack_proto = 64" "alignof union_nf_conntrack_proto = 8" "wf_cty union_nf_conntrack_proto"
  by (simp_all add: union_nf_conntrack_proto_def layout)

definition struct_nf_conn :: cty where
  "struct_nf_conn = Struct [Fld ''ct_general'' struct_nf_conntrack, Fld ''lock'' td_spinlock_t,
     Fld ''timeout'' td_u32, Fld ''zone'' struct_nf_conntrack_zone,
     Fld ''tuplehash'' (CArr struct_nf_conntrack_tuple_hash 2), Fld ''status'' C_ulong,
     Fld ''ct_net'' td_possible_net_t, Fld ''nat_bysource'' struct_hlist_node,
     Fld ''__nfct_init_offset'' (Struct []), Fld ''master'' CPtr, Fld ''mark'' td_u_int32_t,
     Fld ''secmark'' td_u_int32_t, Fld ''ext'' CPtr, Fld ''proto'' union_nf_conntrack_proto]"

lemma layout_struct_nf_conn [layout]:
  "sizeof struct_nf_conn = 248" "alignof struct_nf_conn = 8" "wf_cty struct_nf_conn" "is_struct struct_nf_conn"
  by (simp_all add: struct_nf_conn_def layout)

definition struct_ethtool_ops :: cty where
  "struct_ethtool_ops = Struct [Bits ''cap_link_lanes_supported'' td_u32 1,
     Fld ''supported_coalesce_params'' td_u32, Fld ''supported_ring_params'' td_u32,
     Fld ''get_drvinfo'' CPtr, Fld ''get_regs_len'' CPtr, Fld ''get_regs'' CPtr,
     Fld ''get_wol'' CPtr, Fld ''set_wol'' CPtr, Fld ''get_msglevel'' CPtr,
     Fld ''set_msglevel'' CPtr, Fld ''nway_reset'' CPtr, Fld ''get_link'' CPtr,
     Fld ''get_link_ext_state'' CPtr, Fld ''get_link_ext_stats'' CPtr,
     Fld ''get_eeprom_len'' CPtr, Fld ''get_eeprom'' CPtr, Fld ''set_eeprom'' CPtr,
     Fld ''get_coalesce'' CPtr, Fld ''set_coalesce'' CPtr, Fld ''get_ringparam'' CPtr,
     Fld ''set_ringparam'' CPtr, Fld ''get_pause_stats'' CPtr, Fld ''get_pauseparam'' CPtr,
     Fld ''set_pauseparam'' CPtr, Fld ''self_test'' CPtr, Fld ''get_strings'' CPtr,
     Fld ''set_phys_id'' CPtr, Fld ''get_ethtool_stats'' CPtr, Fld ''begin'' CPtr,
     Fld ''complete'' CPtr, Fld ''get_priv_flags'' CPtr, Fld ''set_priv_flags'' CPtr,
     Fld ''get_sset_count'' CPtr, Fld ''get_rxnfc'' CPtr, Fld ''set_rxnfc'' CPtr,
     Fld ''flash_device'' CPtr, Fld ''reset'' CPtr, Fld ''get_rxfh_key_size'' CPtr,
     Fld ''get_rxfh_indir_size'' CPtr, Fld ''get_rxfh'' CPtr, Fld ''set_rxfh'' CPtr,
     Fld ''get_rxfh_context'' CPtr, Fld ''set_rxfh_context'' CPtr, Fld ''get_channels'' CPtr,
     Fld ''set_channels'' CPtr, Fld ''get_dump_flag'' CPtr, Fld ''get_dump_data'' CPtr,
     Fld ''set_dump'' CPtr, Fld ''get_ts_info'' CPtr, Fld ''get_module_info'' CPtr,
     Fld ''get_module_eeprom'' CPtr, Fld ''get_eee'' CPtr, Fld ''set_eee'' CPtr,
     Fld ''get_tunable'' CPtr, Fld ''set_tunable'' CPtr, Fld ''get_per_queue_coalesce'' CPtr,
     Fld ''set_per_queue_coalesce'' CPtr, Fld ''get_link_ksettings'' CPtr,
     Fld ''set_link_ksettings'' CPtr, Fld ''get_fec_stats'' CPtr, Fld ''get_fecparam'' CPtr,
     Fld ''set_fecparam'' CPtr, Fld ''get_ethtool_phy_stats'' CPtr, Fld ''get_phy_tunable'' CPtr,
     Fld ''set_phy_tunable'' CPtr, Fld ''get_module_eeprom_by_page'' CPtr,
     Fld ''get_eth_phy_stats'' CPtr, Fld ''get_eth_mac_stats'' CPtr,
     Fld ''get_eth_ctrl_stats'' CPtr, Fld ''get_rmon_stats'' CPtr,
     Fld ''get_module_power_mode'' CPtr, Fld ''set_module_power_mode'' CPtr, Fld ''get_mm'' CPtr,
     Fld ''set_mm'' CPtr, Fld ''get_mm_stats'' CPtr]"

lemma layout_struct_ethtool_ops [layout]:
  "sizeof struct_ethtool_ops = 592" "alignof struct_ethtool_ops = 8" "wf_cty struct_ethtool_ops" "is_struct struct_ethtool_ops"
  by (simp_all add: struct_ethtool_ops_def layout)

definition enum_dma_data_direction :: "(string \<times> int) list" where
  "enum_dma_data_direction = [(''DMA_BIDIRECTIONAL'', 0), (''DMA_TO_DEVICE'', 1),
     (''DMA_FROM_DEVICE'', 2), (''DMA_NONE'', 3)]"

definition enum_sctp_conntrack :: "(string \<times> int) list" where
  "enum_sctp_conntrack = [(''SCTP_CONNTRACK_NONE'', 0), (''SCTP_CONNTRACK_CLOSED'', 1),
     (''SCTP_CONNTRACK_COOKIE_WAIT'', 2), (''SCTP_CONNTRACK_COOKIE_ECHOED'', 3),
     (''SCTP_CONNTRACK_ESTABLISHED'', 4), (''SCTP_CONNTRACK_SHUTDOWN_SENT'', 5),
     (''SCTP_CONNTRACK_SHUTDOWN_RECD'', 6), (''SCTP_CONNTRACK_SHUTDOWN_ACK_SENT'', 7),
     (''SCTP_CONNTRACK_HEARTBEAT_SENT'', 8), (''SCTP_CONNTRACK_HEARTBEAT_ACKED'', 9),
     (''SCTP_CONNTRACK_MAX'', 10)]"

end
