(* ===== verification/Vm_Probe.thy ===== *)
theory Vm_Probe
  imports Vm_Inet
begin

text \<open>
  Kernel probes and trace events, on which the probe's programs hang, the objects that attach
  BPF programs to them, and the kernel objects they are part of. Translated declaration by
  declaration from \<open>ebpf/vmlinux.h\<close>, in the order the types depend on each other;
  each type is followed by its size and alignment, computed by the layout.
\<close>

definition td_kprobe_pre_handler_t :: cty where
  "td_kprobe_pre_handler_t = CPtr"

lemma layout_td_kprobe_pre_handler_t [layout]:
  "sizeof td_kprobe_pre_handler_t = 8" "alignof td_kprobe_pre_handler_t = 8" "wf_cty td_kprobe_pre_handler_t"
  by (simp_all add: td_kprobe_pre_handler_t_def layout)

definition td_kprobe_post_handler_t :: cty where
  "td_kprobe_post_handler_t = CPtr"

lemma layout_td_kprobe_post_handler_t [layout]:
  "sizeof td_kprobe_post_handler_t = 8" "alignof td_kprobe_post_handler_t = 8" "wf_cty td_kprobe_post_handler_t"
  by (simp_all add: td_kprobe_post_handler_t_def layout)

definition td_kprobe_opcode_t :: cty where
  "td_kprobe_opcode_t = td_u32"

lemma layout_td_kprobe_opcode_t [layout]:
  "sizeof td_kprobe_opcode_t = 4" "alignof td_kprobe_opcode_t = 4" "wf_cty td_kprobe_opcode_t"
  by (simp_all add: td_kprobe_opcode_t_def layout)

definition struct_arch_probe_insn :: cty where
  "struct_arch_probe_insn = Struct [Fld ''insn'' CPtr, Fld ''pstate_cc'' CPtr,
     Fld ''handler'' CPtr, Fld ''restore'' C_ulong]"

lemma layout_struct_arch_probe_insn [layout]:
  "sizeof struct_arch_probe_insn = 32" "alignof struct_arch_probe_insn = 8" "wf_cty struct_arch_probe_insn" "is_struct struct_arch_probe_insn"
  by (simp_all add: struct_arch_probe_insn_def layout)

definition struct_arch_specific_insn :: cty where
  "struct_arch_specific_insn = Struct [Fld ''api'' struct_arch_probe_insn]"

lemma layout_struct_arch_specific_insn [layout]:
  "sizeof struct_arch_specific_insn = 32" "alignof struct_arch_specific_insn = 8" "wf_cty struct_arch_specific_insn" "is_struct struct_arch_specific_insn"
  by (simp_all add: struct_arch_specific_insn_def layout)

definition struct_kprobe :: cty where
  "struct_kprobe = Struct [Fld ''hlist'' struct_hlist_node, Fld ''list'' struct_list_head,
     Fld ''nmissed'' C_ulong, Fld ''addr'' CPtr, Fld ''symbol_name'' CPtr, Fld ''offset'' C_uint,
     Fld ''pre_handler'' td_kprobe_pre_handler_t, Fld ''post_handler'' td_kprobe_post_handler_t,
     Fld ''opcode'' td_kprobe_opcode_t, Fld ''ainsn'' struct_arch_specific_insn,
     Fld ''flags'' td_u32]"

lemma layout_struct_kprobe [layout]:
  "sizeof struct_kprobe = 128" "alignof struct_kprobe = 8" "wf_cty struct_kprobe" "is_struct struct_kprobe"
  by (simp_all add: struct_kprobe_def layout)

definition td_kretprobe_handler_t :: cty where
  "td_kretprobe_handler_t = CPtr"

lemma layout_td_kretprobe_handler_t [layout]:
  "sizeof td_kretprobe_handler_t = 8" "alignof td_kretprobe_handler_t = 8" "wf_cty td_kretprobe_handler_t"
  by (simp_all add: td_kretprobe_handler_t_def layout)

definition struct_freelist_head :: cty where
  "struct_freelist_head = Struct [Fld ''head'' CPtr]"

lemma layout_struct_freelist_head [layout]:
  "sizeof struct_freelist_head = 8" "alignof struct_freelist_head = 8" "wf_cty struct_freelist_head" "is_struct struct_freelist_head"
  by (simp_all add: struct_freelist_head_def layout)

definition struct_kretprobe :: cty where
  "struct_kretprobe = Struct [Fld ''kp'' struct_kprobe, Fld ''handler'' td_kretprobe_handler_t,
     Fld ''entry_handler'' td_kretprobe_handler_t, Fld ''maxactive'' C_int, Fld ''nmissed'' C_int,
     Fld ''data_size'' td_size_t, Fld ''freelist'' struct_freelist_head, Fld ''rph'' CPtr]"

lemma layout_struct_kretprobe [layout]:
  "sizeof struct_kretprobe = 176" "alignof struct_kretprobe = 8" "wf_cty struct_kretprobe" "is_struct struct_kretprobe"
  by (simp_all add: struct_kretprobe_def layout)

definition struct_trace_event :: cty where
  "struct_trace_event = Struct [Fld ''node'' struct_hlist_node, Fld ''type'' C_int,
     Fld ''funcs'' CPtr]"

lemma layout_struct_trace_event [layout]:
  "sizeof struct_trace_event = 32" "alignof struct_trace_event = 8" "wf_cty struct_trace_event" "is_struct struct_trace_event"
  by (simp_all add: struct_trace_event_def layout)

definition struct_trace_event_call :: cty where
  "struct_trace_event_call = Struct [Fld ''list'' struct_list_head, Fld ''class'' CPtr,
     Fld '''' (Union [Fld ''name'' CPtr, Fld ''tp'' CPtr]), Fld ''event'' struct_trace_event,
     Fld ''print_fmt'' CPtr, Fld ''filter'' CPtr, Fld '''' (Union [Fld ''module'' CPtr,
     Fld ''refcnt'' td_atomic_t]), Fld ''data'' CPtr, Fld ''flags'' C_int,
     Fld ''perf_refcount'' C_int, Fld ''perf_events'' CPtr, Fld ''prog_array'' CPtr,
     Fld ''perf_perm'' CPtr]"

lemma layout_struct_trace_event_call [layout]:
  "sizeof struct_trace_event_call = 128" "alignof struct_trace_event_call = 8" "wf_cty struct_trace_event_call" "is_struct struct_trace_event_call"
  by (simp_all add: struct_trace_event_call_def layout)

definition struct_bpf_link :: cty where
  "struct_bpf_link = Struct [Fld ''refcnt'' td_atomic64_t, Fld ''id'' td_u32, Fld ''type'' Enum,
     Fld ''ops'' CPtr, Fld ''prog'' CPtr, Fld ''work'' struct_work_struct]"

lemma layout_struct_bpf_link [layout]:
  "sizeof struct_bpf_link = 64" "alignof struct_bpf_link = 8" "wf_cty struct_bpf_link" "is_struct struct_bpf_link"
  by (simp_all add: struct_bpf_link_def layout)

definition struct_btf_func_model :: cty where
  "struct_btf_func_model = Struct [Fld ''ret_size'' td_u8, Fld ''ret_flags'' td_u8,
     Fld ''nr_args'' td_u8, Fld ''arg_size'' (CArr td_u8 12), Fld ''arg_flags'' (CArr td_u8 12)]"

lemma layout_struct_btf_func_model [layout]:
  "sizeof struct_btf_func_model = 27" "alignof struct_btf_func_model = 1" "wf_cty struct_btf_func_model" "is_struct struct_btf_func_model"
  by (simp_all add: struct_btf_func_model_def layout)

definition struct_bpf_trampoline :: cty where
  "struct_bpf_trampoline = Struct [Fld ''hlist'' struct_hlist_node, Fld ''fops'' CPtr,
     Fld ''mutex'' struct_mutex, Fld ''refcnt'' td_refcount_t, Fld ''flags'' td_u32,
     Fld ''key'' td_u64, Fld ''func'' (Struct [Fld ''model'' struct_btf_func_model,
     Fld ''addr'' CPtr, Fld ''ftrace_managed'' td_bool]), Fld ''extension_prog'' CPtr,
     Fld ''progs_hlist'' (CArr struct_hlist_head 3), Fld ''progs_cnt'' (CArr C_int 3),
     Fld ''cur_image'' CPtr, Fld ''mod'' CPtr]"

lemma layout_struct_bpf_trampoline [layout]:
  "sizeof struct_bpf_trampoline = 184" "alignof struct_bpf_trampoline = 8" "wf_cty struct_bpf_trampoline" "is_struct struct_bpf_trampoline"
  by (simp_all add: struct_bpf_trampoline_def layout)

definition struct_btf_header :: cty where
  "struct_btf_header = Struct [Fld ''magic'' td___u16, Fld ''version'' td___u8,
     Fld ''flags'' td___u8, Fld ''hdr_len'' td___u32, Fld ''type_off'' td___u32,
     Fld ''type_len'' td___u32, Fld ''str_off'' td___u32, Fld ''str_len'' td___u32]"

lemma layout_struct_btf_header [layout]:
  "sizeof struct_btf_header = 24" "alignof struct_btf_header = 4" "wf_cty struct_btf_header" "is_struct struct_btf_header"
  by (simp_all add: struct_btf_header_def layout)

definition struct_btf :: cty where
  "struct_btf = Struct [Fld ''data'' CPtr, Fld ''types'' CPtr, Fld ''resolved_ids'' CPtr,
     Fld ''resolved_sizes'' CPtr, Fld ''strings'' CPtr, Fld ''nohdr_data'' CPtr,
     Fld ''hdr'' struct_btf_header, Fld ''nr_types'' td_u32, Fld ''types_size'' td_u32,
     Fld ''data_size'' td_u32, Fld ''refcnt'' td_refcount_t, Fld ''id'' td_u32,
     Fld ''rcu'' struct_callback_head, Fld ''kfunc_set_tab'' CPtr, Fld ''dtor_kfunc_tab'' CPtr,
     Fld ''struct_meta_tab'' CPtr, Fld ''base_btf'' CPtr, Fld ''start_id'' td_u32,
     Fld ''start_str_off'' td_u32, Fld ''name'' (CArr C_char 56), Fld ''kernel_btf'' td_bool]"

lemma layout_struct_btf [layout]:
  "sizeof struct_btf = 216" "alignof struct_btf = 8" "wf_cty struct_btf" "is_struct struct_btf"
  by (simp_all add: struct_btf_def layout)

definition struct_bpf_local_storage :: cty where
  "struct_bpf_local_storage = Struct [Fld ''cache'' (CArr CPtr 16), Fld ''smap'' CPtr,
     Fld ''list'' struct_hlist_head, Fld ''owner'' CPtr, Fld ''rcu'' struct_callback_head,
     Fld ''lock'' td_raw_spinlock_t]"

lemma layout_struct_bpf_local_storage [layout]:
  "sizeof struct_bpf_local_storage = 176" "alignof struct_bpf_local_storage = 8" "wf_cty struct_bpf_local_storage" "is_struct struct_bpf_local_storage"
  by (simp_all add: struct_bpf_local_storage_def layout)

definition struct_module_kobject :: cty where
  "struct_module_kobject = Struct [Fld ''kobj'' struct_kobject, Fld ''mod'' CPtr,
     Fld ''drivers_dir'' CPtr, Fld ''mp'' CPtr, Fld ''kobj_completion'' CPtr]"

lemma layout_struct_module_kobject [layout]:
  "sizeof struct_module_kobject = 96" "alignof struct_module_kobject = 8" "wf_cty struct_module_kobject" "is_struct struct_module_kobject"
  by (simp_all add: struct_module_kobject_def layout)

definition struct_mod_tree_node :: cty where
  "struct_mod_tree_node = Struct [Fld ''mod'' CPtr, Fld ''node'' struct_latch_tree_node]"

lemma layout_struct_mod_tree_node [layout]:
  "sizeof struct_mod_tree_node = 56" "alignof struct_mod_tree_node = 8" "wf_cty struct_mod_tree_node" "is_struct struct_mod_tree_node"
  by (simp_all add: struct_mod_tree_node_def layout)

definition struct_module_memory :: cty where
  "struct_module_memory = Struct [Fld ''base'' CPtr, Fld ''size'' C_uint,
     Fld ''mtn'' struct_mod_tree_node]"

lemma layout_struct_module_memory [layout]:
  "sizeof struct_module_memory = 72" "alignof struct_module_memory = 8" "wf_cty struct_module_memory" "is_struct struct_module_memory"
  by (simp_all add: struct_module_memory_def layout)

definition struct_mod_plt_sec :: cty where
  "struct_mod_plt_sec = Struct [Fld ''plt_shndx'' C_int, Fld ''plt_num_entries'' C_int,
     Fld ''plt_max_entries'' C_int]"

lemma layout_struct_mod_plt_sec [layout]:
  "sizeof struct_mod_plt_sec = 12" "alignof struct_mod_plt_sec = 4" "wf_cty struct_mod_plt_sec" "is_struct struct_mod_plt_sec"
  by (simp_all add: struct_mod_plt_sec_def layout)

definition struct_mod_arch_specific :: cty where
  "struct_mod_arch_specific = Struct [Fld ''core'' struct_mod_plt_sec,
     Fld ''init'' struct_mod_plt_sec, Fld ''ftrace_trampolines'' CPtr]"

lemma layout_struct_mod_arch_specific [layout]:
  "sizeof struct_mod_arch_specific = 32" "alignof struct_mod_arch_specific = 8" "wf_cty struct_mod_arch_specific" "is_struct struct_mod_arch_specific"
  by (simp_all add: struct_mod_arch_specific_def layout)

definition struct_mod_kallsyms :: cty where
  "struct_mod_kallsyms = Struct [Fld ''symtab'' CPtr, Fld ''num_symtab'' C_uint,
     Fld ''strtab'' CPtr, Fld ''typetab'' CPtr]"

lemma layout_struct_mod_kallsyms [layout]:
  "sizeof struct_mod_kallsyms = 32" "alignof struct_mod_kallsyms = 8" "wf_cty struct_mod_kallsyms" "is_struct struct_mod_kallsyms"
  by (simp_all add: struct_mod_kallsyms_def layout)

definition struct__ddebug_info :: cty where
  "struct__ddebug_info = Struct [Fld ''descs'' CPtr, Fld ''classes'' CPtr,
     Fld ''num_descs'' C_uint, Fld ''num_classes'' C_uint]"

lemma layout_struct__ddebug_info [layout]:
  "sizeof struct__ddebug_info = 24" "alignof struct__ddebug_info = 8" "wf_cty struct__ddebug_info" "is_struct struct__ddebug_info"
  by (simp_all add: struct__ddebug_info_def layout)

definition struct_module :: cty where
  "struct_module = Struct [Fld ''state'' Enum, Fld ''list'' struct_list_head,
     Fld ''name'' (CArr C_char 56), Fld ''mkobj'' struct_module_kobject,
     Fld ''modinfo_attrs'' CPtr, Fld ''version'' CPtr, Fld ''srcversion'' CPtr,
     Fld ''holders_dir'' CPtr, Fld ''syms'' CPtr, Fld ''crcs'' CPtr, Fld ''num_syms'' C_uint,
     Fld ''param_lock'' struct_mutex, Fld ''kp'' CPtr, Fld ''num_kp'' C_uint,
     Fld ''num_gpl_syms'' C_uint, Fld ''gpl_syms'' CPtr, Fld ''gpl_crcs'' CPtr,
     Fld ''using_gplonly_symbols'' td_bool, Fld ''sig_ok'' td_bool,
     Fld ''async_probe_requested'' td_bool, Fld ''num_exentries'' C_uint, Fld ''extable'' CPtr,
     Fld ''init'' CPtr, Fld ''mem'' (CArr struct_module_memory 7),
     Fld ''arch'' struct_mod_arch_specific, Fld ''taints'' C_ulong, Fld ''num_bugs'' C_uint,
     Fld ''bug_list'' struct_list_head, Fld ''bug_table'' CPtr, Fld ''kallsyms'' CPtr,
     Fld ''core_kallsyms'' struct_mod_kallsyms, Fld ''sect_attrs'' CPtr, Fld ''notes_attrs'' CPtr,
     Fld ''args'' CPtr, Fld ''percpu'' CPtr, Fld ''percpu_size'' C_uint,
     Fld ''noinstr_text_start'' CPtr, Fld ''noinstr_text_size'' C_uint,
     Fld ''num_tracepoints'' C_uint, Fld ''tracepoints_ptrs'' CPtr,
     Fld ''num_srcu_structs'' C_uint, Fld ''srcu_struct_ptrs'' CPtr,
     Fld ''num_bpf_raw_events'' C_uint, Fld ''bpf_raw_events'' CPtr, Fld ''btf_data_size'' C_uint,
     Fld ''btf_data'' CPtr, Fld ''jump_entries'' CPtr, Fld ''num_jump_entries'' C_uint,
     Fld ''num_trace_bprintk_fmt'' C_uint, Fld ''trace_bprintk_fmt_start'' CPtr,
     Fld ''trace_events'' CPtr, Fld ''num_trace_events'' C_uint, Fld ''trace_evals'' CPtr,
     Fld ''num_trace_evals'' C_uint, Fld ''num_ftrace_callsites'' C_uint,
     Fld ''ftrace_callsites'' CPtr, Fld ''kprobes_text_start'' CPtr,
     Fld ''kprobes_text_size'' C_uint, Fld ''kprobe_blacklist'' CPtr,
     Fld ''num_kprobe_blacklist'' C_uint, Fld ''source_list'' struct_list_head,
     Fld ''target_list'' struct_list_head, Fld ''exit'' CPtr, Fld ''refcnt'' td_atomic_t,
     Fld ''ei_funcs'' CPtr, Fld ''num_ei_funcs'' C_uint, Fld ''dyndbg_info'' struct__ddebug_info,
     Bits '''' C_long 64, Bits '''' C_long 64, Bits '''' C_long 64, Bits '''' C_long 64,
     Bits '''' C_long 64, Bits '''' C_long 64]"

lemma layout_struct_module [layout]:
  "sizeof struct_module = 1280" "alignof struct_module = 8" "wf_cty struct_module" "is_struct struct_module"
  by (simp_all add: struct_module_def layout)

definition td_fmode_t :: cty where
  "td_fmode_t = C_uint"

lemma layout_td_fmode_t [layout]:
  "sizeof td_fmode_t = 4" "alignof td_fmode_t = 4" "wf_cty td_fmode_t"
  by (simp_all add: td_fmode_t_def layout)

definition struct_fown_struct :: cty where
  "struct_fown_struct = Struct [Fld ''lock'' td_rwlock_t, Fld ''pid'' CPtr, Fld ''pid_type'' Enum,
     Fld ''uid'' td_kuid_t, Fld ''euid'' td_kuid_t, Fld ''signum'' C_int]"

lemma layout_struct_fown_struct [layout]:
  "sizeof struct_fown_struct = 32" "alignof struct_fown_struct = 8" "wf_cty struct_fown_struct" "is_struct struct_fown_struct"
  by (simp_all add: struct_fown_struct_def layout)

definition struct_file_ra_state :: cty where
  "struct_file_ra_state = Struct [Fld ''start'' C_ulong, Fld ''size'' C_uint,
     Fld ''async_size'' C_uint, Fld ''ra_pages'' C_uint, Fld ''mmap_miss'' C_uint,
     Fld ''prev_pos'' td_loff_t]"

lemma layout_struct_file_ra_state [layout]:
  "sizeof struct_file_ra_state = 32" "alignof struct_file_ra_state = 8" "wf_cty struct_file_ra_state" "is_struct struct_file_ra_state"
  by (simp_all add: struct_file_ra_state_def layout)

definition td_errseq_t :: cty where
  "td_errseq_t = td_u32"

lemma layout_td_errseq_t [layout]:
  "sizeof td_errseq_t = 4" "alignof td_errseq_t = 4" "wf_cty td_errseq_t"
  by (simp_all add: td_errseq_t_def layout)

definition struct_file :: cty where
  "struct_file = Struct [Fld '''' (Union [Fld ''f_llist'' struct_llist_node,
     Fld ''f_rcuhead'' struct_callback_head, Fld ''f_iocb_flags'' C_uint]),
     Fld ''f_lock'' td_spinlock_t, Fld ''f_mode'' td_fmode_t, Fld ''f_count'' td_atomic_long_t,
     Fld ''f_pos_lock'' struct_mutex, Fld ''f_pos'' td_loff_t, Fld ''f_flags'' C_uint,
     Fld ''f_owner'' struct_fown_struct, Fld ''f_cred'' CPtr, Fld ''f_ra'' struct_file_ra_state,
     Fld ''f_path'' struct_path, Fld ''f_inode'' CPtr, Fld ''f_op'' CPtr,
     Fld ''f_version'' td_u64, Fld ''f_security'' CPtr, Fld ''private_data'' CPtr,
     Fld ''f_ep'' CPtr, Fld ''f_mapping'' CPtr, Fld ''f_wb_err'' td_errseq_t,
     Fld ''f_sb_err'' td_errseq_t]"

lemma layout_struct_file [layout]:
  "sizeof struct_file = 232" "alignof struct_file = 8" "wf_cty struct_file" "is_struct struct_file"
  by (simp_all add: struct_file_def layout)

definition td_umode_t :: cty where
  "td_umode_t = C_ushort"

lemma layout_td_umode_t [layout]:
  "sizeof td_umode_t = 2" "alignof td_umode_t = 2" "wf_cty td_umode_t"
  by (simp_all add: td_umode_t_def layout)

definition td_time64_t :: cty where
  "td_time64_t = td___s64"

lemma layout_td_time64_t [layout]:
  "sizeof td_time64_t = 8" "alignof td_time64_t = 8" "wf_cty td_time64_t"
  by (simp_all add: td_time64_t_def layout)

definition struct_timespec64 :: cty where
  "struct_timespec64 = Struct [Fld ''tv_sec'' td_time64_t, Fld ''tv_nsec'' C_long]"

lemma layout_struct_timespec64 [layout]:
  "sizeof struct_timespec64 = 16" "alignof struct_timespec64 = 8" "wf_cty struct_timespec64" "is_struct struct_timespec64"
  by (simp_all add: struct_timespec64_def layout)

definition td_blkcnt_t :: cty where
  "td_blkcnt_t = td_u64"

lemma layout_td_blkcnt_t [layout]:
  "sizeof td_blkcnt_t = 8" "alignof td_blkcnt_t = 8" "wf_cty td_blkcnt_t"
  by (simp_all add: td_blkcnt_t_def layout)

definition struct_address_space :: cty where
  "struct_address_space = Struct [Fld ''host'' CPtr, Fld ''i_pages'' struct_xarray,
     Fld ''invalidate_lock'' struct_rw_semaphore, Fld ''gfp_mask'' td_gfp_t,
     Fld ''i_mmap_writable'' td_atomic_t, Fld ''i_mmap'' struct_rb_root_cached,
     Fld ''nrpages'' C_ulong, Fld ''writeback_index'' C_ulong, Fld ''a_ops'' CPtr,
     Fld ''flags'' C_ulong, Fld ''i_mmap_rwsem'' struct_rw_semaphore, Fld ''wb_err'' td_errseq_t,
     Fld ''private_lock'' td_spinlock_t, Fld ''private_list'' struct_list_head,
     Fld ''private_data'' CPtr]"

lemma layout_struct_address_space [layout]:
  "sizeof struct_address_space = 192" "alignof struct_address_space = 8" "wf_cty struct_address_space" "is_struct struct_address_space"
  by (simp_all add: struct_address_space_def layout)

definition struct_inode :: cty where
  "struct_inode = Struct [Fld ''i_mode'' td_umode_t, Fld ''i_opflags'' C_ushort,
     Fld ''i_uid'' td_kuid_t, Fld ''i_gid'' td_kgid_t, Fld ''i_flags'' C_uint, Fld ''i_acl'' CPtr,
     Fld ''i_default_acl'' CPtr, Fld ''i_op'' CPtr, Fld ''i_sb'' CPtr, Fld ''i_mapping'' CPtr,
     Fld ''i_security'' CPtr, Fld ''i_ino'' C_ulong, Fld '''' (Union [Fld ''i_nlink'' C_uint,
     Fld ''__i_nlink'' C_uint]), Fld ''i_rdev'' td_dev_t, Fld ''i_size'' td_loff_t,
     Fld ''i_atime'' struct_timespec64, Fld ''i_mtime'' struct_timespec64,
     Fld ''i_ctime'' struct_timespec64, Fld ''i_lock'' td_spinlock_t, Fld ''i_bytes'' C_ushort,
     Fld ''i_blkbits'' td_u8, Fld ''i_write_hint'' td_u8, Fld ''i_blocks'' td_blkcnt_t,
     Fld ''i_state'' C_ulong, Fld ''i_rwsem'' struct_rw_semaphore, Fld ''dirtied_when'' C_ulong,
     Fld ''dirtied_time_when'' C_ulong, Fld ''i_hash'' struct_hlist_node,
     Fld ''i_io_list'' struct_list_head, Fld ''i_wb'' CPtr, Fld ''i_wb_frn_winner'' C_int,
     Fld ''i_wb_frn_avg_time'' td_u16, Fld ''i_wb_frn_history'' td_u16,
     Fld ''i_lru'' struct_list_head, Fld ''i_sb_list'' struct_list_head,
     Fld ''i_wb_list'' struct_list_head, Fld '''' (Union [Fld ''i_dentry'' struct_hlist_head,
     Fld ''i_rcu'' struct_callback_head]), Fld ''i_version'' td_atomic64_t,
     Fld ''i_sequence'' td_atomic64_t, Fld ''i_count'' td_atomic_t,
     Fld ''i_dio_count'' td_atomic_t, Fld ''i_writecount'' td_atomic_t,
     Fld ''i_readcount'' td_atomic_t, Fld '''' (Union [Fld ''i_fop'' CPtr,
     Fld ''free_inode'' CPtr]), Fld ''i_flctx'' CPtr, Fld ''i_data'' struct_address_space,
     Fld ''i_devices'' struct_list_head, Fld '''' (Union [Fld ''i_pipe'' CPtr,
     Fld ''i_cdev'' CPtr, Fld ''i_link'' CPtr, Fld ''i_dir_seq'' C_uint]),
     Fld ''i_generation'' td___u32, Fld ''i_fsnotify_mask'' td___u32,
     Fld ''i_fsnotify_marks'' CPtr, Fld ''i_crypt_info'' CPtr, Fld ''i_verity_info'' CPtr,
     Fld ''i_private'' CPtr]"

lemma layout_struct_inode [layout]:
  "sizeof struct_inode = 632" "alignof struct_inode = 8" "wf_cty struct_inode" "is_struct struct_inode"
  by (simp_all add: struct_inode_def layout)

definition struct_hlist_bl_node :: cty where
  "struct_hlist_bl_node = Struct [Fld ''next'' CPtr, Fld ''pprev'' CPtr]"

lemma layout_struct_hlist_bl_node [layout]:
  "sizeof struct_hlist_bl_node = 16" "alignof struct_hlist_bl_node = 8" "wf_cty struct_hlist_bl_node" "is_struct struct_hlist_bl_node"
  by (simp_all add: struct_hlist_bl_node_def layout)

definition struct_qstr :: cty where
  "struct_qstr = Struct [Fld '''' (Union [Fld '''' (Struct [Fld ''hash'' td_u32,
     Fld ''len'' td_u32]), Fld ''hash_len'' td_u64]), Fld ''name'' CPtr]"

lemma layout_struct_qstr [layout]:
  "sizeof struct_qstr = 16" "alignof struct_qstr = 8" "wf_cty struct_qstr" "is_struct struct_qstr"
  by (simp_all add: struct_qstr_def layout)

definition struct_lockref :: cty where
  "struct_lockref = Struct [Fld '''' (Union [Fld ''lock_count'' td___u64,
     Fld '''' (Struct [Fld ''lock'' td_spinlock_t, Fld ''count'' C_int])])]"

lemma layout_struct_lockref [layout]:
  "sizeof struct_lockref = 8" "alignof struct_lockref = 8" "wf_cty struct_lockref" "is_struct struct_lockref"
  by (simp_all add: struct_lockref_def layout)

definition struct_dentry :: cty where
  "struct_dentry = Struct [Fld ''d_flags'' C_uint, Fld ''d_seq'' td_seqcount_spinlock_t,
     Fld ''d_hash'' struct_hlist_bl_node, Fld ''d_parent'' CPtr, Fld ''d_name'' struct_qstr,
     Fld ''d_inode'' CPtr, Fld ''d_iname'' (CArr C_uchar 32), Fld ''d_lockref'' struct_lockref,
     Fld ''d_op'' CPtr, Fld ''d_sb'' CPtr, Fld ''d_time'' C_ulong, Fld ''d_fsdata'' CPtr,
     Fld '''' (Union [Fld ''d_lru'' struct_list_head, Fld ''d_wait'' CPtr]),
     Fld ''d_child'' struct_list_head, Fld ''d_subdirs'' struct_list_head,
     Fld ''d_u'' (Union [Fld ''d_alias'' struct_hlist_node,
     Fld ''d_in_lookup_hash'' struct_hlist_bl_node, Fld ''d_rcu'' struct_callback_head])]"

lemma layout_struct_dentry [layout]:
  "sizeof struct_dentry = 192" "alignof struct_dentry = 8" "wf_cty struct_dentry" "is_struct struct_dentry"
  by (simp_all add: struct_dentry_def layout)

definition struct_hlist_bl_head :: cty where
  "struct_hlist_bl_head = Struct [Fld ''first'' CPtr]"

lemma layout_struct_hlist_bl_head [layout]:
  "sizeof struct_hlist_bl_head = 8" "alignof struct_hlist_bl_head = 8" "wf_cty struct_hlist_bl_head" "is_struct struct_hlist_bl_head"
  by (simp_all add: struct_hlist_bl_head_def layout)

definition td_qsize_t :: cty where
  "td_qsize_t = C_longlong"

lemma layout_td_qsize_t [layout]:
  "sizeof td_qsize_t = 8" "alignof td_qsize_t = 8" "wf_cty td_qsize_t"
  by (simp_all add: td_qsize_t_def layout)

definition struct_mem_dqinfo :: cty where
  "struct_mem_dqinfo = Struct [Fld ''dqi_format'' CPtr, Fld ''dqi_fmt_id'' C_int,
     Fld ''dqi_dirty_list'' struct_list_head, Fld ''dqi_flags'' C_ulong,
     Fld ''dqi_bgrace'' C_uint, Fld ''dqi_igrace'' C_uint, Fld ''dqi_max_spc_limit'' td_qsize_t,
     Fld ''dqi_max_ino_limit'' td_qsize_t, Fld ''dqi_priv'' CPtr]"

lemma layout_struct_mem_dqinfo [layout]:
  "sizeof struct_mem_dqinfo = 72" "alignof struct_mem_dqinfo = 8" "wf_cty struct_mem_dqinfo" "is_struct struct_mem_dqinfo"
  by (simp_all add: struct_mem_dqinfo_def layout)

definition struct_quota_info :: cty where
  "struct_quota_info = Struct [Fld ''flags'' C_uint, Fld ''dqio_sem'' struct_rw_semaphore,
     Fld ''files'' (CArr CPtr 3), Fld ''info'' (CArr struct_mem_dqinfo 3),
     Fld ''ops'' (CArr CPtr 3)]"

lemma layout_struct_quota_info [layout]:
  "sizeof struct_quota_info = 312" "alignof struct_quota_info = 8" "wf_cty struct_quota_info" "is_struct struct_quota_info"
  by (simp_all add: struct_quota_info_def layout)

definition struct_rcu_sync :: cty where
  "struct_rcu_sync = Struct [Fld ''gp_state'' C_int, Fld ''gp_count'' C_int,
     Fld ''gp_wait'' td_wait_queue_head_t, Fld ''cb_head'' struct_callback_head]"

lemma layout_struct_rcu_sync [layout]:
  "sizeof struct_rcu_sync = 48" "alignof struct_rcu_sync = 8" "wf_cty struct_rcu_sync" "is_struct struct_rcu_sync"
  by (simp_all add: struct_rcu_sync_def layout)

definition struct_percpu_rw_semaphore :: cty where
  "struct_percpu_rw_semaphore = Struct [Fld ''rss'' struct_rcu_sync, Fld ''read_count'' CPtr,
     Fld ''writer'' struct_rcuwait, Fld ''waiters'' td_wait_queue_head_t,
     Fld ''block'' td_atomic_t]"

lemma layout_struct_percpu_rw_semaphore [layout]:
  "sizeof struct_percpu_rw_semaphore = 96" "alignof struct_percpu_rw_semaphore = 8" "wf_cty struct_percpu_rw_semaphore" "is_struct struct_percpu_rw_semaphore"
  by (simp_all add: struct_percpu_rw_semaphore_def layout)

definition struct_sb_writers :: cty where
  "struct_sb_writers = Struct [Fld ''frozen'' C_int,
     Fld ''rw_sem'' (CArr struct_percpu_rw_semaphore 3)]"

lemma layout_struct_sb_writers [layout]:
  "sizeof struct_sb_writers = 296" "alignof struct_sb_writers = 8" "wf_cty struct_sb_writers" "is_struct struct_sb_writers"
  by (simp_all add: struct_sb_writers_def layout)

definition td_uuid_t :: cty where
  "td_uuid_t = Struct [Fld ''b'' (CArr td___u8 16)]"

lemma layout_td_uuid_t [layout]:
  "sizeof td_uuid_t = 16" "alignof td_uuid_t = 1" "wf_cty td_uuid_t"
  by (simp_all add: td_uuid_t_def layout)

definition struct_shrinker :: cty where
  "struct_shrinker = Struct [Fld ''count_objects'' CPtr, Fld ''scan_objects'' CPtr,
     Fld ''batch'' C_long, Fld ''seeks'' C_int, Fld ''flags'' C_uint,
     Fld ''list'' struct_list_head, Fld ''id'' C_int, Fld ''nr_deferred'' CPtr]"

lemma layout_struct_shrinker [layout]:
  "sizeof struct_shrinker = 64" "alignof struct_shrinker = 8" "wf_cty struct_shrinker" "is_struct struct_shrinker"
  by (simp_all add: struct_shrinker_def layout)

definition struct_list_lru :: cty where
  "struct_list_lru = Struct [Fld ''node'' CPtr, Fld ''list'' struct_list_head,
     Fld ''shrinker_id'' C_int, Fld ''memcg_aware'' td_bool, Fld ''xa'' struct_xarray]"

lemma layout_struct_list_lru [layout]:
  "sizeof struct_list_lru = 48" "alignof struct_list_lru = 8" "wf_cty struct_list_lru" "is_struct struct_list_lru"
  by (simp_all add: struct_list_lru_def layout)

definition struct_super_block :: cty where
  "struct_super_block = Struct [Fld ''s_list'' struct_list_head, Fld ''s_dev'' td_dev_t,
     Fld ''s_blocksize_bits'' C_uchar, Fld ''s_blocksize'' C_ulong, Fld ''s_maxbytes'' td_loff_t,
     Fld ''s_type'' CPtr, Fld ''s_op'' CPtr, Fld ''dq_op'' CPtr, Fld ''s_qcop'' CPtr,
     Fld ''s_export_op'' CPtr, Fld ''s_flags'' C_ulong, Fld ''s_iflags'' C_ulong,
     Fld ''s_magic'' C_ulong, Fld ''s_root'' CPtr, Fld ''s_umount'' struct_rw_semaphore,
     Fld ''s_count'' C_int, Fld ''s_active'' td_atomic_t, Fld ''s_security'' CPtr,
     Fld ''s_xattr'' CPtr, Fld ''s_cop'' CPtr, Fld ''s_master_keys'' CPtr, Fld ''s_vop'' CPtr,
     Fld ''s_encoding'' CPtr, Fld ''s_encoding_flags'' td___u16,
     Fld ''s_roots'' struct_hlist_bl_head, Fld ''s_mounts'' struct_list_head, Fld ''s_bdev'' CPtr,
     Fld ''s_bdi'' CPtr, Fld ''s_mtd'' CPtr, Fld ''s_instances'' struct_hlist_node,
     Fld ''s_quota_types'' C_uint, Fld ''s_dquot'' struct_quota_info,
     Fld ''s_writers'' struct_sb_writers, Fld ''s_fs_info'' CPtr, Fld ''s_time_gran'' td_u32,
     Fld ''s_time_min'' td_time64_t, Fld ''s_time_max'' td_time64_t,
     Fld ''s_fsnotify_mask'' td___u32, Fld ''s_fsnotify_marks'' CPtr,
     Fld ''s_id'' (CArr C_char 32), Fld ''s_uuid'' td_uuid_t, Fld ''s_max_links'' C_uint,
     Fld ''s_vfs_rename_mutex'' struct_mutex, Fld ''s_subtype'' CPtr, Fld ''s_d_op'' CPtr,
     Fld ''s_shrink'' struct_shrinker, Fld ''s_remove_count'' td_atomic_long_t,
     Fld ''s_fsnotify_connectors'' td_atomic_long_t, Fld ''s_readonly_remount'' C_int,
     Fld ''s_wb_err'' td_errseq_t, Fld ''s_dio_done_wq'' CPtr, Fld ''s_pins'' struct_hlist_head,
     Fld ''s_user_ns'' CPtr, Fld ''s_dentry_lru'' struct_list_lru,
     Fld ''s_inode_lru'' struct_list_lru, Fld ''rcu'' struct_callback_head,
     Fld ''destroy_work'' struct_work_struct, Fld ''s_sync_lock'' struct_mutex,
     Fld ''s_stack_depth'' C_int, Bits '''' C_long 0, Fld ''s_inode_list_lock'' td_spinlock_t,
     Fld ''s_inodes'' struct_list_head, Fld ''s_inode_wblist_lock'' td_spinlock_t,
     Fld ''s_inodes_wb'' struct_list_head, Bits '''' C_long 64, Bits '''' C_long 64]"

lemma layout_struct_super_block [layout]:
  "sizeof struct_super_block = 1408" "alignof struct_super_block = 8" "wf_cty struct_super_block" "is_struct struct_super_block"
  by (simp_all add: struct_super_block_def layout)

definition struct_bus_type :: cty where
  "struct_bus_type = Struct [Fld ''name'' CPtr, Fld ''dev_name'' CPtr, Fld ''bus_groups'' CPtr,
     Fld ''dev_groups'' CPtr, Fld ''drv_groups'' CPtr, Fld ''match'' CPtr, Fld ''uevent'' CPtr,
     Fld ''probe'' CPtr, Fld ''sync_state'' CPtr, Fld ''remove'' CPtr, Fld ''shutdown'' CPtr,
     Fld ''online'' CPtr, Fld ''offline'' CPtr, Fld ''suspend'' CPtr, Fld ''resume'' CPtr,
     Fld ''num_vf'' CPtr, Fld ''dma_configure'' CPtr, Fld ''dma_cleanup'' CPtr, Fld ''pm'' CPtr,
     Fld ''iommu_ops'' CPtr, Fld ''need_parent_lock'' td_bool]"

lemma layout_struct_bus_type [layout]:
  "sizeof struct_bus_type = 168" "alignof struct_bus_type = 8" "wf_cty struct_bus_type" "is_struct struct_bus_type"
  by (simp_all add: struct_bus_type_def layout)

definition struct_device_driver :: cty where
  "struct_device_driver = Struct [Fld ''name'' CPtr, Fld ''bus'' CPtr, Fld ''owner'' CPtr,
     Fld ''mod_name'' CPtr, Fld ''suppress_bind_attrs'' td_bool, Fld ''probe_type'' Enum,
     Fld ''of_match_table'' CPtr, Fld ''acpi_match_table'' CPtr, Fld ''probe'' CPtr,
     Fld ''sync_state'' CPtr, Fld ''remove'' CPtr, Fld ''shutdown'' CPtr, Fld ''suspend'' CPtr,
     Fld ''resume'' CPtr, Fld ''groups'' CPtr, Fld ''dev_groups'' CPtr, Fld ''pm'' CPtr,
     Fld ''coredump'' CPtr, Fld ''p'' CPtr]"

lemma layout_struct_device_driver [layout]:
  "sizeof struct_device_driver = 144" "alignof struct_device_driver = 8" "wf_cty struct_device_driver" "is_struct struct_device_driver"
  by (simp_all add: struct_device_driver_def layout)

definition struct_class :: cty where
  "struct_class = Struct [Fld ''name'' CPtr, Fld ''class_groups'' CPtr, Fld ''dev_groups'' CPtr,
     Fld ''dev_uevent'' CPtr, Fld ''devnode'' CPtr, Fld ''class_release'' CPtr,
     Fld ''dev_release'' CPtr, Fld ''shutdown_pre'' CPtr, Fld ''ns_type'' CPtr,
     Fld ''namespace'' CPtr, Fld ''get_ownership'' CPtr, Fld ''pm'' CPtr]"

lemma layout_struct_class [layout]:
  "sizeof struct_class = 96" "alignof struct_class = 8" "wf_cty struct_class" "is_struct struct_class"
  by (simp_all add: struct_class_def layout)

definition enum_module_state :: "(string \<times> int) list" where
  "enum_module_state = [(''MODULE_STATE_LIVE'', 0), (''MODULE_STATE_COMING'', 1),
     (''MODULE_STATE_GOING'', 2), (''MODULE_STATE_UNFORMED'', 3)]"

definition enum_pid_type :: "(string \<times> int) list" where
  "enum_pid_type = [(''PIDTYPE_PID'', 0), (''PIDTYPE_TGID'', 1), (''PIDTYPE_PGID'', 2),
     (''PIDTYPE_SID'', 3), (''PIDTYPE_MAX'', 4)]"

definition enum_probe_type :: "(string \<times> int) list" where
  "enum_probe_type = [(''PROBE_DEFAULT_STRATEGY'', 0), (''PROBE_PREFER_ASYNCHRONOUS'', 1),
     (''PROBE_FORCE_SYNCHRONOUS'', 2)]"

end
