(* ===== verification/ProbeLayout.thy ===== *)
theory ProbeLayout
  imports DnsProbe HeaderLayout Vm_Probe
begin

text \<open>
  What the former probe reads against the declarations of \<open>ebpf/vmlinux.h\<close>, and its own structs.
  The probe is compiled against the headers of the kernel it runs on; the declarations here are those
  of the kernel that the daemon's programs were generated for.
\<close>

section \<open>Evaluation of members\<close>

text \<open>The position of a member once, for the simplifier.\<close>

lemma struct_members_Cons:
  "struct_members p (f # fs) pos =
     (f, field_pos p f pos) # struct_members p fs (fst (field_pos p f pos) + snd (field_pos p f pos))"
  by (simp add: case_prod_beta Let_def)

lemmas member_simps = member_at_def struct_members_Cons

section \<open>Members that are declared\<close>

text \<open>\<open>skp->__sk_common\<close> is at the start of a socket; its ports and addresses have the types in which
  \<open>sock_view\<close> has them. \<open>inet_dport\<close> is \<open>skc_dport\<close> of the socket that an \<open>inet_sock\<close> begins with.\<close>

lemma sock_members:
  "member_at struct_sock ''__sk_common'' = Some (0, 136)"
  "member_at struct_sock_common ''skc_daddr'' = Some (0, 4)"
  "member_at struct_sock_common ''skc_rcv_saddr'' = Some (4, 4)"
  "member_at struct_sock_common ''skc_dport'' = Some (12, 2)"
  "member_at struct_sock_common ''skc_num'' = Some (14, 2)"
  "member_at struct_sock_common ''skc_v6_daddr'' = Some (56, 16)"
  "member_at struct_sock_common ''skc_v6_rcv_saddr'' = Some (72, 16)"
  "member_at struct_inet_sock ''sk'' = Some (0, 776)"
  by (simp_all add: member_simps struct_sock_def struct_sock_common_def struct_inet_sock_def layout del: struct_members.simps(2))

lemma packet_members:
  "map_option snd (member_at struct_sk_buff ''head'') = Some 8"
  "map_option snd (member_at struct_sk_buff ''data'') = Some 8"
  "map_option snd (member_at struct_sk_buff ''transport_header'') = Some 2"
  "member_at struct_udphdr ''source'' = Some (0, 2)"
  by (simp_all add: member_simps struct_sk_buff_def struct_udphdr_def layout del: struct_members.simps(2))

lemma message_members:
  "map_option snd (member_at struct_msghdr ''msg_iter'') = Some (sizeof struct_iov_iter)"
  "member_at struct_iov_iter ''iter_type'' = Some (0, 1)"
  "member_at struct_iovec ''iov_base'' = Some (0, 8)" "member_at struct_iovec ''iov_len'' = Some (8, 8)"
  "map_of enum_iter_type ''ITER_IOVEC'' = Some (int ITER_IOVEC)"
  by (simp_all add: member_simps struct_msghdr_def struct_iov_iter_def struct_iovec_def enum_iter_type_def ITER_IOVEC_def layout del: struct_members.simps(2))

section \<open>A member that is not\<close>

text \<open>\<open>trace_udp_ret_recvmsg\<close> reads \<open>msg_iter.iov\<close>. The iterator of this kernel has no such member: it is
  called \<open>__iov\<close> now, and shares its place with the buffer of the kind \<open>ITER_UBUF\<close>, which the program
  leaves out. So the probe does not compile on this kernel.\<close>

lemma iov_not_declared:
  "member_at struct_iov_iter ''iov'' = None" "map_option snd (member_at struct_iov_iter ''__iov'') = Some 8"
  "member_at struct_iov_iter ''__iov'' = member_at struct_iov_iter ''ubuf''"
  "map_of enum_iter_type ''ITER_UBUF'' \<noteq> Some (int ITER_IOVEC)"
  by (simp_all add: member_simps struct_iov_iter_def enum_iter_type_def ITER_IOVEC_def layout del: struct_members.simps(2))

section \<open>The probe's structs\<close>

definition struct_ipv4_data_t :: cty where
  "struct_ipv4_data_t = Struct [Fld ''ts_us'' td_u64, Fld ''pid'' td_u32, Fld ''uid'' td_u32, Fld ''saddr'' td_u32,
     Fld ''daddr'' td_u32, Fld ''ip'' td_u64, Fld ''lport'' td_u16, Fld ''dport'' td_u16, Fld ''task'' (CArr C_char 16)]"

definition struct_ipv6_data_t :: cty where
  "struct_ipv6_data_t = Struct [Fld ''ts_us'' td_u64, Fld ''pid'' td_u32, Fld ''uid'' td_u32, Fld ''saddr'' C_uint128,
     Fld ''daddr'' C_uint128, Fld ''ip'' td_u64, Fld ''lport'' td_u16, Fld ''dport'' td_u16, Fld ''task'' (CArr C_char 16)]"

definition struct_ipv4_flow_key_t :: cty where
  "struct_ipv4_flow_key_t = Struct [Fld ''saddr'' td_u32, Fld ''daddr'' td_u32, Fld ''dport'' td_u16]"

definition struct_ipv6_flow_key_t :: cty where
  "struct_ipv6_flow_key_t = Struct [Fld ''saddr'' C_uint128, Fld ''daddr'' C_uint128, Fld ''dport'' td_u16]"

definition struct_dns_data_t :: cty where
  "struct_dns_data_t = Struct [Fld ''pkt'' (CArr td_u8 512)]"

lemma probe_structs:
  "sizeof struct_ipv4_data_t = 56" "sizeof struct_ipv6_data_t = 80"
  "sizeof struct_ipv4_flow_key_t = 12" "sizeof struct_ipv6_flow_key_t = 48" "sizeof struct_dns_data_t = MAX_PKT"
  by code_simp+

lemma probe_structs_sound:
  "list_all layout_sound [struct_ipv4_data_t, struct_ipv6_data_t, struct_ipv4_flow_key_t, struct_ipv6_flow_key_t, struct_dns_data_t]"
  by (auto intro!: wf_layout_sound simp: struct_ipv4_data_t_def struct_ipv6_data_t_def struct_ipv4_flow_key_t_def
      struct_ipv6_flow_key_t_def struct_dns_data_t_def layout)

section \<open>All structs\<close>

text \<open>The structs of the theories \<open>Vm_Task\<close>, \<open>Vm_Inet\<close> and \<open>Vm_Probe\<close>, and that their layouts are sound.\<close>

definition further_structs :: "cty list" where
  "further_structs = [
    struct_iovec, struct_iov_iter, struct_msghdr, struct_user_msghdr, struct_pt_regs,
    struct_cred, struct_nsproxy, struct_sigpending, struct_cpu_itimer,
    struct_task_cputime_atomic, struct_thread_group_cputimer, struct_rb_root_cached,
    struct_timerqueue_head, struct_posix_cputimer_base, struct_posix_cputimers,
    struct_seqcount, struct_seqcount_spinlock, struct_prev_cputime, struct_task_io_accounting,
    struct_rlimit, struct_pacct_struct, struct_signal_struct, struct_sigaction,
    struct_k_sigaction, struct_sighand_struct, struct_fdtable, struct_files_struct,
    struct_path, struct_fs_struct, struct_maple_tree, struct_uprobes_state, struct_mm_struct,
    struct_vm_userfaultfd_ctx, struct_vm_area_struct, struct_thread_info, struct_load_weight,
    struct_util_est, struct_sched_avg, struct_sched_entity, struct_sched_rt_entity,
    struct_sched_dl_entity, struct_uclamp_se, struct_sched_statistics, struct_cpumask,
    struct_sched_info, struct_plist_node, struct_restart_block, struct_posix_cputimers_work,
    struct_sysv_sem, struct_sysv_shm, struct_seccomp, struct_syscall_user_dispatch,
    struct_wake_q_node, struct_tlbflush_unmap_batch, struct_kmap_ctrl, struct_llist_head,
    struct_da_monitor, struct_cpu_context, struct_user_fpsimd_state, struct_debug_info,
    struct_ptrauth_key, struct_ptrauth_keys_user, struct_ptrauth_keys_kernel,
    struct_thread_struct, struct_task_struct, struct_upid, struct_pid, struct_xarray,
    struct_idr, struct_ns_common, struct_pid_namespace, struct_uid_gid_extent,
    struct_uid_gid_map, struct_ctl_table_header, struct_ctl_dir, struct_ctl_table_set,
    struct_user_namespace, struct_css_set, struct_percpu_ref, struct_rcu_work,
    struct_cgroup_subsys_state, struct_cgroup_file, struct_task_cputime,
    struct_cgroup_base_stat, struct_cgroup_bpf, struct_cgroup_freezer_state, struct_cgroup,
    struct_raw_notifier_head, struct_netns_core, struct_netns_mib, struct_netns_packet,
    struct_unix_table, struct_netns_unix, struct_blocking_notifier_head, struct_netns_nexthop,
    struct_inet_timewait_death_row, struct_local_ports, struct_ping_group_range,
    struct_netns_ipv4, struct_dst_ops, struct_netns_sysctl_ipv6, struct_delayed_work,
    struct_netns_ipv6, struct_netns_sysctl_lowpan, struct_netns_ieee802154_lowpan,
    struct_netns_sctp, struct_netns_nf, struct_nf_generic_net, struct_nf_tcp_net,
    struct_nf_udp_net, struct_nf_icmp_net, struct_nf_dccp_net, struct_nf_sctp_net,
    struct_nf_gre_net, struct_nf_ip_net, struct_netns_ct, struct_netns_nftables,
    struct_netns_ft, struct_netns_bpf, struct_xfrm_policy_hash, struct_xfrm_policy_hthresh,
    struct_netns_xfrm, struct_netns_mpls, struct_netns_can, struct_netns_xdp,
    struct_netns_mctp, struct_netns_smc, struct_net, struct_hh_cache, struct_neighbour,
    struct_fib_nh_common, struct_fib_nh, struct_fib_info, struct_rtable, struct_request_sock,
    struct_fastopen_queue, struct_request_sock_queue, struct_inet_connection_sock,
    struct_inet_request_sock, struct_tcp_request_sock, struct_tcp_rack, struct_minmax_sample,
    struct_minmax, struct_tcp_options_received, struct_tcp_sack_block, struct_tcp_sock,
    struct_udp_sock, struct_sk_filter, struct_gro_list, struct_napi_struct,
    struct_xdp_mem_info, struct_xdp_rxq_info, struct_xdp_frame, struct_xdp_buff,
    struct_page_pool_params, struct_page_pool_alloc_stats, struct_pp_alloc_cache,
    struct_ptr_ring, struct_page_pool, struct_nf_conntrack, struct_nf_conntrack_zone,
    struct_nf_conntrack_man, struct_nf_conntrack_tuple, struct_nf_conntrack_tuple_hash,
    struct_nf_ct_dccp, struct_ip_ct_sctp, struct_ip_ct_tcp_state, struct_ip_ct_tcp,
    struct_nf_ct_udp, struct_nf_ct_gre, struct_nf_conn, struct_ethtool_ops,
    struct_arch_probe_insn, struct_arch_specific_insn, struct_kprobe, struct_freelist_head,
    struct_kretprobe, struct_trace_event, struct_trace_event_call, struct_bpf_link,
    struct_btf_func_model, struct_bpf_trampoline, struct_btf_header, struct_btf,
    struct_bpf_local_storage, struct_module_kobject, struct_mod_tree_node,
    struct_module_memory, struct_mod_plt_sec, struct_mod_arch_specific, struct_mod_kallsyms,
    struct__ddebug_info, struct_module, struct_fown_struct, struct_file_ra_state, struct_file,
    struct_timespec64, struct_address_space, struct_inode, struct_hlist_bl_node, struct_qstr,
    struct_lockref, struct_dentry, struct_hlist_bl_head, struct_mem_dqinfo, struct_quota_info,
    struct_rcu_sync, struct_percpu_rw_semaphore, struct_sb_writers, struct_shrinker,
    struct_list_lru, struct_super_block, struct_bus_type, struct_device_driver, struct_class]"

theorem further_structs_sound: "list_all layout_sound further_structs"
proof -
  have "list_all (\<lambda>t. is_struct t \<and> wf_cty t) further_structs"
    unfolding further_structs_def by (simp add: layout)
  then show ?thesis by (auto simp: list_all_iff intro: wf_layout_sound)
qed

end
