(* ===== verification/Spec2Isabelle.thy ===== *)
theory Spec2Isabelle
  imports TrafficMon DnsSniff HeaderLayout MapDecls PolicyLevels IpPolicies Qdisc Bandwidth System MainProgram DnsReaders Collecting Pages Loaders ProbeLayout
begin

text \<open>
  This development verifies nethadone, a router daemon that slows down the devices of a home
  network when they overuse chosen web sites. It follows the data through the program:

  \<^item> the tc program \<open>traffic_mon\<close> (\<open>ebpf/trafficmon.bpf.c\<close>) counts bytes per pair of addresses in a
    BPF hash map: theory \<open>TrafficMon\<close>;
  \<^item> the tc program \<open>udp_dns_sniff\<close> (\<open>ebpf/dnspkt.bpf.c\<close>) copies DNS packets into events: theory
    \<open>DnsSniff\<close>; \<open>pollDnsResponses\<close> (\<open>handlers/bpf.go\<close>) stores their A records in SQLite, and
    \<open>database/dns.go\<close> queries them: theory \<open>DnsCache\<close>;
  \<^item> \<open>getBandwidthList\<close> (\<open>handlers/handlers.go\<close>) and \<open>pollMetrics\<close> (\<open>handlers/prom.go\<close>) turn the map
    into Prometheus counters with a domain and a glob group: theory \<open>Bandwidth\<close>, with Go's
    \<open>filepath.Match\<close> in \<open>GoMatch\<close>;
  \<^item> the policy loop (\<open>policy/simpleloadavg.go\<close>, \<open>database/prom.go\<close>) queries Prometheus and raises or
    lowers the class of pairs of a client and a glob group: theory \<open>Policy\<close>, its properties in
    \<open>PolicyLevels\<close>; the tables it works on are in \<open>Store\<close>
    (\<open>database/database.go\<close>, \<open>models/models.go\<close>);
  \<^item> \<open>applyPolicies\<close> and \<open>GetIpPolicies\<close> turn the policies into address pairs, and the template
    \<open>handlers/throttle.bpf.c.tpl\<close> into a tc program that assigns packets to classes: theories
    \<open>IpPolicies\<close> and \<open>Throttle\<close>;
  \<^item> \<open>handlers/qdisc.go\<close> creates the queueing disciplines these classes name: theory \<open>Qdisc\<close>, with
    \<open>float64\<close> in \<open>GoFloat\<close>;
  \<^item> \<open>handlers/bpf.go\<close> loads the programs, attaches them and replaces the throttler when the policies
    change: theory \<open>Attach\<close> on the kernel interface of \<open>TcKernel\<close>, its properties in \<open>AttachProps\<close>;
  \<^item> \<open>Connect\<close> (\<open>database/database.go\<close>) declares the tables: theory \<open>Schema\<close>, with the rows as columns
    and as struct fields;
  \<^item> the web pages: the handlers (\<open>handlers/handlers.go\<close>) are in \<open>Web\<close>, the templates of \<open>views/\<close> in
    \<open>Pages\<close>, with the template engine and its escaping in \<open>Html\<close>;
  \<^item> the loaders made by bpf2go (\<open>handlers/*_bpfel.go\<close>, \<open>handlers/*_bpfeb.go\<close>): theory \<open>Loaders\<close>;
  \<^item> the former probe \<open>ebpf/dnsprobe.py\<close>, which the sniffer has replaced: theory \<open>DnsProbe\<close>, with the
    kernel's types it reads in \<open>ProbeLayout\<close>;
  \<^item> \<open>config/config.go\<close> and the flags of \<open>main\<close>: theory \<open>NetConfig\<close>; the rest of \<open>main\<close>
    (\<open>cmd/nethadone.go\<close>): theory \<open>MainProgram\<close>.

  The theory \<open>Daemon\<close> puts these together: the tables and the attached programs under DNS events,
  new glob groups, ticks of the policy loop, starts and ends of the process, in any order;
  \<open>EndToEnd\<close> follows one tick from the answer of Prometheus to the class of a packet. \<open>Usage\<close> has the
  traffic: packets, collections and scrapes, with Prometheus as the contract \<open>prometheus\<close>; \<open>Activity\<close>
  says which clients are then found active. \<open>System\<close> joins both into one state and one sequence of
  events, from the packets on the wire to the class of a packet. \<open>Interleaving\<close> takes a tick of the
  policy loop apart into its statements, each a transaction of SQLite, among those of any number of
  other goroutines; \<open>DnsReaders\<close> does so for the goroutines that store DNS answers, and
  \<open>Collecting\<close> for the collector's reads of the monitor's map among packets.

  Below these: \<open>Prelude\<close> (byte order, checked loads), \<open>BpfMaps\<close> (the contracts of BPF hash and array
  maps as locales, counters over them, and reference maps that satisfy the contracts), \<open>Packet\<close>
  (what the tc programs see of a packet), \<open>GoText\<close> (decimal numbers, C literals, dotted addresses).
  \<open>CLayout\<close> computes the layout of C types; the theories \<open>Vm_Headers\<close>, \<open>Vm_BpfUapi\<close>, \<open>Vm_Kernel\<close>,
  \<open>Vm_BpfKernel\<close>, \<open>Vm_Skb\<close>, \<open>Vm_NetDev\<close>, \<open>Vm_Perf\<close>, \<open>Vm_Task\<close>, \<open>Vm_Inet\<close> and \<open>Vm_Probe\<close> translate the
  declarations of \<open>ebpf/vmlinux.h\<close> that surround the programs' types, and \<open>HeaderLayout\<close> checks the offsets of \<open>Packet\<close> against them;
  \<open>MapDecls\<close> has the declarations of the BPF maps.

  How the state corresponds. A BPF map is any implementation of the contract of its locale; packets
  are the fields of \<open>__sk_buff\<close> the programs use and the bytes from \<open>data\<close> to \<open>data_end\<close>; a program
  that loaded out of these bounds would be \<open>None\<close>. A database table is the list of its rows, an
  operation its SQL statement; whether SQLite executes a statement is an argument of every
  operation, so every error path is a branch. The policy table as a map is the contract
  \<open>policy_store\<close>, which the loops rely on. A tick of the policy loop is a relation, since Go
  enumerates sets in any order; \<open>check_policy\<close> is the tick for given enumerations, and one theorem
  says that they do not matter. Netlink requests are values, in the order the code sends them. The
  kernel is any implementation of the contract \<open>tc_kernel\<close>, whose operations are a record of
  functions, and \<open>BpfContext\<close> is the record of the code with the kernel, the polling goroutines and
  the temporary files beside it; \<open>log.Fatal\<close> gives an outcome \<open>Fatal\<close> with the state it leaves. An event
  of \<open>Daemon\<close> and \<open>System\<close> is atomic; what other goroutines do to the tables in the middle of a tick is
  the subject of \<open>Interleaving\<close>.

  What the properties show. The monitor counts exactly what the packets announce, for the first
  25000 pairs, and the exported metric is that number, or lies between the numbers at the beginning
  and the end of a collection during which packets arrive; the addresses of A records are found again
  for five days; the policy loop implements a machine of levels, keeps its classes in range, takes
  as many ticks as there are levels to reach either end; the program made from the policies gives
  a packet 16 times the level of the last policy that governs its addresses, which with at most
  eight classes is a class that the queueing setup has created. A start attaches every program once
  where it belongs, applying policies replaces the throttler and nothing else, and as long as the
  kernel refuses no deletion, in every state the daemon can reach the attached throttler is the one
  made of the present policy table, or the one of the start. So a client that receives more than the
  threshold allows has its packets in the next stronger class after the next tick that works, and
  one that receives nothing is not raised, and is relieved again once no active client can be raised,
  however often the process starts anew. A tick whose statements alternate with those of other
  goroutines leaves the policies that it would leave alone, and has a program compiled that obeys
  every policy governing an address at its start and none that governs it at no time; answers stored by several readers at once are all found.
  The pages show the tables' rows, and no text of a row becomes markup. Other theorems prove where the code does not do what its comments say: races
  of the monitor, bytes behind the packet in events, DNS packets behind IPv4 options that are not seen, the backoff
  interval without effect, big-endian machines, more than eight classes, missing groups, policies
  forgotten by a restart, a throttler that is lost when its successor cannot be loaded or stays when
  its deletion is refused, bytes that move with the name of an address, entries the former probe leaves behind.

  Bounds. Machine words have their widths. Go's \<open>int\<close> in classes and configuration is \<open>int\<close>: by
  the invariant a class is at most ten times one more than the number of classes, far below the
  range of the type. \<open>float64\<close> rounds every operation to 53 bits, ties to even; exponents do not
  leave their range since all operands come from integers; both ways of rounding a product and a
  sum are covered. No definition uses fuel: every recursion is structural or has a measure, except the endless loop that polls DNS events, a partial function whose end is
  characterised by a theorem.

  Not modelled: the libraries (SQLite and its \<open>GLOB\<close>, Prometheus, the DNS decoder, the YAML
  decoder, netlink, the BPF loader, clang beyond the literals of the template, the web framework),
  which are arguments or contracts where their answers matter; log messages; the bytes of the embedded
  objects; the command line and the screen of the former probe; the declarations of \<open>ebpf/vmlinux.h\<close>
  that neither the programs nor the probe come near; tests and scripts.

  The rates of Prometheus are rational numbers; its rounding is left out, as is that of the text
  of the metrics page. A start empties the monitor's map and the counters, and Prometheus keeps what
  it has scraped: its contract takes a counter that falls for one that was reset.
\<close>

section \<open>Classes that exist\<close>

text \<open>C13: After the setup of the queueing disciplines with at most eight classes, a packet that the
  throttler made from the policies reclassifies gets the handle of a class that was created.\<close>

theorem assigned_class_exists:
  assumes "rates_ok cfg" and "NumQdiscClasses cfg \<le> 8" and "ifidx (LanInterface cfg) = Some lan"
    and "ifidx (WanInterface cfg) = Some wan" and "lan \<noteq> wan" and "\<forall>sent req. ok sent req"
    and "table_ok cfg t" and "addresses_ok t" and "dns_ok dns"
    and "\<forall>p \<in> set t. GlobGroup p \<in> Name ` set globs"
    and "length env = length t" and "\<forall>a \<in> set env. a = (True, True, now)"
    and "is_ipv4_frame LittleEndian skb"
  shows "\<exists>reqs rules skb' m'. createQdiscs fused ok ifidx cfg = Some (reqs, True) \<and>
    applyPolicies True glob globs dns env t = Inr rules \<and>
    throttle LittleEndian lookup update rules skb m = Some (TC_ACT_OK, skb', m') \<and>
    (skb_tc_classid skb' = skb_tc_classid skb \<or>
     (lan, MakeHandle 1 (ucast (skb_tc_classid skb'))) \<in> created_all reqs)"
proof -
  let ?ps = "rev (filter (governs glob now globs dns (dst_bytes skb) (src_bytes skb)) t)"
  have "NumQdiscClasses cfg < 4095" using assms(2) by simp
  from createQdiscs_setup [where fused = fused, OF assms(1) this assms(3-6)] obtain reqs where reqs:
    "createQdiscs fused ok ifidx cfg = Some (reqs, True)"
    "{c. (lan, MakeHandle 1 c) \<in> created_all reqs} =
      {0, 1} \<union> (\<lambda>l. word_of_int (16 * l)) ` {1..NumQdiscClasses cfg + 1}"
    by blast
  from applied_policies_reach_packets [where glob = glob and lookup = lookup and update = update and m = m,
      OF assms(7,2,8-13)] obtain rules m' where rules:
    "applyPolicies True glob globs dns env t = Inr rules"
    "throttle LittleEndian lookup update rules skb m = Some (TC_ACT_OK, skb\<lparr>skb_tc_classid :=
       (case ?ps of [] \<Rightarrow> skb_tc_classid skb | p # _ \<Rightarrow> word_of_int (16 * level t (policy_key p)))\<rparr>, m')"
    by (elim exE conjE) (rule that)
  let ?c = "case ?ps of [] \<Rightarrow> skb_tc_classid skb | p # _ \<Rightarrow> word_of_int (16 * level t (policy_key p))"
  have exists: "(lan, MakeHandle 1 (ucast (word_of_int (16 * level t (policy_key p)) :: u32))) \<in> created_all reqs"
    if "?ps = p # ps" for p ps
  proof -
    have "p \<in> set t" using that by (metis filter_is_subset list.set_intros(1) set_rev subsetD)
    then have "policy_map t (policy_key p) = Some p" "class_ok cfg (Class p)"
      using assms(7) table_map_mem [OF table_ok_keys [OF assms(7)]] by (auto simp: table_ok_def)
    then have "level t (policy_key p) \<in> {1..NumQdiscClasses cfg + 1}"
      using class_ok_level [of cfg "Class p"] assms(1) by (simp add: level_def row_level_def rates_ok_def)
    then have "word_of_int (16 * level t (policy_key p)) \<in> {c :: u16. (lan, MakeHandle 1 c) \<in> created_all reqs}"
      unfolding reqs(2) by (intro UnI2 imageI)
    moreover have "ucast (word_of_int (16 * level t (policy_key p)) :: u32) =
        (word_of_int (16 * level t (policy_key p)) :: u16)"
      by (rule ucast_down_wi) (simp add: is_down)
    ultimately show ?thesis by simp
  qed
  have "?c = skb_tc_classid skb \<or> (lan, MakeHandle 1 (ucast ?c)) \<in> created_all reqs"
  proof (cases ?ps)
    case (Cons p ps)
    with exists [OF Cons] show ?thesis by (simp only: list.case simp_thms)
  qed (simp only: list.case simp_thms)
  moreover have "skb_tc_classid (skb\<lparr>skb_tc_classid := c\<rparr>) = c" for c by simp
  ultimately have "skb_tc_classid (skb\<lparr>skb_tc_classid := ?c\<rparr>) = skb_tc_classid skb \<or>
      (lan, MakeHandle 1 (ucast (skb_tc_classid (skb\<lparr>skb_tc_classid := ?c\<rparr>)))) \<in> created_all reqs"
    by (simp only:)
  with reqs(1) rules show ?thesis by (intro exI conjI) assumption+
qed

theorem assigned_class_exists_witness:
  "\<exists>reqs rules skb' m'.
     createQdiscs False (\<lambda>_ _. True) [''lan0'' \<mapsto> 2, ''eth0'' \<mapsto> 3] demo_cfg = Some (reqs, True) \<and>
     applyPolicies True (=) [demo_group] [] [(True, True, 1000)] (demo_table 20) = Inr rules \<and>
     throttle LittleEndian array_lookup array_update rules demo_skb [0, 0, 0] = Some (TC_ACT_OK, skb', m') \<and>
     (skb_tc_classid skb' = skb_tc_classid demo_skb \<or>
      (2, MakeHandle 1 (ucast (skb_tc_classid skb'))) \<in> created_all reqs)"
proof (rule assigned_class_exists [where lan = 2 and wan = 3 and now = 1000])
  show "rates_ok demo_cfg" by (simp add: rates_ok_def demo_cfg_def baseConfig_def)
  show "table_ok demo_cfg (demo_table 20)" by code_simp
  have "ip_string [192, 168, 0, 14] = ''192.168.0.14''" by code_simp
  then show "addresses_ok (demo_table 20)"
    by (auto simp: addresses_ok_def demo_table_def policy_row_def demo_pair_def
        intro!: exI [of _ "[192, 168, 0, 14]"] simp del: ip_string.simps)
  show "dns_ok []" by (simp add: dns_ok_def keys_ok_def)
  show "is_ipv4_frame LittleEndian demo_skb" by (rule demo_skb_rules)
qed (simp_all add: demo_cfg_def baseConfig_def demo_table_def policy_row_def demo_pair_def demo_group_def)

section \<open>More than eight classes\<close>

lemma digits_hundreds:
  "redigit 16 (nat (10 * 10)) = 256" "redigit 16 (nat (10 * 11)) = 272" "redigit 16 (nat (10 * 12)) = 288"
  "redigit 16 (nat (10 * 13)) = 304" "redigit 16 (nat (10 * 14)) = 320" "redigit 16 (nat (10 * 15)) = 336"
  by code_simp+

lemma small_handle: "0 \<le> x \<Longrightarrow> x < 65536 \<Longrightarrow> uint (word_of_int x :: u16) = x"
  by (simp add: unsigned_of_int take_bit_int_eq_self)

lemma notin_handles: "x \<notin> A \<Longrightarrow> (\<And>m. m \<in> S \<Longrightarrow> x \<noteq> f m) \<Longrightarrow> x \<notin> A \<union> f ` S"
  by blast

text \<open>C36: With nine to fourteen classes, a pair that is active at ten or more ticks in a row, from an empty
  table and while the database works, gets class 100 or a higher one. The text of its rule, a class
  with three digits after 0x, is compiled to a handle that no created class has, while the leaf
  class of its level exists, whose handle is 16 times the level.\<close>

theorem class_hundred_missing:
  assumes "rates_ok cfg" and "9 \<le> NumQdiscClasses cfg" and "NumQdiscClasses cfg \<le> 14"
    and "ifidx (LanInterface cfg) = Some lan" and "ifidx (WanInterface cfg) = Some wan"
    and "lan \<noteq> wan" and "\<forall>sent req. ok sent req" and "length client = 4" and "length remote = 4"
    and "healthy_run cfg vs []" and "10 \<le> length vs" and "k = (ip_string client, grp)"
    and "\<forall>(incs, decs) \<in> set vs. k \<in> fst ` set incs \<and> k \<notin> fst ` set decs"
  shows "\<exists>p l reqs r. policy_map (run_ticks cfg vs []) k = Some p \<and> SrcIp p = ip_string client \<and>
    Class p = 10 * l \<and> l = min (NumQdiscClasses cfg + 1) (int (length vs)) \<and> 10 \<le> l \<and>
    createQdiscs fused ok ifidx cfg = Some (reqs, True) \<and>
    compile_rule (policy_text client remote (Class p)) = Some r \<and>
    (lan, MakeHandle 1 (ucast (rule_class r))) \<notin> created_all reqs \<and>
    (lan, MakeHandle 1 (word_of_int (16 * l))) \<in> created_all reqs"
proof -
  let ?t = "run_ticks cfg vs []" and ?l = "min (NumQdiscClasses cfg + 1) (int (length vs))"
  have l: "?l \<in> {10, 11, 12, 13, 14, 15}" using assms(2,3,11) by auto
  have empty: "table_ok cfg []" by (simp add: table_ok_def keys_ok_def)
  have level: "level ?t k = ?l"
    using escalates [OF empty _ assms(10,13)] assms(2) by (simp add: level_def row_level_def)
  then obtain p where p: "policy_map ?t k = Some p" using l by (auto simp: level_def row_level_def split: option.splits)
  have "class_ok cfg (Class p)" by (rule table_ok_class [OF table_ok_run_ticks [OF empty assms(10)] p])
  with class_ok_level(1) [of cfg "Class p"] level p have cls: "Class p = 10 * ?l" by (simp add: level_def row_level_def)
  have src: "SrcIp p = ip_string client" using table_map_key [OF p] assms(12) by (auto simp: policy_key_def)
  have "NumQdiscClasses cfg < 4095" using assms(3) by simp
  from createQdiscs_setup [where fused = fused, OF assms(1) this assms(4-7)] obtain reqs where reqs:
    "createQdiscs fused ok ifidx cfg = Some (reqs, True)"
    "{c. (lan, MakeHandle 1 c) \<in> created_all reqs} =
      {0, 1} \<union> (\<lambda>l. word_of_int (16 * l)) ` {1..NumQdiscClasses cfg + 1}"
    by blast
  have digits: "redigit 16 (nat (10 * ?l)) = nat (16 * (?l + 6))"
    using l by (elim insertE emptyE; simp only: digits_hundreds) simp_all
  let ?r = "\<lparr>rule_saddr = ip_word LittleEndian remote, rule_daddr = Some (ip_word LittleEndian client),
    rule_class = word_of_nat (nat (16 * (?l + 6)))\<rparr>"
  have r: "compile_rule (policy_text client remote (Class p)) = Some ?r"
    unfolding cls digits [symmetric] using l by (intro compile_policy_text [OF assms(8,9)]) auto
  have handle: "ucast (rule_class ?r) = (word_of_int (16 * (?l + 6)) :: u16)"
    using l by (elim insertE emptyE) (simp_all only:, simp_all)
  have other: "word_of_int (16 * (?l + 6)) \<noteq> (word_of_int (16 * m) :: u16)" if "m \<in> {1..NumQdiscClasses cfg + 1}" for m
    using that l assms(3) small_handle [of "16 * m"] small_handle [of "16 * (?l + 6)"] by auto
  have "word_of_int (16 * (?l + 6)) \<notin> {0 :: u16, 1}"
    using l small_handle [of "16 * (?l + 6)"] by auto
  then have "word_of_int (16 * (?l + 6)) \<notin> {c :: u16. (lan, MakeHandle 1 c) \<in> created_all reqs}"
    unfolding reqs(2) by (rule notin_handles) (rule other)
  then have "(lan, MakeHandle 1 (ucast (rule_class ?r))) \<notin> created_all reqs" by (simp only: handle mem_Collect_eq not_False_eq_True)
  moreover have "(word_of_int (16 * ?l) :: u16) \<in> {c. (lan, MakeHandle 1 c) \<in> created_all reqs}"
    unfolding reqs(2) using assms(2,11) by (intro UnI2 imageI) simp
  then have "(lan, MakeHandle 1 (word_of_int (16 * ?l))) \<in> created_all reqs" by blast
  moreover have "10 \<le> ?l" using assms(2,11) by simp
  moreover note \<open>(lan, MakeHandle 1 (ucast (rule_class ?r))) \<notin> created_all reqs\<close>
  ultimately show ?thesis using p src cls reqs(1) r by (intro exI conjI) (assumption | rule refl)+
qed

theorem class_hundred_missing_witness:
  "\<exists>p reqs r. policy_map (run_ticks (baseConfig\<lparr>NumQdiscClasses := 9\<rparr>) (replicate 10 ([(demo_pair, demo_env)], [])) []) demo_pair = Some p \<and>
     Class p = 100 \<and>
     createQdiscs False (\<lambda>_ _. True) [''lan0'' \<mapsto> 2, ''eth0'' \<mapsto> 3] (baseConfig\<lparr>NumQdiscClasses := 9\<rparr>) = Some (reqs, True) \<and>
     compile_rule (policy_text [192, 168, 0, 14] [142, 251, 33, 174] 100) = Some r \<and>
     (2, MakeHandle 1 (ucast (rule_class r))) \<notin> created_all reqs \<and>
     (2, MakeHandle 1 0xA0) \<in> created_all reqs"
proof -
  let ?cfg = "baseConfig\<lparr>NumQdiscClasses := 9\<rparr>" and ?vs = "replicate 10 ([(demo_pair, demo_env)], [])"
  have run: "healthy_run ?cfg ?vs []" by code_simp
  have "ip_string [192, 168, 0, 14] = ''192.168.0.14''" by code_simp
  then have pair: "demo_pair = (ip_string [192, 168, 0, 14], ''video'')" by (simp only: demo_pair_def)
  from class_hundred_missing [where ok = "\<lambda>_ _. True" and ifidx = "[''lan0'' \<mapsto> 2, ''eth0'' \<mapsto> 3]" and fused = False
      and lan = 2 and wan = 3 and client = "[192, 168, 0, 14]" and remote = "[142, 251, 33, 174]",
      OF _ _ _ _ _ _ _ _ _ run _ pair]
  show ?thesis by (auto simp: rates_ok_def baseConfig_def)
qed

end
